(* ===== verification/Gaby_Prelude.thy ===== *)
theory Gaby_Prelude
  imports Main "HOL-Library.Word"
begin

text \<open>
  Shared vocabulary of the development: the machine integer types of the code
  (\<open>uint8_t\<close> ... \<open>uint64_t\<close> as words of that width, the 128-bit vector
  register image), results of operations that may abort, the collections of
  rules the component theories fill, and the lemmas on words, lists and maps
  that more than one component uses.
\<close>

unbundle bit_operations_syntax

type_synonym u8 = "8 word"
type_synonym u16 = "16 word"
type_synonym u32 = "32 word"
type_synonym u64 = "64 word"
type_synonym u128 = "128 word"

named_theorems bit_specs \<open>bit-by-bit descriptions of the word operations of the code\<close>
named_theorems frame_simps \<open>what an operation leaves unchanged\<close>

section \<open>Results that may abort\<close>

text \<open>
  An operation that can abort returns \<open>Inl reason\<close> when it does.
  \<open>and_then\<close> sequences two of them: the second runs only if the first
  did not abort.
\<close>

fun and_then :: "'e + 'a \<Rightarrow> ('a \<Rightarrow> 'e + 'b) \<Rightarrow> 'e + 'b" where
  "and_then (Inl e) f = Inl e"
| "and_then (Inr a) f = f a"

lemma and_then_Inr_iff [simp]:
  "and_then m f = Inr b \<longleftrightarrow> (\<exists>a. m = Inr a \<and> f a = Inr b)"
  by (cases m) auto

lemma and_then_Inl_iff:
  "and_then m f = Inl e \<longleftrightarrow> m = Inl e \<or> (\<exists>a. m = Inr a \<and> f a = Inl e)"
  by (cases m) auto

lemma and_then_assoc:
  "and_then (and_then m f) g = and_then m (\<lambda>a. and_then (f a) g)"
  by (cases m) auto

lemma and_then_unit [simp]: "and_then m Inr = m"
  by (cases m) auto

fun map_result :: "('a \<Rightarrow> 'b) \<Rightarrow> 'e + 'a \<Rightarrow> 'e + 'b" where
  "map_result f (Inl e) = Inl e"
| "map_result f (Inr a) = Inr (f a)"

lemma map_result_Inr_iff [simp]:
  "map_result f m = Inr b \<longleftrightarrow> (\<exists>a. m = Inr a \<and> b = f a)"
  by (cases m) auto

section \<open>Words\<close>

lemma word_eq_bitI:
  fixes a b :: "'a::len word"
  assumes "\<And>n. n < LENGTH('a) \<Longrightarrow> bit a n = bit b n"
  shows "a = b"
  by (rule bit_word_eqI) (use assms in auto)

lemma word_nonzero_iff_bit: "w \<noteq> 0 \<longleftrightarrow> (\<exists>i. bit (w :: 'a::len word) i)"
proof
  assume "w \<noteq> 0"
  then show "\<exists>i. bit w i" by (rule contrapos_np) (rule bit_word_eqI, simp)
qed auto

lemma bit_word_lt: "bit (w :: 'a::len word) n \<Longrightarrow> n < LENGTH('a)"
  by (simp add: bit_imp_le_length)

lemma unat_lt_two_power: "unat (w :: 'a::len word) < 2 ^ LENGTH('a)"
  by (rule unsigned_less)

lemma and_one_eq_of_bool:
  "w AND 1 = (of_bool (bit w 0) :: 'a::len word)"
  by (simp add: and_one_eq bit_0 mod_2_eq_odd)

lemma low_mask_word: "2 ^ n - 1 = (mask n :: 'a::len word)"
  by (simp add: mask_eq_exp_minus_1)

lemma take_bit_word_of_nat_unat:
  "unat (take_bit n w) = unat (w :: 'a::len word) mod 2 ^ n"
  by (metis take_bit_eq_mod unsigned_take_bit_eq)

lemma no_overflow_add_unat:
  fixes a b :: "'a::len word"
  assumes "unat a + unat b < 2 ^ LENGTH('a)"
  shows "unat (a + b) = unat a + unat b"
  using assms by (simp add: unat_word_ariths)

section \<open>Lists\<close>

lemma nth_map_upt_zero [simp]:
  "i < n \<Longrightarrow> map f [0..<n] ! i = f i"
  by simp

lemma find_Some_mem: "List.find P xs = Some x \<Longrightarrow> x \<in> set xs \<and> P x"
  by (auto simp: find_Some_iff)

end
