(* ===== verification/Utils_Vixl.thy ===== *)
theory Utils_Vixl
  imports Gaby_Prelude
begin

text \<open>
  The integer helpers of \<open>src/utils-vixl.h\<close> and the portable bit-counting
  routines of \<open>src/compiler-intrinsics-vixl.cc\<close>.  Every helper is written as
  the code computes it (masks, shifts and loops on \<open>uint64_t\<close>); the lemmas give
  the mathematical meaning: which bit of the result is which bit of the
  argument, and which number a counting routine returns.
\<close>

section \<open>Masks and width checks\<close>

definition GetUintMask :: "nat \<Rightarrow> u64" where
  "GetUintMask bits = (if bits \<ge> 64 then 0 else push_bit bits 1) - 1"

definition GetSignMask :: "nat \<Rightarrow> u64" where
  "GetSignMask bits = push_bit (bits - 1) 1"

text \<open>\<open>IsIntN\<close> on \<open>int64_t\<close> and \<open>IsUintN\<close> on \<open>uint64_t\<close>.\<close>

definition IsIntN :: "nat \<Rightarrow> u64 \<Rightarrow> bool" where
  "IsIntN n x = (if n = 64 then True
     else let limit = push_bit (n - 1) (1 :: u64) in - sint limit \<le> sint x \<and> sint x < sint limit)"

definition IsUintN :: "nat \<Rightarrow> u64 \<Rightarrow> bool" where
  "IsUintN n x = (if n \<ge> 64 then True else drop_bit n x = 0)"

definition TruncateToUintN :: "nat \<Rightarrow> u64 \<Rightarrow> u64" where
  "TruncateToUintN n x = x AND (push_bit n 1 - 1)"

lemma GetUintMask_eq_mask: "GetUintMask n = mask n"
proof (cases "n \<ge> 64")
  case True
  then show ?thesis
    by (intro bit_word_eqI) (simp add: GetUintMask_def bit_mask_iff)
next
  case False
  then show ?thesis by (simp add: GetUintMask_def low_mask_word)
qed

lemma bit_GetUintMask [bit_specs]: "bit (GetUintMask n) i \<longleftrightarrow> i < n \<and> i < 64"
  by (auto simp: GetUintMask_eq_mask bit_mask_iff)

lemma bit_GetSignMask [bit_specs]: "bit (GetSignMask n) i \<longleftrightarrow> i = n - 1 \<and> i < 64"
  by (auto simp: GetSignMask_def bit_push_bit_iff push_bit_of_1 bit_exp_iff)

lemma IsUintN_iff: "IsUintN n x \<longleftrightarrow> unat x < 2 ^ n"
proof (cases "n \<ge> 64")
  case True
  have "unat x < 2 ^ 64" using unat_lt_two_power [of x] by simp
  also have "(2 :: nat) ^ 64 \<le> 2 ^ n" using True by (rule power_increasing) simp
  finally show ?thesis using True by (simp add: IsUintN_def)
next
  case False
  have "drop_bit n x = 0 \<longleftrightarrow> unat (drop_bit n x) = 0" by (simp add: unat_eq_0)
  also have "unat (drop_bit n x) = unat x div 2 ^ n"
    by (simp only: unat_drop_bit_eq) (simp only: drop_bit_eq_div)
  finally show ?thesis using False by (simp add: IsUintN_def div_eq_0_iff)
qed

lemma TruncateToUintN_eq: "TruncateToUintN n x = take_bit n x"
  by (simp add: TruncateToUintN_def low_mask_word take_bit_eq_mask)

section \<open>Bit fields\<close>

definition ExtractUnsignedBitfield64 :: "nat \<Rightarrow> nat \<Rightarrow> u64 \<Rightarrow> u64" where
  "ExtractUnsignedBitfield64 msb lsb x =
     (if msb = 63 \<and> lsb = 0 then x
      else drop_bit lsb x AND (push_bit (1 + msb - lsb) 1 - 1))"

definition ExtractUnsignedBitfield32 :: "nat \<Rightarrow> nat \<Rightarrow> u64 \<Rightarrow> u32" where
  "ExtractUnsignedBitfield32 msb lsb x = ucast (ExtractUnsignedBitfield64 msb lsb x)"

definition ExtractSignedBitfield64 :: "nat \<Rightarrow> nat \<Rightarrow> u64 \<Rightarrow> u64" where
  "ExtractSignedBitfield64 msb lsb x =
     (let temp = ExtractUnsignedBitfield64 msb lsb x in
      if drop_bit (msb - lsb) temp = 1
      then temp OR push_bit (msb - lsb) (NOT 0) else temp)"

definition ExtractSignedBitfield32 :: "nat \<Rightarrow> nat \<Rightarrow> u64 \<Rightarrow> u32" where
  "ExtractSignedBitfield32 msb lsb x = ucast (ExtractSignedBitfield64 msb lsb x)"

lemma ExtractUnsignedBitfield64_eq:
  assumes "lsb \<le> msb" "msb < 64"
  shows "ExtractUnsignedBitfield64 msb lsb x = take_bit (1 + msb - lsb) (drop_bit lsb x)"
proof (cases "msb = 63 \<and> lsb = 0")
  case True
  then show ?thesis
    by (auto simp: ExtractUnsignedBitfield64_def bit_take_bit_iff dest: bit_imp_le_length
        intro!: bit_word_eqI)
next
  case False
  then show ?thesis
    by (auto simp: ExtractUnsignedBitfield64_def low_mask_word take_bit_eq_mask)
qed

lemma bit_ExtractUnsignedBitfield64 [bit_specs]:
  assumes "lsb \<le> msb" "msb < 64"
  shows "bit (ExtractUnsignedBitfield64 msb lsb x) i \<longleftrightarrow> i \<le> msb - lsb \<and> bit x (lsb + i)"
  using assms by (auto simp: ExtractUnsignedBitfield64_eq bit_take_bit_iff bit_drop_bit_eq)

lemma top_of_field:
  assumes "lsb \<le> msb" "msb < 64"
  shows "drop_bit (msb - lsb) (ExtractUnsignedBitfield64 msb lsb x) = of_bool (bit x msb)"
proof -
  from assms(1) obtain d where d: "msb = lsb + d" by (auto simp: le_iff_add)
  have "bit (ExtractUnsignedBitfield64 msb lsb x) (d + n) \<longleftrightarrow> n = 0 \<and> bit x msb" for n
    using assms by (auto simp: bit_ExtractUnsignedBitfield64 d)
  then show ?thesis
    by (intro bit_word_eqI) (auto simp: bit_drop_bit_eq bit_1_iff of_bool_def d)
qed

lemma bit_ExtractSignedBitfield64 [bit_specs]:
  assumes "lsb \<le> msb" "msb < 64" "i < 64"
  shows "bit (ExtractSignedBitfield64 msb lsb x) i \<longleftrightarrow> bit x (min msb (lsb + i))"
proof -
  from assms(1) obtain d where d: "msb = lsb + d" by (auto simp: le_iff_add)
  have top: "drop_bit d (ExtractUnsignedBitfield64 msb lsb x) = 1 \<longleftrightarrow> bit x msb"
    using top_of_field [OF assms(1,2)] by (simp add: d)
  have low: "bit (ExtractUnsignedBitfield64 msb lsb x) i \<longleftrightarrow> i \<le> d \<and> bit x (lsb + i)"
    using assms by (simp add: bit_ExtractUnsignedBitfield64 d)
  have "bit (ExtractSignedBitfield64 msb lsb x) i \<longleftrightarrow>
      i \<le> d \<and> bit x (lsb + i) \<or> bit x msb \<and> d \<le> i"
    using assms low top
    by (auto simp: ExtractSignedBitfield64_def Let_def bit_or_iff bit_not_iff bit_mask_iff d)
  then show ?thesis
    by (auto simp: d min_def)
qed

lemma ExtractSignedBitfield64_eq:
  assumes "lsb \<le> msb" "msb < 64"
  shows "ExtractSignedBitfield64 msb lsb x = signed_take_bit (msb - lsb) (drop_bit lsb x)"
proof (rule word_eq_bitI)
  fix n assume n: "n < LENGTH(64)"
  from assms(1) obtain d where d: "msb = lsb + d" by (auto simp: le_iff_add)
  have "min msb (lsb + n) = lsb + min d n" by (simp add: d)
  with n assms show "bit (ExtractSignedBitfield64 msb lsb x) n
      = bit (signed_take_bit (msb - lsb) (drop_bit lsb x)) n"
    by (simp add: bit_ExtractSignedBitfield64 bit_signed_take_bit_iff bit_drop_bit_eq d min.commute)
qed

section \<open>Rotation and sign extension\<close>

definition RotateRight :: "u64 \<Rightarrow> u32 \<Rightarrow> nat \<Rightarrow> u64" where
  "RotateRight value rot width =
     (let width_mask = drop_bit (64 - width) (NOT (0 :: u64));
          r = unat (rot AND 63);
          v = (if r > 0
               then let w = value AND width_mask
                    in push_bit (width - r) w OR drop_bit r w
               else value)
      in v AND width_mask)"

definition RotateLeft :: "u64 \<Rightarrow> u32 \<Rightarrow> nat \<Rightarrow> u64" where
  "RotateLeft value rot width = RotateRight value (of_nat width - rot) width"

text \<open>\<open>SignExtend<uint64_t>\<close>; a shift of two by 63 is the only one that wraps.\<close>

definition SignExtend64 :: "u64 \<Rightarrow> nat \<Rightarrow> u64" where
  "SignExtend64 val size_in_bits =
     (let m = push_bit (size_in_bits - 1) 2 - 1;
          v = val AND m;
          sign_bits = - push_bit size_in_bits (drop_bit (size_in_bits - 1) v)
      in v OR sign_bits)"

lemma width_mask_eq:
  "n \<le> 64 \<Longrightarrow> drop_bit (64 - n) (NOT (0 :: u64)) = mask n"
  by (rule word_eq_bitI) (auto simp: bit_drop_bit_eq bit_not_iff bit_mask_iff)

text \<open>Bit \<open>i\<close> of a rotation by \<open>r\<close> is bit \<open>i + r\<close> modulo the width.\<close>

lemma bit_RotateRight [bit_specs]:
  assumes "unat rot < width" "width \<le> 64"
  shows "bit (RotateRight value rot width) i
         \<longleftrightarrow> i < width \<and> bit value ((i + unat rot) mod width)"
proof -
  have "unat (rot AND 63) = unat rot"
  proof -
    have "(63 :: u32) = mask 6" by (simp add: mask_eq_exp_minus_1)
    then have "rot AND 63 = take_bit 6 rot" by (simp add: take_bit_eq_mask)
    moreover have "unat rot < 2 ^ 6" using assms by simp
    ultimately show ?thesis by (simp add: unsigned_take_bit_eq take_bit_nat_eq_self)
  qed
  moreover have "(i + unat rot) mod width =
      (if i + unat rot < width then i + unat rot else i + unat rot - width)"
    if "i < width"
    using that assms by (auto simp: mod_if)
  ultimately show ?thesis using assms
    by (cases "i + unat rot < width")
      (auto simp: RotateRight_def Let_def width_mask_eq bit_and_iff bit_or_iff
        bit_push_bit_iff bit_drop_bit_eq bit_mask_iff ac_simps)
qed

lemma SignExtend64_eq:
  assumes "0 < n" "n \<le> 64"
  shows "SignExtend64 v n = signed_take_bit (n - 1) v"
proof -
  have m: "push_bit (n - 1) 2 - 1 = (mask n :: u64)"
    using assms by (cases n) (auto simp: mask_eq_exp_minus_1 push_bit_eq_mult)
  obtain k where k: "n = Suc k" using assms by (cases n) auto
  let ?v = "v AND mask n"
  have shifted: "bit ?v (k + i) \<longleftrightarrow> i = 0 \<and> bit v k" for i
    using assms by (cases i) (auto simp: k bit_and_iff bit_mask_iff)
  have top: "drop_bit k ?v = of_bool (bit v k)"
    unfolding bit_eq_iff [of "drop_bit k ?v"] bit_drop_bit_eq o_apply shifted
    by (simp add: bit_of_bool_iff)
  have "- push_bit n (of_bool b) = (if b then NOT (mask n) else 0 :: u64)" for b
    by (simp add: minus_exp_eq_not_mask)
  then have "SignExtend64 v n = ?v OR (if bit v k then NOT (mask n) else 0)"
    unfolding SignExtend64_def Let_def m using top by (simp add: k)
  also have "\<dots> = signed_take_bit k v"
  proof (rule word_eq_bitI)
    fix i assume i: "i < LENGTH(64)"
    show "bit (?v OR (if bit v k then NOT (mask n) else 0)) i = bit (signed_take_bit k v) i"
      using i by (cases "i \<le> k")
        (simp_all add: k bit_or_iff bit_and_iff bit_not_iff bit_mask_iff bit_signed_take_bit_iff min_def)
  qed
  finally show ?thesis by (simp add: k)
qed

section \<open>Leading and trailing zeros\<close>

text \<open>
  One halving step of the two searches: if the inspected half is clear, count
  it and shift it out.
\<close>

definition clz_step :: "u64 \<Rightarrow> nat \<Rightarrow> nat \<times> u64 \<Rightarrow> nat \<times> u64" where
  "clz_step m k cv = (if snd cv AND m = 0 then (fst cv + k, push_bit k (snd cv)) else cv)"

definition ctz_step :: "u64 \<Rightarrow> nat \<Rightarrow> nat \<times> u64 \<Rightarrow> nat \<times> u64" where
  "ctz_step m k cv = (if snd cv AND m = 0 then (fst cv + k, drop_bit k (snd cv)) else cv)"

definition CountLeadingZerosFallBack :: "u64 \<Rightarrow> nat \<Rightarrow> nat" where
  "CountLeadingZerosFallBack val width =
     (if val = 0 then width
      else
        let cv = (0, push_bit (64 - width) val);
            cv = clz_step 0xffffffff00000000 32 cv;
            cv = clz_step 0xffff000000000000 16 cv;
            cv = clz_step 0xff00000000000000 8 cv;
            cv = clz_step 0xf000000000000000 4 cv;
            cv = clz_step 0xc000000000000000 2 cv;
            count = (if snd cv AND 0x8000000000000000 = 0 then fst cv + 1 else fst cv)
        in count + of_bool (snd cv = 0))"

definition CountTrailingZerosFallBack :: "u64 \<Rightarrow> nat \<Rightarrow> nat" where
  "CountTrailingZerosFallBack val width =
     (let cv = (0, push_bit (64 - width) val);
          cv = ctz_step 0xffffffff 32 cv;
          cv = ctz_step 0xffff 16 cv;
          cv = ctz_step 0xff 8 cv;
          cv = ctz_step 0xf 4 cv;
          cv = ctz_step 0x3 2 cv;
          count = (if snd cv AND 0x1 = 0 then fst cv + 1 else fst cv)
      in count + of_bool (snd cv = 0) - (64 - width))"

definition CountLeadingSignBitsFallBack :: "u64 \<Rightarrow> nat \<Rightarrow> int" where
  "CountLeadingSignBitsFallBack val width =
     (if 0 \<le> sint val then int (CountLeadingZerosFallBack val width) - 1
      else int (CountLeadingZerosFallBack (NOT val) width) - 1)"

definition HighestSetBitPosition :: "u64 \<Rightarrow> nat" where
  "HighestSetBitPosition val = 64 - 1 - CountLeadingZerosFallBack val 64"

definition LowestSetBit :: "u64 \<Rightarrow> u64" where
  "LowestSetBit val = val AND (NOT val + 1)"

text \<open>
  The invariant of the leading-zero search: \<open>c\<close> zeros have been shifted out of
  \<open>x\<close> and a one is left among the top \<open>k\<close> bits.
\<close>

definition clz_inv :: "nat \<Rightarrow> u64 \<Rightarrow> nat \<times> u64 \<Rightarrow> bool" where
  "clz_inv k x cv \<longleftrightarrow> snd cv = push_bit (fst cv) x \<and> (\<forall>i. 64 \<le> i + fst cv \<longrightarrow> \<not> bit x i)
     \<and> (\<exists>i. 64 \<le> i + k \<and> i < 64 \<and> bit (snd cv) i)"

lemma and_top_mask_eq_0_iff:
  assumes "k \<le> 64"
  shows "v AND push_bit (64 - k) (mask k) = 0 \<longleftrightarrow> (\<forall>i. 64 \<le> i + k \<longrightarrow> \<not> bit (v :: u64) i)"
proof
  assume z: "v AND push_bit (64 - k) (mask k) = 0"
  show "\<forall>i. 64 \<le> i + k \<longrightarrow> \<not> bit v i"
  proof (intro allI impI notI)
    fix i assume i: "64 \<le> i + k" "bit v i"
    from i(2) have "i < 64" using bit_imp_le_length by fastforce
    with i assms have "bit (v AND push_bit (64 - k) (mask k)) i"
      by (auto simp: bit_and_iff bit_push_bit_iff bit_mask_iff)
    with z show False by simp
  qed
next
  assume "\<forall>i. 64 \<le> i + k \<longrightarrow> \<not> bit v i"
  with assms show "v AND push_bit (64 - k) (mask k) = 0"
    by (intro bit_word_eqI) (auto simp: bit_and_iff bit_push_bit_iff bit_mask_iff)
qed

lemma clz_step_inv:
  assumes inv: "clz_inv (2 * k) x cv" and m: "m = push_bit (64 - k) (mask k)" and k: "k \<le> 32"
  shows "clz_inv k x (clz_step m k cv)"
proof (cases "snd cv AND m = 0")
  case True
  obtain c v where cv: "cv = (c, v)" by (cases cv)
  from True k have top: "\<not> bit v i" if "64 \<le> i + k" for i
    using that by (auto simp: m cv and_top_mask_eq_0_iff)
  from inv have v: "v = push_bit c x" and z: "\<And>i. 64 \<le> i + c \<Longrightarrow> \<not> bit x i"
    by (auto simp: clz_inv_def cv)
  from inv obtain j where j: "64 \<le> j + 2 * k" "j < 64" "bit v j"
    by (auto simp: clz_inv_def cv)
  have "\<not> bit x i" if "64 \<le> i + (c + k)" for i
  proof (cases "64 \<le> i + c")
    case False
    then have "\<not> bit v (i + c)" using that by (intro top) simp
    with False show ?thesis by (auto simp: v bit_push_bit_iff)
  qed (rule z)
  moreover from j top have "j + k < 64" by (meson not_le)
  with j have "64 \<le> (j + k) + k \<and> j + k < 64 \<and> bit (push_bit k v) (j + k)"
    by (auto simp: bit_push_bit_iff)
  then have "\<exists>i. 64 \<le> i + k \<and> i < 64 \<and> bit (push_bit k v) i" by blast
  ultimately show ?thesis using True
    by (auto simp: clz_inv_def clz_step_def cv v push_bit_push_bit add.commute)
next
  case False
  with k have "\<exists>i. 64 \<le> i + k \<and> bit (snd cv) i" by (auto simp: m and_top_mask_eq_0_iff)
  then have "\<exists>i. 64 \<le> i + k \<and> i < 64 \<and> bit (snd cv) i"
    using bit_imp_le_length by fastforce
  with inv False show ?thesis by (simp add: clz_inv_def clz_step_def)
qed

lemma clz_masks:
  "(0xffffffff00000000 :: u64) = push_bit (64 - 32) (mask 32)"
  "(0xffff000000000000 :: u64) = push_bit (64 - 16) (mask 16)"
  "(0xff00000000000000 :: u64) = push_bit (64 - 8) (mask 8)"
  "(0xf000000000000000 :: u64) = push_bit (64 - 4) (mask 4)"
  "(0xc000000000000000 :: u64) = push_bit (64 - 2) (mask 2)"
  "(0x8000000000000000 :: u64) = push_bit (64 - 1) (mask 1)"
  by (simp_all add: mask_eq_exp_minus_1 push_bit_eq_mult)

lemma CountLeadingZerosFallBack_zero [simp]: "CountLeadingZerosFallBack 0 w = w"
  by (simp add: CountLeadingZerosFallBack_def)

lemma CountLeadingZerosFallBack_spec:
  assumes "x \<noteq> 0" and w: "0 < w" "w \<le> 64" and fits: "\<And>i. w \<le> i \<Longrightarrow> \<not> bit x i"
  defines "c \<equiv> CountLeadingZerosFallBack x w"
  shows "c < w \<and> bit x (w - 1 - c) \<and> (\<forall>i. w - 1 - c < i \<longrightarrow> \<not> bit x i)"
proof -
  define y where "y = push_bit (64 - w) x"
  have bity: "bit y i \<longleftrightarrow> 64 - w \<le> i \<and> i < 64 \<and> bit x (i - (64 - w))" for i
    by (auto simp: y_def bit_push_bit_iff)
  from assms(1) obtain j where j: "bit x j" by (auto simp: bit_eq_iff)
  with fits have "j < w" by (meson not_le)
  with j w have set_y: "bit y (j + (64 - w))" by (auto simp: bity; arith)
  then have i64: "clz_inv (2 * 32) y (0, y)"
    using bit_word_lt [OF set_y] by (auto simp: clz_inv_def dest: bit_imp_le_length)
  define s32 where "s32 = clz_step 0xffffffff00000000 32 (0, y)"
  have i32: "clz_inv 32 y s32"
    unfolding s32_def by (rule clz_step_inv [OF _ clz_masks(1)]) (simp_all add: i64 [simplified])
  define s16 where "s16 = clz_step 0xffff000000000000 16 s32"
  have i16: "clz_inv 16 y s16"
    unfolding s16_def by (rule clz_step_inv [OF _ clz_masks(2)]) (simp_all add: i32 [simplified])
  define s8 where "s8 = clz_step 0xff00000000000000 8 s16"
  have i8: "clz_inv 8 y s8"
    unfolding s8_def by (rule clz_step_inv [OF _ clz_masks(3)]) (simp_all add: i16 [simplified])
  define s4 where "s4 = clz_step 0xf000000000000000 4 s8"
  have i4: "clz_inv 4 y s4"
    unfolding s4_def by (rule clz_step_inv [OF _ clz_masks(4)]) (simp_all add: i8 [simplified])
  define s2 where "s2 = clz_step 0xc000000000000000 2 s4"
  have i2: "clz_inv 2 y s2"
    unfolding s2_def by (rule clz_step_inv [OF _ clz_masks(5)]) (simp_all add: i4 [simplified])
  from i2 obtain n v where nv: "s2 = (n, v)" and v: "v = push_bit n y"
    and z: "\<And>i. 64 \<le> i + n \<Longrightarrow> \<not> bit y i" and ex: "\<exists>i. 62 \<le> i \<and> i < 64 \<and> bit v i"
    by (cases s2) (auto simp: clz_inv_def)
  have bv: "bit v i \<longleftrightarrow> n \<le> i \<and> i < 64 \<and> bit y (i - n)" for i
    unfolding v bit_push_bit_iff by auto
  from ex obtain i where i: "62 \<le> i" "i < 64" "bit v i" by auto
  then have "i = 62 \<or> i = 63" by arith
  with i(3) have top: "bit v 62 \<or> bit v 63" by auto
  then have "v \<noteq> 0" by auto
  have "(0x8000000000000000 :: u64) = 2 ^ 63" by simp
  then have top_clear: "v AND 0x8000000000000000 = 0 \<longleftrightarrow> \<not> bit v 63"
    by (simp only: and_exp_eq_0_iff_not_bit)
  have c0: "c = (if snd s2 AND 0x8000000000000000 = 0 then fst s2 + 1 else fst s2)
      + of_bool (snd s2 = 0)"
    using assms(1)
    unfolding c_def CountLeadingZerosFallBack_def Let_def y_def [symmetric] s32_def [symmetric]
      s16_def [symmetric] s8_def [symmetric] s4_def [symmetric] s2_def [symmetric]
    by (simp only: if_False)
  have c: "c = (if bit v 63 then n else n + 1)"
    unfolding c0 nv fst_conv snd_conv top_clear using \<open>v \<noteq> 0\<close> by simp
  have key: "c \<le> 63 \<and> bit y (63 - c)"
  proof (cases "bit v 63")
    case True
    with bv [of 63] show ?thesis by (simp add: c)
  next
    case False
    with top bv [of 62] show ?thesis by (simp add: c)
  qed
  have above: "\<not> bit y i" if "63 - c < i" for i
  proof (cases "64 \<le> i + n")
    case False
    with that key have "i = 63 - n \<and> n \<le> 63 \<and> \<not> bit v 63" by (auto simp: c split: if_splits)
    then show ?thesis using bv [of 63] by simp
  qed (rule z)
  have "c < w" using key w by (auto simp: bity)
  moreover have "bit x (w - 1 - c)" using key w \<open>c < w\<close> by (auto simp: bity)
  moreover have "\<not> bit x i" if i: "w - 1 - c < i" for i
  proof (cases "i < w")
    case True
    have "63 - c < i + (64 - w)" using i w \<open>c < w\<close> by arith
    from above [OF this] True w show ?thesis by (auto simp: bity)
  qed (use fits in auto)
  ultimately show ?thesis by blast
qed

definition ctz_inv :: "nat \<Rightarrow> u64 \<Rightarrow> nat \<times> u64 \<Rightarrow> bool" where
  "ctz_inv k x cv \<longleftrightarrow> snd cv = drop_bit (fst cv) x \<and> (\<forall>i < fst cv. \<not> bit x i)
     \<and> (\<exists>i < k. bit (snd cv) i)"

lemma and_low_mask_eq_0_iff: "v AND mask k = 0 \<longleftrightarrow> (\<forall>i < k. \<not> bit (v :: u64) i)"
  using bit_word_lt [of v] by (auto simp: bit_eq_iff bit_and_iff bit_mask_iff)

lemma ctz_step_inv:
  assumes inv: "ctz_inv (2 * k) x cv" and m: "m = mask k"
  shows "ctz_inv k x (ctz_step m k cv)"
proof (cases "snd cv AND m = 0")
  case True
  obtain c v where cv: "cv = (c, v)" by (cases cv)
  from True have low: "\<not> bit v i" if "i < k" for i
    using that by (auto simp: m cv and_low_mask_eq_0_iff)
  from inv have v: "v = drop_bit c x" and z: "\<And>i. i < c \<Longrightarrow> \<not> bit x i"
    by (auto simp: ctz_inv_def cv)
  from inv obtain j where j: "j < 2 * k" "bit v j" by (auto simp: ctz_inv_def cv)
  have "\<not> bit x i" if "i < c + k" for i
  proof (cases "i < c")
    case False
    then have "\<not> bit v (i - c)" using that by (intro low) auto
    with False show ?thesis by (auto simp: v bit_drop_bit_eq)
  qed (rule z)
  moreover from j low have "k \<le> j" by (meson not_le)
  with j have "j - k < k \<and> bit (drop_bit k v) (j - k)" by (auto simp: bit_drop_bit_eq)
  then have "\<exists>i < k. bit (drop_bit k v) i" by blast
  ultimately show ?thesis using True
    by (auto simp: ctz_inv_def ctz_step_def cv v drop_bit_drop_bit add.commute)
next
  case False
  then have "\<exists>i < k. bit (snd cv) i" by (auto simp: m and_low_mask_eq_0_iff)
  with inv False show ?thesis by (simp add: ctz_inv_def ctz_step_def)
qed

lemma ctz_masks:
  "(0xffffffff :: u64) = mask 32" "(0xffff :: u64) = mask 16" "(0xff :: u64) = mask 8"
  "(0xf :: u64) = mask 4" "(0x3 :: u64) = mask 2"
  by (simp_all add: mask_eq_exp_minus_1)

lemma ctz_step_zero: "ctz_step m k (c, 0) = (c + k, 0)"
  by (simp add: ctz_step_def)

lemma CountTrailingZerosFallBack_zero:
  "w \<le> 64 \<Longrightarrow> CountTrailingZerosFallBack 0 w = w"
  by (simp add: CountTrailingZerosFallBack_def Let_def ctz_step_zero)

lemma CountTrailingZerosFallBack_spec:
  assumes "x \<noteq> 0" and w: "0 < w" "w \<le> 64" and fits: "\<And>i. w \<le> i \<Longrightarrow> \<not> bit x i"
  defines "c \<equiv> CountTrailingZerosFallBack x w"
  shows "c < w \<and> bit x c \<and> (\<forall>i < c. \<not> bit x i)"
proof -
  define y where "y = push_bit (64 - w) x"
  have bity: "bit y i \<longleftrightarrow> 64 - w \<le> i \<and> i < 64 \<and> bit x (i - (64 - w))" for i
    by (auto simp: y_def bit_push_bit_iff)
  from assms(1) obtain j where j: "bit x j" by (auto simp: bit_eq_iff)
  with fits have "j < w" by (meson not_le)
  with j w have set_y: "bit y (j + (64 - w))" by (auto simp: bity; arith)
  then have i64: "ctz_inv (2 * 32) y (0, y)"
    using bit_word_lt [OF set_y] by (auto simp: ctz_inv_def)
  define s32 where "s32 = ctz_step 0xffffffff 32 (0, y)"
  have i32: "ctz_inv 32 y s32"
    unfolding s32_def by (rule ctz_step_inv [OF _ ctz_masks(1)]) (simp_all add: i64 [simplified])
  define s16 where "s16 = ctz_step 0xffff 16 s32"
  have i16: "ctz_inv 16 y s16"
    unfolding s16_def by (rule ctz_step_inv [OF _ ctz_masks(2)]) (simp_all add: i32 [simplified])
  define s8 where "s8 = ctz_step 0xff 8 s16"
  have i8: "ctz_inv 8 y s8"
    unfolding s8_def by (rule ctz_step_inv [OF _ ctz_masks(3)]) (simp_all add: i16 [simplified])
  define s4 where "s4 = ctz_step 0xf 4 s8"
  have i4: "ctz_inv 4 y s4"
    unfolding s4_def by (rule ctz_step_inv [OF _ ctz_masks(4)]) (simp_all add: i8 [simplified])
  define s2 where "s2 = ctz_step 0x3 2 s4"
  have i2: "ctz_inv 2 y s2"
    unfolding s2_def by (rule ctz_step_inv [OF _ ctz_masks(5)]) (simp_all add: i4 [simplified])
  from i2 obtain n v where nv: "s2 = (n, v)" and v: "v = drop_bit n y"
    and z: "\<And>i. i < n \<Longrightarrow> \<not> bit y i" and ex: "\<exists>i < 2. bit v i"
    by (cases s2) (auto simp: ctz_inv_def)
  from ex have low: "bit v 0 \<or> bit v 1" by (auto simp: less_2_cases_iff)
  then have "v \<noteq> 0" by auto
  define n' where "n' = (if bit v 0 then n else n + 1)"
  have "v AND 1 = 0 \<longleftrightarrow> \<not> bit v 0" by (simp add: and_one_eq_of_bool)
  with \<open>v \<noteq> 0\<close> have c: "c = n' - (64 - w)"
    unfolding c_def CountTrailingZerosFallBack_def Let_def y_def [symmetric] s32_def [symmetric] s16_def [symmetric]
      s8_def [symmetric] s4_def [symmetric] s2_def [symmetric]
    by (simp add: nv n'_def)
  have key: "bit y n'"
    using low by (auto simp: n'_def v bit_drop_bit_eq)
  have below: "\<not> bit y i" if "i < n'" for i
  proof (cases "i < n")
    case False
    with that have "i = n \<and> \<not> bit v 0" by (auto simp: n'_def split: if_splits)
    then show ?thesis by (auto simp: v bit_drop_bit_eq)
  qed (rule z)
  from key have n': "64 - w \<le> n'" "n' < 64" "bit x c" by (auto simp: bity c)
  moreover have "\<not> bit x i" if i: "i < c" for i
  proof -
    have "\<not> bit y (i + (64 - w))" using i by (intro below) (auto simp: c)
    with i n' show ?thesis by (auto simp: bity c)
  qed
  ultimately show ?thesis using w by (auto simp: c)
qed

section \<open>Reversals\<close>

text \<open>\<open>ReverseBits\<close>: the loop that shifts the result left as it shifts the value right.\<close>

primrec reverse_bits_loop :: "nat \<Rightarrow> 'a::len word \<Rightarrow> 'a word \<Rightarrow> 'a word" where
  "reverse_bits_loop 0 result val = result"
| "reverse_bits_loop (Suc n) result val =
     reverse_bits_loop n (push_bit 1 result OR (val AND 1)) (drop_bit 1 val)"

definition ReverseBits :: "'a::len word \<Rightarrow> 'a word" where
  "ReverseBits val = reverse_bits_loop LENGTH('a) 0 val"

lemma bit_reverse_bits_loop:
  "bit (reverse_bits_loop n r v) i \<longleftrightarrow>
     i < LENGTH('a) \<and> (if i < n then bit v (n - 1 - i) else bit (r :: 'a::len word) (i - n))"
proof (induction n arbitrary: r v)
  case 0
  then show ?case by (auto dest: bit_imp_le_length)
next
  case (Suc n)
  have step: "bit (push_bit 1 r OR (v AND 1)) m \<longleftrightarrow>
      m < LENGTH('a) \<and> (if m = 0 then bit v 0 else bit r (m - 1))" for m
    using bit_word_lt [of r m]
    unfolding bit_or_iff and_one_eq_of_bool bit_push_bit_iff bit_of_bool_iff by auto
  consider "i < n" | "i = n" | k where "i = Suc (n + k)"
    by (metis less_imp_Suc_add nat_neq_iff)
  then show ?case
    unfolding reverse_bits_loop.simps Suc.IH bit_drop_bit_eq o_apply step
    by cases (auto simp: Suc_diff_Suc)
qed

lemma bit_ReverseBits [bit_specs]:
  "bit (ReverseBits (v :: 'a::len word)) i \<longleftrightarrow> i < LENGTH('a) \<and> bit v (LENGTH('a) - 1 - i)"
  by (auto simp: ReverseBits_def bit_reverse_bits_loop)

text \<open>
  \<open>ReverseBytes\<close> on \<open>uint64_t\<close>: the bytes are extracted and reassembled, most
  significant first, in the order of the permutation table.
\<close>

definition permute_table :: "nat list list" where
  "permute_table = [[6, 7, 4, 5, 2, 3, 0, 1], [4, 5, 6, 7, 0, 1, 2, 3], [0, 1, 2, 3, 4, 5, 6, 7]]"

definition byte_of :: "u64 \<Rightarrow> nat \<Rightarrow> u8" where
  "byte_of val i = ucast (drop_bit (i * 8) (val AND push_bit (i * 8) 0xff))"

definition ReverseBytes64 :: "u64 \<Rightarrow> nat \<Rightarrow> u64" where
  "ReverseBytes64 val block_bytes_log2 =
     foldl (\<lambda>temp j. push_bit 8 temp OR ucast (byte_of val j)) 0
       (permute_table ! (block_bytes_log2 - 1))"

definition ReverseBytes32 :: "u32 \<Rightarrow> nat \<Rightarrow> u32" where
  "ReverseBytes32 val block_bytes_log2 = ucast (ReverseBytes64 (ucast val) block_bytes_log2)"

lemma bit_byte_of: "bit (byte_of v j) r \<longleftrightarrow> r < 8 \<and> bit v (j * 8 + r)"
proof -
  have m: "(0xff :: u64) = mask 8" by (simp add: mask_eq_exp_minus_1)
  have "bit (0xff :: u64) n \<longleftrightarrow> n < 8" for n
    unfolding m bit_mask_iff by auto
  then show ?thesis
    using bit_word_lt [of v "j * 8 + r"] by (auto simp: byte_of_def bit_simps)
qed

text \<open>Byte \<open>i\<close> of the result is byte \<open>i XOR (2^k - 1)\<close> of the argument.\<close>

lemma bit_ReverseBytes64 [bit_specs]:
  assumes "k \<in> {1, 2, 3}" "i < 64"
  shows "bit (ReverseBytes64 v k) i \<longleftrightarrow> bit v (((i div 8) XOR (2 ^ k - 1)) * 8 + i mod 8)"
proof -
  define j r where "j = i div 8" and "r = i mod 8"
  have i: "i = j * 8 + r" "r < 8" "j < 8" using assms(2) by (auto simp: j_def r_def)
  then have "j \<in> {0, 1, 2, 3, 4, 5, 6, 7}" by auto
  with assms(1) i(2) show ?thesis
    unfolding i(1)
    by (auto simp: ReverseBytes64_def permute_table_def bit_simps bit_byte_of)
qed

section \<open>Population count and absolute value\<close>

definition CountSetBits_masks :: "u64 list" where
  "CountSetBits_masks = [0x5555555555555555, 0x3333333333333333, 0x0f0f0f0f0f0f0f0f,
     0x00ff00ff00ff00ff, 0x0000ffff0000ffff, 0x00000000ffffffff]"

definition CountSetBitsFallBack :: "u64 \<Rightarrow> nat \<Rightarrow> nat" where
  "CountSetBitsFallBack val width =
     unat (fold (\<lambda>i v. let shift = 2 ^ i
                 in (drop_bit shift v AND CountSetBits_masks ! i) + (v AND CountSetBits_masks ! i))
             [0..<6] (val AND drop_bit (64 - width) (NOT 0)))"

text \<open>\<open>Abs\<close> of a signed value; the most negative one is its own absolute value.\<close>

definition AbsSigned :: "'a::len word \<Rightarrow> 'a word" where
  "AbsSigned val = (if - (2 ^ (LENGTH('a) - 1) - 1) \<le> sint val \<and> sint val < 0 then - val else val)"

end
