(* ===== verification/Constants_AArch64.thy ===== *)
theory Constants_AArch64
  imports Gaby_Prelude
begin

text \<open>
  The encodings of \<open>src/aarch64/constants-aarch64.h\<close> that the instruction
  accessors inspect: the fixed bits, field masks and operation codes of the
  instruction classes, under the names they have in the source and in its order.
\<close>

abbreviation BTI :: u32 where "BTI \<equiv> 0x00000020"
abbreviation BTI_c :: u32 where "BTI_c \<equiv> 0x00000022"
abbreviation BTI_j :: u32 where "BTI_j \<equiv> 0x00000024"
abbreviation BTI_jc :: u32 where "BTI_jc \<equiv> 0x00000026"
abbreviation PCRelAddressingFMask :: u32 where "PCRelAddressingFMask \<equiv> 0x1F000000"
abbreviation PCRelAddressingFixed :: u32 where "PCRelAddressingFixed \<equiv> 0x10000000"
abbreviation PCRelAddressingMask :: u32 where "PCRelAddressingMask \<equiv> 0x9F000000"
abbreviation ADRP :: u32 where "ADRP \<equiv> 0x90000000"
abbreviation AddSubSetFlagsBit :: u32 where "AddSubSetFlagsBit \<equiv> 0x20000000"
abbreviation AddSubImmediateFixed :: u32 where "AddSubImmediateFixed \<equiv> 0x11000000"
abbreviation AddSubImmediateFMask :: u32 where "AddSubImmediateFMask \<equiv> 0x1F800000"
abbreviation AddSubExtendedFixed :: u32 where "AddSubExtendedFixed \<equiv> 0x0B200000"
abbreviation AddSubExtendedFMask :: u32 where "AddSubExtendedFMask \<equiv> 0x1F200000"
abbreviation LogicalOpMask :: u32 where "LogicalOpMask \<equiv> 0x60200000"
abbreviation ANDS :: u32 where "ANDS \<equiv> 0x60000000"
abbreviation LogicalImmediateFixed :: u32 where "LogicalImmediateFixed \<equiv> 0x12000000"
abbreviation LogicalImmediateFMask :: u32 where "LogicalImmediateFMask \<equiv> 0x1F800000"
abbreviation LogicalImmediateMask :: u32 where "LogicalImmediateMask \<equiv> 0xFF800000"
abbreviation MoveWideImmediateMask :: u32 where "MoveWideImmediateMask \<equiv> 0xFF800000"
abbreviation MOVN_w :: u32 where "MOVN_w \<equiv> 0x12800000"
abbreviation MOVN_x :: u32 where "MOVN_x \<equiv> 0x92800000"
abbreviation UnconditionalBranchFixed :: u32 where "UnconditionalBranchFixed \<equiv> 0x14000000"
abbreviation UnconditionalBranchFMask :: u32 where "UnconditionalBranchFMask \<equiv> 0x7C000000"
abbreviation CompareBranchFixed :: u32 where "CompareBranchFixed \<equiv> 0x34000000"
abbreviation CompareBranchFMask :: u32 where "CompareBranchFMask \<equiv> 0x7E000000"
abbreviation TestBranchFixed :: u32 where "TestBranchFixed \<equiv> 0x36000000"
abbreviation TestBranchFMask :: u32 where "TestBranchFMask \<equiv> 0x7E000000"
abbreviation ConditionalBranchFixed :: u32 where "ConditionalBranchFixed \<equiv> 0x54000000"
abbreviation ConditionalBranchFMask :: u32 where "ConditionalBranchFMask \<equiv> 0xFE000000"
abbreviation SystemHintFixed :: u32 where "SystemHintFixed \<equiv> 0xD503201F"
abbreviation SystemHintFMask :: u32 where "SystemHintFMask \<equiv> 0xFFFFF01F"
abbreviation ExceptionFixed :: u32 where "ExceptionFixed \<equiv> 0xD4000000"
abbreviation ExceptionFMask :: u32 where "ExceptionFMask \<equiv> 0xFF000000"
abbreviation SystemPAuthFixed :: u32 where "SystemPAuthFixed \<equiv> 0xD503211F"
abbreviation SystemPAuthFMask :: u32 where "SystemPAuthFMask \<equiv> 0xFFFFFD1F"
abbreviation LoadStoreAnyFMask :: u32 where "LoadStoreAnyFMask \<equiv> 0x0A000000"
abbreviation LoadStoreAnyFixed :: u32 where "LoadStoreAnyFixed \<equiv> 0x08000000"
abbreviation LoadStorePairAnyFMask :: u32 where "LoadStorePairAnyFMask \<equiv> 0x3A000000"
abbreviation LoadStorePairAnyFixed :: u32 where "LoadStorePairAnyFixed \<equiv> 0x28000000"
abbreviation LoadStorePairMask :: u32 where "LoadStorePairMask \<equiv> 0xC4400000"
abbreviation LoadStorePairLBit :: u32 where "LoadStorePairLBit \<equiv> 0x00400000"
abbreviation STP_x :: u32 where "STP_x \<equiv> 0x80000000"
abbreviation LDP_x :: u32 where "LDP_x \<equiv> 0x80400000"
abbreviation STP_d :: u32 where "STP_d \<equiv> 0x44000000"
abbreviation LDP_d :: u32 where "LDP_d \<equiv> 0x44400000"
abbreviation STP_q :: u32 where "STP_q \<equiv> 0x84000000"
abbreviation LDP_q :: u32 where "LDP_q \<equiv> 0x84400000"
abbreviation LoadLiteralFixed :: u32 where "LoadLiteralFixed \<equiv> 0x18000000"
abbreviation LoadLiteralFMask :: u32 where "LoadLiteralFMask \<equiv> 0x3B000000"
abbreviation LoadStoreMask :: u32 where "LoadStoreMask \<equiv> 0xC4C00000"
abbreviation LDRB_w :: u32 where "LDRB_w \<equiv> 0x00400000"
abbreviation LDRH_w :: u32 where "LDRH_w \<equiv> 0x40400000"
abbreviation LDRSB_w :: u32 where "LDRSB_w \<equiv> 0x00C00000"
abbreviation LDRSB_x :: u32 where "LDRSB_x \<equiv> 0x00800000"
abbreviation LDRSH_w :: u32 where "LDRSH_w \<equiv> 0x40C00000"
abbreviation LDRSH_x :: u32 where "LDRSH_x \<equiv> 0x40800000"
abbreviation LDRSW_x :: u32 where "LDRSW_x \<equiv> 0x80800000"
abbreviation LDR_b :: u32 where "LDR_b \<equiv> 0x04400000"
abbreviation LDR_d :: u32 where "LDR_d \<equiv> 0xC4400000"
abbreviation LDR_h :: u32 where "LDR_h \<equiv> 0x44400000"
abbreviation LDR_q :: u32 where "LDR_q \<equiv> 0x04C00000"
abbreviation LDR_s :: u32 where "LDR_s \<equiv> 0x84400000"
abbreviation LDR_w :: u32 where "LDR_w \<equiv> 0x80400000"
abbreviation LDR_x :: u32 where "LDR_x \<equiv> 0xC0400000"
abbreviation STRB_w :: u32 where "STRB_w \<equiv> 0x00000000"
abbreviation STRH_w :: u32 where "STRH_w \<equiv> 0x40000000"
abbreviation STR_b :: u32 where "STR_b \<equiv> 0x04000000"
abbreviation STR_d :: u32 where "STR_d \<equiv> 0xC4000000"
abbreviation STR_h :: u32 where "STR_h \<equiv> 0x44000000"
abbreviation STR_q :: u32 where "STR_q \<equiv> 0x04800000"
abbreviation STR_s :: u32 where "STR_s \<equiv> 0x84000000"
abbreviation STR_w :: u32 where "STR_w \<equiv> 0x80000000"
abbreviation STR_x :: u32 where "STR_x \<equiv> 0xC0000000"

end
