(* ===== verification/Instructions.thy ===== *)
theory Instructions
  imports Utils_Vixl Constants_AArch64
begin

text \<open>
  The \<open>Instruction\<close> class of \<open>src/aarch64/instructions-aarch64.{h,cc}\<close>: an
  instruction is its address (the \<open>this\<close> pointer) and the 32 bits stored there.
  The accessors read bit fields, classify the encoding, and decode the compound
  immediates (PC-relative offsets, logical bit masks, load/store sizes) and the
  vector formats.  A field declared with \<open>ExtractSignedBits\<close> is an
  \<open>int32_t\<close>; it is kept as its 32-bit pattern and read with \<open>sint\<close>
  or \<open>scast\<close>.
\<close>

record instruction =
  insn_addr :: u64
  insn_bits :: u32

abbreviation kInstructionSize :: u64 where "kInstructionSize \<equiv> 4"

section \<open>Field access\<close>

definition ExtractBit :: "nat \<Rightarrow> u32 \<Rightarrow> u32" where
  "ExtractBit pos bits = drop_bit pos bits AND 1"

definition ExtractBits :: "nat \<Rightarrow> nat \<Rightarrow> u32 \<Rightarrow> u32" where
  "ExtractBits msb lsb bits = ExtractUnsignedBitfield32 msb lsb (ucast bits)"

definition ExtractSignedBits :: "nat \<Rightarrow> nat \<Rightarrow> u32 \<Rightarrow> u32" where
  "ExtractSignedBits msb lsb bits = ExtractSignedBitfield32 msb lsb (scast bits)"

definition Mask :: "u32 \<Rightarrow> u32 \<Rightarrow> u32" where
  "Mask m bits = bits AND m"

text \<open>Hacker's Delight bit compression: the bits selected by a mask, packed.\<close>

definition compress_step :: "nat \<Rightarrow> u32 \<times> u32 \<times> u32 \<Rightarrow> u32 \<times> u32 \<times> u32" where
  "compress_step i st =
     (case st of (x, m, mk) \<Rightarrow>
        let mp = mk XOR push_bit 1 mk;
            mp = mp XOR push_bit 2 mp;
            mp = mp XOR push_bit 4 mp;
            mp = mp XOR push_bit 8 mp;
            mp = mp XOR push_bit 16 mp;
            mv = mp AND m;
            m' = (m XOR mv) OR drop_bit (2 ^ i) mv;
            t = x AND mv;
            x' = (x XOR t) OR drop_bit (2 ^ i) t
        in (x', m', mk AND NOT mp))"

definition Compress :: "u32 \<Rightarrow> u32 \<Rightarrow> u32" where
  "Compress m bits = fst (fold compress_step [0..<5] (bits AND m, m, push_bit 1 (NOT m)))"

text \<open>The instruction fields.\<close>

definition GetRd :: "u32 \<Rightarrow> u32" where "GetRd bits = ExtractBits 4 0 bits"

definition GetRn :: "u32 \<Rightarrow> u32" where "GetRn bits = ExtractBits 9 5 bits"

definition GetRm :: "u32 \<Rightarrow> u32" where "GetRm bits = ExtractBits 20 16 bits"

definition GetRa :: "u32 \<Rightarrow> u32" where "GetRa bits = ExtractBits 14 10 bits"

definition GetRt :: "u32 \<Rightarrow> u32" where "GetRt bits = ExtractBits 4 0 bits"

definition GetRt2 :: "u32 \<Rightarrow> u32" where "GetRt2 bits = ExtractBits 14 10 bits"

definition GetRs :: "u32 \<Rightarrow> u32" where "GetRs bits = ExtractBits 20 16 bits"

definition GetSixtyFourBits :: "u32 \<Rightarrow> u32" where "GetSixtyFourBits bits = ExtractBits 31 31 bits"

definition GetFlagsUpdate :: "u32 \<Rightarrow> u32" where "GetFlagsUpdate bits = ExtractBits 29 29 bits"

definition GetImmPCRelHi :: "u32 \<Rightarrow> u32" where "GetImmPCRelHi bits = ExtractSignedBits 23 5 bits"

definition GetImmPCRelLo :: "u32 \<Rightarrow> u32" where "GetImmPCRelLo bits = ExtractBits 30 29 bits"

definition GetShiftDP :: "u32 \<Rightarrow> u32" where "GetShiftDP bits = ExtractBits 23 22 bits"

definition GetImmDPShift :: "u32 \<Rightarrow> u32" where "GetImmDPShift bits = ExtractBits 15 10 bits"

definition GetImmAddSub :: "u32 \<Rightarrow> u32" where "GetImmAddSub bits = ExtractBits 21 10 bits"

definition GetImmAddSubShift :: "u32 \<Rightarrow> u32" where "GetImmAddSubShift bits = ExtractBits 22 22 bits"

definition GetImmExtendShift :: "u32 \<Rightarrow> u32" where "GetImmExtendShift bits = ExtractBits 12 10 bits"

definition GetExtendMode :: "u32 \<Rightarrow> u32" where "GetExtendMode bits = ExtractBits 15 13 bits"

definition GetImmMoveWide :: "u32 \<Rightarrow> u32" where "GetImmMoveWide bits = ExtractBits 20 5 bits"

definition GetShiftMoveWide :: "u32 \<Rightarrow> u32" where "GetShiftMoveWide bits = ExtractBits 22 21 bits"

definition GetBitN :: "u32 \<Rightarrow> u32" where "GetBitN bits = ExtractBits 22 22 bits"

definition GetImmRotate :: "u32 \<Rightarrow> u32" where "GetImmRotate bits = ExtractBits 21 16 bits"

definition GetImmSetBits :: "u32 \<Rightarrow> u32" where "GetImmSetBits bits = ExtractBits 15 10 bits"

definition GetImmR :: "u32 \<Rightarrow> u32" where "GetImmR bits = ExtractBits 21 16 bits"

definition GetImmS :: "u32 \<Rightarrow> u32" where "GetImmS bits = ExtractBits 15 10 bits"

definition GetImmTestBranch :: "u32 \<Rightarrow> u32" where "GetImmTestBranch bits = ExtractSignedBits 18 5 bits"

definition GetImmTestBranchBit40 :: "u32 \<Rightarrow> u32" where "GetImmTestBranchBit40 bits = ExtractBits 23 19 bits"

definition GetImmTestBranchBit5 :: "u32 \<Rightarrow> u32" where "GetImmTestBranchBit5 bits = ExtractBits 31 31 bits"

definition GetCondition :: "u32 \<Rightarrow> u32" where "GetCondition bits = ExtractBits 15 12 bits"

definition GetConditionBranch :: "u32 \<Rightarrow> u32" where "GetConditionBranch bits = ExtractBits 3 0 bits"

definition GetNzcv :: "u32 \<Rightarrow> u32" where "GetNzcv bits = ExtractBits 3 0 bits"

definition GetImmCondCmp :: "u32 \<Rightarrow> u32" where "GetImmCondCmp bits = ExtractBits 20 16 bits"

definition GetImmCondBranch :: "u32 \<Rightarrow> u32" where "GetImmCondBranch bits = ExtractSignedBits 23 5 bits"

definition GetFPType :: "u32 \<Rightarrow> u32" where "GetFPType bits = ExtractBits 23 22 bits"

definition GetImmFP :: "u32 \<Rightarrow> u32" where "GetImmFP bits = ExtractBits 20 13 bits"

definition GetFPScale :: "u32 \<Rightarrow> u32" where "GetFPScale bits = ExtractBits 15 10 bits"

definition GetImmLS :: "u32 \<Rightarrow> u32" where "GetImmLS bits = ExtractSignedBits 20 12 bits"

definition GetImmLSUnsigned :: "u32 \<Rightarrow> u32" where "GetImmLSUnsigned bits = ExtractBits 21 10 bits"

definition GetImmLSPair :: "u32 \<Rightarrow> u32" where "GetImmLSPair bits = ExtractSignedBits 21 15 bits"

definition GetImmShiftLS :: "u32 \<Rightarrow> u32" where "GetImmShiftLS bits = ExtractBits 12 12 bits"

definition GetLSOpc :: "u32 \<Rightarrow> u32" where "GetLSOpc bits = ExtractBits 23 22 bits"

definition GetLSVector :: "u32 \<Rightarrow> u32" where "GetLSVector bits = ExtractBits 26 26 bits"

definition GetLSSize :: "u32 \<Rightarrow> u32" where "GetLSSize bits = ExtractBits 31 30 bits"

definition GetImmLSPACHi :: "u32 \<Rightarrow> u32" where "GetImmLSPACHi bits = ExtractSignedBits 22 22 bits"

definition GetImmLSPACLo :: "u32 \<Rightarrow> u32" where "GetImmLSPACLo bits = ExtractBits 20 12 bits"

definition GetImmUncondBranch :: "u32 \<Rightarrow> u32" where "GetImmUncondBranch bits = ExtractSignedBits 25 0 bits"

definition GetImmCmpBranch :: "u32 \<Rightarrow> u32" where "GetImmCmpBranch bits = ExtractSignedBits 23 5 bits"

definition GetImmLLiteral :: "u32 \<Rightarrow> u32" where "GetImmLLiteral bits = ExtractSignedBits 23 5 bits"

definition GetImmException :: "u32 \<Rightarrow> u32" where "GetImmException bits = ExtractBits 20 5 bits"

definition GetImmHint :: "u32 \<Rightarrow> u32" where "GetImmHint bits = ExtractBits 11 5 bits"

definition GetImmSystemRegister :: "u32 \<Rightarrow> u32" where "GetImmSystemRegister bits = ExtractBits 20 5 bits"

definition GetSysOp :: "u32 \<Rightarrow> u32" where "GetSysOp bits = ExtractBits 18 5 bits"

definition GetCRm :: "u32 \<Rightarrow> u32" where "GetCRm bits = ExtractBits 11 8 bits"

definition GetImmRMIFRotation :: "u32 \<Rightarrow> u32" where "GetImmRMIFRotation bits = ExtractBits 20 15 bits"

definition GetLdStXLoad :: "u32 \<Rightarrow> u32" where "GetLdStXLoad bits = ExtractBits 22 22 bits"

definition GetLdStXNotExclusive :: "u32 \<Rightarrow> u32" where "GetLdStXNotExclusive bits = ExtractBits 23 23 bits"

definition GetLdStXAcquireRelease :: "u32 \<Rightarrow> u32" where "GetLdStXAcquireRelease bits = ExtractBits 15 15 bits"

definition GetLdStXSizeLog2 :: "u32 \<Rightarrow> u32" where "GetLdStXSizeLog2 bits = ExtractBits 31 30 bits"

definition GetLdStXPair :: "u32 \<Rightarrow> u32" where "GetLdStXPair bits = ExtractBits 21 21 bits"

definition GetNEONQ :: "u32 \<Rightarrow> u32" where "GetNEONQ bits = ExtractBits 30 30 bits"

definition GetNEONSize :: "u32 \<Rightarrow> u32" where "GetNEONSize bits = ExtractBits 23 22 bits"

definition GetNEONLSSize :: "u32 \<Rightarrow> u32" where "GetNEONLSSize bits = ExtractBits 11 10 bits"

definition GetNEONS :: "u32 \<Rightarrow> u32" where "GetNEONS bits = ExtractBits 12 12 bits"

definition GetNEONL :: "u32 \<Rightarrow> u32" where "GetNEONL bits = ExtractBits 21 21 bits"

definition GetNEONM :: "u32 \<Rightarrow> u32" where "GetNEONM bits = ExtractBits 20 20 bits"

definition GetNEONH :: "u32 \<Rightarrow> u32" where "GetNEONH bits = ExtractBits 11 11 bits"

definition GetImmNEONExt :: "u32 \<Rightarrow> u32" where "GetImmNEONExt bits = ExtractBits 14 11 bits"

definition GetImmNEON5 :: "u32 \<Rightarrow> u32" where "GetImmNEON5 bits = ExtractBits 20 16 bits"

definition GetImmNEON4 :: "u32 \<Rightarrow> u32" where "GetImmNEON4 bits = ExtractBits 14 11 bits"

definition GetImmNEONabc :: "u32 \<Rightarrow> u32" where "GetImmNEONabc bits = ExtractBits 18 16 bits"

definition GetImmNEONdefgh :: "u32 \<Rightarrow> u32" where "GetImmNEONdefgh bits = ExtractBits 9 5 bits"

definition GetNEONModImmOp :: "u32 \<Rightarrow> u32" where "GetNEONModImmOp bits = ExtractBits 29 29 bits"

definition GetNEONCmode :: "u32 \<Rightarrow> u32" where "GetNEONCmode bits = ExtractBits 15 12 bits"

definition GetImmNEONImmhImmb :: "u32 \<Rightarrow> u32" where "GetImmNEONImmhImmb bits = ExtractBits 22 16 bits"

definition GetImmNEONImmh :: "u32 \<Rightarrow> u32" where "GetImmNEONImmh bits = ExtractBits 22 19 bits"

definition GetImmNEONImmb :: "u32 \<Rightarrow> u32" where "GetImmNEONImmb bits = ExtractBits 18 16 bits"

section \<open>Compound immediates\<close>

definition GetImmPCRel :: "u32 \<Rightarrow> u32" where
  "GetImmPCRel bits =
     (let hi = GetImmPCRelHi bits; lo = GetImmPCRelLo bits;
          offset = push_bit 2 hi OR lo
      in ExtractSignedBitfield32 (2 + 19 - 1) 0 (ucast offset))"

definition GetImmLSPAC :: "u32 \<Rightarrow> u32" where
  "GetImmLSPAC bits =
     (let hi = GetImmLSPACHi bits; lo = GetImmLSPACLo bits;
          offset = push_bit 9 hi OR lo
      in push_bit 3 (ExtractSignedBitfield32 (9 + 1 - 1) 0 (ucast offset)))"

definition GetNEONLSIndex :: "u32 \<Rightarrow> nat \<Rightarrow> u32" where
  "GetNEONLSIndex bits access_size_shift =
     (let q = GetNEONQ bits; s = GetNEONS bits; sz = GetNEONLSSize bits;
          index = push_bit 3 q OR push_bit 2 s OR sz
      in drop_bit access_size_shift index)"

definition GetImmNEONabcdefgh :: "u32 \<Rightarrow> u32" where
  "GetImmNEONabcdefgh bits = push_bit 5 (GetImmNEONabc bits) OR GetImmNEONdefgh bits"

text \<open>
  \<open>RepeatBitsAcrossReg\<close>: the loop doubles the filled part of the register
  until it is full; \<open>i\<close> is the number of bits filled.
\<close>

function repeat_bits_loop :: "nat \<Rightarrow> nat \<Rightarrow> u64 \<Rightarrow> u64" where
  "repeat_bits_loop reg_size i result =
     (if 0 < i \<and> i < reg_size
      then repeat_bits_loop reg_size (i * 2) (result OR push_bit i result)
      else result)"
  by pat_completeness auto
termination by (relation "measure (\<lambda>(reg_size, i, result). reg_size - i)") auto

declare repeat_bits_loop.simps [simp del]

definition RepeatBitsAcrossReg :: "nat \<Rightarrow> u64 \<Rightarrow> nat \<Rightarrow> u64" where
  "RepeatBitsAcrossReg reg_size val width =
     repeat_bits_loop reg_size width (val AND (push_bit width 1 - 1))"

text \<open>
  \<open>DecodeImmBitMask\<close>: the loop over the element widths is a recursion over
  the widths still to try; running out of widths is the code's unreachable exit.
\<close>

fun decode_bit_mask_loop :: "u32 \<Rightarrow> u32 \<Rightarrow> nat \<Rightarrow> nat list \<Rightarrow> u64" where
  "decode_bit_mask_loop imm_s imm_r reg_size [] = 0"
| "decode_bit_mask_loop imm_s imm_r reg_size (width # widths) =
     (if imm_s AND of_nat width = 0
      then let m = of_nat (width - 1)
           in if imm_s AND m = m then 0
              else let bits = push_bit (unat (imm_s AND m) + 1) 1 - 1
                   in RepeatBitsAcrossReg reg_size (RotateRight bits (imm_r AND m) width) width
      else decode_bit_mask_loop imm_s imm_r reg_size widths)"

definition DecodeImmBitMask :: "u32 \<Rightarrow> u32 \<Rightarrow> u32 \<Rightarrow> nat \<Rightarrow> u64" where
  "DecodeImmBitMask n imm_s imm_r reg_size =
     (if n = 1
      then if imm_s = 0x3f then 0
           else RotateRight (push_bit (unat imm_s + 1) 1 - 1) imm_r 64
      else if drop_bit 1 imm_s = 0x1f then 0
           else decode_bit_mask_loop imm_s imm_r reg_size [32, 16, 8, 4, 2])"

definition GetImmLogical :: "u32 \<Rightarrow> u64" where
  "GetImmLogical bits =
     (let reg_size = (if GetSixtyFourBits bits \<noteq> 0 then 64 else 32)
      in DecodeImmBitMask (GetBitN bits) (GetImmSetBits bits) (GetImmRotate bits) reg_size)"

section \<open>Classification\<close>

definition IsCondBranchImm :: "u32 \<Rightarrow> bool" where
  "IsCondBranchImm bits = (Mask ConditionalBranchFMask bits = ConditionalBranchFixed)"

definition IsUncondBranchImm :: "u32 \<Rightarrow> bool" where
  "IsUncondBranchImm bits = (Mask UnconditionalBranchFMask bits = UnconditionalBranchFixed)"

definition IsCompareBranch :: "u32 \<Rightarrow> bool" where
  "IsCompareBranch bits = (Mask CompareBranchFMask bits = CompareBranchFixed)"

definition IsTestBranch :: "u32 \<Rightarrow> bool" where
  "IsTestBranch bits = (Mask TestBranchFMask bits = TestBranchFixed)"

definition IsPCRelAddressing :: "u32 \<Rightarrow> bool" where
  "IsPCRelAddressing bits = (Mask PCRelAddressingFMask bits = PCRelAddressingFixed)"

definition IsLogicalImmediate :: "u32 \<Rightarrow> bool" where
  "IsLogicalImmediate bits = (Mask LogicalImmediateFMask bits = LogicalImmediateFixed)"

definition IsAddSubImmediate :: "u32 \<Rightarrow> bool" where
  "IsAddSubImmediate bits = (Mask AddSubImmediateFMask bits = AddSubImmediateFixed)"

definition IsAddSubExtended :: "u32 \<Rightarrow> bool" where
  "IsAddSubExtended bits = (Mask AddSubExtendedFMask bits = AddSubExtendedFixed)"

definition IsLoadOrStore :: "u32 \<Rightarrow> bool" where
  "IsLoadOrStore bits = (Mask LoadStoreAnyFMask bits = LoadStoreAnyFixed)"

definition IsLoadLiteral :: "u32 \<Rightarrow> bool" where
  "IsLoadLiteral bits = (Mask LoadLiteralFMask bits = LoadLiteralFixed)"

definition IsMovn :: "u32 \<Rightarrow> bool" where
  "IsMovn bits = (Mask MoveWideImmediateMask bits = MOVN_x \<or> Mask MoveWideImmediateMask bits = MOVN_w)"

definition IsException :: "u32 \<Rightarrow> bool" where
  "IsException bits = (Mask ExceptionFMask bits = ExceptionFixed)"

definition IsPAuth :: "u32 \<Rightarrow> bool" where
  "IsPAuth bits = (Mask SystemPAuthFMask bits = SystemPAuthFixed)"

definition IsBti :: "u32 \<Rightarrow> bool" where
  "IsBti bits =
     (if Mask SystemHintFMask bits = SystemHintFixed
      then let imm_hint = GetImmHint bits
           in imm_hint = BTI \<or> imm_hint = BTI_c \<or> imm_hint = BTI_j \<or> imm_hint = BTI_jc
      else False)"

definition IsLoad :: "u32 \<Rightarrow> bool" where
  "IsLoad bits =
     (if Mask LoadStoreAnyFMask bits \<noteq> LoadStoreAnyFixed then False
      else if Mask LoadStorePairAnyFMask bits = LoadStorePairAnyFixed
      then Mask LoadStorePairLBit bits \<noteq> 0
      else Mask LoadStoreMask bits \<in> {LDRB_w, LDRH_w, LDR_w, LDR_x, LDRSB_w, LDRSB_x, LDRSH_w,
        LDRSH_x, LDRSW_x, LDR_b, LDR_h, LDR_s, LDR_d, LDR_q})"

definition IsStore :: "u32 \<Rightarrow> bool" where
  "IsStore bits =
     (if Mask LoadStoreAnyFMask bits \<noteq> LoadStoreAnyFixed then False
      else if Mask LoadStorePairAnyFMask bits = LoadStorePairAnyFixed
      then Mask LoadStorePairLBit bits = 0
      else Mask LoadStoreMask bits \<in> {STRB_w, STRH_w, STR_w, STR_x, STR_b, STR_h, STR_s,
        STR_d, STR_q})"

datatype reg31_mode = Reg31IsStackPointer | Reg31IsZeroRegister

definition GetRdMode :: "u32 \<Rightarrow> reg31_mode" where
  "GetRdMode bits =
     (if IsAddSubImmediate bits \<or> IsAddSubExtended bits
      then if Mask AddSubSetFlagsBit bits \<noteq> 0 then Reg31IsZeroRegister else Reg31IsStackPointer
      else if IsLogicalImmediate bits
      then if Mask (LogicalImmediateMask AND LogicalOpMask) bits = ANDS
           then Reg31IsZeroRegister else Reg31IsStackPointer
      else Reg31IsZeroRegister)"

definition GetRnMode :: "u32 \<Rightarrow> reg31_mode" where
  "GetRnMode bits =
     (if IsLoadOrStore bits \<or> IsAddSubImmediate bits \<or> IsAddSubExtended bits
      then Reg31IsStackPointer else Reg31IsZeroRegister)"

section \<open>Branch targets\<close>

datatype imm_branch_type =
  UnknownBranchType | CondBranchType | UncondBranchType | CompareBranchType | TestBranchType

definition GetBranchType :: "u32 \<Rightarrow> imm_branch_type" where
  "GetBranchType bits =
     (if IsCondBranchImm bits then CondBranchType
      else if IsUncondBranchImm bits then UncondBranchType
      else if IsCompareBranch bits then CompareBranchType
      else if IsTestBranch bits then TestBranchType
      else UnknownBranchType)"

text \<open>The fields' widths, in bits; the unknown type is the unreachable exit, which returns 0.\<close>

fun GetImmBranchRangeBitwidth :: "imm_branch_type \<Rightarrow> nat" where
  "GetImmBranchRangeBitwidth UncondBranchType = 26"
| "GetImmBranchRangeBitwidth CondBranchType = 19"
| "GetImmBranchRangeBitwidth CompareBranchType = 19"
| "GetImmBranchRangeBitwidth TestBranchType = 14"
| "GetImmBranchRangeBitwidth UnknownBranchType = 0"

definition IsValidImmPCOffset :: "imm_branch_type \<Rightarrow> u64 \<Rightarrow> bool" where
  "IsValidImmPCOffset branch_type offset = IsIntN (GetImmBranchRangeBitwidth branch_type) offset"

definition GetImmBranchForwardRange :: "imm_branch_type \<Rightarrow> u32" where
  "GetImmBranchForwardRange branch_type =
     push_bit (GetImmBranchRangeBitwidth branch_type - 1) 1 * 4"

definition GetImmBranch :: "u32 \<Rightarrow> u32" where
  "GetImmBranch bits =
     (case GetBranchType bits of
        CondBranchType \<Rightarrow> GetImmCondBranch bits
      | UncondBranchType \<Rightarrow> GetImmUncondBranch bits
      | CompareBranchType \<Rightarrow> GetImmCmpBranch bits
      | TestBranchType \<Rightarrow> GetImmTestBranch bits
      | UnknownBranchType \<Rightarrow> 0)"

definition AlignDown :: "u64 \<Rightarrow> u64 \<Rightarrow> u64" where
  "AlignDown pointer alignment = pointer AND NOT (alignment - 1)"

definition AlignUp :: "u64 \<Rightarrow> u64 \<Rightarrow> u64" where
  "AlignUp pointer alignment = (pointer + (alignment - 1)) AND NOT (alignment - 1)"

definition IsAligned :: "u64 \<Rightarrow> u64 \<Rightarrow> bool" where
  "IsAligned pointer alignment = (pointer AND (alignment - 1) = 0)"

definition GetImmPCOffsetTarget :: "instruction \<Rightarrow> u64" where
  "GetImmPCOffsetTarget instr =
     (let bits = insn_bits instr; base = insn_addr instr in
      if IsPCRelAddressing bits
      then let offset = scast (GetImmPCRel bits) in
           if Mask PCRelAddressingMask bits = ADRP
           then AlignDown base 4096 + offset * 4096
           else base + offset
      else base + scast (GetImmBranch bits) * 4)"

definition GetLiteralAddress :: "instruction \<Rightarrow> u64" where
  "GetLiteralAddress instr = insn_addr instr + scast (GetImmLLiteral (insn_bits instr)) * 4"

section \<open>Load and store sizes\<close>

definition CalcLSDataSize :: "u32 \<Rightarrow> nat" where
  "CalcLSDataSize op =
     (let sz = unat (drop_bit 30 op) in
      if op AND 0x04000000 \<noteq> 0
      then if sz = 0 \<and> drop_bit 22 (op AND 0x00C00000) \<ge> 2 then 4 else sz
      else sz)"

definition GetSizeLS :: "u32 \<Rightarrow> nat" where
  "GetSizeLS bits = CalcLSDataSize (Mask LoadStoreMask bits)"

definition CalcLSPairDataSize :: "u32 \<Rightarrow> nat" where
  "CalcLSPairDataSize op =
     (if op = STP_q \<or> op = LDP_q then 4
      else if op = STP_x \<or> op = LDP_x \<or> op = STP_d \<or> op = LDP_d then 3
      else 2)"

definition GetSizeLSPair :: "u32 \<Rightarrow> nat" where
  "GetSizeLSPair bits = CalcLSPairDataSize (Mask LoadStorePairMask bits)"

end
