(* ===== verification/Predecode_Cache.thy ===== *)
theory Predecode_Cache
  imports Instructions
begin

text \<open>
  The predecode cache of \<open>include/gaby_vm/predecode_cache.h\<close> and
  \<open>src/gaby_vm/predecode_cache.cc\<close>: the start-sorted table of registered code
  ranges (\<open>std::map\<close>, kept here as an association list in key order), the
  registration operation with its validation, overlap check, predecode pass and
  commit, the diagnostic record of the last failure, and the lookups.

  Outside the component, and so arguments of the definitions, are the VIXL
  decoder with its feature auditor (\<open>decode\<close>, what one \<open>Decode\<close> call
  reports to the capture visitor), the instruction word read at an address
  (\<open>code_at\<close>), the form table behind \<open>ResolvePredecodeLeaf\<close>
  (\<open>resolve\<close>), and whether the two allocations succeed.
\<close>

section \<open>Data\<close>

datatype RegistrationStatus =
  Ok | InvalidArgument | OverlappingRange | UnsupportedFeature | OutOfMemory

record RegistrationError =
  err_status :: RegistrationStatus
  err_pc :: u64
  err_reason :: string
  err_missing_features :: string

text \<open>
  The opaque leaf handle: a dispatcher of the form table, or one of the two
  sentinels of the cache.
\<close>

datatype 'v leaf = FormLeaf 'v | UnimplementedSentinelLeaf | DataInStreamSentinelLeaf

record 'v PredecodedEntry =
  entry_form_hash :: u32
  entry_flags :: u32
  entry_leaf :: "'v leaf"

record 'v CodeRange =
  range_start :: u64
  range_size :: u64
  range_entries :: "'v PredecodedEntry list"

record 'v PredecodeCache =
  ranges :: "(u64 \<times> 'v CodeRange) list"
  last_error :: RegistrationError

definition empty_cache :: "'v PredecodeCache" where
  "empty_cache = \<lparr> ranges = [],
     last_error = \<lparr> err_status = Ok, err_pc = 0, err_reason = [], err_missing_features = [] \<rparr> \<rparr>"

text \<open>What one decode reports: the auditor's verdict, and the metadata the capture visitor reads.\<close>

record decoded_form =
  is_available :: bool
  is_unallocated :: bool
  form_hash_of :: u32

record 'v predecode_env =
  decode :: "u32 \<Rightarrow> decoded_form"
  code_at :: "u64 \<Rightarrow> u32"
  resolve :: "u32 \<Rightarrow> 'v option"
  entries_alloc :: "u64 \<Rightarrow> bool"
  node_alloc :: "u64 \<Rightarrow> bool"

section \<open>Operations\<close>

definition IsBtiRelevant :: "u32 \<Rightarrow> u32 \<Rightarrow> bool" where
  "IsBtiRelevant form_hash bits = (IsBti bits \<or> IsPAuth bits \<or> IsException bits)"

definition SetError ::
  "RegistrationStatus \<Rightarrow> u64 \<Rightarrow> string \<Rightarrow> string \<Rightarrow> 'v PredecodeCache \<Rightarrow> 'v PredecodeCache" where
  "SetError status pc reason missing c =
     c\<lparr>last_error := \<lparr> err_status = status, err_pc = pc, err_reason = reason,
        err_missing_features = missing \<rparr>\<rparr>"

text \<open>One round of the predecode pass: the entry of the word at \<open>insn_at\<close>.\<close>

definition predecode_entry :: "'v predecode_env \<Rightarrow> u64 \<Rightarrow> 'v PredecodedEntry" where
  "predecode_entry env insn_at =
     (let bits = code_at env insn_at; d = decode env bits in
      if \<not> is_available d \<or> is_unallocated d
      then \<lparr> entry_form_hash = 0, entry_flags = 0, entry_leaf = DataInStreamSentinelLeaf \<rparr>
      else let form_hash = form_hash_of d;
               lf = (case resolve env form_hash of
                       None \<Rightarrow> UnimplementedSentinelLeaf | Some v \<Rightarrow> FormLeaf v)
           in \<lparr> entry_form_hash = form_hash,
                entry_flags = (if IsBtiRelevant form_hash bits then 1 else 0),
                entry_leaf = lf \<rparr>)"

definition predecode_pass :: "'v predecode_env \<Rightarrow> u64 \<Rightarrow> u64 \<Rightarrow> 'v PredecodedEntry list" where
  "predecode_pass env start num_entries =
     map (\<lambda>i. predecode_entry env (start + of_nat i * 4)) [0..<unat num_entries]"

text \<open>
  \<open>emplace\<close> on the sorted map followed by the assignment through the returned
  node: a node that exists under this key is returned and overwritten.
\<close>

fun emplace_assign :: "u64 \<Rightarrow> 'r \<Rightarrow> (u64 \<times> 'r) list \<Rightarrow> (u64 \<times> 'r) list" where
  "emplace_assign k r [] = [(k, r)]"
| "emplace_assign k r ((k', r') # rest) =
     (if k < k' then (k, r) # (k', r') # rest
      else if k = k' then (k, r) # rest
      else (k', r') # emplace_assign k r rest)"

definition overlaps_registered :: "u64 \<Rightarrow> u64 \<Rightarrow> u64 \<times> 'v CodeRange \<Rightarrow> bool" where
  "overlaps_registered start_addr end_addr kv =
     (start_addr < range_start (snd kv) + range_size (snd kv) \<and> range_start (snd kv) < end_addr)"

definition RegisterCodeRange ::
  "'v predecode_env \<Rightarrow> u64 \<Rightarrow> u64 \<Rightarrow> 'v PredecodeCache
     \<Rightarrow> RegistrationStatus \<times> 'v PredecodeCache" where
  "RegisterCodeRange env start_addr size_bytes c =
     (if size_bytes = 0 \<or> size_bytes mod kInstructionSize \<noteq> 0
      then (InvalidArgument, SetError InvalidArgument 0
              ''size must be a non-zero multiple of the 4-byte instruction size'' [] c)
      else if start_addr mod kInstructionSize \<noteq> 0
      then (InvalidArgument, SetError InvalidArgument start_addr
              ''start address must be 4-byte (instruction) aligned'' [] c)
      else
        let end_addr = start_addr + size_bytes in
        if \<exists>kv \<in> set (ranges c). overlaps_registered start_addr end_addr kv
        then (OverlappingRange, SetError OverlappingRange start_addr
                ''range overlaps an already-registered range'' [] c)
        else
          let num_entries = size_bytes div kInstructionSize in
          if \<not> entries_alloc env num_entries
          then (OutOfMemory, SetError OutOfMemory start_addr
                  ''could not allocate predecoded-entry storage for the range'' [] c)
          else
            let entries = predecode_pass env start_addr num_entries in
            if \<not> node_alloc env start_addr
            then (OutOfMemory, SetError OutOfMemory start_addr
                    ''could not allocate a range-table node'' [] c)
            else (Ok, c\<lparr>ranges := emplace_assign start_addr
                    \<lparr> range_start = start_addr, range_size = size_bytes,
                      range_entries = entries \<rparr> (ranges c)\<rparr>))"

definition GetLastRegistrationError :: "'v PredecodeCache \<Rightarrow> RegistrationError" where
  "GetLastRegistrationError c = last_error c"

text \<open>
  The slow-path lookup: \<open>upper_bound\<close> skips the keys up to \<open>pc\<close>; the
  candidate is the last of them.
\<close>

definition FindRange :: "'v PredecodeCache \<Rightarrow> u64 \<Rightarrow> 'v CodeRange option" where
  "FindRange c pc =
     (let below = takeWhile (\<lambda>kv. \<not> pc < fst kv) (ranges c) in
      if below = [] then None
      else let info = snd (last below) in
           if pc - range_start info < range_size info then Some info else None)"

text \<open>The entry of a program counter inside a range: \<open>&entries[(pc - start) / 4]\<close>.\<close>

definition entry_in :: "'v CodeRange \<Rightarrow> u64 \<Rightarrow> 'v PredecodedEntry" where
  "entry_in r pc = range_entries r ! unat ((pc - range_start r) div kInstructionSize)"

definition lookup_entry :: "'v PredecodeCache \<Rightarrow> u64 \<Rightarrow> 'v PredecodedEntry option" where
  "lookup_entry c pc = map_option (\<lambda>r. entry_in r pc) (FindRange c pc)"

section \<open>The table invariant\<close>

text \<open>
  A range record is well formed when it is aligned, not empty, ends below the
  top of the address space and has one entry per word.  The table is in order,
  each key is its range's start, and each range ends before the next begins.
\<close>

definition range_end :: "'v CodeRange \<Rightarrow> nat" where
  "range_end r = unat (range_start r) + unat (range_size r)"

definition range_ok :: "'v CodeRange \<Rightarrow> bool" where
  "range_ok r \<longleftrightarrow> range_size r \<noteq> 0 \<and> range_size r mod 4 = 0 \<and> range_start r mod 4 = 0
     \<and> range_end r < 2 ^ 64
     \<and> length (range_entries r) = unat (range_size r div 4)"

definition in_range :: "u64 \<Rightarrow> 'v CodeRange \<Rightarrow> bool" where
  "in_range pc r \<longleftrightarrow> unat (range_start r) \<le> unat pc \<and> unat pc < range_end r"

definition before :: "u64 \<times> 'v CodeRange \<Rightarrow> u64 \<times> 'v CodeRange \<Rightarrow> bool" where
  "before a b \<longleftrightarrow> range_end (snd a) \<le> unat (range_start (snd b))"

definition cache_ok :: "'v PredecodeCache \<Rightarrow> bool" where
  "cache_ok c \<longleftrightarrow> (\<forall>kv \<in> set (ranges c). fst kv = range_start (snd kv) \<and> range_ok (snd kv))
     \<and> sorted_wrt before (ranges c)"

lemma SetError_ranges [simp]: "ranges (SetError s p r m c) = ranges c"
  by (simp add: SetError_def)

lemma SetError_last_error [simp]:
  "last_error (SetError s p r m c) = \<lparr>err_status = s, err_pc = p, err_reason = r, err_missing_features = m\<rparr>"
  by (simp add: SetError_def)

lemma cache_ok_SetError [simp]: "cache_ok (SetError s p r m c) = cache_ok c"
  by (simp add: cache_ok_def)

lemma cache_ok_empty [simp]: "cache_ok empty_cache"
  by (simp add: cache_ok_def empty_cache_def)

lemma in_range_diff_iff:
  assumes "range_end r < 2 ^ 64"
  shows "range_start r \<le> pc \<and> pc - range_start r < range_size r \<longleftrightarrow> in_range pc r"
proof (cases "range_start r \<le> pc")
  case True
  then have "unat (pc - range_start r) = unat pc - unat (range_start r)"
    by (rule unat_sub)
  with True show ?thesis
    by (auto simp: in_range_def range_end_def word_less_nat_alt word_le_nat_alt)
next
  case False
  then show ?thesis by (auto simp: in_range_def word_le_nat_alt)
qed

lemma range_ok_start_lt_end: "range_ok r \<Longrightarrow> unat (range_start r) < range_end r"
  by (auto simp: range_ok_def range_end_def unat_gt_0)

subsection \<open>Overlap\<close>

lemma overlaps_registered_iff:
  assumes "range_end r < 2 ^ 64" "unat start + unat sz < 2 ^ 64"
  shows "overlaps_registered start (start + sz) (k, r) \<longleftrightarrow>
    unat start < range_end r \<and> unat (range_start r) < unat start + unat sz"
proof -
  have "unat (range_start r + range_size r) = range_end r"
    using assms(1) by (simp add: range_end_def unat_word_ariths)
  moreover have "unat (start + sz) = unat start + unat sz"
    using assms(2) by (simp add: unat_word_ariths)
  ultimately show ?thesis by (simp add: overlaps_registered_def word_less_nat_alt)
qed

lemma set_emplace_assign:
  assumes "\<And>r'. (k, r') \<notin> set xs"
  shows "set (emplace_assign k r xs) = insert (k, r) (set xs)"
  using assms
proof (induction xs)
  case (Cons a xs)
  obtain k' r' where a: "a = (k', r')" by (cases a)
  with Cons.prems have "k \<noteq> k'" by auto
  moreover have "\<And>r''. (k, r'') \<notin> set xs" using Cons.prems by auto
  ultimately show ?case using Cons.IH by (auto simp: a)
qed auto

lemma sorted_emplace_assign:
  assumes "sorted_wrt before xs"
    and "\<And>kv. kv \<in> set xs \<Longrightarrow> fst kv = range_start (snd kv) \<and> range_ok (snd kv)"
    and "k = range_start r" "range_ok r"
    and "\<And>kv. kv \<in> set xs \<Longrightarrow> range_end r \<le> unat (range_start (snd kv)) \<or> range_end (snd kv) \<le> unat (range_start r)"
  shows "sorted_wrt before (emplace_assign k r xs)"
  using assms
proof (induction xs)
  case (Cons a xs)
  obtain k' r' where a: "a = (k', r')" by (cases a)
  have k': "k' = range_start r'" and r': "range_ok r'"
    using Cons.prems(2) [of a] by (auto simp: a)
  have dis: "range_end r \<le> unat (range_start r') \<or> range_end r' \<le> unat (range_start r)"
    using Cons.prems(5) [of a] by (simp add: a)
  note lt = range_ok_start_lt_end [OF r'] range_ok_start_lt_end [OF Cons.prems(4)]
  have neq: "k \<noteq> k'" using dis lt by (auto simp: k' Cons.prems(3))
  show ?case
  proof (cases "k < k'")
    case True
    then have "unat (range_start r) < unat (range_start r')"
      by (simp add: k' Cons.prems(3) word_less_nat_alt)
    with dis lt have b: "range_end r \<le> unat (range_start r')" by linarith
    moreover have "before (k, r) kv" if "kv \<in> set xs" for kv
      using that Cons.prems(1) b lt by (fastforce simp: before_def a)
    ultimately show ?thesis using True Cons.prems(1) by (auto simp: a before_def)
  next
    case False
    then have "unat (range_start r') < unat (range_start r)"
      using neq by (auto simp: k' Cons.prems(3) word_less_nat_alt not_less dest: le_neq_implies_less
          simp flip: word_unat_eq_iff)
    with dis lt have b: "range_end r' \<le> unat (range_start r)" by linarith
    have "(k, r'') \<notin> set xs" for r''
    proof
      assume mem: "(k, r'') \<in> set xs"
      then have "k = range_start r''" "range_ok r''" using Cons.prems(2) [of "(k, r'')"] by auto
      then show False
        using Cons.prems(5) [of "(k, r'')"] mem lt(2) range_ok_start_lt_end [of r'']
        by (simp add: Cons.prems(3))
    qed
    then have "set (emplace_assign k r xs) = insert (k, r) (set xs)" by (rule set_emplace_assign)
    moreover have "sorted_wrt before (emplace_assign k r xs)"
      using Cons.prems by (intro Cons.IH) auto
    moreover have "before (k', r') kv" if "kv \<in> insert (k, r) (set xs)" for kv
      using that b Cons.prems(1) by (auto simp: a before_def)
    ultimately show ?thesis using False neq by (simp add: a)
  qed
qed auto

subsection \<open>Registration\<close>

lemma length_predecode_pass [simp]: "length (predecode_pass env start n) = unat n"
  by (simp add: predecode_pass_def)

text \<open>The address range \<open>[start, start + size)\<close> as natural numbers.\<close>

definition span_meets :: "u64 \<Rightarrow> u64 \<Rightarrow> 'v CodeRange \<Rightarrow> bool" where
  "span_meets start sz r \<longleftrightarrow>
     (\<exists>a. unat start \<le> a \<and> a < unat start + unat sz \<and> unat (range_start r) \<le> a \<and> a < range_end r)"

lemma span_meets_iff:
  assumes "range_size r \<noteq> 0" "sz \<noteq> 0"
  shows "span_meets start sz r \<longleftrightarrow>
    unat start < range_end r \<and> unat (range_start r) < unat start + unat sz"
proof
  assume *: "unat start < range_end r \<and> unat (range_start r) < unat start + unat sz"
  have "unat (range_start r) < range_end r" "0 < unat sz"
    using assms by (auto simp: range_end_def unat_gt_0)
  with * show "span_meets start sz r"
    unfolding span_meets_def
    by (intro exI [of _ "max (unat start) (unat (range_start r))"]) auto
qed (auto simp: span_meets_def)

lemma overlap_check_exact:
  assumes ok: "cache_ok c" and fits: "unat start + unat sz < 2 ^ 64" and "sz \<noteq> 0"
  shows "(\<exists>kv \<in> set (ranges c). overlaps_registered start (start + sz) kv) \<longleftrightarrow>
    (\<exists>kv \<in> set (ranges c). span_meets start sz (snd kv))"
proof (rule bex_cong [OF refl])
  fix kv assume kv: "kv \<in> set (ranges c)"
  obtain k r where kr: "kv = (k, r)" by (cases kv)
  have "range_ok r" using ok kv by (auto simp: cache_ok_def kr)
  then show "overlaps_registered start (start + sz) kv = span_meets start sz (snd kv)"
    using fits assms(3)
    by (simp add: kr overlaps_registered_iff span_meets_iff range_ok_def)
qed

lemma register_fail_ranges:
  "fst (RegisterCodeRange env start sz c) \<noteq> Ok \<Longrightarrow>
    ranges (snd (RegisterCodeRange env start sz c)) = ranges c"
  by (auto simp: RegisterCodeRange_def Let_def split: if_splits del: mod_0_imp_dvd)

lemma register_fail_error:
  "fst (RegisterCodeRange env start sz c) = st \<Longrightarrow> st \<noteq> Ok \<Longrightarrow>
    err_status (last_error (snd (RegisterCodeRange env start sz c))) = st"
  by (auto simp: RegisterCodeRange_def Let_def split: if_splits del: mod_0_imp_dvd)

lemma register_ok_elim:
  assumes "RegisterCodeRange env start sz c = (Ok, c')"
  shows "sz \<noteq> 0 \<and> sz mod 4 = 0 \<and> start mod 4 = 0
    \<and> (\<forall>kv \<in> set (ranges c). \<not> overlaps_registered start (start + sz) kv)
    \<and> c' = c\<lparr>ranges := emplace_assign start
        \<lparr> range_start = start, range_size = sz,
          range_entries = predecode_pass env start (sz div 4) \<rparr> (ranges c)\<rparr>"
  using assms by (auto simp: RegisterCodeRange_def Let_def split: if_splits)

lemma register_ok_new_key:
  assumes ok: "cache_ok c" and reg: "RegisterCodeRange env start sz c = (Ok, c')"
    and fits: "unat start + unat sz < 2 ^ 64"
  shows "(start, r) \<notin> set (ranges c)"
proof
  assume mem: "(start, r) \<in> set (ranges c)"
  with ok have r: "range_ok r" "range_start r = start" by (auto simp: cache_ok_def)
  have "unat start < range_end r" using range_ok_start_lt_end [OF r(1)] r(2) by simp
  moreover have "0 < unat sz" using register_ok_elim [OF reg] by (simp add: unat_gt_0)
  ultimately have "overlaps_registered start (start + sz) (start, r)"
    using r fits by (simp add: overlaps_registered_iff range_ok_def)
  with mem show False using register_ok_elim [OF reg] by auto
qed

lemma register_ok_set:
  assumes "cache_ok c" "RegisterCodeRange env start sz c = (Ok, c')"
    and "unat start + unat sz < 2 ^ 64"
  shows "set (ranges c') = insert (start, \<lparr> range_start = start, range_size = sz,
      range_entries = predecode_pass env start (sz div 4) \<rparr>) (set (ranges c))"
  using register_ok_elim [OF assms(2)] set_emplace_assign [OF register_ok_new_key [OF assms]]
  by simp

lemma cache_ok_register_lemma:
  assumes ok: "cache_ok c" and fits: "unat start + unat sz < 2 ^ 64"
  shows "cache_ok (snd (RegisterCodeRange env start sz c))"
proof (cases "fst (RegisterCodeRange env start sz c) = Ok")
  case False
  then show ?thesis using ok by (simp add: cache_ok_def register_fail_ranges)
next
  case True
  obtain c' where reg: "RegisterCodeRange env start sz c = (Ok, c')"
    using True by (metis prod.collapse)
  let ?r = "\<lparr> range_start = start, range_size = sz,
      range_entries = predecode_pass env start (sz div 4) \<rparr>"
  note el = register_ok_elim [OF reg]
  have new: "range_ok ?r" using el fits by (simp add: range_ok_def range_end_def)
  have old: "fst kv = range_start (snd kv) \<and> range_ok (snd kv)" if "kv \<in> set (ranges c)" for kv
    using ok that by (simp add: cache_ok_def)
  have dis: "range_end ?r \<le> unat (range_start (snd kv)) \<or> range_end (snd kv) \<le> unat (range_start ?r)"
    if "kv \<in> set (ranges c)" for kv
    using el old [OF that] that fits
    by (cases kv) (auto simp: overlaps_registered_iff range_ok_def range_end_def not_less)
  have "sorted_wrt before (emplace_assign start ?r (ranges c))"
    using ok old new dis by (intro sorted_emplace_assign) (auto simp: cache_ok_def)
  moreover have "\<forall>kv \<in> set (ranges c'). fst kv = range_start (snd kv) \<and> range_ok (snd kv)"
    using old new by (auto simp: register_ok_set [OF ok reg fits])
  ultimately show ?thesis using el reg by (simp add: cache_ok_def)
qed

subsection \<open>Lookup\<close>

lemma FindRange_member:
  assumes ok: "cache_ok c" and mem: "(k, r) \<in> set (ranges c)" and pc: "in_range pc r"
  shows "FindRange c pc = Some r"
proof -
  from mem obtain xs ys where split: "ranges c = xs @ (k, r) # ys" by (auto simp: in_set_conv_decomp)
  have r: "range_ok r" "k = range_start r" using ok mem by (auto simp: cache_ok_def)
  have sorted: "sorted_wrt before (xs @ (k, r) # ys)"
    using ok unfolding cache_ok_def split by blast
  have low: "\<not> pc < fst kv" if "kv \<in> set xs" for kv
  proof -
    have "before kv (k, r)" "fst kv = range_start (snd kv)" "range_ok (snd kv)"
      using sorted that ok by (auto simp: sorted_wrt_append cache_ok_def split)
    then have "unat (fst kv) < unat (range_start r)"
      using range_ok_start_lt_end [of "snd kv"] by (simp add: before_def)
    then show ?thesis using pc by (simp add: in_range_def word_less_nat_alt)
  qed
  have high: "pc < fst kv" if "kv \<in> set ys" for kv
  proof -
    have "before (k, r) kv" "fst kv = range_start (snd kv)"
      using sorted that ok by (auto simp: sorted_wrt_append cache_ok_def split)
    then show ?thesis using pc by (simp add: before_def in_range_def word_less_nat_alt)
  qed
  have "takeWhile (\<lambda>kv. \<not> pc < fst kv) ys = []"
    using high by (cases ys) auto
  moreover have "\<not> pc < k" using pc by (simp add: r in_range_def word_less_nat_alt)
  ultimately have "takeWhile (\<lambda>kv. \<not> pc < fst kv) (ranges c) = xs @ [(k, r)]"
    using low by (simp add: split takeWhile_append2)
  then show ?thesis
    using in_range_diff_iff [of r pc] pc r by (simp add: FindRange_def range_ok_def)
qed

lemma FindRange_sound:
  assumes ok: "cache_ok c" and found: "FindRange c pc = Some r"
  shows "(range_start r, r) \<in> set (ranges c) \<and> in_range pc r \<and> range_ok r"
proof -
  let ?below = "takeWhile (\<lambda>kv. \<not> pc < fst kv) (ranges c)"
  from found have ne: "?below \<noteq> []" and r: "r = snd (last ?below)"
    and diff: "pc - range_start r < range_size r"
    by (auto simp: FindRange_def Let_def split: if_splits)
  from ne have "last ?below \<in> set ?below" by simp
  then have mem: "last ?below \<in> set (ranges c)" and le: "\<not> pc < fst (last ?below)"
    using set_takeWhileD by fast+
  with ok have "fst (last ?below) = range_start r" "range_ok r" by (auto simp: cache_ok_def r)
  moreover have "(fst (last ?below), r) \<in> set (ranges c)" using mem by (simp add: r)
  ultimately show ?thesis
    using diff le in_range_diff_iff [of r pc] by (auto simp: range_ok_def not_less)
qed

lemma FindRange_iff:
  assumes "cache_ok c"
  shows "FindRange c pc = Some r \<longleftrightarrow> (range_start r, r) \<in> set (ranges c) \<and> in_range pc r"
  using FindRange_member [OF assms] FindRange_sound [OF assms] by blast

lemma FindRange_None_iff:
  assumes "cache_ok c"
  shows "FindRange c pc = None \<longleftrightarrow> (\<forall>kv \<in> set (ranges c). \<not> in_range pc (snd kv))"
proof
  assume "FindRange c pc = None"
  then show "\<forall>kv \<in> set (ranges c). \<not> in_range pc (snd kv)"
    using FindRange_member [OF assms] by fastforce
next
  assume *: "\<forall>kv \<in> set (ranges c). \<not> in_range pc (snd kv)"
  show "FindRange c pc = None"
  proof (rule ccontr)
    assume "FindRange c pc \<noteq> None"
    then obtain r where "FindRange c pc = Some r" by auto
    with FindRange_sound [OF assms this] * show False by force
  qed
qed

lemma entry_index_less:
  assumes r: "range_ok r" and pc: "in_range pc r"
  shows "unat ((pc - range_start r) div 4) < length (range_entries r)"
proof -
  have "pc - range_start r < range_size r"
    using in_range_diff_iff [of r pc] r pc by (auto simp: range_ok_def)
  then have "unat (pc - range_start r) < unat (range_size r)" by (simp add: word_less_nat_alt)
  moreover have "unat (range_size r) mod 4 = 0"
  proof -
    have "unat (range_size r mod 4) = 0" using r by (simp add: range_ok_def)
    then show ?thesis by (simp only: unat_mod) simp
  qed
  then obtain m where "unat (range_size r) = 4 * m" by auto
  ultimately have "unat (pc - range_start r) div 4 < unat (range_size r) div 4"
    by (simp add: div_less_iff_less_mult)
  then show ?thesis using r by (simp add: range_ok_def unat_div)
qed

lemma lookup_entry_Some_iff:
  assumes "cache_ok c"
  shows "lookup_entry c pc = Some e \<longleftrightarrow>
    (\<exists>r. (range_start r, r) \<in> set (ranges c) \<and> in_range pc r \<and> e = entry_in r pc)"
  by (auto simp: lookup_entry_def FindRange_iff [OF assms])

lemma entry_in_fresh:
  fixes start sz pc :: u64 and env :: "'v predecode_env"
  defines "r \<equiv> \<lparr> range_start = start, range_size = sz,
      range_entries = predecode_pass env start (sz div 4) \<rparr>"
  assumes r: "range_ok r" and pc: "in_range pc r" and al: "pc mod 4 = 0"
  shows "entry_in r pc = predecode_entry env pc"
proof -
  let ?i = "unat ((pc - start) div 4)"
  have i: "?i < unat (sz div 4)"
    using entry_index_less [OF r pc] by (simp add: r_def)
  have "start \<le> pc" using pc by (simp add: r_def in_range_def word_le_nat_alt)
  then have d: "unat (pc - start) = unat pc - unat start" by (rule unat_sub)
  have m: "unat pc mod 4 = 0" "unat start mod 4 = 0"
    using al r by (simp_all add: r_def range_ok_def word_mod_def [symmetric] flip: unat_eq_0)
      (simp_all add: unat_mod)
  have "unat (pc - start) mod 4 = 0"
    unfolding d using m by (simp add: mod_eq_0_iff_dvd)
  then have "unat ((pc - start) div 4) * 4 = unat (pc - start)"
    by (simp add: unat_div mod_eq_0_iff_dvd)
  then have "of_nat (?i * 4) = (of_nat (unat (pc - start)) :: u64)" by (rule arg_cong)
  then have "of_nat ?i * 4 = pc - start" by simp
  then have "start + of_nat ?i * 4 = pc" by simp
  then show ?thesis
    using i by (simp add: entry_in_def r_def predecode_pass_def)
qed

text \<open>After a successful registration every word of the range is found, with the entry the pass built.\<close>

lemma lookup_after_register:
  assumes ok: "cache_ok c" and reg: "RegisterCodeRange env start sz c = (Ok, c')"
    and fits: "unat start + unat sz < 2 ^ 64"
    and pc: "unat start \<le> unat pc" "unat pc < unat start + unat sz" "pc mod 4 = 0"
  shows "lookup_entry c' pc = Some (predecode_entry env pc)"
proof -
  let ?r = "\<lparr> range_start = start, range_size = sz,
      range_entries = predecode_pass env start (sz div 4) \<rparr>"
  have ok': "cache_ok c'" using cache_ok_register_lemma [OF ok fits, of env] reg by simp
  have mem: "(start, ?r) \<in> set (ranges c')" using register_ok_set [OF ok reg fits] by simp
  then have r: "range_ok ?r" using ok' by (fastforce simp: cache_ok_def)
  have inr: "in_range pc ?r" using pc by (simp add: in_range_def range_end_def)
  have "FindRange c' pc = Some ?r" by (rule FindRange_member [OF ok' mem inr])
  then show ?thesis using entry_in_fresh [OF r inr pc(3)] by (simp add: lookup_entry_def)
qed

lemma lookup_register_keeps:
  assumes ok: "cache_ok c" and fits: "unat start + unat sz < 2 ^ 64"
    and old: "lookup_entry c pc = Some e"
  shows "lookup_entry (snd (RegisterCodeRange env start sz c)) pc = Some e"
proof (cases "fst (RegisterCodeRange env start sz c) = Ok")
  case True
  obtain c' where reg: "RegisterCodeRange env start sz c = (Ok, c')"
    using True by (metis prod.collapse)
  have "cache_ok c'" using cache_ok_register_lemma [OF ok fits, of env] reg by simp
  with old show ?thesis
    using register_ok_set [OF ok reg fits] by (auto simp: reg lookup_entry_Some_iff ok)
next
  case False
  then have "ranges (snd (RegisterCodeRange env start sz c)) = ranges c" by (rule register_fail_ranges)
  with old show ?thesis by (simp add: lookup_entry_def FindRange_def)
qed

section \<open>The table as an append-only interface\<close>

text \<open>
  What the execution side relies on: a table that can be looked up and added to,
  where adding keeps the table well formed and never changes what was found
  before.
\<close>

locale append_only_table =
  fixes ok :: "'t \<Rightarrow> bool"
    and find :: "'t \<Rightarrow> 'k \<Rightarrow> 'e option"
    and add :: "'r \<Rightarrow> 't \<Rightarrow> 't"
    and admissible :: "'r \<Rightarrow> bool"
  assumes add_ok: "ok t \<Longrightarrow> admissible r \<Longrightarrow> ok (add r t)"
    and add_keeps: "ok t \<Longrightarrow> admissible r \<Longrightarrow> find t k = Some e \<Longrightarrow> find (add r t) k = Some e"
begin

lemma adds_ok: "ok t \<Longrightarrow> list_all admissible rs \<Longrightarrow> ok (fold add rs t)"
  by (induction rs arbitrary: t) (auto intro: add_ok)

lemma adds_keep:
  "ok t \<Longrightarrow> list_all admissible rs \<Longrightarrow> find t k = Some e \<Longrightarrow> find (fold add rs t) k = Some e"
  by (induction rs arbitrary: t) (auto intro: add_ok add_keeps)

end

text \<open>A registration request: the surroundings at the time of the call, and its arguments.\<close>

record 'v registration =
  rq_env :: "'v predecode_env"
  rq_start :: u64
  rq_size :: u64

definition register_request :: "'v registration \<Rightarrow> 'v PredecodeCache \<Rightarrow> 'v PredecodeCache" where
  "register_request q c = snd (RegisterCodeRange (rq_env q) (rq_start q) (rq_size q) c)"

definition below_top :: "'v registration \<Rightarrow> bool" where
  "below_top q \<longleftrightarrow> unat (rq_start q) + unat (rq_size q) < 2 ^ 64"

definition register_all :: "'v registration list \<Rightarrow> 'v PredecodeCache \<Rightarrow> 'v PredecodeCache" where
  "register_all = fold register_request"

interpretation cache_table: append_only_table cache_ok lookup_entry register_request below_top
  by unfold_locales
    (auto simp: register_request_def below_top_def
      intro: cache_ok_register_lemma lookup_register_keeps)

section \<open>Properties\<close>

text \<open>C3: Every sequence of registrations of ranges that end below the top of the address space, successful
  or refused, keeps the range table well formed: sorted by start, ranges disjoint, aligned and not empty,
  one entry per word.  (A range that ends at the top defeats the overlap check, as the last theorem
  of this theory shows.)\<close>

theorem register_all_keeps_cache_ok:
  assumes "cache_ok c" "\<forall>q \<in> set qs. below_top q"
  shows "cache_ok (register_all qs c)"
  unfolding register_all_def
  by (rule cache_table.adds_ok) (use assms in \<open>auto simp: list_all_iff\<close>)

definition sample_env :: "u32 predecode_env" where
  "sample_env = \<lparr> decode = (\<lambda>bits. \<lparr> is_available = True, is_unallocated = (bits = 0), form_hash_of = bits \<rparr>),
     code_at = (\<lambda>a. ucast a), resolve = (\<lambda>h. if h = 8 then None else Some h),
     entries_alloc = (\<lambda>n. n < 1000), node_alloc = (\<lambda>a. True) \<rparr>"

definition sample_requests :: "u32 registration list" where
  "sample_requests =
     [\<lparr> rq_env = sample_env, rq_start = 0x1000, rq_size = 8 \<rparr>,
      \<lparr> rq_env = sample_env, rq_start = 0x1004, rq_size = 8 \<rparr>,
      \<lparr> rq_env = sample_env, rq_start = 0x0800, rq_size = 4 \<rparr>]"

theorem register_all_keeps_cache_ok_witness:
  "cache_ok (register_all sample_requests empty_cache)"
  by (rule register_all_keeps_cache_ok) (simp_all add: sample_requests_def below_top_def)



text \<open>C8: The cache is append-only below the top of the address space: an address that has an entry keeps
  that entry through any later sequence of registrations of ranges that end below the top, whatever
  their outcome.  (A range that ends at the top can be registered again with other entries.)\<close>

theorem registered_entry_is_stable:
  assumes "cache_ok c" "\<forall>q \<in> set qs. below_top q" "lookup_entry c pc = Some e"
  shows "lookup_entry (register_all qs c) pc = Some e"
  unfolding register_all_def
  by (rule cache_table.adds_keep) (use assms in \<open>auto simp: list_all_iff\<close>)

theorem registered_entry_is_stable_witness:
  "lookup_entry (register_all (tl sample_requests) (register_all [hd sample_requests] empty_cache)) 0x1004
     = Some \<lparr> entry_form_hash = 0x1004, entry_flags = 0, entry_leaf = FormLeaf 0x1004 \<rparr>"
proof (rule registered_entry_is_stable)
  show "cache_ok (register_all [hd sample_requests] empty_cache)"
    unfolding register_all_def
    by (rule cache_table.adds_ok) (simp_all add: sample_requests_def below_top_def)
  show "\<forall>q \<in> set (tl sample_requests). below_top q"
    by (simp add: sample_requests_def below_top_def)
  have "RegisterCodeRange sample_env 0x1000 8 empty_cache =
      (Ok, register_all [hd sample_requests] empty_cache)"
    by (simp add: register_all_def register_request_def sample_requests_def
        RegisterCodeRange_def Let_def sample_env_def empty_cache_def)
  from lookup_after_register [OF cache_ok_empty this, where pc = "0x1004"]
  show "lookup_entry (register_all [hd sample_requests] empty_cache) 0x1004
     = Some \<lparr> entry_form_hash = 0x1004, entry_flags = 0, entry_leaf = FormLeaf 0x1004 \<rparr>"
    by (simp add: predecode_entry_def sample_env_def IsBtiRelevant_def IsBti_def IsPAuth_def
        IsException_def Mask_def)
qed

text \<open>The outcome of a registration, as a decision over the arguments: a bad size or a
  misaligned start is \<open>InvalidArgument\<close>, a byte shared with a registered range is
  \<open>OverlappingRange\<close>, a failed allocation is \<open>OutOfMemory\<close>, and everything else succeeds.
  In particular \<open>UnsupportedFeature\<close> is never returned.\<close>

theorem register_status_decision:
  assumes ok: "cache_ok c" and fits: "unat start + unat sz < 2 ^ 64"
  shows "fst (RegisterCodeRange env start sz c) =
    (if sz = 0 \<or> sz mod 4 \<noteq> 0 \<or> start mod 4 \<noteq> 0 then InvalidArgument
     else if \<exists>kv \<in> set (ranges c). span_meets start sz (snd kv) then OverlappingRange
     else if entries_alloc env (sz div 4) \<and> node_alloc env start then Ok
     else OutOfMemory)"
proof (cases "sz = 0")
  case True
  then show ?thesis by (simp add: RegisterCodeRange_def)
next
  case False
  note exact = overlap_check_exact [OF ok fits False]
  show ?thesis
    unfolding RegisterCodeRange_def Let_def exact
    by simp
qed

theorem register_status_decision_witness:
  "fst (RegisterCodeRange sample_env 0x1000 6 empty_cache) = InvalidArgument"
  using register_status_decision [of empty_cache "0x1000" 6 sample_env] by simp

text \<open>The binary search of \<open>FindRange\<close> returns the range a linear scan of the table for
  the address would return, and nothing when no registered range holds the address.\<close>

theorem FindRange_is_linear_search:
  assumes ok: "cache_ok c"
  shows "FindRange c pc = map_option snd (List.find (\<lambda>kv. in_range pc (snd kv)) (ranges c))"
proof (cases "List.find (\<lambda>kv. in_range pc (snd kv)) (ranges c)")
  case None
  then have "\<forall>kv \<in> set (ranges c). \<not> in_range pc (snd kv)" by (auto simp: find_None_iff)
  with None show ?thesis using FindRange_None_iff [OF ok] by simp
next
  case (Some kv)
  then have "kv \<in> set (ranges c)" "in_range pc (snd kv)" by (auto dest: find_Some_mem)
  then show ?thesis using FindRange_member [OF ok, of "fst kv" "snd kv" pc] Some by simp
qed

theorem FindRange_is_linear_search_witness:
  "FindRange (register_all sample_requests empty_cache) 0x0802 =
     map_option snd (List.find (\<lambda>kv. in_range 0x0802 (snd kv))
       (ranges (register_all sample_requests empty_cache)))"
proof (rule FindRange_is_linear_search)
  show "cache_ok (register_all sample_requests empty_cache)"
    unfolding register_all_def
    by (rule cache_table.adds_ok) (simp_all add: sample_requests_def below_top_def)
qed

text \<open>A registration that does not return \<open>Ok\<close> leaves the table exactly as it was (all or
  nothing: every lookup answers as before) and records its status as the last error.\<close>

theorem register_failure_changes_nothing:
  assumes "RegisterCodeRange env start sz c = (st, c')" "st \<noteq> Ok"
  shows "ranges c' = ranges c \<and> FindRange c' = FindRange c
    \<and> err_status (GetLastRegistrationError c') = st"
  using register_fail_ranges [of env start sz c] register_fail_error [of env start sz c st] assms
  by (auto simp: FindRange_def GetLastRegistrationError_def fun_eq_iff)

theorem register_failure_changes_nothing_witness:
  "err_status (GetLastRegistrationError
     (snd (RegisterCodeRange sample_env 0x1002 8 empty_cache))) = InvalidArgument"
  using register_failure_changes_nothing
    [of sample_env "0x1002" 8 empty_cache InvalidArgument
      "snd (RegisterCodeRange sample_env 0x1002 8 empty_cache)"]
  by (simp add: RegisterCodeRange_def prod_eq_iff)

text \<open>The overlap check computes range ends modulo \<open>2 ^ 64\<close>: a range that ends at the top
  of the address space is accepted a second time, and the second registration replaces the
  entries of the first, so the append-only promise needs ranges that end below the top.\<close>

definition top_word :: u64 where
  "top_word = 0xFFFFFFFFFFFFFFFC"

theorem range_ending_at_top_registers_twice:
  "let c1 = snd (RegisterCodeRange sample_env top_word 4 empty_cache);
       env2 = sample_env\<lparr>code_at := (\<lambda>a. 0)\<rparr>;
       c2 = snd (RegisterCodeRange env2 top_word 4 c1)
   in fst (RegisterCodeRange env2 top_word 4 c1) = Ok
      \<and> length (ranges c2) = 1 \<and> lookup_entry c1 top_word \<noteq> lookup_entry c2 top_word"
  by (simp add: RegisterCodeRange_def Let_def sample_env_def empty_cache_def top_word_def
      overlaps_registered_def predecode_pass_def predecode_entry_def lookup_entry_def
      FindRange_def entry_in_def)

end
