(* ===== verification/Sim_State.thy ===== *)
theory Sim_State
  imports Predecode_Cache
begin

text \<open>
  The state of the VIXL simulator class (\<open>src/aarch64/simulator-aarch64.{h,cc}\<close>):
  general and vector registers, the NZCV and FPCR system registers, program
  counter and branch-type state, the exclusive monitors, host memory with the
  simulated stack and MTE tags, the guarded control stack, and the fields the
  embedding adds (predecode cache, cached range, branch hook, write sink).
  Vector registers have the default length of 128 bits that the constructor
  sets.  Trace output is not part of the state.
\<close>

section \<open>Aborts\<close>

text \<open>The conditions under which the simulator stops with a message.\<close>

datatype abort =
    WrongBType
  | PcNotRegistered u64
  | HookMisalignedPc
  | UnallocatedInstruction u64
  | UnimplementedInstruction u64
  | StackGuardRead
  | StackGuardWrite
  | TagMismatch
  | UntaggedMemory u64
  | AlignmentException
  | MovprfxCheck
  | FeatureCheck
  | PointerAuthFailure
  | GcsFailure string
  | StackTooSmall
  | InvalidSpanElement nat
  | RegisterIndex nat
  | EmptyCache
  | UnreachableCode
  | HostAbort string

section \<open>System registers\<close>

record SimSystemRegister =
  sr_value :: u32
  sr_write_ignore_mask :: u32

definition sr_default :: "u32 \<Rightarrow> SimSystemRegister" where
  "sr_default m = \<lparr> sr_value = 0, sr_write_ignore_mask = NOT m \<rparr>"

text \<open>\<open>DefaultValueFor\<close>: only the flags of NZCV, only AHP, DN, FZ and RMode of FPCR are writable.\<close>

definition NZCV_default :: SimSystemRegister where
  "NZCV_default = sr_default 0xF0000000"

definition FPCR_default :: SimSystemRegister where
  "FPCR_default = sr_default 0x07C00000"

definition SetRawValue :: "u32 \<Rightarrow> SimSystemRegister \<Rightarrow> SimSystemRegister" where
  "SetRawValue new_value r =
     r\<lparr>sr_value := (sr_value r AND sr_write_ignore_mask r) OR (new_value AND NOT (sr_write_ignore_mask r))\<rparr>"

definition GetRawValue :: "SimSystemRegister \<Rightarrow> u32" where
  "GetRawValue r = sr_value r"

definition SetBits :: "nat \<Rightarrow> nat \<Rightarrow> u32 \<Rightarrow> SimSystemRegister \<Rightarrow> SimSystemRegister" where
  "SetBits msb lsb bits r =
     (let width = msb - lsb + 1;
          b = push_bit lsb bits;
          m = push_bit lsb (push_bit width 1 - 1)
      in r\<lparr>sr_value := (sr_value r AND NOT m) OR (b AND m)\<rparr>)"

definition sr_field :: "nat \<Rightarrow> nat \<Rightarrow> SimSystemRegister \<Rightarrow> u32" where
  "sr_field msb lsb r = ExtractUnsignedBitfield32 msb lsb (ucast (sr_value r))"

section \<open>Branch types\<close>

datatype BType =
  DefaultBType | BranchFromUnguardedOrToIP | BranchAndLink | BranchFromGuardedNotToIP

section \<open>The simulated stack\<close>

text \<open>The allocation behind the stack: where the data lies, and its two limits.\<close>

record SimStackAllocated =
  data_start :: u64
  alloc_size :: u64
  stack_limit :: u64
  stack_base :: u64

record SimStack =
  base_guard_size :: u64
  limit_guard_size :: u64
  usable_size :: u64
  align_log2 :: nat

definition default_SimStack :: SimStack where
  "default_SimStack = \<lparr> base_guard_size = 256, limit_guard_size = 4 * 1024,
     usable_size = 8 * 1024, align_log2 = 4 \<rparr>"

text \<open>
  \<open>Allocate\<close>: \<open>data\<close> is the address of the fresh allocation;
  \<open>std::align\<close> moves it up to the alignment and shrinks the space by as much.
\<close>

definition Allocate :: "u64 \<Rightarrow> SimStack \<Rightarrow> SimStackAllocated" where
  "Allocate data st =
     (let align_to = push_bit (align_log2 st) 1;
          l = AlignUp (limit_guard_size st) align_to;
          u = AlignUp (usable_size st) align_to;
          b = AlignUp (base_guard_size st) align_to;
          sz = l + u + b;
          alloc = (align_to - 1) + sz;
          data_aligned = AlignUp data align_to
      in \<lparr> data_start = data, alloc_size = alloc - (data_aligned - data),
           stack_limit = data_aligned + l - 1, stack_base = data_aligned + l + u \<rparr>)"

text \<open>Inclusive bounds, as in the code.\<close>

definition IsAccessInGuardRegion :: "SimStackAllocated \<Rightarrow> u64 \<Rightarrow> u64 \<Rightarrow> bool" where
  "IsAccessInGuardRegion st base sz =
     (let start = base;
          last = start + sz - 1;
          data_end = data_start st + alloc_size st - 1;
          in_base_guard = (start \<le> data_end \<and> stack_base st \<le> last);
          in_limit_guard = (start \<le> stack_limit st \<and> data_start st \<le> last)
      in in_base_guard \<or> in_limit_guard)"

section \<open>Exclusive monitors\<close>

record SimExclusiveLocalMonitor =
  lm_address :: u64
  lm_size :: u64
  lm_seed :: u32

record SimExclusiveGlobalMonitor =
  gm_seed :: u32

text \<open>The state of the write sink: the writes recorded since it was attached, oldest first.\<close>

record MemoryWriteRecord =
  mw_addr :: u64
  mw_size :: nat
  mw_lo :: u64
  mw_hi :: u64

section \<open>The simulator\<close>

text \<open>
  One record holds the imported simulator and, in the four fields from \<open>busy\<close> to
  \<open>fpsr_storage\<close>, what the wrapper \<open>gaby_vm::Simulator\<close> keeps beside it: whether an
  execution call is in progress, the trace mask in effect and the configured one,
  and the slot for FPSR.  A branch hook gets the wrapper, so it can reach all of it.
  Three fields are not members of the simulator but belong to the host process, of which the
  record holds what this simulator sees: the memory, the switch of the tag checks
  (\<open>MetaDataMTE::is_active\<close>, static) and the vector of guarded control stacks (a static
  \<open>GCSManager\<close>).  Where two simulators live in one process, the shadow runner, each gets them as the
  other one left them.
\<close>

record 'v vsim =
  xregs :: "nat \<Rightarrow> u64"
  vregs :: "nat \<Rightarrow> u128"
  nzcv :: SimSystemRegister
  fpcr :: SimSystemRegister
  pc_reg :: u64
  pc_modified :: bool
  btype :: BType
  next_btype :: BType
  last_instr :: u64
  form_hash :: u32
  guard_pages :: bool
  memory :: "u64 \<Rightarrow> u8"
  stack :: SimStackAllocated
  mte_active :: bool
  mte_tags :: "u64 \<rightharpoonup> nat"
  local_monitor :: SimExclusiveLocalMonitor
  global_monitor :: SimExclusiveGlobalMonitor
  gcs_stack :: "u64 list"
  gcs_valid :: bool
  gcs_live :: bool
  gcs_token :: u64
  gcs_stacks :: "u64 list option list"
  gcs_enabled :: bool
  write_sink :: "MemoryWriteRecord list option"
  predecode_cache :: "'v PredecodeCache option"
  cur_range :: "u64 option"
  branch_hook :: "nat option"
  busy :: bool
  vixl_trace :: u32
  trace_parameters :: u32
  fpsr_storage :: u32
  rand_gen :: u64

section \<open>General registers\<close>

definition ReadRegister :: "nat \<Rightarrow> reg31_mode \<Rightarrow> 'v vsim \<Rightarrow> 'a::len word" where
  "ReadRegister code r31mode s =
     (if code = 31 \<and> r31mode = Reg31IsZeroRegister then 0
      else let c = (if r31mode = Reg31IsZeroRegister \<and> code = 63 then 31 else code)
           in ucast (xregs s c))"

abbreviation ReadWRegister :: "nat \<Rightarrow> 'v vsim \<Rightarrow> u32" where
  "ReadWRegister code s \<equiv> ReadRegister code Reg31IsZeroRegister s"

abbreviation ReadXRegister :: "nat \<Rightarrow> 'v vsim \<Rightarrow> u64" where
  "ReadXRegister code s \<equiv> ReadRegister code Reg31IsZeroRegister s"

text \<open>The sized accessor: \<open>reg_size\<close> is \<open>kWRegSize\<close> or \<open>kXRegSize\<close>.\<close>

definition ReadRegisterSized :: "nat \<Rightarrow> nat \<Rightarrow> reg31_mode \<Rightarrow> 'v vsim \<Rightarrow> u64" where
  "ReadRegisterSized reg_size code r31mode s =
     (if reg_size = 32 then ucast (ReadRegister code r31mode s :: u32)
      else ReadRegister code r31mode s)"

text \<open>
  Writing a 32- or 64-bit value: the register file is indexed modulo the number
  of registers, and a 32-bit value is zero-extended.
\<close>

definition WriteRegister :: "nat \<Rightarrow> 'a::len word \<Rightarrow> reg31_mode \<Rightarrow> 'v vsim \<Rightarrow> 'v vsim" where
  "WriteRegister code v r31mode s =
     (if code = 31 \<and> r31mode = Reg31IsZeroRegister then s
      else let c = (if code = 31 then 63 else code)
           in s\<lparr>xregs := (xregs s)(c mod 32 := ucast v)\<rparr>)"

text \<open>
  Writing a type narrower than a W register: the C cast to \<open>int64_t\<close> keeps the
  value, so a signed type is sign-extended into the W register and an unsigned
  one zero-extended.
\<close>

definition WriteRegisterNarrowSigned :: "nat \<Rightarrow> 'a::len word \<Rightarrow> 'v vsim \<Rightarrow> 'v vsim" where
  "WriteRegisterNarrowSigned code v s =
     WriteRegister code (ucast (scast v :: u64) :: u32) Reg31IsZeroRegister s"

definition WriteRegisterNarrowUnsigned :: "nat \<Rightarrow> 'a::len word \<Rightarrow> 'v vsim \<Rightarrow> 'v vsim" where
  "WriteRegisterNarrowUnsigned code v s =
     WriteRegister code (ucast (ucast v :: u64) :: u32) Reg31IsZeroRegister s"

abbreviation WriteWRegister :: "nat \<Rightarrow> u32 \<Rightarrow> 'v vsim \<Rightarrow> 'v vsim" where
  "WriteWRegister code v s \<equiv> WriteRegister code v Reg31IsZeroRegister s"

abbreviation WriteXRegister :: "nat \<Rightarrow> u64 \<Rightarrow> 'v vsim \<Rightarrow> 'v vsim" where
  "WriteXRegister code v s \<equiv> WriteRegister code v Reg31IsZeroRegister s"

definition WriteRegisterSized :: "nat \<Rightarrow> nat \<Rightarrow> u64 \<Rightarrow> reg31_mode \<Rightarrow> 'v vsim \<Rightarrow> 'v vsim" where
  "WriteRegisterSized reg_size code raw r31mode s =
     (if reg_size = 32 then WriteRegister code (ucast raw :: u32) r31mode s
      else WriteRegister code raw r31mode s)"

definition WriteLr :: "u64 \<Rightarrow> 'v vsim \<Rightarrow> 'v vsim" where
  "WriteLr v s = WriteRegister 30 v Reg31IsZeroRegister s"

definition WriteSp :: "u64 \<Rightarrow> 'v vsim \<Rightarrow> 'v vsim" where
  "WriteSp v s = WriteRegister 31 v Reg31IsStackPointer s"

section \<open>Vector registers\<close>

text \<open>Reading takes the low part; writing clears the rest of the register.\<close>

definition ReadVRegister :: "nat \<Rightarrow> 'v vsim \<Rightarrow> 'a::len word" where
  "ReadVRegister code s = ucast (vregs s code)"

definition WriteVRegister :: "nat \<Rightarrow> 'a::len word \<Rightarrow> 'v vsim \<Rightarrow> 'v vsim" where
  "WriteVRegister code v s = s\<lparr>vregs := (vregs s)(code := ucast v)\<rparr>"

section \<open>Flags\<close>

definition ReadN :: "'v vsim \<Rightarrow> bool" where "ReadN s = (sr_field 31 31 (nzcv s) \<noteq> 0)"
definition ReadZ :: "'v vsim \<Rightarrow> bool" where "ReadZ s = (sr_field 30 30 (nzcv s) \<noteq> 0)"
definition ReadC :: "'v vsim \<Rightarrow> bool" where "ReadC s = (sr_field 29 29 (nzcv s) \<noteq> 0)"
definition ReadV :: "'v vsim \<Rightarrow> bool" where "ReadV s = (sr_field 28 28 (nzcv s) \<noteq> 0)"

definition SetN :: "u32 \<Rightarrow> 'v vsim \<Rightarrow> 'v vsim" where "SetN b s = s\<lparr>nzcv := SetBits 31 31 b (nzcv s)\<rparr>"
definition SetZ :: "u32 \<Rightarrow> 'v vsim \<Rightarrow> 'v vsim" where "SetZ b s = s\<lparr>nzcv := SetBits 30 30 b (nzcv s)\<rparr>"
definition SetC :: "u32 \<Rightarrow> 'v vsim \<Rightarrow> 'v vsim" where "SetC b s = s\<lparr>nzcv := SetBits 29 29 b (nzcv s)\<rparr>"
definition SetV :: "u32 \<Rightarrow> 'v vsim \<Rightarrow> 'v vsim" where "SetV b s = s\<lparr>nzcv := SetBits 28 28 b (nzcv s)\<rparr>"
definition SetFlags :: "u32 \<Rightarrow> 'v vsim \<Rightarrow> 'v vsim" where "SetFlags b s = s\<lparr>nzcv := SetBits 31 28 b (nzcv s)\<rparr>"

text \<open>Condition codes, by their encoding; \<open>al\<close> and \<open>nv\<close> always pass.\<close>

definition ConditionPassed :: "u32 \<Rightarrow> 'v vsim \<Rightarrow> bool" where
  "ConditionPassed cond s =
     (if cond = 0 then ReadZ s
      else if cond = 1 then \<not> ReadZ s
      else if cond = 2 then ReadC s
      else if cond = 3 then \<not> ReadC s
      else if cond = 4 then ReadN s
      else if cond = 5 then \<not> ReadN s
      else if cond = 6 then ReadV s
      else if cond = 7 then \<not> ReadV s
      else if cond = 8 then ReadC s \<and> \<not> ReadZ s
      else if cond = 9 then \<not> (ReadC s \<and> \<not> ReadZ s)
      else if cond = 10 then ReadN s = ReadV s
      else if cond = 11 then ReadN s \<noteq> ReadV s
      else if cond = 12 then \<not> ReadZ s \<and> ReadN s = ReadV s
      else if cond = 13 then \<not> (\<not> ReadZ s \<and> ReadN s = ReadV s)
      else True)"

definition ConditionFailed :: "u32 \<Rightarrow> 'v vsim \<Rightarrow> bool" where
  "ConditionFailed cond s = (\<not> ConditionPassed cond s)"

definition InvertCondition :: "u32 \<Rightarrow> u32" where
  "InvertCondition cond = cond XOR 1"

section \<open>Program counter and branch type\<close>

definition AddressUntag :: "u64 \<Rightarrow> u64" where
  "AddressUntag address = address AND NOT 0xff00000000000000"

definition IsSimulationFinished :: "'v vsim \<Rightarrow> bool" where
  "IsSimulationFinished s = (pc_reg s = 0)"

definition WritePc :: "u64 \<Rightarrow> 'v vsim \<Rightarrow> 'v vsim" where
  "WritePc new_pc s = s\<lparr>pc_reg := AddressUntag new_pc, pc_modified := True\<rparr>"

definition IncrementPc :: "'v vsim \<Rightarrow> 'v vsim" where
  "IncrementPc s = (if pc_modified s then s else s\<lparr>pc_reg := pc_reg s + kInstructionSize\<rparr>)"

definition WriteNextBType :: "BType \<Rightarrow> 'v vsim \<Rightarrow> 'v vsim" where
  "WriteNextBType b s = s\<lparr>next_btype := b\<rparr>"

definition UpdateBType :: "'v vsim \<Rightarrow> 'v vsim" where
  "UpdateBType s = s\<lparr>btype := next_btype s, next_btype := DefaultBType\<rparr>"

section \<open>Register and flag laws\<close>

lemma Read_WriteRegister_same:
  assumes "code < 31"
  shows "ReadRegister code m (WriteRegister code (v :: 'a::len word) m' s) = (ucast (ucast v :: u64) :: 'b::len word)"
  using assms by (simp add: ReadRegister_def WriteRegister_def)

lemma Read_WriteRegister_other [simp]:
  "code < 32 \<Longrightarrow> code' < 32 \<Longrightarrow> code \<noteq> code' \<Longrightarrow>
    ReadRegister code m (WriteRegister code' v m' s) = ReadRegister code m s"
  by (auto simp: ReadRegister_def WriteRegister_def)

lemma ReadRegister_zero [simp]: "ReadRegister 31 Reg31IsZeroRegister s = 0"
  by (simp add: ReadRegister_def)

lemma WriteRegister_zero [simp]: "WriteRegister 31 v Reg31IsZeroRegister s = s"
  by (simp add: WriteRegister_def)

lemma Read_WriteSp [simp]: "ReadRegister 31 Reg31IsStackPointer (WriteSp v s) = v"
  by (simp add: ReadRegister_def WriteSp_def WriteRegister_def)

text \<open>A W write clears the upper half of the X register.\<close>

lemma ReadX_WriteW:
  "code < 31 \<Longrightarrow> ReadXRegister code (WriteWRegister code v s) = ucast v"
  by (simp add: Read_WriteRegister_same)

lemma Read_WriteRegisterSized:
  assumes "code < 31" "reg_size = 32 \<or> reg_size = 64"
  shows "ReadXRegister code (WriteRegisterSized reg_size code v Reg31IsZeroRegister s) = take_bit reg_size v"
  using assms
  by (auto simp: WriteRegisterSized_def ReadRegister_def WriteRegister_def
      intro!: bit_word_eqI simp: bit_simps)

lemma WriteRegister_frame [frame_simps]:
  "vregs (WriteRegister c v m s) = vregs s" "nzcv (WriteRegister c v m s) = nzcv s"
  "fpcr (WriteRegister c v m s) = fpcr s" "pc_reg (WriteRegister c v m s) = pc_reg s"
  "memory (WriteRegister c v m s) = memory s" "pc_modified (WriteRegister c v m s) = pc_modified s"
  "stack (WriteRegister c v m s) = stack s" "local_monitor (WriteRegister c v m s) = local_monitor s"
  by (simp_all add: WriteRegister_def Let_def)

subsection \<open>System register fields\<close>

lemma sr_field_SetBits_flag:
  assumes "i < 32"
  shows "sr_field i i (SetBits i i b r) = b AND 1"
proof (rule word_eq_bitI)
  fix n assume "n < LENGTH(32)"
  then show "bit (sr_field i i (SetBits i i b r)) n = bit (b AND 1) n"
    using assms
    by (auto simp: sr_field_def SetBits_def Let_def ExtractUnsignedBitfield32_def bit_simps
        bit_ExtractUnsignedBitfield64)
qed

lemma sr_field_SetBits_other:
  assumes "i < 32" "j < 32" "i \<noteq> j"
  shows "sr_field i i (SetBits j j b r) = sr_field i i r"
proof (rule word_eq_bitI)
  fix n assume "n < LENGTH(32)"
  then show "bit (sr_field i i (SetBits j j b r)) n = bit (sr_field i i r) n"
    using assms
    by (auto simp: sr_field_def SetBits_def Let_def ExtractUnsignedBitfield32_def bit_simps
        bit_ExtractUnsignedBitfield64)
qed

end
