(* ===== verification/Sim_Memory.thy ===== *)
theory Sim_Memory
  imports Sim_State
begin

text \<open>
  Host memory as the simulator reaches it: byte-wise little-endian reads and
  writes, the stack guard check and the MTE tag check that come before every
  access (\<open>Memory\<close> and \<open>MetaDataDepot\<close> of \<open>simulator-aarch64.h\<close>), the
  simulator's \<open>MemRead\<close> and \<open>MemWrite\<close> with the write observer, and the two
  exclusive monitors.  In the build without implicit checks
  \<open>TryMemoryAccess\<close> always succeeds, so an access that passes the checks
  always takes place.
\<close>

section \<open>Bytes in memory\<close>

text \<open>\<open>memcpy\<close> from and to memory, \<open>n\<close> bytes, least significant byte first.\<close>

primrec read_mem :: "(u64 \<Rightarrow> u8) \<Rightarrow> u64 \<Rightarrow> nat \<Rightarrow> 'a::len word" where
  "read_mem m a 0 = 0"
| "read_mem m a (Suc n) = ucast (m a) OR push_bit 8 (read_mem m (a + 1) n)"

primrec write_mem :: "(u64 \<Rightarrow> u8) \<Rightarrow> u64 \<Rightarrow> nat \<Rightarrow> 'a::len word \<Rightarrow> (u64 \<Rightarrow> u8)" where
  "write_mem m a 0 v = m"
| "write_mem m a (Suc n) v = write_mem (m(a := ucast v)) (a + 1) n (drop_bit 8 v)"

lemma bit_read_mem:
  "bit (read_mem m a n :: 'a::len word) i \<longleftrightarrow>
    i < LENGTH('a) \<and> i < 8 * n \<and> bit (m (a + of_nat (i div 8))) (i mod 8)"
proof (induction n arbitrary: a i)
  case (Suc n)
  show ?case
  proof (cases "i < 8")
    case True
    then show ?thesis
      by (auto simp: bit_or_iff bit_push_bit_iff bit_ucast_iff)
  next
    case False
    have d: "(i - 8) div 8 = i div 8 - 1" "(i - 8) mod 8 = i mod 8" "0 < i div 8"
      using False by (auto simp: div_if mod_if)
    have "a + 1 + of_nat (i div 8 - 1) = a + (of_nat (i div 8) :: u64)"
      using d(3) by (cases "i div 8") auto
    then show ?thesis
      using False bit_word_lt [of "m a" i]
      by (auto simp: bit_or_iff bit_push_bit_iff bit_ucast_iff Suc.IH d)
  qed
qed simp

lemma write_mem_apply:
  assumes "n \<le> 2 ^ 64"
  shows "write_mem m a n v x =
    (if unat (x - a) < n then ucast (drop_bit (8 * unat (x - a)) v) else m x)"
  using assms
proof (induction n arbitrary: m a v)
  case (Suc n)
  show ?case
  proof (cases "x = a")
    case True
    have "unat (a - (a + 1)) = 2 ^ 64 - 1"
      by (simp add: unsigned_minus_1_eq_mask mask_eq_exp_minus_1)
    with Suc.prems have "\<not> unat (x - (a + 1)) < n" using True by simp
    with True Suc show ?thesis by simp
  next
    case False
    then have nz: "x - a \<noteq> 0" by simp
    have eq: "x - (a + 1) = (x - a) - 1" by simp
    have u: "unat (x - (a + 1)) = unat (x - a) - 1"
      unfolding eq by (rule unat_minus_one [OF nz])
    have "0 < unat (x - a)" using nz by (simp add: unat_gt_0)
    then obtain k where k: "unat (x - a) = Suc k" by (cases "unat (x - a)") auto
    show ?thesis
      using Suc.prems False by (simp add: Suc.IH u k drop_bit_drop_bit add.commute [of 8 "8 * k"])
  qed
qed simp

lemma read_write_mem_same:
  assumes n: "n \<le> 2 ^ 64"
  shows "read_mem (write_mem m a n v) a n = take_bit (8 * n) (v :: 'a::len word)"
proof (rule word_eq_bitI)
  fix i assume i: "i < LENGTH('a)"
  show "bit (read_mem (write_mem m a n v) a n :: 'a word) i = bit (take_bit (8 * n) v) i"
  proof (cases "i < 8 * n")
    case True
    then have d: "i div 8 < n" by auto
    with n have "unat (of_nat (i div 8) :: u64) = i div 8"
      by (simp add: unat_of_nat take_bit_nat_eq_self)
    then have "write_mem m a n v (a + of_nat (i div 8)) = ucast (drop_bit (8 * (i div 8)) v)"
      using d by (simp add: write_mem_apply [OF n])
    then show ?thesis using True i
      by (simp add: bit_read_mem bit_take_bit_iff bit_ucast_iff bit_drop_bit_eq)
  next
    case False
    then show ?thesis by (simp add: bit_read_mem bit_take_bit_iff)
  qed
qed

lemma read_write_mem_other:
  assumes "n \<le> 2 ^ 64" and dis: "\<And>j. j < k \<Longrightarrow> n \<le> unat (b + of_nat j - a)"
  shows "read_mem (write_mem m a n v) b k = (read_mem m b k :: 'b::len word)"
proof (rule word_eq_bitI)
  fix i
  show "bit (read_mem (write_mem m a n v) b k :: 'b word) i = bit (read_mem m b k :: 'b word) i"
  proof (cases "i < 8 * k")
    case True
    then have "n \<le> unat (b + of_nat (i div 8) - a)" by (intro dis) auto
    then show ?thesis by (simp add: bit_read_mem write_mem_apply [OF assms(1)])
  next
    case False
    then show ?thesis by (simp add: bit_read_mem)
  qed
qed

section \<open>Tags\<close>

definition GetAllocationTagFromAddress :: "u64 \<Rightarrow> nat" where
  "GetAllocationTagFromAddress address = unat (ExtractUnsignedBitfield64 59 56 address)"

definition GenerateMTEkey :: "u64 \<Rightarrow> u64" where
  "GenerateMTEkey address = drop_bit 4 (AddressUntag address)"

definition GetMTETag :: "u64 \<Rightarrow> 'v vsim \<Rightarrow> abort + nat" where
  "GetMTETag address s =
     (case mte_tags s (GenerateMTEkey address) of
        None \<Rightarrow> Inl (UntaggedMemory address)
      | Some tag \<Rightarrow> Inr tag)"

definition SetMTETag :: "u64 \<Rightarrow> nat \<Rightarrow> 'v vsim \<Rightarrow> 'v vsim" where
  "SetMTETag address tag s = s\<lparr>mte_tags := (mte_tags s)(GenerateMTEkey address \<mapsto> tag)\<rparr>"

definition CleanMTETag :: "u64 \<Rightarrow> 'v vsim \<Rightarrow> 'v vsim" where
  "CleanMTETag address s = s\<lparr>mte_tags := (mte_tags s)(GenerateMTEkey address := None)\<rparr>"

definition IsMTETagsMatched :: "u64 \<Rightarrow> 'v vsim \<Rightarrow> abort + bool" where
  "IsMTETagsMatched address s =
     (if mte_active s
      then map_result (\<lambda>memory_tag. GetAllocationTagFromAddress address = memory_tag)
             (GetMTETag (AddressUntag address) s)
      else Inr True)"

section \<open>Checked access\<close>

text \<open>\<open>Memory::Read\<close> and \<open>Memory::Write\<close>, at a size in bytes.\<close>

definition access_checks :: "abort \<Rightarrow> u64 \<Rightarrow> nat \<Rightarrow> 'v vsim \<Rightarrow> abort + unit" where
  "access_checks guard_abort address sz s =
     (let base = AddressUntag address in
      if IsAccessInGuardRegion (stack s) base (of_nat sz) then Inl guard_abort
      else and_then (IsMTETagsMatched address s)
             (\<lambda>matched. if \<not> matched then Inl TagMismatch else Inr ()))"

definition MemRead :: "nat \<Rightarrow> u64 \<Rightarrow> 'v vsim \<Rightarrow> abort + 'a::len word" where
  "MemRead sz address s =
     and_then (access_checks StackGuardRead address sz s)
       (\<lambda>_. Inr (read_mem (memory s) (AddressUntag address) sz))"

definition Memory_Write :: "nat \<Rightarrow> u64 \<Rightarrow> 'a::len word \<Rightarrow> 'v vsim \<Rightarrow> abort + 'v vsim" where
  "Memory_Write sz address v s =
     and_then (access_checks StackGuardWrite address sz s)
       (\<lambda>_. Inr (s\<lparr>memory := write_mem (memory s) (AddressUntag address) sz v\<rparr>))"

text \<open>
  The write observer gets every completed write: the address as the code gave it
  (tag included), the size, and the value in two halves.
\<close>

definition NotifyShadowMemoryWrite :: "nat \<Rightarrow> u64 \<Rightarrow> 'a::len word \<Rightarrow> 'v vsim \<Rightarrow> 'v vsim" where
  "NotifyShadowMemoryWrite sz address v s =
     (case write_sink s of
        None \<Rightarrow> s
      | Some ws \<Rightarrow> s\<lparr>write_sink := Some (ws @
          [\<lparr> mw_addr = address, mw_size = sz,
             mw_lo = ucast (take_bit (8 * sz) v), mw_hi = ucast (drop_bit 64 (take_bit (8 * sz) v)) \<rparr>])\<rparr>)"

definition MemWrite :: "nat \<Rightarrow> u64 \<Rightarrow> 'a::len word \<Rightarrow> 'v vsim \<Rightarrow> abort + 'v vsim" where
  "MemWrite sz address v s =
     map_result (NotifyShadowMemoryWrite sz address v) (Memory_Write sz address v s)"

section \<open>Exclusive monitors\<close>

definition lm_initial :: SimExclusiveLocalMonitor where
  "lm_initial = \<lparr> lm_address = 0, lm_size = 0, lm_seed = 0x87654321 \<rparr>"

definition gm_initial :: SimExclusiveGlobalMonitor where
  "gm_initial = \<lparr> gm_seed = 0x87654321 \<rparr>"

text \<open>The linear congruential generator of both monitors, in 32-bit arithmetic.\<close>

definition next_seed :: "u32 \<Rightarrow> u32" where
  "next_seed seed = (seed * 48271) mod 2147483647"

definition local_Clear :: "'v vsim \<Rightarrow> 'v vsim" where
  "local_Clear s = s\<lparr>local_monitor := (local_monitor s)\<lparr>lm_address := 0, lm_size := 0\<rparr>\<rparr>"

definition local_MaybeClear :: "'v vsim \<Rightarrow> 'v vsim" where
  "local_MaybeClear s =
     (let s1 = (if lm_seed (local_monitor s) mod 8 \<noteq> 0 then local_Clear s else s)
      in s1\<lparr>local_monitor := (local_monitor s1)\<lparr>lm_seed := next_seed (lm_seed (local_monitor s1))\<rparr>\<rparr>)"

definition local_MarkExclusive :: "u64 \<Rightarrow> u64 \<Rightarrow> 'v vsim \<Rightarrow> 'v vsim" where
  "local_MarkExclusive address sz s =
     s\<lparr>local_monitor := (local_monitor s)\<lparr>lm_address := address, lm_size := sz\<rparr>\<rparr>"

definition local_IsExclusive :: "u64 \<Rightarrow> u64 \<Rightarrow> 'v vsim \<Rightarrow> bool" where
  "local_IsExclusive address sz s =
     (sz = lm_size (local_monitor s) \<and> address = lm_address (local_monitor s))"

definition global_IsExclusive :: "u64 \<Rightarrow> u64 \<Rightarrow> 'v vsim \<Rightarrow> bool \<times> 'v vsim" where
  "global_IsExclusive address sz s =
     (let seed = gm_seed (global_monitor s)
      in (seed mod 8 \<noteq> 0, s\<lparr>global_monitor := \<lparr> gm_seed = next_seed seed \<rparr>\<rparr>))"

section \<open>Laws\<close>

lemma AddressUntag_bit [bit_specs]: "bit (AddressUntag a) i \<longleftrightarrow> i < 56 \<and> bit a i"
proof -
  have "(0xff00000000000000 :: u64) = push_bit 56 (mask 8)"
    by (simp add: mask_eq_exp_minus_1 push_bit_eq_mult)
  then show ?thesis
    using bit_word_lt [of a i] unfolding AddressUntag_def
    by (auto simp only: bit_and_iff bit_not_iff bit_push_bit_iff bit_mask_iff)
      (auto)
qed

lemma AddressUntag_idem [simp]: "AddressUntag (AddressUntag a) = AddressUntag a"
  by (rule bit_word_eqI) (simp add: AddressUntag_bit)

lemma MemWrite_frame [frame_simps]:
  assumes "MemWrite sz a v s = Inr s'"
  shows "xregs s' = xregs s" "vregs s' = vregs s" "nzcv s' = nzcv s" "fpcr s' = fpcr s" "pc_reg s' = pc_reg s"
    "stack s' = stack s" "mte_active s' = mte_active s" "mte_tags s' = mte_tags s"
    "local_monitor s' = local_monitor s" "global_monitor s' = global_monitor s"
    "pc_modified s' = pc_modified s" "predecode_cache s' = predecode_cache s"
  using assms
  by (auto simp: MemWrite_def Memory_Write_def NotifyShadowMemoryWrite_def split: option.splits)

lemma MemWrite_memory:
  assumes "MemWrite sz a v s = Inr s'"
  shows "memory s' = write_mem (memory s) (AddressUntag a) sz v"
  using assms
  by (auto simp: MemWrite_def Memory_Write_def NotifyShadowMemoryWrite_def split: option.splits)

lemma access_checks_cong:
  "stack s' = stack s \<Longrightarrow> mte_active s' = mte_active s \<Longrightarrow> mte_tags s' = mte_tags s \<Longrightarrow>
    access_checks e a sz s' = access_checks e a sz s"
  by (simp add: access_checks_def IsMTETagsMatched_def GetMTETag_def)

lemma access_checks_kind:
  "access_checks e a sz s = Inr () \<longleftrightarrow> access_checks e' a sz s = Inr ()"
  by (simp add: access_checks_def)

lemma MemRead_after_MemWrite:
  assumes w: "MemWrite sz a v s = Inr s'" and n: "sz \<le> 16"
  shows "MemRead sz a s' = Inr (take_bit (8 * sz) v)"
proof -
  have "access_checks StackGuardWrite a sz s = Inr ()"
    using w by (auto simp: MemWrite_def Memory_Write_def)
  then have "access_checks StackGuardRead a sz s = Inr ()"
    by (rule access_checks_kind [THEN iffD1])
  moreover have "access_checks StackGuardRead a sz s' = access_checks StackGuardRead a sz s"
    by (rule access_checks_cong) (simp_all add: MemWrite_frame [OF w])
  moreover have "sz \<le> 2 ^ 64" using n by simp
  ultimately show ?thesis
    by (simp add: MemRead_def MemWrite_memory [OF w] read_write_mem_same)
qed

end
