(* ===== verification/Sim_Alu.thy ===== *)
theory Sim_Alu
  imports Sim_Memory
begin

text \<open>
  The arithmetic helpers of \<open>src/aarch64/simulator-aarch64.cc\<close>: addition with
  carry and its four flags, the shifts and extensions of the second operand,
  and the 128-bit arithmetic on pairs of 64-bit halves.  Each helper is proved
  against its mathematical meaning: addition against integer arithmetic with
  unsigned carry and signed overflow, the 128-bit helpers against words of 128
  bits.
\<close>

section \<open>Addition with carry\<close>

definition CalcNFlag :: "u64 \<Rightarrow> nat \<Rightarrow> u64" where
  "CalcNFlag result reg_size = drop_bit (reg_size - 1) result AND 1"

definition CalcZFlag :: "u64 \<Rightarrow> u64" where
  "CalcZFlag result = (if result = 0 then 1 else 0)"

definition AddWithCarry :: "nat \<Rightarrow> u64 \<Rightarrow> u64 \<Rightarrow> u64 \<Rightarrow> u64 \<times> u8" where
  "AddWithCarry reg_size left right carry_in =
     (let max_uint = (if reg_size = 32 then 0xffffffff else 0xffffffffffffffff);
          reg_mask = (if reg_size = 32 then 0xffffffff else 0xffffffffffffffff);
          sign_mask = (if reg_size = 32 then 0x80000000 else 0x8000000000000000);
          left = left AND reg_mask;
          right = right AND reg_mask;
          result = (left + right + carry_in) AND reg_mask;
          n = (if CalcNFlag result reg_size \<noteq> 0 then 8 else 0);
          z = (if CalcZFlag result \<noteq> 0 then 4 else 0);
          max_uint_2op = max_uint - carry_in;
          c = (if max_uint_2op < left \<or> max_uint_2op - left < right then 2 else 0);
          left_sign = left AND sign_mask;
          right_sign = right AND sign_mask;
          result_sign = result AND sign_mask;
          v = (if left_sign = right_sign \<and> left_sign \<noteq> result_sign then 1 else 0)
      in (result, n OR z OR c OR v))"

text \<open>The overload that sets the flags of the simulator when asked to.\<close>

definition AddWithCarryFlags ::
  "nat \<Rightarrow> bool \<Rightarrow> u64 \<Rightarrow> u64 \<Rightarrow> u64 \<Rightarrow> 'v vsim \<Rightarrow> u64 \<times> 'v vsim" where
  "AddWithCarryFlags reg_size set_flags left right carry_in s =
     (let (result, flags) = AddWithCarry reg_size left right carry_in;
          s' = (if set_flags
                then SetV (ucast (drop_bit 0 flags AND 1)) (SetC (ucast (drop_bit 1 flags AND 1))
                       (SetZ (ucast (drop_bit 2 flags AND 1)) (SetN (ucast (drop_bit 3 flags AND 1)) s)))
                else s)
      in (result, s'))"

section \<open>Shifts and extensions\<close>

datatype Shift = NO_SHIFT | LSL | LSR | ASR | ROR | MSL

text \<open>The cast of a two-bit field.\<close>

definition Shift_of :: "u32 \<Rightarrow> Shift" where
  "Shift_of x = (if x = 0 then LSL else if x = 1 then LSR else if x = 2 then ASR
     else if x = 3 then ROR else if x = 4 then MSL else NO_SHIFT)"

definition ShiftOperand :: "nat \<Rightarrow> u64 \<Rightarrow> Shift \<Rightarrow> u32 \<Rightarrow> abort + u64" where
  "ShiftOperand reg_size uvalue shift_type amount_bits =
     (let amount = unat amount_bits in
      if amount > 0
      then let m = GetUintMask reg_size;
               is_negative = (uvalue AND GetSignMask reg_size \<noteq> 0)
           in case shift_type of
                LSL \<Rightarrow> if amount \<ge> reg_size then Inr 0
                       else Inr (push_bit amount uvalue AND m)
              | LSR \<Rightarrow> if amount \<ge> reg_size then Inr 0
                       else Inr (drop_bit amount uvalue AND m)
              | ASR \<Rightarrow> if amount \<ge> reg_size then Inr (if is_negative then NOT 0 else 0)
                       else let u = drop_bit amount uvalue;
                                u' = (if is_negative then u OR push_bit (reg_size - amount) (NOT 0) else u)
                            in Inr (u' AND m)
              | ROR \<Rightarrow> Inr (RotateRight uvalue amount_bits reg_size AND m)
              | _ \<Rightarrow> Inl (UnimplementedInstruction 0)
      else Inr uvalue)"

datatype Extend = NO_EXTEND | UXTB | UXTH | UXTW | UXTX | SXTB | SXTH | SXTW | SXTX

definition Extend_of :: "u32 \<Rightarrow> Extend" where
  "Extend_of x = (if x = 0 then UXTB else if x = 1 then UXTH else if x = 2 then UXTW
     else if x = 3 then UXTX else if x = 4 then SXTB else if x = 5 then SXTH
     else if x = 6 then SXTW else if x = 7 then SXTX else NO_EXTEND)"

definition ExtendValue :: "nat \<Rightarrow> u64 \<Rightarrow> Extend \<Rightarrow> u32 \<Rightarrow> abort + u64" where
  "ExtendValue reg_size val extend_type left_shift =
     (let shifted = (\<lambda>v. ShiftOperand reg_size v LSL left_shift) in
      case extend_type of
        UXTB \<Rightarrow> shifted (val AND 0xff)
      | UXTH \<Rightarrow> shifted (val AND 0xffff)
      | UXTW \<Rightarrow> shifted (val AND 0xffffffff)
      | SXTB \<Rightarrow> (let v = val AND 0xff in
                 shifted (if v AND 0x80 \<noteq> 0 then v OR push_bit 8 (NOT 0) else v))
      | SXTH \<Rightarrow> (let v = val AND 0xffff in
                 shifted (if v AND 0x8000 \<noteq> 0 then v OR push_bit 16 (NOT 0) else v))
      | SXTW \<Rightarrow> (let v = val AND 0xffffffff in
                 shifted (if v AND 0x80000000 \<noteq> 0 then v OR push_bit 32 (NOT 0) else v))
      | UXTX \<Rightarrow> shifted val
      | SXTX \<Rightarrow> shifted val
      | NO_EXTEND \<Rightarrow> Inl UnreachableCode)"

section \<open>128-bit arithmetic\<close>

type_synonym vixl_uint128 = "u64 \<times> u64"

definition Add128 :: "vixl_uint128 \<Rightarrow> vixl_uint128 \<Rightarrow> vixl_uint128" where
  "Add128 x y =
     (let sum_lo = AddWithCarry 64 (snd x) (snd y) 0;
          carry_in = drop_bit 1 (snd sum_lo AND 0x2);
          sum_hi = AddWithCarry 64 (fst x) (fst y) (ucast carry_in)
      in (fst sum_hi, fst sum_lo))"

definition Lsl128 :: "vixl_uint128 \<Rightarrow> nat \<Rightarrow> vixl_uint128" where
  "Lsl128 x shift =
     (if shift = 0 then x
      else if shift = 64 then (snd x, 0)
      else (push_bit shift (fst x) OR drop_bit (64 - shift) (snd x), push_bit shift (snd x)))"

definition Eor128 :: "vixl_uint128 \<Rightarrow> vixl_uint128 \<Rightarrow> vixl_uint128" where
  "Eor128 x y = (fst x XOR fst y, snd x XOR snd y)"

definition Neg128 :: "vixl_uint128 \<Rightarrow> vixl_uint128" where
  "Neg128 x = Add128 (NOT (fst x), NOT (snd x)) (0, 1)"

definition UnsignedNegate :: "u64 \<Rightarrow> u64" where
  "UnsignedNegate val = NOT val + 1"

definition Mul64 :: "u64 \<Rightarrow> u64 \<Rightarrow> vixl_uint128" where
  "Mul64 x y =
     (let x_neg = (drop_bit 63 x = 1);
          y_neg = (drop_bit 63 y = 1);
          neg_result = (x_neg \<noteq> y_neg);
          x = (if x_neg then UnsignedNegate x else x);
          y = (if y_neg then UnsignedNegate y else y);
          x_lo = x AND 0xffffffff; x_hi = drop_bit 32 x;
          y_lo = y AND 0xffffffff; y_hi = drop_bit 32 y;
          t1 = x_lo * y_hi; t2 = x_hi * y_lo;
          a = (0, x_lo * y_lo);
          b = (drop_bit 32 t1, push_bit 32 t1);
          c = (drop_bit 32 t2, push_bit 32 t2);
          d = (x_hi * y_hi, 0);
          result = Add128 (Add128 (Add128 a b) c) d
      in if neg_result then (UnsignedNegate (fst result) - 1, UnsignedNegate (snd result))
         else result)"

definition PolynomialMult128 :: "u64 \<Rightarrow> u64 \<Rightarrow> nat \<Rightarrow> vixl_uint128" where
  "PolynomialMult128 op1 op2 lane_size_in_bits =
     fold (\<lambda>i result. if drop_bit i op1 AND 1 \<noteq> 0 then Eor128 result (Lsl128 (0, op2) i) else result)
       [0..<lane_size_in_bits] (0, 0)"

section \<open>Addition: the mathematical reading\<close>

text \<open>The unsigned and the signed value of the low \<open>n\<close> bits.\<close>

definition uval :: "nat \<Rightarrow> u64 \<Rightarrow> int" where
  "uval n x = uint (take_bit n x)"

definition sval :: "nat \<Rightarrow> u64 \<Rightarrow> int" where
  "sval n x = (if uval n x \<ge> 2 ^ (n - 1) then uval n x - 2 ^ n else uval n x)"

lemma uval_ge_0: "0 \<le> uval n x"
  by (simp add: uval_def)

lemma uval_less: "uval n x < 2 ^ n"
  unfolding uval_def unsigned_take_bit_eq by (rule take_bit_int_less_exp)

lemma uval_take_bit [simp]: "uval n (take_bit n x) = uval n x"
  by (simp add: uval_def)

lemma uval_idem: "take_bit n x = x \<Longrightarrow> uint x = uval n x"
  by (simp add: uval_def)

lemma int_top_bit:
  fixes a :: int
  assumes "0 \<le> a" "a < 2 * 2 ^ k"
  shows "bit a k \<longleftrightarrow> 2 ^ k \<le> a"
proof (cases "2 ^ k \<le> a")
  case True
  have "a div 2 ^ k = 1" using assms True by (intro int_div_pos_eq [where r = "a - 2 ^ k"]) auto
  with True show ?thesis by (simp add: bit_iff_odd)
next
  case False
  then have "a div 2 ^ k = 0" using assms by (simp add: div_pos_pos_trivial)
  with False show ?thesis by (simp add: bit_iff_odd)
qed

lemma bit_top_uval:
  assumes "0 < n" "n \<le> 64"
  shows "bit x (n - 1) \<longleftrightarrow> 2 ^ (n - 1) \<le> uval n x"
proof -
  obtain k where k: "n = Suc k" using assms(1) by (cases n) auto
  have "bit x k \<longleftrightarrow> bit (uval n x) k"
    using assms by (simp add: uval_def bit_uint_iff bit_take_bit_iff k)
  also have "\<dots> \<longleftrightarrow> 2 ^ k \<le> uval n x"
    using uval_less [of n x] by (intro int_top_bit uval_ge_0) (simp add: k)
  finally show ?thesis by (simp add: k)
qed

lemma and_top_exp:
  assumes "k < 64"
  shows "x AND 2 ^ k = (if bit x k then 2 ^ k else (0 :: u64))"
  using assms by (intro bit_word_eqI) (auto simp: bit_and_iff bit_exp_iff)

text \<open>The flags, in the shape both sizes share.\<close>

definition add_flags :: "nat \<Rightarrow> u64 \<Rightarrow> u64 \<Rightarrow> u64 \<Rightarrow> u64 \<times> bool \<times> bool \<times> bool \<times> bool" where
  "add_flags n left right c =
     (let l = take_bit n left; r = take_bit n right;
          res = take_bit n (l + r + c)
      in (res, bit res (n - 1), res = 0,
          mask n - c < l \<or> mask n - c - l < r,
          bit l (n - 1) = bit r (n - 1) \<and> bit l (n - 1) \<noteq> bit res (n - 1)))"

definition flags_byte :: "bool \<Rightarrow> bool \<Rightarrow> bool \<Rightarrow> bool \<Rightarrow> u8" where
  "flags_byte n z c v = (if n then 8 else 0) OR (if z then 4 else 0) OR (if c then 2 else 0)
     OR (if v then 1 else 0)"

lemma reg_masks:
  "(0xffffffff :: u64) = mask 32" "(0xffffffffffffffff :: u64) = mask 64"
  "(0x80000000 :: u64) = 2 ^ (32 - 1)" "(0x8000000000000000 :: u64) = 2 ^ (64 - 1)"
  by (simp_all add: mask_eq_exp_minus_1)

lemma CalcNFlag_bit: "CalcNFlag x n \<noteq> 0 \<longleftrightarrow> bit x (n - 1)"
  by (simp add: CalcNFlag_def and_one_eq_of_bool bit_drop_bit_eq)

lemma CalcZFlag_iff: "CalcZFlag x \<noteq> 0 \<longleftrightarrow> x = 0"
  by (simp add: CalcZFlag_def)

lemma AddWithCarry_add_flags:
  assumes "n = 32 \<or> n = 64"
  shows "AddWithCarry n left right c =
    (case add_flags n left right c of (res, nf, zf, cf, vf) \<Rightarrow> (res, flags_byte nf zf cf vf))"
proof -
  have "n - 1 < 64" using assms by auto
  then have sign: "x AND 2 ^ (n - 1) = y AND 2 ^ (n - 1) \<longleftrightarrow> bit x (n - 1) = bit y (n - 1)"
    for x y :: u64
    by (auto simp: and_top_exp exp_eq_0_imp_not_bit word_eq_iff_unsigned)
  have masks: "(if n = 32 then 0xffffffff else 0xffffffffffffffff) = (mask n :: u64)"
    "(if n = 32 then 0x80000000 else 0x8000000000000000) = (2 ^ (n - 1) :: u64)"
    using assms by (auto simp only: reg_masks if_True if_False split: if_splits)
  show ?thesis
    unfolding AddWithCarry_def masks take_bit_eq_mask [symmetric] Let_def sign CalcNFlag_bit CalcZFlag_iff
      add_flags_def flags_byte_def by simp
qed

lemma add_flags_correct:
  fixes left right c :: u64
  assumes n: "n = 32 \<or> n = 64" and c: "c = 0 \<or> c = 1"
  defines "f \<equiv> add_flags n left right c"
    and "usum \<equiv> uval n left + uval n right + uint c"
    and "ssum \<equiv> sval n left + sval n right + uint c"
  shows "uint (fst f) = usum mod 2 ^ n"
    "fst (snd f) \<longleftrightarrow> sval n (fst f) < 0"
    "fst (snd (snd f)) \<longleftrightarrow> fst f = 0"
    "fst (snd (snd (snd f))) \<longleftrightarrow> usum \<ge> 2 ^ n"
    "snd (snd (snd (snd f))) \<longleftrightarrow> ssum < - (2 ^ (n - 1)) \<or> ssum \<ge> 2 ^ (n - 1)"
proof -
  let ?l = "take_bit n left" and ?r = "take_bit n right"
  let ?res = "take_bit n (?l + ?r + c)"
  have n0: "0 < n" "n \<le> 64" using n by auto
  have lu: "uint ?l = uval n left" and ru: "uint ?r = uval n right" by (simp_all add: uval_def)
  have cu: "uint c = 0 \<or> uint c = 1" using c by auto
  have res: "uint ?res = usum mod 2 ^ n"
  proof -
    have "uint (?l + ?r + c) = usum mod 2 ^ 64"
      by (simp add: uint_word_ariths lu ru usum_def mod_simps)
    then have "uint ?res = take_bit n (take_bit 64 usum)"
      by (simp only: unsigned_take_bit_eq take_bit_eq_mod [of 64 usum])
    also have "\<dots> = take_bit n usum" using n0 by (simp add: min_def)
    finally show ?thesis by (simp only: take_bit_eq_mod)
  qed
  then show "uint (fst f) = usum mod 2 ^ n" by (simp add: f_def add_flags_def Let_def)
  have uval_res: "uval n ?res = usum mod 2 ^ n" using res by (simp add: uval_def)
  show "fst (snd f) \<longleftrightarrow> sval n (fst f) < 0"
    using uval_less [of n ?res] uval_ge_0 [of n ?res]
    by (simp add: f_def add_flags_def Let_def sval_def bit_top_uval [OF n0] del: One_nat_def)
  show "fst (snd (snd f)) \<longleftrightarrow> fst f = 0" by (simp add: f_def add_flags_def Let_def)
  have m: "uint (mask n - c) = 2 ^ n - 1 - uint c"
    using n c by (auto simp: mask_eq_exp_minus_1)
  show "fst (snd (snd (snd f))) \<longleftrightarrow> usum \<ge> 2 ^ n"
  proof (cases "mask n - c < ?l")
    case True
    then have "2 ^ n - 1 - uint c < uval n left" by (simp add: word_less_def m lu)
    then have "usum \<ge> 2 ^ n" using cu uval_ge_0 [of n right] by (auto simp: usum_def)
    with True show ?thesis by (simp add: f_def add_flags_def Let_def)
  next
    case False
    then have "uval n left \<le> 2 ^ n - 1 - uint c" by (simp add: word_less_def m lu not_less)
    then have "uint (mask n - c - ?l) = 2 ^ n - 1 - uint c - uval n left"
      using False by (simp add: uint_minus_simple_alt [THEN iffD1] word_le_def m lu)
    with False show ?thesis
      by (auto simp: f_def add_flags_def Let_def word_less_def ru usum_def)
  qed
  show "snd (snd (snd (snd f))) \<longleftrightarrow> ssum < - (2 ^ (n - 1)) \<or> ssum \<ge> 2 ^ (n - 1)"
  proof -
    obtain k where k: "n = Suc k" using n0 by (cases n) auto
    define P :: int where "P = 2 ^ k"
    define a where "a = uval n left" define b where "b = uval n right"
    have p: "P > 0" by (simp add: P_def)
    have bd: "0 \<le> a" "a < 2 * P" "0 \<le> b" "b < 2 * P"
      using uval_ge_0 [of n left] uval_less [of n left] uval_ge_0 [of n right] uval_less [of n right]
      by (simp_all add: a_def b_def P_def k)
    have "usum mod (2 * P) = (if usum < 2 * P then usum else usum - 2 * P)"
    proof -
      have bds: "0 \<le> usum" "usum < 2 * P + 2 * P" using bd cu by (auto simp: usum_def a_def b_def)
      show ?thesis
      proof (cases "usum < 2 * P")
        case True
        with bds show ?thesis by (simp add: mod_pos_pos_trivial)
      next
        case False
        have "usum mod (2 * P) = (usum - 2 * P) mod (2 * P)" by simp
        also have "\<dots> = usum - 2 * P" using bds False by (intro mod_pos_pos_trivial) auto
        finally show ?thesis using False by simp
      qed
    qed
    then have r: "uval n ?res = (if usum < 2 * P then usum else usum - 2 * P)"
      using uval_res by (simp add: P_def k)
    have us: "usum = a + b + uint c" by (simp add: usum_def a_def b_def)
    have ss: "ssum = (if a \<ge> P then a - 2 * P else a) + (if b \<ge> P then b - 2 * P else b) + uint c"
      by (simp add: ssum_def sval_def a_def b_def P_def k)
    have "snd (snd (snd (snd f))) \<longleftrightarrow> (P \<le> a) = (P \<le> b) \<and> (P \<le> a) \<noteq> (P \<le> uval n ?res)"
      unfolding f_def add_flags_def Let_def fst_conv snd_conv bit_top_uval [OF n0] uval_take_bit
      by (simp add: a_def b_def P_def k)
    then show ?thesis
      unfolding r ss us using bd cu p by (auto simp: P_def [symmetric] k split: if_splits)
  qed
qed

section \<open>128-bit pairs as 128-bit words\<close>

definition abs128 :: "vixl_uint128 \<Rightarrow> u128" where
  "abs128 x = push_bit 64 (ucast (fst x)) OR ucast (snd x)"

lemma bit_abs128: "bit (abs128 x) i \<longleftrightarrow> (if i < 64 then bit (snd x) i else i < 128 \<and> bit (fst x) (i - 64))"
  by (auto simp: abs128_def bit_simps dest: bit_imp_le_length)

lemma abs128_plus: "abs128 x = ucast (fst x) * 2 ^ 64 + ucast (snd x)"
proof -
  have "push_bit 64 (ucast (fst x)) OR (ucast (snd x) :: u128) =
      push_bit 64 (ucast (fst x)) + ucast (snd x)"
    by (rule disjunctive_add [symmetric]) (auto simp: bit_simps dest: bit_imp_le_length)
  then show ?thesis by (simp add: abs128_def push_bit_eq_mult mult.commute)
qed

lemma abs128_inject: "abs128 x = abs128 y \<longleftrightarrow> x = y"
proof
  assume eq: "abs128 x = abs128 y"
  have "bit (snd x) i = bit (snd y) i" if "i < 64" for i
    using bit_abs128 [of x i] bit_abs128 [of y i] eq that by simp
  moreover have "bit (fst x) i = bit (fst y) i" if "i < 64" for i
    using bit_abs128 [of x "i + 64"] bit_abs128 [of y "i + 64"] eq that by simp
  ultimately show "x = y" by (auto simp: prod_eq_iff intro!: bit_word_eqI)
qed simp

lemma carry_bit_flags_byte:
  "drop_bit 1 (flags_byte n z c v AND 0x2) = (if c then 1 else 0 :: u8)"
  by (simp add: flags_byte_def)

lemma AddWithCarry64:
  fixes x y c :: u64
  assumes "c = 0 \<or> c = 1"
  shows "fst (AddWithCarry 64 x y c) = x + y + c"
    "drop_bit 1 (snd (AddWithCarry 64 x y c) AND 0x2) =
      (if uint x + uint y + uint c \<ge> 2 ^ 64 then 1 else 0 :: u8)"
proof -
  have t: "take_bit 64 w = w" for w :: u64 by (rule take_bit_word_eq_self) simp
  obtain res nf zf cf vf where f: "add_flags 64 x y c = (res, nf, zf, cf, vf)"
    by (metis prod_cases5)
  have A: "AddWithCarry 64 x y c = (res, flags_byte nf zf cf vf)"
    by (simp add: AddWithCarry_add_flags f)
  have "res = x + y + c" using f by (simp add: add_flags_def Let_def t)
  with A show "fst (AddWithCarry 64 x y c) = x + y + c" by simp
  have "cf \<longleftrightarrow> uint x + uint y + uint c \<ge> 2 ^ 64"
    using add_flags_correct(4) [of 64 c x y] assms by (simp add: f uval_def t)
  then show "drop_bit 1 (snd (AddWithCarry 64 x y c) AND 0x2) =
      (if uint x + uint y + uint c \<ge> 2 ^ 64 then 1 else 0 :: u8)"
    by (simp only: A snd_conv carry_bit_flags_byte)
qed

lemma uint_abs128: "uint (abs128 x) = uint (fst x) * 2 ^ 64 + uint (snd x)"
proof -
  have lt: "uint (fst x) < 2 ^ 64" "uint (snd x) < 2 ^ 64"
    using uint_lt2p [of "fst x"] uint_lt2p [of "snd x"] by simp_all
  have "uint (abs128 x) = (uint (fst x) * 2 ^ 64 + uint (snd x)) mod 2 ^ 128"
    unfolding abs128_plus
    by (simp add: uint_word_ariths mod_simps unsigned_ucast_eq take_bit_eq_mod)
  also have "\<dots> = uint (fst x) * 2 ^ 64 + uint (snd x)"
    using lt by (intro mod_pos_pos_trivial) auto
  finally show ?thesis .
qed

lemma Add128_abs: "abs128 (Add128 x y) = abs128 x + abs128 y"
proof -
  let ?c = "uint (snd x) + uint (snd y) \<ge> 2 ^ 64"
  have lo: "fst (AddWithCarry 64 (snd x) (snd y) 0) = snd x + snd y"
    by (simp add: AddWithCarry64)
  have carry: "ucast (drop_bit 1 (snd (AddWithCarry 64 (snd x) (snd y) 0) AND 0x2)) = (if ?c then 1 else 0 :: u64)"
    using AddWithCarry64(2) [of 0 "snd x" "snd y"] by simp
  have A: "Add128 x y = (fst x + fst y + (if ?c then 1 else 0), snd x + snd y)"
    unfolding Add128_def Let_def lo carry by (simp add: AddWithCarry64)
  have lt: "0 \<le> uint (snd x)" "uint (snd x) < 2 ^ 64" "0 \<le> uint (snd y)" "uint (snd y) < 2 ^ 64"
    using uint_lt2p [of "snd x"] uint_lt2p [of "snd y"] by simp_all
  have lo': "uint (snd x + snd y) = (if ?c then uint (snd x) + uint (snd y) - 2 ^ 64 else uint (snd x) + uint (snd y))"
    using lt by (simp add: uint_plus_if_size word_size)
  have "uint (abs128 (Add128 x y)) mod 2 ^ 128 = (uint (abs128 x) + uint (abs128 y)) mod 2 ^ 128"
  proof -
    define h where "h = uint (fst x) + uint (fst y) + (if ?c then 1 else 0)"
    have hi: "uint (fst x + fst y + (if ?c then 1 else 0)) = h mod 2 ^ 64"
      by (simp add: h_def uint_word_ariths mod_simps)
    have "uint (abs128 (Add128 x y)) = (h mod 2 ^ 64) * 2 ^ 64 + uint (snd x + snd y)"
      unfolding uint_abs128 A fst_conv snd_conv hi ..
    also have "\<dots> mod 2 ^ 128 = (h * 2 ^ 64 + uint (snd x + snd y)) mod 2 ^ 128"
    proof -
      have "(h mod 2 ^ 64) * 2 ^ 64 = (h * 2 ^ 64) mod 2 ^ 128"
        using mult_mod_left [of h "2 ^ 64" "2 ^ 64"] by simp
      then show ?thesis by (simp add: mod_simps)
    qed
    also have "h * 2 ^ 64 + uint (snd x + snd y) = uint (abs128 x) + uint (abs128 y)"
      unfolding uint_abs128 lo' h_def by (simp add: algebra_simps)
    finally show ?thesis .
  qed
  moreover have "uint (abs128 (Add128 x y)) mod 2 ^ 128 = uint (abs128 (Add128 x y))"
    using uint_lt2p [of "abs128 (Add128 x y)"] by (intro mod_pos_pos_trivial) simp_all
  ultimately have "uint (abs128 (Add128 x y)) = uint (abs128 x + abs128 y)"
    by (simp add: uint_word_ariths)
  then show ?thesis by (simp only: word_uint_eq_iff)
qed

lemma Eor128_abs: "abs128 (Eor128 x y) = abs128 x XOR abs128 y"
  by (intro bit_word_eqI) (simp add: bit_abs128 bit_xor_iff Eor128_def)

lemma Lsl128_abs:
  assumes "sh \<le> 64"
  shows "abs128 (Lsl128 x sh) = push_bit sh (abs128 x)"
proof (rule word_eq_bitI)
  fix i assume i: "i < LENGTH(128)"
  show "bit (abs128 (Lsl128 x sh)) i = bit (push_bit sh (abs128 x)) i"
    using i assms bit_word_lt [of "snd x" "i - sh"]
    by (auto simp: bit_abs128 Lsl128_def bit_or_iff bit_push_bit_iff bit_drop_bit_eq)
      (auto simp: algebra_simps)
qed

lemma Neg128_abs: "abs128 (Neg128 x) = - abs128 x"
proof -
  have "abs128 (NOT (fst x), NOT (snd x)) = NOT (abs128 x)"
    by (intro bit_word_eqI) (auto simp: bit_abs128 bit_not_iff)
  moreover have "abs128 (0, 1) = 1" by (simp add: abs128_def)
  ultimately show ?thesis by (simp add: Neg128_def Add128_abs minus_eq_not_plus_1)
qed

lemma fst_snd_abs128:
  "fst x = ucast (drop_bit 64 (abs128 x))" "snd x = ucast (abs128 x)"
  by (auto intro!: bit_word_eqI simp: bit_simps bit_abs128 dest: bit_imp_le_length)

subsection \<open>Multiplication\<close>

lemma sint_msb:
  "sint (x :: u64) = (if bit x 63 then uint x - 2 ^ 64 else uint x)"
proof -
  have "sint x = signed_take_bit 63 (uint x)" by (simp add: signed_take_bit_decr_length_iff sint_uint)
  also have "\<dots> = take_bit 64 (uint x) - 2 ^ 64 * of_bool (bit (uint x) 63)"
    by (simp add: signed_take_bit_eq_take_bit_minus)
  also have "take_bit 64 (uint x) = uint x"
    using uint_lt2p [of x] by (simp add: take_bit_int_eq_self)
  finally show ?thesis by (simp add: bit_uint_iff)
qed

lemma scast128_msb: "(scast (x :: u64) :: u128) = (if bit x 63 then ucast x - 2 ^ 64 else ucast x)"
proof -
  have "(scast x :: u128) = word_of_int (sint x)" by simp
  also have "\<dots> = (if bit x 63 then word_of_int (uint x) - 2 ^ 64 else word_of_int (uint x))"
    by (simp add: sint_msb)
  also have "(word_of_int (uint x) :: u128) = ucast x" by simp
  finally show ?thesis .
qed

lemma ucast128_mult:
  fixes p q :: u64
  assumes "uint p < 2 ^ 32" "uint q < 2 ^ 32"
  shows "(ucast (p * q) :: u128) = ucast p * ucast q"
proof -
  have "uint p * uint q < 2 ^ 32 * 2 ^ 32" using assms by (intro mult_strict_mono') auto
  then have "uint (p * q) = uint p * uint q"
    by (simp add: uint_word_ariths mod_pos_pos_trivial)
  then have "(word_of_int (uint (p * q)) :: u128) = word_of_int (uint p * uint q)" by simp
  then show ?thesis by simp
qed

lemma abs128_shift32: "abs128 (drop_bit 32 t, push_bit 32 t) = 2 ^ 32 * ucast t"
proof -
  have "abs128 (drop_bit 32 t, push_bit 32 t) = push_bit 32 (ucast t)"
    by (intro bit_word_eqI) (auto simp: bit_simps bit_abs128 dest: bit_imp_le_length)
  then show ?thesis by (simp add: push_bit_eq_mult mult.commute)
qed

lemma ucast128_halves:
  "(ucast (x :: u64) :: u128) = ucast (x AND 0xffffffff) + 2 ^ 32 * ucast (drop_bit 32 x)"
proof -
  have m: "x AND 0xffffffff = take_bit 32 x" by (simp only: reg_masks take_bit_eq_mask)
  have "(ucast x :: u128) = ucast (take_bit 32 x) OR push_bit 32 (ucast (drop_bit 32 x))"
    by (intro bit_word_eqI) (auto simp: bit_simps dest: bit_imp_le_length)
  also have "\<dots> = ucast (take_bit 32 x) + push_bit 32 (ucast (drop_bit 32 x))"
    by (rule disjunctive_add [symmetric]) (auto simp: bit_simps)
  finally show ?thesis by (simp add: m push_bit_eq_mult mult.commute)
qed

lemma half_bounds: "uint ((x :: u64) AND 0xffffffff) < 2 ^ 32" "uint (drop_bit 32 (x :: u64)) < 2 ^ 32"
proof -
  have "x AND 0xffffffff = take_bit 32 x" by (simp only: reg_masks take_bit_eq_mask)
  then show "uint (x AND 0xffffffff) < 2 ^ 32"
    by (simp only: unsigned_take_bit_eq take_bit_int_less_exp)
  have "drop_bit 32 x = take_bit 32 (drop_bit 32 x)"
    by (intro bit_word_eqI) (auto simp: bit_simps dest: bit_imp_le_length)
  then show "uint (drop_bit 32 x) < 2 ^ 32"
    by (metis unsigned_take_bit_eq take_bit_int_less_exp)
qed

text \<open>The four partial products add up to the unsigned product.\<close>

lemma schoolbook:
  fixes x y :: u64
  defines "x_lo \<equiv> x AND 0xffffffff" and "x_hi \<equiv> drop_bit 32 x"
    and "y_lo \<equiv> y AND 0xffffffff" and "y_hi \<equiv> drop_bit 32 y"
  shows "abs128 (Add128 (Add128 (Add128 (0, x_lo * y_lo)
      (drop_bit 32 (x_lo * y_hi), push_bit 32 (x_lo * y_hi)))
      (drop_bit 32 (x_hi * y_lo), push_bit 32 (x_hi * y_lo))) (x_hi * y_hi, 0))
    = ucast x * ucast y"
proof -
  note b = half_bounds [of x, folded x_lo_def x_hi_def] half_bounds [of y, folded y_lo_def y_hi_def]
  have lo: "abs128 (0, z) = ucast z" for z by (simp add: abs128_def)
  have hi: "abs128 (z, 0) = 2 ^ 64 * ucast z" for z
    by (simp add: abs128_def push_bit_eq_mult mult.commute)
  show ?thesis
    unfolding Add128_abs lo hi abs128_shift32 ucast128_halves [of x, folded x_lo_def x_hi_def]
      ucast128_halves [of y, folded y_lo_def y_hi_def]
      ucast128_mult [OF b(1) b(3)] ucast128_mult [OF b(1) b(4)]
      ucast128_mult [OF b(2) b(3)] ucast128_mult [OF b(2) b(4)]
    by (simp add: algebra_simps)
qed

lemma UnsignedNegate_eq: "UnsignedNegate x = - x"
  by (simp add: UnsignedNegate_def minus_eq_not_plus_1)

lemma ucast128_uminus: "(ucast (- (x :: u64)) :: u128) = (if x = 0 then 0 else 2 ^ 64 - ucast x)"
proof (cases "x = 0")
  case False
  then have "uint (- x) = 2 ^ 64 - uint x"
    using uint_lt2p [of x] by (simp add: uint_word_ariths zmod_zminus1_eq_if mod_pos_pos_trivial uint_0_iff)
  then have "(word_of_int (uint (- x)) :: u128) = word_of_int (2 ^ 64 - uint x)" by simp
  with False show ?thesis by simp
qed simp

lemma negated_pair:
  "abs128 (UnsignedNegate h - 1, UnsignedNegate l) = - abs128 (h, l) - (if l = 0 then 2 ^ 64 else 0)"
proof -
  have "(ucast (NOT h) :: u128) = 2 ^ 64 - 1 - ucast h"
  proof -
    have h0: "0 \<le> uint h" by simp
    have len64: "LENGTH(64) = 64" by simp
    have "uint (NOT h) = (- uint h - 1) mod 2 ^ 64"
      by (simp add: unsigned_not_eq take_bit_eq_mod not_int_def)
    also have "\<dots> = (- uint h - 1 + 2 ^ 64) mod 2 ^ 64" by (simp only: mod_add_self2)
    also have "\<dots> = 2 ^ 64 - 1 - uint h"
      using uint_lt2p [of h] h0 by (subst mod_pos_pos_trivial) (simp only: len64; linarith)+
    finally have "uint (NOT h) = 2 ^ 64 - 1 - uint h" .
    then have "(word_of_int (uint (NOT h)) :: u128) = word_of_int (2 ^ 64 - 1 - uint h)" by simp
    then show ?thesis by simp
  qed
  note N = this
  have M: "UnsignedNegate h - 1 = NOT h" by (simp add: UnsignedNegate_def)
  show ?thesis
  proof -
    define K :: u128 where "K = 2 ^ 64"
    have "K * K = 2 ^ (64 + 64)" by (simp only: K_def power_add)
    also have "\<dots> = 0" by (simp only: exp_eq_zero_iff) simp
    finally have KK: "K * K = 0" .
    show ?thesis
      unfolding abs128_plus fst_conv snd_conv M N unfolding UnsignedNegate_eq ucast128_uminus
        K_def [symmetric]
      by (cases "l = 0") (simp_all add: algebra_simps KK)
  qed
qed

lemma msb_drop: "drop_bit 63 (x :: u64) = 1 \<longleftrightarrow> bit x 63"
proof -
  have sh: "bit x (63 + n) \<longleftrightarrow> n = 0 \<and> bit x 63" for n
    using bit_word_lt [of x "63 + n"] by (cases n) auto
  have "drop_bit 63 x = of_bool (bit x 63)"
    unfolding bit_eq_iff [of "drop_bit 63 x"] bit_drop_bit_eq o_apply sh
    by (simp add: bit_of_bool_iff)
  then show ?thesis by simp
qed

lemma Mul64_lemma:
  defines "wrong \<equiv> \<lambda>x y :: u64. bit x 63 \<noteq> bit y 63 \<and> x * y = 0"
  shows "abs128 (Mul64 x y) = scast x * scast y - (if wrong x y then 2 ^ 64 else 0)"
proof -
  define X where "X = (if bit x 63 then - x else x)"
  define Y where "Y = (if bit y 63 then - y else y)"
  have XY: "scast x = (if bit x 63 then - ucast X else ucast X :: u128)"
    "scast y = (if bit y 63 then - ucast Y else ucast Y :: u128)"
    by (auto simp: scast128_msb X_def Y_def ucast128_uminus)
  obtain h l where hl: "Add128 (Add128 (Add128 (0, (X AND 0xffffffff) * (Y AND 0xffffffff))
      (drop_bit 32 ((X AND 0xffffffff) * drop_bit 32 Y), push_bit 32 ((X AND 0xffffffff) * drop_bit 32 Y)))
      (drop_bit 32 (drop_bit 32 X * (Y AND 0xffffffff)), push_bit 32 (drop_bit 32 X * (Y AND 0xffffffff))))
      (drop_bit 32 X * drop_bit 32 Y, 0) = (h, l)"
    by (metis prod.collapse)
  have prod: "abs128 (h, l) = ucast X * ucast Y" using schoolbook [of X Y] by (simp only: hl)
  have "l = ucast (ucast X * ucast Y :: u128)"
    using fst_snd_abs128(2) [of "(h, l)"] by (simp add: prod)
  also have "\<dots> = X * Y"
    by transfer (simp add: take_bit_eq_mod mod_simps mod_mod_cancel)
  finally have l0: "l = 0 \<longleftrightarrow> x * y = 0" by (auto simp: X_def Y_def)
  have M: "Mul64 x y = (if bit x 63 \<noteq> bit y 63 then (UnsignedNegate h - 1, UnsignedNegate l) else (h, l))"
    unfolding Mul64_def Let_def msb_drop UnsignedNegate_eq X_def [symmetric] Y_def [symmetric] hl by simp
  show ?thesis
    unfolding M by (auto simp: negated_pair prod XY wrong_def l0)
qed

subsection \<open>Polynomial multiplication\<close>

lemma PolynomialMult128_abs:
  assumes "n \<le> 64"
  shows "abs128 (PolynomialMult128 op1 op2 n) =
    fold (\<lambda>i r. if bit op1 i then r XOR push_bit i (ucast op2) else r) [0..<n] 0"
  using assms
proof (induction n)
  case 0
  then show ?case by (simp add: PolynomialMult128_def abs128_def)
next
  case (Suc n)
  have "abs128 (0, op2) = ucast op2" by (simp add: abs128_def)
  then show ?case
    using Suc by (simp add: PolynomialMult128_def and_one_eq_of_bool bit_drop_bit_eq Eor128_abs Lsl128_abs)
qed

subsection \<open>Shifts\<close>

lemma sign_bit_test:
  assumes "0 < n" "n \<le> 64"
  shows "v AND GetSignMask n \<noteq> 0 \<longleftrightarrow> bit (v :: u64) (n - 1)"
proof -
  have "GetSignMask n = 2 ^ (n - 1)" by (simp add: GetSignMask_def)
  then show ?thesis by (simp add: and_exp_eq_0_iff_not_bit)
qed

text \<open>The bits a shift reads, for an operand that fits the register size.\<close>

fun shifted_bit :: "nat \<Rightarrow> u64 \<Rightarrow> Shift \<Rightarrow> nat \<Rightarrow> nat \<Rightarrow> bool" where
  "shifted_bit n v LSL a i = (a \<le> i \<and> bit v (i - a))"
| "shifted_bit n v LSR a i = (i + a < n \<and> bit v (i + a))"
| "shifted_bit n v ASR a i = bit v (min (n - 1) (i + a))"
| "shifted_bit n v ROR a i = bit v ((i + a) mod n)"
| "shifted_bit n v _ a i = False"

lemma ShiftOperand_bits:
  assumes n: "0 < n" "n \<le> 64" and fits: "\<And>i. n \<le> i \<Longrightarrow> \<not> bit v i" and i: "i < n"
    and ty: "ty \<in> {LSL, LSR, ASR, ROR}" and ror: "ty = ROR \<Longrightarrow> unat a < n"
  shows "\<exists>r. ShiftOperand n v ty a = Inr r \<and> (bit r i \<longleftrightarrow> shifted_bit n v ty (unat a) i)"
proof -
  note test = sign_bit_test [OF n, of v]
  have m: "bit (GetUintMask n) i" using i n by (simp add: bit_GetUintMask)
  have i64: "i < 64" using i n by simp
  from ty consider "ty = LSL" | "ty = LSR" | "ty = ASR" | "ty = ROR" by auto
  then show ?thesis
  proof cases
    case 1
    then show ?thesis using i m i64
      by (auto simp: ShiftOperand_def Let_def bit_and_iff bit_push_bit_iff)
  next
    case 2
    then show ?thesis using i m fits [of "i + unat a"]
      by (cases "i + unat a < n")
        (auto simp: ShiftOperand_def Let_def bit_and_iff bit_drop_bit_eq not_less add.commute)
  next
    case 3
    show ?thesis
    proof (cases "unat a = 0")
      case True
      moreover have "min (n - 1) i = i" using i by simp
      ultimately show ?thesis using 3 by (simp add: ShiftOperand_def)
    next
      case False
      show ?thesis
      proof (cases "n \<le> unat a")
        case True
        then have "min (n - 1) (i + unat a) = n - 1" by simp
        with True False 3 test i64 show ?thesis by (simp add: ShiftOperand_def Let_def)
      next
        case lt: False
        have "bit (if v AND GetSignMask n \<noteq> 0 then drop_bit (unat a) v OR push_bit (n - unat a) (NOT 0)
            else drop_bit (unat a) v) i \<longleftrightarrow> bit v (min (n - 1) (i + unat a))"
        proof (cases "i + unat a < n")
          case True
          then have "min (n - 1) (i + unat a) = i + unat a" by simp
          with True show ?thesis
            by (auto simp: bit_or_iff bit_drop_bit_eq bit_push_bit_iff bit_not_iff bit_mask_iff add.commute)
        next
          case False
          then have "min (n - 1) (i + unat a) = n - 1" by simp
          moreover have "\<not> bit v (unat a + i)" using False by (intro fits) simp
          ultimately show ?thesis using False lt test i64
            by (auto simp: bit_or_iff bit_drop_bit_eq bit_push_bit_iff bit_not_iff bit_mask_iff)
        qed
        with False lt 3 m show ?thesis by (simp add: ShiftOperand_def Let_def bit_and_iff)
      qed
    qed
  next
    case 4
    then show ?thesis using ror i m n fits
      by (auto simp: ShiftOperand_def Let_def bit_and_iff bit_RotateRight)
  qed
qed

text \<open>The value an extension selects: \<open>w\<close> low bits, zero- or sign-extended.\<close>

fun extended :: "Extend \<Rightarrow> u64 \<Rightarrow> u64" where
  "extended UXTB v = take_bit 8 v" | "extended UXTH v = take_bit 16 v"
| "extended UXTW v = take_bit 32 v" | "extended UXTX v = v"
| "extended SXTB v = signed_take_bit 7 v" | "extended SXTH v = signed_take_bit 15 v"
| "extended SXTW v = signed_take_bit 31 v" | "extended SXTX v = v"
| "extended NO_EXTEND v = 0"

lemma byte_masks: "(0xff :: u64) = mask 8" "(0xffff :: u64) = mask 16" "(0xffffffff :: u64) = mask 32"
  "(0x80 :: u64) = 2 ^ 7" "(0x8000 :: u64) = 2 ^ 15" "(0x80000000 :: u64) = 2 ^ 31"
  by (simp_all add: mask_eq_exp_minus_1)

lemma sign_extend_field:
  assumes "n = Suc k" "k < 63"
  shows "(if (v AND mask n) AND 2 ^ k \<noteq> 0 then (v AND mask n) OR push_bit n (NOT 0)
      else v AND mask n) = signed_take_bit k (v :: u64)"
proof -
  have "(v AND mask n) AND 2 ^ k \<noteq> 0 \<longleftrightarrow> bit v k"
    using assms by (simp add: and_exp_eq_0_iff_not_bit bit_and_iff bit_mask_iff)
  moreover have "bit (if bit v k then (v AND mask n) OR push_bit n (NOT 0)
      else v AND mask n) i = bit (signed_take_bit k v) i" if "i < LENGTH(64)" for i
    using that assms by (cases "i \<le> k")
      (simp_all add: bit_or_iff bit_and_iff bit_mask_iff bit_push_bit_iff bit_not_iff
        bit_signed_take_bit_iff min_def)
  ultimately show ?thesis by (intro word_eq_bitI) simp
qed

lemma extend_fields:
  "(let w = v AND 0xff in if w AND 0x80 \<noteq> 0 then w OR push_bit 8 (NOT 0) else w) = signed_take_bit 7 (v :: u64)"
  "(let w = v AND 0xffff in if w AND 0x8000 \<noteq> 0 then w OR push_bit 16 (NOT 0) else w) = signed_take_bit 15 (v :: u64)"
  "(let w = v AND 0xffffffff in if w AND 0x80000000 \<noteq> 0 then w OR push_bit 32 (NOT 0) else w) = signed_take_bit 31 (v :: u64)"
  unfolding Let_def byte_masks by (rule sign_extend_field; simp)+

lemma zero_extend_fields:
  "v AND 0xff = take_bit 8 (v :: u64)" "v AND 0xffff = take_bit 16 (v :: u64)"
  "v AND 0xffffffff = take_bit 32 (v :: u64)"
  unfolding byte_masks by (simp_all only: take_bit_eq_mask)

lemma ExtendValue_extended:
  assumes "ext \<noteq> NO_EXTEND"
  shows "ExtendValue n v ext sh = ShiftOperand n (extended ext v) LSL sh"
  using assms extend_fields [of v, unfolded Let_def]
  unfolding ExtendValue_def Let_def
  by (cases ext) (simp_all only: Extend.case extended.simps zero_extend_fields simp_thms)

section \<open>Properties\<close>

lemma bits_flags_byte:
  "bit (flags_byte n z c v) 3 = n" "bit (flags_byte n z c v) 2 = z"
  "bit (flags_byte n z c v) 1 = c" "bit (flags_byte n z c v) 0 = v"
  by (cases n; cases z; cases c; cases v; simp add: flags_byte_def)+

text \<open>C6: Addition with carry is integer addition: the result is the sum modulo the register
  size, N is its sign, Z says it is zero, C that the unsigned sum does not fit, and V that the
  signed sum does not fit.\<close>

theorem AddWithCarry_is_integer_addition:
  assumes "n = 32 \<or> n = 64" "c = 0 \<or> c = 1"
  shows "case AddWithCarry n left right c of (result, flags) \<Rightarrow>
    uint result = (uval n left + uval n right + uint c) mod 2 ^ n
    \<and> (bit flags 3 \<longleftrightarrow> sval n result < 0)
    \<and> (bit flags 2 \<longleftrightarrow> result = 0)
    \<and> (bit flags 1 \<longleftrightarrow> uval n left + uval n right + uint c \<ge> 2 ^ n)
    \<and> (bit flags 0 \<longleftrightarrow> sval n left + sval n right + uint c < - (2 ^ (n - 1))
                  \<or> sval n left + sval n right + uint c \<ge> 2 ^ (n - 1))"
proof -
  obtain res nf zf cf vf where f: "add_flags n left right c = (res, nf, zf, cf, vf)"
    by (metis prod_cases5)
  show ?thesis
    using add_flags_correct [OF assms, of left right]
    by (simp add: AddWithCarry_add_flags [OF assms(1)] f bits_flags_byte del: One_nat_def)
qed

theorem AddWithCarry_is_integer_addition_witness:
  "case AddWithCarry 32 0x7fffffff 0x1ffffffff 1 of (result, flags) \<Rightarrow>
    uint result = (uval 32 0x7fffffff + uval 32 0x1ffffffff + uint (1 :: u64)) mod 2 ^ 32
    \<and> (bit flags 1 \<longleftrightarrow> uval 32 0x7fffffff + uval 32 0x1ffffffff + uint (1 :: u64) \<ge> 2 ^ 32)"
  using AddWithCarry_is_integer_addition [of 32 1 "0x7fffffff" "0x1ffffffff"] by auto

text \<open>On pairs of 64-bit halves read as 128-bit words, addition, negation, shift left (up to
  64 places) and exclusive or are the word operations.\<close>

theorem arithmetic_on_128_bit_pairs:
  "abs128 (Add128 x y) = abs128 x + abs128 y
   \<and> abs128 (Neg128 x) = - abs128 x
   \<and> abs128 (Eor128 x y) = abs128 x XOR abs128 y
   \<and> abs128 (Lsl128 x (min k 64)) = push_bit (min k 64) (abs128 x)"
  by (simp add: Add128_abs Neg128_abs Eor128_abs Lsl128_abs)

text \<open>C39: \<open>Mul64\<close> is the signed 128-bit product of two 64-bit values, except when the factors
  have different signs and the low half of the product is zero: then the high half is one too
  small, because the negation of the pair does not carry out of a zero low half.\<close>

theorem Mul64_signed_product:
  "abs128 (Mul64 x y) = scast x * scast y -
     (if (sint x < 0) \<noteq> (sint y < 0) \<and> x * y = 0 then 2 ^ 64 else 0)"
proof -
  have "bit z 63 \<longleftrightarrow> sint z < 0" for z :: u64
    using uint_lt2p [of z] by (simp add: sint_msb)
  then show ?thesis using Mul64_lemma [of x y] by simp
qed

text \<open>The carry-less product is the exclusive or of the second factor shifted to every set
  bit of the first, as a 128-bit word.\<close>

theorem PolynomialMult128_is_carryless:
  assumes "n \<le> 64"
  shows "abs128 (PolynomialMult128 op1 op2 n) =
    fold (XOR) (map (\<lambda>i. push_bit i (ucast op2)) (filter (bit op1) [0..<n])) 0"
  using assms
proof (induction n)
  case (Suc n)
  then show ?case
    by (simp add: PolynomialMult128_abs xor.commute [of "push_bit n (ucast op2)"])
qed (simp add: PolynomialMult128_def abs128_def)

theorem PolynomialMult128_is_carryless_witness:
  "abs128 (PolynomialMult128 5 3 64) =
    fold (XOR) (map (\<lambda>i. push_bit i (ucast (3 :: u64))) (filter (bit (5 :: u64)) [0..<64])) 0"
  by (rule PolynomialMult128_is_carryless) simp

text \<open>The shifter on an operand that fits its register size: every bit of the result is the
  bit the architecture names (\<open>LSL\<close> and \<open>LSR\<close> bring in zeros, \<open>ASR\<close> the sign
  bit, \<open>ROR\<close> the bits shifted out), also for amounts beyond the register size.\<close>

theorem ShiftOperand_reads_the_shifted_bit:
  assumes "n = 8 \<or> n = 16 \<or> n = 32 \<or> n = 64" "\<And>i. n \<le> i \<Longrightarrow> \<not> bit v i" "i < n"
    and "ty \<in> {LSL, LSR, ASR, ROR}" "ty = ROR \<Longrightarrow> unat a < n"
  shows "\<exists>r. ShiftOperand n v ty a = Inr r \<and> (bit r i \<longleftrightarrow> shifted_bit n v ty (unat a) i)"
  by (rule ShiftOperand_bits) (use assms in auto)

theorem ShiftOperand_reads_the_shifted_bit_witness:
  "\<exists>r. ShiftOperand 32 0x80000000 ASR 40 = Inr r \<and> (bit r 3 \<longleftrightarrow> shifted_bit 32 0x80000000 ASR 40 3)"
proof -
  have "(0x80000000 :: u64) = 2 ^ 31" by simp
  then have "\<not> bit (0x80000000 :: u64) i" if "32 \<le> i" for i
    using that by (simp only: bit_exp_iff) simp
  from ShiftOperand_reads_the_shifted_bit [of 32 "0x80000000" 3 ASR 40, OF _ this]
  show ?thesis by simp
qed

end
