(* ===== verification/Pointer_Auth.thy ===== *)
theory Pointer_Auth
  imports Sim_Memory
begin

text \<open>
  Pointer authentication, \<open>src/aarch64/pointer-auth-aarch64.cc\<close>: the simulator's
  own (non-cryptographic) code function with its nibble shuffles, and signing,
  authenticating and stripping of pointers.  All pointers are tagged and
  virtual addresses have 48 bits, so the code lies in bits 48 to 54 and bit 55
  selects the translation table.
\<close>

section \<open>Keys and the code function\<close>

record PACKey =
  key_high :: u64
  key_low :: u64
  key_number :: nat

text \<open>The keys of the simulator.  The general key has no number that authentication could use.\<close>

definition kPACKeyIA :: PACKey where
  "kPACKeyIA = \<lparr> key_high = 0xc31718727de20f71, key_low = 0xab9fd4e14b2fec51, key_number = 0 \<rparr>"

definition kPACKeyIB :: PACKey where
  "kPACKeyIB = \<lparr> key_high = 0xeebb163b474e04c8, key_low = 0x5267ac6fc280fb7c, key_number = 1 \<rparr>"

definition kPACKeyDA :: PACKey where
  "kPACKeyDA = \<lparr> key_high = 0x5caef808deb8b1e2, key_low = 0xd347cbc06b7b0f77, key_number = 0 \<rparr>"

definition kPACKeyDB :: PACKey where
  "kPACKeyDB = \<lparr> key_high = 0xe06aa1a949ba8cc7, key_low = 0xcfde69e3db6d0432, key_number = 1 \<rparr>"

definition kPACKeyGA_high :: u64 where "kPACKeyGA_high = 0xfcd98a44d564b3d5"
definition kPACKeyGA_low :: u64 where "kPACKeyGA_low = 0x6c56df1904bf0ddc"

definition GetNibble :: "u64 \<Rightarrow> nat \<Rightarrow> u64" where
  "GetNibble in_data position = drop_bit position in_data AND 0xf"

definition in_positions :: "nat list" where
  "in_positions = [4, 36, 52, 40, 44, 0, 24, 12, 56, 60, 8, 32, 16, 28, 20, 48]"

definition ShuffleNibbles :: "u64 \<Rightarrow> u64" where
  "ShuffleNibbles in_data =
     fold (\<lambda>i out_data. out_data OR push_bit (4 * i) (GetNibble in_data (in_positions ! i))) [0..<16] 0"

definition subs :: "u64 list" where
  "subs = [4, 7, 3, 9, 10, 14, 0, 1, 15, 2, 8, 6, 12, 5, 11, 13]"

definition SubstituteNibbles :: "u64 \<Rightarrow> u64" where
  "SubstituteNibbles in_data =
     fold (\<lambda>i out_data. let index = unat (drop_bit (4 * i) in_data AND 0xf)
             in out_data OR push_bit (4 * i) (subs ! index)) [0..<16] 0"

definition RotNibble :: "u64 \<Rightarrow> nat \<Rightarrow> u64" where
  "RotNibble in_cell amount =
     (let cell = in_cell AND 0xf;
          temp = push_bit 4 cell OR cell
      in drop_bit (4 - amount) temp AND 0xf)"

definition BigShuffle :: "u64 \<Rightarrow> u64" where
  "BigShuffle in_data =
     fold (\<lambda>i out_data.
       let n12 = GetNibble in_data (4 * (i + 12));
           n8 = GetNibble in_data (4 * (i + 8));
           n4 = GetNibble in_data (4 * (i + 4));
           n0 = GetNibble in_data (4 * (i + 0));
           t0 = RotNibble n8 2 XOR RotNibble n4 1 XOR RotNibble n0 1;
           t1 = RotNibble n12 1 XOR RotNibble n4 2 XOR RotNibble n0 1;
           t2 = RotNibble n12 2 XOR RotNibble n8 1 XOR RotNibble n0 1;
           t3 = RotNibble n12 1 XOR RotNibble n8 1 XOR RotNibble n4 2
       in out_data OR push_bit (4 * (i + 0)) t3 OR push_bit (4 * (i + 4)) t2
            OR push_bit (4 * (i + 8)) t1 OR push_bit (4 * (i + 12)) t0) [0..<4] 0"

definition ComputePAC_with :: "u64 \<Rightarrow> u64 \<Rightarrow> u64 \<Rightarrow> u64 \<Rightarrow> u64" where
  "ComputePAC_with data context high low =
     (let w = data XOR high;
          w = BigShuffle w;
          w = ShuffleNibbles w;
          w = w XOR low;
          w = ShuffleNibbles w;
          w = BigShuffle w;
          w = w XOR context;
          w = SubstituteNibbles w;
          w = BigShuffle w;
          w = SubstituteNibbles w
      in w)"

definition ComputePAC :: "u64 \<Rightarrow> u64 \<Rightarrow> PACKey \<Rightarrow> u64" where
  "ComputePAC data context key = ComputePAC_with data context (key_high key) (key_low key)"

section \<open>Pointers\<close>

datatype PointerType = kDataPointer | kInstructionPointer

abbreviation kTTBRMask :: u64 where "kTTBRMask \<equiv> 0x0080000000000000"

definition HasTBI :: "u64 \<Rightarrow> PointerType \<Rightarrow> bool" where
  "HasTBI ptr type = True"

definition GetBottomPACBit :: "u64 \<Rightarrow> u64 \<Rightarrow> nat" where
  "GetBottomPACBit ptr ttbr = 48"

definition GetTopPACBit :: "u64 \<Rightarrow> PointerType \<Rightarrow> nat" where
  "GetTopPACBit ptr type = (if HasTBI ptr type then 55 else 63)"

definition CalculatePACMask :: "u64 \<Rightarrow> PointerType \<Rightarrow> u64 \<Rightarrow> u64" where
  "CalculatePACMask ptr type ttbr =
     (let bottom_pac_bit = GetBottomPACBit ptr ttbr;
          top_pac_bit = GetTopPACBit ptr type
      in push_bit bottom_pac_bit
           (ExtractUnsignedBitfield64 top_pac_bit bottom_pac_bit
              (0xffffffffffffffff AND NOT kTTBRMask)))"

definition AuthPAC :: "u64 \<Rightarrow> u64 \<Rightarrow> PACKey \<Rightarrow> PointerType \<Rightarrow> u64" where
  "AuthPAC ptr context key type =
     (let pac_mask = CalculatePACMask ptr type (drop_bit 55 ptr AND 1);
          original_ptr = (if ptr AND kTTBRMask = 0 then ptr AND NOT pac_mask else ptr OR pac_mask);
          pac = ComputePAC original_ptr context key;
          error_code = push_bit (key_number key) 1
      in if pac AND pac_mask = ptr AND pac_mask then original_ptr
         else let error_lsb = GetTopPACBit ptr type - 2;
                  error_mask = push_bit error_lsb 3
              in (original_ptr AND NOT error_mask) OR push_bit error_lsb error_code)"

definition AddPAC :: "u64 \<Rightarrow> u64 \<Rightarrow> PACKey \<Rightarrow> PointerType \<Rightarrow> u64" where
  "AddPAC ptr context key type =
     (let top_pac_bit = GetTopPACBit ptr type;
          ttbr = drop_bit 55 ptr AND 1;
          pac_mask = CalculatePACMask ptr type ttbr;
          ext_ptr = (if ttbr = 0 then ptr AND NOT pac_mask else ptr OR pac_mask);
          pac = ComputePAC ext_ptr context key;
          pac = (if ptr AND (pac_mask OR kTTBRMask) \<noteq> 0
                    \<and> NOT ptr AND (pac_mask OR kTTBRMask) \<noteq> 0
                 then pac XOR push_bit (top_pac_bit - 1) 1 else pac);
          ttbr_shifted = push_bit 55 ttbr
      in (pac AND pac_mask) OR ttbr_shifted OR (ptr AND NOT pac_mask))"

definition StripPAC :: "u64 \<Rightarrow> PointerType \<Rightarrow> u64" where
  "StripPAC ptr type =
     (let pac_mask = CalculatePACMask ptr type (drop_bit 55 ptr AND 1)
      in if ptr AND kTTBRMask = 0 then ptr AND NOT pac_mask else ptr OR pac_mask)"

section \<open>The fields of a pointer\<close>

text \<open>The code field, bits 48 to 54, and the canonical extension of a pointer.\<close>

definition pac_field :: u64 where
  "pac_field = push_bit 48 (mask 7)"

definition canonical :: "u64 \<Rightarrow> bool" where
  "canonical ptr \<longleftrightarrow> (\<forall>i. 48 \<le> i \<and> i < 55 \<longrightarrow> (bit ptr i \<longleftrightarrow> bit ptr 55))"

definition extend_ptr :: "u64 \<Rightarrow> u64" where
  "extend_ptr ptr = (if bit ptr 55 then ptr OR pac_field else ptr AND NOT pac_field)"

lemma bit_pac_field: "bit pac_field i \<longleftrightarrow> 48 \<le> i \<and> i < 55"
  by (auto simp: pac_field_def bit_push_bit_iff bit_mask_iff)

lemma bit_TTBR: "bit kTTBRMask i \<longleftrightarrow> i = 55"
proof -
  have "kTTBRMask = 2 ^ 55" by simp
  then show ?thesis by (simp only: bit_exp_iff) auto
qed

lemma CalculatePACMask_field: "CalculatePACMask ptr type ttbr = pac_field"
proof (rule word_eq_bitI)
  fix i assume i: "i < LENGTH(64)"
  have ones: "(0xffffffffffffffff :: u64) = NOT 0" by simp
  show "bit (CalculatePACMask ptr type ttbr) i = bit pac_field i"
    unfolding CalculatePACMask_def Let_def GetTopPACBit_def GetBottomPACBit_def HasTBI_def ones
    using i by (auto simp only: bit_push_bit_iff bit_ExtractUnsignedBitfield64 bit_and_iff bit_not_iff
        bit_TTBR bit_pac_field if_True) auto
qed

lemma TTBR_test: "ptr AND kTTBRMask = 0 \<longleftrightarrow> \<not> bit ptr 55"
proof -
  have "kTTBRMask = 2 ^ 55" by simp
  then show ?thesis by (simp only: and_exp_eq_0_iff_not_bit)
qed

lemma ttbr_bit: "drop_bit 55 ptr AND 1 = (of_bool (bit ptr 55) :: u64)"
  by (simp add: and_one_eq_of_bool bit_drop_bit_eq)

lemma bit_extend_ptr: "bit (extend_ptr ptr) i \<longleftrightarrow> (if 48 \<le> i \<and> i < 55 then bit ptr 55 else bit ptr i)"
  by (auto simp: extend_ptr_def bit_or_iff bit_and_iff bit_not_iff bit_pac_field dest: bit_imp_le_length)

lemma extend_ptr_canonical: "canonical (extend_ptr ptr)"
  by (auto simp: canonical_def bit_extend_ptr)

lemma canonical_extend: "canonical ptr \<Longrightarrow> extend_ptr ptr = ptr"
  by (rule bit_word_eqI) (auto simp: canonical_def bit_extend_ptr)

lemma canonical_test:
  "(ptr AND (pac_field OR kTTBRMask) \<noteq> 0 \<and> NOT ptr AND (pac_field OR kTTBRMask) \<noteq> 0) \<longleftrightarrow> \<not> canonical ptr"
proof -
  have f: "bit (pac_field OR kTTBRMask) i \<longleftrightarrow> 48 \<le> i \<and> i \<le> 55" for i
    unfolding bit_or_iff bit_pac_field bit_TTBR by auto
  have "ptr AND (pac_field OR kTTBRMask) \<noteq> 0 \<longleftrightarrow> (\<exists>i. 48 \<le> i \<and> i \<le> 55 \<and> bit ptr i)"
    unfolding word_nonzero_iff_bit bit_and_iff f by auto
  moreover have "NOT ptr AND (pac_field OR kTTBRMask) \<noteq> 0 \<longleftrightarrow> (\<exists>i. 48 \<le> i \<and> i \<le> 55 \<and> \<not> bit ptr i)"
  proof -
    have "possible_bit TYPE(u64) i" if "i \<le> 55" for i using that by simp
    then show ?thesis unfolding word_nonzero_iff_bit bit_and_iff f bit_not_iff by blast
  qed
  moreover have "48 \<le> i \<and> i \<le> 55 \<longleftrightarrow> 48 \<le> i \<and> i < 55 \<or> i = 55" for i :: nat by auto
  ultimately show ?thesis
    unfolding canonical_def by (cases "bit ptr 55") blast+
qed

lemma StripPAC_extend: "StripPAC ptr type = extend_ptr ptr"
  by (simp add: StripPAC_def CalculatePACMask_field TTBR_test extend_ptr_def Let_def)

lemma AddPAC_split:
  "AddPAC ptr ctx key type =
    ((ComputePAC (extend_ptr ptr) ctx key XOR (if canonical ptr then 0 else push_bit 54 1)) AND pac_field)
      OR (ptr AND NOT pac_field)"
proof -
  have "push_bit 55 (of_bool (bit ptr 55)) OR (ptr AND NOT pac_field) = ptr AND NOT pac_field"
    by (rule bit_word_eqI) (auto simp: bit_or_iff bit_and_iff bit_not_iff bit_push_bit_iff bit_pac_field
        bit_of_bool_iff)
  then show ?thesis
    unfolding AddPAC_def Let_def CalculatePACMask_field ttbr_bit canonical_test or.assoc
    by (simp add: extend_ptr_def GetTopPACBit_def HasTBI_def)
qed

lemma AuthPAC_extend:
  "AuthPAC ptr ctx key type =
    (if ComputePAC (extend_ptr ptr) ctx key AND pac_field = ptr AND pac_field then extend_ptr ptr
     else (extend_ptr ptr AND NOT (push_bit 53 3)) OR push_bit 53 (push_bit (key_number key) 1))"
  unfolding AuthPAC_def Let_def CalculatePACMask_field TTBR_test
  by (simp add: extend_ptr_def GetTopPACBit_def HasTBI_def)

lemma extend_AddPAC: "extend_ptr (AddPAC ptr ctx key type) = extend_ptr ptr"
  by (rule bit_word_eqI)
    (auto simp: AddPAC_split bit_extend_ptr bit_or_iff bit_and_iff bit_not_iff bit_pac_field
      dest: bit_imp_le_length)

lemma AddPAC_field:
  "AddPAC ptr ctx key type AND pac_field =
    (ComputePAC (extend_ptr ptr) ctx key XOR (if canonical ptr then 0 else push_bit 54 1)) AND pac_field"
  by (rule bit_word_eqI)
    (auto simp: AddPAC_split bit_or_iff bit_and_iff bit_not_iff)

lemma corrupted_code_differs: "(p XOR push_bit 54 1) AND pac_field \<noteq> p AND pac_field"
proof
  assume "(p XOR push_bit 54 1) AND pac_field = p AND pac_field"
  then have "bit ((p XOR push_bit 54 1) AND pac_field) 54 = bit (p AND pac_field) 54" by simp
  then show False by (simp add: bit_and_iff bit_xor_iff bit_push_bit_iff bit_pac_field)
qed

lemma canonical_error_bits: "canonical ptr \<Longrightarrow> bit ptr 53 = bit ptr 54"
  by (simp add: canonical_def)

lemma error_pointer_not_canonical:
  assumes "key_number key < 2"
  shows "\<not> canonical ((extend_ptr p AND NOT (push_bit 53 3)) OR push_bit 53 (push_bit (key_number key) 1))"
proof -
  have three: "(3 :: u64) = mask 2" by (simp add: mask_eq_exp_minus_1)
  have n: "key_number key = 0 \<or> key_number key = 1" using assms by auto
  let ?e = "(extend_ptr p AND NOT (push_bit 53 3)) OR push_bit 53 (push_bit (key_number key) 1)"
  have "bit ?e 53 \<noteq> bit ?e 54"
    unfolding three bit_or_iff bit_and_iff bit_not_iff bit_push_bit_iff bit_mask_iff
    using n by (auto simp: bit_exp_iff bit_1_iff)
  then show ?thesis using canonical_error_bits by blast
qed

section \<open>Properties\<close>

text \<open>C7: Authenticating a signed pointer with the same context and key gives the pointer back
  when its extension bits were good.  Otherwise it gives exactly the pointer with its extension bits
  restored from bit 55 and then the error code, 1 or 2 by the number of the key, in bits 53 and 54; that
  pointer is never canonical, whatever the code of the pointer was.\<close>

theorem AuthPAC_of_AddPAC:
  assumes "key_number key < 2"
  shows "(canonical ptr \<longrightarrow> AuthPAC (AddPAC ptr ctx key type) ctx key type = ptr)
    \<and> (\<not> canonical ptr \<longrightarrow> AuthPAC (AddPAC ptr ctx key type) ctx key type =
          (StripPAC ptr type AND NOT (push_bit 53 3)) OR push_bit 53 (of_nat (key_number key) + 1)
        \<and> \<not> canonical (AuthPAC (AddPAC ptr ctx key type) ctx key type))"
proof (cases "canonical ptr")
  case True
  then show ?thesis
    by (simp add: AuthPAC_extend extend_AddPAC AddPAC_field canonical_extend)
next
  case False
  have "ComputePAC (extend_ptr ptr) ctx key AND pac_field \<noteq> AddPAC ptr ctx key type AND pac_field"
    using corrupted_code_differs False by (simp add: AddPAC_field) (metis (no_types))
  moreover have "push_bit (key_number key) 1 = (of_nat (key_number key) + 1 :: u64)"
    using assms by (auto simp: less_2_cases_iff)
  ultimately show ?thesis
    using False error_pointer_not_canonical [OF assms, of ptr]
    by (simp add: AuthPAC_extend extend_AddPAC StripPAC_extend)
qed

theorem AuthPAC_of_AddPAC_witness:
  "AuthPAC (AddPAC 0x1000 7 kPACKeyIA kInstructionPointer) 7 kPACKeyIA kInstructionPointer = 0x1000"
proof -
  have eq: "(0x1000 :: u64) = 2 ^ 12" by simp
  have bits: "bit (0x1000 :: u64) i \<longleftrightarrow> i = 12" for i unfolding eq bit_exp_iff by auto
  have c: "canonical 0x1000" unfolding canonical_def bits by simp
  have k: "key_number kPACKeyIA < 2" by (simp add: kPACKeyIA_def)
  from AuthPAC_of_AddPAC [OF k, of "0x1000" 7 kInstructionPointer] c show ?thesis by blast
qed

text \<open>Authentication accepts exactly one value of the code field for a pointer, context and
  key: when it returns a canonical pointer, the code was the computed one, and the result
  is the pointer with its code stripped.\<close>

theorem AuthPAC_accepts_only_the_code:
  assumes "key_number key < 2" "canonical (AuthPAC ptr ctx key type)"
  shows "AuthPAC ptr ctx key type = StripPAC ptr type
    \<and> ptr AND pac_field = ComputePAC (StripPAC ptr type) ctx key AND pac_field"
  using assms error_pointer_not_canonical [OF assms(1), of ptr]
  by (auto simp: AuthPAC_extend StripPAC_extend split: if_splits)

theorem AuthPAC_accepts_only_the_code_witness:
  "AuthPAC (AddPAC 0 3 kPACKeyDB kDataPointer) 3 kPACKeyDB kDataPointer =
    StripPAC (AddPAC 0 3 kPACKeyDB kDataPointer) kDataPointer"
proof -
  have c: "canonical 0" by (simp add: canonical_def)
  have "AuthPAC (AddPAC 0 3 kPACKeyDB kDataPointer) 3 kPACKeyDB kDataPointer = 0"
    using c by (simp add: AuthPAC_extend extend_AddPAC AddPAC_field canonical_extend)
  with c have "canonical (AuthPAC (AddPAC 0 3 kPACKeyDB kDataPointer) 3 kPACKeyDB kDataPointer)" by simp
  moreover have "key_number kPACKeyDB < 2" by (simp add: kPACKeyDB_def)
  ultimately show ?thesis using AuthPAC_accepts_only_the_code by blast
qed

end
