(* ===== verification/Form_Hash.thy ===== *)
theory Form_Hash
  imports Gaby_Prelude
begin

text \<open>
  The hash of an instruction form's name (\<open>vixl::Hash\<close> of
  \<open>src/utils-vixl.h\<close>, Jenkins' one-at-a-time hash), by which leaves that
  several forms share tell them apart: a case label \<open>"name"_h\<close> of the code is
  \<open>Hash ''name''\<close> here.
\<close>

fun Hash_from :: "string \<Rightarrow> u32 \<Rightarrow> u32" where
  "Hash_from [] hash =
     (let hash = hash + push_bit 3 hash; hash = hash XOR drop_bit 11 hash
      in hash + push_bit 15 hash)"
| "Hash_from (c # str) hash =
     (let hash = hash + of_char c; hash = hash + push_bit 10 hash; hash = hash XOR drop_bit 6 hash
      in Hash_from str hash)"

definition Hash :: "string \<Rightarrow> u32" where
  "Hash str = Hash_from str 0"

end
