(* ===== verification/Constants_Exec.thy ===== *)
theory Constants_Exec
  imports Constants_AArch64
begin

text \<open>
  The operation codes of \<open>src/aarch64/constants-aarch64.h\<close> that the
  instruction visitors dispatch on, under the names they have in the source.
\<close>

abbreviation AddSubOpMask :: u32 where "AddSubOpMask \<equiv> 0x60000000"
abbreviation ADD :: u32 where "ADD \<equiv> 0x00000000"
abbreviation ADDS :: u32 where "ADDS \<equiv> 0x20000000"
abbreviation SUB :: u32 where "SUB \<equiv> 0x40000000"
abbreviation SUBS :: u32 where "SUBS \<equiv> 0x60000000"
abbreviation RotateRightIntoFlagsMask :: u32 where "RotateRightIntoFlagsMask \<equiv> 0xFFE07C10"
abbreviation RMIF :: u32 where "RMIF \<equiv> 0xBA000400"
abbreviation EvaluateIntoFlagsMask :: u32 where "EvaluateIntoFlagsMask \<equiv> 0xFFE07C1F"
abbreviation SETF16 :: u32 where "SETF16 \<equiv> 0x3A00480D"
abbreviation ORR :: u32 where "ORR \<equiv> 0x20000000"
abbreviation EOR :: u32 where "EOR \<equiv> 0x40000000"
abbreviation MOVZ_w :: u32 where "MOVZ_w \<equiv> 0x52800000"
abbreviation MOVZ_x :: u32 where "MOVZ_x \<equiv> 0xD2800000"
abbreviation MOVK_w :: u32 where "MOVK_w \<equiv> 0x72800000"
abbreviation MOVK_x :: u32 where "MOVK_x \<equiv> 0xF2800000"
abbreviation BitfieldMask :: u32 where "BitfieldMask \<equiv> 0xFF800000"
abbreviation SBFM_w :: u32 where "SBFM_w \<equiv> 0x13000000"
abbreviation SBFM_x :: u32 where "SBFM_x \<equiv> 0x93000000"
abbreviation BFM_w :: u32 where "BFM_w \<equiv> 0x33000000"
abbreviation BFM_x :: u32 where "BFM_x \<equiv> 0xB3000000"
abbreviation UBFM_w :: u32 where "UBFM_w \<equiv> 0x53000000"
abbreviation UBFM_x :: u32 where "UBFM_x \<equiv> 0xD3000000"
abbreviation UnconditionalBranchMask :: u32 where "UnconditionalBranchMask \<equiv> 0xFC000000"
abbreviation BL :: u32 where "BL \<equiv> 0x94000000"
abbreviation UnconditionalBranchToRegisterMask :: u32 where "UnconditionalBranchToRegisterMask \<equiv> 0xFFFFFC00"
abbreviation BR :: u32 where "BR \<equiv> 0xD61F0000"
abbreviation BLR :: u32 where "BLR \<equiv> 0xD63F0000"
abbreviation RET :: u32 where "RET \<equiv> 0xD65F0000"
abbreviation BRAAZ :: u32 where "BRAAZ \<equiv> 0xD61F0800"
abbreviation BRABZ :: u32 where "BRABZ \<equiv> 0xD61F0C00"
abbreviation BLRAAZ :: u32 where "BLRAAZ \<equiv> 0xD63F0800"
abbreviation BLRABZ :: u32 where "BLRABZ \<equiv> 0xD63F0C00"
abbreviation RETAA :: u32 where "RETAA \<equiv> 0xD65F0800"
abbreviation RETAB :: u32 where "RETAB \<equiv> 0xD65F0C00"
abbreviation BRAA :: u32 where "BRAA \<equiv> 0xD71F0800"
abbreviation BRAB :: u32 where "BRAB \<equiv> 0xD71F0C00"
abbreviation BLRAA :: u32 where "BLRAA \<equiv> 0xD73F0800"
abbreviation BLRAB :: u32 where "BLRAB \<equiv> 0xD73F0C00"
abbreviation CompareBranchMask :: u32 where "CompareBranchMask \<equiv> 0xFF000000"
abbreviation CBZ_w :: u32 where "CBZ_w \<equiv> 0x34000000"
abbreviation CBZ_x :: u32 where "CBZ_x \<equiv> 0xB4000000"
abbreviation CBNZ_w :: u32 where "CBNZ_w \<equiv> 0x35000000"
abbreviation CBNZ_x :: u32 where "CBNZ_x \<equiv> 0xB5000000"
abbreviation TestBranchMask :: u32 where "TestBranchMask \<equiv> 0x7F000000"
abbreviation TBZ :: u32 where "TBZ \<equiv> 0x36000000"
abbreviation TBNZ :: u32 where "TBNZ \<equiv> 0x37000000"
abbreviation HLT :: u32 where "HLT \<equiv> 0xD4400000"
abbreviation BRK :: u32 where "BRK \<equiv> 0xD4200000"
abbreviation SystemPAuthMask :: u32 where "SystemPAuthMask \<equiv> 0xFFFFFFFF"
abbreviation PACIASP :: u32 where "PACIASP \<equiv> 0xD503233F"
abbreviation PACIBSP :: u32 where "PACIBSP \<equiv> 0xD503237F"
abbreviation STP_w :: u32 where "STP_w \<equiv> 0x00000000"
abbreviation LDP_w :: u32 where "LDP_w \<equiv> 0x00400000"
abbreviation STP_s :: u32 where "STP_s \<equiv> 0x04000000"
abbreviation LDP_s :: u32 where "LDP_s \<equiv> 0x04400000"
abbreviation LoadStorePACPreBit :: u32 where "LoadStorePACPreBit \<equiv> 0x00000800"
abbreviation LoadLiteralMask :: u32 where "LoadLiteralMask \<equiv> 0xFF000000"
abbreviation LDR_w_lit :: u32 where "LDR_w_lit \<equiv> 0x18000000"
abbreviation LDR_x_lit :: u32 where "LDR_x_lit \<equiv> 0x58000000"
abbreviation LDRSW_x_lit :: u32 where "LDRSW_x_lit \<equiv> 0x98000000"
abbreviation PRFM_lit :: u32 where "PRFM_lit \<equiv> 0xD8000000"
abbreviation LDR_s_lit :: u32 where "LDR_s_lit \<equiv> 0x1C000000"
abbreviation LDR_d_lit :: u32 where "LDR_d_lit \<equiv> 0x5C000000"
abbreviation LDR_q_lit :: u32 where "LDR_q_lit \<equiv> 0x9C000000"
abbreviation PRFM :: u32 where "PRFM \<equiv> 0xC0800000"
abbreviation LoadStoreExclusiveMask :: u32 where "LoadStoreExclusiveMask \<equiv> 0xFFE08000"
abbreviation STXRB_w :: u32 where "STXRB_w \<equiv> 0x08000000"
abbreviation STXRH_w :: u32 where "STXRH_w \<equiv> 0x48000000"
abbreviation STXR_w :: u32 where "STXR_w \<equiv> 0x88000000"
abbreviation STXR_x :: u32 where "STXR_x \<equiv> 0xC8000000"
abbreviation LDXRB_w :: u32 where "LDXRB_w \<equiv> 0x08400000"
abbreviation LDXRH_w :: u32 where "LDXRH_w \<equiv> 0x48400000"
abbreviation LDXR_w :: u32 where "LDXR_w \<equiv> 0x88400000"
abbreviation LDXR_x :: u32 where "LDXR_x \<equiv> 0xC8400000"
abbreviation STXP_w :: u32 where "STXP_w \<equiv> 0x88200000"
abbreviation STXP_x :: u32 where "STXP_x \<equiv> 0xC8200000"
abbreviation LDXP_w :: u32 where "LDXP_w \<equiv> 0x88600000"
abbreviation LDXP_x :: u32 where "LDXP_x \<equiv> 0xC8600000"
abbreviation STLXRB_w :: u32 where "STLXRB_w \<equiv> 0x08008000"
abbreviation STLXRH_w :: u32 where "STLXRH_w \<equiv> 0x48008000"
abbreviation STLXR_w :: u32 where "STLXR_w \<equiv> 0x88008000"
abbreviation STLXR_x :: u32 where "STLXR_x \<equiv> 0xC8008000"
abbreviation LDAXRB_w :: u32 where "LDAXRB_w \<equiv> 0x08408000"
abbreviation LDAXRH_w :: u32 where "LDAXRH_w \<equiv> 0x48408000"
abbreviation LDAXR_w :: u32 where "LDAXR_w \<equiv> 0x88408000"
abbreviation LDAXR_x :: u32 where "LDAXR_x \<equiv> 0xC8408000"
abbreviation STLXP_w :: u32 where "STLXP_w \<equiv> 0x88208000"
abbreviation STLXP_x :: u32 where "STLXP_x \<equiv> 0xC8208000"
abbreviation LDAXP_w :: u32 where "LDAXP_w \<equiv> 0x88608000"
abbreviation LDAXP_x :: u32 where "LDAXP_x \<equiv> 0xC8608000"
abbreviation STLRB_w :: u32 where "STLRB_w \<equiv> 0x08808000"
abbreviation STLRH_w :: u32 where "STLRH_w \<equiv> 0x48808000"
abbreviation STLR_w :: u32 where "STLR_w \<equiv> 0x88808000"
abbreviation STLR_x :: u32 where "STLR_x \<equiv> 0xC8808000"
abbreviation LDARB_w :: u32 where "LDARB_w \<equiv> 0x08C08000"
abbreviation LDARH_w :: u32 where "LDARH_w \<equiv> 0x48C08000"
abbreviation LDAR_w :: u32 where "LDAR_w \<equiv> 0x88C08000"
abbreviation LDAR_x :: u32 where "LDAR_x \<equiv> 0xC8C08000"
abbreviation STLLRB :: u32 where "STLLRB \<equiv> 0x08800000"
abbreviation LDLARB :: u32 where "LDLARB \<equiv> 0x08C00000"
abbreviation STLLRH :: u32 where "STLLRH \<equiv> 0x48800000"
abbreviation LDLARH :: u32 where "LDLARH \<equiv> 0x48C00000"
abbreviation STLLR_w :: u32 where "STLLR_w \<equiv> 0x88800000"
abbreviation LDLAR_w :: u32 where "LDLAR_w \<equiv> 0x88C00000"
abbreviation STLLR_x :: u32 where "STLLR_x \<equiv> 0xC8800000"
abbreviation LDLAR_x :: u32 where "LDLAR_x \<equiv> 0xC8C00000"
abbreviation CAS_w :: u32 where "CAS_w \<equiv> 0x88A00000"
abbreviation CAS_x :: u32 where "CAS_x \<equiv> 0xC8A00000"
abbreviation CASA_w :: u32 where "CASA_w \<equiv> 0x88E00000"
abbreviation CASA_x :: u32 where "CASA_x \<equiv> 0xC8E00000"
abbreviation CASL_w :: u32 where "CASL_w \<equiv> 0x88A08000"
abbreviation CASL_x :: u32 where "CASL_x \<equiv> 0xC8A08000"
abbreviation CASAL_w :: u32 where "CASAL_w \<equiv> 0x88E08000"
abbreviation CASAL_x :: u32 where "CASAL_x \<equiv> 0xC8E08000"
abbreviation CASB :: u32 where "CASB \<equiv> 0x08A00000"
abbreviation CASAB :: u32 where "CASAB \<equiv> 0x08E00000"
abbreviation CASLB :: u32 where "CASLB \<equiv> 0x08A08000"
abbreviation CASALB :: u32 where "CASALB \<equiv> 0x08E08000"
abbreviation CASH :: u32 where "CASH \<equiv> 0x48A00000"
abbreviation CASAH :: u32 where "CASAH \<equiv> 0x48E00000"
abbreviation CASLH :: u32 where "CASLH \<equiv> 0x48A08000"
abbreviation CASALH :: u32 where "CASALH \<equiv> 0x48E08000"
abbreviation CASP_w :: u32 where "CASP_w \<equiv> 0x08200000"
abbreviation CASP_x :: u32 where "CASP_x \<equiv> 0x48200000"
abbreviation CASPA_w :: u32 where "CASPA_w \<equiv> 0x08600000"
abbreviation CASPA_x :: u32 where "CASPA_x \<equiv> 0x48600000"
abbreviation CASPL_w :: u32 where "CASPL_w \<equiv> 0x08208000"
abbreviation CASPL_x :: u32 where "CASPL_x \<equiv> 0x48208000"
abbreviation CASPAL_w :: u32 where "CASPAL_w \<equiv> 0x08608000"
abbreviation CASPAL_x :: u32 where "CASPAL_x \<equiv> 0x48608000"
abbreviation LoadStoreRCpcUnscaledOffsetMask :: u32 where "LoadStoreRCpcUnscaledOffsetMask \<equiv> 0xFFE00C00"
abbreviation STLURB :: u32 where "STLURB \<equiv> 0x19000000"
abbreviation LDAPURB :: u32 where "LDAPURB \<equiv> 0x19400000"
abbreviation LDAPURSB_x :: u32 where "LDAPURSB_x \<equiv> 0x19800000"
abbreviation LDAPURSB_w :: u32 where "LDAPURSB_w \<equiv> 0x19C00000"
abbreviation STLURH :: u32 where "STLURH \<equiv> 0x59000000"
abbreviation LDAPURH :: u32 where "LDAPURH \<equiv> 0x59400000"
abbreviation LDAPURSH_x :: u32 where "LDAPURSH_x \<equiv> 0x59800000"
abbreviation LDAPURSH_w :: u32 where "LDAPURSH_w \<equiv> 0x59C00000"
abbreviation STLUR_w :: u32 where "STLUR_w \<equiv> 0x99000000"
abbreviation LDAPUR_w :: u32 where "LDAPUR_w \<equiv> 0x99400000"
abbreviation LDAPURSW :: u32 where "LDAPURSW \<equiv> 0x99800000"
abbreviation STLUR_x :: u32 where "STLUR_x \<equiv> 0xD9000000"
abbreviation LDAPUR_x :: u32 where "LDAPUR_x \<equiv> 0xD9400000"
abbreviation AtomicMemoryMask :: u32 where "AtomicMemoryMask \<equiv> 0xFFE0FC00"
abbreviation SWPB :: u32 where "SWPB \<equiv> 0x38208000"
abbreviation SWPAB :: u32 where "SWPAB \<equiv> 0x38A08000"
abbreviation SWPLB :: u32 where "SWPLB \<equiv> 0x38608000"
abbreviation SWPALB :: u32 where "SWPALB \<equiv> 0x38E08000"
abbreviation SWPH :: u32 where "SWPH \<equiv> 0x78208000"
abbreviation SWPAH :: u32 where "SWPAH \<equiv> 0x78A08000"
abbreviation SWPLH :: u32 where "SWPLH \<equiv> 0x78608000"
abbreviation SWPALH :: u32 where "SWPALH \<equiv> 0x78E08000"
abbreviation SWP_w :: u32 where "SWP_w \<equiv> 0xB8208000"
abbreviation SWPA_w :: u32 where "SWPA_w \<equiv> 0xB8A08000"
abbreviation SWPL_w :: u32 where "SWPL_w \<equiv> 0xB8608000"
abbreviation SWPAL_w :: u32 where "SWPAL_w \<equiv> 0xB8E08000"
abbreviation SWP_x :: u32 where "SWP_x \<equiv> 0xF8208000"
abbreviation SWPA_x :: u32 where "SWPA_x \<equiv> 0xF8A08000"
abbreviation SWPL_x :: u32 where "SWPL_x \<equiv> 0xF8608000"
abbreviation SWPAL_x :: u32 where "SWPAL_x \<equiv> 0xF8E08000"
abbreviation LDAPRB :: u32 where "LDAPRB \<equiv> 0x38A0C000"
abbreviation LDAPRH :: u32 where "LDAPRH \<equiv> 0x78A0C000"
abbreviation LDAPR_w :: u32 where "LDAPR_w \<equiv> 0xB8A0C000"
abbreviation LDAPR_x :: u32 where "LDAPR_x \<equiv> 0xF8A0C000"
abbreviation AtomicMemorySimpleOpMask :: u32 where "AtomicMemorySimpleOpMask \<equiv> 0x00007000"
abbreviation ConditionalCompareMask :: u32 where "ConditionalCompareMask \<equiv> 0x60000000"
abbreviation CCMP :: u32 where "CCMP \<equiv> 0x60000000"
abbreviation ConditionalSelectMask :: u32 where "ConditionalSelectMask \<equiv> 0xFFE00C00"
abbreviation CSEL_w :: u32 where "CSEL_w \<equiv> 0x1A800000"
abbreviation CSEL_x :: u32 where "CSEL_x \<equiv> 0x9A800000"
abbreviation CSINC_w :: u32 where "CSINC_w \<equiv> 0x1A800400"
abbreviation CSINC_x :: u32 where "CSINC_x \<equiv> 0x9A800400"
abbreviation CSINV_w :: u32 where "CSINV_w \<equiv> 0x5A800000"
abbreviation CSINV_x :: u32 where "CSINV_x \<equiv> 0xDA800000"
abbreviation CSNEG_w :: u32 where "CSNEG_w \<equiv> 0x5A800400"
abbreviation CSNEG_x :: u32 where "CSNEG_x \<equiv> 0xDA800400"
abbreviation DataProcessing2SourceMask :: u32 where "DataProcessing2SourceMask \<equiv> 0xFFE0FC00"
abbreviation UDIV_w :: u32 where "UDIV_w \<equiv> 0x1AC00800"
abbreviation UDIV_x :: u32 where "UDIV_x \<equiv> 0x9AC00800"
abbreviation SDIV_w :: u32 where "SDIV_w \<equiv> 0x1AC00C00"
abbreviation SDIV_x :: u32 where "SDIV_x \<equiv> 0x9AC00C00"
abbreviation LSLV_w :: u32 where "LSLV_w \<equiv> 0x1AC02000"
abbreviation LSLV_x :: u32 where "LSLV_x \<equiv> 0x9AC02000"
abbreviation LSRV_w :: u32 where "LSRV_w \<equiv> 0x1AC02400"
abbreviation LSRV_x :: u32 where "LSRV_x \<equiv> 0x9AC02400"
abbreviation ASRV_w :: u32 where "ASRV_w \<equiv> 0x1AC02800"
abbreviation ASRV_x :: u32 where "ASRV_x \<equiv> 0x9AC02800"
abbreviation RORV_w :: u32 where "RORV_w \<equiv> 0x1AC02C00"
abbreviation RORV_x :: u32 where "RORV_x \<equiv> 0x9AC02C00"
abbreviation PACGA :: u32 where "PACGA \<equiv> 0x9AC03000"
abbreviation CRC32B :: u32 where "CRC32B \<equiv> 0x1AC04000"
abbreviation CRC32H :: u32 where "CRC32H \<equiv> 0x1AC04400"
abbreviation CRC32W :: u32 where "CRC32W \<equiv> 0x1AC04800"
abbreviation CRC32X :: u32 where "CRC32X \<equiv> 0x9AC04C00"
abbreviation CRC32CB :: u32 where "CRC32CB \<equiv> 0x1AC05000"
abbreviation CRC32CH :: u32 where "CRC32CH \<equiv> 0x1AC05400"
abbreviation CRC32CW :: u32 where "CRC32CW \<equiv> 0x1AC05800"
abbreviation CRC32CX :: u32 where "CRC32CX \<equiv> 0x9AC05C00"
abbreviation DataProcessing3SourceMask :: u32 where "DataProcessing3SourceMask \<equiv> 0xFFE08000"
abbreviation MADD_w :: u32 where "MADD_w \<equiv> 0x1B000000"
abbreviation MADD_x :: u32 where "MADD_x \<equiv> 0x9B000000"
abbreviation MSUB_w :: u32 where "MSUB_w \<equiv> 0x1B008000"
abbreviation MSUB_x :: u32 where "MSUB_x \<equiv> 0x9B008000"
abbreviation SMADDL_x :: u32 where "SMADDL_x \<equiv> 0x9B200000"
abbreviation SMSUBL_x :: u32 where "SMSUBL_x \<equiv> 0x9B208000"
abbreviation SMULH_x :: u32 where "SMULH_x \<equiv> 0x9B400000"
abbreviation UMADDL_x :: u32 where "UMADDL_x \<equiv> 0x9BA00000"
abbreviation UMSUBL_x :: u32 where "UMSUBL_x \<equiv> 0x9BA08000"
abbreviation UMULH_x :: u32 where "UMULH_x \<equiv> 0x9BC00000"
abbreviation LDADDAB :: u32 where "LDADDAB \<equiv> 0x38A00000"
abbreviation LDADDAH :: u32 where "LDADDAH \<equiv> 0x78A00000"
abbreviation LDADDALB :: u32 where "LDADDALB \<equiv> 0x38E00000"
abbreviation LDADDALH :: u32 where "LDADDALH \<equiv> 0x78E00000"
abbreviation LDADDAL_w :: u32 where "LDADDAL_w \<equiv> 0xB8E00000"
abbreviation LDADDAL_x :: u32 where "LDADDAL_x \<equiv> 0xF8E00000"
abbreviation LDADDA_w :: u32 where "LDADDA_w \<equiv> 0xB8A00000"
abbreviation LDADDA_x :: u32 where "LDADDA_x \<equiv> 0xF8A00000"
abbreviation LDADDB :: u32 where "LDADDB \<equiv> 0x38200000"
abbreviation LDADDH :: u32 where "LDADDH \<equiv> 0x78200000"
abbreviation LDADDLB :: u32 where "LDADDLB \<equiv> 0x38600000"
abbreviation LDADDLH :: u32 where "LDADDLH \<equiv> 0x78600000"
abbreviation LDADDL_w :: u32 where "LDADDL_w \<equiv> 0xB8600000"
abbreviation LDADDL_x :: u32 where "LDADDL_x \<equiv> 0xF8600000"
abbreviation LDADDOp :: u32 where "LDADDOp \<equiv> 0x00000000"
abbreviation LDADD_w :: u32 where "LDADD_w \<equiv> 0xB8200000"
abbreviation LDADD_x :: u32 where "LDADD_x \<equiv> 0xF8200000"
abbreviation LDCLRAB :: u32 where "LDCLRAB \<equiv> 0x38A01000"
abbreviation LDCLRAH :: u32 where "LDCLRAH \<equiv> 0x78A01000"
abbreviation LDCLRALB :: u32 where "LDCLRALB \<equiv> 0x38E01000"
abbreviation LDCLRALH :: u32 where "LDCLRALH \<equiv> 0x78E01000"
abbreviation LDCLRAL_w :: u32 where "LDCLRAL_w \<equiv> 0xB8E01000"
abbreviation LDCLRAL_x :: u32 where "LDCLRAL_x \<equiv> 0xF8E01000"
abbreviation LDCLRA_w :: u32 where "LDCLRA_w \<equiv> 0xB8A01000"
abbreviation LDCLRA_x :: u32 where "LDCLRA_x \<equiv> 0xF8A01000"
abbreviation LDCLRB :: u32 where "LDCLRB \<equiv> 0x38201000"
abbreviation LDCLRH :: u32 where "LDCLRH \<equiv> 0x78201000"
abbreviation LDCLRLB :: u32 where "LDCLRLB \<equiv> 0x38601000"
abbreviation LDCLRLH :: u32 where "LDCLRLH \<equiv> 0x78601000"
abbreviation LDCLRL_w :: u32 where "LDCLRL_w \<equiv> 0xB8601000"
abbreviation LDCLRL_x :: u32 where "LDCLRL_x \<equiv> 0xF8601000"
abbreviation LDCLROp :: u32 where "LDCLROp \<equiv> 0x00001000"
abbreviation LDCLR_w :: u32 where "LDCLR_w \<equiv> 0xB8201000"
abbreviation LDCLR_x :: u32 where "LDCLR_x \<equiv> 0xF8201000"
abbreviation LDEORAB :: u32 where "LDEORAB \<equiv> 0x38A02000"
abbreviation LDEORAH :: u32 where "LDEORAH \<equiv> 0x78A02000"
abbreviation LDEORALB :: u32 where "LDEORALB \<equiv> 0x38E02000"
abbreviation LDEORALH :: u32 where "LDEORALH \<equiv> 0x78E02000"
abbreviation LDEORAL_w :: u32 where "LDEORAL_w \<equiv> 0xB8E02000"
abbreviation LDEORAL_x :: u32 where "LDEORAL_x \<equiv> 0xF8E02000"
abbreviation LDEORA_w :: u32 where "LDEORA_w \<equiv> 0xB8A02000"
abbreviation LDEORA_x :: u32 where "LDEORA_x \<equiv> 0xF8A02000"
abbreviation LDEORB :: u32 where "LDEORB \<equiv> 0x38202000"
abbreviation LDEORH :: u32 where "LDEORH \<equiv> 0x78202000"
abbreviation LDEORLB :: u32 where "LDEORLB \<equiv> 0x38602000"
abbreviation LDEORLH :: u32 where "LDEORLH \<equiv> 0x78602000"
abbreviation LDEORL_w :: u32 where "LDEORL_w \<equiv> 0xB8602000"
abbreviation LDEORL_x :: u32 where "LDEORL_x \<equiv> 0xF8602000"
abbreviation LDEOROp :: u32 where "LDEOROp \<equiv> 0x00002000"
abbreviation LDEOR_w :: u32 where "LDEOR_w \<equiv> 0xB8202000"
abbreviation LDEOR_x :: u32 where "LDEOR_x \<equiv> 0xF8202000"
abbreviation LDPSW_x :: u32 where "LDPSW_x \<equiv> 0x40400000"
abbreviation LDSETAB :: u32 where "LDSETAB \<equiv> 0x38A03000"
abbreviation LDSETAH :: u32 where "LDSETAH \<equiv> 0x78A03000"
abbreviation LDSETALB :: u32 where "LDSETALB \<equiv> 0x38E03000"
abbreviation LDSETALH :: u32 where "LDSETALH \<equiv> 0x78E03000"
abbreviation LDSETAL_w :: u32 where "LDSETAL_w \<equiv> 0xB8E03000"
abbreviation LDSETAL_x :: u32 where "LDSETAL_x \<equiv> 0xF8E03000"
abbreviation LDSETA_w :: u32 where "LDSETA_w \<equiv> 0xB8A03000"
abbreviation LDSETA_x :: u32 where "LDSETA_x \<equiv> 0xF8A03000"
abbreviation LDSETB :: u32 where "LDSETB \<equiv> 0x38203000"
abbreviation LDSETH :: u32 where "LDSETH \<equiv> 0x78203000"
abbreviation LDSETLB :: u32 where "LDSETLB \<equiv> 0x38603000"
abbreviation LDSETLH :: u32 where "LDSETLH \<equiv> 0x78603000"
abbreviation LDSETL_w :: u32 where "LDSETL_w \<equiv> 0xB8603000"
abbreviation LDSETL_x :: u32 where "LDSETL_x \<equiv> 0xF8603000"
abbreviation LDSETOp :: u32 where "LDSETOp \<equiv> 0x00003000"
abbreviation LDSET_w :: u32 where "LDSET_w \<equiv> 0xB8203000"
abbreviation LDSET_x :: u32 where "LDSET_x \<equiv> 0xF8203000"
abbreviation LDSMAXAB :: u32 where "LDSMAXAB \<equiv> 0x38A04000"
abbreviation LDSMAXAH :: u32 where "LDSMAXAH \<equiv> 0x78A04000"
abbreviation LDSMAXALB :: u32 where "LDSMAXALB \<equiv> 0x38E04000"
abbreviation LDSMAXALH :: u32 where "LDSMAXALH \<equiv> 0x78E04000"
abbreviation LDSMAXAL_w :: u32 where "LDSMAXAL_w \<equiv> 0xB8E04000"
abbreviation LDSMAXAL_x :: u32 where "LDSMAXAL_x \<equiv> 0xF8E04000"
abbreviation LDSMAXA_w :: u32 where "LDSMAXA_w \<equiv> 0xB8A04000"
abbreviation LDSMAXA_x :: u32 where "LDSMAXA_x \<equiv> 0xF8A04000"
abbreviation LDSMAXB :: u32 where "LDSMAXB \<equiv> 0x38204000"
abbreviation LDSMAXH :: u32 where "LDSMAXH \<equiv> 0x78204000"
abbreviation LDSMAXLB :: u32 where "LDSMAXLB \<equiv> 0x38604000"
abbreviation LDSMAXLH :: u32 where "LDSMAXLH \<equiv> 0x78604000"
abbreviation LDSMAXL_w :: u32 where "LDSMAXL_w \<equiv> 0xB8604000"
abbreviation LDSMAXL_x :: u32 where "LDSMAXL_x \<equiv> 0xF8604000"
abbreviation LDSMAXOp :: u32 where "LDSMAXOp \<equiv> 0x00004000"
abbreviation LDSMAX_w :: u32 where "LDSMAX_w \<equiv> 0xB8204000"
abbreviation LDSMAX_x :: u32 where "LDSMAX_x \<equiv> 0xF8204000"
abbreviation LDSMINAB :: u32 where "LDSMINAB \<equiv> 0x38A05000"
abbreviation LDSMINAH :: u32 where "LDSMINAH \<equiv> 0x78A05000"
abbreviation LDSMINALB :: u32 where "LDSMINALB \<equiv> 0x38E05000"
abbreviation LDSMINALH :: u32 where "LDSMINALH \<equiv> 0x78E05000"
abbreviation LDSMINAL_w :: u32 where "LDSMINAL_w \<equiv> 0xB8E05000"
abbreviation LDSMINAL_x :: u32 where "LDSMINAL_x \<equiv> 0xF8E05000"
abbreviation LDSMINA_w :: u32 where "LDSMINA_w \<equiv> 0xB8A05000"
abbreviation LDSMINA_x :: u32 where "LDSMINA_x \<equiv> 0xF8A05000"
abbreviation LDSMINB :: u32 where "LDSMINB \<equiv> 0x38205000"
abbreviation LDSMINH :: u32 where "LDSMINH \<equiv> 0x78205000"
abbreviation LDSMINLB :: u32 where "LDSMINLB \<equiv> 0x38605000"
abbreviation LDSMINLH :: u32 where "LDSMINLH \<equiv> 0x78605000"
abbreviation LDSMINL_w :: u32 where "LDSMINL_w \<equiv> 0xB8605000"
abbreviation LDSMINL_x :: u32 where "LDSMINL_x \<equiv> 0xF8605000"
abbreviation LDSMINOp :: u32 where "LDSMINOp \<equiv> 0x00005000"
abbreviation LDSMIN_w :: u32 where "LDSMIN_w \<equiv> 0xB8205000"
abbreviation LDSMIN_x :: u32 where "LDSMIN_x \<equiv> 0xF8205000"
abbreviation LDUMAXAB :: u32 where "LDUMAXAB \<equiv> 0x38A06000"
abbreviation LDUMAXAH :: u32 where "LDUMAXAH \<equiv> 0x78A06000"
abbreviation LDUMAXALB :: u32 where "LDUMAXALB \<equiv> 0x38E06000"
abbreviation LDUMAXALH :: u32 where "LDUMAXALH \<equiv> 0x78E06000"
abbreviation LDUMAXAL_w :: u32 where "LDUMAXAL_w \<equiv> 0xB8E06000"
abbreviation LDUMAXAL_x :: u32 where "LDUMAXAL_x \<equiv> 0xF8E06000"
abbreviation LDUMAXA_w :: u32 where "LDUMAXA_w \<equiv> 0xB8A06000"
abbreviation LDUMAXA_x :: u32 where "LDUMAXA_x \<equiv> 0xF8A06000"
abbreviation LDUMAXB :: u32 where "LDUMAXB \<equiv> 0x38206000"
abbreviation LDUMAXH :: u32 where "LDUMAXH \<equiv> 0x78206000"
abbreviation LDUMAXLB :: u32 where "LDUMAXLB \<equiv> 0x38606000"
abbreviation LDUMAXLH :: u32 where "LDUMAXLH \<equiv> 0x78606000"
abbreviation LDUMAXL_w :: u32 where "LDUMAXL_w \<equiv> 0xB8606000"
abbreviation LDUMAXL_x :: u32 where "LDUMAXL_x \<equiv> 0xF8606000"
abbreviation LDUMAXOp :: u32 where "LDUMAXOp \<equiv> 0x00006000"
abbreviation LDUMAX_w :: u32 where "LDUMAX_w \<equiv> 0xB8206000"
abbreviation LDUMAX_x :: u32 where "LDUMAX_x \<equiv> 0xF8206000"
abbreviation LDUMINAB :: u32 where "LDUMINAB \<equiv> 0x38A07000"
abbreviation LDUMINAH :: u32 where "LDUMINAH \<equiv> 0x78A07000"
abbreviation LDUMINALB :: u32 where "LDUMINALB \<equiv> 0x38E07000"
abbreviation LDUMINALH :: u32 where "LDUMINALH \<equiv> 0x78E07000"
abbreviation LDUMINAL_w :: u32 where "LDUMINAL_w \<equiv> 0xB8E07000"
abbreviation LDUMINAL_x :: u32 where "LDUMINAL_x \<equiv> 0xF8E07000"
abbreviation LDUMINA_w :: u32 where "LDUMINA_w \<equiv> 0xB8A07000"
abbreviation LDUMINA_x :: u32 where "LDUMINA_x \<equiv> 0xF8A07000"
abbreviation LDUMINB :: u32 where "LDUMINB \<equiv> 0x38207000"
abbreviation LDUMINH :: u32 where "LDUMINH \<equiv> 0x78207000"
abbreviation LDUMINLB :: u32 where "LDUMINLB \<equiv> 0x38607000"
abbreviation LDUMINLH :: u32 where "LDUMINLH \<equiv> 0x78607000"
abbreviation LDUMINL_w :: u32 where "LDUMINL_w \<equiv> 0xB8607000"
abbreviation LDUMINL_x :: u32 where "LDUMINL_x \<equiv> 0xF8607000"
abbreviation LDUMINOp :: u32 where "LDUMINOp \<equiv> 0x00007000"
abbreviation LDUMIN_w :: u32 where "LDUMIN_w \<equiv> 0xB8207000"
abbreviation LDUMIN_x :: u32 where "LDUMIN_x \<equiv> 0xF8207000"

end
