(* ===== verification/Sim_DataProc.thy ===== *)
theory Sim_DataProc
  imports Sim_Alu Pointer_Auth Form_Hash Constants_Exec "HOL-Library.Signed_Division"
begin

text \<open>
  The data-processing visitors of \<open>src/aarch64/simulator-aarch64.cc\<close>: add and
  subtract, logical operations, conditional compare and select, flag
  manipulation, move wide, bit fields, extract, and the one-, two- and
  three-source instructions with division, checksums, bit counts and the high
  half of products.  A visitor takes the instruction and the simulator, and
  returns the new simulator or the abort it ends in.
\<close>

section \<open>Operand access\<close>

definition reg_size_of :: "u32 \<Rightarrow> nat" where
  "reg_size_of bits = (if GetSixtyFourBits bits \<noteq> 0 then 64 else 32)"

abbreviation rd_of :: "u32 \<Rightarrow> nat" where "rd_of bits \<equiv> unat (GetRd bits)"
abbreviation rn_of :: "u32 \<Rightarrow> nat" where "rn_of bits \<equiv> unat (GetRn bits)"
abbreviation rm_of :: "u32 \<Rightarrow> nat" where "rm_of bits \<equiv> unat (GetRm bits)"
abbreviation ra_of :: "u32 \<Rightarrow> nat" where "ra_of bits \<equiv> unat (GetRa bits)"

text \<open>The plain sized accessors, with register 31 as the zero register.\<close>

abbreviation readz :: "nat \<Rightarrow> nat \<Rightarrow> 'v vsim \<Rightarrow> u64" where
  "readz reg_size code s \<equiv> ReadRegisterSized reg_size code Reg31IsZeroRegister s"

abbreviation writez :: "nat \<Rightarrow> nat \<Rightarrow> u64 \<Rightarrow> 'v vsim \<Rightarrow> 'v vsim" where
  "writez reg_size code v s \<equiv> WriteRegisterSized reg_size code v Reg31IsZeroRegister s"

abbreviation op_AND :: u32 where "op_AND \<equiv> 0x00000000"
abbreviation op_NOT :: u32 where "op_NOT \<equiv> 0x00200000"
abbreviation op_B :: u32 where "op_B \<equiv> 0x14000000"

section \<open>Add and subtract\<close>

definition AddSubHelper :: "u32 \<Rightarrow> u64 \<Rightarrow> 'v vsim \<Rightarrow> abort + 'v vsim" where
  "AddSubHelper bits op2 s =
     (let reg_size = reg_size_of bits;
          set_flags = (GetFlagsUpdate bits \<noteq> 0);
          operation = Mask AddSubOpMask bits;
          left = ReadRegisterSized reg_size (rn_of bits) (GetRnMode bits) s
      in if operation = ADD \<or> operation = ADDS
         then let (new_val, s') = AddWithCarryFlags reg_size set_flags left op2 0 s
              in Inr (WriteRegisterSized reg_size (rd_of bits) new_val (GetRdMode bits) s')
         else if operation = SUB \<or> operation = SUBS
         then let (new_val, s') = AddWithCarryFlags reg_size set_flags left (NOT op2) 1 s
              in Inr (WriteRegisterSized reg_size (rd_of bits) new_val (GetRdMode bits) s')
         else Inl UnreachableCode)"

definition VisitAddSubShifted :: "instruction \<Rightarrow> 'v vsim \<Rightarrow> abort + 'v vsim" where
  "VisitAddSubShifted instr s =
     (let bits = insn_bits instr; reg_size = reg_size_of bits
      in and_then (ShiftOperand reg_size (readz reg_size (rm_of bits) s)
                     (Shift_of (GetShiftDP bits)) (GetImmDPShift bits))
           (\<lambda>op2. AddSubHelper bits op2 s))"

definition VisitAddSubImmediate :: "instruction \<Rightarrow> 'v vsim \<Rightarrow> abort + 'v vsim" where
  "VisitAddSubImmediate instr s =
     (let bits = insn_bits instr;
          op2 = push_bit (if GetImmAddSubShift bits = 1 then 12 else 0) (GetImmAddSub bits)
      in AddSubHelper bits (scast op2) s)"

definition VisitAddSubExtended :: "instruction \<Rightarrow> 'v vsim \<Rightarrow> abort + 'v vsim" where
  "VisitAddSubExtended instr s =
     (let bits = insn_bits instr; reg_size = reg_size_of bits
      in and_then (ExtendValue reg_size (readz reg_size (rm_of bits) s)
                     (Extend_of (GetExtendMode bits)) (GetImmExtendShift bits))
           (\<lambda>op2. AddSubHelper bits op2 s))"

definition VisitAddSubWithCarry :: "instruction \<Rightarrow> 'v vsim \<Rightarrow> abort + 'v vsim" where
  "VisitAddSubWithCarry instr s =
     (let bits = insn_bits instr; reg_size = reg_size_of bits;
          op2 = readz reg_size (rm_of bits) s;
          op2 = (if Mask AddSubOpMask bits = SUB \<or> Mask AddSubOpMask bits = SUBS then NOT op2 else op2);
          (new_val, s') = AddWithCarryFlags reg_size (GetFlagsUpdate bits \<noteq> 0)
                            (readz reg_size (rn_of bits) s) op2 (of_bool (ReadC s)) s
      in Inr (writez reg_size (rd_of bits) new_val s'))"

section \<open>Flag manipulation\<close>

definition VisitRotateRightIntoFlags :: "instruction \<Rightarrow> 'v vsim \<Rightarrow> abort + 'v vsim" where
  "VisitRotateRightIntoFlags instr s =
     (let bits = insn_bits instr in
      if Mask RotateRightIntoFlagsMask bits = RMIF
      then let val = ReadXRegister (rn_of bits) s;
               shift = GetImmRMIFRotation bits;
               m = GetNzcv bits;
               rotated = RotateRight val shift 64
           in Inr (SetFlags (ucast ((rotated AND ucast m)
                       OR ucast (sr_field 31 28 (nzcv s) AND NOT m))) s)
      else Inr s)"

definition VisitEvaluateIntoFlags :: "instruction \<Rightarrow> 'v vsim \<Rightarrow> abort + 'v vsim" where
  "VisitEvaluateIntoFlags instr s =
     (let bits = insn_bits instr;
          val = ReadWRegister (rn_of bits) s;
          msb = (if Mask EvaluateIntoFlagsMask bits = SETF16 then 15 else 7);
          sign_bit = drop_bit msb val AND 1;
          overflow_bit = drop_bit (msb + 1) val AND 1
      in Inr (SetV (sign_bit XOR overflow_bit)
               (SetZ (of_bool (push_bit (31 - msb) val = 0)) (SetN sign_bit s))))"

section \<open>Logical operations\<close>

definition LogicalHelper :: "u32 \<Rightarrow> u64 \<Rightarrow> 'v vsim \<Rightarrow> abort + 'v vsim" where
  "LogicalHelper bits op2 s =
     (let reg_size = reg_size_of bits;
          op1 = readz reg_size (rn_of bits) s;
          operation = Mask (LogicalOpMask AND NOT op_NOT) bits;
          finish = (\<lambda>update_flags result.
            let s' = (if update_flags
                      then SetV 0 (SetC 0 (SetZ (ucast (CalcZFlag result))
                             (SetN (ucast (CalcNFlag result reg_size)) s)))
                      else s)
            in Inr (WriteRegisterSized reg_size (rd_of bits) result (GetRdMode bits) s'))
      in if operation = ANDS then finish True (op1 AND op2)
         else if operation = op_AND then finish False (op1 AND op2)
         else if operation = ORR then finish False (op1 OR op2)
         else if operation = EOR then finish False (op1 XOR op2)
         else Inl (UnimplementedInstruction (pc_reg s)))"

definition VisitLogicalShifted :: "instruction \<Rightarrow> 'v vsim \<Rightarrow> abort + 'v vsim" where
  "VisitLogicalShifted instr s =
     (let bits = insn_bits instr; reg_size = reg_size_of bits
      in and_then (ShiftOperand reg_size (readz reg_size (rm_of bits) s)
                     (Shift_of (GetShiftDP bits)) (GetImmDPShift bits))
           (\<lambda>op2. LogicalHelper bits (if Mask op_NOT bits = op_NOT then NOT op2 else op2) s))"

definition VisitLogicalImmediate :: "instruction \<Rightarrow> 'v vsim \<Rightarrow> abort + 'v vsim" where
  "VisitLogicalImmediate instr s =
     (let bits = insn_bits instr in
      if GetImmLogical bits = 0 then Inl (UnimplementedInstruction (pc_reg s))
      else LogicalHelper bits (GetImmLogical bits) s)"

section \<open>Conditional compare and select\<close>

definition ConditionalCompareHelper :: "u32 \<Rightarrow> u64 \<Rightarrow> 'v vsim \<Rightarrow> abort + 'v vsim" where
  "ConditionalCompareHelper bits op2 s =
     (let reg_size = reg_size_of bits;
          op1 = readz reg_size (rn_of bits) s
      in if ConditionPassed (GetCondition bits) s
         then if Mask ConditionalCompareMask bits = CCMP
              then Inr (snd (AddWithCarryFlags reg_size True op1 (NOT op2) 1 s))
              else Inr (snd (AddWithCarryFlags reg_size True op1 op2 0 s))
         else Inr (SetFlags (GetNzcv bits) s))"

definition VisitConditionalCompareRegister :: "instruction \<Rightarrow> 'v vsim \<Rightarrow> abort + 'v vsim" where
  "VisitConditionalCompareRegister instr s =
     (let bits = insn_bits instr; reg_size = reg_size_of bits
      in ConditionalCompareHelper bits (readz reg_size (rm_of bits) s) s)"

definition VisitConditionalCompareImmediate :: "instruction \<Rightarrow> 'v vsim \<Rightarrow> abort + 'v vsim" where
  "VisitConditionalCompareImmediate instr s =
     (let bits = insn_bits instr in ConditionalCompareHelper bits (ucast (GetImmCondCmp bits)) s)"

definition VisitConditionalSelect :: "instruction \<Rightarrow> 'v vsim \<Rightarrow> abort + 'v vsim" where
  "VisitConditionalSelect instr s =
     (let bits = insn_bits instr;
          finish = (\<lambda>new_val. Inr (writez (reg_size_of bits) (rd_of bits) new_val s))
      in if ConditionFailed (GetCondition bits) s
         then let new_val = ReadXRegister (rm_of bits) s;
                  op = Mask ConditionalSelectMask bits
              in if op = CSEL_w \<or> op = CSEL_x then finish new_val
                 else if op = CSINC_w \<or> op = CSINC_x then finish (new_val + 1)
                 else if op = CSINV_w \<or> op = CSINV_x then finish (NOT new_val)
                 else if op = CSNEG_w \<or> op = CSNEG_x then finish (UnsignedNegate new_val)
                 else Inl (UnimplementedInstruction (pc_reg s))
         else finish (ReadXRegister (rn_of bits) s))"

section \<open>Move wide\<close>

text \<open>
  The previous value of a W register is read as a signed \<open>int32_t\<close> and so
  sign-extended to 64 bits, and the result is written as an X register.
\<close>

definition VisitMoveWideImmediate :: "instruction \<Rightarrow> 'v vsim \<Rightarrow> abort + 'v vsim" where
  "VisitMoveWideImmediate instr s =
     (let bits = insn_bits instr;
          mov_op = Mask MoveWideImmediateMask bits;
          is_64_bits = (GetSixtyFourBits bits = 1);
          shift = unat (GetShiftMoveWide bits) * 16;
          shifted_imm16 = push_bit shift (ucast (GetImmMoveWide bits) :: u64);
          finish = (\<lambda>new_xn_val. Inr (WriteXRegister (rd_of bits) new_xn_val s))
      in if mov_op = MOVN_w \<or> mov_op = MOVN_x
         then let v = NOT shifted_imm16
              in finish (if \<not> is_64_bits then v AND 0xffffffff else v)
         else if mov_op = MOVK_w \<or> mov_op = MOVK_x
         then let prev_xn_val = (if is_64_bits then ReadXRegister (rd_of bits) s
                                 else scast (ReadWRegister (rd_of bits) s))
              in finish ((prev_xn_val AND NOT (push_bit shift 0xffff)) OR shifted_imm16)
         else if mov_op = MOVZ_w \<or> mov_op = MOVZ_x then finish shifted_imm16
         else Inl UnreachableCode)"

section \<open>Bit fields and extract\<close>

definition VisitBitfield :: "instruction \<Rightarrow> 'v vsim \<Rightarrow> abort + 'v vsim" where
  "VisitBitfield instr s =
     (let bits = insn_bits instr; reg_size = reg_size_of bits;
          reg_mask = (if GetSixtyFourBits bits \<noteq> 0 then 0xffffffffffffffff else 0xffffffff);
          R = unat (GetImmR bits); S = unat (GetImmS bits);
          (diff, m) =
            (if R \<le> S
             then let d = S - R; m = drop_bit (64 - (d + 1)) (NOT 0 :: u64)
                  in (d, if d < reg_size - 1 then m else reg_mask)
             else (S + reg_size - R,
                   RotateRight (drop_bit (64 - (S + 1)) (NOT 0)) (GetImmR bits) reg_size));
          op = Mask BitfieldMask bits;
          finish = (\<lambda>inzero extend.
            let dst = (if inzero then 0 else readz reg_size (rd_of bits) s);
                src = readz reg_size (rn_of bits) s;
                result = RotateRight src (GetImmR bits) reg_size;
                topbits = (if diff = 63 then 0 else push_bit (diff + 1) (NOT 0));
                signbits = (if extend \<and> drop_bit S src AND 1 \<noteq> 0 then topbits else 0)
            in Inr (writez reg_size (rd_of bits)
                      (signbits OR (result AND m) OR (dst AND NOT m)) s))
      in if op = BFM_x \<or> op = BFM_w then finish False False
         else if op = SBFM_x \<or> op = SBFM_w then finish True True
         else if op = UBFM_x \<or> op = UBFM_w then finish True False
         else Inl (UnimplementedInstruction (pc_reg s)))"

definition VisitExtract :: "instruction \<Rightarrow> 'v vsim \<Rightarrow> abort + 'v vsim" where
  "VisitExtract instr s =
     (let bits = insn_bits instr;
          lsb = unat (GetImmS bits);
          reg_size = (if GetSixtyFourBits bits = 1 then 64 else 32);
          low_res = drop_bit lsb (readz reg_size (rm_of bits) s);
          high_res = (if lsb = 0 then 0 else push_bit (reg_size - lsb) (readz reg_size (rn_of bits) s))
      in Inr (writez reg_size (rd_of bits) (low_res OR high_res) s))"

section \<open>Products\<close>

text \<open>
  \<open>MultiplyHigh<64>\<close>; the shift of the operand is arithmetic when the type is
  signed, and the intermediate values are sign-extended by hand.
\<close>

definition mulhi_shift :: "bool \<Rightarrow> u64 \<Rightarrow> u64" where
  "mulhi_shift sgnd x =
     drop_bit 32 x OR (if x AND push_bit 63 1 \<noteq> 0 then (if sgnd then push_bit 32 0xffffffffffffffff else 0) else 0)"

definition MultiplyHigh64 :: "bool \<Rightarrow> u64 \<Rightarrow> u64 \<Rightarrow> u64" where
  "MultiplyHigh64 sgnd u v =
     (let half_mask = GetUintMask 32;
          u0 = u AND half_mask;
          u1 = mulhi_shift sgnd u;
          v0 = v AND half_mask;
          v1 = mulhi_shift sgnd v;
          w0 = u0 * v0;
          t = u1 * v0 + drop_bit 32 w0;
          w1 = t AND half_mask;
          w2 = mulhi_shift sgnd t;
          w1 = u0 * v1 + w1;
          w1 = mulhi_shift sgnd w1
      in u1 * v1 + w2 + w1)"

definition VisitDataProcessing3Source :: "instruction \<Rightarrow> 'v vsim \<Rightarrow> abort + 'v vsim" where
  "VisitDataProcessing3Source instr s =
     (let bits = insn_bits instr; reg_size = reg_size_of bits;
          rn_u32 = (ucast (ReadWRegister (rn_of bits) s) :: u64);
          rm_u32 = (ucast (ReadWRegister (rm_of bits) s) :: u64);
          rn_s32 = (scast (ReadWRegister (rn_of bits) s) :: u64);
          rm_s32 = (scast (ReadWRegister (rm_of bits) s) :: u64);
          rn_u64 = ReadXRegister (rn_of bits) s;
          rm_u64 = ReadXRegister (rm_of bits) s;
          ra = ReadXRegister (ra_of bits) s;
          op = Mask DataProcessing3SourceMask bits;
          finish = (\<lambda>result. Inr (writez reg_size (rd_of bits) result s))
      in if op = MADD_w \<or> op = MADD_x then finish (ra + rn_u64 * rm_u64)
         else if op = MSUB_w \<or> op = MSUB_x then finish (ra - rn_u64 * rm_u64)
         else if op = SMADDL_x then finish (ra + rn_s32 * rm_s32)
         else if op = SMSUBL_x then finish (ra - rn_s32 * rm_s32)
         else if op = UMADDL_x then finish (ra + rn_u32 * rm_u32)
         else if op = UMSUBL_x then finish (ra - rn_u32 * rm_u32)
         else if op = UMULH_x then finish (MultiplyHigh64 False rn_u64 rm_u64)
         else if op = SMULH_x then finish (MultiplyHigh64 True rn_u64 rm_u64)
         else Inl (UnimplementedInstruction (pc_reg s)))"

section \<open>One source\<close>

definition PAUTH_MODES_REGISTER_CONTEXT :: "(string \<times> string \<times> PACKey \<times> PointerType) list" where
  "PAUTH_MODES_REGISTER_CONTEXT =
     [(''i'', ''a'', kPACKeyIA, kInstructionPointer), (''i'', ''b'', kPACKeyIB, kInstructionPointer),
      (''d'', ''a'', kPACKeyDA, kDataPointer), (''d'', ''b'', kPACKeyDB, kDataPointer)]"

text \<open>
  The four case labels each mode expands to; the \<open>z\<close> forms read the modifier
  with register 31 as the zero register, the others as the stack pointer.
\<close>

fun DEFINE_PAUTH_FUNCS ::
  "(string \<times> string \<times> PACKey \<times> PointerType) list \<Rightarrow> nat \<Rightarrow> nat \<Rightarrow> 'v vsim \<Rightarrow> 'v vsim option" where
  "DEFINE_PAUTH_FUNCS [] dst src s = None"
| "DEFINE_PAUTH_FUNCS ((SUF0, SUF1, KEY, D) # modes) dst src s =
     (let ptr = ReadXRegister dst s;
          zmod = ReadRegister src Reg31IsZeroRegister s;
          pmod = ReadRegister src Reg31IsStackPointer s
      in if form_hash s = Hash (''pac'' @ SUF0 @ ''z'' @ SUF1 @ ''_64z_dp_1src'')
         then Some (WriteXRegister dst (AddPAC ptr zmod KEY D) s)
         else if form_hash s = Hash (''pac'' @ SUF0 @ SUF1 @ ''_64p_dp_1src'')
         then Some (WriteXRegister dst (AddPAC ptr pmod KEY D) s)
         else if form_hash s = Hash (''aut'' @ SUF0 @ ''z'' @ SUF1 @ ''_64z_dp_1src'')
         then Some (WriteXRegister dst (AuthPAC ptr zmod KEY D) s)
         else if form_hash s = Hash (''aut'' @ SUF0 @ SUF1 @ ''_64p_dp_1src'')
         then Some (WriteXRegister dst (AuthPAC ptr pmod KEY D) s)
         else DEFINE_PAUTH_FUNCS modes dst src s)"

definition VisitDataProcessing1Source :: "instruction \<Rightarrow> 'v vsim \<Rightarrow> abort + 'v vsim" where
  "VisitDataProcessing1Source instr s =
     (let dst = rd_of (insn_bits instr);
          src = rn_of (insn_bits instr);
          w = (ReadWRegister src s :: u32);
          x = (ReadXRegister src s :: u64);
          ptr = (ReadXRegister dst s :: u64);
          is = (\<lambda>form. form_hash s = Hash form)
      in case DEFINE_PAUTH_FUNCS PAUTH_MODES_REGISTER_CONTEXT dst src s of
           Some s' \<Rightarrow> Inr s'
         | None \<Rightarrow> Inr
            (if is ''xpaci_64z_dp_1src'' then WriteXRegister dst (StripPAC ptr kInstructionPointer) s
             else if is ''xpacd_64z_dp_1src'' then WriteXRegister dst (StripPAC ptr kDataPointer) s
             else if is ''rbit_32_dp_1src'' then WriteWRegister dst (ReverseBits w) s
             else if is ''rbit_64_dp_1src'' then WriteXRegister dst (ReverseBits x) s
             else if is ''rev16_32_dp_1src'' then WriteWRegister dst (ReverseBytes32 w 1) s
             else if is ''rev16_64_dp_1src'' then WriteXRegister dst (ReverseBytes64 x 1) s
             else if is ''rev_32_dp_1src'' then WriteWRegister dst (ReverseBytes32 w 2) s
             else if is ''rev32_64_dp_1src'' then WriteXRegister dst (ReverseBytes64 x 2) s
             else if is ''rev_64_dp_1src'' then WriteXRegister dst (ReverseBytes64 x 3) s
             else if is ''clz_32_dp_1src'' then WriteWRegister dst (of_nat (CountLeadingZerosFallBack (scast w) 32)) s
             else if is ''clz_64_dp_1src'' then WriteXRegister dst (of_nat (CountLeadingZerosFallBack x 64)) s
             else if is ''cls_32_dp_1src'' then WriteWRegister dst (of_int (CountLeadingSignBitsFallBack (scast w) 32)) s
             else if is ''cls_64_dp_1src'' then WriteXRegister dst (of_int (CountLeadingSignBitsFallBack x 64)) s
             else if is ''abs_32_dp_1src'' then WriteWRegister dst (AbsSigned w) s
             else if is ''abs_64_dp_1src'' then WriteXRegister dst (AbsSigned x) s
             else if is ''cnt_32_dp_1src'' then WriteWRegister dst (of_nat (CountSetBitsFallBack (scast w) 32)) s
             else if is ''cnt_64_dp_1src'' then WriteXRegister dst (of_nat (CountSetBitsFallBack x 64)) s
             else if is ''ctz_32_dp_1src'' then WriteWRegister dst (of_nat (CountTrailingZerosFallBack (scast w) 32)) s
             else if is ''ctz_64_dp_1src'' then WriteXRegister dst (of_nat (CountTrailingZerosFallBack x 64)) s
             else s))"

section \<open>Checksums\<close>

text \<open>The loop from bit \<open>n - 1\<close> down to bit 32.\<close>

definition poly_step :: "u32 \<Rightarrow> nat \<Rightarrow> u64 \<Rightarrow> u64" where
  "poly_step poly i data =
     (if drop_bit i data AND 1 \<noteq> 0
      then (data AND (push_bit i 1 - 1)) XOR push_bit (i - 32) (ucast poly)
      else data)"

definition Poly32Mod2 :: "nat \<Rightarrow> u64 \<Rightarrow> u32 \<Rightarrow> u32" where
  "Poly32Mod2 n data poly = ucast (fold (poly_step poly) (rev [32..<n]) data AND 0xffffffff)"

definition Crc32Checksum :: "u32 \<Rightarrow> 'a::len word \<Rightarrow> u32 \<Rightarrow> u32" where
  "Crc32Checksum acc val poly =
     (let sz = LENGTH('a);
          tempacc = push_bit sz (ucast (ReverseBits acc) :: u64);
          tempval = push_bit 32 (ucast (ReverseBits val) :: u64)
      in ReverseBits (Poly32Mod2 (32 + sz) (tempacc XOR tempval) poly))"

definition Crc32Checksum64 :: "u32 \<Rightarrow> u64 \<Rightarrow> u32 \<Rightarrow> u32" where
  "Crc32Checksum64 acc val poly =
     (let acc = Crc32Checksum acc (ucast (val AND 0xffffffff) :: u32) poly
      in Crc32Checksum acc (ucast (drop_bit 32 val) :: u32) poly)"

abbreviation CRC32_POLY :: u32 where "CRC32_POLY \<equiv> 0x04C11DB7"
abbreviation CRC32C_POLY :: u32 where "CRC32C_POLY \<equiv> 0x1EDC6F41"

section \<open>Two sources\<close>

text \<open>Signed division of the code: the overflowing and the zero divisor are caught first.\<close>

definition sdiv_guarded :: "'a::len word \<Rightarrow> 'a word \<Rightarrow> 'a word" where
  "sdiv_guarded rn rm =
     (if rn = 2 ^ (LENGTH('a) - 1) \<and> rm = -1 then 2 ^ (LENGTH('a) - 1)
      else if rm = 0 then 0 else word_of_int (sint rn sdiv sint rm))"

definition VisitDataProcessing2Source :: "instruction \<Rightarrow> 'v vsim \<Rightarrow> abort + 'v vsim" where
  "VisitDataProcessing2Source instr s =
     (let bits = insn_bits instr; reg_size = reg_size_of bits;
          rn = rn_of bits; rm = rm_of bits;
          op = Mask DataProcessing2SourceMask bits;
          finish = (\<lambda>reg_size result. Inr (writez reg_size (rd_of bits) result s));
          variable_shift = (\<lambda>shift_op.
            let m = (if GetSixtyFourBits bits = 1 then 0x3f else 0x1f);
                shift = ReadWRegister rm s AND m
            in and_then (ShiftOperand reg_size (readz reg_size rn s) shift_op shift) (finish reg_size));
          acc = (ReadWRegister rn s :: u32)
      in if op = SDIV_w then finish reg_size (scast (sdiv_guarded (ReadWRegister rn s) (ReadWRegister rm s)))
         else if op = SDIV_x then finish reg_size (sdiv_guarded (ReadXRegister rn s) (ReadXRegister rm s))
         else if op = UDIV_w
         then finish reg_size (if ReadWRegister rm s = 0 then 0
                               else ucast (ReadWRegister rn s div ReadWRegister rm s))
         else if op = UDIV_x
         then finish reg_size (if ReadXRegister rm s = 0 then 0 else ReadXRegister rn s div ReadXRegister rm s)
         else if op = LSLV_w \<or> op = LSLV_x then variable_shift LSL
         else if op = LSRV_w \<or> op = LSRV_x then variable_shift LSR
         else if op = ASRV_w \<or> op = ASRV_x then variable_shift ASR
         else if op = RORV_w \<or> op = RORV_x then variable_shift ROR
         else if op = PACGA
         then finish reg_size (ComputePAC_with (ReadXRegister rn s) (ReadRegister rm Reg31IsStackPointer s)
                                 kPACKeyGA_high kPACKeyGA_low AND 0xffffffff00000000)
         else if op = CRC32B then finish reg_size (ucast (Crc32Checksum acc (ReadRegister rm Reg31IsZeroRegister s :: u8) CRC32_POLY))
         else if op = CRC32H then finish reg_size (ucast (Crc32Checksum acc (ReadRegister rm Reg31IsZeroRegister s :: u16) CRC32_POLY))
         else if op = CRC32W then finish reg_size (ucast (Crc32Checksum acc (ReadRegister rm Reg31IsZeroRegister s :: u32) CRC32_POLY))
         else if op = CRC32X then finish 32 (ucast (Crc32Checksum64 acc (ReadRegister rm Reg31IsZeroRegister s) CRC32_POLY))
         else if op = CRC32CB then finish reg_size (ucast (Crc32Checksum acc (ReadRegister rm Reg31IsZeroRegister s :: u8) CRC32C_POLY))
         else if op = CRC32CH then finish reg_size (ucast (Crc32Checksum acc (ReadRegister rm Reg31IsZeroRegister s :: u16) CRC32C_POLY))
         else if op = CRC32CW then finish reg_size (ucast (Crc32Checksum acc (ReadRegister rm Reg31IsZeroRegister s :: u32) CRC32C_POLY))
         else if op = CRC32CX then finish 32 (ucast (Crc32Checksum64 acc (ReadRegister rm Reg31IsZeroRegister s) CRC32C_POLY))
         else Inl (UnimplementedInstruction (pc_reg s)))"

section \<open>Minimum and maximum\<close>

definition smax :: "'a::len word \<Rightarrow> 'a word \<Rightarrow> 'a word" where
  "smax a b = (if sint a < sint b then b else a)"

definition smin :: "'a::len word \<Rightarrow> 'a word \<Rightarrow> 'a word" where
  "smin a b = (if sint b < sint a then b else a)"

definition SimulateSignedMinMax :: "instruction \<Rightarrow> 'v vsim \<Rightarrow> abort + 'v vsim" where
  "SimulateSignedMinMax instr s =
     (let bits = insn_bits instr;
          wn = (ReadWRegister (rn_of bits) s :: u32);
          wm = (ReadWRegister (rm_of bits) s :: u32);
          xn = (ReadXRegister (rn_of bits) s :: u64);
          xm = (ReadXRegister (rm_of bits) s :: u64);
          imm = ExtractSignedBits 17 10 bits;
          dst = rd_of bits;
          is = (\<lambda>form. form_hash s = Hash form);
          xm = (if is ''smax_64_minmax_imm'' \<or> is ''smin_64_minmax_imm'' then scast imm else xm);
          wm = (if is ''smax_32_minmax_imm'' \<or> is ''smin_32_minmax_imm'' then imm else wm)
      in Inr
       (if is ''smax_32_minmax_imm'' \<or> is ''smax_32_dp_2src'' then WriteWRegister dst (smax wn wm) s
        else if is ''smax_64_minmax_imm'' \<or> is ''smax_64_dp_2src'' then WriteXRegister dst (smax xn xm) s
        else if is ''smin_32_minmax_imm'' \<or> is ''smin_32_dp_2src'' then WriteWRegister dst (smin wn wm) s
        else if is ''smin_64_minmax_imm'' \<or> is ''smin_64_dp_2src'' then WriteXRegister dst (smin xn xm) s
        else s))"

definition SimulateUnsignedMinMax :: "instruction \<Rightarrow> 'v vsim \<Rightarrow> abort + 'v vsim" where
  "SimulateUnsignedMinMax instr s =
     (let bits = insn_bits instr;
          xn = (ReadXRegister (rn_of bits) s :: u64);
          xm = (ReadXRegister (rm_of bits) s :: u64);
          imm = ExtractBits 17 10 bits;
          dst = rd_of bits;
          is = (\<lambda>form. form_hash s = Hash form);
          xm = (if is ''umax_64u_minmax_imm'' \<or> is ''umax_32u_minmax_imm''
                   \<or> is ''umin_64u_minmax_imm'' \<or> is ''umin_32u_minmax_imm'' then ucast imm else xm)
      in Inr
       (if is ''umax_32u_minmax_imm'' \<or> is ''umax_32_dp_2src''
        then WriteXRegister dst (max (xn AND 0xffffffff) (xm AND 0xffffffff)) s
        else if is ''umax_64u_minmax_imm'' \<or> is ''umax_64_dp_2src'' then WriteXRegister dst (max xn xm) s
        else if is ''umin_32u_minmax_imm'' \<or> is ''umin_32_dp_2src''
        then WriteXRegister dst (min (xn AND 0xffffffff) (xm AND 0xffffffff)) s
        else if is ''umin_64u_minmax_imm'' \<or> is ''umin_64_dp_2src'' then WriteXRegister dst (min xn xm) s
        else s))"

end
