(* ===== verification/Sim_Branch.thy ===== *)
theory Sim_Branch
  imports Sim_DataProc
begin

text \<open>
  Branches and the visitors that only abort, of
  \<open>src/aarch64/simulator-aarch64.{h,cc}\<close>: the hooked commit of the program
  counter (\<open>GabyHookedWritePc\<close>), the guarded control stack, immediate,
  conditional, test, compare and register branches with pointer authentication
  and branch types.  What the host supplies (the branch hook with its user data,
  the branch interceptions, the CPU features and the build flavour) is the
  record \<open>host\<close>, an argument of the definitions.
\<close>

section \<open>The host\<close>

text \<open>
  A hook or an interception may run anything on the simulator, a nested run
  included, so it is a function on the state that may abort.  \<open>vixl_debug\<close> says
  whether \<open>VIXL_DEBUG\<close> is defined: without it \<open>VIXL_UNIMPLEMENTED\<close> is a no-op.
\<close>

record 'v host =
  has_uscat :: bool
  vixl_debug :: bool
  hook_fn :: "nat \<Rightarrow> u64 \<Rightarrow> 'v vsim \<Rightarrow> abort + (u64 \<times> 'v vsim)"
  interception :: "u64 \<Rightarrow> ('v vsim \<Rightarrow> abort + 'v vsim) option"

section \<open>Visitors of words that must not run\<close>

definition VisitReserved :: "instruction \<Rightarrow> 'v vsim \<Rightarrow> abort + 'v vsim" where
  "VisitReserved instr s = Inl (HostAbort ''UNDEFINED (UDF)'')"

definition VisitUnallocated :: "instruction \<Rightarrow> 'v vsim \<Rightarrow> abort + 'v vsim" where
  "VisitUnallocated instr s = Inl (UnallocatedInstruction (insn_addr instr))"

text \<open>Only a debug build aborts; in a release build the visitor prints and returns.\<close>

definition VisitUnimplemented :: "bool \<Rightarrow> instruction \<Rightarrow> 'v vsim \<Rightarrow> abort + 'v vsim" where
  "VisitUnimplemented debug_build instr s =
     (if debug_build then Inl (UnimplementedInstruction (insn_addr instr)) else Inr s)"

section \<open>Committing the program counter\<close>

definition IsWordAligned :: "u64 \<Rightarrow> bool" where
  "IsWordAligned a = (a AND 3 = 0)"

definition GetNextInstruction :: "instruction \<Rightarrow> u64" where
  "GetNextInstruction instr = insn_addr instr + kInstructionSize"

definition GabyHookedWritePc :: "'v host \<Rightarrow> u64 \<Rightarrow> 'v vsim \<Rightarrow> abort + 'v vsim" where
  "GabyHookedWritePc h target s =
     (case branch_hook s of
        None \<Rightarrow> Inr (WritePc target s)
      | Some hook \<Rightarrow>
          and_then (hook_fn h hook target s)
            (\<lambda>(next_pc, s'). if \<not> IsWordAligned next_pc then Inl HookMisalignedPc
                             else Inr (WritePc next_pc s')))"

section \<open>The guarded control stack\<close>

text \<open>
  The stacks of a process belong to its \<open>GCSManager\<close>, a vector of pointers; a token is the
  index of a stack shifted to look like the address of a page.  A simulator keeps the token and the
  pointer of its active stack.  Here \<open>gcs_stacks\<close> is the vector, a freed stack being \<open>None\<close>, and
  \<open>gcs_stack\<close> the content of the storage that the pointer of the simulator points to; \<open>gcs_valid\<close> says
  that this pointer is not null, and \<open>gcs_live\<close> that it is still the one the vector has at the index
  of the token.  A live entry is out of date until it is parked.  After the stack was freed
  the pointer dangles: the entry is \<open>None\<close>, or another stack once the slot is used again.
\<close>

definition GetGCSIndexFromToken :: "u64 \<Rightarrow> nat" where
  "GetGCSIndexFromToken token = unat (drop_bit 12 token)"

definition GetGCSTokenFromIndex :: "nat \<Rightarrow> u64" where
  "GetGCSTokenFromIndex index = push_bit 12 (of_nat index)"

definition kGCSNoStack :: u64 where
  "kGCSNoStack = 4096 - 1"

definition parked_stacks :: "'v vsim \<Rightarrow> u64 list option list" where
  "parked_stacks s =
     (if gcs_live s then (gcs_stacks s)[GetGCSIndexFromToken (gcs_token s) := Some (gcs_stack s)]
      else gcs_stacks s)"

text \<open>The first free slot of the vector, else a new one; the new stack gets a seal.\<close>

fun first_free :: "u64 list option list \<Rightarrow> nat" where
  "first_free [] = 0"
| "first_free (st # sts) = (if st = None then 0 else Suc (first_free sts))"

definition AllocateStackInternal :: "u64 list option list \<Rightarrow> u64 list \<times> u64 \<times> u64 list option list" where
  "AllocateStackInternal stacks =
     (let i = first_free stacks; token = GetGCSTokenFromIndex i;
          new_stack = [token + 1];
          stacks' = (if i = length stacks then stacks @ [Some new_stack] else stacks[i := Some new_stack])
      in (new_stack, token, stacks'))"

text \<open>The public \<open>AllocateStack\<close> of a manager while a simulator is alive.\<close>

definition AllocateStack :: "'v vsim \<Rightarrow> u64 \<times> 'v vsim" where
  "AllocateStack s =
     (let (new_stack, token, stacks) = AllocateStackInternal (parked_stacks s) in (token, s\<lparr>gcs_stacks := stacks\<rparr>))"

text \<open>An index outside the vector is undefined behaviour, here an abort.\<close>

definition FreeStack :: "u64 \<Rightarrow> u64 list option list \<Rightarrow> abort + u64 list option list" where
  "FreeStack token stacks =
     (let i = GetGCSIndexFromToken token in
      if i < length stacks
      then if stacks ! i = None then Inl (HostAbort ''Tried to double free GCS'') else Inr (stacks[i := None])
      else Inl (HostAbort ''invalid index''))"

text \<open>The public \<open>FreeStack\<close> while a simulator is alive; nothing stops it from freeing the active stack.\<close>

definition FreeStackOf :: "u64 \<Rightarrow> 'v vsim \<Rightarrow> abort + 'v vsim" where
  "FreeStackOf token s =
     map_result (\<lambda>stacks. s\<lparr>gcs_stacks := stacks,
         gcs_live := gcs_live s \<and> GetGCSIndexFromToken token \<noteq> GetGCSIndexFromToken (gcs_token s)\<rparr>)
       (FreeStack token (parked_stacks s))"

text \<open>\<open>vector::at\<close> throws, and the callers use the pointer at once.\<close>

definition GetGCSPtr :: "u64 \<Rightarrow> 'v vsim \<Rightarrow> abort + u64 list" where
  "GetGCSPtr token s =
     (let i = GetGCSIndexFromToken token; stacks = parked_stacks s in
      if i < length stacks
      then (case stacks ! i of None \<Rightarrow> Inl (HostAbort ''null pointer'') | Some st \<Rightarrow> Inr st)
      else Inl (HostAbort ''out_of_range''))"

text \<open>The active stack goes back to the vector, and the stack of the token becomes active.\<close>

definition ActivateGCS :: "u64 \<Rightarrow> 'v vsim \<Rightarrow> abort + 'v vsim" where
  "ActivateGCS token s =
     map_result (\<lambda>incoming. s\<lparr>gcs_stacks := parked_stacks s, gcs_valid := True, gcs_live := True,
         gcs_token := token, gcs_stack := incoming\<rparr>)
       (GetGCSPtr token s)"

text \<open>The back of the vector is the end of the list.\<close>

definition GCSPush :: "u64 \<Rightarrow> 'v vsim \<Rightarrow> 'v vsim" where
  "GCSPush addr s = s\<lparr>gcs_stack := gcs_stack s @ [addr]\<rparr>"

definition GCSPop :: "'v vsim \<Rightarrow> u64 \<times> 'v vsim" where
  "GCSPop s = (if gcs_stack s = [] then (0, s)
     else (last (gcs_stack s), s\<lparr>gcs_stack := butlast (gcs_stack s)\<rparr>))"

definition GCSPeek :: "'v vsim \<Rightarrow> u64" where
  "GCSPeek s = (if gcs_stack s = [] then 0 else last (gcs_stack s))"

definition ReportGCSFailure :: "string \<Rightarrow> 'v vsim \<Rightarrow> abort + 'v vsim" where
  "ReportGCSFailure msg s = (if gcs_enabled s then Inl (GcsFailure msg) else Inr s)"

section \<open>Immediate branches\<close>

definition VisitPCRelAddressing :: "instruction \<Rightarrow> 'v vsim \<Rightarrow> abort + 'v vsim" where
  "VisitPCRelAddressing instr s =
     Inr (WriteXRegister (rd_of (insn_bits instr)) (GetImmPCOffsetTarget instr) s)"

definition VisitUnconditionalBranch :: "'v host \<Rightarrow> instruction \<Rightarrow> 'v vsim \<Rightarrow> abort + 'v vsim" where
  "VisitUnconditionalBranch h instr s =
     (let op = Mask UnconditionalBranchMask (insn_bits instr)
      in if op = BL
         then GabyHookedWritePc h (GetImmPCOffsetTarget instr)
                (GCSPush (GetNextInstruction instr) (WriteLr (GetNextInstruction instr) s))
         else if op = op_B then GabyHookedWritePc h (GetImmPCOffsetTarget instr) s
         else Inl UnreachableCode)"

definition VisitConditionalBranch :: "'v host \<Rightarrow> instruction \<Rightarrow> 'v vsim \<Rightarrow> abort + 'v vsim" where
  "VisitConditionalBranch h instr s =
     (if ConditionPassed (GetConditionBranch (insn_bits instr)) s
      then GabyHookedWritePc h (GetImmPCOffsetTarget instr) s else Inr s)"

definition VisitTestBranch :: "'v host \<Rightarrow> instruction \<Rightarrow> 'v vsim \<Rightarrow> abort + 'v vsim" where
  "VisitTestBranch h instr s =
     (let bits = insn_bits instr;
          bit_pos = unat (push_bit 5 (GetImmTestBranchBit5 bits) OR GetImmTestBranchBit40 bits);
          bit_zero = (drop_bit bit_pos (ReadXRegister (unat (GetRt bits)) s) AND 1 = 0);
          op = Mask TestBranchMask bits;
          finish = (\<lambda>take_branch. if take_branch then GabyHookedWritePc h (GetImmPCOffsetTarget instr) s
                                  else Inr s)
      in if op = TBZ then finish bit_zero
         else if op = TBNZ then finish (\<not> bit_zero)
         else Inl (UnimplementedInstruction (pc_reg s)))"

definition VisitCompareBranch :: "'v host \<Rightarrow> instruction \<Rightarrow> 'v vsim \<Rightarrow> abort + 'v vsim" where
  "VisitCompareBranch h instr s =
     (let bits = insn_bits instr; rt = unat (GetRt bits);
          op = Mask CompareBranchMask bits;
          finish = (\<lambda>take_branch. if take_branch then GabyHookedWritePc h (GetImmPCOffsetTarget instr) s
                                  else Inr s)
      in if op = CBZ_w then finish (ReadWRegister rt s = 0)
         else if op = CBZ_x then finish (ReadXRegister rt s = 0)
         else if op = CBNZ_w then finish (ReadWRegister rt s \<noteq> 0)
         else if op = CBNZ_x then finish (ReadXRegister rt s \<noteq> 0)
         else Inl (UnimplementedInstruction (pc_reg s)))"

section \<open>Register branches\<close>

definition GetBTypeFromInstruction :: "instruction \<Rightarrow> 'v vsim \<Rightarrow> BType" where
  "GetBTypeFromInstruction instr s =
     (let bits = insn_bits instr; op = Mask UnconditionalBranchToRegisterMask bits
      in if op \<in> {BLR, BLRAA, BLRAB, BLRAAZ, BLRABZ} then BranchAndLink
         else if op \<in> {BR, BRAA, BRAB, BRAAZ, BRABZ}
         then if GetRn bits = 16 \<or> GetRn bits = 17 \<or> \<not> guard_pages s
              then BranchFromUnguardedOrToIP else BranchFromGuardedNotToIP
         else DefaultBType)"

text \<open>What the first switch of the visitor decides.\<close>

record branch_form =
  authenticate :: bool
  link :: bool
  ret :: bool
  compare_gcs :: bool
  branch_addr :: u64
  branch_context :: u64

definition register_branch_form :: "instruction \<Rightarrow> 'v vsim \<Rightarrow> branch_form option" where
  "register_branch_form instr s =
     (let bits = insn_bits instr;
          op = Mask UnconditionalBranchToRegisterMask bits;
          f = \<lparr> authenticate = False, link = False, ret = False, compare_gcs = False,
                branch_addr = ReadXRegister (rn_of bits) s, branch_context = 0 \<rparr>
      in if op = BLR then Some (f\<lparr>link := True\<rparr>)
         else if op = BR then Some f
         else if op = BLRAAZ \<or> op = BLRABZ then Some (f\<lparr>link := True, authenticate := True\<rparr>)
         else if op = BRAAZ \<or> op = BRABZ then Some (f\<lparr>authenticate := True\<rparr>)
         else if op = BLRAA \<or> op = BLRAB
         then Some (f\<lparr>link := True, authenticate := True, branch_context := ReadXRegister (rd_of bits) s\<rparr>)
         else if op = BRAA \<or> op = BRAB
         then Some (f\<lparr>authenticate := True, branch_context := ReadXRegister (rd_of bits) s\<rparr>)
         else if op = RETAA \<or> op = RETAB
         then Some (f\<lparr>authenticate := True, branch_addr := ReadXRegister 30 s,
                branch_context := ReadRegister 31 Reg31IsStackPointer s,
                compare_gcs := True, ret := True\<rparr>)
         else if op = RET then Some (f\<lparr>compare_gcs := True, ret := True\<rparr>)
         else None)"

text \<open>The authentication of the target, the check against the control stack, the link, and the interception.\<close>

definition authenticated_target :: "instruction \<Rightarrow> branch_form \<Rightarrow> abort + u64" where
  "authenticated_target instr f =
     (if authenticate f
      then let key = (if ExtractBit 10 (insn_bits instr) = 0 then kPACKeyIA else kPACKeyIB);
               addr = AuthPAC (branch_addr f) (branch_context f) key kInstructionPointer;
               error_lsb = GetTopPACBit addr kInstructionPointer - 2
           in if drop_bit error_lsb addr AND 3 \<noteq> 0 then Inl PointerAuthFailure else Inr addr
      else Inr (branch_addr f))"

definition check_gcs :: "u64 \<Rightarrow> 'v vsim \<Rightarrow> abort + 'v vsim" where
  "check_gcs addr s =
     (let expected_lr = GCSPeek s
      in if expected_lr \<noteq> 0
         then map_result (\<lambda>s'. snd (GCSPop s'))
                (if expected_lr AND 3 \<noteq> 0
                 then ReportGCSFailure ''GCS contains misaligned return address'' s
                 else if addr \<noteq> 0 \<and> addr \<noteq> expected_lr then ReportGCSFailure ''GCS mismatch'' s
                 else Inr s)
         else Inr s)"

definition VisitUnconditionalBranchToRegister :: "'v host \<Rightarrow> instruction \<Rightarrow> 'v vsim \<Rightarrow> abort + 'v vsim" where
  "VisitUnconditionalBranchToRegister h instr s =
     (case register_branch_form instr s of
        None \<Rightarrow> Inl UnreachableCode
      | Some f \<Rightarrow>
          and_then (authenticated_target instr f) (\<lambda>addr.
          and_then (if compare_gcs f then check_gcs addr s else Inr s) (\<lambda>s1.
          let s2 = (if link f
                    then GCSPush (GetNextInstruction instr) (WriteLr (GetNextInstruction instr) s1)
                    else s1)
          in and_then
              (if \<not> ret f
               then case interception h addr of
                      Some f_int \<Rightarrow> map_result (Pair (ReadXRegister 30 s2)) (f_int s2)
                    | None \<Rightarrow> Inr (addr, s2)
               else Inr (addr, s2))
              (\<lambda>(addr', s3).
                 GabyHookedWritePc h addr' (WriteNextBType (GetBTypeFromInstruction instr s3) s3)))))"

end
