(* ===== verification/Sim_LoadStore.thy ===== *)
theory Sim_LoadStore
  imports Sim_Branch
begin

text \<open>
  Loads and stores of \<open>src/aarch64/simulator-aarch64.cc\<close>: the addressing modes,
  single-register and pair accesses of general and vector registers, PAC-checked
  loads, literals, the RCpc accesses, and load/store exclusive with the local
  and global monitors.  Barriers have no effect on a single simulated thread.
\<close>

section \<open>Addressing\<close>

datatype AddrMode = Offset | PreIndex | PostIndex

abbreviation rt_of :: "u32 \<Rightarrow> nat" where "rt_of bits \<equiv> unat (GetRt bits)"
abbreviation rt2_of :: "u32 \<Rightarrow> nat" where "rt2_of bits \<equiv> unat (GetRt2 bits)"
abbreviation rs_of :: "u32 \<Rightarrow> nat" where "rs_of bits \<equiv> unat (GetRs bits)"

text \<open>The address of the access, and the state after the write-back of the base register.\<close>

definition AddressModeHelper :: "nat \<Rightarrow> u64 \<Rightarrow> AddrMode \<Rightarrow> 'v vsim \<Rightarrow> abort + (u64 \<times> 'v vsim)" where
  "AddressModeHelper addr_reg offset addrmode s =
     (let address = ReadRegister addr_reg Reg31IsStackPointer s
      in if addr_reg = 31 \<and> address mod 16 \<noteq> 0 then Inl AlignmentException
         else let s' = (if addrmode = PreIndex \<or> addrmode = PostIndex
                        then WriteRegister addr_reg (address + offset) Reg31IsStackPointer s else s);
                  address' = (if addrmode = Offset \<or> addrmode = PreIndex then address + offset else address)
              in Inr (address', s'))"

section \<open>Typed accesses\<close>

text \<open>\<open>MemRead<T>\<close> and \<open>MemWrite<T>\<close>: the size is that of the type.\<close>

definition MemReadT :: "u64 \<Rightarrow> 'v vsim \<Rightarrow> abort + 'a::len word" where
  "MemReadT address s = MemRead (LENGTH('a) div 8) address s"

definition MemWriteT :: "u64 \<Rightarrow> 'a::len word \<Rightarrow> 'v vsim \<Rightarrow> abort + 'v vsim" where
  "MemWriteT address v s = MemWrite (LENGTH('a) div 8) address v s"

text \<open>\<open>WriteRegister<T>\<close> at any integer type; \<open>sgnd\<close> says whether the type is signed.\<close>

definition WriteRegisterT :: "bool \<Rightarrow> nat \<Rightarrow> 'a::len word \<Rightarrow> 'v vsim \<Rightarrow> 'v vsim" where
  "WriteRegisterT sgnd code v s =
     (if LENGTH('a) < 32
      then (if sgnd then WriteRegisterNarrowSigned code v s else WriteRegisterNarrowUnsigned code v s)
      else WriteRegister code v Reg31IsZeroRegister s)"

section \<open>Single register\<close>

definition load_store_op :: "u32 \<Rightarrow> nat \<Rightarrow> u64 \<Rightarrow> 'v vsim \<Rightarrow> abort + 'v vsim" where
  "load_store_op op srcdst address s =
     (if op = LDRB_w then and_then (MemReadT address s) (\<lambda>v :: u8. Inr (WriteWRegister srcdst (ucast v) s))
      else if op = LDRH_w then and_then (MemReadT address s) (\<lambda>v :: u16. Inr (WriteWRegister srcdst (ucast v) s))
      else if op = LDR_w then and_then (MemReadT address s) (\<lambda>v :: u32. Inr (WriteWRegister srcdst v s))
      else if op = LDR_x then and_then (MemReadT address s) (\<lambda>v :: u64. Inr (WriteXRegister srcdst v s))
      else if op = LDRSB_w then and_then (MemReadT address s) (\<lambda>v :: u8. Inr (WriteWRegister srcdst (scast v) s))
      else if op = LDRSH_w then and_then (MemReadT address s) (\<lambda>v :: u16. Inr (WriteWRegister srcdst (scast v) s))
      else if op = LDRSB_x then and_then (MemReadT address s) (\<lambda>v :: u8. Inr (WriteXRegister srcdst (scast v) s))
      else if op = LDRSH_x then and_then (MemReadT address s) (\<lambda>v :: u16. Inr (WriteXRegister srcdst (scast v) s))
      else if op = LDRSW_x then and_then (MemReadT address s) (\<lambda>v :: u32. Inr (WriteXRegister srcdst (scast v) s))
      else if op = LDR_b then and_then (MemReadT address s) (\<lambda>v :: u8. Inr (WriteVRegister srcdst v s))
      else if op = LDR_h then and_then (MemReadT address s) (\<lambda>v :: u16. Inr (WriteVRegister srcdst v s))
      else if op = LDR_s then and_then (MemReadT address s) (\<lambda>v :: u32. Inr (WriteVRegister srcdst v s))
      else if op = LDR_d then and_then (MemReadT address s) (\<lambda>v :: u64. Inr (WriteVRegister srcdst v s))
      else if op = LDR_q then and_then (MemReadT address s) (\<lambda>v :: u128. Inr (WriteVRegister srcdst v s))
      else if op = STRB_w then MemWriteT address (ucast (ReadWRegister srcdst s) :: u8) s
      else if op = STRH_w then MemWriteT address (ucast (ReadWRegister srcdst s) :: u16) s
      else if op = STR_w then MemWriteT address (ReadWRegister srcdst s :: u32) s
      else if op = STR_x then MemWriteT address (ReadXRegister srcdst s :: u64) s
      else if op = STR_b then MemWriteT address (ReadVRegister srcdst s :: u8) s
      else if op = STR_h then MemWriteT address (ReadVRegister srcdst s :: u16) s
      else if op = STR_s then MemWriteT address (ReadVRegister srcdst s :: u32) s
      else if op = STR_d then MemWriteT address (ReadVRegister srcdst s :: u64) s
      else if op = STR_q then MemWriteT address (ReadVRegister srcdst s :: u128) s
      else if op = PRFM then Inr s
      else Inl (UnimplementedInstruction (pc_reg s)))"

definition LoadStoreHelper :: "instruction \<Rightarrow> u64 \<Rightarrow> AddrMode \<Rightarrow> 'v vsim \<Rightarrow> abort + 'v vsim" where
  "LoadStoreHelper instr offset addrmode s =
     (let bits = insn_bits instr
      in and_then (AddressModeHelper (rn_of bits) offset addrmode s) (\<lambda>(address, s1).
         map_result local_MaybeClear
           (load_store_op (Mask LoadStoreMask bits) (rt_of bits) address s1)))"

definition VisitLoadStoreUnsignedOffset :: "instruction \<Rightarrow> 'v vsim \<Rightarrow> abort + 'v vsim" where
  "VisitLoadStoreUnsignedOffset instr s =
     (let bits = insn_bits instr;
          offset = push_bit (GetSizeLS bits) (GetImmLSUnsigned bits)
      in LoadStoreHelper instr (scast offset) Offset s)"

definition VisitLoadStoreUnscaledOffset :: "instruction \<Rightarrow> 'v vsim \<Rightarrow> abort + 'v vsim" where
  "VisitLoadStoreUnscaledOffset instr s = LoadStoreHelper instr (scast (GetImmLS (insn_bits instr))) Offset s"

definition VisitLoadStorePreIndex :: "instruction \<Rightarrow> 'v vsim \<Rightarrow> abort + 'v vsim" where
  "VisitLoadStorePreIndex instr s = LoadStoreHelper instr (scast (GetImmLS (insn_bits instr))) PreIndex s"

definition VisitLoadStorePostIndex :: "instruction \<Rightarrow> 'v vsim \<Rightarrow> abort + 'v vsim" where
  "VisitLoadStorePostIndex instr s = LoadStoreHelper instr (scast (GetImmLS (insn_bits instr))) PostIndex s"

definition VisitLoadStoreRegisterOffset :: "instruction \<Rightarrow> 'v vsim \<Rightarrow> abort + 'v vsim" where
  "VisitLoadStoreRegisterOffset instr s =
     (let bits = insn_bits instr;
          ext = Extend_of (GetExtendMode bits);
          shift_amount = GetImmShiftLS bits * of_nat (GetSizeLS bits)
      in and_then (ExtendValue 64 (ReadXRegister (rm_of bits) s) ext shift_amount)
           (\<lambda>offset. LoadStoreHelper instr offset Offset s))"

section \<open>Pointer-authenticated loads\<close>

definition VisitLoadStorePAC :: "instruction \<Rightarrow> 'v vsim \<Rightarrow> abort + 'v vsim" where
  "VisitLoadStorePAC instr s =
     (let bits = insn_bits instr; dst = rt_of bits; addr_reg = rn_of bits;
          key = (if ExtractBit 23 bits = 0 then kPACKeyDA else kPACKeyDB);
          address = AuthPAC (ReadRegister addr_reg Reg31IsStackPointer s) 0 key kDataPointer;
          error_lsb = GetTopPACBit address kInstructionPointer - 2
      in if drop_bit error_lsb address AND 3 \<noteq> 0 then Inl PointerAuthFailure
         else if addr_reg = 31 \<and> address mod 16 \<noteq> 0 then Inl AlignmentException
         else let address = address + scast (GetImmLSPAC bits);
                  s1 = (if Mask LoadStorePACPreBit bits = LoadStorePACPreBit
                        then WriteRegister addr_reg address Reg31IsStackPointer s else s)
              in and_then (MemReadT address s1) (\<lambda>v :: u64. Inr (WriteXRegister dst v s1)))"

section \<open>Load-acquire and store-release with an unscaled offset\<close>

definition crosses_granule :: "u64 \<Rightarrow> u64 \<Rightarrow> bool" where
  "crosses_granule address access_size =
     (AlignDown address 16 \<noteq> AlignDown (address + access_size - 1) 16)"

text \<open>
  The two type parameters of the load are the width and signedness written to
  the register (\<open>write\<close>) and the type read.
\<close>

definition LoadAcquireRCpcUnscaledOffsetHelper ::
  "('a::len word \<Rightarrow> 'v vsim \<Rightarrow> 'v vsim) \<Rightarrow> instruction \<Rightarrow> 'v vsim \<Rightarrow> abort + 'v vsim" where
  "LoadAcquireRCpcUnscaledOffsetHelper write instr s =
     (let bits = insn_bits instr;
          address = ReadRegister (rn_of bits) Reg31IsStackPointer s + scast (GetImmLS bits)
      in if crosses_granule address (of_nat (LENGTH('a) div 8)) then Inl AlignmentException
         else and_then (MemReadT address s) (\<lambda>v :: 'a word. Inr (write v s)))"

definition StoreReleaseUnscaledOffsetHelper :: "'a::len word \<Rightarrow> instruction \<Rightarrow> 'v vsim \<Rightarrow> abort + 'v vsim" where
  "StoreReleaseUnscaledOffsetHelper v instr s =
     (let bits = insn_bits instr;
          address = ReadRegister (rn_of bits) Reg31IsStackPointer s + scast (GetImmLS bits)
      in if crosses_granule address (of_nat (LENGTH('a) div 8)) then Inl AlignmentException
         else MemWriteT address v s)"

definition VisitLoadStoreRCpcUnscaledOffset :: "instruction \<Rightarrow> 'v vsim \<Rightarrow> abort + 'v vsim" where
  "VisitLoadStoreRCpcUnscaledOffset instr s =
     (let op = Mask LoadStoreRCpcUnscaledOffsetMask (insn_bits instr); rt = rt_of (insn_bits instr) in
      if op = LDAPURB then LoadAcquireRCpcUnscaledOffsetHelper (\<lambda>v :: u8. WriteRegisterT False rt v) instr s
      else if op = LDAPURH then LoadAcquireRCpcUnscaledOffsetHelper (\<lambda>v :: u16. WriteRegisterT False rt v) instr s
      else if op = LDAPUR_w then LoadAcquireRCpcUnscaledOffsetHelper (\<lambda>v :: u32. WriteWRegister rt v) instr s
      else if op = LDAPUR_x then LoadAcquireRCpcUnscaledOffsetHelper (\<lambda>v :: u64. WriteXRegister rt v) instr s
      else if op = LDAPURSB_w then LoadAcquireRCpcUnscaledOffsetHelper (\<lambda>v :: u8. WriteWRegister rt (scast v)) instr s
      else if op = LDAPURSB_x then LoadAcquireRCpcUnscaledOffsetHelper (\<lambda>v :: u8. WriteXRegister rt (scast v)) instr s
      else if op = LDAPURSH_w then LoadAcquireRCpcUnscaledOffsetHelper (\<lambda>v :: u16. WriteWRegister rt (scast v)) instr s
      else if op = LDAPURSH_x then LoadAcquireRCpcUnscaledOffsetHelper (\<lambda>v :: u16. WriteXRegister rt (scast v)) instr s
      else if op = LDAPURSW then LoadAcquireRCpcUnscaledOffsetHelper (\<lambda>v :: u32. WriteXRegister rt (scast v)) instr s
      else if op = STLURB then StoreReleaseUnscaledOffsetHelper (ReadRegister rt Reg31IsZeroRegister s :: u8) instr s
      else if op = STLURH then StoreReleaseUnscaledOffsetHelper (ReadRegister rt Reg31IsZeroRegister s :: u16) instr s
      else if op = STLUR_w then StoreReleaseUnscaledOffsetHelper (ReadWRegister rt s) instr s
      else if op = STLUR_x then StoreReleaseUnscaledOffsetHelper (ReadXRegister rt s) instr s
      else Inr s)"

section \<open>Pairs\<close>

text \<open>Both values are read before either register is written; the two stores go in order.\<close>

definition load_pair ::
  "('a::len word \<Rightarrow> 'v vsim \<Rightarrow> 'v vsim) \<Rightarrow> ('a word \<Rightarrow> 'v vsim \<Rightarrow> 'v vsim) \<Rightarrow> u64 \<Rightarrow> u64 \<Rightarrow> 'v vsim \<Rightarrow> abort + 'v vsim" where
  "load_pair write write2 address address2 s =
     and_then (MemReadT address s) (\<lambda>v.
     and_then (MemReadT address2 s) (\<lambda>v2. Inr (write2 v2 (write v s))))"

definition store_pair :: "'a::len word \<Rightarrow> 'a word \<Rightarrow> u64 \<Rightarrow> u64 \<Rightarrow> 'v vsim \<Rightarrow> abort + 'v vsim" where
  "store_pair v v2 address address2 s = and_then (MemWriteT address v s) (MemWriteT address2 v2)"

definition load_store_pair_op :: "u32 \<Rightarrow> nat \<Rightarrow> nat \<Rightarrow> u64 \<Rightarrow> u64 \<Rightarrow> 'v vsim \<Rightarrow> abort + 'v vsim" where
  "load_store_pair_op op rt rt2 address address2 s =
     (if op = LDP_w then load_pair (\<lambda>v :: u32. WriteWRegister rt v) (\<lambda>v. WriteWRegister rt2 v) address address2 s
      else if op = LDP_s then load_pair (\<lambda>v :: u32. WriteVRegister rt v) (\<lambda>v. WriteVRegister rt2 v) address address2 s
      else if op = LDP_x then load_pair (\<lambda>v :: u64. WriteXRegister rt v) (\<lambda>v. WriteXRegister rt2 v) address address2 s
      else if op = LDP_d then load_pair (\<lambda>v :: u64. WriteVRegister rt v) (\<lambda>v. WriteVRegister rt2 v) address address2 s
      else if op = LDP_q then load_pair (\<lambda>v :: u128. WriteVRegister rt v) (\<lambda>v. WriteVRegister rt2 v) address address2 s
      else if op = LDPSW_x then load_pair (\<lambda>v :: u32. WriteXRegister rt (scast v)) (\<lambda>v. WriteXRegister rt2 (scast v)) address address2 s
      else if op = STP_w then store_pair (ReadWRegister rt s :: u32) (ReadWRegister rt2 s) address address2 s
      else if op = STP_s then store_pair (ReadVRegister rt s :: u32) (ReadVRegister rt2 s) address address2 s
      else if op = STP_x then store_pair (ReadXRegister rt s :: u64) (ReadXRegister rt2 s) address address2 s
      else if op = STP_d then store_pair (ReadVRegister rt s :: u64) (ReadVRegister rt2 s) address address2 s
      else if op = STP_q then store_pair (ReadVRegister rt s :: u128) (ReadVRegister rt2 s) address address2 s
      else Inl UnreachableCode)"

definition LoadStorePairHelper :: "instruction \<Rightarrow> AddrMode \<Rightarrow> 'v vsim \<Rightarrow> abort + 'v vsim" where
  "LoadStorePairHelper instr addrmode s =
     (let bits = insn_bits instr;
          element_size = push_bit (GetSizeLSPair bits) 1 :: u32;
          offset = scast (GetImmLSPair bits * element_size)
      in and_then (AddressModeHelper (rn_of bits) offset addrmode s) (\<lambda>(address, s1).
         map_result local_MaybeClear
           (load_store_pair_op (Mask LoadStorePairMask bits) (rt_of bits) (rt2_of bits)
              address (address + scast element_size) s1)))"

definition VisitLoadStorePairOffset :: "instruction \<Rightarrow> 'v vsim \<Rightarrow> abort + 'v vsim" where
  "VisitLoadStorePairOffset instr s = LoadStorePairHelper instr Offset s"

definition VisitLoadStorePairPreIndex :: "instruction \<Rightarrow> 'v vsim \<Rightarrow> abort + 'v vsim" where
  "VisitLoadStorePairPreIndex instr s = LoadStorePairHelper instr PreIndex s"

definition VisitLoadStorePairPostIndex :: "instruction \<Rightarrow> 'v vsim \<Rightarrow> abort + 'v vsim" where
  "VisitLoadStorePairPostIndex instr s = LoadStorePairHelper instr PostIndex s"

definition VisitLoadStorePairNonTemporal :: "instruction \<Rightarrow> 'v vsim \<Rightarrow> abort + 'v vsim" where
  "VisitLoadStorePairNonTemporal instr s = LoadStorePairHelper instr Offset s"

section \<open>Literals\<close>

definition load_literal_op :: "u32 \<Rightarrow> nat \<Rightarrow> u64 \<Rightarrow> 'v vsim \<Rightarrow> abort + 'v vsim" where
  "load_literal_op op srcdst address s =
     (if op = LDR_w_lit then and_then (MemReadT address s) (\<lambda>v :: u32. Inr (WriteWRegister srcdst v s))
      else if op = LDR_x_lit then and_then (MemReadT address s) (\<lambda>v :: u64. Inr (WriteXRegister srcdst v s))
      else if op = LDR_s_lit then and_then (MemReadT address s) (\<lambda>v :: u32. Inr (WriteVRegister srcdst v s))
      else if op = LDR_d_lit then and_then (MemReadT address s) (\<lambda>v :: u64. Inr (WriteVRegister srcdst v s))
      else if op = LDR_q_lit then and_then (MemReadT address s) (\<lambda>v :: u128. Inr (WriteVRegister srcdst v s))
      else if op = LDRSW_x_lit then and_then (MemReadT address s) (\<lambda>v :: u32. Inr (WriteXRegister srcdst (scast v) s))
      else if op = PRFM_lit then Inr s
      else Inl UnreachableCode)"

definition VisitLoadLiteral :: "instruction \<Rightarrow> 'v vsim \<Rightarrow> abort + 'v vsim" where
  "VisitLoadLiteral instr s =
     map_result local_MaybeClear
       (load_literal_op (Mask LoadLiteralMask (insn_bits instr)) (rt_of (insn_bits instr))
          (GetLiteralAddress instr) s)"

section \<open>Alignment of atomic accesses\<close>

definition CheckIsValidUnalignedAtomicAccess :: "bool \<Rightarrow> nat \<Rightarrow> u64 \<Rightarrow> u64 \<Rightarrow> abort + unit" where
  "CheckIsValidUnalignedAtomicAccess uscat rn address access_size =
     (if (if uscat then crosses_granule address access_size
          else AlignDown address access_size \<noteq> address) then Inl AlignmentException
      else if rn = 31 \<and> AlignDown address 16 \<noteq> address then Inl AlignmentException
      else Inr ())"

end
