(* ===== verification/Sim_Atomics.thy ===== *)
theory Sim_Atomics
  imports Sim_LoadStore
begin

text \<open>
  Compare-and-swap, load/store exclusive, the atomic read-modify-write
  instructions, swap and load-acquire of \<open>src/aarch64/simulator-aarch64.cc\<close>.
  The argument \<open>uscat\<close> says whether the simulated CPU has the relaxed alignment
  feature.
\<close>

section \<open>Compare and swap\<close>

definition CompareAndSwapHelper :: "bool \<Rightarrow> 'a::len itself \<Rightarrow> instruction \<Rightarrow> 'v vsim \<Rightarrow> abort + 'v vsim" where
  "CompareAndSwapHelper uscat T instr s =
     (let bits = insn_bits instr;
          rs = rs_of bits; rt = rt_of bits; rn = rn_of bits;
          address = ReadRegister rn Reg31IsStackPointer s
      in and_then (CheckIsValidUnalignedAtomicAccess uscat rn address (of_nat (LENGTH('a) div 8))) (\<lambda>_.
         let comparevalue = ReadRegister rs Reg31IsZeroRegister s :: 'a word;
             newvalue = ReadRegister rt Reg31IsZeroRegister s :: 'a word;
             s1 = local_Clear s
         in and_then (MemReadT address s1) (\<lambda>data :: 'a word.
            and_then (if data = comparevalue then MemWriteT address newvalue s1 else Inr s1) (\<lambda>s2.
            Inr (WriteRegisterT False rs data s2)))))"

definition CompareAndSwapPairHelper :: "bool \<Rightarrow> 'a::len itself \<Rightarrow> instruction \<Rightarrow> 'v vsim \<Rightarrow> abort + 'v vsim" where
  "CompareAndSwapPairHelper uscat T instr s =
     (let bits = insn_bits instr;
          rs = rs_of bits; rt = rt_of bits; rn = rn_of bits;
          element_size = of_nat (LENGTH('a) div 8);
          address = ReadRegister rn Reg31IsStackPointer s
      in and_then (CheckIsValidUnalignedAtomicAccess uscat rn address (element_size * 2)) (\<lambda>_.
         let address2 = address + element_size;
             comparevalue_high = ReadRegister (rs + 1) Reg31IsZeroRegister s :: 'a word;
             comparevalue_low = ReadRegister rs Reg31IsZeroRegister s :: 'a word;
             newvalue_high = ReadRegister (rt + 1) Reg31IsZeroRegister s :: 'a word;
             newvalue_low = ReadRegister rt Reg31IsZeroRegister s :: 'a word;
             s1 = local_Clear s
         in and_then (MemReadT address s1) (\<lambda>data_low :: 'a word.
            and_then (MemReadT address2 s1) (\<lambda>data_high :: 'a word.
            and_then (if data_high = comparevalue_high \<and> data_low = comparevalue_low
                      then store_pair newvalue_low newvalue_high address address2 s1
                      else Inr s1) (\<lambda>s2.
            Inr (WriteRegisterT False rs data_low (WriteRegisterT False (rs + 1) data_high s2)))))))"

section \<open>Load and store exclusive\<close>

definition load_exclusive_op ::
  "u32 \<Rightarrow> nat \<Rightarrow> nat \<Rightarrow> u64 \<Rightarrow> u64 \<Rightarrow> 'v vsim \<Rightarrow> abort + 'v vsim" where
  "load_exclusive_op op rt rt2 address address2 s =
     (if op \<in> {LDXRB_w, LDAXRB_w, LDARB_w, LDLARB}
        then and_then (MemReadT address s) (\<lambda>v :: u8. Inr (WriteWRegister rt (ucast v) s))
      else if op \<in> {LDXRH_w, LDAXRH_w, LDARH_w, LDLARH}
        then and_then (MemReadT address s) (\<lambda>v :: u16. Inr (WriteWRegister rt (ucast v) s))
      else if op \<in> {LDXR_w, LDAXR_w, LDAR_w, LDLAR_w}
        then and_then (MemReadT address s) (\<lambda>v :: u32. Inr (WriteWRegister rt v s))
      else if op \<in> {LDXR_x, LDAXR_x, LDAR_x, LDLAR_x}
        then and_then (MemReadT address s) (\<lambda>v :: u64. Inr (WriteXRegister rt v s))
      else if op \<in> {LDXP_w, LDAXP_w}
        then load_pair (\<lambda>v :: u32. WriteWRegister rt v) (\<lambda>v. WriteWRegister rt2 v) address address2 s
      else if op \<in> {LDXP_x, LDAXP_x}
        then load_pair (\<lambda>v :: u64. WriteXRegister rt v) (\<lambda>v. WriteXRegister rt2 v) address address2 s
      else Inl UnreachableCode)"

definition store_exclusive_op ::
  "u32 \<Rightarrow> nat \<Rightarrow> nat \<Rightarrow> u64 \<Rightarrow> u64 \<Rightarrow> 'v vsim \<Rightarrow> abort + 'v vsim" where
  "store_exclusive_op op rt rt2 address address2 s =
     (if op \<in> {STXRB_w, STLXRB_w, STLRB_w, STLLRB}
        then MemWriteT address (ucast (ReadWRegister rt s) :: u8) s
      else if op \<in> {STXRH_w, STLXRH_w, STLRH_w, STLLRH}
        then MemWriteT address (ucast (ReadWRegister rt s) :: u16) s
      else if op \<in> {STXR_w, STLXR_w, STLR_w, STLLR_w}
        then MemWriteT address (ReadWRegister rt s) s
      else if op \<in> {STXR_x, STLXR_x, STLR_x, STLLR_x}
        then MemWriteT address (ReadXRegister rt s) s
      else if op \<in> {STXP_w, STLXP_w}
        then store_pair (ReadWRegister rt s) (ReadWRegister rt2 s) address address2 s
      else if op \<in> {STXP_x, STLXP_x}
        then store_pair (ReadXRegister rt s) (ReadXRegister rt2 s) address address2 s
      else Inl UnreachableCode)"

text \<open>
  Whether an exclusive store takes place: the global monitor is asked, and its
  generator advances, only when the local one agrees.
\<close>

definition exclusive_check :: "u64 \<Rightarrow> u64 \<Rightarrow> 'v vsim \<Rightarrow> bool \<times> 'v vsim" where
  "exclusive_check address access_size s =
     (if local_IsExclusive address access_size s then global_IsExclusive address access_size s
      else (False, s))"

definition VisitLoadStoreExclusive_default :: "bool \<Rightarrow> instruction \<Rightarrow> 'v vsim \<Rightarrow> abort + 'v vsim" where
  "VisitLoadStoreExclusive_default uscat instr s =
     (let bits = insn_bits instr; op = Mask LoadStoreExclusiveMask bits;
          rs = rs_of bits; rt = rt_of bits; rt2 = rt2_of bits; rn = rn_of bits;
          is_exclusive = (GetLdStXNotExclusive bits = 0);
          is_load = (GetLdStXLoad bits \<noteq> 0);
          is_pair = (GetLdStXPair bits \<noteq> 0);
          element_size = push_bit (unat (GetLdStXSizeLog2 bits)) 1 :: u64;
          access_size = (if is_pair then element_size * 2 else element_size);
          address = ReadRegister rn Reg31IsStackPointer s
      in and_then (CheckIsValidUnalignedAtomicAccess uscat rn address access_size) (\<lambda>_.
         if is_load
         then load_exclusive_op op rt rt2 address (address + element_size)
                (if is_exclusive then local_MarkExclusive address access_size s else local_Clear s)
         else let (do_store, s1) =
                    (if is_exclusive
                     then let (ok, s') = exclusive_check address access_size s
                          in (ok, local_Clear (WriteWRegister rs (if ok then 0 else 1) s'))
                     else (True, local_MaybeClear s))
              in if do_store then store_exclusive_op op rt rt2 address (address + element_size) s1
                 else Inr s1))"

definition VisitLoadStoreExclusive :: "bool \<Rightarrow> instruction \<Rightarrow> 'v vsim \<Rightarrow> abort + 'v vsim" where
  "VisitLoadStoreExclusive uscat instr s =
     (let op = Mask LoadStoreExclusiveMask (insn_bits instr) in
      if op \<in> {CAS_w, CASA_w, CASL_w, CASAL_w}
        then CompareAndSwapHelper uscat TYPE(32) instr s
      else if op \<in> {CAS_x, CASA_x, CASL_x, CASAL_x}
        then CompareAndSwapHelper uscat TYPE(64) instr s
      else if op \<in> {CASB, CASAB, CASLB, CASALB}
        then CompareAndSwapHelper uscat TYPE(8) instr s
      else if op \<in> {CASH, CASAH, CASLH, CASALH}
        then CompareAndSwapHelper uscat TYPE(16) instr s
      else if op \<in> {CASP_w, CASPA_w, CASPL_w, CASPAL_w}
        then CompareAndSwapPairHelper uscat TYPE(32) instr s
      else if op \<in> {CASP_x, CASPA_x, CASPL_x, CASPAL_x}
        then CompareAndSwapPairHelper uscat TYPE(64) instr s
      else VisitLoadStoreExclusive_default uscat instr s)"

section \<open>Atomic memory operations\<close>

text \<open>The new value; the comparisons are those of the type, signed or unsigned.\<close>

definition atomic_simple_result :: "bool \<Rightarrow> u32 \<Rightarrow> 'a::len word \<Rightarrow> 'a word \<Rightarrow> 'a word" where
  "atomic_simple_result sgnd op data v =
     (let greater = (if sgnd then sint v < sint data else v < data)
      in if op = LDADDOp then data + v
         else if op = LDCLROp then data AND NOT v
         else if op = LDEOROp then data XOR v
         else if op = LDSETOp then data OR v
         else if op = LDSMAXOp \<or> op = LDUMAXOp then (if greater then data else v)
         else if op = LDSMINOp \<or> op = LDUMINOp then (if greater then v else data)
         else 0)"

text \<open>The register gets the old value before the new one is stored.\<close>

definition AtomicMemorySimpleHelper ::
  "bool \<Rightarrow> bool \<Rightarrow> 'a::len itself \<Rightarrow> instruction \<Rightarrow> 'v vsim \<Rightarrow> abort + 'v vsim" where
  "AtomicMemorySimpleHelper uscat sgnd T instr s =
     (let bits = insn_bits instr;
          rs = rs_of bits; rt = rt_of bits; rn = rn_of bits;
          address = ReadRegister rn Reg31IsStackPointer s
      in and_then (CheckIsValidUnalignedAtomicAccess uscat rn address (of_nat (LENGTH('a) div 8))) (\<lambda>_.
         let v = ReadRegister rs Reg31IsZeroRegister s :: 'a word
         in and_then (MemReadT address s) (\<lambda>data :: 'a word.
            let result = atomic_simple_result sgnd (Mask AtomicMemorySimpleOpMask bits) data v
            in MemWriteT address result (WriteRegisterT sgnd rt data s))))"

definition AtomicMemorySwapHelper :: "bool \<Rightarrow> 'a::len itself \<Rightarrow> instruction \<Rightarrow> 'v vsim \<Rightarrow> abort + 'v vsim" where
  "AtomicMemorySwapHelper uscat T instr s =
     (let bits = insn_bits instr;
          rs = rs_of bits; rt = rt_of bits; rn = rn_of bits;
          address = ReadRegister rn Reg31IsStackPointer s
      in and_then (CheckIsValidUnalignedAtomicAccess uscat rn address (of_nat (LENGTH('a) div 8))) (\<lambda>_.
         and_then (MemReadT address s) (\<lambda>data :: 'a word.
         map_result (WriteRegisterT False rt data)
           (MemWriteT address (ReadRegister rs Reg31IsZeroRegister s :: 'a word) s))))"

definition LoadAcquireRCpcHelper :: "bool \<Rightarrow> 'a::len itself \<Rightarrow> instruction \<Rightarrow> 'v vsim \<Rightarrow> abort + 'v vsim" where
  "LoadAcquireRCpcHelper uscat T instr s =
     (let bits = insn_bits instr; rt = rt_of bits; rn = rn_of bits;
          address = ReadRegister rn Reg31IsStackPointer s
      in and_then (CheckIsValidUnalignedAtomicAccess uscat rn address (of_nat (LENGTH('a) div 8))) (\<lambda>_.
         and_then (MemReadT address s) (\<lambda>v :: 'a word. Inr (WriteRegisterT False rt v s))))"

text \<open>The case labels of the two lists, at the four sizes.\<close>

definition ATOMIC_MEMORY_SIMPLE_UINT_B :: "u32 set" where
  "ATOMIC_MEMORY_SIMPLE_UINT_B =
     {LDADDB, LDADDAB, LDADDLB, LDADDALB,
      LDCLRB, LDCLRAB, LDCLRLB, LDCLRALB,
      LDEORB, LDEORAB, LDEORLB, LDEORALB,
      LDSETB, LDSETAB, LDSETLB, LDSETALB,
      LDUMAXB, LDUMAXAB, LDUMAXLB, LDUMAXALB,
      LDUMINB, LDUMINAB, LDUMINLB, LDUMINALB}"

definition ATOMIC_MEMORY_SIMPLE_UINT_H :: "u32 set" where
  "ATOMIC_MEMORY_SIMPLE_UINT_H =
     {LDADDH, LDADDAH, LDADDLH, LDADDALH,
      LDCLRH, LDCLRAH, LDCLRLH, LDCLRALH,
      LDEORH, LDEORAH, LDEORLH, LDEORALH,
      LDSETH, LDSETAH, LDSETLH, LDSETALH,
      LDUMAXH, LDUMAXAH, LDUMAXLH, LDUMAXALH,
      LDUMINH, LDUMINAH, LDUMINLH, LDUMINALH}"

definition ATOMIC_MEMORY_SIMPLE_UINT_w :: "u32 set" where
  "ATOMIC_MEMORY_SIMPLE_UINT_w =
     {LDADD_w, LDADDA_w, LDADDL_w, LDADDAL_w,
      LDCLR_w, LDCLRA_w, LDCLRL_w, LDCLRAL_w,
      LDEOR_w, LDEORA_w, LDEORL_w, LDEORAL_w,
      LDSET_w, LDSETA_w, LDSETL_w, LDSETAL_w,
      LDUMAX_w, LDUMAXA_w, LDUMAXL_w, LDUMAXAL_w,
      LDUMIN_w, LDUMINA_w, LDUMINL_w, LDUMINAL_w}"

definition ATOMIC_MEMORY_SIMPLE_UINT_x :: "u32 set" where
  "ATOMIC_MEMORY_SIMPLE_UINT_x =
     {LDADD_x, LDADDA_x, LDADDL_x, LDADDAL_x,
      LDCLR_x, LDCLRA_x, LDCLRL_x, LDCLRAL_x,
      LDEOR_x, LDEORA_x, LDEORL_x, LDEORAL_x,
      LDSET_x, LDSETA_x, LDSETL_x, LDSETAL_x,
      LDUMAX_x, LDUMAXA_x, LDUMAXL_x, LDUMAXAL_x,
      LDUMIN_x, LDUMINA_x, LDUMINL_x, LDUMINAL_x}"

definition ATOMIC_MEMORY_SIMPLE_INT_B :: "u32 set" where
  "ATOMIC_MEMORY_SIMPLE_INT_B =
     {LDSMAXB, LDSMAXAB, LDSMAXLB, LDSMAXALB,
      LDSMINB, LDSMINAB, LDSMINLB, LDSMINALB}"

definition ATOMIC_MEMORY_SIMPLE_INT_H :: "u32 set" where
  "ATOMIC_MEMORY_SIMPLE_INT_H =
     {LDSMAXH, LDSMAXAH, LDSMAXLH, LDSMAXALH,
      LDSMINH, LDSMINAH, LDSMINLH, LDSMINALH}"

definition ATOMIC_MEMORY_SIMPLE_INT_w :: "u32 set" where
  "ATOMIC_MEMORY_SIMPLE_INT_w =
     {LDSMAX_w, LDSMAXA_w, LDSMAXL_w, LDSMAXAL_w,
      LDSMIN_w, LDSMINA_w, LDSMINL_w, LDSMINAL_w}"

definition ATOMIC_MEMORY_SIMPLE_INT_x :: "u32 set" where
  "ATOMIC_MEMORY_SIMPLE_INT_x =
     {LDSMAX_x, LDSMAXA_x, LDSMAXL_x, LDSMAXAL_x,
      LDSMIN_x, LDSMINA_x, LDSMINL_x, LDSMINAL_x}"

definition VisitAtomicMemory :: "bool \<Rightarrow> instruction \<Rightarrow> 'v vsim \<Rightarrow> abort + 'v vsim" where
  "VisitAtomicMemory uscat instr s =
     (let op = Mask AtomicMemoryMask (insn_bits instr) in
      if op \<in> ATOMIC_MEMORY_SIMPLE_UINT_B
        then AtomicMemorySimpleHelper uscat False TYPE(8) instr s
      else if op \<in> ATOMIC_MEMORY_SIMPLE_INT_B
        then AtomicMemorySimpleHelper uscat True TYPE(8) instr s
      else if op \<in> ATOMIC_MEMORY_SIMPLE_UINT_H
        then AtomicMemorySimpleHelper uscat False TYPE(16) instr s
      else if op \<in> ATOMIC_MEMORY_SIMPLE_INT_H
        then AtomicMemorySimpleHelper uscat True TYPE(16) instr s
      else if op \<in> ATOMIC_MEMORY_SIMPLE_UINT_w
        then AtomicMemorySimpleHelper uscat False TYPE(32) instr s
      else if op \<in> ATOMIC_MEMORY_SIMPLE_INT_w
        then AtomicMemorySimpleHelper uscat True TYPE(32) instr s
      else if op \<in> ATOMIC_MEMORY_SIMPLE_UINT_x
        then AtomicMemorySimpleHelper uscat False TYPE(64) instr s
      else if op \<in> ATOMIC_MEMORY_SIMPLE_INT_x
        then AtomicMemorySimpleHelper uscat True TYPE(64) instr s
      else if op \<in> {SWPB, SWPAB, SWPLB, SWPALB}
        then AtomicMemorySwapHelper uscat TYPE(8) instr s
      else if op \<in> {SWPH, SWPAH, SWPLH, SWPALH}
        then AtomicMemorySwapHelper uscat TYPE(16) instr s
      else if op \<in> {SWP_w, SWPA_w, SWPL_w, SWPAL_w}
        then AtomicMemorySwapHelper uscat TYPE(32) instr s
      else if op \<in> {SWP_x, SWPA_x, SWPL_x, SWPAL_x}
        then AtomicMemorySwapHelper uscat TYPE(64) instr s
      else if op \<in> {LDAPRB}
        then LoadAcquireRCpcHelper uscat TYPE(8) instr s
      else if op \<in> {LDAPRH}
        then LoadAcquireRCpcHelper uscat TYPE(16) instr s
      else if op \<in> {LDAPR_w}
        then LoadAcquireRCpcHelper uscat TYPE(32) instr s
      else if op \<in> {LDAPR_x}
        then LoadAcquireRCpcHelper uscat TYPE(64) instr s
      else Inr s)"

end
