(* ===== verification/Sim_System.thy ===== *)
theory Sim_System
  imports Sim_Branch
begin

text \<open>
  System instructions of \<open>src/aarch64/simulator-aarch64.cc\<close> (\<open>VisitSystem\<close> and
  \<open>PACHelper\<close>): flag conversions, moves to and from NZCV and FPCR, hints, branch
  target identification, the pointer authentication hints, cache maintenance, block
  zeroing, the random number registers, and the guarded control stacks with the switches
  between them.  \<open>dbg\<close> says whether this is a debug build, in which \<open>VIXL_UNIMPLEMENTED\<close> aborts.
\<close>

section \<open>Encodings of system registers and operations\<close>

definition SystemRegisterEncoder :: "u32 \<Rightarrow> u32 \<Rightarrow> u32 \<Rightarrow> u32 \<Rightarrow> u32 \<Rightarrow> u32" where
  "SystemRegisterEncoder op0 op1 crn crm op2 =
     drop_bit 5 (push_bit 19 op0 OR push_bit 16 op1 OR push_bit 12 crn OR push_bit 8 crm OR push_bit 5 op2)"

definition CacheOpEncoder :: "u32 \<Rightarrow> u32 \<Rightarrow> u32 \<Rightarrow> u32 \<Rightarrow> u32" where
  "CacheOpEncoder op1 crn crm op2 =
     drop_bit 5 (push_bit 16 op1 OR push_bit 12 crn OR push_bit 8 crm OR push_bit 5 op2)"


definition PACHelper ::
  "nat \<Rightarrow> nat option \<Rightarrow> PACKey \<Rightarrow> (u64 \<Rightarrow> u64 \<Rightarrow> PACKey \<Rightarrow> PointerType \<Rightarrow> u64) \<Rightarrow> 'v vsim \<Rightarrow> 'v vsim" where
  "PACHelper dst src key pac_fn s =
     (let modifier = (case src of None \<Rightarrow> 0 | Some r \<Rightarrow> ReadRegister r Reg31IsStackPointer s);
          result = pac_fn (ReadXRegister dst s) modifier key kInstructionPointer
      in WriteXRegister dst result s)"

abbreviation NZCV_reg :: u32 where "NZCV_reg \<equiv> SystemRegisterEncoder 3 3 4 2 0"
abbreviation FPCR_reg :: u32 where "FPCR_reg \<equiv> SystemRegisterEncoder 3 3 4 4 0"
abbreviation RNDR_reg :: u32 where "RNDR_reg \<equiv> SystemRegisterEncoder 3 3 2 4 0"
abbreviation RNDRRS_reg :: u32 where "RNDRRS_reg \<equiv> SystemRegisterEncoder 3 3 2 4 1"
abbreviation DCZID_EL0_reg :: u32 where "DCZID_EL0_reg \<equiv> SystemRegisterEncoder 3 3 0 0 7"
abbreviation IVAU :: u32 where "IVAU \<equiv> CacheOpEncoder 3 7 5 1"
abbreviation CVAC :: u32 where "CVAC \<equiv> CacheOpEncoder 3 7 10 1"
abbreviation CVAU :: u32 where "CVAU \<equiv> CacheOpEncoder 3 7 11 1"
abbreviation CVAP :: u32 where "CVAP \<equiv> CacheOpEncoder 3 7 12 1"
abbreviation CVADP :: u32 where "CVADP \<equiv> CacheOpEncoder 3 7 13 1"
abbreviation CIVAC :: u32 where "CIVAC \<equiv> CacheOpEncoder 3 7 14 1"
abbreviation ZVA :: u32 where "ZVA \<equiv> CacheOpEncoder 3 7 4 1"
abbreviation CGVAC :: u32 where "CGVAC \<equiv> CacheOpEncoder 3 7 10 3"
abbreviation CGDVAC :: u32 where "CGDVAC \<equiv> CacheOpEncoder 3 7 10 5"
abbreviation CGVAP :: u32 where "CGVAP \<equiv> CacheOpEncoder 3 7 12 3"
abbreviation CGDVAP :: u32 where "CGDVAP \<equiv> CacheOpEncoder 3 7 12 5"
abbreviation CIGVAC :: u32 where "CIGVAC \<equiv> CacheOpEncoder 3 7 14 3"
abbreviation CIGDVAC :: u32 where "CIGDVAC \<equiv> CacheOpEncoder 3 7 14 5"
abbreviation GCSPUSHM :: u32 where "GCSPUSHM \<equiv> CacheOpEncoder 3 7 7 0"
abbreviation GCSPOPM :: u32 where "GCSPOPM \<equiv> CacheOpEncoder 3 7 7 1"
abbreviation GCSSS1 :: u32 where "GCSSS1 \<equiv> CacheOpEncoder 3 7 7 2"
abbreviation GCSSS2 :: u32 where "GCSSS2 \<equiv> CacheOpEncoder 3 7 7 3"

text \<open>The flags as bits, as the accessors of the register return them.\<close>

definition GetN :: "'v vsim \<Rightarrow> u32" where "GetN s = sr_field 31 31 (nzcv s)"
definition GetZ :: "'v vsim \<Rightarrow> u32" where "GetZ s = sr_field 30 30 (nzcv s)"
definition GetC :: "'v vsim \<Rightarrow> u32" where "GetC s = sr_field 29 29 (nzcv s)"
definition GetV :: "'v vsim \<Rightarrow> u32" where "GetV s = sr_field 28 28 (nzcv s)"

definition axflag :: "'v vsim \<Rightarrow> 'v vsim" where
  "axflag s =
     (let s = SetN 0 s;
          s = SetZ (GetZ s OR GetV s) s;
          s = SetC (GetC s AND NOT (GetV s)) s
      in SetV 0 s)"

definition xaflag :: "'v vsim \<Rightarrow> 'v vsim" where
  "xaflag s =
     (let n = (NOT (GetC s) AND NOT (GetZ s)) AND 1;
          z = GetZ s AND GetC s;
          c = GetC s OR GetZ s;
          v = NOT (GetC s) AND GetZ s
      in SetV v (SetC c (SetZ z (SetN n s))))"

text \<open>Branch target identification: which branch types each hint rejects on a guarded page.\<close>

definition visit_bti :: "instruction \<Rightarrow> 'v vsim \<Rightarrow> abort + 'v vsim" where
  "visit_bti instr s =
     (let hint = GetImmHint (insn_bits instr)
      in if hint = 38 then Inr s
         else if hint = 32
         then (if guard_pages s \<and> btype s \<noteq> DefaultBType then Inl WrongBType else Inr s)
         else if hint = 34
         then (if guard_pages s \<and> btype s = BranchFromGuardedNotToIP then Inl WrongBType else Inr s)
         else if hint = 36
         then (if guard_pages s \<and> btype s = BranchAndLink then Inl WrongBType else Inr s)
         else Inl UnreachableCode)"

text \<open>\<open>VIXL_UNIMPLEMENTED\<close> in the middle of a visitor: an abort of a debug build only.\<close>

definition unimplemented :: "bool \<Rightarrow> 'v vsim \<Rightarrow> abort + 'v vsim" where
  "unimplemented dbg s = (if dbg then Inl (UnimplementedInstruction (pc_reg s)) else Inr s)"

definition vixl_assert :: "bool \<Rightarrow> bool \<Rightarrow> abort + unit" where
  "vixl_assert dbg cond = (if dbg \<and> \<not> cond then Inl (HostAbort ''assertion'') else Inr ())"

definition visit_msr :: "bool \<Rightarrow> instruction \<Rightarrow> 'v vsim \<Rightarrow> abort + 'v vsim" where
  "visit_msr dbg instr s =
     (let bits = insn_bits instr; v = ReadWRegister (unat (GetRt bits)) s
      in if GetImmSystemRegister bits = NZCV_reg then Inr (s\<lparr>nzcv := SetRawValue v (nzcv s)\<rparr>)
         else if GetImmSystemRegister bits = FPCR_reg then Inr (s\<lparr>fpcr := SetRawValue v (fpcr s)\<rparr>)
         else unimplemented dbg s)"

definition dczid :: u64 where "dczid = 4"


text \<open>
  \<open>rand_gen_()\<close>: one step of \<open>std::linear_congruential_engine\<close> with modulus \<open>2 ^ 48\<close>, whose
  new state is the number it returns.
\<close>

definition next_random :: "'v vsim \<Rightarrow> u64 \<times> 'v vsim" where
  "next_random s = (let x = take_bit 48 (rand_gen s * 0x5DEECE66D + 0xB) in (x, s\<lparr>rand_gen := x\<rparr>))"

definition read_random :: "'v vsim \<Rightarrow> u64 \<times> 'v vsim" where
  "read_random s =
     (let (high, s1) = next_random s; (low, s2) = next_random s1
      in (push_bit 32 high OR (low AND 0xffffffff), s2))"

definition visit_mrs :: "bool \<Rightarrow> instruction \<Rightarrow> 'v vsim \<Rightarrow> abort + 'v vsim" where
  "visit_mrs dbg instr s =
     (let bits = insn_bits instr; rt = unat (GetRt bits)
      in if GetImmSystemRegister bits = NZCV_reg then Inr (WriteXRegister rt (ucast (GetRawValue (nzcv s))) s)
         else if GetImmSystemRegister bits = FPCR_reg then Inr (WriteXRegister rt (ucast (GetRawValue (fpcr s))) s)
         else if GetImmSystemRegister bits = DCZID_EL0_reg then Inr (WriteXRegister rt dczid s)
         else if GetImmSystemRegister bits = RNDR_reg \<or> GetImmSystemRegister bits = RNDRRS_reg
         then let (rand_num, s1) = read_random s; s2 = WriteXRegister rt rand_num s1
              in Inr (s2\<lparr>nzcv := SetRawValue 0 (nzcv s2)\<rparr>)
         else unimplemented dbg s)"

section \<open>Switching guarded control stacks\<close>

text \<open>
  \<open>GCSSS1\<close> checks the seal of the incoming stack against the argument, which holds the
  size in its upper half, and leaves the token of the outgoing stack, marked with 5, on it.
\<close>

definition visit_gcsss1 :: "u64 \<Rightarrow> 'v vsim \<Rightarrow> abort + 'v vsim" where
  "visit_gcsss1 rt s =
     (let incoming_size = drop_bit 32 rt; incoming_gcs = rt AND 0xffffffff
      in and_then (ActivateGCS incoming_gcs s) (\<lambda>s1.
         let (incoming_seal, s2) = GCSPop s1
         in and_then (if incoming_seal XOR rt \<noteq> 1 \<or> of_nat (length (gcs_stack s2)) \<noteq> incoming_size
                      then ReportGCSFailure ''GCS: invalid incoming stack'' s2 else Inr s2)
              (\<lambda>s3. Inr (GCSPush (gcs_token s + 5) s3))))"

text \<open>\<open>GCSSS2\<close> takes that mark, seals the outgoing stack and returns what \<open>GCSSS1\<close> needs to come back.\<close>

definition visit_gcsss2 :: "bool \<Rightarrow> nat \<Rightarrow> 'v vsim \<Rightarrow> abort + 'v vsim" where
  "visit_gcsss2 dbg rt s =
     (let (popped, s1) = GCSPop s
      in and_then (if popped AND 7 \<noteq> 5 then ReportGCSFailure ''GCS: outgoing stack has no token'' s1 else Inr s1) (\<lambda>s2.
         let outgoing_gcs = popped AND NOT 0x3ff
         in and_then (ActivateGCS outgoing_gcs s2) (\<lambda>s3.
            let sz = of_nat (length (gcs_stack s3));
                outgoing_seal = push_bit 32 sz OR (outgoing_gcs + 1)
            in and_then (vixl_assert dbg (drop_bit 32 sz = 0 \<and> drop_bit 32 (outgoing_gcs + 1) = 0)) (\<lambda>_.
               and_then (ActivateGCS (gcs_token s2) (GCSPush outgoing_seal s3)) (\<lambda>s4.
               Inr (WriteXRegister rt (outgoing_seal - 1) s4))))))"

section \<open>System operations\<close>

text \<open>The loop of \<open>DC ZVA\<close>: \<open>n\<close> zero double words from an address on.\<close>

primrec zero_block :: "u64 \<Rightarrow> nat \<Rightarrow> 'v vsim \<Rightarrow> abort + 'v vsim" where
  "zero_block addr 0 s = Inr s"
| "zero_block addr (Suc n) s = and_then (MemWrite 8 addr (0 :: u64) s) (zero_block (addr + 8) n)"

text \<open>
  Cache maintenance only checks that the address can be read, with tag checks off; the
  result says whether the operation exists.
\<close>

definition SysOp_W :: "bool \<Rightarrow> u32 \<Rightarrow> u64 \<Rightarrow> 'v vsim \<Rightarrow> abort + (bool \<times> 'v vsim)" where
  "SysOp_W dbg op val s =
     (if op \<in> {IVAU, CVAC, CVAU, CVAP, CVADP, CIVAC, CGVAC, CGDVAC, CGVAP, CGDVAP, CIGVAC, CIGDVAC}
      then and_then (MemRead 1 val (s\<lparr>mte_active := False\<rparr>)) (\<lambda>y :: u8. Inr (True, s))
      else if op = ZVA
      then if dczid AND 0x10 \<noteq> 0 then Inr (False, s)
           else let blocksize = push_bit (unat (dczid AND 0xf)) 1 * 4
                in map_result (Pair True) (zero_block (AlignDown val blocksize) (unat blocksize div 8) s)
      else map_result (Pair False) (unimplemented dbg s))"

definition visit_sys ::
  "bool \<Rightarrow> instruction \<Rightarrow> 'v vsim \<Rightarrow> abort + 'v vsim" where
  "visit_sys dbg instr s =
     (let rt = ReadXRegister (unat (GetRt (insn_bits instr))) s; sysop = GetSysOp (insn_bits instr)
      in if sysop = GCSSS1 then visit_gcsss1 rt s
         else if sysop = GCSPUSHM then Inr (GCSPush rt s)
         else and_then (SysOp_W dbg sysop rt s)
                (\<lambda>(ok, s'). if ok then Inr s' else VisitUnallocated instr s'))"

definition visit_sysl ::
  "bool \<Rightarrow> instruction \<Rightarrow> 'v vsim \<Rightarrow> abort + 'v vsim" where
  "visit_sysl dbg instr s =
     (let sysop = GetSysOp (insn_bits instr)
      in if sysop = GCSPOPM
         then let (addr, s') = GCSPop s in Inr (WriteXRegister (unat (GetRt (insn_bits instr))) addr s')
         else if sysop = GCSSS2 then visit_gcsss2 dbg (unat (GetRt (insn_bits instr))) s
         else unimplemented dbg s)"

section \<open>The visitor\<close>

definition VisitSystem ::
  "bool \<Rightarrow> instruction \<Rightarrow> 'v vsim \<Rightarrow> abort + 'v vsim" where
  "VisitSystem dbg instr s =
     (let is = (\<lambda>form. form_hash s = Hash form)
      in if is ''cfinv_m_pstate'' then Inr (SetC (of_bool (\<not> ReadC s)) s)
         else if is ''axflag_m_pstate'' then Inr (axflag s)
         else if is ''xaflag_m_pstate'' then Inr (xaflag s)
         else if is ''xpaclri_hi_hints''
         then Inr (WriteXRegister 30 (StripPAC (ReadXRegister 30 s) kInstructionPointer) s)
         else if is ''clrex_bn_barriers'' then Inr (local_Clear s)
         else if is ''msr_sr_systemmove'' then visit_msr dbg instr s
         else if is ''mrs_rs_systemmove'' then visit_mrs dbg instr s
         else if is ''chkfeat_hf_hints''
         then Inr (WriteXRegister 16 (ReadXRegister 16 s AND NOT (of_bool (gcs_enabled s))) s)
         else if is ''hint_hm_hints'' \<or> is ''nop_hi_hints'' \<or> is ''yield_hi_hints''
              \<or> is ''esb_hi_hints'' \<or> is ''csdb_hi_hints'' then Inr s
         else if is ''bti_hb_hints'' then visit_bti instr s
         else if is ''pacib1716_hi_hints'' then Inr (PACHelper 17 (Some 16) kPACKeyIB AddPAC s)
         else if is ''pacia1716_hi_hints'' then Inr (PACHelper 17 (Some 16) kPACKeyIA AddPAC s)
         else if is ''pacibsp_hi_hints'' then Inr (PACHelper 30 (Some 31) kPACKeyIB AddPAC s)
         else if is ''paciasp_hi_hints'' then Inr (PACHelper 30 (Some 31) kPACKeyIA AddPAC s)
         else if is ''pacibz_hi_hints'' then Inr (PACHelper 30 None kPACKeyIB AddPAC s)
         else if is ''paciaz_hi_hints'' then Inr (PACHelper 30 None kPACKeyIA AddPAC s)
         else if is ''autib1716_hi_hints'' then Inr (PACHelper 17 (Some 16) kPACKeyIB AuthPAC s)
         else if is ''autia1716_hi_hints'' then Inr (PACHelper 17 (Some 16) kPACKeyIA AuthPAC s)
         else if is ''autibsp_hi_hints'' then Inr (PACHelper 30 (Some 31) kPACKeyIB AuthPAC s)
         else if is ''autiasp_hi_hints'' then Inr (PACHelper 30 (Some 31) kPACKeyIA AuthPAC s)
         else if is ''autibz_hi_hints'' then Inr (PACHelper 30 None kPACKeyIB AuthPAC s)
         else if is ''autiaz_hi_hints'' then Inr (PACHelper 30 None kPACKeyIA AuthPAC s)
         else if is ''dsb_bo_barriers'' \<or> is ''dmb_bo_barriers'' \<or> is ''isb_bi_barriers'' then Inr s
         else if is ''sys_cr_systeminstrs'' then visit_sys dbg instr s
         else if is ''sysl_rc_systeminstrs'' then visit_sysl dbg instr s
         else unimplemented dbg s)"

end
