(* ===== verification/Sim_Vector.thy ===== *)
theory Sim_Vector
  imports Sim_Alu
begin

text \<open>
  Vector formats (\<open>src/aarch64/instructions-aarch64.{h,cc}\<close>) and the view of a vector
  register as lanes (\<open>LogicVRegister\<close> of \<open>src/aarch64/simulator-aarch64.h\<close>), with its
  saturation and rounding state per lane.  The registers are those of a simulator with the
  default vector length of 128 bits.  The switches give the value the code returns after
  \<open>VIXL_UNREACHABLE\<close> in a release build.
\<close>

section \<open>Formats\<close>

datatype VectorFormat =
    kFormatUndefined
  | kFormat8B | kFormat16B | kFormat4H | kFormat8H | kFormat2S | kFormat4S | kFormat1D | kFormat2D
  | kFormatB | kFormatH | kFormatS | kFormatD
  | kFormatVnB | kFormatVnH | kFormatVnS | kFormatVnD | kFormatVnQ | kFormatVnO
  | kFormat2H | kFormat1Q

fun IsSVEFormat :: "VectorFormat \<Rightarrow> bool" where
  "IsSVEFormat kFormatVnB = True"
| "IsSVEFormat kFormatVnH = True"
| "IsSVEFormat kFormatVnS = True"
| "IsSVEFormat kFormatVnD = True"
| "IsSVEFormat kFormatVnQ = True"
| "IsSVEFormat kFormatVnO = True"
| "IsSVEFormat _ = False"

fun LaneSizeInBitsFromFormat :: "VectorFormat \<Rightarrow> nat" where
  "LaneSizeInBitsFromFormat kFormatB = 8"
| "LaneSizeInBitsFromFormat kFormat8B = 8"
| "LaneSizeInBitsFromFormat kFormat16B = 8"
| "LaneSizeInBitsFromFormat kFormatVnB = 8"
| "LaneSizeInBitsFromFormat kFormatH = 16"
| "LaneSizeInBitsFromFormat kFormat2H = 16"
| "LaneSizeInBitsFromFormat kFormat4H = 16"
| "LaneSizeInBitsFromFormat kFormat8H = 16"
| "LaneSizeInBitsFromFormat kFormatVnH = 16"
| "LaneSizeInBitsFromFormat kFormatS = 32"
| "LaneSizeInBitsFromFormat kFormat2S = 32"
| "LaneSizeInBitsFromFormat kFormat4S = 32"
| "LaneSizeInBitsFromFormat kFormatVnS = 32"
| "LaneSizeInBitsFromFormat kFormatD = 64"
| "LaneSizeInBitsFromFormat kFormat1D = 64"
| "LaneSizeInBitsFromFormat kFormat2D = 64"
| "LaneSizeInBitsFromFormat kFormatVnD = 64"
| "LaneSizeInBitsFromFormat kFormat1Q = 128"
| "LaneSizeInBitsFromFormat kFormatVnQ = 128"
| "LaneSizeInBitsFromFormat kFormatVnO = 256"
| "LaneSizeInBitsFromFormat kFormatUndefined = 0"

definition LaneSizeInBytesFromFormat :: "VectorFormat \<Rightarrow> nat" where
  "LaneSizeInBytesFromFormat vform = LaneSizeInBitsFromFormat vform div 8"

fun LaneCountFromFormat :: "VectorFormat \<Rightarrow> nat" where
  "LaneCountFromFormat kFormat16B = 16"
| "LaneCountFromFormat kFormat8B = 8"
| "LaneCountFromFormat kFormat8H = 8"
| "LaneCountFromFormat kFormat4H = 4"
| "LaneCountFromFormat kFormat4S = 4"
| "LaneCountFromFormat kFormat2H = 2"
| "LaneCountFromFormat kFormat2S = 2"
| "LaneCountFromFormat kFormat2D = 2"
| "LaneCountFromFormat kFormat1D = 1"
| "LaneCountFromFormat kFormat1Q = 1"
| "LaneCountFromFormat kFormatB = 1"
| "LaneCountFromFormat kFormatH = 1"
| "LaneCountFromFormat kFormatS = 1"
| "LaneCountFromFormat kFormatD = 1"
| "LaneCountFromFormat _ = 0"

fun RegisterSizeInBitsFromFormat :: "VectorFormat \<Rightarrow> nat" where
  "RegisterSizeInBitsFromFormat kFormatB = 8"
| "RegisterSizeInBitsFromFormat kFormatH = 16"
| "RegisterSizeInBitsFromFormat kFormatS = 32"
| "RegisterSizeInBitsFromFormat kFormat2H = 32"
| "RegisterSizeInBitsFromFormat kFormatD = 64"
| "RegisterSizeInBitsFromFormat kFormat8B = 64"
| "RegisterSizeInBitsFromFormat kFormat4H = 64"
| "RegisterSizeInBitsFromFormat kFormat2S = 64"
| "RegisterSizeInBitsFromFormat kFormat1D = 64"
| "RegisterSizeInBitsFromFormat kFormat16B = 128"
| "RegisterSizeInBitsFromFormat kFormat8H = 128"
| "RegisterSizeInBitsFromFormat kFormat4S = 128"
| "RegisterSizeInBitsFromFormat kFormat2D = 128"
| "RegisterSizeInBitsFromFormat kFormat1Q = 128"
| "RegisterSizeInBitsFromFormat _ = 0"

definition RegisterSizeInBytesFromFormat :: "VectorFormat \<Rightarrow> nat" where
  "RegisterSizeInBytesFromFormat vform = RegisterSizeInBitsFromFormat vform div 8"

fun ScalarFormatFromLaneSize :: "nat \<Rightarrow> VectorFormat" where
  "ScalarFormatFromLaneSize lane_size_in_bits =
     (if lane_size_in_bits = 8 then kFormatB
      else if lane_size_in_bits = 16 then kFormatH
      else if lane_size_in_bits = 32 then kFormatS
      else if lane_size_in_bits = 64 then kFormatD
      else kFormatUndefined)"

definition ScalarFormatFromFormat :: "VectorFormat \<Rightarrow> VectorFormat" where
  "ScalarFormatFromFormat vform = ScalarFormatFromLaneSize (LaneSizeInBitsFromFormat vform)"

definition MaxIntFromFormat :: "VectorFormat \<Rightarrow> u64" where
  "MaxIntFromFormat vform = drop_bit 1 (GetUintMask (LaneSizeInBitsFromFormat vform))"

definition MaxUintFromFormat :: "VectorFormat \<Rightarrow> u64" where
  "MaxUintFromFormat vform = GetUintMask (LaneSizeInBitsFromFormat vform)"

definition MinIntFromFormat :: "VectorFormat \<Rightarrow> u64" where
  "MinIntFromFormat vform = - MaxIntFromFormat vform - 1"

fun VectorFormatHalfWidth :: "VectorFormat \<Rightarrow> VectorFormat" where
  "VectorFormatHalfWidth kFormat8H = kFormat8B"
| "VectorFormatHalfWidth kFormat4S = kFormat4H"
| "VectorFormatHalfWidth kFormat2D = kFormat2S"
| "VectorFormatHalfWidth kFormat1Q = kFormat1D"
| "VectorFormatHalfWidth kFormatH = kFormatB"
| "VectorFormatHalfWidth kFormatS = kFormatH"
| "VectorFormatHalfWidth kFormatD = kFormatS"
| "VectorFormatHalfWidth kFormatVnH = kFormatVnB"
| "VectorFormatHalfWidth kFormatVnS = kFormatVnH"
| "VectorFormatHalfWidth kFormatVnD = kFormatVnS"
| "VectorFormatHalfWidth kFormatVnQ = kFormatVnD"
| "VectorFormatHalfWidth _ = kFormatUndefined"

fun VectorFormatDoubleWidth :: "VectorFormat \<Rightarrow> VectorFormat" where
  "VectorFormatDoubleWidth kFormat8B = kFormat8H"
| "VectorFormatDoubleWidth kFormat4H = kFormat4S"
| "VectorFormatDoubleWidth kFormat2S = kFormat2D"
| "VectorFormatDoubleWidth kFormatB = kFormatH"
| "VectorFormatDoubleWidth kFormatH = kFormatS"
| "VectorFormatDoubleWidth kFormatS = kFormatD"
| "VectorFormatDoubleWidth kFormatVnB = kFormatVnH"
| "VectorFormatDoubleWidth kFormatVnH = kFormatVnS"
| "VectorFormatDoubleWidth kFormatVnS = kFormatVnD"
| "VectorFormatDoubleWidth _ = kFormatUndefined"

fun VectorFormatFillQ :: "VectorFormat \<Rightarrow> VectorFormat" where
  "VectorFormatFillQ kFormatB = kFormat16B"
| "VectorFormatFillQ kFormat8B = kFormat16B"
| "VectorFormatFillQ kFormat16B = kFormat16B"
| "VectorFormatFillQ kFormatH = kFormat8H"
| "VectorFormatFillQ kFormat4H = kFormat8H"
| "VectorFormatFillQ kFormat8H = kFormat8H"
| "VectorFormatFillQ kFormatS = kFormat4S"
| "VectorFormatFillQ kFormat2S = kFormat4S"
| "VectorFormatFillQ kFormat4S = kFormat4S"
| "VectorFormatFillQ kFormatD = kFormat2D"
| "VectorFormatFillQ kFormat1D = kFormat2D"
| "VectorFormatFillQ kFormat2D = kFormat2D"
| "VectorFormatFillQ _ = kFormatUndefined"

fun VectorFormatHalfWidthDoubleLanes :: "VectorFormat \<Rightarrow> VectorFormat" where
  "VectorFormatHalfWidthDoubleLanes kFormat4H = kFormat8B"
| "VectorFormatHalfWidthDoubleLanes kFormat8H = kFormat16B"
| "VectorFormatHalfWidthDoubleLanes kFormat2S = kFormat4H"
| "VectorFormatHalfWidthDoubleLanes kFormat4S = kFormat8H"
| "VectorFormatHalfWidthDoubleLanes kFormat1D = kFormat2S"
| "VectorFormatHalfWidthDoubleLanes kFormat2D = kFormat4S"
| "VectorFormatHalfWidthDoubleLanes kFormat1Q = kFormat2D"
| "VectorFormatHalfWidthDoubleLanes kFormatVnH = kFormatVnB"
| "VectorFormatHalfWidthDoubleLanes kFormatVnS = kFormatVnH"
| "VectorFormatHalfWidthDoubleLanes kFormatVnD = kFormatVnS"
| "VectorFormatHalfWidthDoubleLanes _ = kFormatUndefined"

fun VectorFormatHalfLanes :: "VectorFormat \<Rightarrow> VectorFormat" where
  "VectorFormatHalfLanes kFormat16B = kFormat8B"
| "VectorFormatHalfLanes kFormat8H = kFormat4H"
| "VectorFormatHalfLanes kFormat4S = kFormat2S"
| "VectorFormatHalfLanes _ = kFormatUndefined"

section \<open>The format decoder\<close>

text \<open>A map: the bit positions picked from the instruction, and the format of each value of them.\<close>

type_synonym NEONFormatMap = "nat list \<times> VectorFormat list"

definition PickBits :: "u32 \<Rightarrow> nat list \<Rightarrow> nat" where
  "PickBits instrbits positions =
     foldl (\<lambda>result b. 2 * result + (if instrbits AND push_bit b 1 = 0 then 0 else 1)) 0 positions"

definition GetVectorFormat :: "u32 \<Rightarrow> NEONFormatMap \<Rightarrow> VectorFormat" where
  "GetVectorFormat instrbits m =
     (let k = PickBits instrbits (fst m)
      in if k < length (snd m) then snd m ! k else kFormatUndefined)"

definition IntegerFormatMap :: NEONFormatMap where
  "IntegerFormatMap = ([23, 22, 30],
     [kFormat8B, kFormat16B, kFormat4H, kFormat8H, kFormat2S, kFormat4S, kFormatUndefined, kFormat2D])"

definition LongIntegerFormatMap :: NEONFormatMap where
  "LongIntegerFormatMap = ([23, 22], [kFormat8H, kFormat4S, kFormat2D])"

definition FPFormatMap :: NEONFormatMap where
  "FPFormatMap = ([22, 30], [kFormat2S, kFormat4S, kFormatUndefined, kFormat2D])"

definition LoadStoreFormatMap :: NEONFormatMap where
  "LoadStoreFormatMap = ([11, 10, 30],
     [kFormat8B, kFormat16B, kFormat4H, kFormat8H, kFormat2S, kFormat4S, kFormat1D, kFormat2D])"

definition LogicalFormatMap :: NEONFormatMap where
  "LogicalFormatMap = ([30], [kFormat8B, kFormat16B])"

definition TriangularFormatMap :: NEONFormatMap where
  "TriangularFormatMap = ([19, 18, 17, 16, 30],
     [kFormatUndefined, kFormatUndefined, kFormat8B, kFormat16B, kFormat4H, kFormat8H, kFormat8B, kFormat16B,
      kFormat2S, kFormat4S, kFormat8B, kFormat16B, kFormat4H, kFormat8H, kFormat8B, kFormat16B,
      kFormatUndefined, kFormat2D, kFormat8B, kFormat16B, kFormat4H, kFormat8H, kFormat8B, kFormat16B,
      kFormat2S, kFormat4S, kFormat8B, kFormat16B, kFormat4H, kFormat8H, kFormat8B, kFormat16B])"

definition ScalarFormatMap :: NEONFormatMap where
  "ScalarFormatMap = ([23, 22], [kFormatB, kFormatH, kFormatS, kFormatD])"

definition LongScalarFormatMap :: NEONFormatMap where
  "LongScalarFormatMap = ([23, 22], [kFormatH, kFormatS, kFormatD])"

definition FPScalarFormatMap :: NEONFormatMap where
  "FPScalarFormatMap = ([22], [kFormatS, kFormatD])"

definition TriangularScalarFormatMap :: NEONFormatMap where
  "TriangularScalarFormatMap = ([19, 18, 17, 16],
     [kFormatUndefined, kFormatB, kFormatH, kFormatB, kFormatS, kFormatB, kFormatH, kFormatB,
      kFormatD, kFormatB, kFormatH, kFormatB, kFormatS, kFormatB, kFormatH, kFormatB])"

section \<open>Registers as lanes\<close>

text \<open>
  A reference to a register: one of the simulator's vector registers, or a \<open>SimVRegister\<close>
  local to a function.  Functions number their locals apart from those of the functions they
  call, which stands for their stack frames, as no function is recursive.
\<close>

datatype vref = VReg nat | Temp nat

type_synonym vbank = "vref \<Rightarrow> u128"

definition GetLane :: "nat \<Rightarrow> nat \<Rightarrow> u128 \<Rightarrow> u64" where
  "GetLane lane_size i x = take_bit lane_size (ucast (drop_bit (i * lane_size) x))"

definition InsertLane :: "nat \<Rightarrow> nat \<Rightarrow> u64 \<Rightarrow> u128 \<Rightarrow> u128" where
  "InsertLane lane_size i v x =
     (x AND NOT (push_bit (i * lane_size) (mask lane_size)))
       OR push_bit (i * lane_size) (take_bit lane_size (ucast v))"

text \<open>Zero the bytes from \<open>from\<close> on.\<close>

definition ClearTail :: "nat \<Rightarrow> u128 \<Rightarrow> u128" where
  "ClearTail from x = take_bit (8 * from) x"

text \<open>The lane state: saturation flags as a bit mask, and whether to round.\<close>

record LogicVRegister =
  lv_register :: vref
  lv_saturated :: "nat \<Rightarrow> u32"
  lv_round :: "nat \<Rightarrow> bool"

definition LogicV :: "vref \<Rightarrow> LogicVRegister" where
  "LogicV r = \<lparr> lv_register = r, lv_saturated = (\<lambda>i. 0), lv_round = (\<lambda>i. False) \<rparr>"

definition has_lanes :: "VectorFormat \<Rightarrow> bool" where
  "has_lanes vform \<longleftrightarrow> LaneSizeInBitsFromFormat vform \<in> {8, 16, 32, 64}"

definition LUint :: "VectorFormat \<Rightarrow> vbank \<Rightarrow> vref \<Rightarrow> nat \<Rightarrow> u64" where
  "LUint vform B r i =
     (if has_lanes vform then GetLane (LaneSizeInBitsFromFormat vform) i (B r) else 0)"

definition LInt :: "VectorFormat \<Rightarrow> vbank \<Rightarrow> vref \<Rightarrow> nat \<Rightarrow> u64" where
  "LInt vform B r i =
     (if has_lanes vform
      then signed_take_bit (LaneSizeInBitsFromFormat vform - 1) (GetLane (LaneSizeInBitsFromFormat vform) i (B r))
      else 0)"

definition UintLeftJustified :: "VectorFormat \<Rightarrow> vbank \<Rightarrow> vref \<Rightarrow> nat \<Rightarrow> u64" where
  "UintLeftJustified vform B r i = push_bit (64 - LaneSizeInBitsFromFormat vform) (LUint vform B r i)"

definition IntLeftJustified :: "VectorFormat \<Rightarrow> vbank \<Rightarrow> vref \<Rightarrow> nat \<Rightarrow> u64" where
  "IntLeftJustified vform B r i = UintLeftJustified vform B r i"

definition SetUint :: "VectorFormat \<Rightarrow> vref \<Rightarrow> nat \<Rightarrow> u64 \<Rightarrow> vbank \<Rightarrow> vbank" where
  "SetUint vform r i v B =
     (if has_lanes vform then B(r := InsertLane (LaneSizeInBitsFromFormat vform) i v (B r)) else B)"

definition SetInt :: "VectorFormat \<Rightarrow> vref \<Rightarrow> nat \<Rightarrow> u64 \<Rightarrow> vbank \<Rightarrow> vbank" where
  "SetInt vform r i v B =
     (if has_lanes vform then B(r := InsertLane (LaneSizeInBitsFromFormat vform) i v (B r)) else B)"

text \<open>The overload for 128-bit values, most significant half first.\<close>

definition SetUint128 :: "VectorFormat \<Rightarrow> vref \<Rightarrow> nat \<Rightarrow> vixl_uint128 \<Rightarrow> vbank \<Rightarrow> vbank" where
  "SetUint128 vform r i v B =
     (if LaneSizeInBitsFromFormat vform \<le> 64 then SetUint vform r i (snd v) B
      else SetUint kFormatVnD r (2 * i + 1) (fst v) (SetUint kFormatVnD r (2 * i) (snd v) B))"

definition ClearForWrite :: "VectorFormat \<Rightarrow> vref \<Rightarrow> vbank \<Rightarrow> vbank" where
  "ClearForWrite vform r B =
     (if IsSVEFormat vform then B
      else B(r := ClearTail (RegisterSizeInBytesFromFormat vform) (B r)))"

text \<open>\<open>LaneCountFromFormat\<close> of the register: of the whole register for an SVE format.\<close>

definition LaneCount :: "VectorFormat \<Rightarrow> nat" where
  "LaneCount vform =
     (if IsSVEFormat vform then 128 div LaneSizeInBitsFromFormat vform else LaneCountFromFormat vform)"

text \<open>The constructor of a local register clears it.\<close>

definition SimVRegister_init :: "vref \<Rightarrow> vbank \<Rightarrow> vbank" where
  "SimVRegister_init r B = B(r := 0)"

section \<open>Saturation and rounding state\<close>

type_synonym vstate = "LogicVRegister \<times> vbank"

abbreviation kSignedSatPositive :: u32 where "kSignedSatPositive \<equiv> 1"
abbreviation kSignedSatNegative :: u32 where "kSignedSatNegative \<equiv> 2"
abbreviation kSignedSatMask :: u32 where "kSignedSatMask \<equiv> 3"
abbreviation kUnsignedSatPositive :: u32 where "kUnsignedSatPositive \<equiv> 4"
abbreviation kUnsignedSatNegative :: u32 where "kUnsignedSatNegative \<equiv> 8"
abbreviation kUnsignedSatMask :: u32 where "kUnsignedSatMask \<equiv> 12"

definition GetSignedSaturation :: "nat \<Rightarrow> LogicVRegister \<Rightarrow> u32" where
  "GetSignedSaturation i d = lv_saturated d i AND kSignedSatMask"

definition GetUnsignedSaturation :: "nat \<Rightarrow> LogicVRegister \<Rightarrow> u32" where
  "GetUnsignedSaturation i d = lv_saturated d i AND kUnsignedSatMask"

definition SetSatFlag :: "nat \<Rightarrow> u32 \<Rightarrow> LogicVRegister \<Rightarrow> LogicVRegister" where
  "SetSatFlag i sat d = d\<lparr>lv_saturated := (lv_saturated d)(i := lv_saturated d i OR sat)\<rparr>"

definition SetSignedSat :: "nat \<Rightarrow> bool \<Rightarrow> LogicVRegister \<Rightarrow> LogicVRegister" where
  "SetSignedSat i positive d = SetSatFlag i (if positive then kSignedSatPositive else kSignedSatNegative) d"

definition SetUnsignedSat :: "nat \<Rightarrow> bool \<Rightarrow> LogicVRegister \<Rightarrow> LogicVRegister" where
  "SetUnsignedSat i positive d = SetSatFlag i (if positive then kUnsignedSatPositive else kUnsignedSatNegative) d"

definition GetRounding :: "nat \<Rightarrow> LogicVRegister \<Rightarrow> bool" where
  "GetRounding i d = lv_round d i"

definition SetRounding :: "nat \<Rightarrow> bool \<Rightarrow> LogicVRegister \<Rightarrow> LogicVRegister" where
  "SetRounding i b d = d\<lparr>lv_round := (lv_round d)(i := b)\<rparr>"

section \<open>Loops over the lanes\<close>

text \<open>\<open>for (int i = 0; i < n; i++)\<close>\<close>

definition for_lanes :: "nat \<Rightarrow> (nat \<Rightarrow> 's \<Rightarrow> 's) \<Rightarrow> 's \<Rightarrow> 's" where
  "for_lanes n body st = fold body [0..<n] st"

text \<open>A loop that writes an array of results; \<open>SetUintArray\<close> clears the rest first.\<close>

definition write_array :: "VectorFormat \<Rightarrow> vref \<Rightarrow> nat \<Rightarrow> (nat \<Rightarrow> u64) \<Rightarrow> vbank \<Rightarrow> vbank" where
  "write_array vform r n result B = for_lanes n (\<lambda>i. SetUint vform r i (result i)) B"

definition SetUintArray :: "VectorFormat \<Rightarrow> vref \<Rightarrow> (nat \<Rightarrow> u64) \<Rightarrow> vbank \<Rightarrow> vbank" where
  "SetUintArray vform r src B = write_array vform r (LaneCount vform) src (ClearForWrite vform r B)"

definition SetIntArray :: "VectorFormat \<Rightarrow> vref \<Rightarrow> (nat \<Rightarrow> u64) \<Rightarrow> vbank \<Rightarrow> vbank" where
  "SetIntArray vform r src B =
     for_lanes (LaneCount vform) (\<lambda>i. SetInt vform r i (src i)) (ClearForWrite vform r B)"

definition signed_saturate_lane :: "VectorFormat \<Rightarrow> nat \<Rightarrow> vstate \<Rightarrow> vstate" where
  "signed_saturate_lane vform i st =
     (let (d, B) = st; sat = GetSignedSaturation i d in
      if sat = kSignedSatPositive then (d, SetInt vform (lv_register d) i (MaxIntFromFormat vform) B)
      else if sat = kSignedSatNegative then (d, SetInt vform (lv_register d) i (MinIntFromFormat vform) B)
      else (d, B))"

definition SignedSaturate :: "VectorFormat \<Rightarrow> vstate \<Rightarrow> vstate" where
  "SignedSaturate vform st = for_lanes (LaneCount vform) (signed_saturate_lane vform) st"

definition unsigned_saturate_lane :: "VectorFormat \<Rightarrow> nat \<Rightarrow> vstate \<Rightarrow> vstate" where
  "unsigned_saturate_lane vform i st =
     (let (d, B) = st; sat = GetUnsignedSaturation i d in
      if sat = kUnsignedSatPositive then (d, SetUint vform (lv_register d) i (MaxUintFromFormat vform) B)
      else if sat = kUnsignedSatNegative then (d, SetUint vform (lv_register d) i 0 B)
      else (d, B))"

definition UnsignedSaturate :: "VectorFormat \<Rightarrow> vstate \<Rightarrow> vstate" where
  "UnsignedSaturate vform st = for_lanes (LaneCount vform) (unsigned_saturate_lane vform) st"

definition round_lane :: "VectorFormat \<Rightarrow> nat \<Rightarrow> vstate \<Rightarrow> vstate" where
  "round_lane vform i st =
     (let (d, B) = st in
      (d, SetUint vform (lv_register d) i (LUint vform B (lv_register d) i + (if GetRounding i d then 1 else 0)) B))"

definition Round :: "VectorFormat \<Rightarrow> vstate \<Rightarrow> vstate" where
  "Round vform st = for_lanes (LaneCount vform) (round_lane vform) st"

definition uhalve_lane :: "VectorFormat \<Rightarrow> nat \<Rightarrow> vstate \<Rightarrow> vstate" where
  "uhalve_lane vform i st =
     (let (d, B) = st;
          val = LUint vform B (lv_register d) i;
          d' = SetRounding i (val AND 1 = 1) d;
          val = drop_bit 1 val;
          val = (if GetUnsignedSaturation i d' \<noteq> 0
                 then val OR (drop_bit 1 (MaxUintFromFormat vform) + 1) else val)
      in (d', SetInt vform (lv_register d) i val B))"

definition Uhalve :: "VectorFormat \<Rightarrow> vstate \<Rightarrow> vstate" where
  "Uhalve vform st = for_lanes (LaneCount vform) (uhalve_lane vform) st"

definition halve_lane :: "VectorFormat \<Rightarrow> nat \<Rightarrow> vstate \<Rightarrow> vstate" where
  "halve_lane vform i st =
     (let (d, B) = st;
          val = LInt vform B (lv_register d) i;
          d' = SetRounding i (val AND 1 = 1) d;
          val = ExtractSignedBitfield64 63 1 val
      in if GetSignedSaturation i d' = 0 then (d', SetInt vform (lv_register d) i val B)
         else (d', SetUint vform (lv_register d) i (val XOR (drop_bit 1 (MaxUintFromFormat vform) + 1)) B))"

definition Halve :: "VectorFormat \<Rightarrow> vstate \<Rightarrow> vstate" where
  "Halve vform st = for_lanes (LaneCount vform) (halve_lane vform) st"

end
