(* ===== verification/Sim_Logic.thy ===== *)
theory Sim_Logic
  imports Sim_Vector Sim_DataProc
begin

text \<open>
  The integer vector operations of \<open>src/aarch64/logic-aarch64.cc\<close> (member functions of
  \<open>Simulator\<close>), each under its name with the suffix \<open>_v\<close>; the body of a loop over the lanes
  is the definition with suffix \<open>_lane\<close>.  An operation takes the destination with its lane
  state, the source registers and the register bank, and works in place, lane after lane, as
  the code does: a source may be the destination.  A result array of the code is a function
  from the index.
\<close>

section \<open>Addition, subtraction, comparison\<close>

datatype vcond = VC_eq | VC_ge | VC_gt | VC_hi | VC_hs | VC_lt | VC_le

fun cmp_holds :: "vcond \<Rightarrow> u64 \<Rightarrow> u64 \<Rightarrow> u64 \<Rightarrow> u64 \<Rightarrow> bool" where
  "cmp_holds VC_eq sa sb ua ub = (ua = ub)"
| "cmp_holds VC_ge sa sb ua ub = (sint sa \<ge> sint sb)"
| "cmp_holds VC_gt sa sb ua ub = (sint sa > sint sb)"
| "cmp_holds VC_hi sa sb ua ub = (ua > ub)"
| "cmp_holds VC_hs sa sb ua ub = (ua \<ge> ub)"
| "cmp_holds VC_lt sa sb ua ub = (sint sa < sint sb)"
| "cmp_holds VC_le sa sb ua ub = (sint sa \<le> sint sb)"

definition cmp_lane :: "VectorFormat \<Rightarrow> vref \<Rightarrow> vref \<Rightarrow> vcond \<Rightarrow> nat \<Rightarrow> vstate \<Rightarrow> vstate" where
  "cmp_lane vform src1 src2 cond i st =
     (let (d, B) = st;
          sa = LInt vform B src1 i; sb = LInt vform B src2 i;
          ua = LUint vform B src1 i; ub = LUint vform B src2 i
      in (d, SetUint vform (lv_register d) i (if cmp_holds cond sa sb ua ub then MaxUintFromFormat vform else 0) B))"

definition cmp_v :: "VectorFormat \<Rightarrow> LogicVRegister \<Rightarrow> vref \<Rightarrow> vref \<Rightarrow> vcond \<Rightarrow> vbank \<Rightarrow> vstate" where
  "cmp_v vform dst src1 src2 cond B =
     for_lanes (LaneCount vform) (cmp_lane vform src1 src2 cond) (dst, ClearForWrite vform (lv_register dst) B)"

definition cmptst_lane :: "VectorFormat \<Rightarrow> vref \<Rightarrow> vref \<Rightarrow> nat \<Rightarrow> vstate \<Rightarrow> vstate" where
  "cmptst_lane vform src1 src2 i st =
     (let (d, B) = st; ua = LUint vform B src1 i; ub = LUint vform B src2 i
      in (d, SetUint vform (lv_register d) i (if ua AND ub \<noteq> 0 then MaxUintFromFormat vform else 0) B))"

definition cmptst_v :: "VectorFormat \<Rightarrow> LogicVRegister \<Rightarrow> vref \<Rightarrow> vref \<Rightarrow> vbank \<Rightarrow> vstate" where
  "cmptst_v vform dst src1 src2 B =
     for_lanes (LaneCount vform) (cmptst_lane vform src1 src2) (dst, ClearForWrite vform (lv_register dst) B)"

definition add_lane :: "VectorFormat \<Rightarrow> vref \<Rightarrow> vref \<Rightarrow> nat \<Rightarrow> vstate \<Rightarrow> vstate" where
  "add_lane vform src1 src2 i st =
     (let (d, B) = st;
          lane_size = LaneSizeInBitsFromFormat vform;
          ua = UintLeftJustified vform B src1 i;
          ub = UintLeftJustified vform B src2 i;
          ur = ua + ub;
          d = (if ur < ua then SetUnsignedSat i True d else d);
          pos_a = (drop_bit 63 ua = 0);
          pos_b = (drop_bit 63 ub = 0);
          pos_r = (drop_bit 63 ur = 0);
          d = (if pos_a = pos_b \<and> pos_a \<noteq> pos_r then SetSignedSat i pos_a d else d)
      in (d, SetInt vform (lv_register d) i (drop_bit (64 - lane_size) ur) B))"

definition add_v :: "VectorFormat \<Rightarrow> LogicVRegister \<Rightarrow> vref \<Rightarrow> vref \<Rightarrow> vbank \<Rightarrow> vstate" where
  "add_v vform dst src1 src2 B =
     for_lanes (LaneCount vform) (add_lane vform src1 src2) (dst, ClearForWrite vform (lv_register dst) B)"

definition sub_lane :: "VectorFormat \<Rightarrow> vref \<Rightarrow> vref \<Rightarrow> nat \<Rightarrow> vstate \<Rightarrow> vstate" where
  "sub_lane vform src1 src2 i st =
     (let (d, B) = st;
          lane_size = LaneSizeInBitsFromFormat vform;
          ua = UintLeftJustified vform B src1 i;
          ub = UintLeftJustified vform B src2 i;
          ur = ua - ub;
          d = (if ub > ua then SetUnsignedSat i False d else d);
          pos_a = (drop_bit 63 ua = 0);
          pos_b = (drop_bit 63 ub = 0);
          pos_r = (drop_bit 63 ur = 0);
          d = (if pos_a \<noteq> pos_b \<and> pos_a \<noteq> pos_r then SetSignedSat i pos_a d else d)
      in (d, SetInt vform (lv_register d) i (drop_bit (64 - lane_size) ur) B))"

definition sub_v :: "VectorFormat \<Rightarrow> LogicVRegister \<Rightarrow> vref \<Rightarrow> vref \<Rightarrow> vbank \<Rightarrow> vstate" where
  "sub_v vform dst src1 src2 B =
     for_lanes (LaneCount vform) (sub_lane vform src1 src2) (dst, ClearForWrite vform (lv_register dst) B)"

section \<open>Permutations that addition and multiplication use\<close>

definition uzp_result :: "VectorFormat \<Rightarrow> vref \<Rightarrow> vref \<Rightarrow> vbank \<Rightarrow> nat \<Rightarrow> u64" where
  "uzp_result vform src1 src2 B k =
     (let lane_count = LaneCount vform
      in if k < lane_count then LUint vform B src1 k else LUint vform B src2 (k - lane_count))"

definition uzp1_v :: "VectorFormat \<Rightarrow> LogicVRegister \<Rightarrow> vref \<Rightarrow> vref \<Rightarrow> vbank \<Rightarrow> vstate" where
  "uzp1_v vform dst src1 src2 B =
     (let result = uzp_result vform src1 src2 B
      in (dst, SetUintArray vform (lv_register dst) (\<lambda>i. result (2 * i)) B))"

definition uzp2_v :: "VectorFormat \<Rightarrow> LogicVRegister \<Rightarrow> vref \<Rightarrow> vref \<Rightarrow> vbank \<Rightarrow> vstate" where
  "uzp2_v vform dst src1 src2 B =
     (let result = uzp_result vform src1 src2 B
      in (dst, SetUintArray vform (lv_register dst) (\<lambda>i. result (2 * i + 1)) B))"

definition interleave_top_bottom_v :: "VectorFormat \<Rightarrow> LogicVRegister \<Rightarrow> vref \<Rightarrow> vbank \<Rightarrow> vstate" where
  "interleave_top_bottom_v vform dst src B =
     (let lane_count = LaneCount vform;
          result = (\<lambda>k. if even k then LUint vform B src (k div 2)
                        else LUint vform B src (lane_count div 2 + k div 2))
      in (dst, SetUintArray vform (lv_register dst) result B))"

definition addp_v :: "VectorFormat \<Rightarrow> LogicVRegister \<Rightarrow> vref \<Rightarrow> vref \<Rightarrow> vbank \<Rightarrow> vstate" where
  "addp_v vform dst src1 src2 B =
     (let temp1 = Temp 0; temp2 = Temp 1;
          B = SimVRegister_init temp2 (SimVRegister_init temp1 B);
          B = snd (uzp1_v vform (LogicV temp1) src1 src2 B);
          B = snd (uzp2_v vform (LogicV temp2) src1 src2 B);
          B = snd (add_v vform dst temp1 temp2 B);
          B = (if IsSVEFormat vform then snd (interleave_top_bottom_v vform dst (lv_register dst) B) else B)
      in (dst, B))"

definition addp_scalar_v :: "VectorFormat \<Rightarrow> LogicVRegister \<Rightarrow> vref \<Rightarrow> vbank \<Rightarrow> vstate" where
  "addp_scalar_v vform dst src B =
     (let dst_val = LUint kFormat2D B src 0 + LUint kFormat2D B src 1
      in (dst, SetUint vform (lv_register dst) 0 dst_val (ClearForWrite vform (lv_register dst) B)))"

section \<open>Multiplication\<close>

definition mul_lane :: "VectorFormat \<Rightarrow> vref \<Rightarrow> vref \<Rightarrow> nat \<Rightarrow> vstate \<Rightarrow> vstate" where
  "mul_lane vform src1 src2 i st =
     (let (d, B) = st
      in (d, SetUint vform (lv_register d) i (LUint vform B src1 i * LUint vform B src2 i) B))"

definition mul_v :: "VectorFormat \<Rightarrow> LogicVRegister \<Rightarrow> vref \<Rightarrow> vref \<Rightarrow> vbank \<Rightarrow> vstate" where
  "mul_v vform dst src1 src2 B =
     for_lanes (LaneCount vform) (mul_lane vform src1 src2) (dst, ClearForWrite vform (lv_register dst) B)"

definition mla_v :: "VectorFormat \<Rightarrow> LogicVRegister \<Rightarrow> vref \<Rightarrow> vref \<Rightarrow> vref \<Rightarrow> vbank \<Rightarrow> vstate" where
  "mla_v vform dst srca src1 src2 B =
     (let temp = Temp 2;
          B = SimVRegister_init temp B;
          B = snd (mul_v vform (LogicV temp) src1 src2 B)
      in (dst, snd (add_v vform dst srca temp B)))"

definition mls_v :: "VectorFormat \<Rightarrow> LogicVRegister \<Rightarrow> vref \<Rightarrow> vref \<Rightarrow> vref \<Rightarrow> vbank \<Rightarrow> vstate" where
  "mls_v vform dst srca src1 src2 B =
     (let temp = Temp 3;
          B = SimVRegister_init temp B;
          B = snd (mul_v vform (LogicV temp) src1 src2 B)
      in (dst, snd (sub_v vform dst srca temp B)))"

text \<open>
  \<open>internal::MultiplyHigh<N>\<close>; \<open>sgnd\<close> says whether the operands are \<open>int64_t\<close>, whose right
  shift copies the sign.
\<close>

definition mulhi_high :: "nat \<Rightarrow> bool \<Rightarrow> u64 \<Rightarrow> u64 \<Rightarrow> u64" where
  "mulhi_high N sgnd shifted x =
     shifted OR (if x AND push_bit (N - 1) 1 \<noteq> 0 then (if sgnd then push_bit (N div 2) (NOT 0) else 0) else 0)"

definition MultiplyHigh :: "nat \<Rightarrow> bool \<Rightarrow> u64 \<Rightarrow> u64 \<Rightarrow> u64" where
  "MultiplyHigh N sgnd u v =
     (let half_bits = N div 2;
          half_mask = GetUintMask half_bits;
          shr = (\<lambda>x. if sgnd then signed_drop_bit half_bits x else drop_bit half_bits x);
          u0 = u AND half_mask;
          u1 = mulhi_high N sgnd (shr u) u;
          v0 = v AND half_mask;
          v1 = mulhi_high N sgnd (shr v) v;
          w0 = u0 * v0;
          t = u1 * v0 + drop_bit half_bits w0;
          w1 = t AND half_mask;
          w2 = mulhi_high N sgnd (drop_bit half_bits t) t;
          w1 = u0 * v1 + w1;
          w1 = mulhi_high N sgnd (drop_bit half_bits w1) w1
      in u1 * v1 + w2 + w1)"

definition smulh_lane :: "VectorFormat \<Rightarrow> vref \<Rightarrow> vref \<Rightarrow> nat \<Rightarrow> vstate \<Rightarrow> vstate" where
  "smulh_lane vform src1 src2 i st =
     (let (d, B) = st;
          val1 = LInt vform B src1 i;
          val2 = LInt vform B src2 i;
          dst_val = (if has_lanes vform then MultiplyHigh (LaneSizeInBitsFromFormat vform) True val1 val2
                     else 0xbadbeef)
      in (d, SetInt vform (lv_register d) i dst_val B))"

definition smulh_v :: "VectorFormat \<Rightarrow> LogicVRegister \<Rightarrow> vref \<Rightarrow> vref \<Rightarrow> vbank \<Rightarrow> vstate" where
  "smulh_v vform dst src1 src2 B = for_lanes (LaneCount vform) (smulh_lane vform src1 src2) (dst, B)"

definition umulh_lane :: "VectorFormat \<Rightarrow> vref \<Rightarrow> vref \<Rightarrow> nat \<Rightarrow> vstate \<Rightarrow> vstate" where
  "umulh_lane vform src1 src2 i st =
     (let (d, B) = st;
          val1 = LUint vform B src1 i;
          val2 = LUint vform B src2 i;
          dst_val = (if has_lanes vform then MultiplyHigh (LaneSizeInBitsFromFormat vform) False val1 val2
                     else 0xbadbeef)
      in (d, SetUint vform (lv_register d) i dst_val B))"

definition umulh_v :: "VectorFormat \<Rightarrow> LogicVRegister \<Rightarrow> vref \<Rightarrow> vref \<Rightarrow> vbank \<Rightarrow> vstate" where
  "umulh_v vform dst src1 src2 B = for_lanes (LaneCount vform) (umulh_lane vform src1 src2) (dst, B)"

definition PolynomialMult :: "u64 \<Rightarrow> u64 \<Rightarrow> nat \<Rightarrow> u64" where
  "PolynomialMult op1 op2 lane_size_in_bits = snd (PolynomialMult128 op1 op2 lane_size_in_bits)"

definition pmul_lane :: "VectorFormat \<Rightarrow> vref \<Rightarrow> vref \<Rightarrow> nat \<Rightarrow> vstate \<Rightarrow> vstate" where
  "pmul_lane vform src1 src2 i st =
     (let (d, B) = st
      in (d, SetUint vform (lv_register d) i
               (PolynomialMult (LUint vform B src1 i) (LUint vform B src2 i) (LaneSizeInBitsFromFormat vform)) B))"

definition pmul_v :: "VectorFormat \<Rightarrow> LogicVRegister \<Rightarrow> vref \<Rightarrow> vref \<Rightarrow> vbank \<Rightarrow> vstate" where
  "pmul_v vform dst src1 src2 B =
     for_lanes (LaneCount vform) (pmul_lane vform src1 src2) (dst, ClearForWrite vform (lv_register dst) B)"

text \<open>The long products run through the lanes from the last one down, and up for the second half.\<close>

definition pmull_lane ::
  "VectorFormat \<Rightarrow> VectorFormat \<Rightarrow> vref \<Rightarrow> vref \<Rightarrow> nat \<Rightarrow> nat \<Rightarrow> vstate \<Rightarrow> vstate" where
  "pmull_lane vform vform_src src1 src2 offset i st =
     (let (d, B) = st
      in (d, SetUint128 vform (lv_register d) i
               (PolynomialMult128 (LUint vform_src B src1 (offset + i)) (LUint vform_src B src2 (offset + i))
                 (LaneSizeInBitsFromFormat vform_src)) B))"

definition pmull_v :: "VectorFormat \<Rightarrow> LogicVRegister \<Rightarrow> vref \<Rightarrow> vref \<Rightarrow> vbank \<Rightarrow> vstate" where
  "pmull_v vform dst src1 src2 B =
     fold (pmull_lane vform (VectorFormatHalfWidth vform) src1 src2 0) (rev [0..<LaneCount vform])
       (dst, ClearForWrite vform (lv_register dst) B)"

definition pmull2_v :: "VectorFormat \<Rightarrow> LogicVRegister \<Rightarrow> vref \<Rightarrow> vref \<Rightarrow> vbank \<Rightarrow> vstate" where
  "pmull2_v vform dst src1 src2 B =
     (let lane_count = LaneCount vform
      in for_lanes lane_count (pmull_lane vform (VectorFormatHalfWidthDoubleLanes vform) src1 src2 lane_count)
           (dst, ClearForWrite vform (lv_register dst) B))"

section \<open>Bitwise operations\<close>

definition and_lane :: "VectorFormat \<Rightarrow> vref \<Rightarrow> vref \<Rightarrow> nat \<Rightarrow> vstate \<Rightarrow> vstate" where
  "and_lane vform src1 src2 i st =
     (let (d, B) = st
      in (d, SetUint vform (lv_register d) i (LUint vform B src1 i AND LUint vform B src2 i) B))"

definition and_v :: "VectorFormat \<Rightarrow> LogicVRegister \<Rightarrow> vref \<Rightarrow> vref \<Rightarrow> vbank \<Rightarrow> vstate" where
  "and_v vform dst src1 src2 B =
     for_lanes (LaneCount vform) (and_lane vform src1 src2) (dst, ClearForWrite vform (lv_register dst) B)"

definition orr_lane :: "VectorFormat \<Rightarrow> vref \<Rightarrow> vref \<Rightarrow> nat \<Rightarrow> vstate \<Rightarrow> vstate" where
  "orr_lane vform src1 src2 i st =
     (let (d, B) = st
      in (d, SetUint vform (lv_register d) i (LUint vform B src1 i OR LUint vform B src2 i) B))"

definition orr_v :: "VectorFormat \<Rightarrow> LogicVRegister \<Rightarrow> vref \<Rightarrow> vref \<Rightarrow> vbank \<Rightarrow> vstate" where
  "orr_v vform dst src1 src2 B =
     for_lanes (LaneCount vform) (orr_lane vform src1 src2) (dst, ClearForWrite vform (lv_register dst) B)"

definition orn_lane :: "VectorFormat \<Rightarrow> vref \<Rightarrow> vref \<Rightarrow> nat \<Rightarrow> vstate \<Rightarrow> vstate" where
  "orn_lane vform src1 src2 i st =
     (let (d, B) = st
      in (d, SetUint vform (lv_register d) i (LUint vform B src1 i OR NOT (LUint vform B src2 i)) B))"

definition orn_v :: "VectorFormat \<Rightarrow> LogicVRegister \<Rightarrow> vref \<Rightarrow> vref \<Rightarrow> vbank \<Rightarrow> vstate" where
  "orn_v vform dst src1 src2 B =
     for_lanes (LaneCount vform) (orn_lane vform src1 src2) (dst, ClearForWrite vform (lv_register dst) B)"

definition eor_lane :: "VectorFormat \<Rightarrow> vref \<Rightarrow> vref \<Rightarrow> nat \<Rightarrow> vstate \<Rightarrow> vstate" where
  "eor_lane vform src1 src2 i st =
     (let (d, B) = st
      in (d, SetUint vform (lv_register d) i (LUint vform B src1 i XOR LUint vform B src2 i) B))"

definition eor_v :: "VectorFormat \<Rightarrow> LogicVRegister \<Rightarrow> vref \<Rightarrow> vref \<Rightarrow> vbank \<Rightarrow> vstate" where
  "eor_v vform dst src1 src2 B =
     for_lanes (LaneCount vform) (eor_lane vform src1 src2) (dst, ClearForWrite vform (lv_register dst) B)"

definition bic_lane :: "VectorFormat \<Rightarrow> vref \<Rightarrow> vref \<Rightarrow> nat \<Rightarrow> vstate \<Rightarrow> vstate" where
  "bic_lane vform src1 src2 i st =
     (let (d, B) = st
      in (d, SetUint vform (lv_register d) i (LUint vform B src1 i AND NOT (LUint vform B src2 i)) B))"

definition bic_v :: "VectorFormat \<Rightarrow> LogicVRegister \<Rightarrow> vref \<Rightarrow> vref \<Rightarrow> vbank \<Rightarrow> vstate" where
  "bic_v vform dst src1 src2 B =
     for_lanes (LaneCount vform) (bic_lane vform src1 src2) (dst, ClearForWrite vform (lv_register dst) B)"

text \<open>The selections by a mask, \<open>operand1 ^ ((operand1 ^ operand3) & operand2)\<close>.\<close>

definition bif_lane :: "VectorFormat \<Rightarrow> vref \<Rightarrow> vref \<Rightarrow> nat \<Rightarrow> vstate \<Rightarrow> vstate" where
  "bif_lane vform src1 src2 i st =
     (let (d, B) = st;
          operand1 = LUint vform B (lv_register d) i;
          operand2 = NOT (LUint vform B src2 i);
          operand3 = LUint vform B src1 i
      in (d, SetUint vform (lv_register d) i (operand1 XOR ((operand1 XOR operand3) AND operand2)) B))"

definition bif_v :: "VectorFormat \<Rightarrow> LogicVRegister \<Rightarrow> vref \<Rightarrow> vref \<Rightarrow> vbank \<Rightarrow> vstate" where
  "bif_v vform dst src1 src2 B =
     for_lanes (LaneCount vform) (bif_lane vform src1 src2) (dst, ClearForWrite vform (lv_register dst) B)"

definition bit_lane :: "VectorFormat \<Rightarrow> vref \<Rightarrow> vref \<Rightarrow> nat \<Rightarrow> vstate \<Rightarrow> vstate" where
  "bit_lane vform src1 src2 i st =
     (let (d, B) = st;
          operand1 = LUint vform B (lv_register d) i;
          operand2 = LUint vform B src2 i;
          operand3 = LUint vform B src1 i
      in (d, SetUint vform (lv_register d) i (operand1 XOR ((operand1 XOR operand3) AND operand2)) B))"

definition bit_v :: "VectorFormat \<Rightarrow> LogicVRegister \<Rightarrow> vref \<Rightarrow> vref \<Rightarrow> vbank \<Rightarrow> vstate" where
  "bit_v vform dst src1 src2 B =
     for_lanes (LaneCount vform) (bit_lane vform src1 src2) (dst, ClearForWrite vform (lv_register dst) B)"

definition bsl_lane :: "VectorFormat \<Rightarrow> vref \<Rightarrow> vref \<Rightarrow> vref \<Rightarrow> nat \<Rightarrow> vstate \<Rightarrow> vstate" where
  "bsl_lane vform src_mask src1 src2 i st =
     (let (d, B) = st;
          operand1 = LUint vform B src2 i;
          operand2 = LUint vform B src_mask i;
          operand3 = LUint vform B src1 i
      in (d, SetUint vform (lv_register d) i (operand1 XOR ((operand1 XOR operand3) AND operand2)) B))"

definition bsl_v :: "VectorFormat \<Rightarrow> LogicVRegister \<Rightarrow> vref \<Rightarrow> vref \<Rightarrow> vref \<Rightarrow> vbank \<Rightarrow> vstate" where
  "bsl_v vform dst src_mask src1 src2 B =
     for_lanes (LaneCount vform) (bsl_lane vform src_mask src1 src2) (dst, ClearForWrite vform (lv_register dst) B)"

definition not_lane :: "VectorFormat \<Rightarrow> vref \<Rightarrow> nat \<Rightarrow> vstate \<Rightarrow> vstate" where
  "not_lane vform src i st =
     (let (d, B) = st in (d, SetUint vform (lv_register d) i (NOT (LUint vform B src i)) B))"

definition not_v :: "VectorFormat \<Rightarrow> LogicVRegister \<Rightarrow> vref \<Rightarrow> vbank \<Rightarrow> vstate" where
  "not_v vform dst src B =
     for_lanes (LaneCount vform) (not_lane vform src) (dst, ClearForWrite vform (lv_register dst) B)"

definition bic_imm_v :: "VectorFormat \<Rightarrow> LogicVRegister \<Rightarrow> vref \<Rightarrow> u64 \<Rightarrow> vbank \<Rightarrow> vstate" where
  "bic_imm_v vform dst src imm B =
     (let result = (\<lambda>i. LUint vform B src i AND NOT imm)
      in (dst, SetUintArray vform (lv_register dst) result B))"

definition orr_imm_v :: "VectorFormat \<Rightarrow> LogicVRegister \<Rightarrow> vref \<Rightarrow> u64 \<Rightarrow> vbank \<Rightarrow> vstate" where
  "orr_imm_v vform dst src imm B =
     (let result = (\<lambda>i. LUint vform B src i OR imm)
      in (dst, SetUintArray vform (lv_register dst) result B))"

definition movi_v :: "VectorFormat \<Rightarrow> LogicVRegister \<Rightarrow> u64 \<Rightarrow> vbank \<Rightarrow> vstate" where
  "movi_v vform dst imm B = (dst, SetUintArray vform (lv_register dst) (\<lambda>i. imm) B)"

definition mvni_v :: "VectorFormat \<Rightarrow> LogicVRegister \<Rightarrow> u64 \<Rightarrow> vbank \<Rightarrow> vstate" where
  "mvni_v vform dst imm B = (dst, SetUintArray vform (lv_register dst) (\<lambda>i. NOT imm) B)"

definition ror_lane :: "VectorFormat \<Rightarrow> vref \<Rightarrow> u32 \<Rightarrow> nat \<Rightarrow> vstate \<Rightarrow> vstate" where
  "ror_lane vform src rotation i st =
     (let (d, B) = st
      in (d, SetUint vform (lv_register d) i
               (RotateRight (LUint vform B src i) rotation (LaneSizeInBitsFromFormat vform)) B))"

definition ror_v :: "VectorFormat \<Rightarrow> LogicVRegister \<Rightarrow> vref \<Rightarrow> u32 \<Rightarrow> vbank \<Rightarrow> vstate" where
  "ror_v vform dst src rotation B =
     for_lanes (LaneCount vform) (ror_lane vform src rotation) (dst, ClearForWrite vform (lv_register dst) B)"

section \<open>Minimum and maximum\<close>

definition sminmax_lane :: "VectorFormat \<Rightarrow> vref \<Rightarrow> vref \<Rightarrow> bool \<Rightarrow> nat \<Rightarrow> vstate \<Rightarrow> vstate" where
  "sminmax_lane vform src1 src2 mx i st =
     (let (d, B) = st;
          src1_val = LInt vform B src1 i;
          src2_val = LInt vform B src2 i;
          dst_val = (if mx then if sint src1_val > sint src2_val then src1_val else src2_val
                     else if sint src1_val < sint src2_val then src1_val else src2_val)
      in (d, SetInt vform (lv_register d) i dst_val B))"

definition sminmax_v :: "VectorFormat \<Rightarrow> LogicVRegister \<Rightarrow> vref \<Rightarrow> vref \<Rightarrow> bool \<Rightarrow> vbank \<Rightarrow> vstate" where
  "sminmax_v vform dst src1 src2 mx B =
     for_lanes (LaneCount vform) (sminmax_lane vform src1 src2 mx) (dst, ClearForWrite vform (lv_register dst) B)"

definition uminmax_lane :: "VectorFormat \<Rightarrow> vref \<Rightarrow> vref \<Rightarrow> bool \<Rightarrow> nat \<Rightarrow> vstate \<Rightarrow> vstate" where
  "uminmax_lane vform src1 src2 mx i st =
     (let (d, B) = st;
          src1_val = LUint vform B src1 i;
          src2_val = LUint vform B src2 i;
          dst_val = (if mx then if src1_val > src2_val then src1_val else src2_val
                     else if src1_val < src2_val then src1_val else src2_val)
      in (d, SetUint vform (lv_register d) i dst_val B))"

definition uminmax_v :: "VectorFormat \<Rightarrow> LogicVRegister \<Rightarrow> vref \<Rightarrow> vref \<Rightarrow> bool \<Rightarrow> vbank \<Rightarrow> vstate" where
  "uminmax_v vform dst src1 src2 mx B =
     for_lanes (LaneCount vform) (uminmax_lane vform src1 src2 mx) (dst, ClearForWrite vform (lv_register dst) B)"

definition smax_v :: "VectorFormat \<Rightarrow> LogicVRegister \<Rightarrow> vref \<Rightarrow> vref \<Rightarrow> vbank \<Rightarrow> vstate" where
  "smax_v vform dst src1 src2 B = sminmax_v vform dst src1 src2 True B"

definition smin_v :: "VectorFormat \<Rightarrow> LogicVRegister \<Rightarrow> vref \<Rightarrow> vref \<Rightarrow> vbank \<Rightarrow> vstate" where
  "smin_v vform dst src1 src2 B = sminmax_v vform dst src1 src2 False B"

definition umax_v :: "VectorFormat \<Rightarrow> LogicVRegister \<Rightarrow> vref \<Rightarrow> vref \<Rightarrow> vbank \<Rightarrow> vstate" where
  "umax_v vform dst src1 src2 B = uminmax_v vform dst src1 src2 True B"

definition umin_v :: "VectorFormat \<Rightarrow> LogicVRegister \<Rightarrow> vref \<Rightarrow> vref \<Rightarrow> vbank \<Rightarrow> vstate" where
  "umin_v vform dst src1 src2 B = uminmax_v vform dst src1 src2 False B"

text \<open>
  The pairwise versions collect all results before they write: entry \<open>k\<close> of the array comes
  from the lanes \<open>2 k\<close> and \<open>2 k + 1\<close> of the two sources in a row.
\<close>

definition sminmaxp_v :: "VectorFormat \<Rightarrow> LogicVRegister \<Rightarrow> vref \<Rightarrow> vref \<Rightarrow> bool \<Rightarrow> vbank \<Rightarrow> vstate" where
  "sminmaxp_v vform dst src1 src2 mx B =
     (let lanes = LaneCount vform;
          pick = (\<lambda>src i. let first_val = LInt vform B src i; second_val = LInt vform B src (i + 1)
                  in if mx then if sint first_val > sint second_val then first_val else second_val
                     else if sint first_val < sint second_val then first_val else second_val);
          result = (\<lambda>k. if k < lanes div 2 then pick src1 (2 * k) else pick src2 (2 * (k - lanes div 2)));
          B = SetIntArray vform (lv_register dst) result B;
          B = (if IsSVEFormat vform then snd (interleave_top_bottom_v vform dst (lv_register dst) B) else B)
      in (dst, B))"

definition uminmaxp_v :: "VectorFormat \<Rightarrow> LogicVRegister \<Rightarrow> vref \<Rightarrow> vref \<Rightarrow> bool \<Rightarrow> vbank \<Rightarrow> vstate" where
  "uminmaxp_v vform dst src1 src2 mx B =
     (let lanes = LaneCount vform;
          pick = (\<lambda>src i. let first_val = LUint vform B src i; second_val = LUint vform B src (i + 1)
                  in if mx then if first_val > second_val then first_val else second_val
                     else if first_val < second_val then first_val else second_val);
          result = (\<lambda>k. if k < lanes div 2 then pick src1 (2 * k) else pick src2 (2 * (k - lanes div 2)));
          B = SetUintArray vform (lv_register dst) result B;
          B = (if IsSVEFormat vform then snd (interleave_top_bottom_v vform dst (lv_register dst) B) else B)
      in (dst, B))"

definition smaxp_v :: "VectorFormat \<Rightarrow> LogicVRegister \<Rightarrow> vref \<Rightarrow> vref \<Rightarrow> vbank \<Rightarrow> vstate" where
  "smaxp_v vform dst src1 src2 B = sminmaxp_v vform dst src1 src2 True B"

definition sminp_v :: "VectorFormat \<Rightarrow> LogicVRegister \<Rightarrow> vref \<Rightarrow> vref \<Rightarrow> vbank \<Rightarrow> vstate" where
  "sminp_v vform dst src1 src2 B = sminmaxp_v vform dst src1 src2 False B"

definition umaxp_v :: "VectorFormat \<Rightarrow> LogicVRegister \<Rightarrow> vref \<Rightarrow> vref \<Rightarrow> vbank \<Rightarrow> vstate" where
  "umaxp_v vform dst src1 src2 B = uminmaxp_v vform dst src1 src2 True B"

definition uminp_v :: "VectorFormat \<Rightarrow> LogicVRegister \<Rightarrow> vref \<Rightarrow> vref \<Rightarrow> vbank \<Rightarrow> vstate" where
  "uminp_v vform dst src1 src2 B = uminmaxp_v vform dst src1 src2 False B"

section \<open>Reductions across the lanes\<close>

definition sum_lanes :: "(nat \<Rightarrow> u64) \<Rightarrow> nat \<Rightarrow> u64" where
  "sum_lanes f n = for_lanes n (\<lambda>i dst_val. dst_val + f i) 0"

definition addv_v :: "VectorFormat \<Rightarrow> LogicVRegister \<Rightarrow> vref \<Rightarrow> vbank \<Rightarrow> vstate" where
  "addv_v vform dst src B =
     (let vform_dst = ScalarFormatFromLaneSize (LaneSizeInBitsFromFormat vform);
          dst_val = sum_lanes (LInt vform B src) (LaneCount vform)
      in (dst, SetInt vform_dst (lv_register dst) 0 dst_val (ClearForWrite vform_dst (lv_register dst) B)))"

definition saddlv_v :: "VectorFormat \<Rightarrow> LogicVRegister \<Rightarrow> vref \<Rightarrow> vbank \<Rightarrow> vstate" where
  "saddlv_v vform dst src B =
     (let vform_dst = ScalarFormatFromLaneSize (LaneSizeInBitsFromFormat vform * 2);
          dst_val = sum_lanes (LInt vform B src) (LaneCount vform)
      in (dst, SetInt vform_dst (lv_register dst) 0 dst_val (ClearForWrite vform_dst (lv_register dst) B)))"

definition uaddlv_v :: "VectorFormat \<Rightarrow> LogicVRegister \<Rightarrow> vref \<Rightarrow> vbank \<Rightarrow> vstate" where
  "uaddlv_v vform dst src B =
     (let vform_dst = ScalarFormatFromLaneSize (LaneSizeInBitsFromFormat vform * 2);
          dst_val = sum_lanes (LUint vform B src) (LaneCount vform)
      in (dst, SetUint vform_dst (lv_register dst) 0 dst_val (ClearForWrite vform_dst (lv_register dst) B)))"

text \<open>With the governing predicate all true (\<open>GetPTrue\<close>), as the NEON instructions pass it.\<close>

definition sminmaxv_v :: "VectorFormat \<Rightarrow> LogicVRegister \<Rightarrow> vref \<Rightarrow> bool \<Rightarrow> vbank \<Rightarrow> vstate" where
  "sminmaxv_v vform dst src mx B =
     (let dst_val = for_lanes (LaneCount vform)
            (\<lambda>i dst_val. let src_val = LInt vform B src i in
               if mx then if sint src_val > sint dst_val then src_val else dst_val
               else if sint src_val < sint dst_val then src_val else dst_val)
            (if mx then push_bit 63 1 else mask 63)
      in (dst, SetInt vform (lv_register dst) 0 dst_val
                 (ClearForWrite (ScalarFormatFromFormat vform) (lv_register dst) B)))"

definition uminmaxv_v :: "VectorFormat \<Rightarrow> LogicVRegister \<Rightarrow> vref \<Rightarrow> bool \<Rightarrow> vbank \<Rightarrow> vstate" where
  "uminmaxv_v vform dst src mx B =
     (let dst_val = for_lanes (LaneCount vform)
            (\<lambda>i dst_val. let src_val = LUint vform B src i in
               if mx then if src_val > dst_val then src_val else dst_val
               else if src_val < dst_val then src_val else dst_val)
            (if mx then 0 else NOT 0)
      in (dst, SetUint vform (lv_register dst) 0 dst_val
                 (ClearForWrite (ScalarFormatFromFormat vform) (lv_register dst) B)))"

end
