(* ===== verification/Sim_Shift.thy ===== *)
theory Sim_Shift
  imports Sim_Logic
begin

text \<open>
  The vector shifts, the widening and narrowing operations and the saturating products of
  \<open>src/aarch64/logic-aarch64.cc\<close>, as in \<open>Sim_Logic\<close>.  A call on a temporary whose lane
  state the caller uses (\<open>.Round\<close>, \<open>.SignedSaturate\<close>) is written as the composition.
\<close>

section \<open>Duplication of an element or an immediate\<close>

definition dup_immediate_v :: "VectorFormat \<Rightarrow> LogicVRegister \<Rightarrow> u64 \<Rightarrow> vbank \<Rightarrow> vstate" where
  "dup_immediate_v vform dst imm B =
     (let value = imm AND MaxUintFromFormat vform
      in (dst, SetUintArray vform (lv_register dst) (\<lambda>i. value) B))"

definition dup_element_v :: "VectorFormat \<Rightarrow> LogicVRegister \<Rightarrow> vref \<Rightarrow> nat \<Rightarrow> vbank \<Rightarrow> vstate" where
  "dup_element_v vform dst src src_index B =
     (if vform = kFormatVnQ \<or> vform = kFormatVnO
      then let count = (if vform = kFormatVnQ then 2 else 4);
               d = (\<lambda>i. LUint kFormatVnD B src (src_index * count + i))
           in (dst, write_array kFormatVnD (lv_register dst) (LaneCount vform * count) (\<lambda>i. d (i mod count))
                      (SimVRegister_init (lv_register dst) B))
      else let value = LUint vform B src src_index
           in (dst, SetUintArray vform (lv_register dst) (\<lambda>i. value) B))"

definition dup_elements_to_segments_v :: "VectorFormat \<Rightarrow> LogicVRegister \<Rightarrow> vref \<Rightarrow> nat \<Rightarrow> vbank \<Rightarrow> vstate" where
  "dup_elements_to_segments_v vform dst src src_index B =
     (let segment_size = min 128 (RegisterSizeInBitsFromFormat vform);
          lanes_per_segment = segment_size div LaneSizeInBitsFromFormat vform;
          B = ClearForWrite vform (lv_register dst) B
      in (dst, for_lanes (LaneCount vform div lanes_per_segment)
                 (\<lambda>s B. let j = s * lanes_per_segment; value = LUint vform B src (j + src_index)
                   in for_lanes lanes_per_segment (\<lambda>i. SetUint vform (lv_register dst) (j + i) value) B) B))"

section \<open>Shifts by a register\<close>

definition CalculateSignedShiftDistance :: "u64 \<Rightarrow> int \<Rightarrow> bool \<Rightarrow> int" where
  "CalculateSignedShiftDistance shift_val esize shift_in_ls_byte =
     (if shift_in_ls_byte then sint (ExtractSignedBitfield64 7 0 shift_val)
      else let v = sint shift_val;
               v = (if v > esize + 1 then esize + 1 else v)
           in if v < - (esize + 1) then - (esize + 1) else v)"

definition sshl_lane :: "VectorFormat \<Rightarrow> vref \<Rightarrow> vref \<Rightarrow> bool \<Rightarrow> nat \<Rightarrow> vstate \<Rightarrow> vstate" where
  "sshl_lane vform src1 src2 shift_in_ls_byte i st =
     (let (d, B) = st;
          esize = LaneSizeInBitsFromFormat vform;
          shift_val = CalculateSignedShiftDistance (LInt vform B src2 i) (int esize) shift_in_ls_byte;
          lj_src_val = IntLeftJustified vform B src1 i;
          d = (if shift_val > CountLeadingSignBitsFallBack lj_src_val 64 \<and> lj_src_val \<noteq> 0
               then SetSignedSat i (sint lj_src_val \<ge> 0) d else d);
          d = (if sint lj_src_val < 0 then SetUnsignedSat i False d
               else if shift_val > int (CountLeadingZerosFallBack lj_src_val 64) \<and> lj_src_val \<noteq> 0
               then SetUnsignedSat i True d else d);
          src_val = LInt vform B src1 i;
          src_is_negative = (sint src_val < 0)
      in if shift_val > 63 then (d, SetInt vform (lv_register d) i 0 B)
         else if shift_val < - 63
         then (SetRounding i src_is_negative d,
               SetInt vform (lv_register d) i (if src_is_negative then - 1 else 0) B)
         else if shift_val < 0
         then let k = nat (- shift_val);
                  d = (if drop_bit (k - 1) src_val AND 1 = 1 then SetRounding i True d else d);
                  usrc_val = drop_bit k src_val;
                  usrc_val = (if src_is_negative then usrc_val OR push_bit (64 - k) (NOT 0) else usrc_val)
              in (d, SetUint vform (lv_register d) i usrc_val B)
         else (d, SetUint vform (lv_register d) i (push_bit (nat shift_val) src_val) B))"

definition sshl_v :: "VectorFormat \<Rightarrow> LogicVRegister \<Rightarrow> vref \<Rightarrow> vref \<Rightarrow> bool \<Rightarrow> vbank \<Rightarrow> vstate" where
  "sshl_v vform dst src1 src2 shift_in_ls_byte B =
     for_lanes (LaneCount vform) (sshl_lane vform src1 src2 shift_in_ls_byte)
       (dst, ClearForWrite vform (lv_register dst) B)"

definition ushl_lane :: "VectorFormat \<Rightarrow> vref \<Rightarrow> vref \<Rightarrow> bool \<Rightarrow> nat \<Rightarrow> vstate \<Rightarrow> vstate" where
  "ushl_lane vform src1 src2 shift_in_ls_byte i st =
     (let (d, B) = st;
          esize = LaneSizeInBitsFromFormat vform;
          shift_val = CalculateSignedShiftDistance (LInt vform B src2 i) (int esize) shift_in_ls_byte;
          lj_src_val = UintLeftJustified vform B src1 i;
          d = (if shift_val > int (CountLeadingZerosFallBack lj_src_val 64) \<and> lj_src_val \<noteq> 0
               then SetUnsignedSat i True d else d);
          src_val = LUint vform B src1 i
      in if shift_val > 63 \<or> shift_val < - 64 then (d, SetUint vform (lv_register d) i 0 B)
         else if shift_val < 0
         then let k = nat (- shift_val);
                  d = (if drop_bit (k - 1) src_val AND 1 = 1 then SetRounding i True d else d)
              in (d, SetUint vform (lv_register d) i (if shift_val = - 64 then 0 else drop_bit k src_val) B)
         else (d, SetUint vform (lv_register d) i (push_bit (nat shift_val) src_val) B))"

definition ushl_v :: "VectorFormat \<Rightarrow> LogicVRegister \<Rightarrow> vref \<Rightarrow> vref \<Rightarrow> bool \<Rightarrow> vbank \<Rightarrow> vstate" where
  "ushl_v vform dst src1 src2 shift_in_ls_byte B =
     for_lanes (LaneCount vform) (ushl_lane vform src1 src2 shift_in_ls_byte)
       (dst, ClearForWrite vform (lv_register dst) B)"

section \<open>Widening moves\<close>

definition uxtl_v :: "VectorFormat \<Rightarrow> LogicVRegister \<Rightarrow> vref \<Rightarrow> bool \<Rightarrow> vbank \<Rightarrow> vstate" where
  "uxtl_v vform dst src is_2 B =
     (let vform_half = VectorFormatHalfWidth vform;
          lane_count = LaneCount vform;
          src_offset = (if is_2 then lane_count else 0)
      in (dst, for_lanes lane_count
                 (\<lambda>i B. SetUint vform (lv_register dst) i (LUint vform_half B src (src_offset + i)) B)
                 (ClearForWrite vform (lv_register dst) B)))"

definition sxtl_v :: "VectorFormat \<Rightarrow> LogicVRegister \<Rightarrow> vref \<Rightarrow> bool \<Rightarrow> vbank \<Rightarrow> vstate" where
  "sxtl_v vform dst src is_2 B =
     (let vform_half = VectorFormatHalfWidth vform;
          lane_count = LaneCount vform;
          src_offset = (if is_2 then lane_count else 0)
      in (dst, for_lanes lane_count
                 (\<lambda>i B. SetInt vform (lv_register dst) i (LInt vform_half B src (src_offset + i)) B)
                 (ClearForWrite vform (lv_register dst) B)))"

definition uxtl2_v :: "VectorFormat \<Rightarrow> LogicVRegister \<Rightarrow> vref \<Rightarrow> vbank \<Rightarrow> vstate" where
  "uxtl2_v vform dst src B = uxtl_v vform dst src True B"

definition sxtl2_v :: "VectorFormat \<Rightarrow> LogicVRegister \<Rightarrow> vref \<Rightarrow> vbank \<Rightarrow> vstate" where
  "sxtl2_v vform dst src B = sxtl_v vform dst src True B"

section \<open>Shifts by an immediate\<close>

definition shl_v :: "VectorFormat \<Rightarrow> LogicVRegister \<Rightarrow> vref \<Rightarrow> nat \<Rightarrow> vbank \<Rightarrow> vstate" where
  "shl_v vform dst src shift B =
     (let temp = Temp 4;
          B = snd (dup_immediate_v vform (LogicV temp) (of_nat shift) (SimVRegister_init temp B))
      in ushl_v vform dst src temp True B)"

definition sshll_v :: "VectorFormat \<Rightarrow> LogicVRegister \<Rightarrow> vref \<Rightarrow> nat \<Rightarrow> vbank \<Rightarrow> vstate" where
  "sshll_v vform dst src shift B =
     (let temp1 = Temp 5; temp2 = Temp 6;
          B = SimVRegister_init temp2 (SimVRegister_init temp1 B);
          B = snd (dup_immediate_v vform (LogicV temp1) (of_nat shift) B);
          B = snd (sxtl_v vform (LogicV temp2) src False B)
      in sshl_v vform dst temp2 temp1 True B)"

definition sshll2_v :: "VectorFormat \<Rightarrow> LogicVRegister \<Rightarrow> vref \<Rightarrow> nat \<Rightarrow> vbank \<Rightarrow> vstate" where
  "sshll2_v vform dst src shift B =
     (let temp1 = Temp 7; temp2 = Temp 8;
          B = SimVRegister_init temp2 (SimVRegister_init temp1 B);
          B = snd (dup_immediate_v vform (LogicV temp1) (of_nat shift) B);
          B = snd (sxtl2_v vform (LogicV temp2) src B)
      in sshl_v vform dst temp2 temp1 True B)"

definition shll_v :: "VectorFormat \<Rightarrow> LogicVRegister \<Rightarrow> vref \<Rightarrow> vbank \<Rightarrow> vstate" where
  "shll_v vform dst src B = sshll_v vform dst src (LaneSizeInBitsFromFormat vform div 2) B"

definition shll2_v :: "VectorFormat \<Rightarrow> LogicVRegister \<Rightarrow> vref \<Rightarrow> vbank \<Rightarrow> vstate" where
  "shll2_v vform dst src B = sshll2_v vform dst src (LaneSizeInBitsFromFormat vform div 2) B"

definition ushll_v :: "VectorFormat \<Rightarrow> LogicVRegister \<Rightarrow> vref \<Rightarrow> nat \<Rightarrow> vbank \<Rightarrow> vstate" where
  "ushll_v vform dst src shift B =
     (let temp1 = Temp 9; temp2 = Temp 10;
          B = SimVRegister_init temp2 (SimVRegister_init temp1 B);
          B = snd (dup_immediate_v vform (LogicV temp1) (of_nat shift) B);
          B = snd (uxtl_v vform (LogicV temp2) src False B)
      in ushl_v vform dst temp2 temp1 True B)"

definition ushll2_v :: "VectorFormat \<Rightarrow> LogicVRegister \<Rightarrow> vref \<Rightarrow> nat \<Rightarrow> vbank \<Rightarrow> vstate" where
  "ushll2_v vform dst src shift B =
     (let temp1 = Temp 11; temp2 = Temp 12;
          B = SimVRegister_init temp2 (SimVRegister_init temp1 B);
          B = snd (dup_immediate_v vform (LogicV temp1) (of_nat shift) B);
          B = snd (uxtl2_v vform (LogicV temp2) src B)
      in ushl_v vform dst temp2 temp1 True B)"

definition sqshl_v :: "VectorFormat \<Rightarrow> LogicVRegister \<Rightarrow> vref \<Rightarrow> nat \<Rightarrow> vbank \<Rightarrow> vstate" where
  "sqshl_v vform dst src shift B =
     (let temp = Temp 13;
          B = snd (dup_immediate_v vform (LogicV temp) (of_nat shift) (SimVRegister_init temp B))
      in SignedSaturate vform (sshl_v vform dst src temp True B))"

definition uqshl_v :: "VectorFormat \<Rightarrow> LogicVRegister \<Rightarrow> vref \<Rightarrow> nat \<Rightarrow> vbank \<Rightarrow> vstate" where
  "uqshl_v vform dst src shift B =
     (let temp = Temp 14;
          B = snd (dup_immediate_v vform (LogicV temp) (of_nat shift) (SimVRegister_init temp B))
      in UnsignedSaturate vform (ushl_v vform dst src temp True B))"

definition sqshlu_v :: "VectorFormat \<Rightarrow> LogicVRegister \<Rightarrow> vref \<Rightarrow> nat \<Rightarrow> vbank \<Rightarrow> vstate" where
  "sqshlu_v vform dst src shift B =
     (let temp = Temp 15;
          B = snd (dup_immediate_v vform (LogicV temp) (of_nat shift) (SimVRegister_init temp B))
      in UnsignedSaturate vform (sshl_v vform dst src temp True B))"

definition ushr_v :: "VectorFormat \<Rightarrow> LogicVRegister \<Rightarrow> vref \<Rightarrow> nat \<Rightarrow> vbank \<Rightarrow> vstate" where
  "ushr_v vform dst src shift B =
     (let temp = Temp 16;
          B = snd (dup_immediate_v vform (LogicV temp) (- of_nat shift) (SimVRegister_init temp B))
      in ushl_v vform dst src temp True B)"

definition sshr_v :: "VectorFormat \<Rightarrow> LogicVRegister \<Rightarrow> vref \<Rightarrow> nat \<Rightarrow> vbank \<Rightarrow> vstate" where
  "sshr_v vform dst src shift B =
     (let temp = Temp 17;
          B = snd (dup_immediate_v vform (LogicV temp) (- of_nat shift) (SimVRegister_init temp B))
      in sshl_v vform dst src temp True B)"

definition ssra_v :: "VectorFormat \<Rightarrow> LogicVRegister \<Rightarrow> vref \<Rightarrow> nat \<Rightarrow> vbank \<Rightarrow> vstate" where
  "ssra_v vform dst src shift B =
     (let temp = Temp 18;
          B = snd (sshr_v vform (LogicV temp) src shift (SimVRegister_init temp B))
      in add_v vform dst (lv_register dst) temp B)"

definition usra_v :: "VectorFormat \<Rightarrow> LogicVRegister \<Rightarrow> vref \<Rightarrow> nat \<Rightarrow> vbank \<Rightarrow> vstate" where
  "usra_v vform dst src shift B =
     (let temp = Temp 19;
          B = snd (ushr_v vform (LogicV temp) src shift (SimVRegister_init temp B))
      in add_v vform dst (lv_register dst) temp B)"

definition srsra_v :: "VectorFormat \<Rightarrow> LogicVRegister \<Rightarrow> vref \<Rightarrow> nat \<Rightarrow> vbank \<Rightarrow> vstate" where
  "srsra_v vform dst src shift B =
     (let temp = Temp 20;
          B = snd (Round vform (sshr_v vform (LogicV temp) src shift (SimVRegister_init temp B)))
      in add_v vform dst (lv_register dst) temp B)"

definition ursra_v :: "VectorFormat \<Rightarrow> LogicVRegister \<Rightarrow> vref \<Rightarrow> nat \<Rightarrow> vbank \<Rightarrow> vstate" where
  "ursra_v vform dst src shift B =
     (let temp = Temp 21;
          B = snd (Round vform (ushr_v vform (LogicV temp) src shift (SimVRegister_init temp B)))
      in add_v vform dst (lv_register dst) temp B)"

text \<open>Shift and insert: the bits of the destination outside the mask stay.\<close>

definition sli_lane :: "VectorFormat \<Rightarrow> vref \<Rightarrow> nat \<Rightarrow> nat \<Rightarrow> vstate \<Rightarrow> vstate" where
  "sli_lane vform src shift i st =
     (let (d, B) = st;
          src_lane = LUint vform B src i;
          dst_lane = LUint vform B (lv_register d) i;
          shifted = push_bit shift src_lane;
          m = push_bit shift (MaxUintFromFormat vform)
      in (d, SetUint vform (lv_register d) i ((dst_lane AND NOT m) OR shifted) B))"

definition sli_v :: "VectorFormat \<Rightarrow> LogicVRegister \<Rightarrow> vref \<Rightarrow> nat \<Rightarrow> vbank \<Rightarrow> vstate" where
  "sli_v vform dst src shift B =
     for_lanes (LaneCount vform) (sli_lane vform src shift) (dst, ClearForWrite vform (lv_register dst) B)"

definition sri_lane :: "VectorFormat \<Rightarrow> vref \<Rightarrow> nat \<Rightarrow> nat \<Rightarrow> vstate \<Rightarrow> vstate" where
  "sri_lane vform src shift i st =
     (let (d, B) = st;
          src_lane = LUint vform B src i;
          dst_lane = LUint vform B (lv_register d) i;
          shifted = (if shift = 64 then 0 else drop_bit shift src_lane);
          m = (if shift = 64 then 0 else drop_bit shift (MaxUintFromFormat vform))
      in (d, SetUint vform (lv_register d) i ((dst_lane AND NOT m) OR shifted) B))"

definition sri_v :: "VectorFormat \<Rightarrow> LogicVRegister \<Rightarrow> vref \<Rightarrow> nat \<Rightarrow> vbank \<Rightarrow> vstate" where
  "sri_v vform dst src shift B =
     for_lanes (LaneCount vform) (sri_lane vform src shift) (dst, ClearForWrite vform (lv_register dst) B)"

section \<open>Narrowing\<close>

text \<open>
  The source is read lane by lane from its register: \<open>src_copy\<close> of the code refers to the same
  register as \<open>src\<close>.
\<close>

definition extractnarrow_lane ::
  "VectorFormat \<Rightarrow> VectorFormat \<Rightarrow> nat \<Rightarrow> bool \<Rightarrow> vref \<Rightarrow> bool \<Rightarrow> nat \<Rightarrow> vstate \<Rightarrow> vstate" where
  "extractnarrow_lane dstform srcform offset dst_is_signed src src_is_signed i st =
     (let (d, B) = st;
          ssrc = LInt srcform B src i;
          usrc = LUint srcform B src i;
          d = (if sint ssrc > sint (MaxIntFromFormat dstform) then SetSignedSat (offset + i) True d
               else if sint ssrc < sint (MinIntFromFormat dstform) then SetSignedSat (offset + i) False d
               else d);
          d = (if src_is_signed
               then if sint ssrc > sint (MaxUintFromFormat dstform) then SetUnsignedSat (offset + i) True d
                    else if sint ssrc < 0 then SetUnsignedSat (offset + i) False d else d
               else if usrc > MaxUintFromFormat dstform then SetUnsignedSat (offset + i) True d else d);
          result = (if src_is_signed then ssrc AND MaxUintFromFormat dstform
                    else usrc AND MaxUintFromFormat dstform)
      in (d, if dst_is_signed then SetInt dstform (lv_register d) (offset + i) result B
             else SetUint dstform (lv_register d) (offset + i) result B))"

definition extractnarrow_v :: "VectorFormat \<Rightarrow> LogicVRegister \<Rightarrow> bool \<Rightarrow> vref \<Rightarrow> bool \<Rightarrow> vbank \<Rightarrow> vstate" where
  "extractnarrow_v dstform dst dst_is_signed src src_is_signed B =
     (let upperhalf = (dstform \<in> {kFormat16B, kFormat8H, kFormat4S});
          srcform = VectorFormatDoubleWidth (if upperhalf then VectorFormatHalfLanes dstform else dstform);
          offset = (if upperhalf then LaneCount dstform div 2 else 0);
          (d, B) = for_lanes (LaneCount srcform)
                     (extractnarrow_lane dstform srcform offset dst_is_signed src src_is_signed) (dst, B)
      in (d, ClearForWrite (if upperhalf then kFormat16B else dstform) (lv_register d) B))"

definition xtn_v :: "VectorFormat \<Rightarrow> LogicVRegister \<Rightarrow> vref \<Rightarrow> vbank \<Rightarrow> vstate" where
  "xtn_v vform dst src B = extractnarrow_v vform dst True src True B"

definition sqxtn_v :: "VectorFormat \<Rightarrow> LogicVRegister \<Rightarrow> vref \<Rightarrow> vbank \<Rightarrow> vstate" where
  "sqxtn_v vform dst src B = SignedSaturate vform (extractnarrow_v vform dst True src True B)"

definition sqxtun_v :: "VectorFormat \<Rightarrow> LogicVRegister \<Rightarrow> vref \<Rightarrow> vbank \<Rightarrow> vstate" where
  "sqxtun_v vform dst src B = UnsignedSaturate vform (extractnarrow_v vform dst False src True B)"

definition uqxtn_v :: "VectorFormat \<Rightarrow> LogicVRegister \<Rightarrow> vref \<Rightarrow> vbank \<Rightarrow> vstate" where
  "uqxtn_v vform dst src B = UnsignedSaturate vform (extractnarrow_v vform dst False src False B)"

definition shrn_v :: "VectorFormat \<Rightarrow> LogicVRegister \<Rightarrow> vref \<Rightarrow> nat \<Rightarrow> vbank \<Rightarrow> vstate" where
  "shrn_v vform dst src shift B =
     (let temp = Temp 22;
          vformsrc = VectorFormatDoubleWidth vform;
          B = snd (ushr_v vformsrc (LogicV temp) src shift (SimVRegister_init temp B))
      in extractnarrow_v vform dst False temp False B)"

definition shrn2_v :: "VectorFormat \<Rightarrow> LogicVRegister \<Rightarrow> vref \<Rightarrow> nat \<Rightarrow> vbank \<Rightarrow> vstate" where
  "shrn2_v vform dst src shift B =
     (let temp = Temp 23;
          vformsrc = VectorFormatDoubleWidth (VectorFormatHalfLanes vform);
          B = snd (ushr_v vformsrc (LogicV temp) src shift (SimVRegister_init temp B))
      in extractnarrow_v vform dst False temp False B)"

definition rshrn_v :: "VectorFormat \<Rightarrow> LogicVRegister \<Rightarrow> vref \<Rightarrow> nat \<Rightarrow> vbank \<Rightarrow> vstate" where
  "rshrn_v vform dst src shift B =
     (let temp = Temp 24;
          vformsrc = VectorFormatDoubleWidth vform;
          B = snd (Round vformsrc (ushr_v vformsrc (LogicV temp) src shift (SimVRegister_init temp B)))
      in extractnarrow_v vform dst False temp False B)"

definition rshrn2_v :: "VectorFormat \<Rightarrow> LogicVRegister \<Rightarrow> vref \<Rightarrow> nat \<Rightarrow> vbank \<Rightarrow> vstate" where
  "rshrn2_v vform dst src shift B =
     (let temp = Temp 25;
          vformsrc = VectorFormatDoubleWidth (VectorFormatHalfLanes vform);
          B = snd (Round vformsrc (ushr_v vformsrc (LogicV temp) src shift (SimVRegister_init temp B)))
      in extractnarrow_v vform dst False temp False B)"

definition uqshrn_v :: "VectorFormat \<Rightarrow> LogicVRegister \<Rightarrow> vref \<Rightarrow> nat \<Rightarrow> vbank \<Rightarrow> vstate" where
  "uqshrn_v vform dst src shift B = UnsignedSaturate vform (shrn_v vform dst src shift B)"

definition uqshrn2_v :: "VectorFormat \<Rightarrow> LogicVRegister \<Rightarrow> vref \<Rightarrow> nat \<Rightarrow> vbank \<Rightarrow> vstate" where
  "uqshrn2_v vform dst src shift B = UnsignedSaturate vform (shrn2_v vform dst src shift B)"

definition uqrshrn_v :: "VectorFormat \<Rightarrow> LogicVRegister \<Rightarrow> vref \<Rightarrow> nat \<Rightarrow> vbank \<Rightarrow> vstate" where
  "uqrshrn_v vform dst src shift B = UnsignedSaturate vform (rshrn_v vform dst src shift B)"

definition uqrshrn2_v :: "VectorFormat \<Rightarrow> LogicVRegister \<Rightarrow> vref \<Rightarrow> nat \<Rightarrow> vbank \<Rightarrow> vstate" where
  "uqrshrn2_v vform dst src shift B = UnsignedSaturate vform (rshrn2_v vform dst src shift B)"

definition sqshrn_v :: "VectorFormat \<Rightarrow> LogicVRegister \<Rightarrow> vref \<Rightarrow> nat \<Rightarrow> vbank \<Rightarrow> vstate" where
  "sqshrn_v vform dst src shift B =
     (let temp = Temp 26;
          vformsrc = VectorFormatDoubleWidth vform;
          B = snd (sshr_v vformsrc (LogicV temp) src shift (SimVRegister_init temp B))
      in sqxtn_v vform dst temp B)"

definition sqshrn2_v :: "VectorFormat \<Rightarrow> LogicVRegister \<Rightarrow> vref \<Rightarrow> nat \<Rightarrow> vbank \<Rightarrow> vstate" where
  "sqshrn2_v vform dst src shift B =
     (let temp = Temp 27;
          vformsrc = VectorFormatDoubleWidth (VectorFormatHalfLanes vform);
          B = snd (sshr_v vformsrc (LogicV temp) src shift (SimVRegister_init temp B))
      in sqxtn_v vform dst temp B)"

definition sqrshrn_v :: "VectorFormat \<Rightarrow> LogicVRegister \<Rightarrow> vref \<Rightarrow> nat \<Rightarrow> vbank \<Rightarrow> vstate" where
  "sqrshrn_v vform dst src shift B =
     (let temp = Temp 28;
          vformsrc = VectorFormatDoubleWidth vform;
          B = snd (Round vformsrc (sshr_v vformsrc (LogicV temp) src shift (SimVRegister_init temp B)))
      in sqxtn_v vform dst temp B)"

definition sqrshrn2_v :: "VectorFormat \<Rightarrow> LogicVRegister \<Rightarrow> vref \<Rightarrow> nat \<Rightarrow> vbank \<Rightarrow> vstate" where
  "sqrshrn2_v vform dst src shift B =
     (let temp = Temp 29;
          vformsrc = VectorFormatDoubleWidth (VectorFormatHalfLanes vform);
          B = snd (Round vformsrc (sshr_v vformsrc (LogicV temp) src shift (SimVRegister_init temp B)))
      in sqxtn_v vform dst temp B)"

definition sqshrun_v :: "VectorFormat \<Rightarrow> LogicVRegister \<Rightarrow> vref \<Rightarrow> nat \<Rightarrow> vbank \<Rightarrow> vstate" where
  "sqshrun_v vform dst src shift B =
     (let temp = Temp 30;
          vformsrc = VectorFormatDoubleWidth vform;
          B = snd (sshr_v vformsrc (LogicV temp) src shift (SimVRegister_init temp B))
      in sqxtun_v vform dst temp B)"

definition sqshrun2_v :: "VectorFormat \<Rightarrow> LogicVRegister \<Rightarrow> vref \<Rightarrow> nat \<Rightarrow> vbank \<Rightarrow> vstate" where
  "sqshrun2_v vform dst src shift B =
     (let temp = Temp 31;
          vformsrc = VectorFormatDoubleWidth (VectorFormatHalfLanes vform);
          B = snd (sshr_v vformsrc (LogicV temp) src shift (SimVRegister_init temp B))
      in sqxtun_v vform dst temp B)"

definition sqrshrun_v :: "VectorFormat \<Rightarrow> LogicVRegister \<Rightarrow> vref \<Rightarrow> nat \<Rightarrow> vbank \<Rightarrow> vstate" where
  "sqrshrun_v vform dst src shift B =
     (let temp = Temp 32;
          vformsrc = VectorFormatDoubleWidth vform;
          B = snd (Round vformsrc (sshr_v vformsrc (LogicV temp) src shift (SimVRegister_init temp B)))
      in sqxtun_v vform dst temp B)"

definition sqrshrun2_v :: "VectorFormat \<Rightarrow> LogicVRegister \<Rightarrow> vref \<Rightarrow> nat \<Rightarrow> vbank \<Rightarrow> vstate" where
  "sqrshrun2_v vform dst src shift B =
     (let temp = Temp 33;
          vformsrc = VectorFormatDoubleWidth (VectorFormatHalfLanes vform);
          B = snd (Round vformsrc (sshr_v vformsrc (LogicV temp) src shift (SimVRegister_init temp B)))
      in sqxtun_v vform dst temp B)"

end
