(* ===== verification/Sim_Widen.thy ===== *)
theory Sim_Widen
  imports Sim_Shift
begin

text \<open>
  The remaining arithmetic on lanes of \<open>src/aarch64/logic-aarch64.cc\<close>: differences, negation
  and mixed-sign saturation, pairwise sums, the long, wide and narrowing sums and products, the
  saturating doubling products and the dot products, as in \<open>Sim_Logic\<close>.
\<close>

section \<open>Differences, negation and counts\<close>

definition absdiff_lane :: "VectorFormat \<Rightarrow> vref \<Rightarrow> vref \<Rightarrow> bool \<Rightarrow> nat \<Rightarrow> vstate \<Rightarrow> vstate" where
  "absdiff_lane vform src1 src2 is_signed i st =
     (let (d, B) = st;
          src1_gt_src2 = (if is_signed then sint (LInt vform B src1 i) > sint (LInt vform B src2 i)
                          else LUint vform B src1 i > LUint vform B src2 i)
      in (d, SetUint vform (lv_register d) i
               (if src1_gt_src2 then LUint vform B src1 i - LUint vform B src2 i
                else LUint vform B src2 i - LUint vform B src1 i) B))"

definition absdiff_v :: "VectorFormat \<Rightarrow> LogicVRegister \<Rightarrow> vref \<Rightarrow> vref \<Rightarrow> bool \<Rightarrow> vbank \<Rightarrow> vstate" where
  "absdiff_v vform dst src1 src2 is_signed B =
     for_lanes (LaneCount vform) (absdiff_lane vform src1 src2 is_signed) (dst, ClearForWrite vform (lv_register dst) B)"

definition saba_v :: "VectorFormat \<Rightarrow> LogicVRegister \<Rightarrow> vref \<Rightarrow> vref \<Rightarrow> vbank \<Rightarrow> vstate" where
  "saba_v vform dst src1 src2 B =
     (let temp = Temp 34;
          B = ClearForWrite vform (lv_register dst) (SimVRegister_init temp B);
          B = snd (absdiff_v vform (LogicV temp) src1 src2 True B)
      in (dst, snd (add_v vform dst (lv_register dst) temp B)))"

definition uaba_v :: "VectorFormat \<Rightarrow> LogicVRegister \<Rightarrow> vref \<Rightarrow> vref \<Rightarrow> vbank \<Rightarrow> vstate" where
  "uaba_v vform dst src1 src2 B =
     (let temp = Temp 35;
          B = ClearForWrite vform (lv_register dst) (SimVRegister_init temp B);
          B = snd (absdiff_v vform (LogicV temp) src1 src2 False B)
      in (dst, snd (add_v vform dst (lv_register dst) temp B)))"

definition neg_lane :: "VectorFormat \<Rightarrow> vref \<Rightarrow> nat \<Rightarrow> vstate \<Rightarrow> vstate" where
  "neg_lane vform src i st =
     (let (d, B) = st;
          sa = LInt vform B src i;
          d = (if sa = MinIntFromFormat vform then SetSignedSat i True d else d)
      in (d, SetInt vform (lv_register d) i (if sa = push_bit 63 1 then sa else - sa) B))"

definition neg_v :: "VectorFormat \<Rightarrow> LogicVRegister \<Rightarrow> vref \<Rightarrow> vbank \<Rightarrow> vstate" where
  "neg_v vform dst src B =
     for_lanes (LaneCount vform) (neg_lane vform src) (dst, ClearForWrite vform (lv_register dst) B)"

definition abs_lane :: "VectorFormat \<Rightarrow> vref \<Rightarrow> nat \<Rightarrow> vstate \<Rightarrow> vstate" where
  "abs_lane vform src i st =
     (let (d, B) = st;
          sa = LInt vform B src i;
          d = (if sa = MinIntFromFormat vform then SetSignedSat i True d else d)
      in (d, SetInt vform (lv_register d) i
               (if sint sa < 0 then (if sa = push_bit 63 1 then sa else - sa) else sa) B))"

definition abs_v :: "VectorFormat \<Rightarrow> LogicVRegister \<Rightarrow> vref \<Rightarrow> vbank \<Rightarrow> vstate" where
  "abs_v vform dst src B =
     for_lanes (LaneCount vform) (abs_lane vform src) (dst, ClearForWrite vform (lv_register dst) B)"

definition suqadd_lane :: "VectorFormat \<Rightarrow> vref \<Rightarrow> vref \<Rightarrow> nat \<Rightarrow> vstate \<Rightarrow> vstate" where
  "suqadd_lane vform src1 src2 i st =
     (let (d, B) = st;
          sa = IntLeftJustified vform B src1 i;
          ub = UintLeftJustified vform B src2 i;
          ur = sa + ub
      in if sint ur < sint sa then (d, SetInt vform (lv_register d) i (MaxIntFromFormat vform) B)
         else (d, SetUint vform (lv_register d) i (LInt vform B src1 i + LUint vform B src2 i) B))"

definition suqadd_v :: "VectorFormat \<Rightarrow> LogicVRegister \<Rightarrow> vref \<Rightarrow> vref \<Rightarrow> vbank \<Rightarrow> vstate" where
  "suqadd_v vform dst src1 src2 B =
     for_lanes (LaneCount vform) (suqadd_lane vform src1 src2) (dst, ClearForWrite vform (lv_register dst) B)"

definition usqadd_lane :: "VectorFormat \<Rightarrow> vref \<Rightarrow> vref \<Rightarrow> nat \<Rightarrow> vstate \<Rightarrow> vstate" where
  "usqadd_lane vform src1 src2 i st =
     (let (d, B) = st;
          ua = UintLeftJustified vform B src1 i;
          sb = IntLeftJustified vform B src2 i;
          ur = ua + sb
      in if sint sb > 0 \<and> ur \<le> ua then (d, SetUint vform (lv_register d) i (MaxUintFromFormat vform) B)
         else if sint sb < 0 \<and> ur \<ge> ua then (d, SetUint vform (lv_register d) i 0 B)
         else (d, SetUint vform (lv_register d) i (LUint vform B src1 i + LInt vform B src2 i) B))"

definition usqadd_v :: "VectorFormat \<Rightarrow> LogicVRegister \<Rightarrow> vref \<Rightarrow> vref \<Rightarrow> vbank \<Rightarrow> vstate" where
  "usqadd_v vform dst src1 src2 B =
     for_lanes (LaneCount vform) (usqadd_lane vform src1 src2) (dst, ClearForWrite vform (lv_register dst) B)"

definition cls_v :: "VectorFormat \<Rightarrow> LogicVRegister \<Rightarrow> vref \<Rightarrow> vbank \<Rightarrow> vstate" where
  "cls_v vform dst src B =
     (let result = (\<lambda>i. word_of_int (CountLeadingSignBitsFallBack (LInt vform B src i) (LaneSizeInBitsFromFormat vform)))
      in (dst, SetUintArray vform (lv_register dst) result B))"

definition clz_v :: "VectorFormat \<Rightarrow> LogicVRegister \<Rightarrow> vref \<Rightarrow> vbank \<Rightarrow> vstate" where
  "clz_v vform dst src B =
     (let result = (\<lambda>i. of_nat (CountLeadingZerosFallBack (LUint vform B src i) (LaneSizeInBitsFromFormat vform)))
      in (dst, SetUintArray vform (lv_register dst) result B))"

definition cnt_v :: "VectorFormat \<Rightarrow> LogicVRegister \<Rightarrow> vref \<Rightarrow> vbank \<Rightarrow> vstate" where
  "cnt_v vform dst src B =
     (let result = (\<lambda>i. of_nat (CountSetBitsFallBack (LUint vform B src i) (LaneSizeInBitsFromFormat vform)))
      in (dst, SetUintArray vform (lv_register dst) result B))"

text \<open>One step of the bit reversal loop: the result so far, and what is left of the value.\<close>

definition rbit_value :: "nat \<Rightarrow> u64 \<Rightarrow> u64" where
  "rbit_value lane_size_in_bits value =
     fst (for_lanes lane_size_in_bits
            (\<lambda>j (reversed_value, value). (push_bit 1 reversed_value OR (value AND 1), drop_bit 1 value)) (0, value))"

definition rbit_v :: "VectorFormat \<Rightarrow> LogicVRegister \<Rightarrow> vref \<Rightarrow> vbank \<Rightarrow> vstate" where
  "rbit_v vform dst src B =
     (let result = (\<lambda>i. rbit_value (LaneSizeInBitsFromFormat vform) (LUint vform B src i))
      in (dst, SetUintArray vform (lv_register dst) result B))"

section \<open>Pairwise sums\<close>

definition addlp_v :: "VectorFormat \<Rightarrow> LogicVRegister \<Rightarrow> vref \<Rightarrow> bool \<Rightarrow> bool \<Rightarrow> vbank \<Rightarrow> vstate" where
  "addlp_v vform dst src is_signed do_accumulate B =
     (let vformsrc = VectorFormatHalfWidthDoubleLanes vform;
          result = (\<lambda>i. if is_signed then LInt vformsrc B src (2 * i) + LInt vformsrc B src (2 * i + 1)
                        else LUint vformsrc B src (2 * i) + LUint vformsrc B src (2 * i + 1))
      in (dst, for_lanes (LaneCount vform)
                 (\<lambda>i B. SetUint vform (lv_register dst) i
                   (result i + (if do_accumulate then LUint vform B (lv_register dst) i else 0)) B)
                 (ClearForWrite vform (lv_register dst) B)))"

definition saddlp_v :: "VectorFormat \<Rightarrow> LogicVRegister \<Rightarrow> vref \<Rightarrow> vbank \<Rightarrow> vstate" where
  "saddlp_v vform dst src B = addlp_v vform dst src True False B"

definition uaddlp_v :: "VectorFormat \<Rightarrow> LogicVRegister \<Rightarrow> vref \<Rightarrow> vbank \<Rightarrow> vstate" where
  "uaddlp_v vform dst src B = addlp_v vform dst src False False B"

definition sadalp_v :: "VectorFormat \<Rightarrow> LogicVRegister \<Rightarrow> vref \<Rightarrow> vbank \<Rightarrow> vstate" where
  "sadalp_v vform dst src B = addlp_v vform dst src True True B"

definition uadalp_v :: "VectorFormat \<Rightarrow> LogicVRegister \<Rightarrow> vref \<Rightarrow> vbank \<Rightarrow> vstate" where
  "uadalp_v vform dst src B = addlp_v vform dst src False True B"

section \<open>Long and wide sums and differences\<close>

definition uaddl_v :: "VectorFormat \<Rightarrow> LogicVRegister \<Rightarrow> vref \<Rightarrow> vref \<Rightarrow> vbank \<Rightarrow> vstate" where
  "uaddl_v vform dst src1 src2 B =
     (let temp1 = Temp 36; temp2 = Temp 37;
          B = SimVRegister_init temp2 (SimVRegister_init temp1 B);
          B = snd (uxtl_v vform (LogicV temp1) src1 False B);
          B = snd (uxtl_v vform (LogicV temp2) src2 False B)
      in (dst, snd (add_v vform dst temp1 temp2 B)))"

definition uaddw_v :: "VectorFormat \<Rightarrow> LogicVRegister \<Rightarrow> vref \<Rightarrow> vref \<Rightarrow> vbank \<Rightarrow> vstate" where
  "uaddw_v vform dst src1 src2 B =
     (let temp = Temp 38;
          B = snd (uxtl_v vform (LogicV temp) src2 False (SimVRegister_init temp B))
      in (dst, snd (add_v vform dst src1 temp B)))"

definition uaddl2_v :: "VectorFormat \<Rightarrow> LogicVRegister \<Rightarrow> vref \<Rightarrow> vref \<Rightarrow> vbank \<Rightarrow> vstate" where
  "uaddl2_v vform dst src1 src2 B =
     (let temp1 = Temp 39; temp2 = Temp 40;
          B = SimVRegister_init temp2 (SimVRegister_init temp1 B);
          B = snd (uxtl2_v vform (LogicV temp1) src1 B);
          B = snd (uxtl2_v vform (LogicV temp2) src2 B)
      in (dst, snd (add_v vform dst temp1 temp2 B)))"

definition uaddw2_v :: "VectorFormat \<Rightarrow> LogicVRegister \<Rightarrow> vref \<Rightarrow> vref \<Rightarrow> vbank \<Rightarrow> vstate" where
  "uaddw2_v vform dst src1 src2 B =
     (let temp = Temp 41;
          B = snd (uxtl2_v vform (LogicV temp) src2 (SimVRegister_init temp B))
      in (dst, snd (add_v vform dst src1 temp B)))"

definition saddl_v :: "VectorFormat \<Rightarrow> LogicVRegister \<Rightarrow> vref \<Rightarrow> vref \<Rightarrow> vbank \<Rightarrow> vstate" where
  "saddl_v vform dst src1 src2 B =
     (let temp1 = Temp 42; temp2 = Temp 43;
          B = SimVRegister_init temp2 (SimVRegister_init temp1 B);
          B = snd (sxtl_v vform (LogicV temp1) src1 False B);
          B = snd (sxtl_v vform (LogicV temp2) src2 False B)
      in (dst, snd (add_v vform dst temp1 temp2 B)))"

definition saddw_v :: "VectorFormat \<Rightarrow> LogicVRegister \<Rightarrow> vref \<Rightarrow> vref \<Rightarrow> vbank \<Rightarrow> vstate" where
  "saddw_v vform dst src1 src2 B =
     (let temp = Temp 44;
          B = snd (sxtl_v vform (LogicV temp) src2 False (SimVRegister_init temp B))
      in (dst, snd (add_v vform dst src1 temp B)))"

definition saddl2_v :: "VectorFormat \<Rightarrow> LogicVRegister \<Rightarrow> vref \<Rightarrow> vref \<Rightarrow> vbank \<Rightarrow> vstate" where
  "saddl2_v vform dst src1 src2 B =
     (let temp1 = Temp 45; temp2 = Temp 46;
          B = SimVRegister_init temp2 (SimVRegister_init temp1 B);
          B = snd (sxtl2_v vform (LogicV temp1) src1 B);
          B = snd (sxtl2_v vform (LogicV temp2) src2 B)
      in (dst, snd (add_v vform dst temp1 temp2 B)))"

definition saddw2_v :: "VectorFormat \<Rightarrow> LogicVRegister \<Rightarrow> vref \<Rightarrow> vref \<Rightarrow> vbank \<Rightarrow> vstate" where
  "saddw2_v vform dst src1 src2 B =
     (let temp = Temp 47;
          B = snd (sxtl2_v vform (LogicV temp) src2 (SimVRegister_init temp B))
      in (dst, snd (add_v vform dst src1 temp B)))"

definition usubl_v :: "VectorFormat \<Rightarrow> LogicVRegister \<Rightarrow> vref \<Rightarrow> vref \<Rightarrow> vbank \<Rightarrow> vstate" where
  "usubl_v vform dst src1 src2 B =
     (let temp1 = Temp 48; temp2 = Temp 49;
          B = SimVRegister_init temp2 (SimVRegister_init temp1 B);
          B = snd (uxtl_v vform (LogicV temp1) src1 False B);
          B = snd (uxtl_v vform (LogicV temp2) src2 False B)
      in (dst, snd (sub_v vform dst temp1 temp2 B)))"

definition usubw_v :: "VectorFormat \<Rightarrow> LogicVRegister \<Rightarrow> vref \<Rightarrow> vref \<Rightarrow> vbank \<Rightarrow> vstate" where
  "usubw_v vform dst src1 src2 B =
     (let temp = Temp 50;
          B = snd (uxtl_v vform (LogicV temp) src2 False (SimVRegister_init temp B))
      in (dst, snd (sub_v vform dst src1 temp B)))"

definition usubl2_v :: "VectorFormat \<Rightarrow> LogicVRegister \<Rightarrow> vref \<Rightarrow> vref \<Rightarrow> vbank \<Rightarrow> vstate" where
  "usubl2_v vform dst src1 src2 B =
     (let temp1 = Temp 51; temp2 = Temp 52;
          B = SimVRegister_init temp2 (SimVRegister_init temp1 B);
          B = snd (uxtl2_v vform (LogicV temp1) src1 B);
          B = snd (uxtl2_v vform (LogicV temp2) src2 B)
      in (dst, snd (sub_v vform dst temp1 temp2 B)))"

definition usubw2_v :: "VectorFormat \<Rightarrow> LogicVRegister \<Rightarrow> vref \<Rightarrow> vref \<Rightarrow> vbank \<Rightarrow> vstate" where
  "usubw2_v vform dst src1 src2 B =
     (let temp = Temp 53;
          B = snd (uxtl2_v vform (LogicV temp) src2 (SimVRegister_init temp B))
      in (dst, snd (sub_v vform dst src1 temp B)))"

definition ssubl_v :: "VectorFormat \<Rightarrow> LogicVRegister \<Rightarrow> vref \<Rightarrow> vref \<Rightarrow> vbank \<Rightarrow> vstate" where
  "ssubl_v vform dst src1 src2 B =
     (let temp1 = Temp 54; temp2 = Temp 55;
          B = SimVRegister_init temp2 (SimVRegister_init temp1 B);
          B = snd (sxtl_v vform (LogicV temp1) src1 False B);
          B = snd (sxtl_v vform (LogicV temp2) src2 False B)
      in (dst, snd (sub_v vform dst temp1 temp2 B)))"

definition ssubw_v :: "VectorFormat \<Rightarrow> LogicVRegister \<Rightarrow> vref \<Rightarrow> vref \<Rightarrow> vbank \<Rightarrow> vstate" where
  "ssubw_v vform dst src1 src2 B =
     (let temp = Temp 56;
          B = snd (sxtl_v vform (LogicV temp) src2 False (SimVRegister_init temp B))
      in (dst, snd (sub_v vform dst src1 temp B)))"

definition ssubl2_v :: "VectorFormat \<Rightarrow> LogicVRegister \<Rightarrow> vref \<Rightarrow> vref \<Rightarrow> vbank \<Rightarrow> vstate" where
  "ssubl2_v vform dst src1 src2 B =
     (let temp1 = Temp 57; temp2 = Temp 58;
          B = SimVRegister_init temp2 (SimVRegister_init temp1 B);
          B = snd (sxtl2_v vform (LogicV temp1) src1 B);
          B = snd (sxtl2_v vform (LogicV temp2) src2 B)
      in (dst, snd (sub_v vform dst temp1 temp2 B)))"

definition ssubw2_v :: "VectorFormat \<Rightarrow> LogicVRegister \<Rightarrow> vref \<Rightarrow> vref \<Rightarrow> vbank \<Rightarrow> vstate" where
  "ssubw2_v vform dst src1 src2 B =
     (let temp = Temp 59;
          B = snd (sxtl2_v vform (LogicV temp) src2 (SimVRegister_init temp B))
      in (dst, snd (sub_v vform dst src1 temp B)))"

definition uabal_v :: "VectorFormat \<Rightarrow> LogicVRegister \<Rightarrow> vref \<Rightarrow> vref \<Rightarrow> vbank \<Rightarrow> vstate" where
  "uabal_v vform dst src1 src2 B =
     (let temp1 = Temp 60; temp2 = Temp 61;
          B = SimVRegister_init temp2 (SimVRegister_init temp1 B);
          B = snd (uxtl_v vform (LogicV temp1) src1 False B);
          B = snd (uxtl_v vform (LogicV temp2) src2 False B)
      in (dst, snd (uaba_v vform dst temp1 temp2 B)))"

definition uabdl_v :: "VectorFormat \<Rightarrow> LogicVRegister \<Rightarrow> vref \<Rightarrow> vref \<Rightarrow> vbank \<Rightarrow> vstate" where
  "uabdl_v vform dst src1 src2 B =
     (let temp1 = Temp 62; temp2 = Temp 63;
          B = SimVRegister_init temp2 (SimVRegister_init temp1 B);
          B = snd (uxtl_v vform (LogicV temp1) src1 False B);
          B = snd (uxtl_v vform (LogicV temp2) src2 False B)
      in (dst, snd (absdiff_v vform dst temp1 temp2 False B)))"

definition uabal2_v :: "VectorFormat \<Rightarrow> LogicVRegister \<Rightarrow> vref \<Rightarrow> vref \<Rightarrow> vbank \<Rightarrow> vstate" where
  "uabal2_v vform dst src1 src2 B =
     (let temp1 = Temp 64; temp2 = Temp 65;
          B = SimVRegister_init temp2 (SimVRegister_init temp1 B);
          B = snd (uxtl2_v vform (LogicV temp1) src1 B);
          B = snd (uxtl2_v vform (LogicV temp2) src2 B)
      in (dst, snd (uaba_v vform dst temp1 temp2 B)))"

definition uabdl2_v :: "VectorFormat \<Rightarrow> LogicVRegister \<Rightarrow> vref \<Rightarrow> vref \<Rightarrow> vbank \<Rightarrow> vstate" where
  "uabdl2_v vform dst src1 src2 B =
     (let temp1 = Temp 66; temp2 = Temp 67;
          B = SimVRegister_init temp2 (SimVRegister_init temp1 B);
          B = snd (uxtl2_v vform (LogicV temp1) src1 B);
          B = snd (uxtl2_v vform (LogicV temp2) src2 B)
      in (dst, snd (absdiff_v vform dst temp1 temp2 False B)))"

definition sabal_v :: "VectorFormat \<Rightarrow> LogicVRegister \<Rightarrow> vref \<Rightarrow> vref \<Rightarrow> vbank \<Rightarrow> vstate" where
  "sabal_v vform dst src1 src2 B =
     (let temp1 = Temp 68; temp2 = Temp 69;
          B = SimVRegister_init temp2 (SimVRegister_init temp1 B);
          B = snd (sxtl_v vform (LogicV temp1) src1 False B);
          B = snd (sxtl_v vform (LogicV temp2) src2 False B)
      in (dst, snd (saba_v vform dst temp1 temp2 B)))"

definition sabdl_v :: "VectorFormat \<Rightarrow> LogicVRegister \<Rightarrow> vref \<Rightarrow> vref \<Rightarrow> vbank \<Rightarrow> vstate" where
  "sabdl_v vform dst src1 src2 B =
     (let temp1 = Temp 70; temp2 = Temp 71;
          B = SimVRegister_init temp2 (SimVRegister_init temp1 B);
          B = snd (sxtl_v vform (LogicV temp1) src1 False B);
          B = snd (sxtl_v vform (LogicV temp2) src2 False B)
      in (dst, snd (absdiff_v vform dst temp1 temp2 True B)))"

definition sabal2_v :: "VectorFormat \<Rightarrow> LogicVRegister \<Rightarrow> vref \<Rightarrow> vref \<Rightarrow> vbank \<Rightarrow> vstate" where
  "sabal2_v vform dst src1 src2 B =
     (let temp1 = Temp 72; temp2 = Temp 73;
          B = SimVRegister_init temp2 (SimVRegister_init temp1 B);
          B = snd (sxtl2_v vform (LogicV temp1) src1 B);
          B = snd (sxtl2_v vform (LogicV temp2) src2 B)
      in (dst, snd (saba_v vform dst temp1 temp2 B)))"

definition sabdl2_v :: "VectorFormat \<Rightarrow> LogicVRegister \<Rightarrow> vref \<Rightarrow> vref \<Rightarrow> vbank \<Rightarrow> vstate" where
  "sabdl2_v vform dst src1 src2 B =
     (let temp1 = Temp 74; temp2 = Temp 75;
          B = SimVRegister_init temp2 (SimVRegister_init temp1 B);
          B = snd (sxtl2_v vform (LogicV temp1) src1 B);
          B = snd (sxtl2_v vform (LogicV temp2) src2 B)
      in (dst, snd (absdiff_v vform dst temp1 temp2 True B)))"

section \<open>Long products\<close>

definition umull_v :: "VectorFormat \<Rightarrow> LogicVRegister \<Rightarrow> vref \<Rightarrow> vref \<Rightarrow> bool \<Rightarrow> vbank \<Rightarrow> vstate" where
  "umull_v vform dst src1 src2 is_2 B =
     (let temp1 = Temp 76; temp2 = Temp 77;
          B = SimVRegister_init temp2 (SimVRegister_init temp1 B);
          B = snd (uxtl_v vform (LogicV temp1) src1 is_2 B);
          B = snd (uxtl_v vform (LogicV temp2) src2 is_2 B)
      in (dst, snd (mul_v vform dst temp1 temp2 B)))"

definition umull2_v :: "VectorFormat \<Rightarrow> LogicVRegister \<Rightarrow> vref \<Rightarrow> vref \<Rightarrow> vbank \<Rightarrow> vstate" where
  "umull2_v vform dst src1 src2 B = umull_v vform dst src1 src2 True B"

definition umlsl_v :: "VectorFormat \<Rightarrow> LogicVRegister \<Rightarrow> vref \<Rightarrow> vref \<Rightarrow> bool \<Rightarrow> vbank \<Rightarrow> vstate" where
  "umlsl_v vform dst src1 src2 is_2 B =
     (let temp1 = Temp 78; temp2 = Temp 79;
          B = SimVRegister_init temp2 (SimVRegister_init temp1 B);
          B = snd (uxtl_v vform (LogicV temp1) src1 is_2 B);
          B = snd (uxtl_v vform (LogicV temp2) src2 is_2 B)
      in (dst, snd (mls_v vform dst (lv_register dst) temp1 temp2 B)))"

definition umlsl2_v :: "VectorFormat \<Rightarrow> LogicVRegister \<Rightarrow> vref \<Rightarrow> vref \<Rightarrow> vbank \<Rightarrow> vstate" where
  "umlsl2_v vform dst src1 src2 B = umlsl_v vform dst src1 src2 True B"

definition umlal_v :: "VectorFormat \<Rightarrow> LogicVRegister \<Rightarrow> vref \<Rightarrow> vref \<Rightarrow> bool \<Rightarrow> vbank \<Rightarrow> vstate" where
  "umlal_v vform dst src1 src2 is_2 B =
     (let temp1 = Temp 80; temp2 = Temp 81;
          B = SimVRegister_init temp2 (SimVRegister_init temp1 B);
          B = snd (uxtl_v vform (LogicV temp1) src1 is_2 B);
          B = snd (uxtl_v vform (LogicV temp2) src2 is_2 B)
      in (dst, snd (mla_v vform dst (lv_register dst) temp1 temp2 B)))"

definition umlal2_v :: "VectorFormat \<Rightarrow> LogicVRegister \<Rightarrow> vref \<Rightarrow> vref \<Rightarrow> vbank \<Rightarrow> vstate" where
  "umlal2_v vform dst src1 src2 B = umlal_v vform dst src1 src2 True B"

definition smull_v :: "VectorFormat \<Rightarrow> LogicVRegister \<Rightarrow> vref \<Rightarrow> vref \<Rightarrow> bool \<Rightarrow> vbank \<Rightarrow> vstate" where
  "smull_v vform dst src1 src2 is_2 B =
     (let temp1 = Temp 82; temp2 = Temp 83;
          B = SimVRegister_init temp2 (SimVRegister_init temp1 B);
          B = snd (sxtl_v vform (LogicV temp1) src1 is_2 B);
          B = snd (sxtl_v vform (LogicV temp2) src2 is_2 B)
      in (dst, snd (mul_v vform dst temp1 temp2 B)))"

definition smull2_v :: "VectorFormat \<Rightarrow> LogicVRegister \<Rightarrow> vref \<Rightarrow> vref \<Rightarrow> vbank \<Rightarrow> vstate" where
  "smull2_v vform dst src1 src2 B = smull_v vform dst src1 src2 True B"

definition smlsl_v :: "VectorFormat \<Rightarrow> LogicVRegister \<Rightarrow> vref \<Rightarrow> vref \<Rightarrow> bool \<Rightarrow> vbank \<Rightarrow> vstate" where
  "smlsl_v vform dst src1 src2 is_2 B =
     (let temp1 = Temp 84; temp2 = Temp 85;
          B = SimVRegister_init temp2 (SimVRegister_init temp1 B);
          B = snd (sxtl_v vform (LogicV temp1) src1 is_2 B);
          B = snd (sxtl_v vform (LogicV temp2) src2 is_2 B)
      in (dst, snd (mls_v vform dst (lv_register dst) temp1 temp2 B)))"

definition smlsl2_v :: "VectorFormat \<Rightarrow> LogicVRegister \<Rightarrow> vref \<Rightarrow> vref \<Rightarrow> vbank \<Rightarrow> vstate" where
  "smlsl2_v vform dst src1 src2 B = smlsl_v vform dst src1 src2 True B"

definition smlal_v :: "VectorFormat \<Rightarrow> LogicVRegister \<Rightarrow> vref \<Rightarrow> vref \<Rightarrow> bool \<Rightarrow> vbank \<Rightarrow> vstate" where
  "smlal_v vform dst src1 src2 is_2 B =
     (let temp1 = Temp 86; temp2 = Temp 87;
          B = SimVRegister_init temp2 (SimVRegister_init temp1 B);
          B = snd (sxtl_v vform (LogicV temp1) src1 is_2 B);
          B = snd (sxtl_v vform (LogicV temp2) src2 is_2 B)
      in (dst, snd (mla_v vform dst (lv_register dst) temp1 temp2 B)))"

definition smlal2_v :: "VectorFormat \<Rightarrow> LogicVRegister \<Rightarrow> vref \<Rightarrow> vref \<Rightarrow> vbank \<Rightarrow> vstate" where
  "smlal2_v vform dst src1 src2 B = smlal_v vform dst src1 src2 True B"

section \<open>Saturating doubling products\<close>

definition sqdmull_v :: "VectorFormat \<Rightarrow> LogicVRegister \<Rightarrow> vref \<Rightarrow> vref \<Rightarrow> bool \<Rightarrow> vbank \<Rightarrow> vstate" where
  "sqdmull_v vform dst src1 src2 is_2 B =
     (let temp = Temp 88;
          B = snd (smull_v vform (LogicV temp) src1 src2 is_2 (SimVRegister_init temp B))
      in SignedSaturate vform (add_v vform dst temp temp B))"

definition sqdmlal_v :: "VectorFormat \<Rightarrow> LogicVRegister \<Rightarrow> vref \<Rightarrow> vref \<Rightarrow> bool \<Rightarrow> vbank \<Rightarrow> vstate" where
  "sqdmlal_v vform dst src1 src2 is_2 B =
     (let temp = Temp 89;
          B = snd (sqdmull_v vform (LogicV temp) src1 src2 is_2 (SimVRegister_init temp B))
      in SignedSaturate vform (add_v vform dst (lv_register dst) temp B))"

definition sqdmlsl_v :: "VectorFormat \<Rightarrow> LogicVRegister \<Rightarrow> vref \<Rightarrow> vref \<Rightarrow> bool \<Rightarrow> vbank \<Rightarrow> vstate" where
  "sqdmlsl_v vform dst src1 src2 is_2 B =
     (let temp = Temp 90;
          B = snd (sqdmull_v vform (LogicV temp) src1 src2 is_2 (SimVRegister_init temp B))
      in SignedSaturate vform (sub_v vform dst (lv_register dst) temp B))"

definition sqdmull2_v :: "VectorFormat \<Rightarrow> LogicVRegister \<Rightarrow> vref \<Rightarrow> vref \<Rightarrow> vbank \<Rightarrow> vstate" where
  "sqdmull2_v vform dst src1 src2 B = sqdmull_v vform dst src1 src2 True B"

definition sqdmlal2_v :: "VectorFormat \<Rightarrow> LogicVRegister \<Rightarrow> vref \<Rightarrow> vref \<Rightarrow> vbank \<Rightarrow> vstate" where
  "sqdmlal2_v vform dst src1 src2 B = sqdmlal_v vform dst src1 src2 True B"

definition sqdmlsl2_v :: "VectorFormat \<Rightarrow> LogicVRegister \<Rightarrow> vref \<Rightarrow> vref \<Rightarrow> vbank \<Rightarrow> vstate" where
  "sqdmlsl2_v vform dst src1 src2 B = sqdmlsl_v vform dst src1 src2 True B"

text \<open>The predicate \<open>not_sat\<close> is a bit per lane; \<open>sel\<close> chooses by it.\<close>

definition sel_lane :: "VectorFormat \<Rightarrow> (nat \<Rightarrow> bool) \<Rightarrow> vref \<Rightarrow> vref \<Rightarrow> nat \<Rightarrow> vstate \<Rightarrow> vstate" where
  "sel_lane vform pg src1 src2 i st =
     (let (d, B) = st
      in (d, SetUint vform (lv_register d) i (if pg i then LUint vform B src1 i else LUint vform B src2 i) B))"

definition sel_v :: "VectorFormat \<Rightarrow> LogicVRegister \<Rightarrow> (nat \<Rightarrow> bool) \<Rightarrow> vref \<Rightarrow> vref \<Rightarrow> vbank \<Rightarrow> vstate" where
  "sel_v vform dst pg src1 src2 B = for_lanes (LaneCount vform) (sel_lane vform pg src1 src2) (dst, B)"

definition mov_merging_v :: "VectorFormat \<Rightarrow> LogicVRegister \<Rightarrow> (nat \<Rightarrow> bool) \<Rightarrow> vref \<Rightarrow> vbank \<Rightarrow> vstate" where
  "mov_merging_v vform dst pg src B = sel_v vform dst pg src (lv_register dst) B"

definition sqrdmulh_max_lane ::
  "VectorFormat \<Rightarrow> vref \<Rightarrow> vref \<Rightarrow> vref \<Rightarrow> nat \<Rightarrow> (nat \<Rightarrow> bool) \<times> vbank \<Rightarrow> (nat \<Rightarrow> bool) \<times> vbank" where
  "sqrdmulh_max_lane vform dst src1 src2 i st =
     (let (ptemp, B) = st;
          active = \<not> (LInt vform B src1 i = MinIntFromFormat vform \<and> LInt vform B src2 i = MinIntFromFormat vform)
      in (ptemp(i := active), SetInt vform dst i (MaxIntFromFormat vform) B))"

definition sqrdmulh_v :: "VectorFormat \<Rightarrow> LogicVRegister \<Rightarrow> vref \<Rightarrow> vref \<Rightarrow> bool \<Rightarrow> vbank \<Rightarrow> vstate" where
  "sqrdmulh_v vform dst src1 src2 rnd B =
     (let esize = LaneSizeInBitsFromFormat vform;
          temp_lo = Temp 91; temp_hi = Temp 92;
          B = SimVRegister_init temp_hi (SimVRegister_init temp_lo B);
          B = snd (mul_v vform (LogicV temp_lo) src1 src2 B);
          B = snd (smulh_v vform (LogicV temp_hi) src1 src2 B);
          B = snd (shl_v vform (LogicV temp_hi) temp_hi 1 B);
          B = snd (usra_v vform (LogicV temp_hi) temp_lo (esize - 1) B);
          B = (if rnd
               then let B = snd (shl_v vform (LogicV temp_lo) temp_lo 1 B)
                    in snd (usra_v vform (LogicV temp_hi) temp_lo (esize - 1) B)
               else B);
          B = ClearForWrite vform (lv_register dst) B;
          (not_sat, B) = for_lanes (LaneCount vform) (sqrdmulh_max_lane vform (lv_register dst) src1 src2) (\<lambda>i. False, B)
      in (dst, snd (mov_merging_v vform dst not_sat temp_hi B)))"

definition sqdmulh_v :: "VectorFormat \<Rightarrow> LogicVRegister \<Rightarrow> vref \<Rightarrow> vref \<Rightarrow> vbank \<Rightarrow> vstate" where
  "sqdmulh_v vform dst src1 src2 B = sqrdmulh_v vform dst src1 src2 False B"

text \<open>
  The rounding multiply-accumulate with lanes of 64 bits, in 128-bit pairs: the accumulator
  and the product have 63 fraction bits until the shift.
\<close>

definition sqrdmlash_d_lane :: "VectorFormat \<Rightarrow> vref \<Rightarrow> vref \<Rightarrow> bool \<Rightarrow> bool \<Rightarrow> nat \<Rightarrow> vstate \<Rightarrow> vstate" where
  "sqrdmlash_d_lane vform src1 src2 rnd sub_op i st =
     (let (d, B) = st;
          round_const = (0, if rnd then push_bit 62 1 else 0);
          a = LInt vform B (lv_register d) i;
          accum = (signed_drop_bit 1 a, push_bit 63 a);
          product = Mul64 (LInt vform B src1 i) (LInt vform B src2 i);
          product = (if sub_op then Neg128 product else product);
          accum = Add128 (Add128 accum product) round_const;
          lo = push_bit 1 (fst accum) OR drop_bit 63 (snd accum);
          hi = UnsignedNegate (drop_bit 63 (fst accum));
          lo = (if hi = 0 \<and> lo > MaxIntFromFormat vform then MaxIntFromFormat vform
                else if hi \<noteq> 0 \<and> lo < MinIntFromFormat vform then MinIntFromFormat vform else lo)
      in (d, SetInt vform (lv_register d) i lo B))"

definition sqrdmlash_d_v :: "VectorFormat \<Rightarrow> LogicVRegister \<Rightarrow> vref \<Rightarrow> vref \<Rightarrow> bool \<Rightarrow> bool \<Rightarrow> vbank \<Rightarrow> vstate" where
  "sqrdmlash_d_v vform dst src1 src2 rnd sub_op B =
     for_lanes (LaneCount vform) (sqrdmlash_d_lane vform src1 src2 rnd sub_op)
       (dst, ClearForWrite vform (lv_register dst) B)"

definition sqrdmlash_lane :: "VectorFormat \<Rightarrow> vref \<Rightarrow> vref \<Rightarrow> bool \<Rightarrow> bool \<Rightarrow> nat \<Rightarrow> vstate \<Rightarrow> vstate" where
  "sqrdmlash_lane vform src1 src2 rnd sub_op i st =
     (let (d, B) = st;
          esize = LaneSizeInBitsFromFormat vform;
          round_const = (if rnd then push_bit (esize - 2) 1 else 0);
          accum = push_bit (esize - 1) (LInt vform B (lv_register d) i);
          product = LInt vform B src1 i * LInt vform B src2 i;
          accum = (if sub_op then accum - product else accum + product);
          accum = accum + round_const;
          accum = signed_drop_bit (esize - 1) accum;
          accum = (if sint accum > sint (MaxIntFromFormat vform) then MaxIntFromFormat vform
                   else if sint accum < sint (MinIntFromFormat vform) then MinIntFromFormat vform else accum)
      in (d, SetInt vform (lv_register d) i accum B))"

definition sqrdmlash_v :: "VectorFormat \<Rightarrow> LogicVRegister \<Rightarrow> vref \<Rightarrow> vref \<Rightarrow> bool \<Rightarrow> bool \<Rightarrow> vbank \<Rightarrow> vstate" where
  "sqrdmlash_v vform dst src1 src2 rnd sub_op B =
     (if vform = kFormatVnD then sqrdmlash_d_v vform dst src1 src2 rnd sub_op B
      else for_lanes (LaneCount vform) (sqrdmlash_lane vform src1 src2 rnd sub_op)
             (dst, ClearForWrite vform (lv_register dst) B))"

definition sqrdmlah_v :: "VectorFormat \<Rightarrow> LogicVRegister \<Rightarrow> vref \<Rightarrow> vref \<Rightarrow> bool \<Rightarrow> vbank \<Rightarrow> vstate" where
  "sqrdmlah_v vform dst src1 src2 rnd B = sqrdmlash_v vform dst src1 src2 rnd False B"

definition sqrdmlsh_v :: "VectorFormat \<Rightarrow> LogicVRegister \<Rightarrow> vref \<Rightarrow> vref \<Rightarrow> bool \<Rightarrow> vbank \<Rightarrow> vstate" where
  "sqrdmlsh_v vform dst src1 src2 rnd B = sqrdmlash_v vform dst src1 src2 rnd True B"

section \<open>Dot products\<close>

definition dot_lane :: "VectorFormat \<Rightarrow> vref \<Rightarrow> vref \<Rightarrow> bool \<Rightarrow> bool \<Rightarrow> nat \<Rightarrow> vstate \<Rightarrow> vstate" where
  "dot_lane vform src1 src2 is_src1_signed is_src2_signed e st =
     (let (d, B) = st;
          quarter_vform = VectorFormatHalfWidthDoubleLanes (VectorFormatHalfWidthDoubleLanes vform);
          element1 = (\<lambda>k. if is_src1_signed then LInt quarter_vform B src1 k else LUint quarter_vform B src1 k);
          element2 = (\<lambda>k. if is_src2_signed then LInt quarter_vform B src2 k else LUint quarter_vform B src2 k);
          result = sum_lanes (\<lambda>i. element1 (4 * e + i) * element2 (4 * e + i)) 4
      in (d, SetUint vform (lv_register d) e (result + LUint vform B (lv_register d) e) B))"

definition dot_v :: "VectorFormat \<Rightarrow> LogicVRegister \<Rightarrow> vref \<Rightarrow> vref \<Rightarrow> bool \<Rightarrow> bool \<Rightarrow> vbank \<Rightarrow> vstate" where
  "dot_v vform dst src1 src2 is_src1_signed is_src2_signed B =
     for_lanes (LaneCount vform) (dot_lane vform src1 src2 is_src1_signed is_src2_signed)
       (dst, ClearForWrite vform (lv_register dst) B)"

definition sdot_v :: "VectorFormat \<Rightarrow> LogicVRegister \<Rightarrow> vref \<Rightarrow> vref \<Rightarrow> vbank \<Rightarrow> vstate" where
  "sdot_v vform dst src1 src2 B = dot_v vform dst src1 src2 True True B"

definition udot_v :: "VectorFormat \<Rightarrow> LogicVRegister \<Rightarrow> vref \<Rightarrow> vref \<Rightarrow> vbank \<Rightarrow> vstate" where
  "udot_v vform dst src1 src2 B = dot_v vform dst src1 src2 False False B"

definition usdot_v :: "VectorFormat \<Rightarrow> LogicVRegister \<Rightarrow> vref \<Rightarrow> vref \<Rightarrow> vbank \<Rightarrow> vstate" where
  "usdot_v vform dst src1 src2 B = dot_v vform dst src1 src2 False True B"

section \<open>Sums and differences of the high halves\<close>

definition addhn_v :: "VectorFormat \<Rightarrow> LogicVRegister \<Rightarrow> vref \<Rightarrow> vref \<Rightarrow> vbank \<Rightarrow> vstate" where
  "addhn_v vform dst src1 src2 B =
     (let temp = Temp 93;
          B = snd (add_v (VectorFormatDoubleWidth vform) (LogicV temp) src1 src2 (SimVRegister_init temp B))
      in (dst, snd (shrn_v vform dst temp (LaneSizeInBitsFromFormat vform) B)))"

definition addhn2_v :: "VectorFormat \<Rightarrow> LogicVRegister \<Rightarrow> vref \<Rightarrow> vref \<Rightarrow> vbank \<Rightarrow> vstate" where
  "addhn2_v vform dst src1 src2 B =
     (let temp = Temp 94;
          B = snd (add_v (VectorFormatDoubleWidth (VectorFormatHalfLanes vform)) (LogicV temp) src1 src2 (SimVRegister_init temp B))
      in (dst, snd (shrn2_v vform dst temp (LaneSizeInBitsFromFormat vform) B)))"

definition raddhn_v :: "VectorFormat \<Rightarrow> LogicVRegister \<Rightarrow> vref \<Rightarrow> vref \<Rightarrow> vbank \<Rightarrow> vstate" where
  "raddhn_v vform dst src1 src2 B =
     (let temp = Temp 95;
          B = snd (add_v (VectorFormatDoubleWidth vform) (LogicV temp) src1 src2 (SimVRegister_init temp B))
      in (dst, snd (rshrn_v vform dst temp (LaneSizeInBitsFromFormat vform) B)))"

definition raddhn2_v :: "VectorFormat \<Rightarrow> LogicVRegister \<Rightarrow> vref \<Rightarrow> vref \<Rightarrow> vbank \<Rightarrow> vstate" where
  "raddhn2_v vform dst src1 src2 B =
     (let temp = Temp 96;
          B = snd (add_v (VectorFormatDoubleWidth (VectorFormatHalfLanes vform)) (LogicV temp) src1 src2 (SimVRegister_init temp B))
      in (dst, snd (rshrn2_v vform dst temp (LaneSizeInBitsFromFormat vform) B)))"

definition subhn_v :: "VectorFormat \<Rightarrow> LogicVRegister \<Rightarrow> vref \<Rightarrow> vref \<Rightarrow> vbank \<Rightarrow> vstate" where
  "subhn_v vform dst src1 src2 B =
     (let temp = Temp 97;
          B = snd (sub_v (VectorFormatDoubleWidth vform) (LogicV temp) src1 src2 (SimVRegister_init temp B))
      in (dst, snd (shrn_v vform dst temp (LaneSizeInBitsFromFormat vform) B)))"

definition subhn2_v :: "VectorFormat \<Rightarrow> LogicVRegister \<Rightarrow> vref \<Rightarrow> vref \<Rightarrow> vbank \<Rightarrow> vstate" where
  "subhn2_v vform dst src1 src2 B =
     (let temp = Temp 98;
          B = snd (sub_v (VectorFormatDoubleWidth (VectorFormatHalfLanes vform)) (LogicV temp) src1 src2 (SimVRegister_init temp B))
      in (dst, snd (shrn2_v vform dst temp (LaneSizeInBitsFromFormat vform) B)))"

definition rsubhn_v :: "VectorFormat \<Rightarrow> LogicVRegister \<Rightarrow> vref \<Rightarrow> vref \<Rightarrow> vbank \<Rightarrow> vstate" where
  "rsubhn_v vform dst src1 src2 B =
     (let temp = Temp 99;
          B = snd (sub_v (VectorFormatDoubleWidth vform) (LogicV temp) src1 src2 (SimVRegister_init temp B))
      in (dst, snd (rshrn_v vform dst temp (LaneSizeInBitsFromFormat vform) B)))"

definition rsubhn2_v :: "VectorFormat \<Rightarrow> LogicVRegister \<Rightarrow> vref \<Rightarrow> vref \<Rightarrow> vbank \<Rightarrow> vstate" where
  "rsubhn2_v vform dst src1 src2 B =
     (let temp = Temp 100;
          B = snd (sub_v (VectorFormatDoubleWidth (VectorFormatHalfLanes vform)) (LogicV temp) src1 src2 (SimVRegister_init temp B))
      in (dst, snd (rshrn2_v vform dst temp (LaneSizeInBitsFromFormat vform) B)))"

section \<open>Products by an element\<close>

definition mul_index_v :: "VectorFormat \<Rightarrow> LogicVRegister \<Rightarrow> vref \<Rightarrow> vref \<Rightarrow> nat \<Rightarrow> vbank \<Rightarrow> vstate" where
  "mul_index_v vform dst src1 src2 index B =
     (let temp = Temp 101;
          indexform = VectorFormatFillQ vform;
          B = snd (dup_element_v indexform (LogicV temp) src2 index (SimVRegister_init temp B))
      in mul_v vform dst src1 temp B)"

definition mla_index_v :: "VectorFormat \<Rightarrow> LogicVRegister \<Rightarrow> vref \<Rightarrow> vref \<Rightarrow> nat \<Rightarrow> vbank \<Rightarrow> vstate" where
  "mla_index_v vform dst src1 src2 index B =
     (let temp = Temp 102;
          indexform = VectorFormatFillQ vform;
          B = snd (dup_element_v indexform (LogicV temp) src2 index (SimVRegister_init temp B))
      in mla_v vform dst (lv_register dst) src1 temp B)"

definition mls_index_v :: "VectorFormat \<Rightarrow> LogicVRegister \<Rightarrow> vref \<Rightarrow> vref \<Rightarrow> nat \<Rightarrow> vbank \<Rightarrow> vstate" where
  "mls_index_v vform dst src1 src2 index B =
     (let temp = Temp 103;
          indexform = VectorFormatFillQ vform;
          B = snd (dup_element_v indexform (LogicV temp) src2 index (SimVRegister_init temp B))
      in mls_v vform dst (lv_register dst) src1 temp B)"

definition sqdmull_index_v :: "VectorFormat \<Rightarrow> LogicVRegister \<Rightarrow> vref \<Rightarrow> vref \<Rightarrow> nat \<Rightarrow> vbank \<Rightarrow> vstate" where
  "sqdmull_index_v vform dst src1 src2 index B =
     (let temp = Temp 104;
          indexform = VectorFormatHalfWidthDoubleLanes (VectorFormatFillQ vform);
          B = snd (dup_element_v indexform (LogicV temp) src2 index (SimVRegister_init temp B))
      in sqdmull_v vform dst src1 temp False B)"

definition sqdmlal_index_v :: "VectorFormat \<Rightarrow> LogicVRegister \<Rightarrow> vref \<Rightarrow> vref \<Rightarrow> nat \<Rightarrow> vbank \<Rightarrow> vstate" where
  "sqdmlal_index_v vform dst src1 src2 index B =
     (let temp = Temp 105;
          indexform = VectorFormatHalfWidthDoubleLanes (VectorFormatFillQ vform);
          B = snd (dup_element_v indexform (LogicV temp) src2 index (SimVRegister_init temp B))
      in sqdmlal_v vform dst src1 temp False B)"

definition sqdmlsl_index_v :: "VectorFormat \<Rightarrow> LogicVRegister \<Rightarrow> vref \<Rightarrow> vref \<Rightarrow> nat \<Rightarrow> vbank \<Rightarrow> vstate" where
  "sqdmlsl_index_v vform dst src1 src2 index B =
     (let temp = Temp 106;
          indexform = VectorFormatHalfWidthDoubleLanes (VectorFormatFillQ vform);
          B = snd (dup_element_v indexform (LogicV temp) src2 index (SimVRegister_init temp B))
      in sqdmlsl_v vform dst src1 temp False B)"

definition sqdmulh_index_v :: "VectorFormat \<Rightarrow> LogicVRegister \<Rightarrow> vref \<Rightarrow> vref \<Rightarrow> nat \<Rightarrow> vbank \<Rightarrow> vstate" where
  "sqdmulh_index_v vform dst src1 src2 index B =
     (let temp = Temp 107;
          indexform = VectorFormatFillQ vform;
          B = snd (dup_element_v indexform (LogicV temp) src2 index (SimVRegister_init temp B))
      in sqdmulh_v vform dst src1 temp B)"

definition sqrdmulh_index_v :: "VectorFormat \<Rightarrow> LogicVRegister \<Rightarrow> vref \<Rightarrow> vref \<Rightarrow> nat \<Rightarrow> vbank \<Rightarrow> vstate" where
  "sqrdmulh_index_v vform dst src1 src2 index B =
     (let temp = Temp 108;
          indexform = VectorFormatFillQ vform;
          B = snd (dup_element_v indexform (LogicV temp) src2 index (SimVRegister_init temp B))
      in sqrdmulh_v vform dst src1 temp True B)"

definition sqrdmlah_index_v :: "VectorFormat \<Rightarrow> LogicVRegister \<Rightarrow> vref \<Rightarrow> vref \<Rightarrow> nat \<Rightarrow> vbank \<Rightarrow> vstate" where
  "sqrdmlah_index_v vform dst src1 src2 index B =
     (let temp = Temp 109;
          indexform = VectorFormatFillQ vform;
          B = snd (dup_element_v indexform (LogicV temp) src2 index (SimVRegister_init temp B))
      in sqrdmlah_v vform dst src1 temp True B)"

definition sqrdmlsh_index_v :: "VectorFormat \<Rightarrow> LogicVRegister \<Rightarrow> vref \<Rightarrow> vref \<Rightarrow> nat \<Rightarrow> vbank \<Rightarrow> vstate" where
  "sqrdmlsh_index_v vform dst src1 src2 index B =
     (let temp = Temp 110;
          indexform = VectorFormatFillQ vform;
          B = snd (dup_element_v indexform (LogicV temp) src2 index (SimVRegister_init temp B))
      in sqrdmlsh_v vform dst src1 temp True B)"

end
