(* ===== verification/Sim_Permute.thy ===== *)
theory Sim_Permute
  imports Sim_Widen
begin

text \<open>
  Moves of lanes of \<open>src/aarch64/logic-aarch64.cc\<close>: transposition, interleaving, extraction,
  reversal, insertion and table lookup, as in \<open>Sim_Logic\<close>; and comparison with an immediate.
\<close>

section \<open>Transposition and interleaving\<close>

definition trn1_v :: "VectorFormat \<Rightarrow> LogicVRegister \<Rightarrow> vref \<Rightarrow> vref \<Rightarrow> vbank \<Rightarrow> vstate" where
  "trn1_v vform dst src1 src2 B =
     (let lane_count = LaneCount vform;
          pairs = lane_count div 2;
          result = (\<lambda>k. let j = k div 2 in
            if k \<ge> 2 * pairs then 0 else if even k then LUint vform B src1 (2 * j) else LUint vform B src2 (2 * j))
      in (dst, SetUintArray vform (lv_register dst) result B))"

definition trn2_v :: "VectorFormat \<Rightarrow> LogicVRegister \<Rightarrow> vref \<Rightarrow> vref \<Rightarrow> vbank \<Rightarrow> vstate" where
  "trn2_v vform dst src1 src2 B =
     (let lane_count = LaneCount vform;
          pairs = lane_count div 2;
          result = (\<lambda>k. let j = k div 2 in
            if k \<ge> 2 * pairs then 0 else if even k then LUint vform B src1 (2 * j + 1) else LUint vform B src2 (2 * j + 1))
      in (dst, SetUintArray vform (lv_register dst) result B))"

definition zip1_v :: "VectorFormat \<Rightarrow> LogicVRegister \<Rightarrow> vref \<Rightarrow> vref \<Rightarrow> vbank \<Rightarrow> vstate" where
  "zip1_v vform dst src1 src2 B =
     (let lane_count = LaneCount vform;
          pairs = lane_count div 2;
          result = (\<lambda>k. let j = k div 2 in
            if k \<ge> 2 * pairs then 0 else if even k then LUint vform B src1 (j) else LUint vform B src2 (j))
      in (dst, SetUintArray vform (lv_register dst) result B))"

definition zip2_v :: "VectorFormat \<Rightarrow> LogicVRegister \<Rightarrow> vref \<Rightarrow> vref \<Rightarrow> vbank \<Rightarrow> vstate" where
  "zip2_v vform dst src1 src2 B =
     (let lane_count = LaneCount vform;
          pairs = lane_count div 2;
          result = (\<lambda>k. let j = k div 2 in
            if k \<ge> 2 * pairs then 0 else if even k then LUint vform B src1 (pairs + j) else LUint vform B src2 (pairs + j))
      in (dst, SetUintArray vform (lv_register dst) result B))"

section \<open>Extraction and reversal\<close>

definition ext_v :: "VectorFormat \<Rightarrow> LogicVRegister \<Rightarrow> vref \<Rightarrow> vref \<Rightarrow> nat \<Rightarrow> vbank \<Rightarrow> vstate" where
  "ext_v vform dst src1 src2 index B =
     (let lane_count = LaneCount vform;
          result = (\<lambda>k. if k < lane_count - index then take_bit 8 (LUint vform B src1 (k + index))
                        else take_bit 8 (LUint vform B src2 (k - (lane_count - index))))
      in (dst, SetUintArray vform (lv_register dst) result B))"

definition rev_byte_v :: "VectorFormat \<Rightarrow> LogicVRegister \<Rightarrow> vref \<Rightarrow> nat \<Rightarrow> vbank \<Rightarrow> vstate" where
  "rev_byte_v vform dst src rev_size B =
     (let lanes_per_loop = rev_size div LaneSizeInBytesFromFormat vform;
          result = (\<lambda>k. let i = (k div lanes_per_loop) * lanes_per_loop; j = lanes_per_loop - 1 - (k - i)
                    in LUint vform B src (i + j))
      in (dst, SetUintArray vform (lv_register dst) result B))"

definition rev16_v :: "VectorFormat \<Rightarrow> LogicVRegister \<Rightarrow> vref \<Rightarrow> vbank \<Rightarrow> vstate" where "rev16_v vform dst src B = rev_byte_v vform dst src 2 B"

definition rev32_v :: "VectorFormat \<Rightarrow> LogicVRegister \<Rightarrow> vref \<Rightarrow> vbank \<Rightarrow> vstate" where "rev32_v vform dst src B = rev_byte_v vform dst src 4 B"

definition rev64_v :: "VectorFormat \<Rightarrow> LogicVRegister \<Rightarrow> vref \<Rightarrow> vbank \<Rightarrow> vstate" where "rev64_v vform dst src B = rev_byte_v vform dst src 8 B"

section \<open>Moves and insertion\<close>

definition mov_v :: "VectorFormat \<Rightarrow> LogicVRegister \<Rightarrow> vref \<Rightarrow> vbank \<Rightarrow> vstate" where
  "mov_v vform dst src B =
     for_lanes (LaneCount vform)
       (\<lambda>lane (d, B). (d, SetUint vform (lv_register d) lane (LUint vform B src lane) B))
       (dst, ClearForWrite vform (lv_register dst) B)"

definition ins_element_v :: "VectorFormat \<Rightarrow> LogicVRegister \<Rightarrow> nat \<Rightarrow> vref \<Rightarrow> nat \<Rightarrow> vbank \<Rightarrow> vstate" where
  "ins_element_v vform dst dst_index src src_index B =
     (dst, SetUint vform (lv_register dst) dst_index (LUint vform B src src_index) B)"

definition ins_immediate_v :: "VectorFormat \<Rightarrow> LogicVRegister \<Rightarrow> nat \<Rightarrow> u64 \<Rightarrow> vbank \<Rightarrow> vstate" where
  "ins_immediate_v vform dst dst_index imm B =
     (dst, SetUint vform (lv_register dst) dst_index (imm AND MaxUintFromFormat vform) B)"

section \<open>Table lookup\<close>

text \<open>The tables are appended into one array, of which an index past the end leaves the default.\<close>

definition Table_v :: "VectorFormat \<Rightarrow> LogicVRegister \<Rightarrow> vref \<Rightarrow> bool \<Rightarrow> vref list \<Rightarrow> vbank \<Rightarrow> vstate" where
  "Table_v vform dst ind zero_out_of_bounds tabs B =
     (let vform_tab = (if vform = kFormat8B then kFormat16B else vform);
          table = concat (map (\<lambda>tab. map (LUint vform_tab B tab) [0..<LaneCount vform_tab]) tabs);
          tab_size = length table;
          result = (\<lambda>i. let index = LUint vform B ind i in
            if index < of_nat tab_size then table ! unat index
            else if zero_out_of_bounds then 0 else LUint vform B (lv_register dst) i)
      in (dst, SetUintArray vform (lv_register dst) result B))"

definition tbl_v :: "VectorFormat \<Rightarrow> LogicVRegister \<Rightarrow> vref list \<Rightarrow> vref \<Rightarrow> vbank \<Rightarrow> vstate" where
  "tbl_v vform dst tabs ind B = Table_v vform dst ind True tabs B"

definition tbx_v :: "VectorFormat \<Rightarrow> LogicVRegister \<Rightarrow> vref list \<Rightarrow> vref \<Rightarrow> vbank \<Rightarrow> vstate" where
  "tbx_v vform dst tabs ind B = Table_v vform dst ind False tabs B"

section \<open>Comparison with an immediate\<close>

definition cmp_imm_v :: "VectorFormat \<Rightarrow> LogicVRegister \<Rightarrow> vref \<Rightarrow> u64 \<Rightarrow> vcond \<Rightarrow> vbank \<Rightarrow> vstate" where
  "cmp_imm_v vform dst src1 imm cond B =
     (let temp = Temp 111;
          B = snd (dup_immediate_v vform (LogicV temp) imm (SimVRegister_init temp B))
      in cmp_v vform dst src1 temp cond B)"

end
