(* ===== verification/Constants_Neon.thy ===== *)
theory Constants_Neon
  imports Constants_AArch64
begin

text \<open>
  The operation codes of \<open>src/aarch64/constants-aarch64.h\<close> that the
  vector visitors dispatch on, under the names they have in the source.
\<close>

abbreviation NEON_Q :: u32 where "NEON_Q \<equiv> 0x40000000"
abbreviation NEON2RegMiscOpcode :: u32 where "NEON2RegMiscOpcode \<equiv> 0x0001F000"
abbreviation NEON3SameMask :: u32 where "NEON3SameMask \<equiv> 0xBF20FC00"
abbreviation NEON_ADD :: u32 where "NEON_ADD \<equiv> 0x0E208400"
abbreviation NEON_ADDP :: u32 where "NEON_ADDP \<equiv> 0x0E20BC00"
abbreviation NEON_SHADD :: u32 where "NEON_SHADD \<equiv> 0x0E200400"
abbreviation NEON_SHSUB :: u32 where "NEON_SHSUB \<equiv> 0x0E202400"
abbreviation NEON_SRHADD :: u32 where "NEON_SRHADD \<equiv> 0x0E201400"
abbreviation NEON_CMEQ :: u32 where "NEON_CMEQ \<equiv> 0x2E208C00"
abbreviation NEON_CMGE :: u32 where "NEON_CMGE \<equiv> 0x0E203C00"
abbreviation NEON_CMGT :: u32 where "NEON_CMGT \<equiv> 0x0E203400"
abbreviation NEON_CMHI :: u32 where "NEON_CMHI \<equiv> 0x2E203400"
abbreviation NEON_CMHS :: u32 where "NEON_CMHS \<equiv> 0x2E203C00"
abbreviation NEON_CMTST :: u32 where "NEON_CMTST \<equiv> 0x0E208C00"
abbreviation NEON_MLA :: u32 where "NEON_MLA \<equiv> 0x0E209400"
abbreviation NEON_MLS :: u32 where "NEON_MLS \<equiv> 0x2E209400"
abbreviation NEON_MUL :: u32 where "NEON_MUL \<equiv> 0x0E209C00"
abbreviation NEON_PMUL :: u32 where "NEON_PMUL \<equiv> 0x2E209C00"
abbreviation NEON_SRSHL :: u32 where "NEON_SRSHL \<equiv> 0x0E205400"
abbreviation NEON_SQSHL :: u32 where "NEON_SQSHL \<equiv> 0x0E204C00"
abbreviation NEON_SQRSHL :: u32 where "NEON_SQRSHL \<equiv> 0x0E205C00"
abbreviation NEON_SSHL :: u32 where "NEON_SSHL \<equiv> 0x0E204400"
abbreviation NEON_SMAX :: u32 where "NEON_SMAX \<equiv> 0x0E206400"
abbreviation NEON_SMAXP :: u32 where "NEON_SMAXP \<equiv> 0x0E20A400"
abbreviation NEON_SMIN :: u32 where "NEON_SMIN \<equiv> 0x0E206C00"
abbreviation NEON_SMINP :: u32 where "NEON_SMINP \<equiv> 0x0E20AC00"
abbreviation NEON_SABD :: u32 where "NEON_SABD \<equiv> 0x0E207400"
abbreviation NEON_SABA :: u32 where "NEON_SABA \<equiv> 0x0E207C00"
abbreviation NEON_UABD :: u32 where "NEON_UABD \<equiv> 0x2E207400"
abbreviation NEON_UABA :: u32 where "NEON_UABA \<equiv> 0x2E207C00"
abbreviation NEON_SQADD :: u32 where "NEON_SQADD \<equiv> 0x0E200C00"
abbreviation NEON_SQSUB :: u32 where "NEON_SQSUB \<equiv> 0x0E202C00"
abbreviation NEON_SUB :: u32 where "NEON_SUB \<equiv> 0x2E208400"
abbreviation NEON_UHADD :: u32 where "NEON_UHADD \<equiv> 0x2E200400"
abbreviation NEON_UHSUB :: u32 where "NEON_UHSUB \<equiv> 0x2E202400"
abbreviation NEON_URHADD :: u32 where "NEON_URHADD \<equiv> 0x2E201400"
abbreviation NEON_UMAX :: u32 where "NEON_UMAX \<equiv> 0x2E206400"
abbreviation NEON_UMAXP :: u32 where "NEON_UMAXP \<equiv> 0x2E20A400"
abbreviation NEON_UMIN :: u32 where "NEON_UMIN \<equiv> 0x2E206C00"
abbreviation NEON_UMINP :: u32 where "NEON_UMINP \<equiv> 0x2E20AC00"
abbreviation NEON_URSHL :: u32 where "NEON_URSHL \<equiv> 0x2E205400"
abbreviation NEON_UQADD :: u32 where "NEON_UQADD \<equiv> 0x2E200C00"
abbreviation NEON_UQRSHL :: u32 where "NEON_UQRSHL \<equiv> 0x2E205C00"
abbreviation NEON_UQSHL :: u32 where "NEON_UQSHL \<equiv> 0x2E204C00"
abbreviation NEON_UQSUB :: u32 where "NEON_UQSUB \<equiv> 0x2E202C00"
abbreviation NEON_USHL :: u32 where "NEON_USHL \<equiv> 0x2E204400"
abbreviation NEON_SQDMULH :: u32 where "NEON_SQDMULH \<equiv> 0x0E20B400"
abbreviation NEON_SQRDMULH :: u32 where "NEON_SQRDMULH \<equiv> 0x2E20B400"
abbreviation NEON3SameFPFixed :: u32 where "NEON3SameFPFixed \<equiv> 0x0E20C400"
abbreviation NEON3SameFPFMask :: u32 where "NEON3SameFPFMask \<equiv> 0x9F20C400"
abbreviation NEON3SameLogicalFixed :: u32 where "NEON3SameLogicalFixed \<equiv> 0x0E201C00"
abbreviation NEON3SameLogicalFMask :: u32 where "NEON3SameLogicalFMask \<equiv> 0x9F20FC00"
abbreviation NEON3SameLogicalMask :: u32 where "NEON3SameLogicalMask \<equiv> 0xBFE0FC00"
abbreviation NEON_AND :: u32 where "NEON_AND \<equiv> 0x0E201C00"
abbreviation NEON_ORR :: u32 where "NEON_ORR \<equiv> 0x0EA01C00"
abbreviation NEON_ORN :: u32 where "NEON_ORN \<equiv> 0x0EE01C00"
abbreviation NEON_EOR :: u32 where "NEON_EOR \<equiv> 0x2E201C00"
abbreviation NEON_BIC :: u32 where "NEON_BIC \<equiv> 0x0E601C00"
abbreviation NEON_BIF :: u32 where "NEON_BIF \<equiv> 0x2EE01C00"
abbreviation NEON_BIT :: u32 where "NEON_BIT \<equiv> 0x2EA01C00"
abbreviation NEON_BSL :: u32 where "NEON_BSL \<equiv> 0x2E601C00"
abbreviation NEON3DifferentMask :: u32 where "NEON3DifferentMask \<equiv> 0xFF20FC00"
abbreviation NEON_ADDHN :: u32 where "NEON_ADDHN \<equiv> 0x0E204000"
abbreviation NEON_ADDHN2 :: u32 where "NEON_ADDHN2 \<equiv> 0x4E204000"
abbreviation NEON_PMULL :: u32 where "NEON_PMULL \<equiv> 0x0E20E000"
abbreviation NEON_PMULL2 :: u32 where "NEON_PMULL2 \<equiv> 0x4E20E000"
abbreviation NEON_RADDHN :: u32 where "NEON_RADDHN \<equiv> 0x2E204000"
abbreviation NEON_RADDHN2 :: u32 where "NEON_RADDHN2 \<equiv> 0x6E204000"
abbreviation NEON_RSUBHN :: u32 where "NEON_RSUBHN \<equiv> 0x2E206000"
abbreviation NEON_RSUBHN2 :: u32 where "NEON_RSUBHN2 \<equiv> 0x6E206000"
abbreviation NEON_SABAL :: u32 where "NEON_SABAL \<equiv> 0x0E205000"
abbreviation NEON_SABAL2 :: u32 where "NEON_SABAL2 \<equiv> 0x4E205000"
abbreviation NEON_SABDL :: u32 where "NEON_SABDL \<equiv> 0x0E207000"
abbreviation NEON_SABDL2 :: u32 where "NEON_SABDL2 \<equiv> 0x4E207000"
abbreviation NEON_SADDL :: u32 where "NEON_SADDL \<equiv> 0x0E200000"
abbreviation NEON_SADDL2 :: u32 where "NEON_SADDL2 \<equiv> 0x4E200000"
abbreviation NEON_SADDW :: u32 where "NEON_SADDW \<equiv> 0x0E201000"
abbreviation NEON_SADDW2 :: u32 where "NEON_SADDW2 \<equiv> 0x4E201000"
abbreviation NEON_SMLAL :: u32 where "NEON_SMLAL \<equiv> 0x0E208000"
abbreviation NEON_SMLAL2 :: u32 where "NEON_SMLAL2 \<equiv> 0x4E208000"
abbreviation NEON_SMLSL :: u32 where "NEON_SMLSL \<equiv> 0x0E20A000"
abbreviation NEON_SMLSL2 :: u32 where "NEON_SMLSL2 \<equiv> 0x4E20A000"
abbreviation NEON_SMULL :: u32 where "NEON_SMULL \<equiv> 0x0E20C000"
abbreviation NEON_SMULL2 :: u32 where "NEON_SMULL2 \<equiv> 0x4E20C000"
abbreviation NEON_SSUBL :: u32 where "NEON_SSUBL \<equiv> 0x0E202000"
abbreviation NEON_SSUBL2 :: u32 where "NEON_SSUBL2 \<equiv> 0x4E202000"
abbreviation NEON_SSUBW :: u32 where "NEON_SSUBW \<equiv> 0x0E203000"
abbreviation NEON_SSUBW2 :: u32 where "NEON_SSUBW2 \<equiv> 0x4E203000"
abbreviation NEON_SQDMLAL :: u32 where "NEON_SQDMLAL \<equiv> 0x0E209000"
abbreviation NEON_SQDMLAL2 :: u32 where "NEON_SQDMLAL2 \<equiv> 0x4E209000"
abbreviation NEON_SQDMLSL :: u32 where "NEON_SQDMLSL \<equiv> 0x0E20B000"
abbreviation NEON_SQDMLSL2 :: u32 where "NEON_SQDMLSL2 \<equiv> 0x4E20B000"
abbreviation NEON_SQDMULL :: u32 where "NEON_SQDMULL \<equiv> 0x0E20D000"
abbreviation NEON_SQDMULL2 :: u32 where "NEON_SQDMULL2 \<equiv> 0x4E20D000"
abbreviation NEON_SUBHN :: u32 where "NEON_SUBHN \<equiv> 0x0E206000"
abbreviation NEON_SUBHN2 :: u32 where "NEON_SUBHN2 \<equiv> 0x4E206000"
abbreviation NEON_UABAL :: u32 where "NEON_UABAL \<equiv> 0x2E205000"
abbreviation NEON_UABAL2 :: u32 where "NEON_UABAL2 \<equiv> 0x6E205000"
abbreviation NEON_UABDL :: u32 where "NEON_UABDL \<equiv> 0x2E207000"
abbreviation NEON_UABDL2 :: u32 where "NEON_UABDL2 \<equiv> 0x6E207000"
abbreviation NEON_UADDL :: u32 where "NEON_UADDL \<equiv> 0x2E200000"
abbreviation NEON_UADDL2 :: u32 where "NEON_UADDL2 \<equiv> 0x6E200000"
abbreviation NEON_UADDW :: u32 where "NEON_UADDW \<equiv> 0x2E201000"
abbreviation NEON_UADDW2 :: u32 where "NEON_UADDW2 \<equiv> 0x6E201000"
abbreviation NEON_UMLAL :: u32 where "NEON_UMLAL \<equiv> 0x2E208000"
abbreviation NEON_UMLAL2 :: u32 where "NEON_UMLAL2 \<equiv> 0x6E208000"
abbreviation NEON_UMLSL :: u32 where "NEON_UMLSL \<equiv> 0x2E20A000"
abbreviation NEON_UMLSL2 :: u32 where "NEON_UMLSL2 \<equiv> 0x6E20A000"
abbreviation NEON_UMULL :: u32 where "NEON_UMULL \<equiv> 0x2E20C000"
abbreviation NEON_UMULL2 :: u32 where "NEON_UMULL2 \<equiv> 0x6E20C000"
abbreviation NEON_USUBL :: u32 where "NEON_USUBL \<equiv> 0x2E202000"
abbreviation NEON_USUBL2 :: u32 where "NEON_USUBL2 \<equiv> 0x6E202000"
abbreviation NEON_USUBW :: u32 where "NEON_USUBW \<equiv> 0x2E203000"
abbreviation NEON_USUBW2 :: u32 where "NEON_USUBW2 \<equiv> 0x6E203000"
abbreviation NEONAcrossLanesMask :: u32 where "NEONAcrossLanesMask \<equiv> 0xBF3FFC00"
abbreviation NEON_ADDV :: u32 where "NEON_ADDV \<equiv> 0x0E31B800"
abbreviation NEON_SADDLV :: u32 where "NEON_SADDLV \<equiv> 0x0E303800"
abbreviation NEON_UADDLV :: u32 where "NEON_UADDLV \<equiv> 0x2E303800"
abbreviation NEON_SMAXV :: u32 where "NEON_SMAXV \<equiv> 0x0E30A800"
abbreviation NEON_SMINV :: u32 where "NEON_SMINV \<equiv> 0x0E31A800"
abbreviation NEON_UMAXV :: u32 where "NEON_UMAXV \<equiv> 0x2E30A800"
abbreviation NEON_UMINV :: u32 where "NEON_UMINV \<equiv> 0x2E31A800"
abbreviation NEONAcrossLanesFP16Fixed :: u32 where "NEONAcrossLanesFP16Fixed \<equiv> 0x0E30C800"
abbreviation NEONAcrossLanesFP16FMask :: u32 where "NEONAcrossLanesFP16FMask \<equiv> 0xBF3ECC00"
abbreviation NEONAcrossLanesFPFixed :: u32 where "NEONAcrossLanesFPFixed \<equiv> 0x2E30C800"
abbreviation NEONAcrossLanesFPFMask :: u32 where "NEONAcrossLanesFPFMask \<equiv> 0xBF3ECC00"
abbreviation NEONCopyInsElementMask :: u32 where "NEONCopyInsElementMask \<equiv> 0x7FE08400"
abbreviation NEONCopyInsGeneralMask :: u32 where "NEONCopyInsGeneralMask \<equiv> 0x7FE0FC00"
abbreviation NEONCopyDupElementMask :: u32 where "NEONCopyDupElementMask \<equiv> 0x3FE0FC00"
abbreviation NEONCopyDupGeneralMask :: u32 where "NEONCopyDupGeneralMask \<equiv> 0x3FE0FC00"
abbreviation NEONCopyUmovMask :: u32 where "NEONCopyUmovMask \<equiv> 0x3FE0FC00"
abbreviation NEON_INS_ELEMENT :: u32 where "NEON_INS_ELEMENT \<equiv> 0x6E000400"
abbreviation NEON_INS_GENERAL :: u32 where "NEON_INS_GENERAL \<equiv> 0x4E001C00"
abbreviation NEON_DUP_ELEMENT :: u32 where "NEON_DUP_ELEMENT \<equiv> 0x0E000400"
abbreviation NEON_DUP_GENERAL :: u32 where "NEON_DUP_GENERAL \<equiv> 0x0E000C00"
abbreviation NEON_SMOV :: u32 where "NEON_SMOV \<equiv> 0x0E002C00"
abbreviation NEON_UMOV :: u32 where "NEON_UMOV \<equiv> 0x0E003C00"
abbreviation NEONExtractMask :: u32 where "NEONExtractMask \<equiv> 0xBFE08400"
abbreviation NEON_EXT :: u32 where "NEON_EXT \<equiv> 0x2E000000"
abbreviation NEON_LD1_1v :: u32 where "NEON_LD1_1v \<equiv> 0x0C407000"
abbreviation NEON_LD1_2v :: u32 where "NEON_LD1_2v \<equiv> 0x0C40A000"
abbreviation NEON_LD1_3v :: u32 where "NEON_LD1_3v \<equiv> 0x0C406000"
abbreviation NEON_LD1_4v :: u32 where "NEON_LD1_4v \<equiv> 0x0C402000"
abbreviation NEON_LD2 :: u32 where "NEON_LD2 \<equiv> 0x0C408000"
abbreviation NEON_LD3 :: u32 where "NEON_LD3 \<equiv> 0x0C404000"
abbreviation NEON_LD4 :: u32 where "NEON_LD4 \<equiv> 0x0C400000"
abbreviation NEON_ST1_1v :: u32 where "NEON_ST1_1v \<equiv> 0x0C007000"
abbreviation NEON_ST1_2v :: u32 where "NEON_ST1_2v \<equiv> 0x0C00A000"
abbreviation NEON_ST1_3v :: u32 where "NEON_ST1_3v \<equiv> 0x0C006000"
abbreviation NEON_ST1_4v :: u32 where "NEON_ST1_4v \<equiv> 0x0C002000"
abbreviation NEON_ST2 :: u32 where "NEON_ST2 \<equiv> 0x0C008000"
abbreviation NEON_ST3 :: u32 where "NEON_ST3 \<equiv> 0x0C004000"
abbreviation NEON_ST4 :: u32 where "NEON_ST4 \<equiv> 0x0C000000"
abbreviation NEONLoadStoreMultiStructPostIndexMask :: u32 where "NEONLoadStoreMultiStructPostIndexMask \<equiv> 0xBFE0F000"
abbreviation NEON_LD1_1v_post :: u32 where "NEON_LD1_1v_post \<equiv> 0x0CC07000"
abbreviation NEON_LD1_2v_post :: u32 where "NEON_LD1_2v_post \<equiv> 0x0CC0A000"
abbreviation NEON_LD1_3v_post :: u32 where "NEON_LD1_3v_post \<equiv> 0x0CC06000"
abbreviation NEON_LD1_4v_post :: u32 where "NEON_LD1_4v_post \<equiv> 0x0CC02000"
abbreviation NEON_LD2_post :: u32 where "NEON_LD2_post \<equiv> 0x0CC08000"
abbreviation NEON_LD3_post :: u32 where "NEON_LD3_post \<equiv> 0x0CC04000"
abbreviation NEON_LD4_post :: u32 where "NEON_LD4_post \<equiv> 0x0CC00000"
abbreviation NEON_ST1_1v_post :: u32 where "NEON_ST1_1v_post \<equiv> 0x0C807000"
abbreviation NEON_ST1_2v_post :: u32 where "NEON_ST1_2v_post \<equiv> 0x0C80A000"
abbreviation NEON_ST1_3v_post :: u32 where "NEON_ST1_3v_post \<equiv> 0x0C806000"
abbreviation NEON_ST1_4v_post :: u32 where "NEON_ST1_4v_post \<equiv> 0x0C802000"
abbreviation NEON_ST2_post :: u32 where "NEON_ST2_post \<equiv> 0x0C808000"
abbreviation NEON_ST3_post :: u32 where "NEON_ST3_post \<equiv> 0x0C804000"
abbreviation NEON_ST4_post :: u32 where "NEON_ST4_post \<equiv> 0x0C800000"
abbreviation NEONLoadStoreSingle1 :: u32 where "NEONLoadStoreSingle1 \<equiv> 0x00000000"
abbreviation NEONLoadStoreSingle2 :: u32 where "NEONLoadStoreSingle2 \<equiv> 0x00200000"
abbreviation NEONLoadStoreSingle3 :: u32 where "NEONLoadStoreSingle3 \<equiv> 0x00002000"
abbreviation NEONLoadStoreSingle4 :: u32 where "NEONLoadStoreSingle4 \<equiv> 0x00202000"
abbreviation NEONLoadStoreSingleLenMask :: u32 where "NEONLoadStoreSingleLenMask \<equiv> 0x00202000"
abbreviation NEON_LD1_b :: u32 where "NEON_LD1_b \<equiv> 0x0D400000"
abbreviation NEON_LD1_h :: u32 where "NEON_LD1_h \<equiv> 0x0D404000"
abbreviation NEON_LD1_s :: u32 where "NEON_LD1_s \<equiv> 0x0D408000"
abbreviation NEON_LD1R :: u32 where "NEON_LD1R \<equiv> 0x0D40C000"
abbreviation NEON_ST1_b :: u32 where "NEON_ST1_b \<equiv> 0x0D000000"
abbreviation NEON_ST1_h :: u32 where "NEON_ST1_h \<equiv> 0x0D004000"
abbreviation NEON_ST1_s :: u32 where "NEON_ST1_s \<equiv> 0x0D008000"
abbreviation NEON_LD2_b :: u32 where "NEON_LD2_b \<equiv> 0x0D600000"
abbreviation NEON_LD2_h :: u32 where "NEON_LD2_h \<equiv> 0x0D604000"
abbreviation NEON_LD2_s :: u32 where "NEON_LD2_s \<equiv> 0x0D608000"
abbreviation NEON_LD2R :: u32 where "NEON_LD2R \<equiv> 0x0D60C000"
abbreviation NEON_ST2_b :: u32 where "NEON_ST2_b \<equiv> 0x0D200000"
abbreviation NEON_ST2_h :: u32 where "NEON_ST2_h \<equiv> 0x0D204000"
abbreviation NEON_ST2_s :: u32 where "NEON_ST2_s \<equiv> 0x0D208000"
abbreviation NEON_LD3_b :: u32 where "NEON_LD3_b \<equiv> 0x0D402000"
abbreviation NEON_LD3_h :: u32 where "NEON_LD3_h \<equiv> 0x0D406000"
abbreviation NEON_LD3_s :: u32 where "NEON_LD3_s \<equiv> 0x0D40A000"
abbreviation NEON_LD3R :: u32 where "NEON_LD3R \<equiv> 0x0D40E000"
abbreviation NEON_ST3_b :: u32 where "NEON_ST3_b \<equiv> 0x0D002000"
abbreviation NEON_ST3_h :: u32 where "NEON_ST3_h \<equiv> 0x0D006000"
abbreviation NEON_ST3_s :: u32 where "NEON_ST3_s \<equiv> 0x0D00A000"
abbreviation NEON_LD4_b :: u32 where "NEON_LD4_b \<equiv> 0x0D602000"
abbreviation NEON_LD4_h :: u32 where "NEON_LD4_h \<equiv> 0x0D606000"
abbreviation NEON_LD4_s :: u32 where "NEON_LD4_s \<equiv> 0x0D60A000"
abbreviation NEON_LD4R :: u32 where "NEON_LD4R \<equiv> 0x0D60E000"
abbreviation NEON_ST4_b :: u32 where "NEON_ST4_b \<equiv> 0x0D202000"
abbreviation NEON_ST4_h :: u32 where "NEON_ST4_h \<equiv> 0x0D206000"
abbreviation NEON_ST4_s :: u32 where "NEON_ST4_s \<equiv> 0x0D20A000"
abbreviation NEONLoadStoreSingleStructPostIndexMask :: u32 where "NEONLoadStoreSingleStructPostIndexMask \<equiv> 0xBFE0E000"
abbreviation NEON_LD1_b_post :: u32 where "NEON_LD1_b_post \<equiv> 0x0DC00000"
abbreviation NEON_LD1_h_post :: u32 where "NEON_LD1_h_post \<equiv> 0x0DC04000"
abbreviation NEON_LD1_s_post :: u32 where "NEON_LD1_s_post \<equiv> 0x0DC08000"
abbreviation NEON_LD1R_post :: u32 where "NEON_LD1R_post \<equiv> 0x0DC0C000"
abbreviation NEON_ST1_b_post :: u32 where "NEON_ST1_b_post \<equiv> 0x0D800000"
abbreviation NEON_ST1_h_post :: u32 where "NEON_ST1_h_post \<equiv> 0x0D804000"
abbreviation NEON_ST1_s_post :: u32 where "NEON_ST1_s_post \<equiv> 0x0D808000"
abbreviation NEON_LD2_b_post :: u32 where "NEON_LD2_b_post \<equiv> 0x0DE00000"
abbreviation NEON_LD2_h_post :: u32 where "NEON_LD2_h_post \<equiv> 0x0DE04000"
abbreviation NEON_LD2_s_post :: u32 where "NEON_LD2_s_post \<equiv> 0x0DE08000"
abbreviation NEON_LD2R_post :: u32 where "NEON_LD2R_post \<equiv> 0x0DE0C000"
abbreviation NEON_ST2_b_post :: u32 where "NEON_ST2_b_post \<equiv> 0x0DA00000"
abbreviation NEON_ST2_h_post :: u32 where "NEON_ST2_h_post \<equiv> 0x0DA04000"
abbreviation NEON_ST2_s_post :: u32 where "NEON_ST2_s_post \<equiv> 0x0DA08000"
abbreviation NEON_LD3_b_post :: u32 where "NEON_LD3_b_post \<equiv> 0x0DC02000"
abbreviation NEON_LD3_h_post :: u32 where "NEON_LD3_h_post \<equiv> 0x0DC06000"
abbreviation NEON_LD3_s_post :: u32 where "NEON_LD3_s_post \<equiv> 0x0DC0A000"
abbreviation NEON_LD3R_post :: u32 where "NEON_LD3R_post \<equiv> 0x0DC0E000"
abbreviation NEON_ST3_b_post :: u32 where "NEON_ST3_b_post \<equiv> 0x0D802000"
abbreviation NEON_ST3_h_post :: u32 where "NEON_ST3_h_post \<equiv> 0x0D806000"
abbreviation NEON_ST3_s_post :: u32 where "NEON_ST3_s_post \<equiv> 0x0D80A000"
abbreviation NEON_LD4_b_post :: u32 where "NEON_LD4_b_post \<equiv> 0x0DE02000"
abbreviation NEON_LD4_h_post :: u32 where "NEON_LD4_h_post \<equiv> 0x0DE06000"
abbreviation NEON_LD4_s_post :: u32 where "NEON_LD4_s_post \<equiv> 0x0DE0A000"
abbreviation NEON_LD4R_post :: u32 where "NEON_LD4R_post \<equiv> 0x0DE0E000"
abbreviation NEON_ST4_b_post :: u32 where "NEON_ST4_b_post \<equiv> 0x0DA02000"
abbreviation NEON_ST4_h_post :: u32 where "NEON_ST4_h_post \<equiv> 0x0DA06000"
abbreviation NEON_ST4_s_post :: u32 where "NEON_ST4_s_post \<equiv> 0x0DA0A000"
abbreviation NEONModifiedImmediate_MOVI :: u32 where "NEONModifiedImmediate_MOVI \<equiv> 0x0F000400"
abbreviation NEONModifiedImmediate_MVNI :: u32 where "NEONModifiedImmediate_MVNI \<equiv> 0x2F000400"
abbreviation NEONModifiedImmediate_ORR :: u32 where "NEONModifiedImmediate_ORR \<equiv> 0x0F001400"
abbreviation NEONModifiedImmediate_BIC :: u32 where "NEONModifiedImmediate_BIC \<equiv> 0x2F001400"
abbreviation NEONShiftImmediateMask :: u32 where "NEONShiftImmediateMask \<equiv> 0xBF80FC00"
abbreviation NEON_SHL :: u32 where "NEON_SHL \<equiv> 0x0F005400"
abbreviation NEON_SSHLL :: u32 where "NEON_SSHLL \<equiv> 0x0F00A400"
abbreviation NEON_USHLL :: u32 where "NEON_USHLL \<equiv> 0x2F00A400"
abbreviation NEON_SLI :: u32 where "NEON_SLI \<equiv> 0x2F005400"
abbreviation NEON_SRI :: u32 where "NEON_SRI \<equiv> 0x2F004400"
abbreviation NEON_SHRN :: u32 where "NEON_SHRN \<equiv> 0x0F008400"
abbreviation NEON_RSHRN :: u32 where "NEON_RSHRN \<equiv> 0x0F008C00"
abbreviation NEON_UQSHRN :: u32 where "NEON_UQSHRN \<equiv> 0x2F009400"
abbreviation NEON_UQRSHRN :: u32 where "NEON_UQRSHRN \<equiv> 0x2F009C00"
abbreviation NEON_SQSHRN :: u32 where "NEON_SQSHRN \<equiv> 0x0F009400"
abbreviation NEON_SQRSHRN :: u32 where "NEON_SQRSHRN \<equiv> 0x0F009C00"
abbreviation NEON_SQSHRUN :: u32 where "NEON_SQSHRUN \<equiv> 0x2F008400"
abbreviation NEON_SQRSHRUN :: u32 where "NEON_SQRSHRUN \<equiv> 0x2F008C00"
abbreviation NEON_SSHR :: u32 where "NEON_SSHR \<equiv> 0x0F000400"
abbreviation NEON_SRSHR :: u32 where "NEON_SRSHR \<equiv> 0x0F002400"
abbreviation NEON_USHR :: u32 where "NEON_USHR \<equiv> 0x2F000400"
abbreviation NEON_URSHR :: u32 where "NEON_URSHR \<equiv> 0x2F002400"
abbreviation NEON_SSRA :: u32 where "NEON_SSRA \<equiv> 0x0F001400"
abbreviation NEON_SRSRA :: u32 where "NEON_SRSRA \<equiv> 0x0F003400"
abbreviation NEON_USRA :: u32 where "NEON_USRA \<equiv> 0x2F001400"
abbreviation NEON_URSRA :: u32 where "NEON_URSRA \<equiv> 0x2F003400"
abbreviation NEON_SQSHLU :: u32 where "NEON_SQSHLU \<equiv> 0x2F006400"
abbreviation NEON_SCVTF_imm :: u32 where "NEON_SCVTF_imm \<equiv> 0x0F00E400"
abbreviation NEON_UCVTF_imm :: u32 where "NEON_UCVTF_imm \<equiv> 0x2F00E400"
abbreviation NEON_FCVTZS_imm :: u32 where "NEON_FCVTZS_imm \<equiv> 0x0F00FC00"
abbreviation NEON_FCVTZU_imm :: u32 where "NEON_FCVTZU_imm \<equiv> 0x2F00FC00"
abbreviation NEON_SQSHL_imm :: u32 where "NEON_SQSHL_imm \<equiv> 0x0F007400"
abbreviation NEON_UQSHL_imm :: u32 where "NEON_UQSHL_imm \<equiv> 0x2F007400"
abbreviation NEONTableMask :: u32 where "NEONTableMask \<equiv> 0xBF20FC00"
abbreviation NEON_TBL_1v :: u32 where "NEON_TBL_1v \<equiv> 0x0E000000"
abbreviation NEON_TBL_2v :: u32 where "NEON_TBL_2v \<equiv> 0x0E002000"
abbreviation NEON_TBL_3v :: u32 where "NEON_TBL_3v \<equiv> 0x0E004000"
abbreviation NEON_TBL_4v :: u32 where "NEON_TBL_4v \<equiv> 0x0E006000"
abbreviation NEON_TBX_1v :: u32 where "NEON_TBX_1v \<equiv> 0x0E001000"
abbreviation NEON_TBX_2v :: u32 where "NEON_TBX_2v \<equiv> 0x0E003000"
abbreviation NEON_TBX_3v :: u32 where "NEON_TBX_3v \<equiv> 0x0E005000"
abbreviation NEON_TBX_4v :: u32 where "NEON_TBX_4v \<equiv> 0x0E007000"
abbreviation NEONPermMask :: u32 where "NEONPermMask \<equiv> 0x3F20FC00"
abbreviation NEON_UZP1 :: u32 where "NEON_UZP1 \<equiv> 0x0E001800"
abbreviation NEON_TRN1 :: u32 where "NEON_TRN1 \<equiv> 0x0E002800"
abbreviation NEON_ZIP1 :: u32 where "NEON_ZIP1 \<equiv> 0x0E003800"
abbreviation NEON_UZP2 :: u32 where "NEON_UZP2 \<equiv> 0x0E005800"
abbreviation NEON_TRN2 :: u32 where "NEON_TRN2 \<equiv> 0x0E006800"
abbreviation NEON_ZIP2 :: u32 where "NEON_ZIP2 \<equiv> 0x0E007800"
abbreviation NEONScalar2RegMiscMask :: u32 where "NEONScalar2RegMiscMask \<equiv> 0xFF3FFC00"
abbreviation NEON_CMGT_zero_scalar :: u32 where "NEON_CMGT_zero_scalar \<equiv> 0x5E208800"
abbreviation NEON_CMEQ_zero_scalar :: u32 where "NEON_CMEQ_zero_scalar \<equiv> 0x5E209800"
abbreviation NEON_CMLT_zero_scalar :: u32 where "NEON_CMLT_zero_scalar \<equiv> 0x5E20A800"
abbreviation NEON_CMGE_zero_scalar :: u32 where "NEON_CMGE_zero_scalar \<equiv> 0x7E208800"
abbreviation NEON_CMLE_zero_scalar :: u32 where "NEON_CMLE_zero_scalar \<equiv> 0x7E209800"
abbreviation NEON_ABS_scalar :: u32 where "NEON_ABS_scalar \<equiv> 0x5E20B800"
abbreviation NEON_SQABS_scalar :: u32 where "NEON_SQABS_scalar \<equiv> 0x5E207800"
abbreviation NEON_NEG_scalar :: u32 where "NEON_NEG_scalar \<equiv> 0x7E20B800"
abbreviation NEON_SQNEG_scalar :: u32 where "NEON_SQNEG_scalar \<equiv> 0x7E207800"
abbreviation NEON_SQXTN_scalar :: u32 where "NEON_SQXTN_scalar \<equiv> 0x5E214800"
abbreviation NEON_UQXTN_scalar :: u32 where "NEON_UQXTN_scalar \<equiv> 0x7E214800"
abbreviation NEON_SQXTUN_scalar :: u32 where "NEON_SQXTUN_scalar \<equiv> 0x7E212800"
abbreviation NEON_SUQADD_scalar :: u32 where "NEON_SUQADD_scalar \<equiv> 0x5E203800"
abbreviation NEON_USQADD_scalar :: u32 where "NEON_USQADD_scalar \<equiv> 0x7E203800"
abbreviation NEON_NEG_scalar_opcode :: u32 where "NEON_NEG_scalar_opcode \<equiv> 0x0000B000"
abbreviation NEONScalar2RegMiscFPMask :: u32 where "NEONScalar2RegMiscFPMask \<equiv> 0xFFBFFC00"
abbreviation NEON_FRSQRTE_scalar :: u32 where "NEON_FRSQRTE_scalar \<equiv> 0x7EA1D800"
abbreviation NEON_FRECPE_scalar :: u32 where "NEON_FRECPE_scalar \<equiv> 0x5EA1D800"
abbreviation NEON_SCVTF_scalar :: u32 where "NEON_SCVTF_scalar \<equiv> 0x5E21D800"
abbreviation NEON_UCVTF_scalar :: u32 where "NEON_UCVTF_scalar \<equiv> 0x7E21D800"
abbreviation NEON_FCMGT_zero_scalar :: u32 where "NEON_FCMGT_zero_scalar \<equiv> 0x5EA0C800"
abbreviation NEON_FCMEQ_zero_scalar :: u32 where "NEON_FCMEQ_zero_scalar \<equiv> 0x5EA0D800"
abbreviation NEON_FCMLT_zero_scalar :: u32 where "NEON_FCMLT_zero_scalar \<equiv> 0x5EA0E800"
abbreviation NEON_FCMGE_zero_scalar :: u32 where "NEON_FCMGE_zero_scalar \<equiv> 0x7EA0C800"
abbreviation NEON_FCMLE_zero_scalar :: u32 where "NEON_FCMLE_zero_scalar \<equiv> 0x7EA0D800"
abbreviation NEON_FRECPX_scalar :: u32 where "NEON_FRECPX_scalar \<equiv> 0x5EA1F800"
abbreviation NEON_FCVTNS_scalar :: u32 where "NEON_FCVTNS_scalar \<equiv> 0x5E21A800"
abbreviation NEON_FCVTNU_scalar :: u32 where "NEON_FCVTNU_scalar \<equiv> 0x7E21A800"
abbreviation NEON_FCVTPS_scalar :: u32 where "NEON_FCVTPS_scalar \<equiv> 0x5EA1A800"
abbreviation NEON_FCVTPU_scalar :: u32 where "NEON_FCVTPU_scalar \<equiv> 0x7EA1A800"
abbreviation NEON_FCVTMS_scalar :: u32 where "NEON_FCVTMS_scalar \<equiv> 0x5E21B800"
abbreviation NEON_FCVTMU_scalar :: u32 where "NEON_FCVTMU_scalar \<equiv> 0x7E21B800"
abbreviation NEON_FCVTZS_scalar :: u32 where "NEON_FCVTZS_scalar \<equiv> 0x5EA1B800"
abbreviation NEON_FCVTZU_scalar :: u32 where "NEON_FCVTZU_scalar \<equiv> 0x7EA1B800"
abbreviation NEON_FCVTAS_scalar :: u32 where "NEON_FCVTAS_scalar \<equiv> 0x5E21C800"
abbreviation NEON_FCVTAU_scalar :: u32 where "NEON_FCVTAU_scalar \<equiv> 0x7E21C800"
abbreviation NEON_FCVTXN_scalar :: u32 where "NEON_FCVTXN_scalar \<equiv> 0x7E216800"
abbreviation NEONScalar3SameMask :: u32 where "NEONScalar3SameMask \<equiv> 0xFF20FC00"
abbreviation NEON_ADD_scalar :: u32 where "NEON_ADD_scalar \<equiv> 0x5E208400"
abbreviation NEON_CMEQ_scalar :: u32 where "NEON_CMEQ_scalar \<equiv> 0x7E208C00"
abbreviation NEON_CMGE_scalar :: u32 where "NEON_CMGE_scalar \<equiv> 0x5E203C00"
abbreviation NEON_CMGT_scalar :: u32 where "NEON_CMGT_scalar \<equiv> 0x5E203400"
abbreviation NEON_CMHI_scalar :: u32 where "NEON_CMHI_scalar \<equiv> 0x7E203400"
abbreviation NEON_CMHS_scalar :: u32 where "NEON_CMHS_scalar \<equiv> 0x7E203C00"
abbreviation NEON_CMTST_scalar :: u32 where "NEON_CMTST_scalar \<equiv> 0x5E208C00"
abbreviation NEON_SUB_scalar :: u32 where "NEON_SUB_scalar \<equiv> 0x7E208400"
abbreviation NEON_UQADD_scalar :: u32 where "NEON_UQADD_scalar \<equiv> 0x7E200C00"
abbreviation NEON_SQADD_scalar :: u32 where "NEON_SQADD_scalar \<equiv> 0x5E200C00"
abbreviation NEON_UQSUB_scalar :: u32 where "NEON_UQSUB_scalar \<equiv> 0x7E202C00"
abbreviation NEON_SQSUB_scalar :: u32 where "NEON_SQSUB_scalar \<equiv> 0x5E202C00"
abbreviation NEON_USHL_scalar :: u32 where "NEON_USHL_scalar \<equiv> 0x7E204400"
abbreviation NEON_SSHL_scalar :: u32 where "NEON_SSHL_scalar \<equiv> 0x5E204400"
abbreviation NEON_UQSHL_scalar :: u32 where "NEON_UQSHL_scalar \<equiv> 0x7E204C00"
abbreviation NEON_SQSHL_scalar :: u32 where "NEON_SQSHL_scalar \<equiv> 0x5E204C00"
abbreviation NEON_URSHL_scalar :: u32 where "NEON_URSHL_scalar \<equiv> 0x7E205400"
abbreviation NEON_SRSHL_scalar :: u32 where "NEON_SRSHL_scalar \<equiv> 0x5E205400"
abbreviation NEON_UQRSHL_scalar :: u32 where "NEON_UQRSHL_scalar \<equiv> 0x7E205C00"
abbreviation NEON_SQRSHL_scalar :: u32 where "NEON_SQRSHL_scalar \<equiv> 0x5E205C00"
abbreviation NEON_SQDMULH_scalar :: u32 where "NEON_SQDMULH_scalar \<equiv> 0x5E20B400"
abbreviation NEON_SQRDMULH_scalar :: u32 where "NEON_SQRDMULH_scalar \<equiv> 0x7E20B400"
abbreviation NEONScalar3SameFPFixed :: u32 where "NEONScalar3SameFPFixed \<equiv> 0x5E20C400"
abbreviation NEONScalar3SameFPFMask :: u32 where "NEONScalar3SameFPFMask \<equiv> 0xDF20C400"
abbreviation NEONScalar3SameExtraMask :: u32 where "NEONScalar3SameExtraMask \<equiv> 0xFF20FC00"
abbreviation NEON_SQRDMLAH_scalar :: u32 where "NEON_SQRDMLAH_scalar \<equiv> 0x7E008400"
abbreviation NEON_SQRDMLSH_scalar :: u32 where "NEON_SQRDMLSH_scalar \<equiv> 0x7E008C00"
abbreviation NEONScalar3DiffMask :: u32 where "NEONScalar3DiffMask \<equiv> 0xFF20FC00"
abbreviation NEON_SQDMLAL_scalar :: u32 where "NEON_SQDMLAL_scalar \<equiv> 0x5E209000"
abbreviation NEON_SQDMLSL_scalar :: u32 where "NEON_SQDMLSL_scalar \<equiv> 0x5E20B000"
abbreviation NEON_SQDMULL_scalar :: u32 where "NEON_SQDMULL_scalar \<equiv> 0x5E20D000"
abbreviation NEONScalarCopyMask :: u32 where "NEONScalarCopyMask \<equiv> 0xFFE0FC00"
abbreviation NEON_DUP_ELEMENT_scalar :: u32 where "NEON_DUP_ELEMENT_scalar \<equiv> 0x5E000400"
abbreviation NEONScalarPairwiseMask :: u32 where "NEONScalarPairwiseMask \<equiv> 0xFFB1F800"
abbreviation NEON_ADDP_scalar :: u32 where "NEON_ADDP_scalar \<equiv> 0x5EB1B800"
abbreviation NEON_FMAXNMP_h_scalar :: u32 where "NEON_FMAXNMP_h_scalar \<equiv> 0x5E30C800"
abbreviation NEON_FADDP_h_scalar :: u32 where "NEON_FADDP_h_scalar \<equiv> 0x5E30D800"
abbreviation NEON_FMAXP_h_scalar :: u32 where "NEON_FMAXP_h_scalar \<equiv> 0x5E30F800"
abbreviation NEON_FMINNMP_h_scalar :: u32 where "NEON_FMINNMP_h_scalar \<equiv> 0x5EB0C800"
abbreviation NEON_FMINP_h_scalar :: u32 where "NEON_FMINP_h_scalar \<equiv> 0x5EB0F800"
abbreviation NEON_FMAXNMP_scalar :: u32 where "NEON_FMAXNMP_scalar \<equiv> 0x7E30C800"
abbreviation NEON_FMINNMP_scalar :: u32 where "NEON_FMINNMP_scalar \<equiv> 0x7EB0C800"
abbreviation NEON_FADDP_scalar :: u32 where "NEON_FADDP_scalar \<equiv> 0x7E30D800"
abbreviation NEON_FMAXP_scalar :: u32 where "NEON_FMAXP_scalar \<equiv> 0x7E30F800"
abbreviation NEON_FMINP_scalar :: u32 where "NEON_FMINP_scalar \<equiv> 0x7EB0F800"
abbreviation NEONScalarShiftImmediateMask :: u32 where "NEONScalarShiftImmediateMask \<equiv> 0xFF80FC00"
abbreviation NEON_SHL_scalar :: u32 where "NEON_SHL_scalar \<equiv> 0x5F005400"
abbreviation NEON_SLI_scalar :: u32 where "NEON_SLI_scalar \<equiv> 0x7F005400"
abbreviation NEON_SRI_scalar :: u32 where "NEON_SRI_scalar \<equiv> 0x7F004400"
abbreviation NEON_SSHR_scalar :: u32 where "NEON_SSHR_scalar \<equiv> 0x5F000400"
abbreviation NEON_USHR_scalar :: u32 where "NEON_USHR_scalar \<equiv> 0x7F000400"
abbreviation NEON_SRSHR_scalar :: u32 where "NEON_SRSHR_scalar \<equiv> 0x5F002400"
abbreviation NEON_URSHR_scalar :: u32 where "NEON_URSHR_scalar \<equiv> 0x7F002400"
abbreviation NEON_SSRA_scalar :: u32 where "NEON_SSRA_scalar \<equiv> 0x5F001400"
abbreviation NEON_USRA_scalar :: u32 where "NEON_USRA_scalar \<equiv> 0x7F001400"
abbreviation NEON_SRSRA_scalar :: u32 where "NEON_SRSRA_scalar \<equiv> 0x5F003400"
abbreviation NEON_URSRA_scalar :: u32 where "NEON_URSRA_scalar \<equiv> 0x7F003400"
abbreviation NEON_UQSHRN_scalar :: u32 where "NEON_UQSHRN_scalar \<equiv> 0x7F009400"
abbreviation NEON_UQRSHRN_scalar :: u32 where "NEON_UQRSHRN_scalar \<equiv> 0x7F009C00"
abbreviation NEON_SQSHRN_scalar :: u32 where "NEON_SQSHRN_scalar \<equiv> 0x5F009400"
abbreviation NEON_SQRSHRN_scalar :: u32 where "NEON_SQRSHRN_scalar \<equiv> 0x5F009C00"
abbreviation NEON_SQSHRUN_scalar :: u32 where "NEON_SQSHRUN_scalar \<equiv> 0x7F008400"
abbreviation NEON_SQRSHRUN_scalar :: u32 where "NEON_SQRSHRUN_scalar \<equiv> 0x7F008C00"
abbreviation NEON_SQSHLU_scalar :: u32 where "NEON_SQSHLU_scalar \<equiv> 0x7F006400"
abbreviation NEON_SQSHL_imm_scalar :: u32 where "NEON_SQSHL_imm_scalar \<equiv> 0x5F007400"
abbreviation NEON_UQSHL_imm_scalar :: u32 where "NEON_UQSHL_imm_scalar \<equiv> 0x7F007400"
abbreviation NEON_SCVTF_imm_scalar :: u32 where "NEON_SCVTF_imm_scalar \<equiv> 0x5F00E400"
abbreviation NEON_UCVTF_imm_scalar :: u32 where "NEON_UCVTF_imm_scalar \<equiv> 0x7F00E400"
abbreviation NEON_FCVTZS_imm_scalar :: u32 where "NEON_FCVTZS_imm_scalar \<equiv> 0x5F00FC00"
abbreviation NEON_FCVTZU_imm_scalar :: u32 where "NEON_FCVTZU_imm_scalar \<equiv> 0x7F00FC00"

end
