(* ===== verification/Sim_Neon.thy ===== *)
theory Sim_Neon
  imports Sim_Permute Sim_Branch Constants_Neon
begin

text \<open>
  The NEON visitors of \<open>src/aarch64/simulator-aarch64.cc\<close> that compute on integers: each
  reads its formats and registers from the instruction and calls an operation of \<open>Sim_Logic\<close>,
  \<open>Sim_Shift\<close>, \<open>Sim_Widen\<close> or \<open>Sim_Permute\<close> on the vector registers.  A \<open>switch\<close> is a
  table from the operation code (or the name of the form) to the format and the operation; the
  floating-point cases are the argument \<open>fp\<close>.  \<open>dbg\<close> says whether the assertions are built in.
\<close>

section \<open>The vector registers as a bank\<close>

definition bank_of :: "'v vsim \<Rightarrow> vbank" where
  "bank_of s r = (case r of VReg n \<Rightarrow> vregs s n | Temp n \<Rightarrow> 0)"

definition run_bank :: "(vbank \<Rightarrow> vstate) \<Rightarrow> 'v vsim \<Rightarrow> 'v vsim" where
  "run_bank op s = s\<lparr>vregs := (\<lambda>n. snd (op (bank_of s)) (VReg n))\<rparr>"

text \<open>The operations of \<open>LogicVRegister\<close> begin with an assertion on the format.\<close>

definition vector_op :: "bool \<Rightarrow> VectorFormat \<Rightarrow> (vbank \<Rightarrow> vstate) \<Rightarrow> 'v vsim \<Rightarrow> abort + 'v vsim" where
  "vector_op dbg vf op s =
     (if dbg \<and> vf = kFormatUndefined then Inl (HostAbort ''undefined vector format'') else Inr (run_bank op s))"

text \<open>\<open>switch (instr->Mask(...))\<close> with \<open>VIXL_UNIMPLEMENTED\<close> as the default.\<close>

definition unimplemented_op :: "bool \<Rightarrow> 'v vsim \<Rightarrow> abort + 'v vsim" where
  "unimplemented_op dbg s = (if dbg then Inl (UnimplementedInstruction (pc_reg s)) else Inr s)"

definition op_switch ::
  "bool \<Rightarrow> (u32 \<times> VectorFormat \<times> (vbank \<Rightarrow> vstate)) list \<Rightarrow> u32 \<Rightarrow> 'v vsim \<Rightarrow> abort + 'v vsim" where
  "op_switch dbg table key s =
     (case map_of table key of Some (vf, op) \<Rightarrow> vector_op dbg vf op s | None \<Rightarrow> unimplemented_op dbg s)"

text \<open>\<open>switch (form_hash_)\<close> without a default.\<close>

definition form_switch ::
  "bool \<Rightarrow> (string \<times> VectorFormat \<times> (vbank \<Rightarrow> vstate)) list \<Rightarrow> 'v vsim \<Rightarrow> abort + 'v vsim" where
  "form_switch dbg table s =
     (case List.find (\<lambda>(name, e). Hash name = form_hash s) table of
        Some (name, vf, op) \<Rightarrow> vector_op dbg vf op s
      | None \<Rightarrow> Inr s)"

abbreviation vd_of :: "u32 \<Rightarrow> vref" where "vd_of bits \<equiv> VReg (unat (GetRd bits))"
abbreviation vn_of :: "u32 \<Rightarrow> vref" where "vn_of bits \<equiv> VReg (unat (GetRn bits))"
abbreviation vm_of :: "u32 \<Rightarrow> vref" where "vm_of bits \<equiv> VReg (unat (GetRm bits))"
abbreviation va_of :: "u32 \<Rightarrow> vref" where "va_of bits \<equiv> VReg (unat (GetRa bits))"

type_synonym op_table = "(u32 \<times> VectorFormat \<times> (vbank \<Rightarrow> vstate)) list"
type_synonym form_table = "(string \<times> VectorFormat \<times> (vbank \<Rightarrow> vstate)) list"

section \<open>Three registers of the same format\<close>

definition neon_logical_table :: "VectorFormat \<Rightarrow> vref \<Rightarrow> vref \<Rightarrow> vref \<Rightarrow> op_table" where
  "neon_logical_table vf rd rn rm =
     [(NEON_AND, vf, and_v vf (LogicV rd) rn rm),
      (NEON_ORR, vf, orr_v vf (LogicV rd) rn rm),
      (NEON_ORN, vf, orn_v vf (LogicV rd) rn rm),
      (NEON_EOR, vf, eor_v vf (LogicV rd) rn rm),
      (NEON_BIC, vf, bic_v vf (LogicV rd) rn rm),
      (NEON_BIF, vf, bif_v vf (LogicV rd) rn rm),
      (NEON_BIT, vf, bit_v vf (LogicV rd) rn rm),
      (NEON_BSL, vf, bsl_v vf (LogicV rd) rd rn rm)]"

definition neon_3same_table :: "VectorFormat \<Rightarrow> vref \<Rightarrow> vref \<Rightarrow> vref \<Rightarrow> op_table" where
  "neon_3same_table vf rd rn rm =
     [(NEON_ADD, vf, add_v vf (LogicV rd) rn rm),
      (NEON_ADDP, vf, addp_v vf (LogicV rd) rn rm),
      (NEON_CMEQ, vf, cmp_v vf (LogicV rd) rn rm VC_eq),
      (NEON_CMGE, vf, cmp_v vf (LogicV rd) rn rm VC_ge),
      (NEON_CMGT, vf, cmp_v vf (LogicV rd) rn rm VC_gt),
      (NEON_CMHI, vf, cmp_v vf (LogicV rd) rn rm VC_hi),
      (NEON_CMHS, vf, cmp_v vf (LogicV rd) rn rm VC_hs),
      (NEON_CMTST, vf, cmptst_v vf (LogicV rd) rn rm),
      (NEON_MLS, vf, mls_v vf (LogicV rd) rd rn rm),
      (NEON_MLA, vf, mla_v vf (LogicV rd) rd rn rm),
      (NEON_MUL, vf, mul_v vf (LogicV rd) rn rm),
      (NEON_PMUL, vf, pmul_v vf (LogicV rd) rn rm),
      (NEON_SMAX, vf, smax_v vf (LogicV rd) rn rm),
      (NEON_SMAXP, vf, smaxp_v vf (LogicV rd) rn rm),
      (NEON_SMIN, vf, smin_v vf (LogicV rd) rn rm),
      (NEON_SMINP, vf, sminp_v vf (LogicV rd) rn rm),
      (NEON_SUB, vf, sub_v vf (LogicV rd) rn rm),
      (NEON_UMAX, vf, umax_v vf (LogicV rd) rn rm),
      (NEON_UMAXP, vf, umaxp_v vf (LogicV rd) rn rm),
      (NEON_UMIN, vf, umin_v vf (LogicV rd) rn rm),
      (NEON_UMINP, vf, uminp_v vf (LogicV rd) rn rm),
      (NEON_SSHL, vf, sshl_v vf (LogicV rd) rn rm True),
      (NEON_USHL, vf, ushl_v vf (LogicV rd) rn rm True),
      (NEON_SABD, vf, absdiff_v vf (LogicV rd) rn rm True),
      (NEON_UABD, vf, absdiff_v vf (LogicV rd) rn rm False),
      (NEON_SABA, vf, saba_v vf (LogicV rd) rn rm),
      (NEON_UABA, vf, uaba_v vf (LogicV rd) rn rm),
      (NEON_UQADD, vf, (UnsignedSaturate vf \<circ> add_v vf (LogicV rd) rn rm)),
      (NEON_SQADD, vf, (SignedSaturate vf \<circ> add_v vf (LogicV rd) rn rm)),
      (NEON_UQSUB, vf, (UnsignedSaturate vf \<circ> sub_v vf (LogicV rd) rn rm)),
      (NEON_SQSUB, vf, (SignedSaturate vf \<circ> sub_v vf (LogicV rd) rn rm)),
      (NEON_SQDMULH, vf, sqdmulh_v vf (LogicV rd) rn rm),
      (NEON_SQRDMULH, vf, sqrdmulh_v vf (LogicV rd) rn rm True),
      (NEON_UQSHL, vf, (UnsignedSaturate vf \<circ> ushl_v vf (LogicV rd) rn rm True)),
      (NEON_SQSHL, vf, (SignedSaturate vf \<circ> sshl_v vf (LogicV rd) rn rm True)),
      (NEON_URSHL, vf, (Round vf \<circ> ushl_v vf (LogicV rd) rn rm True)),
      (NEON_SRSHL, vf, (Round vf \<circ> sshl_v vf (LogicV rd) rn rm True)),
      (NEON_UQRSHL, vf, (UnsignedSaturate vf \<circ> Round vf \<circ> ushl_v vf (LogicV rd) rn rm True)),
      (NEON_SQRSHL, vf, (SignedSaturate vf \<circ> Round vf \<circ> sshl_v vf (LogicV rd) rn rm True)),
      (NEON_UHADD, vf, (Uhalve vf \<circ> add_v vf (LogicV rd) rn rm)),
      (NEON_URHADD, vf, (Round vf \<circ> Uhalve vf \<circ> add_v vf (LogicV rd) rn rm)),
      (NEON_SHADD, vf, (Halve vf \<circ> add_v vf (LogicV rd) rn rm)),
      (NEON_SRHADD, vf, (Round vf \<circ> Halve vf \<circ> add_v vf (LogicV rd) rn rm)),
      (NEON_UHSUB, vf, (Uhalve vf \<circ> sub_v vf (LogicV rd) rn rm)),
      (NEON_SHSUB, vf, (Halve vf \<circ> sub_v vf (LogicV rd) rn rm))]"

definition VisitNEON3Same :: "bool \<Rightarrow> (instruction \<Rightarrow> 'v vsim \<Rightarrow> abort + 'v vsim) \<Rightarrow> instruction \<Rightarrow> 'v vsim \<Rightarrow> abort + 'v vsim" where
  "VisitNEON3Same dbg fp instr s =
     (let bits = insn_bits instr; rd = vd_of bits; rn = vn_of bits; rm = vm_of bits in
      if Mask NEON3SameLogicalFMask bits = NEON3SameLogicalFixed
      then op_switch dbg (neon_logical_table (GetVectorFormat bits LogicalFormatMap) rd rn rm)
             (Mask NEON3SameLogicalMask bits) s
      else if Mask NEON3SameFPFMask bits = NEON3SameFPFixed then fp instr s
      else op_switch dbg (neon_3same_table (GetVectorFormat bits IntegerFormatMap) rd rn rm)
             (Mask NEON3SameMask bits) s)"

definition neon_3same_extra_table :: "VectorFormat \<Rightarrow> vref \<Rightarrow> vref \<Rightarrow> vref \<Rightarrow> form_table" where
  "neon_3same_extra_table vf rd rn rm =
     [(''sdot_asimdsame2_d'', vf, sdot_v vf (LogicV rd) rn rm),
      (''udot_asimdsame2_d'', vf, udot_v vf (LogicV rd) rn rm),
      (''usdot_asimdsame2_d'', vf, usdot_v vf (LogicV rd) rn rm),
      (''sqrdmlah_asimdsame2_only'', vf, sqrdmlah_v vf (LogicV rd) rn rm True),
      (''sqrdmlsh_asimdsame2_only'', vf, sqrdmlsh_v vf (LogicV rd) rn rm True)]"

definition VisitNEON3SameExtra :: "bool \<Rightarrow> (instruction \<Rightarrow> 'v vsim \<Rightarrow> abort + 'v vsim) \<Rightarrow> instruction \<Rightarrow> 'v vsim \<Rightarrow> abort + 'v vsim" where
  "VisitNEON3SameExtra dbg fp instr s =
     (let bits = insn_bits instr; rd = vd_of bits; rn = vn_of bits; rm = vm_of bits;
          vf = GetVectorFormat bits IntegerFormatMap in
      if form_hash s = Hash ''fcmla_asimdsame2_c'' \<or> form_hash s = Hash ''fcadd_asimdsame2_c'' then fp instr s
      else form_switch dbg (neon_3same_extra_table vf rd rn rm) s)"

section \<open>Three registers of different formats\<close>

definition neon_3different_table :: "VectorFormat \<Rightarrow> VectorFormat \<Rightarrow> VectorFormat \<Rightarrow> vref \<Rightarrow> vref \<Rightarrow> vref \<Rightarrow> op_table" where
  "neon_3different_table vf vf_l vf_p rd rn rm =
     [(NEON_PMULL, vf_p, pmull_v vf_p (LogicV rd) rn rm),
      (NEON_PMULL2, vf_p, pmull2_v vf_p (LogicV rd) rn rm),
      (NEON_UADDL, vf_l, uaddl_v vf_l (LogicV rd) rn rm),
      (NEON_UADDL2, vf_l, uaddl2_v vf_l (LogicV rd) rn rm),
      (NEON_SADDL, vf_l, saddl_v vf_l (LogicV rd) rn rm),
      (NEON_SADDL2, vf_l, saddl2_v vf_l (LogicV rd) rn rm),
      (NEON_USUBL, vf_l, usubl_v vf_l (LogicV rd) rn rm),
      (NEON_USUBL2, vf_l, usubl2_v vf_l (LogicV rd) rn rm),
      (NEON_SSUBL, vf_l, ssubl_v vf_l (LogicV rd) rn rm),
      (NEON_SSUBL2, vf_l, ssubl2_v vf_l (LogicV rd) rn rm),
      (NEON_SABAL, vf_l, sabal_v vf_l (LogicV rd) rn rm),
      (NEON_SABAL2, vf_l, sabal2_v vf_l (LogicV rd) rn rm),
      (NEON_UABAL, vf_l, uabal_v vf_l (LogicV rd) rn rm),
      (NEON_UABAL2, vf_l, uabal2_v vf_l (LogicV rd) rn rm),
      (NEON_SABDL, vf_l, sabdl_v vf_l (LogicV rd) rn rm),
      (NEON_SABDL2, vf_l, sabdl2_v vf_l (LogicV rd) rn rm),
      (NEON_UABDL, vf_l, uabdl_v vf_l (LogicV rd) rn rm),
      (NEON_UABDL2, vf_l, uabdl2_v vf_l (LogicV rd) rn rm),
      (NEON_SMLAL, vf_l, smlal_v vf_l (LogicV rd) rn rm False),
      (NEON_SMLAL2, vf_l, smlal2_v vf_l (LogicV rd) rn rm),
      (NEON_UMLAL, vf_l, umlal_v vf_l (LogicV rd) rn rm False),
      (NEON_UMLAL2, vf_l, umlal2_v vf_l (LogicV rd) rn rm),
      (NEON_SMLSL, vf_l, smlsl_v vf_l (LogicV rd) rn rm False),
      (NEON_SMLSL2, vf_l, smlsl2_v vf_l (LogicV rd) rn rm),
      (NEON_UMLSL, vf_l, umlsl_v vf_l (LogicV rd) rn rm False),
      (NEON_UMLSL2, vf_l, umlsl2_v vf_l (LogicV rd) rn rm),
      (NEON_SMULL, vf_l, smull_v vf_l (LogicV rd) rn rm False),
      (NEON_SMULL2, vf_l, smull2_v vf_l (LogicV rd) rn rm),
      (NEON_UMULL, vf_l, umull_v vf_l (LogicV rd) rn rm False),
      (NEON_UMULL2, vf_l, umull2_v vf_l (LogicV rd) rn rm),
      (NEON_SQDMLAL, vf_l, sqdmlal_v vf_l (LogicV rd) rn rm False),
      (NEON_SQDMLAL2, vf_l, sqdmlal2_v vf_l (LogicV rd) rn rm),
      (NEON_SQDMLSL, vf_l, sqdmlsl_v vf_l (LogicV rd) rn rm False),
      (NEON_SQDMLSL2, vf_l, sqdmlsl2_v vf_l (LogicV rd) rn rm),
      (NEON_SQDMULL, vf_l, sqdmull_v vf_l (LogicV rd) rn rm False),
      (NEON_SQDMULL2, vf_l, sqdmull2_v vf_l (LogicV rd) rn rm),
      (NEON_UADDW, vf_l, uaddw_v vf_l (LogicV rd) rn rm),
      (NEON_UADDW2, vf_l, uaddw2_v vf_l (LogicV rd) rn rm),
      (NEON_SADDW, vf_l, saddw_v vf_l (LogicV rd) rn rm),
      (NEON_SADDW2, vf_l, saddw2_v vf_l (LogicV rd) rn rm),
      (NEON_USUBW, vf_l, usubw_v vf_l (LogicV rd) rn rm),
      (NEON_USUBW2, vf_l, usubw2_v vf_l (LogicV rd) rn rm),
      (NEON_SSUBW, vf_l, ssubw_v vf_l (LogicV rd) rn rm),
      (NEON_SSUBW2, vf_l, ssubw2_v vf_l (LogicV rd) rn rm),
      (NEON_ADDHN, vf, addhn_v vf (LogicV rd) rn rm),
      (NEON_ADDHN2, vf, addhn2_v vf (LogicV rd) rn rm),
      (NEON_RADDHN, vf, raddhn_v vf (LogicV rd) rn rm),
      (NEON_RADDHN2, vf, raddhn2_v vf (LogicV rd) rn rm),
      (NEON_SUBHN, vf, subhn_v vf (LogicV rd) rn rm),
      (NEON_SUBHN2, vf, subhn2_v vf (LogicV rd) rn rm),
      (NEON_RSUBHN, vf, rsubhn_v vf (LogicV rd) rn rm),
      (NEON_RSUBHN2, vf, rsubhn2_v vf (LogicV rd) rn rm)]"

definition VisitNEON3Different :: "bool \<Rightarrow> instruction \<Rightarrow> 'v vsim \<Rightarrow> abort + 'v vsim" where
  "VisitNEON3Different dbg instr s =
     (let bits = insn_bits instr; rd = vd_of bits; rn = vn_of bits; rm = vm_of bits;
          vf = GetVectorFormat bits IntegerFormatMap;
          vf_l = GetVectorFormat bits LongIntegerFormatMap;
          vf_p = (if GetNEONSize bits = 3 then kFormat1Q else vf_l)
      in op_switch dbg (neon_3different_table vf vf_l vf_p rd rn rm) (Mask NEON3DifferentMask bits) s)"

section \<open>Two registers\<close>

definition neon_2reg_misc_table ::
  "VectorFormat \<Rightarrow> VectorFormat \<Rightarrow> VectorFormat \<Rightarrow> VectorFormat \<Rightarrow> bool \<Rightarrow> vref \<Rightarrow> vref \<Rightarrow> form_table" where
  "neon_2reg_misc_table vf vf_lp vf_log vf_long is_q rd rn =
     [(''rev64_asimdmisc_r'', vf, rev64_v vf (LogicV rd) rn),
      (''rev32_asimdmisc_r'', vf, rev32_v vf (LogicV rd) rn),
      (''rev16_asimdmisc_r'', vf, rev16_v vf (LogicV rd) rn),
      (''suqadd_asimdmisc_r'', vf, suqadd_v vf (LogicV rd) rd rn),
      (''usqadd_asimdmisc_r'', vf, usqadd_v vf (LogicV rd) rd rn),
      (''cls_asimdmisc_r'', vf, cls_v vf (LogicV rd) rn),
      (''clz_asimdmisc_r'', vf, clz_v vf (LogicV rd) rn),
      (''cnt_asimdmisc_r'', vf, cnt_v vf (LogicV rd) rn),
      (''sqabs_asimdmisc_r'', vf, (SignedSaturate vf \<circ> abs_v vf (LogicV rd) rn)),
      (''sqneg_asimdmisc_r'', vf, (SignedSaturate vf \<circ> neg_v vf (LogicV rd) rn)),
      (''cmgt_asimdmisc_z'', vf, cmp_imm_v vf (LogicV rd) rn 0 VC_gt),
      (''cmge_asimdmisc_z'', vf, cmp_imm_v vf (LogicV rd) rn 0 VC_ge),
      (''cmeq_asimdmisc_z'', vf, cmp_imm_v vf (LogicV rd) rn 0 VC_eq),
      (''cmle_asimdmisc_z'', vf, cmp_imm_v vf (LogicV rd) rn 0 VC_le),
      (''cmlt_asimdmisc_z'', vf, cmp_imm_v vf (LogicV rd) rn 0 VC_lt),
      (''abs_asimdmisc_r'', vf, abs_v vf (LogicV rd) rn),
      (''neg_asimdmisc_r'', vf, neg_v vf (LogicV rd) rn),
      (''xtn_asimdmisc_n'', vf, xtn_v vf (LogicV rd) rn),
      (''sqxtn_asimdmisc_n'', vf, sqxtn_v vf (LogicV rd) rn),
      (''uqxtn_asimdmisc_n'', vf, uqxtn_v vf (LogicV rd) rn),
      (''sqxtun_asimdmisc_n'', vf, sqxtun_v vf (LogicV rd) rn),
      (''saddlp_asimdmisc_p'', vf_lp, saddlp_v vf_lp (LogicV rd) rn),
      (''uaddlp_asimdmisc_p'', vf_lp, uaddlp_v vf_lp (LogicV rd) rn),
      (''sadalp_asimdmisc_p'', vf_lp, sadalp_v vf_lp (LogicV rd) rn),
      (''uadalp_asimdmisc_p'', vf_lp, uadalp_v vf_lp (LogicV rd) rn),
      (''not_asimdmisc_r'', vf_log, not_v vf_log (LogicV rd) rn),
      (''rbit_asimdmisc_r'', vf_log, rbit_v vf_log (LogicV rd) rn),
      (''shll_asimdmisc_s'', vf_long,
        if is_q then shll2_v vf_long (LogicV rd) rn else shll_v vf_long (LogicV rd) rn)]"

definition map_lp :: NEONFormatMap where
  "map_lp = ([23, 22, 30], [kFormat4H, kFormat8H, kFormat2S, kFormat4S, kFormat1D, kFormat2D])"

definition VisitNEON2RegMisc :: "bool \<Rightarrow> instruction \<Rightarrow> 'v vsim \<Rightarrow> abort + 'v vsim" where
  "VisitNEON2RegMisc dbg instr s =
     (let bits = insn_bits instr; rd = vd_of bits; rn = vn_of bits;
          vf = GetVectorFormat bits IntegerFormatMap;
          vf_log = GetVectorFormat bits LogicalFormatMap;
          vf_lp = GetVectorFormat bits map_lp;
          vf_long = GetVectorFormat bits LongIntegerFormatMap;
          is_q = (Mask NEON_Q bits \<noteq> 0)
      in form_switch dbg (neon_2reg_misc_table vf vf_lp vf_log vf_long is_q rd rn) s)"

section \<open>Across the lanes\<close>

text \<open>Minimum and maximum across lanes go through the overloads without a predicate.\<close>

definition neon_across_table :: "VectorFormat \<Rightarrow> vref \<Rightarrow> vref \<Rightarrow> op_table" where
  "neon_across_table vf rd rn =
     [(NEON_ADDV, vf, addv_v vf (LogicV rd) rn),
      (NEON_SMAXV, vf, sminmaxv_v vf (LogicV rd) rn True),
      (NEON_SMINV, vf, sminmaxv_v vf (LogicV rd) rn False),
      (NEON_UMAXV, vf, uminmaxv_v vf (LogicV rd) rn True),
      (NEON_UMINV, vf, uminmaxv_v vf (LogicV rd) rn False),
      (NEON_SADDLV, vf, saddlv_v vf (LogicV rd) rn),
      (NEON_UADDLV, vf, uaddlv_v vf (LogicV rd) rn)]"

definition VisitNEONAcrossLanes :: "bool \<Rightarrow> (instruction \<Rightarrow> 'v vsim \<Rightarrow> abort + 'v vsim) \<Rightarrow> instruction \<Rightarrow> 'v vsim \<Rightarrow> abort + 'v vsim" where
  "VisitNEONAcrossLanes dbg fp instr s =
     (let bits = insn_bits instr; rd = vd_of bits; rn = vn_of bits in
      if Mask NEONAcrossLanesFP16FMask bits = NEONAcrossLanesFP16Fixed then fp instr s
      else if Mask NEONAcrossLanesFPFMask bits = NEONAcrossLanesFPFixed then fp instr s
      else op_switch dbg (neon_across_table (GetVectorFormat bits IntegerFormatMap) rd rn)
             (Mask NEONAcrossLanesMask bits) s)"

section \<open>Products by an element\<close>

definition GetNEONMulRmAndIndex :: "u32 \<Rightarrow> nat \<times> nat" where
  "GetNEONMulRmAndIndex bits =
     (let reg_code = GetRm bits;
          index = push_bit 2 (GetNEONH bits) OR push_bit 1 (GetNEONL bits) OR GetNEONM bits;
          size = GetNEONSize bits
      in if size = 0 \<or> size = 1 then (unat (reg_code AND 0xf), unat index)
         else if size = 2 then (unat reg_code, unat (drop_bit 1 index))
         else (unat reg_code, unat (drop_bit 2 index)))"

definition neon_mul_element_long_table :: "VectorFormat \<Rightarrow> vref \<Rightarrow> vref \<Rightarrow> vref \<Rightarrow> bool \<Rightarrow> form_table" where
  "neon_mul_element_long_table vf rd rn temp is_2 =
     [(''smull_asimdelem_l'', vf, smull_v vf (LogicV rd) rn temp is_2),
      (''umull_asimdelem_l'', vf, umull_v vf (LogicV rd) rn temp is_2),
      (''smlal_asimdelem_l'', vf, smlal_v vf (LogicV rd) rn temp is_2),
      (''umlal_asimdelem_l'', vf, umlal_v vf (LogicV rd) rn temp is_2),
      (''smlsl_asimdelem_l'', vf, smlsl_v vf (LogicV rd) rn temp is_2),
      (''umlsl_asimdelem_l'', vf, umlsl_v vf (LogicV rd) rn temp is_2),
      (''sqdmull_asimdelem_l'', vf, sqdmull_v vf (LogicV rd) rn temp is_2),
      (''sqdmlal_asimdelem_l'', vf, sqdmlal_v vf (LogicV rd) rn temp is_2),
      (''sqdmlsl_asimdelem_l'', vf, sqdmlsl_v vf (LogicV rd) rn temp is_2)]"

text \<open>The operation runs on the bank in which the element has been spread over \<open>temp\<close>.\<close>

definition with_segments :: "VectorFormat \<Rightarrow> vref \<Rightarrow> vref \<Rightarrow> nat \<Rightarrow> (vbank \<Rightarrow> vstate) \<Rightarrow> vbank \<Rightarrow> vstate" where
  "with_segments indexform temp rm index op B =
     op (snd (dup_elements_to_segments_v indexform (LogicV temp) rm index (SimVRegister_init temp B)))"

definition SimulateNEONMulByElementLong :: "bool \<Rightarrow> instruction \<Rightarrow> 'v vsim \<Rightarrow> abort + 'v vsim" where
  "SimulateNEONMulByElementLong dbg instr s =
     (let bits = insn_bits instr; rd = vd_of bits; rn = vn_of bits;
          vf = GetVectorFormat bits LongIntegerFormatMap;
          rm_and_index = GetNEONMulRmAndIndex bits;
          temp = Temp 200;
          indexform = VectorFormatHalfWidthDoubleLanes (VectorFormatFillQ vf);
          is_2 = (Mask NEON_Q bits \<noteq> 0)
      in form_switch dbg
           (map (\<lambda>(name, vf, op). (name, vf, with_segments indexform temp (VReg (fst rm_and_index)) (snd rm_and_index) op))
              (neon_mul_element_long_table vf rd rn temp is_2)) s)"

definition neon_dot_element_table :: "VectorFormat \<Rightarrow> vref \<Rightarrow> vref \<Rightarrow> vref \<Rightarrow> form_table" where
  "neon_dot_element_table vform rd rn temp =
     [(''sdot_asimdelem_d'', vform, sdot_v vform (LogicV rd) rn temp),
      (''udot_asimdelem_d'', vform, udot_v vform (LogicV rd) rn temp),
      (''sudot_asimdelem_d'', vform, usdot_v vform (LogicV rd) temp rn),
      (''usdot_asimdelem_d'', vform, usdot_v vform (LogicV rd) rn temp)]"

definition SimulateNEONDotProdByElement :: "bool \<Rightarrow> instruction \<Rightarrow> 'v vsim \<Rightarrow> abort + 'v vsim" where
  "SimulateNEONDotProdByElement dbg instr s =
     (let bits = insn_bits instr; rd = vd_of bits; rn = vn_of bits; rm = vm_of bits;
          vform = (if GetNEONQ bits \<noteq> 0 then kFormat4S else kFormat2S);
          index = unat (push_bit 1 (GetNEONH bits) OR GetNEONL bits);
          temp = Temp 201
      in form_switch dbg
           (map (\<lambda>(name, vf, op). (name, vf, with_segments (VectorFormatFillQ vform) temp rm index op))
              (neon_dot_element_table vform rd rn temp)) s)"

definition neon_by_element_table :: "VectorFormat \<Rightarrow> vref \<Rightarrow> vref \<Rightarrow> vref \<Rightarrow> nat \<Rightarrow> form_table" where
  "neon_by_element_table vform rd rn rm index =
     [(''mul_asimdelem_r'', vform, mul_index_v vform (LogicV rd) rn rm index),
      (''mla_asimdelem_r'', vform, mla_index_v vform (LogicV rd) rn rm index),
      (''mls_asimdelem_r'', vform, mls_index_v vform (LogicV rd) rn rm index),
      (''sqdmulh_asimdelem_r'', vform, sqdmulh_index_v vform (LogicV rd) rn rm index),
      (''sqrdmulh_asimdelem_r'', vform, sqrdmulh_index_v vform (LogicV rd) rn rm index),
      (''sqrdmlah_asimdelem_r'', vform, sqrdmlah_index_v vform (LogicV rd) rn rm index),
      (''sqrdmlsh_asimdelem_r'', vform, sqrdmlsh_index_v vform (LogicV rd) rn rm index)]"

definition VisitNEONByIndexedElement :: "bool \<Rightarrow> instruction \<Rightarrow> 'v vsim \<Rightarrow> abort + 'v vsim" where
  "VisitNEONByIndexedElement dbg instr s =
     (let bits = insn_bits instr; rd = vd_of bits; rn = vn_of bits;
          vform = GetVectorFormat bits IntegerFormatMap;
          rm_and_index = GetNEONMulRmAndIndex bits
      in form_switch dbg (neon_by_element_table vform rd rn (VReg (fst rm_and_index)) (snd rm_and_index)) s)"

section \<open>Copies, extraction, permutation and tables\<close>

definition VisitNEONCopy :: "bool \<Rightarrow> instruction \<Rightarrow> 'v vsim \<Rightarrow> abort + 'v vsim" where
  "VisitNEONCopy dbg instr s =
     (let bits = insn_bits instr; rd = vd_of bits; rn = vn_of bits;
          vf = GetVectorFormat bits TriangularFormatMap;
          imm5 = GetImmNEON5 bits;
          tz = CountTrailingZerosFallBack (ucast imm5) 32;
          reg_index = unat (ExtractSignedBitfield32 31 (tz + 1) (ucast imm5));
          B = bank_of s
      in if Mask NEONCopyInsElementMask bits = NEON_INS_ELEMENT
         then let imm4 = GetImmNEON4 bits; rn_index = unat (ExtractSignedBitfield32 31 tz (ucast imm4))
              in vector_op dbg vf (\<lambda>B. ins_element_v vf (LogicV rd) reg_index rn rn_index
                                        (snd (mov_v kFormat16B (LogicV rd) rd B))) s
         else if Mask NEONCopyInsGeneralMask bits = NEON_INS_GENERAL
         then vector_op dbg vf (\<lambda>B. ins_immediate_v vf (LogicV rd) reg_index (ReadXRegister (unat (GetRn bits)) s)
                                      (snd (mov_v kFormat16B (LogicV rd) rd B))) s
         else if Mask NEONCopyUmovMask bits = NEON_UMOV
         then Inr (WriteXRegister (unat (GetRd bits)) (LUint vf B rn reg_index AND MaxUintFromFormat vf) s)
         else if Mask NEONCopyUmovMask bits = NEON_SMOV
         then if GetNEONQ bits \<noteq> 0 then Inr (WriteXRegister (unat (GetRd bits)) (LInt vf B rn reg_index) s)
              else Inr (WriteWRegister (unat (GetRd bits)) (ucast (LInt vf B rn reg_index)) s)
         else if Mask NEONCopyDupElementMask bits = NEON_DUP_ELEMENT
         then vector_op dbg vf (dup_element_v vf (LogicV rd) rn reg_index) s
         else if Mask NEONCopyDupGeneralMask bits = NEON_DUP_GENERAL
         then vector_op dbg vf (dup_immediate_v vf (LogicV rd) (ReadXRegister (unat (GetRn bits)) s)) s
         else unimplemented_op dbg s)"

definition VisitNEONExtract :: "bool \<Rightarrow> instruction \<Rightarrow> 'v vsim \<Rightarrow> abort + 'v vsim" where
  "VisitNEONExtract dbg instr s =
     (let bits = insn_bits instr; rd = vd_of bits; rn = vn_of bits; rm = vm_of bits;
          vf = GetVectorFormat bits LogicalFormatMap in
      if Mask NEONExtractMask bits = NEON_EXT
      then vector_op dbg vf (ext_v vf (LogicV rd) rn rm (unat (GetImmNEONExt bits))) s
      else unimplemented_op dbg s)"

definition neon_table_table :: "VectorFormat \<Rightarrow> vref \<Rightarrow> vref list \<Rightarrow> vref \<Rightarrow> op_table" where
  "neon_table_table vf rd tabs rm =
     [(NEON_TBL_1v, vf, tbl_v vf (LogicV rd) (take 1 tabs) rm),
      (NEON_TBL_2v, vf, tbl_v vf (LogicV rd) (take 2 tabs) rm),
      (NEON_TBL_3v, vf, tbl_v vf (LogicV rd) (take 3 tabs) rm),
      (NEON_TBL_4v, vf, tbl_v vf (LogicV rd) (take 4 tabs) rm),
      (NEON_TBX_1v, vf, tbx_v vf (LogicV rd) (take 1 tabs) rm),
      (NEON_TBX_2v, vf, tbx_v vf (LogicV rd) (take 2 tabs) rm),
      (NEON_TBX_3v, vf, tbx_v vf (LogicV rd) (take 3 tabs) rm),
      (NEON_TBX_4v, vf, tbx_v vf (LogicV rd) (take 4 tabs) rm)]"

definition VisitNEONTable :: "bool \<Rightarrow> instruction \<Rightarrow> 'v vsim \<Rightarrow> abort + 'v vsim" where
  "VisitNEONTable dbg instr s =
     (let bits = insn_bits instr; rd = vd_of bits; rm = vm_of bits;
          vf = GetVectorFormat bits LogicalFormatMap;
          n = unat (GetRn bits);
          tabs = [VReg n, VReg ((n + 1) mod 32), VReg ((n + 2) mod 32), VReg ((n + 3) mod 32)]
      in op_switch dbg (neon_table_table vf rd tabs rm) (Mask NEONTableMask bits) s)"

definition neon_perm_table :: "VectorFormat \<Rightarrow> vref \<Rightarrow> vref \<Rightarrow> vref \<Rightarrow> op_table" where
  "neon_perm_table vf rd rn rm =
     [(NEON_TRN1, vf, trn1_v vf (LogicV rd) rn rm),
      (NEON_TRN2, vf, trn2_v vf (LogicV rd) rn rm),
      (NEON_UZP1, vf, uzp1_v vf (LogicV rd) rn rm),
      (NEON_UZP2, vf, uzp2_v vf (LogicV rd) rn rm),
      (NEON_ZIP1, vf, zip1_v vf (LogicV rd) rn rm),
      (NEON_ZIP2, vf, zip2_v vf (LogicV rd) rn rm)]"

definition VisitNEONPerm :: "bool \<Rightarrow> instruction \<Rightarrow> 'v vsim \<Rightarrow> abort + 'v vsim" where
  "VisitNEONPerm dbg instr s =
     (let bits = insn_bits instr; rd = vd_of bits; rn = vn_of bits; rm = vm_of bits
      in op_switch dbg (neon_perm_table (GetVectorFormat bits IntegerFormatMap) rd rn rm) (Mask NEONPermMask bits) s)"

section \<open>Shifts by an immediate\<close>

definition neon_shift_imm_table :: "VectorFormat \<Rightarrow> VectorFormat \<Rightarrow> bool \<Rightarrow> vref \<Rightarrow> vref \<Rightarrow> nat \<Rightarrow> nat \<Rightarrow> op_table" where
  "neon_shift_imm_table vf vf_l is_q rd rn left_shift right_shift =
     [(NEON_SHL, vf, shl_v vf (LogicV rd) rn left_shift),
      (NEON_SLI, vf, sli_v vf (LogicV rd) rn left_shift),
      (NEON_SQSHLU, vf, sqshlu_v vf (LogicV rd) rn left_shift),
      (NEON_SRI, vf, sri_v vf (LogicV rd) rn right_shift),
      (NEON_SSHR, vf, sshr_v vf (LogicV rd) rn right_shift),
      (NEON_USHR, vf, ushr_v vf (LogicV rd) rn right_shift),
      (NEON_SRSHR, vf, (Round vf \<circ> sshr_v vf (LogicV rd) rn right_shift)),
      (NEON_URSHR, vf, (Round vf \<circ> ushr_v vf (LogicV rd) rn right_shift)),
      (NEON_SSRA, vf, ssra_v vf (LogicV rd) rn right_shift),
      (NEON_USRA, vf, usra_v vf (LogicV rd) rn right_shift),
      (NEON_SRSRA, vf, srsra_v vf (LogicV rd) rn right_shift),
      (NEON_URSRA, vf, ursra_v vf (LogicV rd) rn right_shift),
      (NEON_SQSHL_imm, vf, sqshl_v vf (LogicV rd) rn left_shift),
      (NEON_UQSHL_imm, vf, uqshl_v vf (LogicV rd) rn left_shift),
      (NEON_SSHLL, vf_l, if is_q then sshll2_v vf_l (LogicV rd) rn left_shift else sshll_v vf_l (LogicV rd) rn left_shift),
      (NEON_USHLL, vf_l, if is_q then ushll2_v vf_l (LogicV rd) rn left_shift else ushll_v vf_l (LogicV rd) rn left_shift),
      (NEON_SHRN, vf, if is_q then shrn2_v vf (LogicV rd) rn right_shift else shrn_v vf (LogicV rd) rn right_shift),
      (NEON_RSHRN, vf, if is_q then rshrn2_v vf (LogicV rd) rn right_shift else rshrn_v vf (LogicV rd) rn right_shift),
      (NEON_UQSHRN, vf, if is_q then uqshrn2_v vf (LogicV rd) rn right_shift else uqshrn_v vf (LogicV rd) rn right_shift),
      (NEON_UQRSHRN, vf, if is_q then uqrshrn2_v vf (LogicV rd) rn right_shift else uqrshrn_v vf (LogicV rd) rn right_shift),
      (NEON_SQSHRN, vf, if is_q then sqshrn2_v vf (LogicV rd) rn right_shift else sqshrn_v vf (LogicV rd) rn right_shift),
      (NEON_SQRSHRN, vf, if is_q then sqrshrn2_v vf (LogicV rd) rn right_shift else sqrshrn_v vf (LogicV rd) rn right_shift),
      (NEON_SQSHRUN, vf, if is_q then sqshrun2_v vf (LogicV rd) rn right_shift else sqshrun_v vf (LogicV rd) rn right_shift),
      (NEON_SQRSHRUN, vf, if is_q then sqrshrun2_v vf (LogicV rd) rn right_shift else sqrshrun_v vf (LogicV rd) rn right_shift)]"

definition ShiftImmFormatMap :: NEONFormatMap where
  "ShiftImmFormatMap = ([22, 21, 20, 19, 30],
     [kFormatUndefined, kFormatUndefined, kFormat8B, kFormat16B, kFormat4H, kFormat8H, kFormat4H, kFormat8H,
      kFormat2S, kFormat4S, kFormat2S, kFormat4S, kFormat2S, kFormat4S, kFormat2S, kFormat4S,
      kFormatUndefined, kFormat2D, kFormatUndefined, kFormat2D, kFormatUndefined, kFormat2D, kFormatUndefined, kFormat2D,
      kFormatUndefined, kFormat2D, kFormatUndefined, kFormat2D, kFormatUndefined, kFormat2D, kFormatUndefined, kFormat2D])"

definition ShiftLongNarrowImmFormatMap :: NEONFormatMap where
  "ShiftLongNarrowImmFormatMap = ([22, 21, 20, 19],
     [kFormatUndefined, kFormat8H, kFormat4S, kFormat4S, kFormat2D, kFormat2D, kFormat2D, kFormat2D])"

definition VisitNEONShiftImmediate :: "bool \<Rightarrow> (instruction \<Rightarrow> 'v vsim \<Rightarrow> abort + 'v vsim) \<Rightarrow> instruction \<Rightarrow> 'v vsim \<Rightarrow> abort + 'v vsim" where
  "VisitNEONShiftImmediate dbg fp instr s =
     (let bits = insn_bits instr; rd = vd_of bits; rn = vn_of bits;
          vf = GetVectorFormat bits ShiftImmFormatMap;
          vf_l = GetVectorFormat bits ShiftLongNarrowImmFormatMap;
          highest_set_bit = HighestSetBitPosition (ucast (GetImmNEONImmh bits));
          immh_immb = unat (GetImmNEONImmhImmb bits);
          right_shift = 16 * 2 ^ highest_set_bit - immh_immb;
          left_shift = immh_immb - 8 * 2 ^ highest_set_bit;
          is_q = (Mask NEON_Q bits \<noteq> 0);
          op = Mask NEONShiftImmediateMask bits
      in if op \<in> {NEON_SCVTF_imm, NEON_UCVTF_imm, NEON_FCVTZS_imm, NEON_FCVTZU_imm} then fp instr s
         else op_switch dbg (neon_shift_imm_table vf vf_l is_q rd rn left_shift right_shift) op s)"

definition neon_scalar_shift_imm_table :: "VectorFormat \<Rightarrow> vref \<Rightarrow> vref \<Rightarrow> nat \<Rightarrow> nat \<Rightarrow> op_table" where
  "neon_scalar_shift_imm_table vf rd rn left_shift right_shift =
     [(NEON_SHL_scalar, vf, shl_v vf (LogicV rd) rn left_shift),
      (NEON_SLI_scalar, vf, sli_v vf (LogicV rd) rn left_shift),
      (NEON_SQSHL_imm_scalar, vf, sqshl_v vf (LogicV rd) rn left_shift),
      (NEON_UQSHL_imm_scalar, vf, uqshl_v vf (LogicV rd) rn left_shift),
      (NEON_SQSHLU_scalar, vf, sqshlu_v vf (LogicV rd) rn left_shift),
      (NEON_SRI_scalar, vf, sri_v vf (LogicV rd) rn right_shift),
      (NEON_SSHR_scalar, vf, sshr_v vf (LogicV rd) rn right_shift),
      (NEON_USHR_scalar, vf, ushr_v vf (LogicV rd) rn right_shift),
      (NEON_SRSHR_scalar, vf, (Round vf \<circ> sshr_v vf (LogicV rd) rn right_shift)),
      (NEON_URSHR_scalar, vf, (Round vf \<circ> ushr_v vf (LogicV rd) rn right_shift)),
      (NEON_SSRA_scalar, vf, ssra_v vf (LogicV rd) rn right_shift),
      (NEON_USRA_scalar, vf, usra_v vf (LogicV rd) rn right_shift),
      (NEON_SRSRA_scalar, vf, srsra_v vf (LogicV rd) rn right_shift),
      (NEON_URSRA_scalar, vf, ursra_v vf (LogicV rd) rn right_shift),
      (NEON_UQSHRN_scalar, vf, uqshrn_v vf (LogicV rd) rn right_shift),
      (NEON_UQRSHRN_scalar, vf, uqrshrn_v vf (LogicV rd) rn right_shift),
      (NEON_SQSHRN_scalar, vf, sqshrn_v vf (LogicV rd) rn right_shift),
      (NEON_SQRSHRN_scalar, vf, sqrshrn_v vf (LogicV rd) rn right_shift),
      (NEON_SQSHRUN_scalar, vf, sqshrun_v vf (LogicV rd) rn right_shift),
      (NEON_SQRSHRUN_scalar, vf, sqrshrun_v vf (LogicV rd) rn right_shift)]"

definition ScalarShiftImmFormatMap :: NEONFormatMap where
  "ScalarShiftImmFormatMap = ([22, 21, 20, 19],
     [kFormatUndefined, kFormatB, kFormatH, kFormatH, kFormatS, kFormatS, kFormatS, kFormatS,
      kFormatD, kFormatD, kFormatD, kFormatD, kFormatD, kFormatD, kFormatD, kFormatD])"

definition VisitNEONScalarShiftImmediate :: "bool \<Rightarrow> (instruction \<Rightarrow> 'v vsim \<Rightarrow> abort + 'v vsim) \<Rightarrow> instruction \<Rightarrow> 'v vsim \<Rightarrow> abort + 'v vsim" where
  "VisitNEONScalarShiftImmediate dbg fp instr s =
     (let bits = insn_bits instr; rd = vd_of bits; rn = vn_of bits;
          vf = GetVectorFormat bits ScalarShiftImmFormatMap;
          highest_set_bit = HighestSetBitPosition (ucast (GetImmNEONImmh bits));
          immh_immb = unat (GetImmNEONImmhImmb bits);
          right_shift = 16 * 2 ^ highest_set_bit - immh_immb;
          left_shift = immh_immb - 8 * 2 ^ highest_set_bit;
          op = Mask NEONScalarShiftImmediateMask bits
      in if op \<in> {NEON_FCVTZS_imm_scalar, NEON_FCVTZU_imm_scalar, NEON_SCVTF_imm_scalar, NEON_UCVTF_imm_scalar}
         then fp instr s
         else op_switch dbg (neon_scalar_shift_imm_table vf rd rn left_shift right_shift) op s)"

section \<open>Scalar forms\<close>

definition neon_scalar_3same_table :: "VectorFormat \<Rightarrow> vref \<Rightarrow> vref \<Rightarrow> vref \<Rightarrow> op_table" where
  "neon_scalar_3same_table vf rd rn rm =
     [(NEON_ADD_scalar, vf, add_v vf (LogicV rd) rn rm),
      (NEON_SUB_scalar, vf, sub_v vf (LogicV rd) rn rm),
      (NEON_CMEQ_scalar, vf, cmp_v vf (LogicV rd) rn rm VC_eq),
      (NEON_CMGE_scalar, vf, cmp_v vf (LogicV rd) rn rm VC_ge),
      (NEON_CMGT_scalar, vf, cmp_v vf (LogicV rd) rn rm VC_gt),
      (NEON_CMHI_scalar, vf, cmp_v vf (LogicV rd) rn rm VC_hi),
      (NEON_CMHS_scalar, vf, cmp_v vf (LogicV rd) rn rm VC_hs),
      (NEON_CMTST_scalar, vf, cmptst_v vf (LogicV rd) rn rm),
      (NEON_USHL_scalar, vf, ushl_v vf (LogicV rd) rn rm True),
      (NEON_SSHL_scalar, vf, sshl_v vf (LogicV rd) rn rm True),
      (NEON_SQDMULH_scalar, vf, sqdmulh_v vf (LogicV rd) rn rm),
      (NEON_SQRDMULH_scalar, vf, sqrdmulh_v vf (LogicV rd) rn rm True),
      (NEON_UQADD_scalar, vf, (UnsignedSaturate vf \<circ> add_v vf (LogicV rd) rn rm)),
      (NEON_SQADD_scalar, vf, (SignedSaturate vf \<circ> add_v vf (LogicV rd) rn rm)),
      (NEON_UQSUB_scalar, vf, (UnsignedSaturate vf \<circ> sub_v vf (LogicV rd) rn rm)),
      (NEON_SQSUB_scalar, vf, (SignedSaturate vf \<circ> sub_v vf (LogicV rd) rn rm)),
      (NEON_UQSHL_scalar, vf, (UnsignedSaturate vf \<circ> ushl_v vf (LogicV rd) rn rm True)),
      (NEON_SQSHL_scalar, vf, (SignedSaturate vf \<circ> sshl_v vf (LogicV rd) rn rm True)),
      (NEON_URSHL_scalar, vf, (Round vf \<circ> ushl_v vf (LogicV rd) rn rm True)),
      (NEON_SRSHL_scalar, vf, (Round vf \<circ> sshl_v vf (LogicV rd) rn rm True)),
      (NEON_UQRSHL_scalar, vf, (UnsignedSaturate vf \<circ> Round vf \<circ> ushl_v vf (LogicV rd) rn rm True)),
      (NEON_SQRSHL_scalar, vf, (SignedSaturate vf \<circ> Round vf \<circ> sshl_v vf (LogicV rd) rn rm True))]"

definition VisitNEONScalar3Same :: "bool \<Rightarrow> (instruction \<Rightarrow> 'v vsim \<Rightarrow> abort + 'v vsim) \<Rightarrow> instruction \<Rightarrow> 'v vsim \<Rightarrow> abort + 'v vsim" where
  "VisitNEONScalar3Same dbg fp instr s =
     (let bits = insn_bits instr; rd = vd_of bits; rn = vn_of bits; rm = vm_of bits in
      if Mask NEONScalar3SameFPFMask bits = NEONScalar3SameFPFixed then fp instr s
      else op_switch dbg (neon_scalar_3same_table (GetVectorFormat bits ScalarFormatMap) rd rn rm)
             (Mask NEONScalar3SameMask bits) s)"

definition neon_scalar_3diff_table :: "VectorFormat \<Rightarrow> vref \<Rightarrow> vref \<Rightarrow> vref \<Rightarrow> op_table" where
  "neon_scalar_3diff_table vf rd rn rm =
     [(NEON_SQDMLAL_scalar, vf, sqdmlal_v vf (LogicV rd) rn rm False),
      (NEON_SQDMLSL_scalar, vf, sqdmlsl_v vf (LogicV rd) rn rm False),
      (NEON_SQDMULL_scalar, vf, sqdmull_v vf (LogicV rd) rn rm False)]"

definition VisitNEONScalar3Diff :: "bool \<Rightarrow> instruction \<Rightarrow> 'v vsim \<Rightarrow> abort + 'v vsim" where
  "VisitNEONScalar3Diff dbg instr s =
     (let bits = insn_bits instr; rd = vd_of bits; rn = vn_of bits; rm = vm_of bits
      in op_switch dbg (neon_scalar_3diff_table (GetVectorFormat bits LongScalarFormatMap) rd rn rm)
           (Mask NEONScalar3DiffMask bits) s)"

definition neon_scalar_3same_extra_table :: "VectorFormat \<Rightarrow> vref \<Rightarrow> vref \<Rightarrow> vref \<Rightarrow> op_table" where
  "neon_scalar_3same_extra_table vf rd rn rm =
     [(NEON_SQRDMLAH_scalar, vf, sqrdmlah_v vf (LogicV rd) rn rm True),
      (NEON_SQRDMLSH_scalar, vf, sqrdmlsh_v vf (LogicV rd) rn rm True)]"

definition VisitNEONScalar3SameExtra :: "bool \<Rightarrow> instruction \<Rightarrow> 'v vsim \<Rightarrow> abort + 'v vsim" where
  "VisitNEONScalar3SameExtra dbg instr s =
     (let bits = insn_bits instr; rd = vd_of bits; rn = vn_of bits; rm = vm_of bits
      in op_switch dbg (neon_scalar_3same_extra_table (GetVectorFormat bits ScalarFormatMap) rd rn rm)
           (Mask NEONScalar3SameExtraMask bits) s)"

definition neon_scalar_2reg_table :: "VectorFormat \<Rightarrow> vref \<Rightarrow> vref \<Rightarrow> op_table" where
  "neon_scalar_2reg_table vf rd rn =
     [(NEON_CMEQ_zero_scalar, vf, cmp_imm_v vf (LogicV rd) rn 0 VC_eq),
      (NEON_CMGE_zero_scalar, vf, cmp_imm_v vf (LogicV rd) rn 0 VC_ge),
      (NEON_CMGT_zero_scalar, vf, cmp_imm_v vf (LogicV rd) rn 0 VC_gt),
      (NEON_CMLT_zero_scalar, vf, cmp_imm_v vf (LogicV rd) rn 0 VC_lt),
      (NEON_CMLE_zero_scalar, vf, cmp_imm_v vf (LogicV rd) rn 0 VC_le),
      (NEON_ABS_scalar, vf, abs_v vf (LogicV rd) rn),
      (NEON_SQABS_scalar, vf, (SignedSaturate vf \<circ> abs_v vf (LogicV rd) rn)),
      (NEON_NEG_scalar, vf, neg_v vf (LogicV rd) rn),
      (NEON_SQNEG_scalar, vf, (SignedSaturate vf \<circ> neg_v vf (LogicV rd) rn)),
      (NEON_SUQADD_scalar, vf, suqadd_v vf (LogicV rd) rd rn),
      (NEON_USQADD_scalar, vf, usqadd_v vf (LogicV rd) rd rn)]"

definition neon_scalar_narrow_table :: "VectorFormat \<Rightarrow> vref \<Rightarrow> vref \<Rightarrow> op_table" where
  "neon_scalar_narrow_table vf rd rn =
     [(NEON_SQXTN_scalar, vf, sqxtn_v vf (LogicV rd) rn),
      (NEON_UQXTN_scalar, vf, uqxtn_v vf (LogicV rd) rn),
      (NEON_SQXTUN_scalar, vf, sqxtun_v vf (LogicV rd) rn)]"

definition neon_scalar_2reg_fp :: "u32 list" where
  "neon_scalar_2reg_fp =
     [NEON_FRECPE_scalar,
      NEON_FRECPX_scalar,
      NEON_FRSQRTE_scalar,
      NEON_FCMGT_zero_scalar,
      NEON_FCMGE_zero_scalar,
      NEON_FCMEQ_zero_scalar,
      NEON_FCMLE_zero_scalar,
      NEON_FCMLT_zero_scalar,
      NEON_SCVTF_scalar,
      NEON_UCVTF_scalar,
      NEON_FCVTNS_scalar,
      NEON_FCVTNU_scalar,
      NEON_FCVTPS_scalar,
      NEON_FCVTPU_scalar,
      NEON_FCVTMS_scalar,
      NEON_FCVTMU_scalar,
      NEON_FCVTZS_scalar,
      NEON_FCVTZU_scalar,
      NEON_FCVTAS_scalar,
      NEON_FCVTAU_scalar,
      NEON_FCVTXN_scalar]"

definition VisitNEONScalar2RegMisc :: "bool \<Rightarrow> (instruction \<Rightarrow> 'v vsim \<Rightarrow> abort + 'v vsim) \<Rightarrow> instruction \<Rightarrow> 'v vsim \<Rightarrow> abort + 'v vsim" where
  "VisitNEONScalar2RegMisc dbg fp instr s =
     (let bits = insn_bits instr; rd = vd_of bits; rn = vn_of bits; vf = GetVectorFormat bits ScalarFormatMap in
      if Mask NEON2RegMiscOpcode bits \<le> NEON_NEG_scalar_opcode
      then op_switch dbg (neon_scalar_2reg_table vf rd rn) (Mask NEONScalar2RegMiscMask bits) s
      else if Mask NEONScalar2RegMiscFPMask bits \<in> set neon_scalar_2reg_fp then fp instr s
      else op_switch dbg (neon_scalar_narrow_table vf rd rn) (Mask NEONScalar2RegMiscMask bits) s)"

definition VisitNEONScalarPairwise :: "bool \<Rightarrow> (instruction \<Rightarrow> 'v vsim \<Rightarrow> abort + 'v vsim) \<Rightarrow> instruction \<Rightarrow> 'v vsim \<Rightarrow> abort + 'v vsim" where
  "VisitNEONScalarPairwise dbg fp instr s =
     (let bits = insn_bits instr; rd = vd_of bits; rn = vn_of bits; op = Mask NEONScalarPairwiseMask bits in
      if op = NEON_ADDP_scalar
      then let vf = GetVectorFormat bits FPScalarFormatMap in vector_op dbg vf (addp_scalar_v vf (LogicV rd) rn) s
      else if op \<in> {NEON_FADDP_h_scalar, NEON_FADDP_scalar, NEON_FMAXP_h_scalar, NEON_FMAXP_scalar,
                    NEON_FMAXNMP_h_scalar, NEON_FMAXNMP_scalar, NEON_FMINP_h_scalar, NEON_FMINP_scalar,
                    NEON_FMINNMP_h_scalar, NEON_FMINNMP_scalar} then fp instr s
      else unimplemented_op dbg s)"

definition VisitNEONScalarCopy :: "bool \<Rightarrow> instruction \<Rightarrow> 'v vsim \<Rightarrow> abort + 'v vsim" where
  "VisitNEONScalarCopy dbg instr s =
     (let bits = insn_bits instr; rd = vd_of bits; rn = vn_of bits; vf = GetVectorFormat bits TriangularScalarFormatMap in
      if Mask NEONScalarCopyMask bits = NEON_DUP_ELEMENT_scalar
      then let imm5 = GetImmNEON5 bits;
               tz = CountTrailingZerosFallBack (ucast imm5) 32;
               rn_index = unat (ExtractSignedBitfield32 31 (tz + 1) (ucast imm5))
           in vector_op dbg vf (dup_element_v vf (LogicV rd) rn rn_index) s
      else unimplemented_op dbg s)"

definition neon_scalar_by_element_table :: "VectorFormat \<Rightarrow> VectorFormat \<Rightarrow> vref \<Rightarrow> vref \<Rightarrow> vref \<Rightarrow> nat \<Rightarrow> form_table" where
  "neon_scalar_by_element_table vf vf_long rd rn rm index =
     [(''sqdmull_asisdelem_l'', vf_long, sqdmull_index_v vf_long (LogicV rd) rn rm index),
      (''sqdmlal_asisdelem_l'', vf_long, sqdmlal_index_v vf_long (LogicV rd) rn rm index),
      (''sqdmlsl_asisdelem_l'', vf_long, sqdmlsl_index_v vf_long (LogicV rd) rn rm index),
      (''sqdmulh_asisdelem_r'', vf, sqdmulh_index_v vf (LogicV rd) rn rm index),
      (''sqrdmulh_asisdelem_r'', vf, sqrdmulh_index_v vf (LogicV rd) rn rm index),
      (''sqrdmlah_asisdelem_r'', vf, sqrdmlah_index_v vf (LogicV rd) rn rm index),
      (''sqrdmlsh_asisdelem_r'', vf, sqrdmlsh_index_v vf (LogicV rd) rn rm index)]"

text \<open>A form that is not in the handler table leaves the member function null, which is then called.\<close>

definition VisitNEONScalarByIndexedElement :: "bool \<Rightarrow> (instruction \<Rightarrow> 'v vsim \<Rightarrow> abort + 'v vsim) \<Rightarrow> instruction \<Rightarrow> 'v vsim \<Rightarrow> abort + 'v vsim" where
  "VisitNEONScalarByIndexedElement dbg fp instr s =
     (let bits = insn_bits instr; rd = vd_of bits; rn = vn_of bits;
          rm_and_index = GetNEONMulRmAndIndex bits;
          table = neon_scalar_by_element_table (GetVectorFormat bits ScalarFormatMap)
                    (GetVectorFormat bits LongScalarFormatMap) rd rn (VReg (fst rm_and_index)) (snd rm_and_index)
      in if form_hash s \<in> Hash ` set [''fmul_asisdelem_rh_h'', ''fmul_asisdelem_r_sd'', ''fmla_asisdelem_rh_h'',
              ''fmla_asisdelem_r_sd'', ''fmls_asisdelem_rh_h'', ''fmls_asisdelem_r_sd'', ''fmulx_asisdelem_rh_h'',
              ''fmulx_asisdelem_r_sd''] then fp instr s
         else if form_hash s \<in> Hash ` set (map fst table) then form_switch dbg table s
         else Inl (if dbg then UnimplementedInstruction (pc_reg s) else HostAbort ''null member function''))"

section \<open>Modified immediates\<close>

text \<open>The bits of the floating-point immediates.\<close>

definition Imm8ToFloat16_bits :: "u32 \<Rightarrow> u64" where
  "Imm8ToFloat16_bits imm8 =
     (let bit7 = drop_bit 7 imm8 AND 1; bit6 = drop_bit 6 imm8 AND 1; bit5_to_0 = imm8 AND 0x3f
      in ucast (ucast (push_bit 15 bit7 OR push_bit 12 (4 - bit6) OR push_bit 6 bit5_to_0) :: u16))"

definition Imm8ToFP32_bits :: "u32 \<Rightarrow> u64" where
  "Imm8ToFP32_bits imm8 =
     (let bit7 = drop_bit 7 imm8 AND 1; bit6 = drop_bit 6 imm8 AND 1; bit5_to_0 = imm8 AND 0x3f
      in ucast (push_bit 31 bit7 OR push_bit 25 (32 - bit6) OR push_bit 19 bit5_to_0))"

definition Imm8ToFP64_bits :: "u32 \<Rightarrow> u64" where
  "Imm8ToFP64_bits imm8 =
     (let bit7 = ucast (drop_bit 7 imm8 AND 1); bit6 = ucast (drop_bit 6 imm8 AND 1); bit5_to_0 = ucast (imm8 AND 0x3f)
      in push_bit 63 bit7 OR push_bit 54 (256 - bit6) OR push_bit 48 bit5_to_0)"

definition expand_byte_mask :: "u64 \<Rightarrow> u64" where
  "expand_byte_mask imm8 =
     for_lanes 8 (\<lambda>i imm. if imm8 AND push_bit i 1 \<noteq> 0 then imm OR push_bit (8 * i) 0xff else imm) 0"

text \<open>The format and the value.\<close>

definition modified_immediate :: "u32 \<Rightarrow> VectorFormat \<times> u64" where
  "modified_immediate bits =
     (let cmode = GetNEONCmode bits;
          cmode_3_1 = unat (drop_bit 1 cmode AND 7);
          cmode_1 = unat (drop_bit 1 cmode AND 1);
          cmode_0 = cmode AND 1;
          half_enc = ExtractBit 11 bits;
          q = (GetNEONQ bits = 1);
          op_bit = GetNEONModImmOp bits;
          imm8 = ucast (GetImmNEONabcdefgh bits)
      in if cmode_3_1 < 4 then (if q then kFormat4S else kFormat2S, push_bit (8 * cmode_3_1) imm8)
         else if cmode_3_1 < 6 then (if q then kFormat8H else kFormat4H, push_bit (8 * cmode_1) imm8)
         else if cmode_3_1 = 6
         then (if q then kFormat4S else kFormat2S,
               if cmode_0 = 0 then push_bit 8 imm8 OR 0xff else push_bit 16 imm8 OR 0xffff)
         else if cmode_0 = 0 \<and> op_bit = 0 then (if q then kFormat16B else kFormat8B, imm8)
         else if cmode_0 = 0 \<and> op_bit = 1 then (if q then kFormat2D else kFormat1D, expand_byte_mask imm8)
         else if half_enc = 1
         then (if q then kFormat8H else kFormat4H, Imm8ToFloat16_bits (GetImmNEONabcdefgh bits))
         else if op_bit = 0
         then (if q then kFormat4S else kFormat2S, Imm8ToFP32_bits (GetImmNEONabcdefgh bits))
         else if q then (kFormat2D, Imm8ToFP64_bits (GetImmNEONabcdefgh bits))
         else (kFormatUndefined, 0))"

datatype NEONModifiedImmediateOp =
  NEONModifiedImmediate_MOVI | NEONModifiedImmediate_MVNI | NEONModifiedImmediate_ORR | NEONModifiedImmediate_BIC

definition modified_immediate_op :: "u32 \<Rightarrow> NEONModifiedImmediateOp" where
  "modified_immediate_op bits =
     (let cmode = GetNEONCmode bits;
          cmode_3 = drop_bit 3 cmode AND 1;
          cmode_2 = drop_bit 2 cmode AND 1;
          cmode_1 = drop_bit 1 cmode AND 1;
          cmode_0 = cmode AND 1;
          op_bit = (GetNEONModImmOp bits \<noteq> 0);
          mov = (if op_bit then NEONModifiedImmediate_MVNI else NEONModifiedImmediate_MOVI);
          log = (if op_bit then NEONModifiedImmediate_BIC else NEONModifiedImmediate_ORR)
      in if cmode_3 = 0 then if cmode_0 = 0 then mov else log
         else if cmode_2 = 0 then if cmode_0 = 0 then mov else log
         else if cmode_1 = 0 then mov
         else NEONModifiedImmediate_MOVI)"

definition VisitNEONModifiedImmediate :: "bool \<Rightarrow> instruction \<Rightarrow> 'v vsim \<Rightarrow> abort + 'v vsim" where
  "VisitNEONModifiedImmediate dbg instr s =
     (let bits = insn_bits instr; rd = vd_of bits;
          (vform, imm) = modified_immediate bits
      in vector_op dbg vform
           (case modified_immediate_op bits of
              NEONModifiedImmediate_ORR \<Rightarrow> orr_imm_v vform (LogicV rd) rd imm
            | NEONModifiedImmediate_BIC \<Rightarrow> bic_imm_v vform (LogicV rd) rd imm
            | NEONModifiedImmediate_MOVI \<Rightarrow> movi_v vform (LogicV rd) imm
            | NEONModifiedImmediate_MVNI \<Rightarrow> mvni_v vform (LogicV rd) imm) s)"

section \<open>Three-way exclusive or and rotations of SHA-3\<close>

definition neon_sha3_table :: "vref \<Rightarrow> vref \<Rightarrow> vref \<Rightarrow> vref \<Rightarrow> vref \<Rightarrow> u32 \<Rightarrow> form_table" where
  "neon_sha3_table rd rn rm ra temp rot =
     [(''bcax_vvv16_crypto4'', kFormat16B,
        \<lambda>B. eor_v kFormat16B (LogicV rd) rn temp (snd (bic_v kFormat16B (LogicV temp) rm ra B))),
      (''eor3_vvv16_crypto4'', kFormat16B,
        \<lambda>B. eor_v kFormat16B (LogicV rd) rn temp (snd (eor_v kFormat16B (LogicV temp) rm ra B))),
      (''rax1_vvv2_cryptosha512_3'', kFormat2D,
        \<lambda>B. eor_v kFormat2D (LogicV rd) rn temp (snd (ror_v kFormat2D (LogicV temp) rm 63 B))),
      (''xar_vvv2_crypto3_imm6'', kFormat2D,
        \<lambda>B. ror_v kFormat2D (LogicV rd) temp rot (snd (eor_v kFormat2D (LogicV temp) rn rm B)))]"

definition SimulateNEONSHA3 :: "bool \<Rightarrow> instruction \<Rightarrow> 'v vsim \<Rightarrow> abort + 'v vsim" where
  "SimulateNEONSHA3 dbg instr s =
     (let bits = insn_bits instr
      in form_switch dbg
           (neon_sha3_table (vd_of bits) (vn_of bits) (vm_of bits) (va_of bits) (Temp 202) (ExtractBits 15 10 bits)) s)"

section \<open>The visitors together\<close>

text \<open>The NEON leaves that the form table names; the floating-point parts are \<open>rest 1\<close> to \<open>rest 9\<close>.\<close>

datatype neon_visitor =
    VN_3Same | VN_3SameExtra | VN_3Different | VN_2RegMisc
  | VN_AcrossLanes | VN_MulByElementLong | VN_DotProdByElement | VN_ByIndexedElement
  | VN_Copy | VN_Extract | VN_Table | VN_Perm
  | VN_ShiftImmediate | VN_ScalarShiftImmediate | VN_Scalar3Same | VN_Scalar3Diff
  | VN_Scalar3SameExtra | VN_Scalar2RegMisc | VN_ScalarPairwise | VN_ScalarCopy
  | VN_ScalarByIndexedElement | VN_ModifiedImmediate | VN_SHA3

primrec neon_fun ::
  "bool \<Rightarrow> (nat \<Rightarrow> instruction \<Rightarrow> 'v vsim \<Rightarrow> abort + 'v vsim) \<Rightarrow> neon_visitor \<Rightarrow> instruction \<Rightarrow> 'v vsim \<Rightarrow> abort + 'v vsim" where
  "neon_fun dbg rest VN_3Same = VisitNEON3Same dbg (rest 1)"
| "neon_fun dbg rest VN_3SameExtra = VisitNEON3SameExtra dbg (rest 2)"
| "neon_fun dbg rest VN_3Different = VisitNEON3Different dbg"
| "neon_fun dbg rest VN_2RegMisc = VisitNEON2RegMisc dbg"
| "neon_fun dbg rest VN_AcrossLanes = VisitNEONAcrossLanes dbg (rest 3)"
| "neon_fun dbg rest VN_MulByElementLong = SimulateNEONMulByElementLong dbg"
| "neon_fun dbg rest VN_DotProdByElement = SimulateNEONDotProdByElement dbg"
| "neon_fun dbg rest VN_ByIndexedElement = VisitNEONByIndexedElement dbg"
| "neon_fun dbg rest VN_Copy = VisitNEONCopy dbg"
| "neon_fun dbg rest VN_Extract = VisitNEONExtract dbg"
| "neon_fun dbg rest VN_Table = VisitNEONTable dbg"
| "neon_fun dbg rest VN_Perm = VisitNEONPerm dbg"
| "neon_fun dbg rest VN_ShiftImmediate = VisitNEONShiftImmediate dbg (rest 4)"
| "neon_fun dbg rest VN_ScalarShiftImmediate = VisitNEONScalarShiftImmediate dbg (rest 5)"
| "neon_fun dbg rest VN_Scalar3Same = VisitNEONScalar3Same dbg (rest 6)"
| "neon_fun dbg rest VN_Scalar3Diff = VisitNEONScalar3Diff dbg"
| "neon_fun dbg rest VN_Scalar3SameExtra = VisitNEONScalar3SameExtra dbg"
| "neon_fun dbg rest VN_Scalar2RegMisc = VisitNEONScalar2RegMisc dbg (rest 7)"
| "neon_fun dbg rest VN_ScalarPairwise = VisitNEONScalarPairwise dbg (rest 8)"
| "neon_fun dbg rest VN_ScalarCopy = VisitNEONScalarCopy dbg"
| "neon_fun dbg rest VN_ScalarByIndexedElement = VisitNEONScalarByIndexedElement dbg (rest 9)"
| "neon_fun dbg rest VN_ModifiedImmediate = VisitNEONModifiedImmediate dbg"
| "neon_fun dbg rest VN_SHA3 = SimulateNEONSHA3 dbg"

lemmas neon_visitor_defs =
  VisitNEON3Same_def VisitNEON3SameExtra_def VisitNEON3Different_def VisitNEON2RegMisc_def
  VisitNEONAcrossLanes_def SimulateNEONMulByElementLong_def SimulateNEONDotProdByElement_def
  VisitNEONByIndexedElement_def VisitNEONCopy_def VisitNEONExtract_def VisitNEONTable_def
  VisitNEONPerm_def VisitNEONShiftImmediate_def VisitNEONScalarShiftImmediate_def
  VisitNEONScalar3Same_def VisitNEONScalar3Diff_def VisitNEONScalar3SameExtra_def
  VisitNEONScalar2RegMisc_def VisitNEONScalarPairwise_def VisitNEONScalarCopy_def
  VisitNEONScalarByIndexedElement_def VisitNEONModifiedImmediate_def SimulateNEONSHA3_def

end
