(* ===== verification/Sim_Neon_Memory.thy ===== *)
theory Sim_Neon_Memory
  imports Sim_Neon Sim_LoadStore
begin

text \<open>
  Vector loads and stores: the element accesses \<open>LoadLane\<close> and \<open>StoreLane\<close> of
  \<open>src/aarch64/simulator-aarch64.h\<close>, the operations \<open>ld1\<close> to \<open>st4\<close> of
  \<open>src/aarch64/logic-aarch64.cc\<close> and the visitors of multiple and single structures of
  \<open>src/aarch64/simulator-aarch64.cc\<close>.  An access that fails a guard or tag check ends the
  process, with the elements before it done.
\<close>

section \<open>Elements\<close>

text \<open>A write to the vector registers of the simulator.\<close>

definition on_bank :: "(vbank \<Rightarrow> vbank) \<Rightarrow> 'v vsim \<Rightarrow> 'v vsim" where
  "on_bank f s = s\<lparr>vregs := (\<lambda>n. f (bank_of s) (VReg n))\<rparr>"

text \<open>\<open>Memory::ReadUint\<close> and the sized \<open>MemWrite\<close>.\<close>

definition MemReadUint :: "nat \<Rightarrow> u64 \<Rightarrow> 'v vsim \<Rightarrow> abort + u64" where
  "MemReadUint size_in_bytes address s =
     (if size_in_bytes \<in> {1, 2, 4, 8} then MemRead size_in_bytes address s else Inl UnreachableCode)"

definition MemWriteSized :: "nat \<Rightarrow> u64 \<Rightarrow> u64 \<Rightarrow> 'v vsim \<Rightarrow> abort + 'v vsim" where
  "MemWriteSized size_in_bytes address v s =
     (if size_in_bytes \<in> {1, 2, 4, 8} then MemWrite size_in_bytes address v s else Inl UnreachableCode)"

definition LoadUintToLane :: "nat \<Rightarrow> VectorFormat \<Rightarrow> nat \<Rightarrow> nat \<Rightarrow> u64 \<Rightarrow> 'v vsim \<Rightarrow> abort + 'v vsim" where
  "LoadUintToLane dst vform msize_in_bytes index addr s =
     and_then (MemReadUint msize_in_bytes addr s) (\<lambda>v. Inr (on_bank (SetUint vform (VReg dst) index v) s))"

definition LoadLane :: "nat \<Rightarrow> VectorFormat \<Rightarrow> nat \<Rightarrow> u64 \<Rightarrow> 'v vsim \<Rightarrow> abort + 'v vsim" where
  "LoadLane dst vform index addr s = LoadUintToLane dst vform (LaneSizeInBytesFromFormat vform) index addr s"

definition StoreLane :: "nat \<Rightarrow> VectorFormat \<Rightarrow> nat \<Rightarrow> u64 \<Rightarrow> 'v vsim \<Rightarrow> abort + 'v vsim" where
  "StoreLane src vform index addr s =
     MemWriteSized (LaneSizeInBytesFromFormat vform) addr (LUint vform (bank_of s) (VReg src) index) s"

section \<open>Structures\<close>

text \<open>Steps in order, up to the first that ends the process.\<close>

primrec in_order :: "('x \<Rightarrow> 'v vsim \<Rightarrow> abort + 'v vsim) \<Rightarrow> 'x list \<Rightarrow> 'v vsim \<Rightarrow> abort + 'v vsim" where
  "in_order step [] s = Inr s"
| "in_order step (x # xs) s = and_then (step x s) (in_order step xs)"

text \<open>
  The accesses of a structure of \<open>length regs\<close> elements per lane: register and address of
  each element of lane \<open>i\<close>, the addresses running from \<open>addr\<close> on (\<open>addr1\<close>,
  \<open>addr2\<close>, ... of the code, stepped by the size of the structure when \<open>advance\<close>).
\<close>

definition lane_accesses :: "VectorFormat \<Rightarrow> bool \<Rightarrow> nat list \<Rightarrow> u64 \<Rightarrow> nat \<Rightarrow> (nat \<times> u64) list" where
  "lane_accesses vform advance regs addr i =
     (let esize = LaneSizeInBytesFromFormat vform; base = (if advance then addr + of_nat (i * length regs * esize) else addr)
      in map (\<lambda>k. (regs ! k, base + of_nat (k * esize))) [0..<length regs])"

definition clear_all :: "VectorFormat \<Rightarrow> nat list \<Rightarrow> 'v vsim \<Rightarrow> 'v vsim" where
  "clear_all vform regs s = fold (\<lambda>r. on_bank (ClearForWrite vform (VReg r))) regs s"

definition load_lane_struct :: "VectorFormat \<Rightarrow> bool \<Rightarrow> nat list \<Rightarrow> u64 \<Rightarrow> nat \<Rightarrow> 'v vsim \<Rightarrow> abort + 'v vsim" where
  "load_lane_struct vform advance regs addr i =
     in_order (\<lambda>(r, a). LoadLane r vform i a) (lane_accesses vform advance regs addr i)"

definition store_lane_struct :: "VectorFormat \<Rightarrow> nat list \<Rightarrow> u64 \<Rightarrow> nat \<Rightarrow> 'v vsim \<Rightarrow> abort + 'v vsim" where
  "store_lane_struct vform regs addr i =
     in_order (\<lambda>(r, a). StoreLane r vform i a) (lane_accesses vform True regs addr i)"

text \<open>\<open>ld1\<close>, ..., \<open>ld4\<close> and \<open>st1\<close>, ..., \<open>st4\<close> on whole registers, by the registers.\<close>

definition ldn :: "VectorFormat \<Rightarrow> nat list \<Rightarrow> u64 \<Rightarrow> 'v vsim \<Rightarrow> abort + 'v vsim" where
  "ldn vform regs addr s =
     in_order (load_lane_struct vform True regs addr) [0..<LaneCount vform] (clear_all vform regs s)"

definition stn :: "VectorFormat \<Rightarrow> nat list \<Rightarrow> u64 \<Rightarrow> 'v vsim \<Rightarrow> abort + 'v vsim" where
  "stn vform regs addr s = in_order (store_lane_struct vform regs addr) [0..<LaneCount vform] s"

text \<open>The forms with a lane index.\<close>

definition ldn_lane :: "VectorFormat \<Rightarrow> nat list \<Rightarrow> nat \<Rightarrow> u64 \<Rightarrow> 'v vsim \<Rightarrow> abort + 'v vsim" where
  "ldn_lane vform regs index addr s = load_lane_struct vform False regs addr index (clear_all vform regs s)"

definition stn_lane :: "VectorFormat \<Rightarrow> nat list \<Rightarrow> nat \<Rightarrow> u64 \<Rightarrow> 'v vsim \<Rightarrow> abort + 'v vsim" where
  "stn_lane vform regs index addr s =
     in_order (\<lambda>(r, a). StoreLane r vform index a) (lane_accesses vform False regs addr index) s"

text \<open>The replicating forms: every lane loads the same elements.\<close>

definition ldnr :: "VectorFormat \<Rightarrow> nat list \<Rightarrow> u64 \<Rightarrow> 'v vsim \<Rightarrow> abort + 'v vsim" where
  "ldnr vform regs addr s =
     in_order (load_lane_struct vform False regs addr) [0..<LaneCount vform] (clear_all vform regs s)"

section \<open>Multiple structures\<close>

text \<open>\<open>reg[i]\<close> and \<open>addr[i]\<close>; the cases of several one-register accesses fall through downwards.\<close>

definition struct_reg :: "u32 \<Rightarrow> nat \<Rightarrow> nat" where
  "struct_reg bits i = (rt_of bits + i) mod 32"

definition struct_regs :: "u32 \<Rightarrow> nat \<Rightarrow> nat list" where
  "struct_regs bits n = map (struct_reg bits) [0..<n]"

definition each_register ::
  "(VectorFormat \<Rightarrow> nat list \<Rightarrow> u64 \<Rightarrow> 'v vsim \<Rightarrow> abort + 'v vsim) \<Rightarrow> VectorFormat \<Rightarrow> u32 \<Rightarrow> u64 \<Rightarrow> nat \<Rightarrow>
    'v vsim \<Rightarrow> abort + 'v vsim" where
  "each_register access vf bits addr_base n =
     in_order (\<lambda>i. access vf [struct_reg bits i] (addr_base + of_nat (i * RegisterSizeInBytesFromFormat vf))) (rev [0..<n])"

text \<open>The operation and the number of registers of each case.\<close>

definition multi_struct_table ::
  "VectorFormat \<Rightarrow> u32 \<Rightarrow> u64 \<Rightarrow> (u32 \<times> ('v vsim \<Rightarrow> abort + 'v vsim) \<times> nat) list" where
  "multi_struct_table vf bits addr =
     [(NEON_LD1_4v, each_register ldn vf bits addr 4, 4),
      (NEON_LD1_4v_post, each_register ldn vf bits addr 4, 4),
      (NEON_LD1_3v, each_register ldn vf bits addr 3, 3),
      (NEON_LD1_3v_post, each_register ldn vf bits addr 3, 3),
      (NEON_LD1_2v, each_register ldn vf bits addr 2, 2),
      (NEON_LD1_2v_post, each_register ldn vf bits addr 2, 2),
      (NEON_LD1_1v, each_register ldn vf bits addr 1, 1),
      (NEON_LD1_1v_post, each_register ldn vf bits addr 1, 1),
      (NEON_ST1_4v, each_register stn vf bits addr 4, 4),
      (NEON_ST1_4v_post, each_register stn vf bits addr 4, 4),
      (NEON_ST1_3v, each_register stn vf bits addr 3, 3),
      (NEON_ST1_3v_post, each_register stn vf bits addr 3, 3),
      (NEON_ST1_2v, each_register stn vf bits addr 2, 2),
      (NEON_ST1_2v_post, each_register stn vf bits addr 2, 2),
      (NEON_ST1_1v, each_register stn vf bits addr 1, 1),
      (NEON_ST1_1v_post, each_register stn vf bits addr 1, 1),
      (NEON_LD2, ldn vf (struct_regs bits 2) addr, 2),
      (NEON_LD2_post, ldn vf (struct_regs bits 2) addr, 2),
      (NEON_ST2, stn vf (struct_regs bits 2) addr, 2),
      (NEON_ST2_post, stn vf (struct_regs bits 2) addr, 2),
      (NEON_LD3, ldn vf (struct_regs bits 3) addr, 3),
      (NEON_LD3_post, ldn vf (struct_regs bits 3) addr, 3),
      (NEON_ST3, stn vf (struct_regs bits 3) addr, 3),
      (NEON_ST3_post, stn vf (struct_regs bits 3) addr, 3),
      (NEON_LD4, ldn vf (struct_regs bits 4) addr, 4),
      (NEON_LD4_post, ldn vf (struct_regs bits 4) addr, 4),
      (NEON_ST4, stn vf (struct_regs bits 4) addr, 4),
      (NEON_ST4_post, stn vf (struct_regs bits 4) addr, 4)]"

text \<open>
  Without assertions an operation outside the table does nothing and still writes back the base
  register, as for one register.
\<close>

definition write_back :: "instruction \<Rightarrow> AddrMode \<Rightarrow> u64 \<Rightarrow> nat \<Rightarrow> 'v vsim \<Rightarrow> 'v vsim" where
  "write_back instr addr_mode addr_base bytes s =
     (let bits = insn_bits instr; rm = rm_of bits in
      if addr_mode = PostIndex
      then WriteRegister (rn_of bits) (addr_base + (if rm = 31 then of_nat bytes else ReadXRegister rm s)) Reg31IsStackPointer s
      else s)"

definition reserved_offset_form :: "u32 \<Rightarrow> bool" where
  "reserved_offset_form bits \<longleftrightarrow> ExtractBit 23 bits = 0 \<and> ExtractBits 20 16 bits \<noteq> 0"

definition NEONLoadStoreMultiStructHelper :: "bool \<Rightarrow> instruction \<Rightarrow> AddrMode \<Rightarrow> 'v vsim \<Rightarrow> abort + 'v vsim" where
  "NEONLoadStoreMultiStructHelper dbg instr addr_mode s =
     (let bits = insn_bits instr;
          vf = GetVectorFormat bits LoadStoreFormatMap;
          addr_base = ReadRegister (rn_of bits) Reg31IsStackPointer s;
          key = Mask NEONLoadStoreMultiStructPostIndexMask bits
      in if dbg \<and> reserved_offset_form bits then Inl UnreachableCode
         else case map_of (multi_struct_table vf bits addr_base) key of
           Some (access, reg_count) \<Rightarrow>
             map_result (write_back instr addr_mode addr_base (RegisterSizeInBytesFromFormat vf * reg_count)) (access s)
         | None \<Rightarrow>
             if dbg then Inl (UnimplementedInstruction (pc_reg s))
             else Inr (write_back instr addr_mode addr_base (RegisterSizeInBytesFromFormat vf) s))"

definition VisitNEONLoadStoreMultiStruct :: "bool \<Rightarrow> instruction \<Rightarrow> 'v vsim \<Rightarrow> abort + 'v vsim" where
  "VisitNEONLoadStoreMultiStruct dbg instr s = NEONLoadStoreMultiStructHelper dbg instr Offset s"

definition VisitNEONLoadStoreMultiStructPostIndex :: "bool \<Rightarrow> instruction \<Rightarrow> 'v vsim \<Rightarrow> abort + 'v vsim" where
  "VisitNEONLoadStoreMultiStructPostIndex dbg instr s = NEONLoadStoreMultiStructHelper dbg instr PostIndex s"

section \<open>Single structures\<close>

fun LaneSizeInBytesLog2FromFormat :: "VectorFormat \<Rightarrow> nat" where
  "LaneSizeInBytesLog2FromFormat kFormatB = 0"
| "LaneSizeInBytesLog2FromFormat kFormat8B = 0"
| "LaneSizeInBytesLog2FromFormat kFormat16B = 0"
| "LaneSizeInBytesLog2FromFormat kFormatVnB = 0"
| "LaneSizeInBytesLog2FromFormat kFormatH = 1"
| "LaneSizeInBytesLog2FromFormat kFormat2H = 1"
| "LaneSizeInBytesLog2FromFormat kFormat4H = 1"
| "LaneSizeInBytesLog2FromFormat kFormat8H = 1"
| "LaneSizeInBytesLog2FromFormat kFormatVnH = 1"
| "LaneSizeInBytesLog2FromFormat kFormatS = 2"
| "LaneSizeInBytesLog2FromFormat kFormat2S = 2"
| "LaneSizeInBytesLog2FromFormat kFormat4S = 2"
| "LaneSizeInBytesLog2FromFormat kFormatVnS = 2"
| "LaneSizeInBytesLog2FromFormat kFormatD = 3"
| "LaneSizeInBytesLog2FromFormat kFormat1D = 3"
| "LaneSizeInBytesLog2FromFormat kFormat2D = 3"
| "LaneSizeInBytesLog2FromFormat kFormatVnD = 3"
| "LaneSizeInBytesLog2FromFormat kFormatVnQ = 4"
| "LaneSizeInBytesLog2FromFormat _ = 0"

text \<open>The first switch: format, whether to load, whether to replicate.\<close>

definition single_loads_b :: "u32 list" where
  "single_loads_b = [NEON_LD1_b, NEON_LD1_b_post,
     NEON_LD2_b, NEON_LD2_b_post,
     NEON_LD3_b, NEON_LD3_b_post,
     NEON_LD4_b, NEON_LD4_b_post]"

definition single_stores_b :: "u32 list" where
  "single_stores_b = [NEON_ST1_b, NEON_ST1_b_post,
     NEON_ST2_b, NEON_ST2_b_post,
     NEON_ST3_b, NEON_ST3_b_post,
     NEON_ST4_b, NEON_ST4_b_post]"

definition single_loads_h :: "u32 list" where
  "single_loads_h = [NEON_LD1_h, NEON_LD1_h_post,
     NEON_LD2_h, NEON_LD2_h_post,
     NEON_LD3_h, NEON_LD3_h_post,
     NEON_LD4_h, NEON_LD4_h_post]"

definition single_stores_h :: "u32 list" where
  "single_stores_h = [NEON_ST1_h, NEON_ST1_h_post,
     NEON_ST2_h, NEON_ST2_h_post,
     NEON_ST3_h, NEON_ST3_h_post,
     NEON_ST4_h, NEON_ST4_h_post]"

definition single_loads_s :: "u32 list" where
  "single_loads_s = [NEON_LD1_s, NEON_LD1_s_post,
     NEON_LD2_s, NEON_LD2_s_post,
     NEON_LD3_s, NEON_LD3_s_post,
     NEON_LD4_s, NEON_LD4_s_post]"

definition single_stores_s :: "u32 list" where
  "single_stores_s = [NEON_ST1_s, NEON_ST1_s_post,
     NEON_ST2_s, NEON_ST2_s_post,
     NEON_ST3_s, NEON_ST3_s_post,
     NEON_ST4_s, NEON_ST4_s_post]"

definition single_replicates :: "u32 list" where
  "single_replicates = [NEON_LD1R, NEON_LD1R_post,
     NEON_LD2R, NEON_LD2R_post,
     NEON_LD3R, NEON_LD3R_post,
     NEON_LD4R, NEON_LD4R_post]"

definition single_struct_kind :: "u32 \<Rightarrow> (VectorFormat \<times> bool \<times> bool) option" where
  "single_struct_kind bits =
     (let key = Mask NEONLoadStoreSingleStructPostIndexMask bits;
          vf_s = (if GetNEONLSSize bits AND 1 = 0 then kFormat4S else kFormat2D)
      in if key \<in> set single_loads_b then Some (kFormat16B, True, False)
         else if key \<in> set single_stores_b then Some (kFormat16B, False, False)
         else if key \<in> set single_loads_h then Some (kFormat8H, True, False)
         else if key \<in> set single_stores_h then Some (kFormat8H, False, False)
         else if key \<in> set single_loads_s then Some (vf_s, True, False)
         else if key \<in> set single_stores_s then Some (vf_s, False, False)
         else if key \<in> set single_replicates then Some (GetVectorFormat bits LoadStoreFormatMap, True, True)
         else None)"

text \<open>The second switch: the registers of the structure.\<close>

definition single_reg_count :: "u32 \<Rightarrow> nat" where
  "single_reg_count bits =
     (let key = Mask NEONLoadStoreSingleLenMask bits in
      if key = NEONLoadStoreSingle1 then 1
      else if key = NEONLoadStoreSingle2 then 2
      else if key = NEONLoadStoreSingle3 then 3
      else if key = NEONLoadStoreSingle4 then 4
      else 0)"

text \<open>Without assertions an operation outside the first switch is a store of bytes.\<close>

definition NEONLoadStoreSingleStructHelper :: "bool \<Rightarrow> instruction \<Rightarrow> AddrMode \<Rightarrow> 'v vsim \<Rightarrow> abort + 'v vsim" where
  "NEONLoadStoreSingleStructHelper dbg instr addr_mode s =
     (let bits = insn_bits instr;
          addr = ReadRegister (rn_of bits) Reg31IsStackPointer s
      in if dbg \<and> reserved_offset_form bits then Inl UnreachableCode
         else if dbg \<and> single_struct_kind bits = None then Inl (UnimplementedInstruction (pc_reg s))
         else
           let (vf, do_load, replicating) =
                 (case single_struct_kind bits of Some k \<Rightarrow> k | None \<Rightarrow> (kFormat16B, False, False));
               lane = unat (GetNEONLSIndex bits (LaneSizeInBytesLog2FromFormat vf));
               reg_count = single_reg_count bits;
               regs = struct_regs bits reg_count;
               access = (if replicating then ldnr vf regs addr
                         else if do_load then ldn_lane vf regs lane addr
                         else stn_lane vf regs lane addr)
           in if dbg \<and> reg_count = 0 then Inl (UnimplementedInstruction (pc_reg s))
              else map_result (write_back instr addr_mode addr (reg_count * LaneSizeInBytesFromFormat vf)) (access s))"

definition VisitNEONLoadStoreSingleStruct :: "bool \<Rightarrow> instruction \<Rightarrow> 'v vsim \<Rightarrow> abort + 'v vsim" where
  "VisitNEONLoadStoreSingleStruct dbg instr s = NEONLoadStoreSingleStructHelper dbg instr Offset s"

definition VisitNEONLoadStoreSingleStructPostIndex :: "bool \<Rightarrow> instruction \<Rightarrow> 'v vsim \<Rightarrow> abort + 'v vsim" where
  "VisitNEONLoadStoreSingleStructPostIndex dbg instr s = NEONLoadStoreSingleStructHelper dbg instr PostIndex s"

section \<open>The visitors together\<close>

text \<open>The vector load and store leaves that the form table names.\<close>

datatype struct_visitor =
    V_NEONLoadStoreMultiStruct | V_NEONLoadStoreMultiStructPostIndex | V_NEONLoadStoreSingleStruct | V_NEONLoadStoreSingleStructPostIndex

primrec struct_fun :: "bool \<Rightarrow> struct_visitor \<Rightarrow> instruction \<Rightarrow> 'v vsim \<Rightarrow> abort + 'v vsim" where
  "struct_fun dbg V_NEONLoadStoreMultiStruct = VisitNEONLoadStoreMultiStruct dbg"
| "struct_fun dbg V_NEONLoadStoreMultiStructPostIndex = VisitNEONLoadStoreMultiStructPostIndex dbg"
| "struct_fun dbg V_NEONLoadStoreSingleStruct = VisitNEONLoadStoreSingleStruct dbg"
| "struct_fun dbg V_NEONLoadStoreSingleStructPostIndex = VisitNEONLoadStoreSingleStructPostIndex dbg"

end
