(* ===== verification/Sim_Tags.thy ===== *)
theory Sim_Tags
  imports Sim_System Sim_LoadStore "HOL-Library.While_Combinator"
begin

text \<open>
  The memory tagging leaves of \<open>src/aarch64/simulator-aarch64.cc\<close> (\<open>SimulateMTE...\<close>,
  \<open>Simulate_XdSP_XnSP_Xm\<close>, \<open>GenerateRandomTag\<close> of \<open>logic-aarch64.cc\<close>): making tagged
  addresses, choosing tags outside an exclusion mask, and storing and loading the tag of a
  granule of 16 bytes.  \<open>dbg\<close> says whether this is a debug build, in which
  \<open>VIXL_ASSERT\<close> and \<open>VIXL_UNIMPLEMENTED\<close> abort.
\<close>

section \<open>Choosing tags\<close>

definition kMTETagGranuleInBytes :: "'a::len word" where
  "kMTETagGranuleInBytes = 16"

definition excluded :: "u64 \<Rightarrow> u64 \<Rightarrow> bool" where
  "excluded exclude tag \<longleftrightarrow> exclude AND push_bit (unat tag) 1 \<noteq> 0"

definition next_tag :: "u64 \<Rightarrow> u64" where
  "next_tag tag = (tag + 1) mod 16"

text \<open>The inner loop, run once when the offset is 0 and after each step of the outer loop otherwise.\<close>

definition skip_excluded :: "u64 \<Rightarrow> u64 \<Rightarrow> u64" where
  "skip_excluded exclude tag = while (excluded exclude) next_tag tag"

primrec advance_tag :: "nat \<Rightarrow> u64 \<Rightarrow> u64 \<Rightarrow> u64" where
  "advance_tag 0 exclude tag = tag"
| "advance_tag (Suc offset) exclude tag = advance_tag offset exclude (skip_excluded exclude (next_tag tag))"

definition ChooseNonExcludedTag :: "u64 \<Rightarrow> u64 \<Rightarrow> u64 \<Rightarrow> u64" where
  "ChooseNonExcludedTag tag offset exclude =
     (if exclude = 0xffff then 0
      else if offset = 0 then skip_excluded exclude tag
      else advance_tag (unat offset) exclude tag)"

definition GetAddressWithAllocationTag :: "u64 \<Rightarrow> u64 \<Rightarrow> u64" where
  "GetAddressWithAllocationTag addr tag = (addr AND NOT (push_bit 56 0xf)) OR push_bit 56 tag"

definition GenerateRandomTag :: "u16 \<Rightarrow> 'v vsim \<Rightarrow> u64 \<times> 'v vsim" where
  "GenerateRandomTag exclude s =
     (let (r, s1) = next_random s; rtag = drop_bit 44 r
      in if exclude = 0
         then let (r', s2) = next_random s1; exclude' = ucast (drop_bit 44 r') :: u16
              in (ChooseNonExcludedTag rtag 0 (ucast exclude'), s2)
         else (ChooseNonExcludedTag rtag 0 (ucast exclude), s1))"

section \<open>Tagged addresses\<close>

definition Simulate_XdSP_XnSP_Xm :: "bool \<Rightarrow> instruction \<Rightarrow> 'v vsim \<Rightarrow> abort + 'v vsim" where
  "Simulate_XdSP_XnSP_Xm dbg instr s =
     and_then (vixl_assert dbg (form_hash s = Hash ''irg_64i_dp_2src'')) (\<lambda>_.
       let bits = insn_bits instr;
           rn = ReadRegister (rn_of bits) Reg31IsStackPointer s;
           rm = ReadXRegister (rm_of bits) s;
           (tag, s1) = GenerateRandomTag (ucast (rm AND 0xffff)) s;
           new_val = GetAddressWithAllocationTag rn tag
       in Inr (WriteRegister (rd_of bits) new_val Reg31IsStackPointer s1))"

definition SimulateMTEAddSubTag :: "bool \<Rightarrow> instruction \<Rightarrow> 'v vsim \<Rightarrow> abort + 'v vsim" where
  "SimulateMTEAddSubTag dbg instr s =
     (let bits = insn_bits instr;
          rn = ReadRegister (rn_of bits) Reg31IsStackPointer s;
          rn_tag = of_nat (GetAllocationTagFromAddress rn);
          tag_offset = ucast (ExtractBits 13 10 bits);
          new_tag = ChooseNonExcludedTag rn_tag tag_offset 0;
          offset = ucast (ExtractBits 21 16 bits * kMTETagGranuleInBytes) :: u64;
          is_sub = (form_hash s = Hash ''subg_64_addsub_immtags'')
      in and_then (vixl_assert dbg (is_sub \<or> form_hash s = Hash ''addg_64_addsub_immtags'')) (\<lambda>_.
         let (sum, s1) = AddWithCarryFlags 64 False rn (if is_sub then NOT offset else offset) (if is_sub then 1 else 0) s;
             new_val = GetAddressWithAllocationTag sum new_tag
         in Inr (WriteRegister (rd_of bits) new_val Reg31IsStackPointer s1)))"

definition SimulateMTETagMaskInsert :: "bool \<Rightarrow> instruction \<Rightarrow> 'v vsim \<Rightarrow> abort + 'v vsim" where
  "SimulateMTETagMaskInsert dbg instr s =
     and_then (vixl_assert dbg (form_hash s = Hash ''gmi_64g_dp_2src'')) (\<lambda>_.
       let bits = insn_bits instr;
           mask = ReadXRegister (rm_of bits) s;
           tag = GetAllocationTagFromAddress (ReadRegister (rn_of bits) Reg31IsStackPointer s);
           mask_bit = push_bit tag 1
       in Inr (WriteXRegister (rd_of bits) (mask OR mask_bit) s))"

definition SimulateMTESubPointer :: "bool \<Rightarrow> instruction \<Rightarrow> 'v vsim \<Rightarrow> abort + 'v vsim" where
  "SimulateMTESubPointer dbg instr s =
     (let bits = insn_bits instr;
          rn = ReadRegister (rn_of bits) Reg31IsStackPointer s;
          rm = ReadRegister (rm_of bits) Reg31IsStackPointer s;
          set_flags = (form_hash s = Hash ''subps_64s_dp_2src'')
      in and_then (vixl_assert dbg (set_flags \<or> form_hash s = Hash ''subp_64s_dp_2src'')) (\<lambda>_.
         let rn' = ExtractSignedBitfield64 55 0 rn;
             rm' = ExtractSignedBitfield64 55 0 rm;
             (new_val, s1) = AddWithCarryFlags 64 set_flags rn' (NOT rm') 1 s
         in Inr (WriteXRegister (rd_of bits) new_val s1)))"

section \<open>Tags of granules\<close>

text \<open>\<open>SetMTETag\<close> with its assertion; the tag always fits, being a field of four bits.\<close>

definition set_tag :: "bool \<Rightarrow> u64 \<Rightarrow> nat \<Rightarrow> 'v vsim \<Rightarrow> abort + 'v vsim" where
  "set_tag dbg address tag s =
     and_then (vixl_assert dbg (IsAligned address kMTETagGranuleInBytes)) (\<lambda>_. Inr (SetMTETag address tag s))"

text \<open>The addressing mode of a form; \<open>none\<close> of the three lists is \<open>VIXL_UNIMPLEMENTED\<close>, then the offset mode.\<close>

definition addr_mode_switch ::
  "bool \<Rightarrow> string list \<Rightarrow> string list \<Rightarrow> string list \<Rightarrow> 'v vsim \<Rightarrow> abort + AddrMode" where
  "addr_mode_switch dbg offset_forms post_forms pre_forms s =
     (let among = (\<lambda>forms. form_hash s \<in> set (map Hash forms))
      in if among offset_forms then Inr Offset
         else if among post_forms then Inr PostIndex
         else if among pre_forms then Inr PreIndex
         else map_result (\<lambda>_. Offset) (unimplemented dbg s))"

definition SimulateMTEStoreTagPair :: "bool \<Rightarrow> instruction \<Rightarrow> 'v vsim \<Rightarrow> abort + 'v vsim" where
  "SimulateMTEStoreTagPair dbg instr s =
     (let bits = insn_bits instr;
          rn = ReadRegister (rn_of bits) Reg31IsStackPointer s :: u64;
          rt = ReadXRegister (rt_of bits) s;
          rt2 = ReadXRegister (rt2_of bits) s;
          offset = GetImmLSPair bits * kMTETagGranuleInBytes
      in and_then (addr_mode_switch dbg [''stgp_64_ldstpair_off''] [''stgp_64_ldstpair_post'']
                     [''stgp_64_ldstpair_pre''] s) (\<lambda>addr_mode.
         and_then (AddressModeHelper (rn_of bits) (scast offset) addr_mode s) (\<lambda>(address, s1).
         if \<not> IsAligned address kMTETagGranuleInBytes then Inl AlignmentException
         else let tag = GetAllocationTagFromAddress rn
              in and_then (set_tag dbg address tag s1) (\<lambda>s2.
                 and_then (MemWriteT address rt s2) (MemWriteT (address + 8) rt2)))))"

definition stg_offset_forms :: "string list" where
  "stg_offset_forms = [''st2g_64soffset_ldsttags'', ''stg_64soffset_ldsttags'',
     ''stz2g_64soffset_ldsttags'', ''stzg_64soffset_ldsttags'']"

definition stg_post_forms :: "string list" where
  "stg_post_forms = [''st2g_64spost_ldsttags'', ''stg_64spost_ldsttags'',
     ''stz2g_64spost_ldsttags'', ''stzg_64spost_ldsttags'']"

definition stg_pre_forms :: "string list" where
  "stg_pre_forms = [''st2g_64spre_ldsttags'', ''stg_64spre_ldsttags'',
     ''stz2g_64spre_ldsttags'', ''stzg_64spre_ldsttags'']"

definition stg_pair_forms :: "string list" where
  "stg_pair_forms = [''st2g_64soffset_ldsttags'', ''st2g_64spost_ldsttags'', ''st2g_64spre_ldsttags'',
     ''stz2g_64soffset_ldsttags'', ''stz2g_64spost_ldsttags'', ''stz2g_64spre_ldsttags'']"

definition stg_zeroing_forms :: "string list" where
  "stg_zeroing_forms = [''stz2g_64soffset_ldsttags'', ''stz2g_64spost_ldsttags'', ''stz2g_64spre_ldsttags'',
     ''stzg_64soffset_ldsttags'', ''stzg_64spost_ldsttags'', ''stzg_64spre_ldsttags'']"

definition SimulateMTEStoreTag :: "bool \<Rightarrow> instruction \<Rightarrow> 'v vsim \<Rightarrow> abort + 'v vsim" where
  "SimulateMTEStoreTag dbg instr s =
     (let bits = insn_bits instr;
          rt = ReadRegister (rt_of bits) Reg31IsStackPointer s :: u64;
          offset = GetImmLS bits * kMTETagGranuleInBytes;
          is_pair = (form_hash s \<in> set (map Hash stg_pair_forms));
          is_zeroing = (form_hash s \<in> set (map Hash stg_zeroing_forms))
      in and_then (addr_mode_switch dbg stg_offset_forms stg_post_forms stg_pre_forms s) (\<lambda>addr_mode.
         and_then (AddressModeHelper (rn_of bits) (scast offset) addr_mode s) (\<lambda>(address, s1).
         and_then (if is_zeroing
                   then if \<not> IsAligned address kMTETagGranuleInBytes then Inl AlignmentException
                        else zero_block address (if is_pair then 4 else 2) s1
                   else Inr s1) (\<lambda>s2.
         let tag = GetAllocationTagFromAddress rt
         in and_then (set_tag dbg address tag s2) (\<lambda>s3.
            if is_pair then set_tag dbg (address + kMTETagGranuleInBytes) tag s3 else Inr s3)))))"

definition SimulateMTELoadTag :: "bool \<Rightarrow> instruction \<Rightarrow> 'v vsim \<Rightarrow> abort + 'v vsim" where
  "SimulateMTELoadTag dbg instr s =
     (let bits = insn_bits instr;
          rt = ReadXRegister (rt_of bits) s;
          offset = GetImmLS bits * kMTETagGranuleInBytes
      in and_then (if form_hash s = Hash ''ldg_64loffset_ldsttags'' then Inr s else unimplemented dbg s) (\<lambda>s'.
         and_then (AddressModeHelper (rn_of bits) (scast offset) Offset s') (\<lambda>(address, s1).
         let address' = AlignDown address kMTETagGranuleInBytes
         in and_then (GetMTETag address' s1) (\<lambda>tag.
            Inr (WriteXRegister (rt_of bits) (GetAddressWithAllocationTag rt (of_nat tag)) s1)))))"

section \<open>The visitors together\<close>

text \<open>The memory tagging leaves that the form table names.\<close>

datatype tag_visitor =
    V_XdSP_XnSP_Xm | V_MTEAddSubTag | V_MTETagMaskInsert | V_MTESubPointer | V_MTEStoreTagPair | V_MTEStoreTag | V_MTELoadTag

primrec tag_fun :: "bool \<Rightarrow> tag_visitor \<Rightarrow> instruction \<Rightarrow> 'v vsim \<Rightarrow> abort + 'v vsim" where
  "tag_fun dbg V_XdSP_XnSP_Xm = Simulate_XdSP_XnSP_Xm dbg"
| "tag_fun dbg V_MTEAddSubTag = SimulateMTEAddSubTag dbg"
| "tag_fun dbg V_MTETagMaskInsert = SimulateMTETagMaskInsert dbg"
| "tag_fun dbg V_MTESubPointer = SimulateMTESubPointer dbg"
| "tag_fun dbg V_MTEStoreTagPair = SimulateMTEStoreTagPair dbg"
| "tag_fun dbg V_MTEStoreTag = SimulateMTEStoreTag dbg"
| "tag_fun dbg V_MTELoadTag = SimulateMTELoadTag dbg"

end
