(* ===== verification/Sim_Mops.thy ===== *)
theory Sim_Mops
  imports Sim_Tags
begin

text \<open>
  The memory copy and set leaves (\<open>SimulateCpy...\<close> and \<open>SimulateSet...\<close> of
  \<open>src/aarch64/simulator-aarch64.cc\<close>, \<open>MOPSPHelper\<close> of \<open>simulator-aarch64.h\<close>) and the
  checks of their triplets (\<open>instructions-aarch64.h\<close>).  The prologue checks registers,
  saturates the count and fixes the direction of a copy in the N flag; the main part
  does all the work, byte by byte; the epilogue does nothing.
\<close>

section \<open>Triplets\<close>

text \<open>The template argument, \<open>"cpy"_h\<close>, \<open>"set"_h\<close> or \<open>"setg"_h\<close>.\<close>

datatype mops_type = MOPS_cpy | MOPS_set | MOPS_setg

definition op_lsb :: "mops_type \<Rightarrow> nat" where
  "op_lsb ty = (if ty = MOPS_cpy then 22 else 14)"

definition without_op :: "mops_type \<Rightarrow> u32 \<Rightarrow> u32" where
  "without_op ty bits = Mask (NOT (push_bit (op_lsb ty) 3)) bits"

text \<open>The first argument is the word of the receiver, the last that of the other instruction.\<close>

definition IsMOPSPrologueOf :: "u32 \<Rightarrow> mops_type \<Rightarrow> u32 \<Rightarrow> bool" where
  "IsMOPSPrologueOf this_bits ty bits \<longleftrightarrow> this_bits = without_op ty bits"

definition IsMOPSMainOf :: "u32 \<Rightarrow> mops_type \<Rightarrow> u32 \<Rightarrow> bool" where
  "IsMOPSMainOf this_bits ty bits \<longleftrightarrow> this_bits = (without_op ty bits OR push_bit (op_lsb ty) 1)"

definition IsMOPSEpilogueOf :: "u32 \<Rightarrow> mops_type \<Rightarrow> u32 \<Rightarrow> bool" where
  "IsMOPSEpilogueOf this_bits ty bits \<longleftrightarrow> this_bits = (without_op ty bits OR push_bit (op_lsb ty) 2)"

definition word_at :: "u64 \<Rightarrow> 'v vsim \<Rightarrow> u32" where
  "word_at address s = read_mem (memory s) address 4"

definition IsConsistentMOPSTriplet :: "mops_type \<Rightarrow> instruction \<Rightarrow> 'v vsim \<Rightarrow> abort + bool" where
  "IsConsistentMOPSTriplet ty instr s =
     (let this_bits = insn_bits instr; a = insn_addr instr;
          prev2 = word_at (a - 8) s; prev1 = word_at (a - 4) s;
          next1 = word_at (a + 4) s; next2 = word_at (a + 8) s;
          opfield = Mask (push_bit (op_lsb ty) 3) this_bits
      in if opfield = 0 then Inr (IsMOPSMainOf next1 ty this_bits \<and> IsMOPSEpilogueOf next2 ty this_bits)
         else if opfield = push_bit (op_lsb ty) 1
         then Inr (IsMOPSPrologueOf prev1 ty this_bits \<and> IsMOPSEpilogueOf next1 ty this_bits)
         else if opfield = push_bit (op_lsb ty) 2
         then Inr (IsMOPSPrologueOf prev2 ty this_bits \<and> IsMOPSMainOf prev1 ty this_bits)
         else Inl (HostAbort ''Undefined MOPS operation''))"

text \<open>The assertions on triplets, which only a debug build evaluates.\<close>

definition assert_triplet :: "bool \<Rightarrow> mops_type \<Rightarrow> instruction \<Rightarrow> 'v vsim \<Rightarrow> abort + unit" where
  "assert_triplet dbg ty instr s =
     (if dbg then and_then (IsConsistentMOPSTriplet ty instr s) (vixl_assert dbg) else Inr ())"

definition assert_follows ::
  "bool \<Rightarrow> (u32 \<Rightarrow> mops_type \<Rightarrow> u32 \<Rightarrow> bool) \<Rightarrow> mops_type \<Rightarrow> instruction \<Rightarrow> 'v vsim \<Rightarrow> abort + unit" where
  "assert_follows dbg follows ty instr s =
     vixl_assert dbg (follows (insn_bits instr) ty (word_at (last_instr s) s))"

section \<open>Prologues\<close>

definition saturated_count :: "mops_type \<Rightarrow> u64 \<Rightarrow> u64" where
  "saturated_count ty xn =
     (let saturation_bits = (if ty = MOPS_cpy then 55 else 63)
      in if drop_bit saturation_bits xn \<noteq> 0
         then let m = push_bit saturation_bits 1 - 1
              in if ty = MOPS_setg then m AND NOT (kMTETagGranuleInBytes - 1) else m
         else xn)"

definition MOPSPHelper :: "bool \<Rightarrow> mops_type \<Rightarrow> instruction \<Rightarrow> 'v vsim \<Rightarrow> abort + 'v vsim" where
  "MOPSPHelper dbg ty instr s =
     and_then (assert_triplet dbg ty instr s) (\<lambda>_.
       let bits = insn_bits instr; d = rd_of bits; n = rn_of bits; r = rs_of bits
       in if d = n \<or> d = r \<or> n = r \<or> d = 31 \<or> n = 31 then VisitUnallocated instr s
          else if ty = MOPS_cpy \<and> r = 31 then VisitUnallocated instr s
          else if ExtractBits 31 30 bits \<noteq> 0 then VisitUnallocated instr s
          else let xn = ReadXRegister n s; sat = saturated_count ty xn;
                   s1 = (if sat \<noteq> xn then WriteXRegister n sat s else s)
               in Inr (SetV 0 (SetC 1 (SetZ 0 (SetN 0 s1)))))"

definition SimulateCpyFP :: "bool \<Rightarrow> instruction \<Rightarrow> 'v vsim \<Rightarrow> abort + 'v vsim" where
  "SimulateCpyFP dbg instr s = MOPSPHelper dbg MOPS_cpy instr s"

definition copies_backwards :: "u64 \<Rightarrow> u64 \<Rightarrow> u64 \<Rightarrow> bool" where
  "copies_backwards xd xs xn =
     (let xs_tbi = ExtractUnsignedBitfield64 55 0 xs; xd_tbi = ExtractUnsignedBitfield64 55 0 xd
      in xs_tbi < xd_tbi \<and> xs_tbi + xn > xd_tbi)"

definition SimulateCpyP :: "bool \<Rightarrow> instruction \<Rightarrow> 'v vsim \<Rightarrow> abort + 'v vsim" where
  "SimulateCpyP dbg instr s =
     and_then (MOPSPHelper dbg MOPS_cpy instr s) (\<lambda>s1.
       let bits = insn_bits instr; d = rd_of bits; n = rn_of bits; r = rs_of bits;
           xs = ReadXRegister r s1; xd = ReadXRegister d s1; xn = ReadXRegister n s1
       in and_then (vixl_assert dbg (ExtractUnsignedBitfield64 63 55 xn = 0)) (\<lambda>_.
          let is_backwards = copies_backwards xd xs xn;
              s2 = (if is_backwards then WriteXRegister d (xd + xn) (WriteXRegister r (xs + xn) s1) else s1)
          in Inr (SetN (if is_backwards then 1 else 0) s2)))"

definition SimulateSetP :: "bool \<Rightarrow> instruction \<Rightarrow> 'v vsim \<Rightarrow> abort + 'v vsim" where
  "SimulateSetP dbg instr s = MOPSPHelper dbg MOPS_set instr s"

definition SimulateSetGP :: "bool \<Rightarrow> instruction \<Rightarrow> 'v vsim \<Rightarrow> abort + 'v vsim" where
  "SimulateSetGP dbg instr s =
     and_then (MOPSPHelper dbg MOPS_setg instr s) (\<lambda>s1.
       let bits = insn_bits instr;
           xd = ReadXRegister (rd_of bits) s1; xn = ReadXRegister (rn_of bits) s1
       in if xn > 0 \<and> \<not> IsAligned xd kMTETagGranuleInBytes then Inl AlignmentException
          else if \<not> IsAligned xn kMTETagGranuleInBytes then Inl AlignmentException
          else Inr s1)"

section \<open>The copy\<close>

text \<open>The loop \<open>while (xn--)\<close>: the final pointers and the state.\<close>

primrec copy_bytes :: "u64 \<Rightarrow> nat \<Rightarrow> u64 \<Rightarrow> u64 \<Rightarrow> 'v vsim \<Rightarrow> abort + (u64 \<times> u64 \<times> 'v vsim)" where
  "copy_bytes stride 0 xd xs s = Inr (xd, xs, s)"
| "copy_bytes stride (Suc n) xd xs s =
     and_then (MemReadT xs s) (\<lambda>temp :: u8.
     and_then (MemWriteT xd temp s) (copy_bytes stride n (xd + stride) (xs + stride)))"

definition SimulateCpyM :: "bool \<Rightarrow> instruction \<Rightarrow> 'v vsim \<Rightarrow> abort + 'v vsim" where
  "SimulateCpyM dbg instr s =
     and_then (assert_triplet dbg MOPS_cpy instr s) (\<lambda>_.
     and_then (assert_follows dbg IsMOPSMainOf MOPS_cpy instr s) (\<lambda>_.
       let bits = insn_bits instr; d = rd_of bits; n = rn_of bits; r = rs_of bits;
           xd = ReadXRegister d s; xn = ReadXRegister n s :: u64; xs = ReadXRegister r s;
           is_backwards = ReadN s; back = (if is_backwards then 1 else 0);
           stride = (if is_backwards then -1 else 1)
       in and_then (copy_bytes stride (unat xn) (xd - back) (xs - back) s) (\<lambda>(xd', xs', s1).
          Inr (WriteXRegister r (xs' + back) (WriteXRegister n (0 :: u64) (WriteXRegister d (xd' + back) s1))))))"

definition SimulateCpyE :: "bool \<Rightarrow> instruction \<Rightarrow> 'v vsim \<Rightarrow> abort + 'v vsim" where
  "SimulateCpyE dbg instr s =
     and_then (assert_triplet dbg MOPS_cpy instr s) (\<lambda>_.
     and_then (assert_follows dbg IsMOPSEpilogueOf MOPS_cpy instr s) (\<lambda>_. Inr s))"

section \<open>The set\<close>

primrec set_bytes :: "nat \<Rightarrow> u8 \<Rightarrow> u64 \<Rightarrow> 'v vsim \<Rightarrow> abort + (u64 \<times> 'v vsim)" where
  "set_bytes 0 v xd s = Inr (xd, s)"
| "set_bytes (Suc n) v xd s = and_then (MemWriteT xd v s) (set_bytes n v (xd + 1))"

definition SimulateSetM :: "bool \<Rightarrow> instruction \<Rightarrow> 'v vsim \<Rightarrow> abort + 'v vsim" where
  "SimulateSetM dbg instr s =
     and_then (assert_triplet dbg MOPS_set instr s) (\<lambda>_.
     and_then (assert_follows dbg IsMOPSMainOf MOPS_set instr s) (\<lambda>_.
       let bits = insn_bits instr;
           xd = ReadXRegister (rd_of bits) s; xn = ReadXRegister (rn_of bits) s :: u64;
           xs = ReadXRegister (rs_of bits) s :: u64
       in and_then (set_bytes (unat xn) (ucast xs) xd s) (\<lambda>(xd', s1).
          Inr (WriteXRegister (rn_of bits) (0 :: u64) (WriteXRegister (rd_of bits) xd' s1)))))"

definition SimulateSetE :: "bool \<Rightarrow> instruction \<Rightarrow> 'v vsim \<Rightarrow> abort + 'v vsim" where
  "SimulateSetE dbg instr s =
     and_then (assert_triplet dbg MOPS_set instr s) (\<lambda>_.
     and_then (assert_follows dbg IsMOPSEpilogueOf MOPS_set instr s) (\<lambda>_. Inr s))"

text \<open>
  The loop over the granules, which leaves at an abort.  It never ends when the count is
  not a multiple of the granule, as the count then skips 0 each time it wraps; such a run
  has no result, and the last case of \<open>SimulateSetGM\<close> stands for it.
\<close>

definition tag_loop_continues :: "abort + (u64 \<times> u64 \<times> 'v vsim) \<Rightarrow> bool" where
  "tag_loop_continues st = (case st of Inl e \<Rightarrow> False | Inr (xd, xn, s) \<Rightarrow> xn \<noteq> 0)"

definition tag_loop_body ::
  "bool \<Rightarrow> nat \<Rightarrow> abort + (u64 \<times> u64 \<times> 'v vsim) \<Rightarrow> abort + (u64 \<times> u64 \<times> 'v vsim)" where
  "tag_loop_body dbg tag st =
     and_then st (\<lambda>(xd, xn, s). map_result (\<lambda>s'. (xd + 16, xn - 16, s')) (set_tag dbg xd tag s))"

definition tag_granules :: "bool \<Rightarrow> nat \<Rightarrow> u64 \<Rightarrow> u64 \<Rightarrow> 'v vsim \<Rightarrow> (abort + 'v vsim) option" where
  "tag_granules dbg tag xd xn s =
     map_option (map_result (\<lambda>(xd', xn', s'). s'))
       (while_option tag_loop_continues (tag_loop_body dbg tag) (Inr (xd, xn, s)))"

definition SimulateSetGM :: "bool \<Rightarrow> instruction \<Rightarrow> 'v vsim \<Rightarrow> abort + 'v vsim" where
  "SimulateSetGM dbg instr s =
     (let bits = insn_bits instr;
          xd = ReadXRegister (rd_of bits) s; xn = ReadXRegister (rn_of bits) s;
          tag = GetAllocationTagFromAddress xd
      in case tag_granules dbg tag xd xn s of
           Some result \<Rightarrow> and_then result (SimulateSetM dbg instr)
         | None \<Rightarrow> Inl (HostAbort ''does not return''))"

section \<open>The visitors together\<close>

text \<open>The copy and set leaves that the form table names.\<close>

datatype mops_visitor =
    V_CpyFP | V_CpyP | V_CpyM | V_CpyE | V_SetP | V_SetGP | V_SetM | V_SetGM | V_SetE

primrec mops_fun :: "bool \<Rightarrow> mops_visitor \<Rightarrow> instruction \<Rightarrow> 'v vsim \<Rightarrow> abort + 'v vsim" where
  "mops_fun dbg V_CpyFP = SimulateCpyFP dbg"
| "mops_fun dbg V_CpyP = SimulateCpyP dbg"
| "mops_fun dbg V_CpyM = SimulateCpyM dbg"
| "mops_fun dbg V_CpyE = SimulateCpyE dbg"
| "mops_fun dbg V_SetP = SimulateSetP dbg"
| "mops_fun dbg V_SetGP = SimulateSetGP dbg"
| "mops_fun dbg V_SetM = SimulateSetM dbg"
| "mops_fun dbg V_SetGM = SimulateSetGM dbg"
| "mops_fun dbg V_SetE = SimulateSetE dbg"

end
