(* ===== verification/Sim_Crypto.thy ===== *)
theory Sim_Crypto
  imports Sim_Neon
begin

text \<open>
  The cryptographic instructions: the operations \<open>sha1\<close> to \<open>sm4\<close> of
  \<open>src/aarch64/logic-aarch64.cc\<close> (\<open>sha1\<close> is a template of \<open>simulator-aarch64.h\<close>) with their
  tables, and the visitors of \<open>src/aarch64/simulator-aarch64.cc\<close> that choose among them by form.
  The code computes on \<open>uint64_t\<close> throughout, so its 32-bit quantities may carry garbage above
  bit 31 until \<open>SetUintArray\<close> cuts them.
\<close>

section \<open>Arrays of lanes\<close>

definition UintArray :: "VectorFormat \<Rightarrow> vbank \<Rightarrow> vref \<Rightarrow> u64 list" where
  "UintArray vform B r = map (LUint vform B r) [0..<LaneCountFromFormat vform]"

text \<open>Rotation to the left of every lane.\<close>

definition rol_v :: "VectorFormat \<Rightarrow> LogicVRegister \<Rightarrow> vref \<Rightarrow> u32 \<Rightarrow> vbank \<Rightarrow> vstate" where
  "rol_v vform dst src rotation B = ror_v vform dst src (of_nat (LaneSizeInBitsFromFormat vform) - rotation) B"

section \<open>Secure hash functions\<close>

definition crypto_choose :: "u64 \<Rightarrow> u64 \<Rightarrow> u64 \<Rightarrow> u64" where
  "crypto_choose x y z = ((y XOR z) AND x) XOR z"

definition crypto_majority :: "u64 \<Rightarrow> u64 \<Rightarrow> u64 \<Rightarrow> u64" where
  "crypto_majority x y z = (x AND y) OR ((x OR y) AND z)"

definition crypto_parity :: "u64 \<Rightarrow> u64 \<Rightarrow> u64 \<Rightarrow> u64" where
  "crypto_parity x y z = x XOR y XOR z"

text \<open>The template argument \<open>T\<close> is given by its width.\<close>

definition SHASigma :: "nat \<Rightarrow> u32 \<Rightarrow> u32 \<Rightarrow> u32 \<Rightarrow> u64 \<Rightarrow> u64" where
  "SHASigma width a b c x =
     take_bit width (RotateRight x a width XOR RotateRight x b width XOR RotateRight x c width)"

definition SHASURotate :: "nat \<Rightarrow> u32 \<Rightarrow> u32 \<Rightarrow> nat \<Rightarrow> u64 \<Rightarrow> u64" where
  "SHASURotate width a b c x =
     RotateRight x a width XOR RotateRight x b width XOR drop_bit c (x AND mask width)"

definition SHARotateEltsLeftOne :: "u64 list \<Rightarrow> u64 list" where
  "SHARotateEltsLeftOne x = [x ! 3, x ! 0, x ! 1, x ! 2]"

definition sha1_step :: "(u64 \<Rightarrow> u64 \<Rightarrow> u64 \<Rightarrow> u64) \<Rightarrow> u64 \<Rightarrow> u64 \<times> u64 list \<Rightarrow> u64 \<times> u64 list" where
  "sha1_step mode w st =
     (let (y, sd) = st;
          t = mode (sd ! 1) (sd ! 2) (sd ! 3);
          y = y + (RotateLeft (sd ! 0) 5 32 + t);
          y = y + w;
          sd = sd[1 := RotateLeft (sd ! 1) 30 32];
          sd = SHARotateEltsLeftOne sd
      in (sd ! 0, sd[0 := y]))"

definition sha1_v :: "(u64 \<Rightarrow> u64 \<Rightarrow> u64 \<Rightarrow> u64) \<Rightarrow> LogicVRegister \<Rightarrow> vref \<Rightarrow> vref \<Rightarrow> vbank \<Rightarrow> vstate" where
  "sha1_v mode srcdst src1 src2 B =
     (let (y, sd) = for_lanes 4 (\<lambda>i. sha1_step mode (LUint kFormat4S B src2 i))
                      (LUint kFormat4S B src1 0, UintArray kFormat4S B (lv_register srcdst))
      in (srcdst, SetUintArray kFormat4S (lv_register srcdst) (\<lambda>i. sd ! i) B))"

definition sha2h_step :: "u64 \<Rightarrow> u64 list \<times> u64 list \<Rightarrow> u64 list \<times> u64 list" where
  "sha2h_step w st =
     (let (x, y) = st;
          chs = crypto_choose (y ! 0) (y ! 1) (y ! 2);
          maj = crypto_majority (x ! 0) (x ! 1) (x ! 2);
          t = y ! 3 + SHASigma 32 6 11 25 (y ! 0) + chs + w;
          x = x[3 := x ! 3 + t];
          y = y[3 := t + SHASigma 32 2 13 22 (x ! 0) + maj];
          x = SHARotateEltsLeftOne x;
          y = SHARotateEltsLeftOne y
      in (x[0 := y ! 0], y[0 := x ! 0]))"

definition sha2h_v :: "bool \<Rightarrow> LogicVRegister \<Rightarrow> vref \<Rightarrow> vref \<Rightarrow> vbank \<Rightarrow> vstate" where
  "sha2h_v part1 srcdst src1 src2 B =
     (let rd = lv_register srcdst;
          start = (if part1 then (UintArray kFormat4S B rd, UintArray kFormat4S B src1)
                   else (UintArray kFormat4S B src1, UintArray kFormat4S B rd));
          (x, y) = for_lanes 4 (\<lambda>i. sha2h_step (LUint kFormat4S B src2 i)) start;
          result = (if part1 then x else y)
      in (srcdst, SetUintArray kFormat4S rd (\<lambda>i. result ! i) B))"

definition sha2su0_v :: "LogicVRegister \<Rightarrow> vref \<Rightarrow> vbank \<Rightarrow> vstate" where
  "sha2su0_v srcdst src1 B =
     (let w = UintArray kFormat4S B (lv_register srcdst);
          x = LUint kFormat4S B src1 0;
          result = [SHASURotate 32 7 18 3 (w ! 1) + w ! 0,
                    SHASURotate 32 7 18 3 (w ! 2) + w ! 1,
                    SHASURotate 32 7 18 3 (w ! 3) + w ! 2,
                    SHASURotate 32 7 18 3 x + w ! 3]
      in (srcdst, SetUintArray kFormat4S (lv_register srcdst) (\<lambda>i. result ! i) B))"

definition sha2su1_v :: "LogicVRegister \<Rightarrow> vref \<Rightarrow> vref \<Rightarrow> vbank \<Rightarrow> vstate" where
  "sha2su1_v srcdst src1 src2 B =
     (let w = UintArray kFormat4S B (lv_register srcdst);
          x = UintArray kFormat4S B src1;
          y = UintArray kFormat4S B src2;
          result0 = SHASURotate 32 17 19 10 (y ! 2) + w ! 0 + x ! 1;
          result1 = SHASURotate 32 17 19 10 (y ! 3) + w ! 1 + x ! 2;
          result2 = SHASURotate 32 17 19 10 result0 + w ! 2 + x ! 3;
          result3 = SHASURotate 32 17 19 10 result1 + w ! 3 + y ! 0;
          result = [result0, result1, result2, result3]
      in (srcdst, SetUintArray kFormat4S (lv_register srcdst) (\<lambda>i. result ! i) B))"

definition sha512h_v :: "LogicVRegister \<Rightarrow> vref \<Rightarrow> vref \<Rightarrow> vbank \<Rightarrow> vstate" where
  "sha512h_v srcdst src1 src2 B =
     (let w = UintArray kFormat2D B (lv_register srcdst);
          x = UintArray kFormat2D B src1;
          y = UintArray kFormat2D B src2;
          result1 = (y ! 1 AND x ! 0) XOR (NOT (y ! 1) AND x ! 1);
          result1 = result1 + (SHASigma 64 14 18 41 (y ! 1) + w ! 1);
          tmp = result1 + y ! 0;
          result0 = (tmp AND y ! 1) XOR (NOT tmp AND x ! 0);
          result0 = result0 + (SHASigma 64 14 18 41 tmp + w ! 0);
          result = [result0, result1]
      in (srcdst, SetUintArray kFormat2D (lv_register srcdst) (\<lambda>i. result ! i) B))"

definition sha512h2_v :: "LogicVRegister \<Rightarrow> vref \<Rightarrow> vref \<Rightarrow> vbank \<Rightarrow> vstate" where
  "sha512h2_v srcdst src1 src2 B =
     (let w = UintArray kFormat2D B (lv_register srcdst);
          x = UintArray kFormat2D B src1;
          y = UintArray kFormat2D B src2;
          result1 = (x ! 0 AND y ! 1) XOR (x ! 0 AND y ! 0) XOR (y ! 1 AND y ! 0);
          result1 = result1 + (SHASigma 64 28 34 39 (y ! 0) + w ! 1);
          result0 = (result1 AND y ! 0) XOR (result1 AND y ! 1) XOR (y ! 1 AND y ! 0);
          result0 = result0 + (SHASigma 64 28 34 39 result1 + w ! 0);
          result = [result0, result1]
      in (srcdst, SetUintArray kFormat2D (lv_register srcdst) (\<lambda>i. result ! i) B))"

definition sha512su0_v :: "LogicVRegister \<Rightarrow> vref \<Rightarrow> vbank \<Rightarrow> vstate" where
  "sha512su0_v srcdst src1 B =
     (let w = UintArray kFormat2D B (lv_register srcdst);
          x = UintArray kFormat2D B src1;
          result = [SHASURotate 64 1 8 7 (w ! 1) + w ! 0, SHASURotate 64 1 8 7 (x ! 0) + w ! 1]
      in (srcdst, SetUintArray kFormat2D (lv_register srcdst) (\<lambda>i. result ! i) B))"

definition sha512su1_v :: "LogicVRegister \<Rightarrow> vref \<Rightarrow> vref \<Rightarrow> vbank \<Rightarrow> vstate" where
  "sha512su1_v srcdst src1 src2 B =
     (let w = UintArray kFormat2D B (lv_register srcdst);
          x = UintArray kFormat2D B src1;
          y = UintArray kFormat2D B src2;
          result = [w ! 0 + SHASURotate 64 19 61 6 (x ! 0) + y ! 0, w ! 1 + SHASURotate 64 19 61 6 (x ! 1) + y ! 1]
      in (srcdst, SetUintArray kFormat2D (lv_register srcdst) (\<lambda>i. result ! i) B))"

section \<open>The advanced encryption standard\<close>

subsection \<open>Tables\<close>

text \<open>Products by constants in the field of 256 elements, and the two substitution tables.\<close>

definition ffmul02 :: "u8 list" where
  "ffmul02 = [
     0x00, 0x02, 0x04, 0x06, 0x08, 0x0a, 0x0c, 0x0e, 0x10, 0x12, 0x14, 0x16,
     0x18, 0x1a, 0x1c, 0x1e, 0x20, 0x22, 0x24, 0x26, 0x28, 0x2a, 0x2c, 0x2e,
     0x30, 0x32, 0x34, 0x36, 0x38, 0x3a, 0x3c, 0x3e, 0x40, 0x42, 0x44, 0x46,
     0x48, 0x4a, 0x4c, 0x4e, 0x50, 0x52, 0x54, 0x56, 0x58, 0x5a, 0x5c, 0x5e,
     0x60, 0x62, 0x64, 0x66, 0x68, 0x6a, 0x6c, 0x6e, 0x70, 0x72, 0x74, 0x76,
     0x78, 0x7a, 0x7c, 0x7e, 0x80, 0x82, 0x84, 0x86, 0x88, 0x8a, 0x8c, 0x8e,
     0x90, 0x92, 0x94, 0x96, 0x98, 0x9a, 0x9c, 0x9e, 0xa0, 0xa2, 0xa4, 0xa6,
     0xa8, 0xaa, 0xac, 0xae, 0xb0, 0xb2, 0xb4, 0xb6, 0xb8, 0xba, 0xbc, 0xbe,
     0xc0, 0xc2, 0xc4, 0xc6, 0xc8, 0xca, 0xcc, 0xce, 0xd0, 0xd2, 0xd4, 0xd6,
     0xd8, 0xda, 0xdc, 0xde, 0xe0, 0xe2, 0xe4, 0xe6, 0xe8, 0xea, 0xec, 0xee,
     0xf0, 0xf2, 0xf4, 0xf6, 0xf8, 0xfa, 0xfc, 0xfe, 0x1b, 0x19, 0x1f, 0x1d,
     0x13, 0x11, 0x17, 0x15, 0x0b, 0x09, 0x0f, 0x0d, 0x03, 0x01, 0x07, 0x05,
     0x3b, 0x39, 0x3f, 0x3d, 0x33, 0x31, 0x37, 0x35, 0x2b, 0x29, 0x2f, 0x2d,
     0x23, 0x21, 0x27, 0x25, 0x5b, 0x59, 0x5f, 0x5d, 0x53, 0x51, 0x57, 0x55,
     0x4b, 0x49, 0x4f, 0x4d, 0x43, 0x41, 0x47, 0x45, 0x7b, 0x79, 0x7f, 0x7d,
     0x73, 0x71, 0x77, 0x75, 0x6b, 0x69, 0x6f, 0x6d, 0x63, 0x61, 0x67, 0x65,
     0x9b, 0x99, 0x9f, 0x9d, 0x93, 0x91, 0x97, 0x95, 0x8b, 0x89, 0x8f, 0x8d,
     0x83, 0x81, 0x87, 0x85, 0xbb, 0xb9, 0xbf, 0xbd, 0xb3, 0xb1, 0xb7, 0xb5,
     0xab, 0xa9, 0xaf, 0xad, 0xa3, 0xa1, 0xa7, 0xa5, 0xdb, 0xd9, 0xdf, 0xdd,
     0xd3, 0xd1, 0xd7, 0xd5, 0xcb, 0xc9, 0xcf, 0xcd, 0xc3, 0xc1, 0xc7, 0xc5,
     0xfb, 0xf9, 0xff, 0xfd, 0xf3, 0xf1, 0xf7, 0xf5, 0xeb, 0xe9, 0xef, 0xed,
     0xe3, 0xe1, 0xe7, 0xe5]"

definition ffmul03 :: "u8 list" where
  "ffmul03 = [
     0x00, 0x03, 0x06, 0x05, 0x0c, 0x0f, 0x0a, 0x09, 0x18, 0x1b, 0x1e, 0x1d,
     0x14, 0x17, 0x12, 0x11, 0x30, 0x33, 0x36, 0x35, 0x3c, 0x3f, 0x3a, 0x39,
     0x28, 0x2b, 0x2e, 0x2d, 0x24, 0x27, 0x22, 0x21, 0x60, 0x63, 0x66, 0x65,
     0x6c, 0x6f, 0x6a, 0x69, 0x78, 0x7b, 0x7e, 0x7d, 0x74, 0x77, 0x72, 0x71,
     0x50, 0x53, 0x56, 0x55, 0x5c, 0x5f, 0x5a, 0x59, 0x48, 0x4b, 0x4e, 0x4d,
     0x44, 0x47, 0x42, 0x41, 0xc0, 0xc3, 0xc6, 0xc5, 0xcc, 0xcf, 0xca, 0xc9,
     0xd8, 0xdb, 0xde, 0xdd, 0xd4, 0xd7, 0xd2, 0xd1, 0xf0, 0xf3, 0xf6, 0xf5,
     0xfc, 0xff, 0xfa, 0xf9, 0xe8, 0xeb, 0xee, 0xed, 0xe4, 0xe7, 0xe2, 0xe1,
     0xa0, 0xa3, 0xa6, 0xa5, 0xac, 0xaf, 0xaa, 0xa9, 0xb8, 0xbb, 0xbe, 0xbd,
     0xb4, 0xb7, 0xb2, 0xb1, 0x90, 0x93, 0x96, 0x95, 0x9c, 0x9f, 0x9a, 0x99,
     0x88, 0x8b, 0x8e, 0x8d, 0x84, 0x87, 0x82, 0x81, 0x9b, 0x98, 0x9d, 0x9e,
     0x97, 0x94, 0x91, 0x92, 0x83, 0x80, 0x85, 0x86, 0x8f, 0x8c, 0x89, 0x8a,
     0xab, 0xa8, 0xad, 0xae, 0xa7, 0xa4, 0xa1, 0xa2, 0xb3, 0xb0, 0xb5, 0xb6,
     0xbf, 0xbc, 0xb9, 0xba, 0xfb, 0xf8, 0xfd, 0xfe, 0xf7, 0xf4, 0xf1, 0xf2,
     0xe3, 0xe0, 0xe5, 0xe6, 0xef, 0xec, 0xe9, 0xea, 0xcb, 0xc8, 0xcd, 0xce,
     0xc7, 0xc4, 0xc1, 0xc2, 0xd3, 0xd0, 0xd5, 0xd6, 0xdf, 0xdc, 0xd9, 0xda,
     0x5b, 0x58, 0x5d, 0x5e, 0x57, 0x54, 0x51, 0x52, 0x43, 0x40, 0x45, 0x46,
     0x4f, 0x4c, 0x49, 0x4a, 0x6b, 0x68, 0x6d, 0x6e, 0x67, 0x64, 0x61, 0x62,
     0x73, 0x70, 0x75, 0x76, 0x7f, 0x7c, 0x79, 0x7a, 0x3b, 0x38, 0x3d, 0x3e,
     0x37, 0x34, 0x31, 0x32, 0x23, 0x20, 0x25, 0x26, 0x2f, 0x2c, 0x29, 0x2a,
     0x0b, 0x08, 0x0d, 0x0e, 0x07, 0x04, 0x01, 0x02, 0x13, 0x10, 0x15, 0x16,
     0x1f, 0x1c, 0x19, 0x1a]"

definition ffmul09 :: "u8 list" where
  "ffmul09 = [
     0x00, 0x09, 0x12, 0x1b, 0x24, 0x2d, 0x36, 0x3f, 0x48, 0x41, 0x5a, 0x53,
     0x6c, 0x65, 0x7e, 0x77, 0x90, 0x99, 0x82, 0x8b, 0xb4, 0xbd, 0xa6, 0xaf,
     0xd8, 0xd1, 0xca, 0xc3, 0xfc, 0xf5, 0xee, 0xe7, 0x3b, 0x32, 0x29, 0x20,
     0x1f, 0x16, 0x0d, 0x04, 0x73, 0x7a, 0x61, 0x68, 0x57, 0x5e, 0x45, 0x4c,
     0xab, 0xa2, 0xb9, 0xb0, 0x8f, 0x86, 0x9d, 0x94, 0xe3, 0xea, 0xf1, 0xf8,
     0xc7, 0xce, 0xd5, 0xdc, 0x76, 0x7f, 0x64, 0x6d, 0x52, 0x5b, 0x40, 0x49,
     0x3e, 0x37, 0x2c, 0x25, 0x1a, 0x13, 0x08, 0x01, 0xe6, 0xef, 0xf4, 0xfd,
     0xc2, 0xcb, 0xd0, 0xd9, 0xae, 0xa7, 0xbc, 0xb5, 0x8a, 0x83, 0x98, 0x91,
     0x4d, 0x44, 0x5f, 0x56, 0x69, 0x60, 0x7b, 0x72, 0x05, 0x0c, 0x17, 0x1e,
     0x21, 0x28, 0x33, 0x3a, 0xdd, 0xd4, 0xcf, 0xc6, 0xf9, 0xf0, 0xeb, 0xe2,
     0x95, 0x9c, 0x87, 0x8e, 0xb1, 0xb8, 0xa3, 0xaa, 0xec, 0xe5, 0xfe, 0xf7,
     0xc8, 0xc1, 0xda, 0xd3, 0xa4, 0xad, 0xb6, 0xbf, 0x80, 0x89, 0x92, 0x9b,
     0x7c, 0x75, 0x6e, 0x67, 0x58, 0x51, 0x4a, 0x43, 0x34, 0x3d, 0x26, 0x2f,
     0x10, 0x19, 0x02, 0x0b, 0xd7, 0xde, 0xc5, 0xcc, 0xf3, 0xfa, 0xe1, 0xe8,
     0x9f, 0x96, 0x8d, 0x84, 0xbb, 0xb2, 0xa9, 0xa0, 0x47, 0x4e, 0x55, 0x5c,
     0x63, 0x6a, 0x71, 0x78, 0x0f, 0x06, 0x1d, 0x14, 0x2b, 0x22, 0x39, 0x30,
     0x9a, 0x93, 0x88, 0x81, 0xbe, 0xb7, 0xac, 0xa5, 0xd2, 0xdb, 0xc0, 0xc9,
     0xf6, 0xff, 0xe4, 0xed, 0x0a, 0x03, 0x18, 0x11, 0x2e, 0x27, 0x3c, 0x35,
     0x42, 0x4b, 0x50, 0x59, 0x66, 0x6f, 0x74, 0x7d, 0xa1, 0xa8, 0xb3, 0xba,
     0x85, 0x8c, 0x97, 0x9e, 0xe9, 0xe0, 0xfb, 0xf2, 0xcd, 0xc4, 0xdf, 0xd6,
     0x31, 0x38, 0x23, 0x2a, 0x15, 0x1c, 0x07, 0x0e, 0x79, 0x70, 0x6b, 0x62,
     0x5d, 0x54, 0x4f, 0x46]"

definition ffmul0b :: "u8 list" where
  "ffmul0b = [
     0x00, 0x0b, 0x16, 0x1d, 0x2c, 0x27, 0x3a, 0x31, 0x58, 0x53, 0x4e, 0x45,
     0x74, 0x7f, 0x62, 0x69, 0xb0, 0xbb, 0xa6, 0xad, 0x9c, 0x97, 0x8a, 0x81,
     0xe8, 0xe3, 0xfe, 0xf5, 0xc4, 0xcf, 0xd2, 0xd9, 0x7b, 0x70, 0x6d, 0x66,
     0x57, 0x5c, 0x41, 0x4a, 0x23, 0x28, 0x35, 0x3e, 0x0f, 0x04, 0x19, 0x12,
     0xcb, 0xc0, 0xdd, 0xd6, 0xe7, 0xec, 0xf1, 0xfa, 0x93, 0x98, 0x85, 0x8e,
     0xbf, 0xb4, 0xa9, 0xa2, 0xf6, 0xfd, 0xe0, 0xeb, 0xda, 0xd1, 0xcc, 0xc7,
     0xae, 0xa5, 0xb8, 0xb3, 0x82, 0x89, 0x94, 0x9f, 0x46, 0x4d, 0x50, 0x5b,
     0x6a, 0x61, 0x7c, 0x77, 0x1e, 0x15, 0x08, 0x03, 0x32, 0x39, 0x24, 0x2f,
     0x8d, 0x86, 0x9b, 0x90, 0xa1, 0xaa, 0xb7, 0xbc, 0xd5, 0xde, 0xc3, 0xc8,
     0xf9, 0xf2, 0xef, 0xe4, 0x3d, 0x36, 0x2b, 0x20, 0x11, 0x1a, 0x07, 0x0c,
     0x65, 0x6e, 0x73, 0x78, 0x49, 0x42, 0x5f, 0x54, 0xf7, 0xfc, 0xe1, 0xea,
     0xdb, 0xd0, 0xcd, 0xc6, 0xaf, 0xa4, 0xb9, 0xb2, 0x83, 0x88, 0x95, 0x9e,
     0x47, 0x4c, 0x51, 0x5a, 0x6b, 0x60, 0x7d, 0x76, 0x1f, 0x14, 0x09, 0x02,
     0x33, 0x38, 0x25, 0x2e, 0x8c, 0x87, 0x9a, 0x91, 0xa0, 0xab, 0xb6, 0xbd,
     0xd4, 0xdf, 0xc2, 0xc9, 0xf8, 0xf3, 0xee, 0xe5, 0x3c, 0x37, 0x2a, 0x21,
     0x10, 0x1b, 0x06, 0x0d, 0x64, 0x6f, 0x72, 0x79, 0x48, 0x43, 0x5e, 0x55,
     0x01, 0x0a, 0x17, 0x1c, 0x2d, 0x26, 0x3b, 0x30, 0x59, 0x52, 0x4f, 0x44,
     0x75, 0x7e, 0x63, 0x68, 0xb1, 0xba, 0xa7, 0xac, 0x9d, 0x96, 0x8b, 0x80,
     0xe9, 0xe2, 0xff, 0xf4, 0xc5, 0xce, 0xd3, 0xd8, 0x7a, 0x71, 0x6c, 0x67,
     0x56, 0x5d, 0x40, 0x4b, 0x22, 0x29, 0x34, 0x3f, 0x0e, 0x05, 0x18, 0x13,
     0xca, 0xc1, 0xdc, 0xd7, 0xe6, 0xed, 0xf0, 0xfb, 0x92, 0x99, 0x84, 0x8f,
     0xbe, 0xb5, 0xa8, 0xa3]"

definition ffmul0d :: "u8 list" where
  "ffmul0d = [
     0x00, 0x0d, 0x1a, 0x17, 0x34, 0x39, 0x2e, 0x23, 0x68, 0x65, 0x72, 0x7f,
     0x5c, 0x51, 0x46, 0x4b, 0xd0, 0xdd, 0xca, 0xc7, 0xe4, 0xe9, 0xfe, 0xf3,
     0xb8, 0xb5, 0xa2, 0xaf, 0x8c, 0x81, 0x96, 0x9b, 0xbb, 0xb6, 0xa1, 0xac,
     0x8f, 0x82, 0x95, 0x98, 0xd3, 0xde, 0xc9, 0xc4, 0xe7, 0xea, 0xfd, 0xf0,
     0x6b, 0x66, 0x71, 0x7c, 0x5f, 0x52, 0x45, 0x48, 0x03, 0x0e, 0x19, 0x14,
     0x37, 0x3a, 0x2d, 0x20, 0x6d, 0x60, 0x77, 0x7a, 0x59, 0x54, 0x43, 0x4e,
     0x05, 0x08, 0x1f, 0x12, 0x31, 0x3c, 0x2b, 0x26, 0xbd, 0xb0, 0xa7, 0xaa,
     0x89, 0x84, 0x93, 0x9e, 0xd5, 0xd8, 0xcf, 0xc2, 0xe1, 0xec, 0xfb, 0xf6,
     0xd6, 0xdb, 0xcc, 0xc1, 0xe2, 0xef, 0xf8, 0xf5, 0xbe, 0xb3, 0xa4, 0xa9,
     0x8a, 0x87, 0x90, 0x9d, 0x06, 0x0b, 0x1c, 0x11, 0x32, 0x3f, 0x28, 0x25,
     0x6e, 0x63, 0x74, 0x79, 0x5a, 0x57, 0x40, 0x4d, 0xda, 0xd7, 0xc0, 0xcd,
     0xee, 0xe3, 0xf4, 0xf9, 0xb2, 0xbf, 0xa8, 0xa5, 0x86, 0x8b, 0x9c, 0x91,
     0x0a, 0x07, 0x10, 0x1d, 0x3e, 0x33, 0x24, 0x29, 0x62, 0x6f, 0x78, 0x75,
     0x56, 0x5b, 0x4c, 0x41, 0x61, 0x6c, 0x7b, 0x76, 0x55, 0x58, 0x4f, 0x42,
     0x09, 0x04, 0x13, 0x1e, 0x3d, 0x30, 0x27, 0x2a, 0xb1, 0xbc, 0xab, 0xa6,
     0x85, 0x88, 0x9f, 0x92, 0xd9, 0xd4, 0xc3, 0xce, 0xed, 0xe0, 0xf7, 0xfa,
     0xb7, 0xba, 0xad, 0xa0, 0x83, 0x8e, 0x99, 0x94, 0xdf, 0xd2, 0xc5, 0xc8,
     0xeb, 0xe6, 0xf1, 0xfc, 0x67, 0x6a, 0x7d, 0x70, 0x53, 0x5e, 0x49, 0x44,
     0x0f, 0x02, 0x15, 0x18, 0x3b, 0x36, 0x21, 0x2c, 0x0c, 0x01, 0x16, 0x1b,
     0x38, 0x35, 0x22, 0x2f, 0x64, 0x69, 0x7e, 0x73, 0x50, 0x5d, 0x4a, 0x47,
     0xdc, 0xd1, 0xc6, 0xcb, 0xe8, 0xe5, 0xf2, 0xff, 0xb4, 0xb9, 0xae, 0xa3,
     0x80, 0x8d, 0x9a, 0x97]"

definition ffmul0e :: "u8 list" where
  "ffmul0e = [
     0x00, 0x0e, 0x1c, 0x12, 0x38, 0x36, 0x24, 0x2a, 0x70, 0x7e, 0x6c, 0x62,
     0x48, 0x46, 0x54, 0x5a, 0xe0, 0xee, 0xfc, 0xf2, 0xd8, 0xd6, 0xc4, 0xca,
     0x90, 0x9e, 0x8c, 0x82, 0xa8, 0xa6, 0xb4, 0xba, 0xdb, 0xd5, 0xc7, 0xc9,
     0xe3, 0xed, 0xff, 0xf1, 0xab, 0xa5, 0xb7, 0xb9, 0x93, 0x9d, 0x8f, 0x81,
     0x3b, 0x35, 0x27, 0x29, 0x03, 0x0d, 0x1f, 0x11, 0x4b, 0x45, 0x57, 0x59,
     0x73, 0x7d, 0x6f, 0x61, 0xad, 0xa3, 0xb1, 0xbf, 0x95, 0x9b, 0x89, 0x87,
     0xdd, 0xd3, 0xc1, 0xcf, 0xe5, 0xeb, 0xf9, 0xf7, 0x4d, 0x43, 0x51, 0x5f,
     0x75, 0x7b, 0x69, 0x67, 0x3d, 0x33, 0x21, 0x2f, 0x05, 0x0b, 0x19, 0x17,
     0x76, 0x78, 0x6a, 0x64, 0x4e, 0x40, 0x52, 0x5c, 0x06, 0x08, 0x1a, 0x14,
     0x3e, 0x30, 0x22, 0x2c, 0x96, 0x98, 0x8a, 0x84, 0xae, 0xa0, 0xb2, 0xbc,
     0xe6, 0xe8, 0xfa, 0xf4, 0xde, 0xd0, 0xc2, 0xcc, 0x41, 0x4f, 0x5d, 0x53,
     0x79, 0x77, 0x65, 0x6b, 0x31, 0x3f, 0x2d, 0x23, 0x09, 0x07, 0x15, 0x1b,
     0xa1, 0xaf, 0xbd, 0xb3, 0x99, 0x97, 0x85, 0x8b, 0xd1, 0xdf, 0xcd, 0xc3,
     0xe9, 0xe7, 0xf5, 0xfb, 0x9a, 0x94, 0x86, 0x88, 0xa2, 0xac, 0xbe, 0xb0,
     0xea, 0xe4, 0xf6, 0xf8, 0xd2, 0xdc, 0xce, 0xc0, 0x7a, 0x74, 0x66, 0x68,
     0x42, 0x4c, 0x5e, 0x50, 0x0a, 0x04, 0x16, 0x18, 0x32, 0x3c, 0x2e, 0x20,
     0xec, 0xe2, 0xf0, 0xfe, 0xd4, 0xda, 0xc8, 0xc6, 0x9c, 0x92, 0x80, 0x8e,
     0xa4, 0xaa, 0xb8, 0xb6, 0x0c, 0x02, 0x10, 0x1e, 0x34, 0x3a, 0x28, 0x26,
     0x7c, 0x72, 0x60, 0x6e, 0x44, 0x4a, 0x58, 0x56, 0x37, 0x39, 0x2b, 0x25,
     0x0f, 0x01, 0x13, 0x1d, 0x47, 0x49, 0x5b, 0x55, 0x7f, 0x71, 0x63, 0x6d,
     0xd7, 0xd9, 0xcb, 0xc5, 0xef, 0xe1, 0xf3, 0xfd, 0xa7, 0xa9, 0xbb, 0xb5,
     0x9f, 0x91, 0x83, 0x8d]"

definition gf2 :: "u8 list" where
  "gf2 = [
     0x63, 0x7c, 0x77, 0x7b, 0xf2, 0x6b, 0x6f, 0xc5, 0x30, 0x01, 0x67, 0x2b,
     0xfe, 0xd7, 0xab, 0x76, 0xca, 0x82, 0xc9, 0x7d, 0xfa, 0x59, 0x47, 0xf0,
     0xad, 0xd4, 0xa2, 0xaf, 0x9c, 0xa4, 0x72, 0xc0, 0xb7, 0xfd, 0x93, 0x26,
     0x36, 0x3f, 0xf7, 0xcc, 0x34, 0xa5, 0xe5, 0xf1, 0x71, 0xd8, 0x31, 0x15,
     0x04, 0xc7, 0x23, 0xc3, 0x18, 0x96, 0x05, 0x9a, 0x07, 0x12, 0x80, 0xe2,
     0xeb, 0x27, 0xb2, 0x75, 0x09, 0x83, 0x2c, 0x1a, 0x1b, 0x6e, 0x5a, 0xa0,
     0x52, 0x3b, 0xd6, 0xb3, 0x29, 0xe3, 0x2f, 0x84, 0x53, 0xd1, 0x00, 0xed,
     0x20, 0xfc, 0xb1, 0x5b, 0x6a, 0xcb, 0xbe, 0x39, 0x4a, 0x4c, 0x58, 0xcf,
     0xd0, 0xef, 0xaa, 0xfb, 0x43, 0x4d, 0x33, 0x85, 0x45, 0xf9, 0x02, 0x7f,
     0x50, 0x3c, 0x9f, 0xa8, 0x51, 0xa3, 0x40, 0x8f, 0x92, 0x9d, 0x38, 0xf5,
     0xbc, 0xb6, 0xda, 0x21, 0x10, 0xff, 0xf3, 0xd2, 0xcd, 0x0c, 0x13, 0xec,
     0x5f, 0x97, 0x44, 0x17, 0xc4, 0xa7, 0x7e, 0x3d, 0x64, 0x5d, 0x19, 0x73,
     0x60, 0x81, 0x4f, 0xdc, 0x22, 0x2a, 0x90, 0x88, 0x46, 0xee, 0xb8, 0x14,
     0xde, 0x5e, 0x0b, 0xdb, 0xe0, 0x32, 0x3a, 0x0a, 0x49, 0x06, 0x24, 0x5c,
     0xc2, 0xd3, 0xac, 0x62, 0x91, 0x95, 0xe4, 0x79, 0xe7, 0xc8, 0x37, 0x6d,
     0x8d, 0xd5, 0x4e, 0xa9, 0x6c, 0x56, 0xf4, 0xea, 0x65, 0x7a, 0xae, 0x08,
     0xba, 0x78, 0x25, 0x2e, 0x1c, 0xa6, 0xb4, 0xc6, 0xe8, 0xdd, 0x74, 0x1f,
     0x4b, 0xbd, 0x8b, 0x8a, 0x70, 0x3e, 0xb5, 0x66, 0x48, 0x03, 0xf6, 0x0e,
     0x61, 0x35, 0x57, 0xb9, 0x86, 0xc1, 0x1d, 0x9e, 0xe1, 0xf8, 0x98, 0x11,
     0x69, 0xd9, 0x8e, 0x94, 0x9b, 0x1e, 0x87, 0xe9, 0xce, 0x55, 0x28, 0xdf,
     0x8c, 0xa1, 0x89, 0x0d, 0xbf, 0xe6, 0x42, 0x68, 0x41, 0x99, 0x2d, 0x0f,
     0xb0, 0x54, 0xbb, 0x16]"

definition gf2_inv :: "u8 list" where
  "gf2_inv = [
     0x52, 0x09, 0x6a, 0xd5, 0x30, 0x36, 0xa5, 0x38, 0xbf, 0x40, 0xa3, 0x9e,
     0x81, 0xf3, 0xd7, 0xfb, 0x7c, 0xe3, 0x39, 0x82, 0x9b, 0x2f, 0xff, 0x87,
     0x34, 0x8e, 0x43, 0x44, 0xc4, 0xde, 0xe9, 0xcb, 0x54, 0x7b, 0x94, 0x32,
     0xa6, 0xc2, 0x23, 0x3d, 0xee, 0x4c, 0x95, 0x0b, 0x42, 0xfa, 0xc3, 0x4e,
     0x08, 0x2e, 0xa1, 0x66, 0x28, 0xd9, 0x24, 0xb2, 0x76, 0x5b, 0xa2, 0x49,
     0x6d, 0x8b, 0xd1, 0x25, 0x72, 0xf8, 0xf6, 0x64, 0x86, 0x68, 0x98, 0x16,
     0xd4, 0xa4, 0x5c, 0xcc, 0x5d, 0x65, 0xb6, 0x92, 0x6c, 0x70, 0x48, 0x50,
     0xfd, 0xed, 0xb9, 0xda, 0x5e, 0x15, 0x46, 0x57, 0xa7, 0x8d, 0x9d, 0x84,
     0x90, 0xd8, 0xab, 0x00, 0x8c, 0xbc, 0xd3, 0x0a, 0xf7, 0xe4, 0x58, 0x05,
     0xb8, 0xb3, 0x45, 0x06, 0xd0, 0x2c, 0x1e, 0x8f, 0xca, 0x3f, 0x0f, 0x02,
     0xc1, 0xaf, 0xbd, 0x03, 0x01, 0x13, 0x8a, 0x6b, 0x3a, 0x91, 0x11, 0x41,
     0x4f, 0x67, 0xdc, 0xea, 0x97, 0xf2, 0xcf, 0xce, 0xf0, 0xb4, 0xe6, 0x73,
     0x96, 0xac, 0x74, 0x22, 0xe7, 0xad, 0x35, 0x85, 0xe2, 0xf9, 0x37, 0xe8,
     0x1c, 0x75, 0xdf, 0x6e, 0x47, 0xf1, 0x1a, 0x71, 0x1d, 0x29, 0xc5, 0x89,
     0x6f, 0xb7, 0x62, 0x0e, 0xaa, 0x18, 0xbe, 0x1b, 0xfc, 0x56, 0x3e, 0x4b,
     0xc6, 0xd2, 0x79, 0x20, 0x9a, 0xdb, 0xc0, 0xfe, 0x78, 0xcd, 0x5a, 0xf4,
     0x1f, 0xdd, 0xa8, 0x33, 0x88, 0x07, 0xc7, 0x31, 0xb1, 0x12, 0x10, 0x59,
     0x27, 0x80, 0xec, 0x5f, 0x60, 0x51, 0x7f, 0xa9, 0x19, 0xb5, 0x4a, 0x0d,
     0x2d, 0xe5, 0x7a, 0x9f, 0x93, 0xc9, 0x9c, 0xef, 0xa0, 0xe0, 0x3b, 0x4d,
     0xae, 0x2a, 0xf5, 0xb0, 0xc8, 0xeb, 0xbb, 0x3c, 0x83, 0x53, 0x99, 0x61,
     0x17, 0x2b, 0x04, 0x7e, 0xba, 0x77, 0xd6, 0x26, 0xe1, 0x69, 0x14, 0x63,
     0x55, 0x21, 0x0c, 0x7d]"

subsection \<open>Operations\<close>

text \<open>\<open>GalMul\<close>; the callers pass only the numbers of the cases.\<close>

definition GalMul :: "nat \<Rightarrow> u64 \<Rightarrow> u8" where
  "GalMul t x =
     (let x = x AND 255
      in if t = 0x2 then ffmul02 ! unat x
         else if t = 0x3 then ffmul03 ! unat x
         else if t = 0x9 then ffmul09 ! unat x
         else if t = 0xb then ffmul0b ! unat x
         else if t = 0xd then ffmul0d ! unat x
         else if t = 0xe then ffmul0e ! unat x
         else ucast x)"

definition imc_gm :: "nat list" where
  "imc_gm = [0xb, 0xd, 0x9, 0xe, 0, 0, 0]"

definition mc_gm :: "nat list" where
  "mc_gm = [0x3, 0x0, 0x0, 0x2, 0, 0, 0]"

text \<open>The argument \<open>x\<close> is the array from a column on.\<close>

definition AESMixInner :: "u64 list \<Rightarrow> nat \<Rightarrow> bool \<Rightarrow> u8" where
  "AESMixInner x stage is_inverse =
     (let gm = (if is_inverse then imc_gm else mc_gm); index = 3 - stage
      in for_lanes 4 (\<lambda>i result. result XOR GalMul (gm ! ((index + i) mod 4)) (x ! i)) 0)"

definition aesmix_v :: "LogicVRegister \<Rightarrow> vref \<Rightarrow> bool \<Rightarrow> vbank \<Rightarrow> vstate" where
  "aesmix_v dst src is_inverse B =
     (let in_bytes = UintArray kFormat16B B src
      in (dst, for_lanes 16
                 (\<lambda>c. SetUint kFormat16B (lv_register dst) c
                        (ucast (AESMixInner (drop (c - c mod 4) in_bytes) (c mod 4) is_inverse)))
                 (ClearForWrite kFormat16B (lv_register dst) B)))"

definition aes_shift :: "nat list" where
  "aes_shift = [0, 5, 10, 15, 4, 9, 14, 3, 8, 13, 2, 7, 12, 1, 6, 11]"

definition aes_shift_inv :: "nat list" where
  "aes_shift_inv = [0, 13, 10, 7, 4, 1, 14, 11, 8, 5, 2, 15, 12, 9, 6, 3]"

definition aes_v :: "LogicVRegister \<Rightarrow> vref \<Rightarrow> bool \<Rightarrow> vbank \<Rightarrow> vstate" where
  "aes_v dst src decrypt B =
     (let rd = lv_register dst;
          shifted = for_lanes 16
            (\<lambda>i C. SetUint kFormat16B rd i (LUint kFormat16B C src ((if decrypt then aes_shift_inv else aes_shift) ! i)) C)
            (ClearForWrite kFormat16B rd B)
      in (dst, for_lanes 16
                 (\<lambda>i C. SetUint kFormat16B rd i
                          (ucast ((if decrypt then gf2_inv else gf2) ! unat (LUint kFormat16B C rd i))) C) shifted))"

section \<open>SM3\<close>

abbreviation ROL32 :: "u64 \<Rightarrow> u32 \<Rightarrow> u64" where
  "ROL32 x n \<equiv> RotateLeft x n 32"

definition sm3partw1_lane :: "nat \<Rightarrow> u64 list \<Rightarrow> u64 list" where
  "sm3partw1_lane i result =
     (let result = (if i = 3 then result[i := result ! i XOR ROL32 (result ! 0) 15] else result)
      in result[i := result ! i XOR (ROL32 (result ! i) 15 XOR ROL32 (result ! i) 23)])"

definition sm3partw1_v :: "LogicVRegister \<Rightarrow> vref \<Rightarrow> vref \<Rightarrow> vbank \<Rightarrow> vstate" where
  "sm3partw1_v srcdst src1 src2 B =
     (let rd = lv_register srcdst; temp = Temp 204;
          B = SimVRegister_init temp B;
          B = snd (ext_v kFormat16B (LogicV temp) src2 temp 4 B);
          B = snd (rol_v kFormat4S (LogicV temp) temp 15 B);
          B = snd (eor_v kFormat4S (LogicV temp) temp src1 B);
          B = snd (eor_v kFormat4S (LogicV temp) temp rd B);
          result = for_lanes 4 sm3partw1_lane (UintArray kFormat4S B temp)
      in (srcdst, SetUintArray kFormat4S rd (\<lambda>i. result ! i) B))"

definition sm3partw2_v :: "LogicVRegister \<Rightarrow> vref \<Rightarrow> vref \<Rightarrow> vbank \<Rightarrow> vstate" where
  "sm3partw2_v srcdst src1 src2 B =
     (let rd = lv_register srcdst; temp = Temp 204;
          B = SimVRegister_init temp B;
          B = snd (rol_v kFormat4S (LogicV temp) src2 7 B);
          B = snd (eor_v kFormat4S (LogicV temp) temp src1 B);
          (d, B) = eor_v kFormat4S srcdst temp rd B;
          tmp2 = ROL32 (LUint kFormat4S B temp 0) 15;
          tmp2 = tmp2 XOR (ROL32 tmp2 15 XOR ROL32 tmp2 23)
      in (d, SetUint kFormat4S rd 3 (LUint kFormat4S B rd 3 XOR tmp2) B))"

definition sm3ss1_v :: "LogicVRegister \<Rightarrow> vref \<Rightarrow> vref \<Rightarrow> vref \<Rightarrow> vbank \<Rightarrow> vstate" where
  "sm3ss1_v dst src1 src2 src3 B =
     (let result = ROL32 (LUint kFormat4S B src1 3) 12;
          result = result + (LUint kFormat4S B src2 3 + LUint kFormat4S B src3 3)
      in (dst, SetUint kFormat4S (lv_register dst) 3 (ROL32 result 7) (B(lv_register dst := 0))))"

definition sm3tt1_v :: "LogicVRegister \<Rightarrow> vref \<Rightarrow> vref \<Rightarrow> nat \<Rightarrow> bool \<Rightarrow> vbank \<Rightarrow> vstate" where
  "sm3tt1_v srcdst src1 src2 index is_a B =
     (let rd = lv_register srcdst; sd = (\<lambda>C. LUint kFormat4S C rd);
          wjprime = LUint kFormat4S B src2 index;
          ss2 = LUint kFormat4S B src1 3 XOR ROL32 (sd B 3) 12;
          tt1 = (if is_a then crypto_parity (sd B 1) (sd B 2) (sd B 3)
                 else crypto_majority (sd B 1) (sd B 2) (sd B 3));
          tt1 = tt1 + (sd B 0 + ss2 + wjprime);
          (d, B) = ext_v kFormat16B srcdst rd rd 4 B;
          B = SetUint kFormat4S rd 1 (ROL32 (sd B 1) 9) B
      in (d, SetUint kFormat4S rd 3 tt1 B))"

definition sm3tt2_v :: "LogicVRegister \<Rightarrow> vref \<Rightarrow> vref \<Rightarrow> nat \<Rightarrow> bool \<Rightarrow> vbank \<Rightarrow> vstate" where
  "sm3tt2_v srcdst src1 src2 index is_a B =
     (let rd = lv_register srcdst; sd = (\<lambda>C. LUint kFormat4S C rd);
          wj = LUint kFormat4S B src2 index;
          tt2 = (if is_a then crypto_parity (sd B 1) (sd B 2) (sd B 3)
                 else crypto_choose (sd B 3) (sd B 2) (sd B 1));
          tt2 = tt2 + (sd B 0 + LUint kFormat4S B src1 3 + wj);
          (d, B) = ext_v kFormat16B srcdst rd rd 4 B;
          B = SetUint kFormat4S rd 1 (ROL32 (sd B 1) 19) B;
          tt2 = tt2 XOR (ROL32 tt2 9 XOR ROL32 tt2 17)
      in (d, SetUint kFormat4S rd 3 tt2 B))"

section \<open>SM4\<close>

definition sm4_sbox :: "u8 list" where
  "sm4_sbox = [
     0x48, 0x39, 0xcb, 0xd7, 0x3e, 0x5f, 0xee, 0x79, 0x20, 0x4d, 0xdc, 0x3a,
     0xec, 0x7d, 0xf0, 0x18, 0x84, 0xc6, 0x6e, 0xc5, 0x09, 0xf1, 0xb9, 0x65,
     0x7e, 0x77, 0x96, 0x0c, 0x4a, 0x97, 0x69, 0x89, 0xb0, 0xb4, 0xe5, 0xb8,
     0x12, 0xd0, 0x74, 0x2d, 0xbd, 0x7b, 0xcd, 0xa5, 0x88, 0x31, 0xc1, 0x0a,
     0xd8, 0x5a, 0x10, 0x1f, 0x41, 0x5c, 0xd9, 0x11, 0x7f, 0xbc, 0xdd, 0xbb,
     0x92, 0xaf, 0x1b, 0x8d, 0x51, 0x5b, 0x6c, 0x6d, 0x72, 0x6a, 0xff, 0x03,
     0x2f, 0x8e, 0xfd, 0xde, 0x45, 0x37, 0xdb, 0xd5, 0x6f, 0x4e, 0x53, 0x0d,
     0xab, 0x23, 0x29, 0xc0, 0x60, 0xca, 0x66, 0x82, 0x2e, 0xe2, 0xf6, 0x1d,
     0xe3, 0xb1, 0x8c, 0xf5, 0x30, 0x32, 0x93, 0xad, 0x55, 0x1a, 0x34, 0x9b,
     0xa4, 0x5d, 0xae, 0xe0, 0xa1, 0x15, 0x61, 0xf9, 0xce, 0xf2, 0xf7, 0xa3,
     0xb5, 0x38, 0xc7, 0x40, 0xd2, 0x8a, 0xbf, 0xea, 0x9e, 0xc8, 0xc4, 0xa0,
     0xe7, 0x02, 0x36, 0x4c, 0x52, 0x27, 0xd3, 0x9f, 0x57, 0x46, 0x00, 0xd4,
     0x87, 0x78, 0x21, 0x01, 0x3b, 0x7c, 0x22, 0x25, 0xa2, 0xd1, 0x58, 0x63,
     0x5e, 0x0e, 0x24, 0x1e, 0x35, 0x9d, 0x56, 0x70, 0x4b, 0x0f, 0xeb, 0xf8,
     0x8b, 0xda, 0x64, 0x71, 0xb2, 0x81, 0x6b, 0x68, 0xa8, 0x4f, 0x85, 0xe6,
     0x19, 0x3c, 0x59, 0x83, 0xba, 0x17, 0x73, 0xf3, 0xfc, 0xa7, 0x07, 0x47,
     0xa6, 0x3f, 0x8f, 0x75, 0xfa, 0x94, 0xdf, 0x80, 0x95, 0xe8, 0x08, 0xc9,
     0xa9, 0x1c, 0xb3, 0xe4, 0x62, 0xac, 0xcf, 0xed, 0x43, 0x0b, 0x54, 0x33,
     0x7a, 0x98, 0xef, 0x91, 0xf4, 0x50, 0x42, 0x9c, 0x99, 0x06, 0x86, 0x49,
     0x26, 0x13, 0x44, 0xaa, 0xc3, 0x04, 0xbe, 0x2a, 0x76, 0x9a, 0x67, 0x2b,
     0x05, 0x2c, 0xfb, 0x28, 0xc2, 0x14, 0xb6, 0x16, 0xb7, 0x3d, 0xe1, 0xcc,
     0xfe, 0xe9, 0x90, 0xd6]"

text \<open>The bytes of a word from the most significant down; the table is reversed.\<close>

definition SM4SBox :: "u64 \<Rightarrow> u64" where
  "SM4SBox x =
     fold (\<lambda>j result. push_bit 8 result OR ucast (sm4_sbox ! unat (255 - (drop_bit j x AND 0xff)))) [24, 16, 8, 0] 0"

definition sm4_step :: "bool \<Rightarrow> u64 \<Rightarrow> u64 list \<Rightarrow> u64 list" where
  "sm4_step is_key k result =
     (let intval = result ! 3 XOR result ! 2 XOR result ! 1 XOR k;
          intval = SM4SBox intval;
          intval = (if is_key then intval XOR (ROL32 intval 13 XOR ROL32 intval 23)
                    else intval XOR (ROL32 intval 2 XOR ROL32 intval 10 XOR ROL32 intval 18 XOR ROL32 intval 24));
          intval = intval XOR result ! 0
      in [result ! 1, result ! 2, result ! 3, intval])"

definition sm4_v :: "LogicVRegister \<Rightarrow> vref \<Rightarrow> vref \<Rightarrow> bool \<Rightarrow> vbank \<Rightarrow> vstate" where
  "sm4_v srcdst src1 src2 is_key B =
     (let rd = lv_register srcdst;
          start = UintArray kFormat4S B (if is_key then src1 else rd);
          result = for_lanes 4 (\<lambda>i. sm4_step is_key (LUint kFormat4S B (if is_key then src2 else src1) i)) start
      in (srcdst, SetUintArray kFormat4S rd (\<lambda>i. result ! i) B))"

section \<open>The visitors\<close>

definition sha1su1_v :: "vref \<Rightarrow> vref \<Rightarrow> vref \<Rightarrow> vbank \<Rightarrow> vstate" where
  "sha1su1_v rd rn temp B =
     (let B = SimVRegister_init temp B;
          B = snd (ext_v kFormat16B (LogicV temp) rn temp 4 B);
          B = snd (eor_v kFormat16B (LogicV temp) rd temp B);
          B = snd (rol_v kFormat4S (LogicV rd) temp 1 B);
          B = snd (rol_v kFormatS (LogicV temp) temp 2 B);
          B = snd (ext_v kFormat16B (LogicV temp) temp temp 4 B)
      in eor_v kFormat16B (LogicV rd) rd temp B)"

definition crypto_2reg_sha_table :: "vref \<Rightarrow> vref \<Rightarrow> vref \<Rightarrow> form_table" where
  "crypto_2reg_sha_table rd rn temp =
     [(''sha1h_ss_cryptosha2'', kFormatS, ror_v kFormatS (LogicV rd) rn 2),
      (''sha1su1_vv_cryptosha2'', kFormat16B, sha1su1_v rd rn temp),
      (''sha256su0_vv_cryptosha2'', kFormat4S, sha2su0_v (LogicV rd) rn)]"

definition VisitCrypto2RegSHA :: "bool \<Rightarrow> instruction \<Rightarrow> 'v vsim \<Rightarrow> abort + 'v vsim" where
  "VisitCrypto2RegSHA dbg instr s =
     (let bits = insn_bits instr in form_switch dbg (crypto_2reg_sha_table (vd_of bits) (vn_of bits) (Temp 203)) s)"

definition sha1su0_v :: "vref \<Rightarrow> vref \<Rightarrow> vref \<Rightarrow> vref \<Rightarrow> vbank \<Rightarrow> vstate" where
  "sha1su0_v rd rn rm temp B =
     (let B = SimVRegister_init temp B;
          B = snd (ext_v kFormat16B (LogicV temp) rd rn 8 B);
          B = snd (eor_v kFormat16B (LogicV temp) temp rd B)
      in eor_v kFormat16B (LogicV rd) temp rm B)"

definition crypto_3reg_sha_table :: "vref \<Rightarrow> vref \<Rightarrow> vref \<Rightarrow> vref \<Rightarrow> form_table" where
  "crypto_3reg_sha_table rd rn rm temp =
     [(''sha1c_qsv_cryptosha3'', kFormat4S, sha1_v crypto_choose (LogicV rd) rn rm),
      (''sha1m_qsv_cryptosha3'', kFormat4S, sha1_v crypto_majority (LogicV rd) rn rm),
      (''sha1p_qsv_cryptosha3'', kFormat4S, sha1_v crypto_parity (LogicV rd) rn rm),
      (''sha1su0_vvv_cryptosha3'', kFormat16B, sha1su0_v rd rn rm temp),
      (''sha256h_qqv_cryptosha3'', kFormat4S, sha2h_v True (LogicV rd) rn rm),
      (''sha256h2_qqv_cryptosha3'', kFormat4S, sha2h_v False (LogicV rd) rn rm),
      (''sha256su1_vvv_cryptosha3'', kFormat4S, sha2su1_v (LogicV rd) rn rm)]"

definition VisitCrypto3RegSHA :: "bool \<Rightarrow> instruction \<Rightarrow> 'v vsim \<Rightarrow> abort + 'v vsim" where
  "VisitCrypto3RegSHA dbg instr s =
     (let bits = insn_bits instr
      in form_switch dbg (crypto_3reg_sha_table (vd_of bits) (vn_of bits) (vm_of bits) (Temp 203)) s)"

text \<open>The round key is added first, into a local register.\<close>

definition aes_keyed_v :: "vref \<Rightarrow> vref \<Rightarrow> vref \<Rightarrow> bool \<Rightarrow> vbank \<Rightarrow> vstate" where
  "aes_keyed_v rd rn temp decrypt B =
     aes_v (LogicV rd) temp decrypt (snd (eor_v kFormat16B (LogicV temp) rd rn (SimVRegister_init temp B)))"

definition crypto_aes_table :: "vref \<Rightarrow> vref \<Rightarrow> vref \<Rightarrow> form_table" where
  "crypto_aes_table rd rn temp =
     [(''aesd_b_cryptoaes'', kFormat16B, aes_keyed_v rd rn temp True),
      (''aese_b_cryptoaes'', kFormat16B, aes_keyed_v rd rn temp False),
      (''aesimc_b_cryptoaes'', kFormat16B, aesmix_v (LogicV rd) rn True),
      (''aesmc_b_cryptoaes'', kFormat16B, aesmix_v (LogicV rd) rn False)]"

definition VisitCryptoAES :: "bool \<Rightarrow> instruction \<Rightarrow> 'v vsim \<Rightarrow> abort + 'v vsim" where
  "VisitCryptoAES dbg instr s =
     (let bits = insn_bits instr in form_switch dbg (crypto_aes_table (vd_of bits) (vn_of bits) (Temp 203)) s)"

definition crypto_sm3_table :: "vref \<Rightarrow> vref \<Rightarrow> vref \<Rightarrow> vref \<Rightarrow> nat \<Rightarrow> form_table" where
  "crypto_sm3_table rd rn rm ra index =
     [(''sm3partw1_vvv4_cryptosha512_3'', kFormat4S, sm3partw1_v (LogicV rd) rn rm),
      (''sm3partw2_vvv4_cryptosha512_3'', kFormat4S, sm3partw2_v (LogicV rd) rn rm),
      (''sm3ss1_vvv4_crypto4'', kFormat4S, sm3ss1_v (LogicV rd) rn rm ra),
      (''sm3tt1a_vvv4_crypto3_imm2'', kFormat4S, sm3tt1_v (LogicV rd) rn rm index True),
      (''sm3tt1b_vvv4_crypto3_imm2'', kFormat4S, sm3tt1_v (LogicV rd) rn rm index False),
      (''sm3tt2a_vvv4_crypto3_imm2'', kFormat4S, sm3tt2_v (LogicV rd) rn rm index True),
      (''sm3tt2b_vvv_crypto3_imm2'', kFormat4S, sm3tt2_v (LogicV rd) rn rm index False)]"

definition VisitCryptoSM3 :: "bool \<Rightarrow> instruction \<Rightarrow> 'v vsim \<Rightarrow> abort + 'v vsim" where
  "VisitCryptoSM3 dbg instr s =
     (let bits = insn_bits instr
      in form_switch dbg
           (crypto_sm3_table (vd_of bits) (vn_of bits) (vm_of bits) (va_of bits) (unat (ExtractBits 13 12 bits))) s)"

definition crypto_sm4_table :: "vref \<Rightarrow> vref \<Rightarrow> vref \<Rightarrow> form_table" where
  "crypto_sm4_table rd rn rm =
     [(''sm4ekey_vvv4_cryptosha512_3'', kFormat4S, sm4_v (LogicV rd) rn rm True),
      (''sm4e_vv4_cryptosha512_2'', kFormat4S, sm4_v (LogicV rd) rn rm False)]"

definition VisitCryptoSM4 :: "bool \<Rightarrow> instruction \<Rightarrow> 'v vsim \<Rightarrow> abort + 'v vsim" where
  "VisitCryptoSM4 dbg instr s =
     (let bits = insn_bits instr in form_switch dbg (crypto_sm4_table (vd_of bits) (vn_of bits) (vm_of bits)) s)"

definition sha512_table :: "vref \<Rightarrow> vref \<Rightarrow> vref \<Rightarrow> form_table" where
  "sha512_table rd rn rm =
     [(''sha512h_qqv_cryptosha512_3'', kFormat2D, sha512h_v (LogicV rd) rn rm),
      (''sha512h2_qqv_cryptosha512_3'', kFormat2D, sha512h2_v (LogicV rd) rn rm),
      (''sha512su0_vv2_cryptosha512_2'', kFormat2D, sha512su0_v (LogicV rd) rn),
      (''sha512su1_vvv2_cryptosha512_3'', kFormat2D, sha512su1_v (LogicV rd) rn rm)]"

definition SimulateSHA512 :: "bool \<Rightarrow> instruction \<Rightarrow> 'v vsim \<Rightarrow> abort + 'v vsim" where
  "SimulateSHA512 dbg instr s =
     (let bits = insn_bits instr in form_switch dbg (sha512_table (vd_of bits) (vn_of bits) (vm_of bits)) s)"

section \<open>The visitors together\<close>

text \<open>The cryptographic leaves that the form table names.\<close>

datatype crypto_visitor =
    V_Crypto2RegSHA | V_Crypto3RegSHA | V_CryptoAES | V_CryptoSM3 | V_CryptoSM4 | V_SHA512

primrec crypto_fun :: "bool \<Rightarrow> crypto_visitor \<Rightarrow> instruction \<Rightarrow> 'v vsim \<Rightarrow> abort + 'v vsim" where
  "crypto_fun dbg V_Crypto2RegSHA = VisitCrypto2RegSHA dbg"
| "crypto_fun dbg V_Crypto3RegSHA = VisitCrypto3RegSHA dbg"
| "crypto_fun dbg V_CryptoAES = VisitCryptoAES dbg"
| "crypto_fun dbg V_CryptoSM3 = VisitCryptoSM3 dbg"
| "crypto_fun dbg V_CryptoSM4 = VisitCryptoSM4 dbg"
| "crypto_fun dbg V_SHA512 = SimulateSHA512 dbg"

end
