(* ===== verification/Sim_Step.thy ===== *)
theory Sim_Step
  imports Sim_Atomics Sim_System Sim_Neon_Memory Sim_Mops Sim_Crypto
begin

text \<open>
  The two execution tracks of the simulator (\<open>src/aarch64/simulator-aarch64.{h,cc}\<close>):
  the visitors that the form table names, \<open>Visit\<close> of the decoder track,
  \<open>ExecuteInstruction\<close> and \<open>ExecuteInstructionCached\<close>, the single steps,
  the run loop (with a fuelled version of it and the lemmas between the two), and the
  saved cursor of a nested call.
\<close>

section \<open>Leaves\<close>

text \<open>
  The member functions the form table points at.  \<open>Unmodelled\<close> stands for the
  floating-point and SVE leaves and the host calls, by a number.
\<close>

datatype visitor =
    V_Reserved | V_Unimplemented | V_Unallocated | V_PCRelAddressing
  | V_UnconditionalBranch | V_ConditionalBranch | V_TestBranch | V_CompareBranch
  | V_UnconditionalBranchToRegister
  | V_AddSubShifted | V_AddSubImmediate | V_AddSubExtended | V_AddSubWithCarry
  | V_RotateRightIntoFlags | V_EvaluateIntoFlags | V_LogicalShifted | V_LogicalImmediate
  | V_ConditionalCompareRegister | V_ConditionalCompareImmediate | V_ConditionalSelect
  | V_MoveWideImmediate | V_Bitfield | V_Extract
  | V_DataProcessing1Source | V_DataProcessing2Source | V_DataProcessing3Source
  | V_SignedMinMax | V_UnsignedMinMax
  | V_LoadStoreUnsignedOffset | V_LoadStoreUnscaledOffset | V_LoadStorePreIndex
  | V_LoadStorePostIndex | V_LoadStoreRegisterOffset | V_LoadStorePAC
  | V_LoadStoreRCpcUnscaledOffset | V_LoadStorePairOffset | V_LoadStorePairPreIndex
  | V_LoadStorePairPostIndex | V_LoadStorePairNonTemporal | V_LoadLiteral
  | V_LoadStoreExclusive | V_AtomicMemory | V_System
  | V_Neon neon_visitor
  | V_Struct struct_visitor | V_Tag tag_visitor | V_Mops mops_visitor | V_Crypto crypto_visitor
  | Unmodelled nat

type_synonym 'v leaf_fun = "instruction \<Rightarrow> 'v vsim \<Rightarrow> abort + 'v vsim"

primrec visitor_fun :: "'v host \<Rightarrow> (nat \<Rightarrow> 'v leaf_fun) \<Rightarrow> visitor \<Rightarrow> 'v leaf_fun" where
  "visitor_fun h rest V_Reserved = VisitReserved"
| "visitor_fun h rest V_Unimplemented = VisitUnimplemented (vixl_debug h)"
| "visitor_fun h rest V_Unallocated = VisitUnallocated"
| "visitor_fun h rest V_PCRelAddressing = VisitPCRelAddressing"
| "visitor_fun h rest V_UnconditionalBranch = VisitUnconditionalBranch h"
| "visitor_fun h rest V_ConditionalBranch = VisitConditionalBranch h"
| "visitor_fun h rest V_TestBranch = VisitTestBranch h"
| "visitor_fun h rest V_CompareBranch = VisitCompareBranch h"
| "visitor_fun h rest V_UnconditionalBranchToRegister = VisitUnconditionalBranchToRegister h"
| "visitor_fun h rest V_AddSubShifted = VisitAddSubShifted"
| "visitor_fun h rest V_AddSubImmediate = VisitAddSubImmediate"
| "visitor_fun h rest V_AddSubExtended = VisitAddSubExtended"
| "visitor_fun h rest V_AddSubWithCarry = VisitAddSubWithCarry"
| "visitor_fun h rest V_RotateRightIntoFlags = VisitRotateRightIntoFlags"
| "visitor_fun h rest V_EvaluateIntoFlags = VisitEvaluateIntoFlags"
| "visitor_fun h rest V_LogicalShifted = VisitLogicalShifted"
| "visitor_fun h rest V_LogicalImmediate = VisitLogicalImmediate"
| "visitor_fun h rest V_ConditionalCompareRegister = VisitConditionalCompareRegister"
| "visitor_fun h rest V_ConditionalCompareImmediate = VisitConditionalCompareImmediate"
| "visitor_fun h rest V_ConditionalSelect = VisitConditionalSelect"
| "visitor_fun h rest V_MoveWideImmediate = VisitMoveWideImmediate"
| "visitor_fun h rest V_Bitfield = VisitBitfield"
| "visitor_fun h rest V_Extract = VisitExtract"
| "visitor_fun h rest V_DataProcessing1Source = VisitDataProcessing1Source"
| "visitor_fun h rest V_DataProcessing2Source = VisitDataProcessing2Source"
| "visitor_fun h rest V_DataProcessing3Source = VisitDataProcessing3Source"
| "visitor_fun h rest V_SignedMinMax = SimulateSignedMinMax"
| "visitor_fun h rest V_UnsignedMinMax = SimulateUnsignedMinMax"
| "visitor_fun h rest V_LoadStoreUnsignedOffset = VisitLoadStoreUnsignedOffset"
| "visitor_fun h rest V_LoadStoreUnscaledOffset = VisitLoadStoreUnscaledOffset"
| "visitor_fun h rest V_LoadStorePreIndex = VisitLoadStorePreIndex"
| "visitor_fun h rest V_LoadStorePostIndex = VisitLoadStorePostIndex"
| "visitor_fun h rest V_LoadStoreRegisterOffset = VisitLoadStoreRegisterOffset"
| "visitor_fun h rest V_LoadStorePAC = VisitLoadStorePAC"
| "visitor_fun h rest V_LoadStoreRCpcUnscaledOffset = VisitLoadStoreRCpcUnscaledOffset"
| "visitor_fun h rest V_LoadStorePairOffset = VisitLoadStorePairOffset"
| "visitor_fun h rest V_LoadStorePairPreIndex = VisitLoadStorePairPreIndex"
| "visitor_fun h rest V_LoadStorePairPostIndex = VisitLoadStorePairPostIndex"
| "visitor_fun h rest V_LoadStorePairNonTemporal = VisitLoadStorePairNonTemporal"
| "visitor_fun h rest V_LoadLiteral = VisitLoadLiteral"
| "visitor_fun h rest V_LoadStoreExclusive = VisitLoadStoreExclusive (has_uscat h)"
| "visitor_fun h rest V_AtomicMemory = VisitAtomicMemory (has_uscat h)"
| "visitor_fun h rest V_System = VisitSystem (vixl_debug h)"
| "visitor_fun h rest (V_Neon v) = neon_fun (vixl_debug h) rest v"
| "visitor_fun h rest (V_Struct v) = struct_fun (vixl_debug h) v"
| "visitor_fun h rest (V_Tag v) = tag_fun (vixl_debug h) v"
| "visitor_fun h rest (V_Mops v) = mops_fun (vixl_debug h) v"
| "visitor_fun h rest (V_Crypto v) = crypto_fun (vixl_debug h) v"
| "visitor_fun h rest (Unmodelled n) = rest n"

text \<open>
  What the tracks need beside the simulator: the predecode environment (decoder and
  form table), the leaf functions, the host, and the check of \<open>MOVPRFX\<close> pairs
  (form hash, instruction word, prefix word).
\<close>

record 'v exec_env =
  pre_env :: "'v predecode_env"
  leaf_of :: "'v \<Rightarrow> 'v leaf_fun"
  exec_host :: "'v host"
  can_take_movprfx :: "u32 \<Rightarrow> u32 \<Rightarrow> u32 \<Rightarrow> bool"

text \<open>The instruction at an address, read from memory when it is executed.\<close>

definition fetch :: "u64 \<Rightarrow> 'v vsim \<Rightarrow> instruction" where
  "fetch a s = \<lparr> insn_addr = a, insn_bits = read_mem (memory s) a 4 \<rparr>"

definition run_leaf :: "'v exec_env \<Rightarrow> 'v leaf \<Rightarrow> 'v leaf_fun" where
  "run_leaf env lf =
     (case lf of
        FormLeaf v \<Rightarrow> leaf_of env v
      | UnimplementedSentinelLeaf \<Rightarrow> VisitUnimplemented (vixl_debug (exec_host env))
      | DataInStreamSentinelLeaf \<Rightarrow> VisitUnallocated)"

section \<open>The decoder track\<close>

text \<open>The check of a guarded page: only BTI, PACI[AB]SP, HLT and BRK may follow an indirect branch.\<close>

definition check_btype :: "instruction \<Rightarrow> 'v vsim \<Rightarrow> abort + unit" where
  "check_btype instr s =
     (let bits = insn_bits instr in
      if guard_pages s \<and> btype s \<noteq> DefaultBType
      then if IsPAuth bits
           then (if Mask SystemPAuthMask bits \<noteq> PACIASP \<and> Mask SystemPAuthMask bits \<noteq> PACIBSP
                 then Inl WrongBType else Inr ())
           else if \<not> IsBti bits \<and> \<not> IsException bits then Inl WrongBType
           else Inr ()
      else Inr ())"

definition last_was_movprfx :: "'v vsim \<Rightarrow> bool" where
  "last_was_movprfx s \<longleftrightarrow> form_hash s = Hash ''movprfx_z_z'' \<or> form_hash s = Hash ''movprfx_z_p_z''"

text \<open>\<open>Simulator::Visit\<close>, with the metadata the decoder reports.\<close>

definition Visit :: "'v exec_env \<Rightarrow> decoded_form \<Rightarrow> 'v leaf_fun" where
  "Visit env d instr s =
     (if is_unallocated d then VisitUnallocated instr s
      else let s1 = s\<lparr>form_hash := form_hash_of d\<rparr> in
           case resolve (pre_env env) (form_hash s1) of
             None \<Rightarrow> VisitUnimplemented (vixl_debug (exec_host env)) instr s1
           | Some v \<Rightarrow> leaf_of env v instr s1)"

text \<open>The steps after the leaf; the program counter may already be the branch target.\<close>

definition finish_instruction :: "'v exec_env \<Rightarrow> bool \<Rightarrow> 'v vsim \<Rightarrow> abort + 'v vsim" where
  "finish_instruction env was_movprfx s =
     (if was_movprfx \<and> \<not> can_take_movprfx env (form_hash s) (insn_bits (fetch (pc_reg s) s))
                          (insn_bits (fetch (last_instr s) s))
      then Inl MovprfxCheck
      else Inr (UpdateBType (IncrementPc (s\<lparr>last_instr := pc_reg s\<rparr>))))"

definition ExecuteInstruction :: "'v exec_env \<Rightarrow> 'v vsim \<Rightarrow> abort + 'v vsim" where
  "ExecuteInstruction env s =
     (let s0 = s\<lparr>pc_modified := False\<rparr>; instr = fetch (pc_reg s0) s0;
          d = decode (pre_env env) (insn_bits instr)
      in and_then (check_btype instr s0) (\<lambda>_.
         and_then (Visit env d instr s0) (\<lambda>s1.
         and_then (finish_instruction env (last_was_movprfx s0) s1) (\<lambda>s2.
         if \<not> is_available d then Inl FeatureCheck else Inr s2))))"

section \<open>The cache track\<close>

text \<open>The range of the current program counter: the cached one, else a lookup; with its key.\<close>

definition cached_range :: "'v PredecodeCache \<Rightarrow> 'v vsim \<Rightarrow> 'v CodeRange option" where
  "cached_range c s =
     (case (case cur_range s of None \<Rightarrow> None | Some k \<Rightarrow> map_of (ranges c) k) of
        Some r \<Rightarrow> if pc_reg s - range_start r \<ge> range_size r then FindRange c (pc_reg s) else Some r
      | None \<Rightarrow> FindRange c (pc_reg s))"

definition ExecuteInstructionCached :: "'v exec_env \<Rightarrow> 'v vsim \<Rightarrow> abort + 'v vsim" where
  "ExecuteInstructionCached env s =
     (case predecode_cache s of
        None \<Rightarrow> Inl EmptyCache
      | Some c \<Rightarrow>
          let s0 = s\<lparr>pc_modified := False\<rparr> in
          case cached_range c s0 of
            None \<Rightarrow> Inl (PcNotRegistered (pc_reg s0))
          | Some r \<Rightarrow>
              let s1 = s0\<lparr>cur_range := Some (range_start r)\<rparr>;
                  entry = range_entries r ! unat (drop_bit 2 (pc_reg s1 - range_start r));
                  instr = fetch (pc_reg s1) s1
              in and_then (if entry_flags entry AND 1 \<noteq> 0 then check_btype instr s1 else Inr ()) (\<lambda>_.
                 let was_movprfx = last_was_movprfx s1;
                     s2 = s1\<lparr>form_hash := entry_form_hash entry\<rparr>
                 in and_then (run_leaf env (entry_leaf entry) instr s2)
                      (finish_instruction env was_movprfx)))"

section \<open>Steps and runs\<close>

definition StepOnce :: "'v exec_env \<Rightarrow> 'v vsim \<Rightarrow> abort + (bool \<times> 'v vsim)" where
  "StepOnce env s =
     (if IsSimulationFinished s then Inr (False, s)
      else map_result (Pair True) (ExecuteInstructionCached env s))"

definition DebugStepOnce :: "'v exec_env \<Rightarrow> 'v vsim \<Rightarrow> abort + (bool \<times> 'v vsim)" where
  "DebugStepOnce env s =
     (if IsSimulationFinished s then Inr (False, s)
      else map_result (Pair True) (ExecuteInstruction env s))"

text \<open>\<open>while (step()) {}\<close>: no value when the guest runs forever.\<close>

partial_function (option) run_loop ::
  "('v vsim \<Rightarrow> abort + (bool \<times> 'v vsim)) \<Rightarrow> 'v vsim \<Rightarrow> (abort + 'v vsim) option" where
  "run_loop step s =
     (case step s of
        Inl e \<Rightarrow> Some (Inl e)
      | Inr (alive, s') \<Rightarrow> if alive then run_loop step s' else Some (Inr s'))"

text \<open>The same loop with a bound on the steps.\<close>

fun run_fuel ::
  "nat \<Rightarrow> ('v vsim \<Rightarrow> abort + (bool \<times> 'v vsim)) \<Rightarrow> 'v vsim \<Rightarrow> (abort + 'v vsim) option" where
  "run_fuel 0 step s = None"
| "run_fuel (Suc n) step s =
     (case step s of
        Inl e \<Rightarrow> Some (Inl e)
      | Inr (alive, s') \<Rightarrow> if alive then run_fuel n step s' else Some (Inr s'))"

lemma run_fuel_sound: "run_fuel n step s = Some r \<Longrightarrow> run_loop step s = Some r"
proof (induction n arbitrary: s)
  case (Suc n)
  show ?case
    by (subst run_loop.simps)
      (use Suc in \<open>auto split: sum.splits prod.splits if_splits\<close>)
qed simp

lemma run_loop_fuel:
  assumes "run_loop step s = Some r"
  shows "\<exists>n. run_fuel n step s = Some r"
proof (rule run_loop.raw_induct [where P = "\<lambda>step s r. \<exists>n. run_fuel n step s = Some r", OF _ assms])
  fix loop step s r
  assume IH: "\<And>step s r. loop step s = Some r \<Longrightarrow> \<exists>n. run_fuel n step s = Some r"
    and body: "(case step s of Inl e \<Rightarrow> Some (Inl e)
      | Inr (alive, s') \<Rightarrow> if alive then loop step s' else Some (Inr s')) = Some r"
  show "\<exists>n. run_fuel n step s = Some r"
  proof (cases "step s")
    case (Inl e)
    with body show ?thesis by (intro exI [of _ 1]) simp
  next
    case (Inr p)
    obtain alive s' where p: "p = (alive, s')" by (cases p)
    show ?thesis
    proof (cases alive)
      case True
      with body have "loop step s' = Some r" by (simp add: Inr p)
      then obtain n where "run_fuel n step s' = Some r" using IH by blast
      then have "run_fuel (Suc n) step s = Some r" by (simp add: Inr p True)
      then show ?thesis by blast
    next
      case False
      with body show ?thesis by (intro exI [of _ 1]) (simp add: Inr p)
    qed
  qed
qed

text \<open>Two loops that agree for every bound agree.\<close>

lemma run_loop_cong:
  assumes "\<And>n. map_option f (run_fuel n step s) = map_option g (run_fuel n step' s')"
  shows "map_option f (run_loop step s) = map_option g (run_loop step' s')"
proof (cases "run_loop step s")
  case None
  have "run_loop step' s' = None"
  proof (rule ccontr)
    assume "run_loop step' s' \<noteq> None"
    then obtain r n where "run_fuel n step' s' = Some r" using run_loop_fuel by blast
    with assms [of n] obtain r' where "run_fuel n step s = Some r'" by (cases "run_fuel n step s") auto
    then show False using run_fuel_sound None by fastforce
  qed
  with None show ?thesis by simp
next
  case (Some r)
  then obtain n where n: "run_fuel n step s = Some r" using run_loop_fuel by blast
  with assms [of n] obtain r' where "run_fuel n step' s' = Some r'" "f r = g r'"
    by (cases "run_fuel n step' s'") auto
  with run_fuel_sound Some show ?thesis by fastforce
qed

section \<open>The interpreter cursor\<close>

record cursor =
  cu_pc :: u64
  cu_cur_range :: "u64 option"
  cu_form_hash :: u32
  cu_last_instr :: u64
  cu_pc_modified :: bool
  cu_btype :: BType
  cu_next_btype :: BType

definition GabySaveCursor :: "'v vsim \<Rightarrow> cursor" where
  "GabySaveCursor s =
     \<lparr> cu_pc = pc_reg s, cu_cur_range = cur_range s, cu_form_hash = form_hash s,
       cu_last_instr = last_instr s, cu_pc_modified = pc_modified s,
       cu_btype = btype s, cu_next_btype = next_btype s \<rparr>"

definition GabyRestoreCursor :: "cursor \<Rightarrow> 'v vsim \<Rightarrow> 'v vsim" where
  "GabyRestoreCursor c s =
     s\<lparr>pc_reg := cu_pc c, cur_range := cu_cur_range c, form_hash := cu_form_hash c,
       last_instr := cu_last_instr c, pc_modified := cu_pc_modified c,
       btype := cu_btype c, next_btype := cu_next_btype c\<rparr>"

end
