(* ===== verification/Sim_Oblivious.thy ===== *)
theory Sim_Oblivious
  imports Sim_Step
begin

text \<open>
  No modelled leaf looks at the range the cache track remembers between steps: it
  does the same whatever \<open>cur_range\<close> holds, and leaves it as it is.  The contract is
  the locale \<open>range_oblivious\<close>; the visitors of the simulator satisfy it when the
  host's callbacks do.
\<close>

section \<open>Changing the remembered range\<close>

definition set_range :: "u64 option \<Rightarrow> 'v vsim \<Rightarrow> 'v vsim" where
  "set_range k s = s\<lparr>cur_range := k\<rparr>"

named_theorems range_simps \<open>operations commute with a change of the remembered range\<close>

lemma set_range_fields [range_simps]:
  "xregs (set_range k s) = xregs s" "vregs (set_range k s) = vregs s"
  "nzcv (set_range k s) = nzcv s" "fpcr (set_range k s) = fpcr s"
  "pc_reg (set_range k s) = pc_reg s" "pc_modified (set_range k s) = pc_modified s"
  "btype (set_range k s) = btype s" "next_btype (set_range k s) = next_btype s"
  "last_instr (set_range k s) = last_instr s" "form_hash (set_range k s) = form_hash s"
  "guard_pages (set_range k s) = guard_pages s" "memory (set_range k s) = memory s"
  "stack (set_range k s) = stack s" "mte_active (set_range k s) = mte_active s"
  "mte_tags (set_range k s) = mte_tags s" "local_monitor (set_range k s) = local_monitor s"
  "global_monitor (set_range k s) = global_monitor s" "gcs_stack (set_range k s) = gcs_stack s"
  "gcs_valid (set_range k s) = gcs_valid s" "gcs_live (set_range k s) = gcs_live s" "gcs_token (set_range k s) = gcs_token s"
  "gcs_stacks (set_range k s) = gcs_stacks s"
  "gcs_enabled (set_range k s) = gcs_enabled s" "write_sink (set_range k s) = write_sink s"
  "predecode_cache (set_range k s) = predecode_cache s" "cur_range (set_range k s) = k"
  "branch_hook (set_range k s) = branch_hook s" "busy (set_range k s) = busy s"
  "fpsr_storage (set_range k s) = fpsr_storage s" "rand_gen (set_range k s) = rand_gen s"
  by (simp_all add: set_range_def)

lemma set_range_updates [range_simps]:
  "(set_range k s)\<lparr>xregs := x\<rparr> = set_range k (s\<lparr>xregs := x\<rparr>)"
  "(set_range k s)\<lparr>vregs := y\<rparr> = set_range k (s\<lparr>vregs := y\<rparr>)"
  "(set_range k s)\<lparr>nzcv := n\<rparr> = set_range k (s\<lparr>nzcv := n\<rparr>)"
  "(set_range k s)\<lparr>fpcr := n\<rparr> = set_range k (s\<lparr>fpcr := n\<rparr>)"
  "(set_range k s)\<lparr>pc_reg := a\<rparr> = set_range k (s\<lparr>pc_reg := a\<rparr>)"
  "(set_range k s)\<lparr>pc_modified := b\<rparr> = set_range k (s\<lparr>pc_modified := b\<rparr>)"
  "(set_range k s)\<lparr>btype := t\<rparr> = set_range k (s\<lparr>btype := t\<rparr>)"
  "(set_range k s)\<lparr>next_btype := t\<rparr> = set_range k (s\<lparr>next_btype := t\<rparr>)"
  "(set_range k s)\<lparr>last_instr := a\<rparr> = set_range k (s\<lparr>last_instr := a\<rparr>)"
  "(set_range k s)\<lparr>form_hash := f\<rparr> = set_range k (s\<lparr>form_hash := f\<rparr>)"
  "(set_range k s)\<lparr>memory := m\<rparr> = set_range k (s\<lparr>memory := m\<rparr>)"
  "(set_range k s)\<lparr>mte_active := b\<rparr> = set_range k (s\<lparr>mte_active := b\<rparr>)"
  "(set_range k s)\<lparr>local_monitor := l\<rparr> = set_range k (s\<lparr>local_monitor := l\<rparr>)"
  "(set_range k s)\<lparr>global_monitor := g\<rparr> = set_range k (s\<lparr>global_monitor := g\<rparr>)"
  "(set_range k s)\<lparr>gcs_stack := gs\<rparr> = set_range k (s\<lparr>gcs_stack := gs\<rparr>)"
  "(set_range k s)\<lparr>gcs_valid := b\<rparr> = set_range k (s\<lparr>gcs_valid := b\<rparr>)"
  "(set_range k s)\<lparr>gcs_live := b\<rparr> = set_range k (s\<lparr>gcs_live := b\<rparr>)"
  "(set_range k s)\<lparr>gcs_token := a\<rparr> = set_range k (s\<lparr>gcs_token := a\<rparr>)"
  "(set_range k s)\<lparr>gcs_stacks := vs\<rparr> = set_range k (s\<lparr>gcs_stacks := vs\<rparr>)"
  "(set_range k s)\<lparr>write_sink := w\<rparr> = set_range k (s\<lparr>write_sink := w\<rparr>)"
  "(set_range k s)\<lparr>mte_tags := u\<rparr> = set_range k (s\<lparr>mte_tags := u\<rparr>)"
  "(set_range k s)\<lparr>rand_gen := w64\<rparr> = set_range k (s\<lparr>rand_gen := w64\<rparr>)"
  by (simp_all add: set_range_def)

lemma map_result_and_then [range_simps]:
  "map_result f (and_then m g) = and_then m (\<lambda>a. map_result f (g a))"
  by (cases m) simp_all

lemma map_result_map_result [range_simps]:
  "map_result f (map_result h m) = map_result (\<lambda>a. f (h a)) m"
  by (cases m) simp_all

lemma and_then_map_result [range_simps]:
  "and_then (map_result h m) g = and_then m (\<lambda>a. g (h a))"
  by (cases m) simp_all

lemma map_result_cases [range_simps]:
  "map_result f (if c then m else m') = (if c then map_result f m else map_result f m')"
  "map_result f (case p of (a, b) \<Rightarrow> r a b) = (case p of (a, b) \<Rightarrow> map_result f (r a b))"
  by (simp, simp add: case_prod_beta)

lemma map_result_option [range_simps]:
  "map_result f (case oo of None \<Rightarrow> m | Some z \<Rightarrow> u z) =
    (case oo of None \<Rightarrow> map_result f m | Some z \<Rightarrow> map_result f (u z))"
  by (cases oo) simp_all

lemma and_then_if: "and_then (if c then m else m') f = (if c then and_then m f else and_then m' f)"
  by simp

lemma set_range_if [range_simps]:
  "set_range k (if c then s else s') = (if c then set_range k s else set_range k s')"
  by simp

lemma case_pair_map [range_simps]:
  "(case map_prod f g p of (a, b) \<Rightarrow> r a b) = (case p of (a, b) \<Rightarrow> r (f a) (g b))"
  by (cases p) simp

section \<open>The primitive operations\<close>

lemma range_reads [range_simps]:
  "ReadRegister c m (set_range k s) = ReadRegister c m s"
  "ReadRegisterSized n c m (set_range k s) = ReadRegisterSized n c m s"
  "ReadVRegister c (set_range k s) = ReadVRegister c s"
  "ReadN (set_range k s) = ReadN s" "ReadZ (set_range k s) = ReadZ s"
  "ReadC (set_range k s) = ReadC s" "ReadV (set_range k s) = ReadV s"
  "ConditionPassed cond (set_range k s) = ConditionPassed cond s"
  "ConditionFailed cond (set_range k s) = ConditionFailed cond s"
  by (simp_all add: ReadRegister_def ReadRegisterSized_def ReadVRegister_def ReadN_def ReadZ_def
      ReadC_def ReadV_def ConditionPassed_def ConditionFailed_def range_simps)

lemma range_writes [range_simps]:
  "WriteRegister c v m (set_range k s) = set_range k (WriteRegister c v m s)"
  "WriteRegisterSized n c u m (set_range k s) = set_range k (WriteRegisterSized n c u m s)"
  "WriteVRegister c v (set_range k s) = set_range k (WriteVRegister c v s)"
  "WriteLr u (set_range k s) = set_range k (WriteLr u s)"
  "SetN b (set_range k s) = set_range k (SetN b s)" "SetZ b (set_range k s) = set_range k (SetZ b s)"
  "SetC b (set_range k s) = set_range k (SetC b s)" "SetV b (set_range k s) = set_range k (SetV b s)"
  "SetFlags b (set_range k s) = set_range k (SetFlags b s)"
  "WritePc u (set_range k s) = set_range k (WritePc u s)"
  "IncrementPc (set_range k s) = set_range k (IncrementPc s)"
  "WriteNextBType t (set_range k s) = set_range k (WriteNextBType t s)"
  "UpdateBType (set_range k s) = set_range k (UpdateBType s)"
  "GCSPush u (set_range k s) = set_range k (GCSPush u s)"
  "local_Clear (set_range k s) = set_range k (local_Clear s)"
  "local_MarkExclusive u w (set_range k s) = set_range k (local_MarkExclusive u w s)"
  by (simp_all add: WriteRegister_def WriteRegisterSized_def WriteVRegister_def WriteLr_def SetN_def
      SetZ_def SetC_def SetV_def SetFlags_def WritePc_def IncrementPc_def WriteNextBType_def
      UpdateBType_def GCSPush_def local_Clear_def local_MarkExclusive_def Let_def set_range_def)

lemma range_MaybeClear [range_simps]:
  "local_MaybeClear (set_range k s) = set_range k (local_MaybeClear s)"
  by (simp add: local_MaybeClear_def Let_def range_simps)

lemma range_narrow [range_simps]:
  "WriteRegisterNarrowSigned c v (set_range k s) = set_range k (WriteRegisterNarrowSigned c v s)"
  "WriteRegisterNarrowUnsigned c v (set_range k s) = set_range k (WriteRegisterNarrowUnsigned c v s)"
  "WriteRegisterT b c v (set_range k s) = set_range k (WriteRegisterT b c v s)"
  by (simp_all add: WriteRegisterNarrowSigned_def WriteRegisterNarrowUnsigned_def WriteRegisterT_def range_simps)

lemma range_GCS [range_simps]:
  "GCSPeek (set_range k s) = GCSPeek s"
  "GCSPop (set_range k s) = (fst (GCSPop s), set_range k (snd (GCSPop s)))"
  "ReportGCSFailure m (set_range k s) = map_result (set_range k) (ReportGCSFailure m s)"
  by (simp_all add: GCSPeek_def GCSPop_def ReportGCSFailure_def range_simps)

lemma range_ActivateGCS [range_simps]:
  "parked_stacks (set_range k s) = parked_stacks s" "GetGCSPtr t (set_range k s) = GetGCSPtr t s"
  "ActivateGCS t (set_range k s) = map_result (set_range k) (ActivateGCS t s)"
  by (simp_all add: parked_stacks_def GetGCSPtr_def ActivateGCS_def range_simps)

lemma range_monitors [range_simps]:
  "local_IsExclusive u w (set_range k s) = local_IsExclusive u w s"
  "global_IsExclusive u w (set_range k s) = map_prod id (set_range k) (global_IsExclusive u w s)"
  by (simp_all add: local_IsExclusive_def global_IsExclusive_def Let_def range_simps)

lemma range_exclusive_check [range_simps]:
  "exclusive_check u w (set_range k s) = map_prod id (set_range k) (exclusive_check u w s)"
  by (simp add: exclusive_check_def range_simps)

lemma range_memory [range_simps]:
  "access_checks e a n (set_range k s) = access_checks e a n s"
  "MemRead n a (set_range k s) = MemRead n a s"
  "MemReadT a (set_range k s) = MemReadT a s"
  by (simp_all add: access_checks_def IsMTETagsMatched_def GetMTETag_def MemRead_def MemReadT_def range_simps)

lemma range_MemWrite [range_simps]:
  "MemWrite n a v (set_range k s) = map_result (set_range k) (MemWrite n a v s)"
  by (cases "write_sink s"; cases "access_checks StackGuardWrite a n s")
    (simp_all add: MemWrite_def Memory_Write_def NotifyShadowMemoryWrite_def range_simps)

lemma range_MemWriteT [range_simps]:
  "MemWriteT a v (set_range k s) = map_result (set_range k) (MemWriteT a v s)"
  by (simp add: MemWriteT_def range_simps)

lemma range_AddWithCarryFlags [range_simps]:
  "AddWithCarryFlags n f l r c (set_range k s) = map_prod id (set_range k) (AddWithCarryFlags n f l r c s)"
  by (cases "AddWithCarry n l r c") (simp add: AddWithCarryFlags_def Let_def range_simps)

section \<open>The visitors\<close>

text \<open>A leaf that commutes with every change of the remembered range.\<close>

definition oblivious :: "'v leaf_fun \<Rightarrow> bool" where
  "oblivious f \<longleftrightarrow> (\<forall>instr k s. f instr (set_range k s) = map_result (set_range k) (f instr s))"

lemma obliviousI:
  "(\<And>instr k s. f instr (set_range k s) = map_result (set_range k) (f instr s)) \<Longrightarrow> oblivious f"
  by (simp add: oblivious_def)

lemma obliviousD [range_simps]:
  "oblivious f \<Longrightarrow> f instr (set_range k s) = map_result (set_range k) (f instr s)"
  by (simp add: oblivious_def)

subsection \<open>Data processing\<close>

lemma range_AddSubHelper [range_simps]:
  "AddSubHelper bits op2 (set_range k s) = map_result (set_range k) (AddSubHelper bits op2 s)"
  by (simp add: AddSubHelper_def Let_def range_simps)

lemma range_LogicalHelper [range_simps]:
  "LogicalHelper bits op2 (set_range k s) = map_result (set_range k) (LogicalHelper bits op2 s)"
  by (simp add: LogicalHelper_def Let_def range_simps)

lemma range_ConditionalCompareHelper [range_simps]:
  "ConditionalCompareHelper bits op2 (set_range k s) = map_result (set_range k) (ConditionalCompareHelper bits op2 s)"
  by (simp add: ConditionalCompareHelper_def Let_def range_simps)

lemma oblivious_add_sub:
  "oblivious VisitAddSubShifted" "oblivious VisitAddSubImmediate"
  "oblivious VisitAddSubExtended" "oblivious VisitAddSubWithCarry"
  by (rule obliviousI; simp add: VisitAddSubShifted_def VisitAddSubImmediate_def
      VisitAddSubExtended_def VisitAddSubWithCarry_def Let_def range_simps)+

lemma oblivious_flags:
  "oblivious VisitRotateRightIntoFlags" "oblivious VisitEvaluateIntoFlags"
  by (rule obliviousI; simp add: VisitRotateRightIntoFlags_def VisitEvaluateIntoFlags_def Let_def range_simps)+

lemma oblivious_logical:
  "oblivious VisitLogicalShifted" "oblivious VisitLogicalImmediate"
  by (rule obliviousI; simp add: VisitLogicalShifted_def VisitLogicalImmediate_def Let_def range_simps)+

lemma oblivious_conditional:
  "oblivious VisitConditionalCompareRegister" "oblivious VisitConditionalCompareImmediate"
  "oblivious VisitConditionalSelect"
  by (rule obliviousI; simp add: VisitConditionalCompareRegister_def
      VisitConditionalCompareImmediate_def VisitConditionalSelect_def Let_def range_simps)+

lemma oblivious_move:
  "oblivious VisitMoveWideImmediate" "oblivious VisitBitfield" "oblivious VisitExtract"
  by (rule obliviousI; simp add: VisitMoveWideImmediate_def VisitBitfield_def VisitExtract_def
      Let_def range_simps case_prod_beta)+

lemma range_DEFINE_PAUTH_FUNCS [range_simps]:
  "DEFINE_PAUTH_FUNCS modes dst src (set_range k s) = map_option (set_range k) (DEFINE_PAUTH_FUNCS modes dst src s)"
  by (induction modes dst src s rule: DEFINE_PAUTH_FUNCS.induct) (simp_all add: Let_def range_simps)

lemma oblivious_one_source: "oblivious VisitDataProcessing1Source"
proof (rule obliviousI)
  fix instr k s
  show "VisitDataProcessing1Source instr (set_range k s) =
      map_result (set_range k) (VisitDataProcessing1Source instr (s :: 'a vsim))"
    by (cases "DEFINE_PAUTH_FUNCS PAUTH_MODES_REGISTER_CONTEXT (rd_of (insn_bits instr)) (rn_of (insn_bits instr)) s")
      (simp_all only: VisitDataProcessing1Source_def Let_def range_simps option.map option.case map_result.simps)
qed

lemma oblivious_sources:
  "oblivious VisitDataProcessing2Source" "oblivious VisitDataProcessing3Source"
  by (rule obliviousI; simp only: VisitDataProcessing2Source_def
      VisitDataProcessing3Source_def Let_def range_simps map_result.simps)+

lemma oblivious_minmax:
  "oblivious SimulateSignedMinMax" "oblivious SimulateUnsignedMinMax"
  by (rule obliviousI; simp only: SimulateSignedMinMax_def SimulateUnsignedMinMax_def Let_def range_simps map_result.simps)+

subsection \<open>Branches\<close>

text \<open>The callbacks of the host must not look at the remembered range either.\<close>

definition oblivious_host :: "'v host \<Rightarrow> bool" where
  "oblivious_host h \<longleftrightarrow>
     (\<forall>hook a k s. hook_fn h hook a (set_range k s) = map_result (map_prod id (set_range k)) (hook_fn h hook a s))
   \<and> (\<forall>a f k s. interception h a = Some f \<longrightarrow> f (set_range k s) = map_result (set_range k) (f s))"

lemma range_GabyHookedWritePc [range_simps]:
  "oblivious_host h \<Longrightarrow>
    GabyHookedWritePc h a (set_range k s) = map_result (set_range k) (GabyHookedWritePc h a s)"
  by (cases "branch_hook s") (simp_all add: GabyHookedWritePc_def oblivious_host_def range_simps case_prod_beta cong: if_cong)

lemma oblivious_words: "oblivious VisitReserved" "oblivious VisitUnallocated" "oblivious (VisitUnimplemented b)"
  by (rule obliviousI; simp add: VisitReserved_def VisitUnallocated_def VisitUnimplemented_def)+

lemma oblivious_pcrel: "oblivious VisitPCRelAddressing"
  by (rule obliviousI) (simp add: VisitPCRelAddressing_def range_simps)

lemma oblivious_branches:
  assumes "oblivious_host h"
  shows "oblivious (VisitUnconditionalBranch h)" "oblivious (VisitConditionalBranch h)"
    "oblivious (VisitTestBranch h)" "oblivious (VisitCompareBranch h)"
  by (rule obliviousI; simp add: VisitUnconditionalBranch_def VisitConditionalBranch_def
      VisitTestBranch_def VisitCompareBranch_def Let_def range_simps assms)+

lemma range_register_branch_form [range_simps]:
  "register_branch_form instr (set_range k s) = register_branch_form instr s"
  by (simp add: register_branch_form_def Let_def range_simps)

lemma range_check_gcs [range_simps]:
  "check_gcs a (set_range k s) = map_result (set_range k) (check_gcs a s)"
  by (simp add: check_gcs_def Let_def range_simps)

lemma range_GetBTypeFromInstruction [range_simps]:
  "GetBTypeFromInstruction instr (set_range k s) = GetBTypeFromInstruction instr s"
  by (simp only: GetBTypeFromInstruction_def range_simps)

lemma oblivious_register_branch:
  assumes h: "oblivious_host h"
  shows "oblivious (VisitUnconditionalBranchToRegister h)"
proof -
  have i: "interception h a = Some f \<Longrightarrow> f (set_range k s) = map_result (set_range k) (f s)" for a f k s
    using h by (simp add: oblivious_host_def)
  have tail: "(let s2 = (if link f then GCSPush a (WriteLr a (set_range k s1)) else set_range k s1)
          in and_then (if \<not> ret f then case interception h addr of
                 Some g \<Rightarrow> map_result (Pair (ReadXRegister 30 s2)) (g s2) | None \<Rightarrow> Inr (addr, s2)
               else Inr (addr, s2))
              (\<lambda>(addr', s3). GabyHookedWritePc h addr' (WriteNextBType (GetBTypeFromInstruction instr s3) s3))) =
        map_result (set_range k)
         (let s2 = (if link f then GCSPush a (WriteLr a s1) else s1)
          in and_then (if \<not> ret f then case interception h addr of
                 Some g \<Rightarrow> map_result (Pair (ReadXRegister 30 s2)) (g s2) | None \<Rightarrow> Inr (addr, s2)
               else Inr (addr, s2))
              (\<lambda>(addr', s3). GabyHookedWritePc h addr' (WriteNextBType (GetBTypeFromInstruction instr s3) s3)))"
    for f :: branch_form and a addr instr k s1
    by (cases "interception h addr"; cases "ret f"; cases "link f"; simp add: Let_def range_simps h i)
  show ?thesis
  proof (rule obliviousI)
    fix instr k s
    show "VisitUnconditionalBranchToRegister h instr (set_range k s) =
        map_result (set_range k) (VisitUnconditionalBranchToRegister h instr s)"
    proof (cases "register_branch_form instr s")
      case (Some f)
      show ?thesis
        unfolding VisitUnconditionalBranchToRegister_def range_register_branch_form Some option.case
        by (cases "authenticated_target instr f"; cases "compare_gcs f")
          (simp_all add: range_check_gcs and_then_map_result map_result_and_then tail del: Let_def)
    qed (simp add: VisitUnconditionalBranchToRegister_def range_simps)
  qed
qed

subsection \<open>Loads and stores\<close>

lemma range_AddressModeHelper [range_simps]:
  "AddressModeHelper r off m (set_range k s) = map_result (map_prod id (set_range k)) (AddressModeHelper r off m s)"
  by (simp only: AddressModeHelper_def Let_def range_simps map_result.simps map_prod_simp id_apply)

lemma range_pairs [range_simps]:
  "store_pair v v2 a a2 (set_range k s) = map_result (set_range k) (store_pair v v2 a a2 s)"
  by (simp add: store_pair_def range_simps)

lemma range_load_pair [range_simps]:
  assumes "\<And>v k s. w v (set_range k s) = set_range k (w v s)" "\<And>v k s. w2 v (set_range k s) = set_range k (w2 v s)"
  shows "load_pair w w2 a a2 (set_range k s) = map_result (set_range k) (load_pair w w2 a a2 s)"
  by (simp add: load_pair_def range_simps assms)

lemma range_load_store_op [range_simps]:
  "load_store_op op r a (set_range k s) = map_result (set_range k) (load_store_op op r a s)"
  by (simp only: load_store_op_def range_simps map_result.simps)

lemma range_load_store_pair_op [range_simps]:
  "load_store_pair_op op r r2 a a2 (set_range k s) = map_result (set_range k) (load_store_pair_op op r r2 a a2 s)"
  by (simp only: load_store_pair_op_def range_simps map_result.simps)

lemma range_load_literal_op [range_simps]:
  "load_literal_op op r a (set_range k s) = map_result (set_range k) (load_literal_op op r a s)"
  by (simp only: load_literal_op_def range_simps map_result.simps)

lemma range_LoadStoreHelper [range_simps]:
  "LoadStoreHelper instr off m (set_range k s) = map_result (set_range k) (LoadStoreHelper instr off m s)"
  "LoadStorePairHelper instr m (set_range k s) = map_result (set_range k) (LoadStorePairHelper instr m s)"
  by (simp_all add: LoadStoreHelper_def LoadStorePairHelper_def Let_def range_simps case_prod_beta)

lemma oblivious_load_store:
  "oblivious VisitLoadStoreUnsignedOffset" "oblivious VisitLoadStoreUnscaledOffset"
  "oblivious VisitLoadStorePreIndex" "oblivious VisitLoadStorePostIndex"
  "oblivious VisitLoadStoreRegisterOffset" "oblivious VisitLoadStorePairOffset"
  "oblivious VisitLoadStorePairPreIndex" "oblivious VisitLoadStorePairPostIndex"
  "oblivious VisitLoadStorePairNonTemporal" "oblivious VisitLoadLiteral"
  by (rule obliviousI; simp add: VisitLoadStoreUnsignedOffset_def VisitLoadStoreUnscaledOffset_def
      VisitLoadStorePreIndex_def VisitLoadStorePostIndex_def VisitLoadStoreRegisterOffset_def
      VisitLoadStorePairOffset_def VisitLoadStorePairPreIndex_def VisitLoadStorePairPostIndex_def
      VisitLoadStorePairNonTemporal_def VisitLoadLiteral_def Let_def range_simps)+

lemma oblivious_load_PAC: "oblivious VisitLoadStorePAC"
proof (rule obliviousI)
  fix instr k s
  show "VisitLoadStorePAC instr (set_range k s) = map_result (set_range k) (VisitLoadStorePAC instr s)"
    by (cases "Mask LoadStorePACPreBit (insn_bits instr) = LoadStorePACPreBit")
      (simp_all only: VisitLoadStorePAC_def Let_def range_simps map_result.simps if_True if_False simp_thms)
qed

lemma range_rcpc [range_simps]:
  "(\<And>v k s. w v (set_range k s) = set_range k (w v s)) \<Longrightarrow>
    LoadAcquireRCpcUnscaledOffsetHelper w instr (set_range k s) =
      map_result (set_range k) (LoadAcquireRCpcUnscaledOffsetHelper w instr s)"
  "StoreReleaseUnscaledOffsetHelper v instr (set_range k s) =
    map_result (set_range k) (StoreReleaseUnscaledOffsetHelper v instr s)"
  by (simp_all add: LoadAcquireRCpcUnscaledOffsetHelper_def StoreReleaseUnscaledOffsetHelper_def Let_def range_simps)

lemma oblivious_rcpc: "oblivious VisitLoadStoreRCpcUnscaledOffset"
  by (rule obliviousI) (simp only: VisitLoadStoreRCpcUnscaledOffset_def Let_def range_simps map_result.simps)

subsection \<open>Atomics\<close>

lemma range_cas [range_simps]:
  "CompareAndSwapHelper u (T :: 'a::len itself) instr (set_range k s) =
    map_result (set_range k) (CompareAndSwapHelper u T instr s)"
  "CompareAndSwapPairHelper u (T :: 'a::len itself) instr (set_range k s) =
    map_result (set_range k) (CompareAndSwapPairHelper u T instr s)"
  by (simp_all add: CompareAndSwapHelper_def CompareAndSwapPairHelper_def Let_def range_simps and_then_if cong: if_cong)

lemma range_exclusive_ops [range_simps]:
  "load_exclusive_op op r r2 a a2 (set_range k s) = map_result (set_range k) (load_exclusive_op op r r2 a a2 s)"
  "store_exclusive_op op r r2 a a2 (set_range k s) = map_result (set_range k) (store_exclusive_op op r r2 a a2 s)"
  by (simp_all only: load_exclusive_op_def store_exclusive_op_def range_simps map_result.simps)

lemma range_exclusive_default [range_simps]:
  "VisitLoadStoreExclusive_default u instr (set_range k s) =
    map_result (set_range k) (VisitLoadStoreExclusive_default u instr s)"
  by (simp add: VisitLoadStoreExclusive_default_def Let_def range_simps case_prod_beta)

lemma range_atomics [range_simps]:
  "AtomicMemorySimpleHelper u sg (T :: 'a::len itself) instr (set_range k s) =
    map_result (set_range k) (AtomicMemorySimpleHelper u sg T instr s)"
  "AtomicMemorySwapHelper u (T :: 'a::len itself) instr (set_range k s) =
    map_result (set_range k) (AtomicMemorySwapHelper u T instr s)"
  "LoadAcquireRCpcHelper u (T :: 'a::len itself) instr (set_range k s) =
    map_result (set_range k) (LoadAcquireRCpcHelper u T instr s)"
  by (simp_all add: AtomicMemorySimpleHelper_def AtomicMemorySwapHelper_def LoadAcquireRCpcHelper_def
      Let_def range_simps)

lemma oblivious_atomics: "oblivious (VisitLoadStoreExclusive u)" "oblivious (VisitAtomicMemory u)"
  by (rule obliviousI; simp only: VisitLoadStoreExclusive_def VisitAtomicMemory_def Let_def
      range_simps map_result.simps)+

subsection \<open>System instructions\<close>

lemma range_system [range_simps]:
  "axflag (set_range k s) = set_range k (axflag s)" "xaflag (set_range k s) = set_range k (xaflag s)"
  "PACHelper d r key f (set_range k s) = set_range k (PACHelper d r key f s)"
  "visit_bti instr (set_range k s) = map_result (set_range k) (visit_bti instr s)"
  "unimplemented dbg (set_range k s) = map_result (set_range k) (unimplemented dbg s)"
  "visit_msr dbg instr (set_range k s) = map_result (set_range k) (visit_msr dbg instr s)"
  by (simp_all add: axflag_def xaflag_def PACHelper_def visit_bti_def visit_msr_def unimplemented_def GetN_def GetZ_def
      GetC_def GetV_def Let_def range_simps split: option.split)

lemma range_random [range_simps]:
  "next_random (set_range k s) = map_prod id (set_range k) (next_random s)"
  "read_random (set_range k s) = map_prod id (set_range k) (read_random s)"
  by (simp_all add: next_random_def read_random_def Let_def range_simps)

lemma range_visit_mrs [range_simps]:
  "visit_mrs dbg instr (set_range k s) = map_result (set_range k) (visit_mrs dbg instr s)"
  by (simp add: visit_mrs_def Let_def range_simps case_prod_beta)

lemma range_zero_block [range_simps]:
  "zero_block a n (set_range k s) = map_result (set_range k) (zero_block a n s)"
  by (induction n arbitrary: a s) (simp_all add: range_simps)

lemma range_SysOp_W [range_simps]:
  "SysOp_W dbg op val (set_range k s) = map_result (map_prod id (set_range k)) (SysOp_W dbg op val s)"
  by (cases "MemRead 1 val (s\<lparr>mte_active := False\<rparr>) :: abort + u8")
    (simp_all add: SysOp_W_def Let_def range_simps cong: if_cong)

lemma range_gcsss [range_simps]:
  "visit_gcsss1 rt (set_range k s) = map_result (set_range k) (visit_gcsss1 rt s)"
  "visit_gcsss2 dbg r (set_range k s) = map_result (set_range k) (visit_gcsss2 dbg r s)"
  by (simp_all add: visit_gcsss1_def visit_gcsss2_def Let_def case_prod_beta range_simps and_then_if cong: if_cong)

lemma range_visit_sys [range_simps]:
  "visit_sys dbg instr (set_range k s) = map_result (set_range k) (visit_sys dbg instr s)"
  "visit_sysl dbg instr (set_range k s) = map_result (set_range k) (visit_sysl dbg instr s)"
  by (simp_all add: visit_sys_def visit_sysl_def Let_def case_prod_beta VisitUnallocated_def range_simps cong: if_cong)

lemma oblivious_system: "oblivious (VisitSystem dbg)"
  by (rule obliviousI) (simp only: VisitSystem_def Let_def range_simps map_result.simps)

subsection \<open>Vector instructions\<close>

lemma range_bank [range_simps]: "bank_of (set_range k s) = bank_of s"
  by (rule ext) (simp add: bank_of_def range_simps split: vref.split)

lemma range_vector_op [range_simps]:
  "run_bank op (set_range k s) = set_range k (run_bank op s)"
  "vector_op dbg vf op (set_range k s) = map_result (set_range k) (vector_op dbg vf op s)"
  "unimplemented_op dbg (set_range k s) = map_result (set_range k) (unimplemented_op dbg s)"
  by (simp_all add: run_bank_def vector_op_def unimplemented_op_def range_simps)

lemma range_switches [range_simps]:
  "op_switch dbg table key (set_range k s) = map_result (set_range k) (op_switch dbg table key s)"
  "form_switch dbg forms (set_range k s) = map_result (set_range k) (form_switch dbg forms s)"
  by (simp_all add: op_switch_def form_switch_def range_simps split: option.split)

lemma oblivious_neon:
  assumes "\<And>n. oblivious (rest n)"
  shows "oblivious (neon_fun dbg rest v)"
proof (rule obliviousI)
  fix instr k s
  show "neon_fun dbg rest v instr (set_range k s) = map_result (set_range k) (neon_fun dbg rest v instr s)"
    by (cases v)
      (simp_all only: neon_fun.simps neon_visitor_defs Let_def range_simps map_result.simps obliviousD [OF assms])
qed

subsection \<open>Vector loads and stores\<close>

lemma range_on_bank [range_simps]: "on_bank f (set_range k s) = set_range k (on_bank f s)"
  by (simp add: on_bank_def range_simps)

lemma range_lanes [range_simps]:
  "MemReadUint n a (set_range k s) = MemReadUint n a s"
  "MemWriteSized n a v (set_range k s) = map_result (set_range k) (MemWriteSized n a v s)"
  "LoadLane r vf i a (set_range k s) = map_result (set_range k) (LoadLane r vf i a s)"
  "StoreLane r vf i a (set_range k s) = map_result (set_range k) (StoreLane r vf i a s)"
  by (simp_all add: MemReadUint_def MemWriteSized_def LoadLane_def LoadUintToLane_def StoreLane_def range_simps)

text \<open>Steps in order commute when each of them does.\<close>

lemma range_in_order:
  assumes "\<And>x s. f x (set_range k s) = map_result (set_range k) (f x s)"
  shows "in_order f xs (set_range k s) = map_result (set_range k) (in_order f xs s)"
proof (induction xs arbitrary: s)
  case (Cons x xs)
  then show ?case by (cases "f x s") (simp_all add: assms)
qed simp

lemma range_clear_all [range_simps]: "clear_all vf regs (set_range k s) = set_range k (clear_all vf regs s)"
  unfolding clear_all_def by (induction regs arbitrary: s) (simp_all add: range_simps)

lemma range_lane_struct [range_simps]:
  "load_lane_struct vf b regs a i (set_range k s) = map_result (set_range k) (load_lane_struct vf b regs a i s)"
  "store_lane_struct vf regs a i (set_range k s) = map_result (set_range k) (store_lane_struct vf regs a i s)"
  unfolding load_lane_struct_def store_lane_struct_def
  by (rule range_in_order; clarsimp simp: range_simps)+

lemma range_structs [range_simps]:
  "ldn vf regs a (set_range k s) = map_result (set_range k) (ldn vf regs a s)"
  "stn vf regs a (set_range k s) = map_result (set_range k) (stn vf regs a s)"
  "ldn_lane vf regs i a (set_range k s) = map_result (set_range k) (ldn_lane vf regs i a s)"
  "stn_lane vf regs i a (set_range k s) = map_result (set_range k) (stn_lane vf regs i a s)"
  "ldnr vf regs a (set_range k s) = map_result (set_range k) (ldnr vf regs a s)"
  unfolding ldn_def stn_def ldn_lane_def stn_lane_def ldnr_def range_clear_all
  by (rule range_in_order range_lane_struct; clarsimp simp: range_simps)+

lemma range_each_register:
  assumes "\<And>vf regs a s. access vf regs a (set_range k s) = map_result (set_range k) (access vf regs a s)"
  shows "each_register access vf bits a n (set_range k s) = map_result (set_range k) (each_register access vf bits a n s)"
  unfolding each_register_def by (rule range_in_order) (rule assms)

lemma range_multi_struct_table:
  "list_all (\<lambda>(key, access, n). access (set_range k s) = map_result (set_range k) (access s)) (multi_struct_table vf bits a)"
  by (simp add: multi_struct_table_def range_structs range_each_register)

lemma range_write_back [range_simps]:
  "write_back instr m a n (set_range k s) = set_range k (write_back instr m a n s)"
  by (simp add: write_back_def Let_def range_simps)

lemma range_MultiStructHelper:
  "NEONLoadStoreMultiStructHelper dbg instr m (set_range k s) =
    map_result (set_range k) (NEONLoadStoreMultiStructHelper dbg instr m s)"
proof -
  have step: "access (set_range k s) = map_result (set_range k) (access s)"
    if "map_of (multi_struct_table vf bits a) key = Some (access, n)" for vf bits a key access n
    using map_of_SomeD [OF that] range_multi_struct_table [of k s vf bits a] by (auto simp: list_all_iff)
  show ?thesis
    by (auto simp: NEONLoadStoreMultiStructHelper_def Let_def range_simps step split: option.split)
qed

lemma range_SingleStructHelper:
  "NEONLoadStoreSingleStructHelper dbg instr m (set_range k s) =
    map_result (set_range k) (NEONLoadStoreSingleStructHelper dbg instr m s)"
  by (simp add: NEONLoadStoreSingleStructHelper_def Let_def range_simps case_prod_beta)

lemma oblivious_vector_memory:
  "oblivious (VisitNEONLoadStoreMultiStruct dbg)" "oblivious (VisitNEONLoadStoreMultiStructPostIndex dbg)"
  "oblivious (VisitNEONLoadStoreSingleStruct dbg)" "oblivious (VisitNEONLoadStoreSingleStructPostIndex dbg)"
  by (rule obliviousI; simp add: VisitNEONLoadStoreMultiStruct_def VisitNEONLoadStoreMultiStructPostIndex_def
      VisitNEONLoadStoreSingleStruct_def VisitNEONLoadStoreSingleStructPostIndex_def
      range_MultiStructHelper range_SingleStructHelper)+

subsection \<open>Cryptographic instructions\<close>

lemma oblivious_crypto:
  "oblivious (VisitCrypto2RegSHA dbg)" "oblivious (VisitCrypto3RegSHA dbg)" "oblivious (VisitCryptoAES dbg)"
  "oblivious (VisitCryptoSM3 dbg)" "oblivious (VisitCryptoSM4 dbg)" "oblivious (SimulateSHA512 dbg)"
  by (rule obliviousI; simp only: VisitCrypto2RegSHA_def VisitCrypto3RegSHA_def VisitCryptoAES_def
      VisitCryptoSM3_def VisitCryptoSM4_def SimulateSHA512_def Let_def range_simps)+

subsection \<open>Memory tags\<close>

lemma range_tags [range_simps]:
  "GetMTETag a (set_range k s) = GetMTETag a s"
  "SetMTETag a t (set_range k s) = set_range k (SetMTETag a t s)"
  "set_tag dbg a t (set_range k s) = map_result (set_range k) (set_tag dbg a t s)"
  "unimplemented dbg (set_range k s) = map_result (set_range k) (unimplemented dbg s)"
  "GenerateRandomTag e (set_range k s) = map_prod id (set_range k) (GenerateRandomTag e s)"
  by (simp_all add: GetMTETag_def SetMTETag_def set_tag_def unimplemented_def GenerateRandomTag_def Let_def
      case_prod_beta range_simps)

lemma range_addr_mode_switch [range_simps]:
  "addr_mode_switch dbg xs ys zs (set_range k s) = addr_mode_switch dbg xs ys zs s"
  by (simp add: addr_mode_switch_def Let_def range_simps)

lemma oblivious_tags:
  "oblivious (Simulate_XdSP_XnSP_Xm dbg)" "oblivious (SimulateMTEAddSubTag dbg)"
  "oblivious (SimulateMTETagMaskInsert dbg)" "oblivious (SimulateMTESubPointer dbg)"
  by (rule obliviousI; simp add: Simulate_XdSP_XnSP_Xm_def SimulateMTEAddSubTag_def
      SimulateMTETagMaskInsert_def SimulateMTESubPointer_def Let_def case_prod_beta range_simps)+

lemma oblivious_tag_accesses:
  "oblivious (SimulateMTEStoreTagPair dbg)" "oblivious (SimulateMTEStoreTag dbg)" "oblivious (SimulateMTELoadTag dbg)"
  by (rule obliviousI; simp add: SimulateMTEStoreTagPair_def SimulateMTEStoreTag_def SimulateMTELoadTag_def
      Let_def case_prod_beta range_simps and_then_if cong: if_cong)+

subsection \<open>Memory copy and set\<close>

lemma range_triplets [range_simps]:
  "assert_triplet dbg ty instr (set_range k s) = assert_triplet dbg ty instr s"
  "assert_follows dbg p ty instr (set_range k s) = assert_follows dbg p ty instr s"
  by (simp_all add: assert_triplet_def assert_follows_def IsConsistentMOPSTriplet_def word_at_def Let_def range_simps)

lemma range_MOPSPHelper [range_simps]:
  "MOPSPHelper dbg ty instr (set_range k s) = map_result (set_range k) (MOPSPHelper dbg ty instr s)"
  by (simp add: MOPSPHelper_def Let_def VisitUnallocated_def range_simps)

lemma range_copy_bytes [range_simps]:
  "copy_bytes st n d r (set_range k s) = map_result (map_prod id (map_prod id (set_range k))) (copy_bytes st n d r s)"
  by (induction n arbitrary: d r s) (simp_all add: range_simps)

lemma range_set_bytes [range_simps]:
  "set_bytes n v d (set_range k s) = map_result (map_prod id (set_range k)) (set_bytes n v d s)"
  by (induction n arbitrary: d s) (simp_all add: range_simps)

lemma range_SetM [range_simps]:
  "SimulateSetM dbg instr (set_range k s) = map_result (set_range k) (SimulateSetM dbg instr s)"
  by (simp add: SimulateSetM_def Let_def case_prod_beta range_simps)

lemma oblivious_CpyP: "oblivious (SimulateCpyP dbg)"
proof (rule obliviousI)
  fix instr k and s :: "'a vsim"
  show "SimulateCpyP dbg instr (set_range k s) = map_result (set_range k) (SimulateCpyP dbg instr s)"
    by (cases "MOPSPHelper dbg MOPS_cpy instr s") (simp_all add: SimulateCpyP_def Let_def range_simps)
qed

lemma oblivious_SetGP: "oblivious (SimulateSetGP dbg)"
proof (rule obliviousI)
  fix instr k and s :: "'a vsim"
  show "SimulateSetGP dbg instr (set_range k s) = map_result (set_range k) (SimulateSetGP dbg instr s)"
    by (cases "MOPSPHelper dbg MOPS_setg instr s") (simp_all add: SimulateSetGP_def Let_def range_simps)
qed

lemma oblivious_mops:
  "oblivious (SimulateCpyFP dbg)" "oblivious (SimulateCpyM dbg)"
  "oblivious (SimulateCpyE dbg)" "oblivious (SimulateSetP dbg)"
  "oblivious (SimulateSetM dbg)" "oblivious (SimulateSetE dbg)"
  by (rule obliviousI; simp add: SimulateCpyFP_def SimulateCpyM_def SimulateCpyE_def
      SimulateSetP_def SimulateSetE_def Let_def case_prod_beta range_simps)+

lemma range_tag_granules [range_simps]:
  "tag_granules dbg tag xd xn (set_range k s) = map_option (map_result (set_range k)) (tag_granules dbg tag xd xn s)"
proof -
  let ?f = "map_result (map_prod id (map_prod id (set_range k)))"
  have cond: "tag_loop_continues st = tag_loop_continues (?f st)" for st :: "abort + (u64 \<times> u64 \<times> 'a vsim)"
    by (cases st) (auto simp: tag_loop_continues_def)
  have body: "?f (tag_loop_body dbg tag st) = tag_loop_body dbg tag (?f st)" for st :: "abort + (u64 \<times> u64 \<times> 'a vsim)"
    by (cases st) (auto simp: tag_loop_body_def range_simps)
  have commute: "map_option ?f (while_option tag_loop_continues (tag_loop_body dbg tag) (Inr (xd, xn, s))) =
      while_option tag_loop_continues (tag_loop_body dbg tag) (Inr (xd, xn, set_range k s))"
    using while_option_commute [where f = ?f and s = "Inr (xd, xn, s)" and b' = tag_loop_continues
        and c' = "tag_loop_body dbg tag", OF cond body] by simp
  moreover have "map_result (\<lambda>(xd', xn', s'). s') (?f st) = map_result (set_range k) (map_result (\<lambda>(xd', xn', s'). s') st)"
    for st :: "abort + (u64 \<times> u64 \<times> 'a vsim)"
    by (cases st) auto
  ultimately show ?thesis
    by (simp add: tag_granules_def option.map_comp comp_def flip: commute)
qed

lemma oblivious_SetGM: "oblivious (SimulateSetGM dbg)"
proof (rule obliviousI)
  fix instr k and s :: "'a vsim"
  show "SimulateSetGM dbg instr (set_range k s) = map_result (set_range k) (SimulateSetGM dbg instr s)"
    by (auto simp: SimulateSetGM_def Let_def range_simps split: option.split)
qed

section \<open>The contract\<close>

locale range_oblivious =
  fixes leaf :: "'v \<Rightarrow> 'v leaf_fun"
  assumes leaf_oblivious: "oblivious (leaf l)"
begin

lemma leaf_set_range: "leaf l instr (set_range k s) = map_result (set_range k) (leaf l instr s)"
  using leaf_oblivious [of l] by (simp add: oblivious_def)

lemma leaf_keeps_range:
  assumes "leaf l instr s = Inr s'"
  shows "cur_range s' = cur_range s"
proof -
  have "set_range (cur_range s) s = s" by (simp add: set_range_def)
  then have "Inr s' = map_result (set_range (cur_range s)) (leaf l instr s)"
    using leaf_set_range [of l instr "cur_range s" s] assms by simp
  then have "s' = set_range (cur_range s) s'" using assms by simp
  then have "cur_range s' = cur_range (set_range (cur_range s) s')" by (rule arg_cong)
  then show ?thesis by (simp add: range_simps)
qed

end

lemma oblivious_groups:
  shows oblivious_struct: "oblivious (struct_fun dbg sv)" and oblivious_tag: "oblivious (tag_fun dbg tv)"
    and oblivious_mop: "oblivious (mops_fun dbg mv)" and oblivious_crypt: "oblivious (crypto_fun dbg cv)"
proof -
  show "oblivious (struct_fun dbg sv)" by (cases sv) (simp_all add: oblivious_vector_memory)
  show "oblivious (tag_fun dbg tv)" by (cases tv) (simp_all add: oblivious_tags oblivious_tag_accesses)
  show "oblivious (mops_fun dbg mv)"
    by (cases mv) (simp_all add: oblivious_CpyP oblivious_SetGP oblivious_mops oblivious_SetGM)
  show "oblivious (crypto_fun dbg cv)" by (cases cv) (simp_all add: oblivious_crypto)
qed

lemma visitor_fun_oblivious:
  assumes "oblivious_host h" "\<And>n. oblivious (rest n)"
  shows "oblivious (visitor_fun h rest v)"
  using assms
  by (cases v) (simp_all add: oblivious_words oblivious_pcrel oblivious_branches oblivious_register_branch
      oblivious_add_sub oblivious_flags oblivious_logical oblivious_conditional oblivious_move
      oblivious_one_source oblivious_sources oblivious_minmax oblivious_load_store oblivious_load_PAC
      oblivious_rcpc oblivious_atomics oblivious_system oblivious_neon oblivious_groups)

text \<open>A host without callbacks, whose unmodelled leaves abort.\<close>

definition bare_host :: "bool \<Rightarrow> 'v host" where
  "bare_host debug = \<lparr> has_uscat = True, vixl_debug = debug,
     hook_fn = (\<lambda>hook a s. Inr (a, s)), interception = (\<lambda>a. None) \<rparr>"

definition abort_rest :: "nat \<Rightarrow> 'v leaf_fun" where
  "abort_rest n instr s = Inl (HostAbort ''unmodelled leaf'')"

lemma bare_host_oblivious: "oblivious_host (bare_host debug)"
  by (simp add: oblivious_host_def bare_host_def)

lemma abort_rest_oblivious: "oblivious (abort_rest n)"
  by (simp add: oblivious_def abort_rest_def)

interpretation bare_leaves: range_oblivious "visitor_fun (bare_host debug) abort_rest"
  by unfold_locales (intro visitor_fun_oblivious bare_host_oblivious abort_rest_oblivious)

end
