(* ===== verification/Track_Equivalence.thy ===== *)
theory Track_Equivalence
  imports Sim_Oblivious
begin

text \<open>
  The contract of the two tracks (\<open>include/gaby_vm/simulator.h\<close>): for the same code
  and the same state they produce the same results.  A state is \<open>runnable\<close> when the
  word at the program counter is registered, unchanged since, and available; on
  runnable states a cached step is a decoder step, and so are whole runs.  The
  theorems after that show where the tracks part: the branch-type check that the
  cache track leaves out, and the sentinel of a form without a leaf.
\<close>

section \<open>The remembered range\<close>

lemma in_range_of_diff:
  assumes "range_ok r" "pc - range_start r < range_size r"
  shows "in_range pc r"
proof -
  have e: "range_end r < 2 ^ 64" using assms(1) by (simp add: range_ok_def)
  have "range_start r \<le> pc"
  proof (rule ccontr)
    assume "\<not> range_start r \<le> pc"
    then have lt: "unat pc < unat (range_start r)" by (simp add: word_le_nat_alt)
    have "unat (range_start r) < 2 ^ 64" using unat_lt_two_power [of "range_start r"] by simp
    have "unat (pc - range_start r) = 2 ^ 64 + unat pc - unat (range_start r)"
      using lt by (simp add: unat_sub_if' )
    moreover have "unat (range_size r) < 2 ^ 64 - unat (range_start r)"
      using e by (simp add: range_end_def)
    ultimately show False using assms(2) by (simp add: word_less_nat_alt)
  qed
  with assms(2) in_range_diff_iff [OF e] show ?thesis by blast
qed

lemma cached_range_FindRange:
  assumes ok: "cache_ok c"
  shows "cached_range c s = FindRange c (pc_reg s)"
proof (cases "case cur_range s of None \<Rightarrow> None | Some k \<Rightarrow> map_of (ranges c) k")
  case None
  then show ?thesis by (simp add: cached_range_def)
next
  case (Some r)
  then obtain k where k: "map_of (ranges c) k = Some r" by (auto split: option.splits)
  then have mem: "(k, r) \<in> set (ranges c)" by (rule map_of_SomeD)
  then have r: "range_ok r" using ok by (auto simp: cache_ok_def)
  show ?thesis
  proof (cases "pc_reg s - range_start r < range_size r")
    case True
    then have "FindRange c (pc_reg s) = Some r"
      using FindRange_member [OF ok mem] in_range_of_diff [OF r] by blast
    with True Some show ?thesis by (simp add: cached_range_def)
  next
    case False
    with Some show ?thesis by (simp add: cached_range_def not_less)
  qed
qed

section \<open>Runnable states\<close>

definition btype_checked :: "'v exec_env \<Rightarrow> 'v vsim \<Rightarrow> bool" where
  "btype_checked env s \<longleftrightarrow>
     guard_pages s \<and> btype s \<noteq> DefaultBType \<longrightarrow> entry_flags (predecode_entry (pre_env env) (pc_reg s)) = 1"

definition registered :: "'v exec_env \<Rightarrow> 'v vsim \<Rightarrow> bool" where
  "registered env s \<longleftrightarrow>
     (\<exists>c. predecode_cache s = Some c \<and> cache_ok c
        \<and> lookup_entry c (pc_reg s) = Some (predecode_entry (pre_env env) (pc_reg s)))
   \<and> insn_bits (fetch (pc_reg s) s) = code_at (pre_env env) (pc_reg s)
   \<and> is_available (decode (pre_env env) (code_at (pre_env env) (pc_reg s)))"

definition runnable :: "'v exec_env \<Rightarrow> 'v vsim \<Rightarrow> bool" where
  "runnable env s \<longleftrightarrow> registered env s \<and> btype_checked env s"

lemma runnable_set_range [simp]: "runnable env (set_range k s) = runnable env s"
  by (simp add: runnable_def registered_def btype_checked_def fetch_def range_simps)

lemma fetch_fields [range_simps]:
  "fetch a (set_range k s) = fetch a s"
  by (simp add: fetch_def range_simps)

lemma fetch_updates [simp]:
  "fetch a (s\<lparr>pc_modified := b\<rparr>) = fetch a s" "fetch a (s\<lparr>form_hash := f\<rparr>) = fetch a s"
  by (simp_all add: fetch_def)

lemma range_step_parts [range_simps]:
  "check_btype instr (set_range k s) = check_btype instr s"
  "last_was_movprfx (set_range k s) = last_was_movprfx s"
  "finish_instruction env b (set_range k s) = map_result (set_range k) (finish_instruction env b s)"
  "IsSimulationFinished (set_range k s) = IsSimulationFinished s"
  by (simp_all add: check_btype_def Let_def last_was_movprfx_def finish_instruction_def
      IsSimulationFinished_def range_simps)

lemma set_range_twice [simp]: "set_range j (set_range k s) = set_range j s"
  by (simp add: set_range_def)

text \<open>One executed instruction of the decoder track, as a relation on states.\<close>

inductive debug_step :: "'v exec_env \<Rightarrow> 'v vsim \<Rightarrow> 'v vsim \<Rightarrow> bool" for env where
  step: "DebugStepOnce env s = Inr (True, s') \<Longrightarrow> debug_step env s s'"

inductive_simps debug_step_iff: "debug_step env s s'"
inductive_cases debug_stepE: "debug_step env s s'"

text \<open>The cached step once the range and its entry are known.\<close>

lemma cached_step_entry:
  assumes c: "predecode_cache s = Some c" "cache_ok c" and r: "FindRange c (pc_reg s) = Some r"
    and e: "entry_in r (pc_reg s) = e"
  shows "ExecuteInstructionCached env s =
    (let s1 = set_range (Some (range_start r)) (s\<lparr>pc_modified := False\<rparr>);
         instr = fetch (pc_reg s) s
     in and_then (if entry_flags e AND 1 \<noteq> 0 then check_btype instr s1 else Inr ()) (\<lambda>_.
        and_then (run_leaf env (entry_leaf e) instr (s1\<lparr>form_hash := entry_form_hash e\<rparr>))
          (finish_instruction env (last_was_movprfx s1))))"
proof -
  have "drop_bit 2 (pc_reg s - range_start r) = (pc_reg s - range_start r) div 4"
    by (simp add: drop_bit_eq_div)
  then have "range_entries r ! unat (drop_bit 2 (pc_reg s - range_start r)) = e"
    using e by (simp add: entry_in_def)
  moreover have "cached_range c (s\<lparr>pc_modified := False\<rparr>) = Some r"
    using cached_range_FindRange [OF c(2), of "s\<lparr>pc_modified := False\<rparr>"] r by simp
  ultimately show ?thesis
    by (simp add: ExecuteInstructionCached_def c Let_def set_range_def fetch_def)
qed

context range_oblivious begin

lemma Visit_set_range:
  assumes "leaf_of env = leaf"
  shows "Visit env d instr (set_range k s) = map_result (set_range k) (Visit env d instr s)"
  by (cases "resolve (pre_env env) (form_hash_of d)")
    (simp_all add: Visit_def Let_def VisitUnallocated_def VisitUnimplemented_def range_simps
      assms leaf_set_range)

lemma decoder_step_set_range:
  assumes "leaf_of env = leaf"
  shows "ExecuteInstruction env (set_range k s) = map_result (set_range k) (ExecuteInstruction env s)"
  by (simp add: ExecuteInstruction_def Let_def range_simps Visit_set_range [OF assms] cong: if_cong)

lemma cached_step_is_decoder_step:
  assumes env: "leaf_of env = leaf" and run: "runnable env s"
  shows "\<exists>k. ExecuteInstructionCached env s = map_result (set_range k) (ExecuteInstruction env s)"
proof -
  from run obtain c where c: "predecode_cache s = Some c" "cache_ok c"
    and l: "lookup_entry c (pc_reg s) = Some (predecode_entry (pre_env env) (pc_reg s))"
    and code: "insn_bits (fetch (pc_reg s) s) = code_at (pre_env env) (pc_reg s)"
    and av: "is_available (decode (pre_env env) (code_at (pre_env env) (pc_reg s)))"
    and bt: "btype_checked env s"
    by (auto simp: runnable_def registered_def)
  from l obtain r where r: "FindRange c (pc_reg s) = Some r"
    and e: "entry_in r (pc_reg s) = predecode_entry (pre_env env) (pc_reg s)"
    by (auto simp: lookup_entry_def)
  define k where "k = Some (range_start r)"
  let ?s = "s\<lparr>pc_modified := False\<rparr>" let ?i = "fetch (pc_reg s) s"
  let ?d = "decode (pre_env env) (insn_bits ?i)" let ?e = "predecode_entry (pre_env env) (pc_reg s)"
  have chk: "(if entry_flags ?e AND 1 \<noteq> 0 then check_btype ?i (set_range k ?s) else Inr ()) = check_btype ?i ?s"
  proof (cases "guard_pages s \<and> btype s \<noteq> DefaultBType")
    case True
    with bt show ?thesis by (simp add: btype_checked_def range_simps)
  next
    case False
    then have "check_btype ?i ?s = Inr ()" by (simp add: check_btype_def Let_def)
    then show ?thesis by (simp add: range_simps)
  qed
  have leaf: "run_leaf env (entry_leaf ?e) ?i ((set_range k ?s)\<lparr>form_hash := entry_form_hash ?e\<rparr>) =
      map_result (set_range k) (Visit env ?d ?i ?s)"
    using av code
    by (cases "resolve (pre_env env) (form_hash_of ?d)")
      (simp_all add: predecode_entry_def Let_def Visit_def run_leaf_def VisitUnallocated_def
        VisitUnimplemented_def range_simps env leaf_set_range)
  have "ExecuteInstructionCached env s = map_result (set_range k) (ExecuteInstruction env s)"
    using cached_step_entry [OF c r e, of env] chk leaf code av
    by (simp add: ExecuteInstruction_def Let_def k_def [symmetric] range_simps)
  then show ?thesis by blast
qed

text \<open>Steps and bounded runs; the two tracks need not agree on the remembered range.\<close>

lemma step_pair:
  assumes env: "leaf_of env = leaf" and run: "\<not> IsSimulationFinished s \<Longrightarrow> runnable env s"
  shows "\<exists>k'. StepOnce env (set_range k s) = map_result (map_prod id (set_range k')) (DebugStepOnce env s)"
proof (cases "IsSimulationFinished s")
  case True
  then show ?thesis
    by (intro exI [of _ k]) (simp add: StepOnce_def DebugStepOnce_def range_simps)
next
  case False
  then have "runnable env (set_range k s)" using run by simp
  from cached_step_is_decoder_step [OF env this] obtain k'
    where "ExecuteInstructionCached env (set_range k s) =
      map_result (set_range k') (ExecuteInstruction env (set_range k s))" by blast
  then have "ExecuteInstructionCached env (set_range k s) = map_result (set_range k') (ExecuteInstruction env s)"
    by (simp add: decoder_step_set_range [OF env] map_result_map_result set_range_twice)
  with False show ?thesis
    by (intro exI [of _ k']) (simp add: StepOnce_def DebugStepOnce_def range_simps)
qed

lemma fuel_pair:
  assumes env: "leaf_of env = leaf"
    and run: "\<And>t. (debug_step env)\<^sup>*\<^sup>* s t \<Longrightarrow> \<not> IsSimulationFinished t \<Longrightarrow> runnable env t"
  shows "map_option (map_result (set_range None)) (run_fuel n (StepOnce env) (set_range k s)) =
    map_option (map_result (set_range None)) (run_fuel n (DebugStepOnce env) s)"
  using run
proof (induction n arbitrary: s k)
  case (Suc n)
  have "\<not> IsSimulationFinished s \<Longrightarrow> runnable env s" using Suc.prems by blast
  from step_pair [OF env this, of k] obtain k'
    where st: "StepOnce env (set_range k s) = map_result (map_prod id (set_range k')) (DebugStepOnce env s)"
    by blast
  show ?case
  proof (cases "DebugStepOnce env s")
    case (Inl e)
    with st show ?thesis by simp
  next
    case (Inr p)
    obtain alive s' where p: "p = (alive, s')" by (cases p)
    show ?thesis
    proof (cases alive)
      case True
      have "debug_step env s s'" using Inr p True by (auto intro: debug_step.intros)
      then have "\<And>t. (debug_step env)\<^sup>*\<^sup>* s' t \<Longrightarrow> \<not> IsSimulationFinished t \<Longrightarrow> runnable env t"
        using Suc.prems by (meson converse_rtranclp_into_rtranclp)
      from Suc.IH [where s = s' and k = k', OF this] show ?thesis by (simp add: st Inr p True)
    next
      case False
      then show ?thesis by (simp add: st Inr p set_range_twice)
    qed
  qed
qed simp

lemma run_pair:
  assumes env: "leaf_of env = leaf"
    and run: "\<And>t. (debug_step env)\<^sup>*\<^sup>* s t \<Longrightarrow> \<not> IsSimulationFinished t \<Longrightarrow> runnable env t"
  shows "map_option (map_result (set_range None)) (run_loop (StepOnce env) s) =
    map_option (map_result (set_range None)) (run_loop (DebugStepOnce env) s)"
proof (rule run_loop_cong)
  fix n
  have "set_range (cur_range s) s = s" by (simp add: set_range_def)
  then show "map_option (map_result (set_range None)) (run_fuel n (StepOnce env) s) =
      map_option (map_result (set_range None)) (run_fuel n (DebugStepOnce env) s)"
    using fuel_pair [OF env, of s n "cur_range s"] run by simp
qed

end

section \<open>A sample guest\<close>

text \<open>One instruction, \<open>RET\<close> at 0x1000, registered; the link register is null.\<close>

definition ret_word :: u32 where "ret_word = 0xd65f03c0"
definition ret_memory :: "u64 \<Rightarrow> u8" where
  "ret_memory a = (if a = 0x1000 then 0xc0 else if a = 0x1001 then 0x03 else if a = 0x1002 then 0x5f
     else if a = 0x1003 then 0xd6 else 0)"

definition ret_form :: u32 where "ret_form = Hash ''ret_64r_branch_reg''"

definition ret_pre :: "visitor predecode_env" where
  "ret_pre = \<lparr> decode = (\<lambda>w. \<lparr> is_available = True, is_unallocated = False, form_hash_of = ret_form \<rparr>),
     code_at = (\<lambda>a. ret_word),
     resolve = (\<lambda>f. if f = ret_form then Some V_UnconditionalBranchToRegister else None),
     entries_alloc = (\<lambda>n. True), node_alloc = (\<lambda>a. True) \<rparr>"

definition ret_env :: "visitor exec_env" where
  "ret_env = \<lparr> pre_env = ret_pre, leaf_of = visitor_fun (bare_host False) abort_rest,
     exec_host = bare_host False, can_take_movprfx = (\<lambda>f w m. True) \<rparr>"

definition blank_vsim :: "'v vsim" where
  "blank_vsim = \<lparr> xregs = (\<lambda>r. 0), vregs = (\<lambda>r. 0), nzcv = NZCV_default, fpcr = FPCR_default,
     pc_reg = 0, pc_modified = False, btype = DefaultBType, next_btype = DefaultBType,
     last_instr = 0, form_hash = 0, guard_pages = False, memory = (\<lambda>a. 0),
     stack = Allocate 0x100000 default_SimStack, mte_active = False, mte_tags = Map.empty,
     local_monitor = lm_initial, global_monitor = gm_initial, gcs_stack = [], gcs_valid = True,
     gcs_live = True, gcs_token = 0, gcs_stacks = [Some []], gcs_enabled = True,
     write_sink = None, predecode_cache = None, cur_range = None, branch_hook = None, busy = False,
     vixl_trace = 0, trace_parameters = 0, fpsr_storage = 0, rand_gen = 0 \<rparr>"

definition ret_vsim :: "visitor vsim" where
  "ret_vsim = blank_vsim\<lparr>pc_reg := 0x1000, memory := ret_memory,
     predecode_cache := Some (snd (RegisterCodeRange ret_pre 0x1000 4 empty_cache))\<rparr>"

lemma read_word:
  "read_mem m a 4 = ucast (m a) OR push_bit 8 (ucast (m (a + 1)) OR push_bit 8 (ucast (m (a + 2))
     OR push_bit 8 (ucast (m (a + 3)))))"
proof -
  have four: "(4 :: nat) = Suc (Suc (Suc (Suc 0)))" by simp
  show ?thesis unfolding four by (simp add: add.assoc del: push_bit_or)
qed

lemma ret_fetch: "fetch 0x1000 ret_vsim = \<lparr> insn_addr = 0x1000, insn_bits = ret_word \<rparr>"
  by (simp add: fetch_def ret_vsim_def ret_memory_def ret_word_def read_word)

lemma ret_registered: "registered ret_env ret_vsim"
proof -
  have "cache_ok (snd (RegisterCodeRange ret_pre 0x1000 4 empty_cache))"
    by (simp add: RegisterCodeRange_def Let_def ret_pre_def empty_cache_def predecode_pass_def
        cache_ok_def range_ok_def range_end_def)
  moreover have "lookup_entry (snd (RegisterCodeRange ret_pre 0x1000 4 empty_cache)) 0x1000 =
      Some (predecode_entry ret_pre 0x1000)"
    by (simp add: RegisterCodeRange_def Let_def ret_pre_def empty_cache_def predecode_pass_def
        lookup_entry_def FindRange_def entry_in_def)
  ultimately show ?thesis
    using ret_fetch by (simp add: registered_def ret_env_def ret_vsim_def) (simp add: ret_pre_def)
qed

lemma ret_runnable: "runnable ret_env ret_vsim"
  using ret_registered by (simp add: runnable_def btype_checked_def ret_vsim_def blank_vsim_def)

text \<open>The decoder track executes it in one step and stops.\<close>

lemma ret_branch:
  "xregs s 30 = 0 \<Longrightarrow> gcs_stack s = [] \<Longrightarrow> branch_hook s = None \<Longrightarrow>
    VisitUnconditionalBranchToRegister h \<lparr> insn_addr = a, insn_bits = ret_word \<rparr> s =
      Inr (WritePc 0 (WriteNextBType DefaultBType s))"
  by (simp add: VisitUnconditionalBranchToRegister_def register_branch_form_def ret_word_def Mask_def
      GetRn_def ExtractBits_def ExtractUnsignedBitfield32_def ExtractUnsignedBitfield64_def ReadRegister_def
      authenticated_target_def check_gcs_def GCSPeek_def GabyHookedWritePc_def GetBTypeFromInstruction_def
      WriteNextBType_def)

lemma ret_fields [simp]:
  "pc_reg ret_vsim = 0x1000" "guard_pages ret_vsim = False" "xregs ret_vsim r = 0"
  "gcs_stack ret_vsim = []" "branch_hook ret_vsim = None" "btype ret_vsim = DefaultBType"
  by (simp_all add: ret_vsim_def blank_vsim_def)

lemma ret_env_fields [simp]:
  "pre_env ret_env = ret_pre" "leaf_of ret_env = visitor_fun (bare_host False) abort_rest"
  "can_take_movprfx ret_env f w m = True" "resolve ret_pre ret_form = Some V_UnconditionalBranchToRegister"
  "decode ret_pre w = \<lparr> is_available = True, is_unallocated = False, form_hash_of = ret_form \<rparr>"
  by (simp_all add: ret_env_def ret_pre_def)

lemma ret_step:
  "\<exists>s'. DebugStepOnce ret_env ret_vsim = Inr (True, s') \<and> IsSimulationFinished s'"
  by (simp add: DebugStepOnce_def ExecuteInstruction_def Let_def ret_fetch IsSimulationFinished_def
      check_btype_def Visit_def ret_branch finish_instruction_def UpdateBType_def IncrementPc_def
      WritePc_def WriteNextBType_def AddressUntag_def)

lemma finished_is_last:
  assumes "(debug_step env)\<^sup>*\<^sup>* s t" "IsSimulationFinished s"
  shows "t = s"
  using assms(1)
proof (cases rule: converse_rtranclpE)
  case (step u)
  then show ?thesis using assms(2) by (simp add: debug_step_iff DebugStepOnce_def)
qed simp

lemma ret_reachable:
  assumes "(debug_step ret_env)\<^sup>*\<^sup>* ret_vsim t" "\<not> IsSimulationFinished t"
  shows "t = ret_vsim"
  using assms(1)
proof (cases rule: converse_rtranclpE)
  case (step u)
  then have "IsSimulationFinished u" using ret_step by (auto simp: debug_step_iff)
  with step finished_is_last assms(2) show ?thesis by blast
qed simp

section \<open>Properties\<close>

lemma visitor_contract:
  assumes "oblivious_host h" "\<And>n. oblivious (rest n)"
  shows "range_oblivious (visitor_fun h rest)"
  using assms by (intro range_oblivious.intro visitor_fun_oblivious)

text \<open>The cache track's shortcut is sound: whatever range it remembers from an earlier step, the
  range it uses for the current program counter is the one the full lookup in the table finds.\<close>

theorem remembered_range_is_lookup:
  assumes "cache_ok c"
  shows "cached_range c s = FindRange c (pc_reg s)"
  by (rule cached_range_FindRange [OF assms])

theorem remembered_range_is_lookup_witness:
  "cached_range (empty_cache :: visitor PredecodeCache) (blank_vsim\<lparr>cur_range := Some 0\<rparr>) = FindRange empty_cache 0"
  using remembered_range_is_lookup [of empty_cache "blank_vsim\<lparr>cur_range := Some 0\<rparr>"]
  by (simp add: blank_vsim_def)

text \<open>C2: One step of the cache track is one step of the decoder track.  When the word at the
  program counter is registered and unchanged and its branch-type check is not left out, the
  cached step gives the state (or the abort) of the decoder step, apart from the range it
  remembers; the leaves are those of the simulator, the host's callbacks do not look at that range.\<close>

theorem cached_step_agrees_with_decoder:
  assumes "oblivious_host h" "\<And>n. oblivious (rest n)" "leaf_of env = visitor_fun h rest"
    and "runnable env s"
  shows "\<exists>k. ExecuteInstructionCached env s = map_result (set_range k) (ExecuteInstruction env s)"
  by (rule range_oblivious.cached_step_is_decoder_step [OF visitor_contract [OF assms(1,2)] assms(3,4)])

theorem cached_step_agrees_with_decoder_witness:
  "\<exists>k. ExecuteInstructionCached ret_env ret_vsim = map_result (set_range k) (ExecuteInstruction ret_env ret_vsim)"
  by (rule cached_step_agrees_with_decoder [OF bare_host_oblivious abort_rest_oblivious])
    (simp_all add: ret_runnable)

text \<open>C1: Whole runs agree: if every state the decoder track reaches before the end is runnable, then
  \<open>RunFrom\<close>'s loop on the cache track and \<open>DebugRunFrom\<close>'s loop on the decoder track both run
  forever, both abort for the same reason, or both end, in the same registers, flags, memory,
  monitors and write record.\<close>

theorem runs_of_both_tracks_agree:
  assumes "oblivious_host h" "\<And>n. oblivious (rest n)" "leaf_of env = visitor_fun h rest"
    and "\<And>t. (debug_step env)\<^sup>*\<^sup>* s t \<Longrightarrow> \<not> IsSimulationFinished t \<Longrightarrow> runnable env t"
  shows "map_option (map_result (set_range None)) (run_loop (StepOnce env) s) =
    map_option (map_result (set_range None)) (run_loop (DebugStepOnce env) s)"
  by (rule range_oblivious.run_pair [OF visitor_contract [OF assms(1,2)] assms(3,4)])

theorem runs_of_both_tracks_agree_witness:
  "map_option (map_result (set_range None)) (run_loop (StepOnce ret_env) ret_vsim) =
    map_option (map_result (set_range None)) (run_loop (DebugStepOnce ret_env) ret_vsim)"
  by (rule runs_of_both_tracks_agree [OF bare_host_oblivious abort_rest_oblivious])
    (auto dest!: ret_reachable simp: ret_runnable)

text \<open>C32: The tracks part on a guarded page.  After an indirect branch, an instruction that is not
  BTI, pointer authentication or an exception aborts on the decoder track, whatever it is; the
  cache track leaves the check out for such instructions and executes its leaf.\<close>

theorem cache_track_skips_the_branch_type_check:
  assumes "leaf_of env = visitor_fun h rest" "registered env s"
    and "guard_pages s" "btype s \<noteq> DefaultBType" "pc_reg s = a" "code_at (pre_env env) a = bits"
    and "\<not> is_unallocated (decode (pre_env env) bits)" "resolve (pre_env env) (form_hash_of (decode (pre_env env) bits)) = Some v"
    and "\<not> IsBtiRelevant (form_hash_of (decode (pre_env env) bits)) bits"
  shows "ExecuteInstruction env s = Inl WrongBType \<and>
    (\<exists>k. ExecuteInstructionCached env s =
       and_then (visitor_fun h rest v (fetch a s)
           ((set_range k s)\<lparr>pc_modified := False, form_hash := form_hash_of (decode (pre_env env) bits)\<rparr>))
         (finish_instruction env (last_was_movprfx s)))"
proof -
  from assms(2) obtain c where c: "predecode_cache s = Some c" "cache_ok c"
    and l: "lookup_entry c a = Some (predecode_entry (pre_env env) a)"
    and code: "insn_bits (fetch a s) = bits" and av: "is_available (decode (pre_env env) bits)"
    using assms(5,6) by (auto simp: registered_def)
  from l obtain r where r: "FindRange c (pc_reg s) = Some r"
    and e: "entry_in r (pc_reg s) = predecode_entry (pre_env env) a"
    using assms(5) by (auto simp: lookup_entry_def)
  have e': "predecode_entry (pre_env env) a =
      \<lparr> entry_form_hash = form_hash_of (decode (pre_env env) bits), entry_flags = 0, entry_leaf = FormLeaf v \<rparr>"
    using assms(6-9) av by (simp add: predecode_entry_def Let_def)
  have "check_btype (fetch a s) (s\<lparr>pc_modified := False\<rparr>) = Inl WrongBType"
    using assms(3,4,9) code by (auto simp: check_btype_def Let_def IsBtiRelevant_def)
  then have "ExecuteInstruction env s = Inl WrongBType"
    using assms(5) by (simp add: ExecuteInstruction_def Let_def)
  moreover have "ExecuteInstructionCached env s =
       and_then (visitor_fun h rest v (fetch a s)
           ((set_range (Some (range_start r)) s)\<lparr>pc_modified := False, form_hash := form_hash_of (decode (pre_env env) bits)\<rparr>))
         (finish_instruction env (last_was_movprfx s))"
    using cached_step_entry [OF c r e, of env] assms(1,5)
    by (simp add: e' Let_def run_leaf_def range_simps last_was_movprfx_def)
  ultimately show ?thesis by blast
qed

text \<open>The sample guest on a guarded page after a \<open>BLR\<close>: \<open>RET\<close> is no landing pad, yet it runs.\<close>

definition guarded_vsim :: "visitor vsim" where
  "guarded_vsim = ret_vsim\<lparr>guard_pages := True, btype := BranchAndLink\<rparr>"

lemma guarded_fields [simp]:
  "xregs guarded_vsim r = 0" "gcs_stack guarded_vsim = []" "branch_hook guarded_vsim = None"
  by (simp_all add: guarded_vsim_def)

theorem cache_track_skips_the_branch_type_check_witness:
  "ExecuteInstruction ret_env guarded_vsim = Inl WrongBType \<and> (\<exists>s'. ExecuteInstructionCached ret_env guarded_vsim = Inr s')"
proof -
  have f: "fetch 0x1000 guarded_vsim = \<lparr> insn_addr = 0x1000, insn_bits = ret_word \<rparr>"
    using ret_fetch by (simp add: guarded_vsim_def fetch_def)
  have "registered ret_env guarded_vsim"
    using ret_registered by (simp add: registered_def guarded_vsim_def fetch_def)
  moreover have "\<not> IsBtiRelevant ret_form ret_word"
    by (simp add: IsBtiRelevant_def IsBti_def IsPAuth_def IsException_def Mask_def ret_word_def)
  ultimately have "ExecuteInstruction ret_env guarded_vsim = Inl WrongBType \<and>
    (\<exists>k. ExecuteInstructionCached ret_env guarded_vsim =
       and_then (VisitUnconditionalBranchToRegister (bare_host False) (fetch 0x1000 guarded_vsim)
           ((set_range k guarded_vsim)\<lparr>pc_modified := False, form_hash := ret_form\<rparr>))
         (finish_instruction ret_env (last_was_movprfx guarded_vsim)))"
    using cache_track_skips_the_branch_type_check
      [of ret_env "bare_host False" abort_rest guarded_vsim "0x1000" ret_word V_UnconditionalBranchToRegister]
    by (simp add: guarded_vsim_def) (simp add: ret_pre_def)
  then show ?thesis
    by (auto simp: f ret_branch range_simps finish_instruction_def)
qed

text \<open>C34: A registered instruction whose form has no leaf gets the sentinel that is meant to abort.
  It does in a debug build; in a release build the abort is compiled out and the cache track
  executes the word as a no-operation, leaving registers and memory and moving on by four.\<close>

theorem form_without_leaf_is_nop_in_release:
  assumes "registered env s" "\<not> guard_pages s" "pc_reg s = a"
    and "d = decode (pre_env env) (code_at (pre_env env) a)"
    and "\<not> is_unallocated d" "resolve (pre_env env) (form_hash_of d) = None" "\<not> last_was_movprfx s"
  shows "if vixl_debug (exec_host env)
    then ExecuteInstructionCached env s = Inl (UnimplementedInstruction a)
    else \<exists>s'. ExecuteInstructionCached env s = Inr s' \<and> xregs s' = xregs s \<and> vregs s' = vregs s
      \<and> nzcv s' = nzcv s \<and> memory s' = memory s \<and> pc_reg s' = a + 4"
proof -
  from assms(1) obtain c where c: "predecode_cache s = Some c" "cache_ok c"
    and l: "lookup_entry c a = Some (predecode_entry (pre_env env) a)" and av: "is_available d"
    using assms(3,4) by (auto simp: registered_def)
  from l obtain r where r: "FindRange c (pc_reg s) = Some r"
    and e: "entry_in r (pc_reg s) = predecode_entry (pre_env env) a"
    using assms(3) by (auto simp: lookup_entry_def)
  have e': "entry_leaf (predecode_entry (pre_env env) a) = UnimplementedSentinelLeaf"
    using assms(4-6) av by (simp add: predecode_entry_def Let_def)
  have chk: "check_btype i (s\<lparr>pc_modified := False\<rparr>) = Inr ()" for i
    using assms(2) by (simp add: check_btype_def Let_def)
  have "ExecuteInstructionCached env s =
      (if vixl_debug (exec_host env) then Inl (UnimplementedInstruction a)
       else finish_instruction env False ((set_range (Some (range_start r)) (s\<lparr>pc_modified := False\<rparr>))
          \<lparr>form_hash := entry_form_hash (predecode_entry (pre_env env) a)\<rparr>))"
    using cached_step_entry [OF c r e, of env] assms(3,7)
    by (simp add: e' Let_def run_leaf_def chk VisitUnimplemented_def range_simps last_was_movprfx_def fetch_def)
  then show ?thesis
    using assms(3) by (auto simp: finish_instruction_def UpdateBType_def IncrementPc_def range_simps)
qed

lemma movprfx_hashes: "Hash ''movprfx_z_z'' \<noteq> 0" "Hash ''movprfx_z_p_z'' \<noteq> 0"
  by code_simp+

definition no_leaf_env :: "visitor exec_env" where
  "no_leaf_env = ret_env\<lparr>pre_env := ret_pre\<lparr>resolve := (\<lambda>f. None)\<rparr>\<rparr>"

definition no_leaf_vsim :: "visitor vsim" where
  "no_leaf_vsim = ret_vsim\<lparr>predecode_cache :=
     Some (snd (RegisterCodeRange (pre_env no_leaf_env) 0x1000 4 empty_cache))\<rparr>"

lemma no_leaf_fields:
  "pre_env no_leaf_env = ret_pre\<lparr>resolve := (\<lambda>f. None)\<rparr>" "vixl_debug (exec_host no_leaf_env) = False"
  "guard_pages no_leaf_vsim = False" "pc_reg no_leaf_vsim = 0x1000"
  by (simp_all add: no_leaf_env_def no_leaf_vsim_def) (simp_all add: ret_env_def bare_host_def)

theorem form_without_leaf_is_nop_in_release_witness:
  "\<exists>s'. ExecuteInstructionCached no_leaf_env no_leaf_vsim = Inr s' \<and> xregs s' = xregs no_leaf_vsim
     \<and> pc_reg s' = 0x1004"
proof -
  let ?p = "ret_pre\<lparr>resolve := (\<lambda>f. None)\<rparr>"
  have ok: "cache_ok (snd (RegisterCodeRange ?p 0x1000 4 empty_cache))"
    by (simp add: RegisterCodeRange_def Let_def ret_pre_def empty_cache_def predecode_pass_def
        cache_ok_def range_ok_def range_end_def)
  have l: "lookup_entry (snd (RegisterCodeRange ?p 0x1000 4 empty_cache)) 0x1000 = Some (predecode_entry ?p 0x1000)"
    by (simp add: RegisterCodeRange_def Let_def ret_pre_def empty_cache_def predecode_pass_def
        lookup_entry_def FindRange_def entry_in_def)
  have f: "fetch 0x1000 no_leaf_vsim = \<lparr> insn_addr = 0x1000, insn_bits = ret_word \<rparr>"
    using ret_fetch by (simp add: no_leaf_vsim_def fetch_def)
  have c: "code_at ret_pre a = ret_word" for a by (simp add: ret_pre_def)
  have "registered no_leaf_env no_leaf_vsim"
    using ok l f by (simp add: registered_def no_leaf_env_def no_leaf_vsim_def c)
  moreover have "\<not> last_was_movprfx no_leaf_vsim"
    using movprfx_hashes by (simp add: last_was_movprfx_def no_leaf_vsim_def ret_vsim_def blank_vsim_def)
  ultimately show ?thesis
    using form_without_leaf_is_nop_in_release [of no_leaf_env no_leaf_vsim "0x1000" "decode ret_pre ret_word"]
    by (auto simp: no_leaf_fields c)
qed

end
