(* ===== verification/Sim_Api.thy ===== *)
theory Sim_Api
  imports Track_Equivalence
begin

text \<open>
  The public wrapper \<open>gaby_vm::Simulator\<close> (\<open>src/gaby_vm/simulator.cc\<close>,
  \<open>include/gaby_vm/{simulator,registers}.h\<close>): construction over the reset state of
  the imported simulator, the execution scope with its re-entrancy and trace rules,
  the run and step entry points of both tracks, and typed, bulk and batched register
  access.  A register name is kept as its underlying \<open>uint8_t\<close>, since a cast may make
  any value of one.
\<close>

section \<open>Construction\<close>

definition kMinStackSize :: u64 where "kMinStackSize = 12 * 1024"

definition CheckStackSize :: "u64 \<Rightarrow> abort + u64" where
  "CheckStackSize stack_size = (if stack_size < kMinStackSize then Inl StackTooSmall else Inr stack_size)"

definition ResetSystemRegisters :: "'v vsim \<Rightarrow> 'v vsim" where
  "ResetSystemRegisters s = s\<lparr>nzcv := NZCV_default, fpcr := FPCR_default\<rparr>"

definition ResetRegisters :: "'v vsim \<Rightarrow> 'v vsim" where
  "ResetRegisters s = WriteLr 0 (fold (\<lambda>i. WriteXRegister i 0xbadbeef) [0..<32] s)"

text \<open>Two lanes of 64 bits: a signalling NaN with the register number and the lane in it.\<close>

definition reset_lane :: "nat \<Rightarrow> nat \<Rightarrow> u64" where
  "reset_lane i lane = 0x7ff0f0007f80f000 OR (0x0000000100000000 * of_nat i) OR of_nat lane"

definition ResetVRegisters :: "'v vsim \<Rightarrow> 'v vsim" where
  "ResetVRegisters s =
     s\<lparr>vregs := (\<lambda>i. if i < 32 then ucast (reset_lane i 0) OR push_bit 64 (ucast (reset_lane i 1)) else vregs s i)\<rparr>"

text \<open>A simulator that has a stack frees it; the seal of the new one is removed.\<close>

definition ResetGCSState :: "'v vsim \<Rightarrow> abort + 'v vsim" where
  "ResetGCSState s =
     and_then (if gcs_valid s then FreeStack (gcs_token s) (parked_stacks s) else Inr (gcs_stacks s)) (\<lambda>stacks.
       let (new_stack, token, stacks') = AllocateStackInternal stacks;
           s1 = s\<lparr>gcs_stacks := stacks', gcs_valid := True, gcs_live := True, gcs_token := token, gcs_stack := new_stack\<rparr>
       in Inr (snd (GCSPop s1)))"

definition ResetState :: "'v vsim \<Rightarrow> abort + 'v vsim" where
  "ResetState s =
     (let s = ResetVRegisters (ResetRegisters (ResetSystemRegisters s));
          s = WriteSp (stack_base (stack s)) s
      in map_result (\<lambda>s. s\<lparr>gcs_enabled := True, pc_reg := 0, pc_modified := False,
           btype := DefaultBType, next_btype := DefaultBType\<rparr>) (ResetGCSState s))"

text \<open>The seed of the generator; \<open>seed\<close> stores it modulo the modulus.\<close>

definition rand_seed :: u64 where
  "rand_seed = take_bit 48 (11 + push_bit 16 22 + push_bit 32 33)"

text \<open>
  The constructor: \<open>s\<close> is the storage the members occupy, of which only the host's
  memory and the stacks of the process matter; \<open>data\<close> is where the unused stack of the imported simulator lies.
\<close>

definition construct ::
  "'v PredecodeCache option \<Rightarrow> u64 \<Rightarrow> u64 \<Rightarrow> u64 \<Rightarrow> 'v vsim \<Rightarrow> abort + 'v vsim" where
  "construct cache data stack_buffer stack_size s =
     and_then (CheckStackSize stack_size) (\<lambda>stack_size.
     and_then (ResetState (s\<lparr>stack := Allocate data default_SimStack, last_instr := 0, form_hash := 0,
                 gcs_valid := False, gcs_live := False, gcs_token := kGCSNoStack, gcs_enabled := False,
                 local_monitor := lm_initial, global_monitor := gm_initial, write_sink := None\<rparr>)) (\<lambda>s.
       let s = s\<lparr>guard_pages := False, predecode_cache := cache, cur_range := None, branch_hook := None,
                 busy := False, vixl_trace := 0, trace_parameters := 0, fpsr_storage := 0, rand_gen := rand_seed\<rparr>;
           top = (stack_buffer + stack_size) AND NOT 15
       in Inr (WriteSp top s)))"

section \<open>The execution scope\<close>

record saved_scope =
  sc_nested :: bool
  sc_trace :: u32
  sc_cursor :: cursor

definition scope_enter :: "u32 \<Rightarrow> 'v vsim \<Rightarrow> saved_scope \<times> 'v vsim" where
  "scope_enter trace s =
     (\<lparr> sc_nested = busy s, sc_trace = vixl_trace s, sc_cursor = GabySaveCursor s \<rparr>,
      s\<lparr>busy := True, vixl_trace := trace\<rparr>)"

definition scope_exit :: "saved_scope \<Rightarrow> 'v vsim \<Rightarrow> 'v vsim" where
  "scope_exit sc s =
     (let s = s\<lparr>vixl_trace := sc_trace sc\<rparr>
      in if sc_nested sc then GabyRestoreCursor (sc_cursor sc) s else s\<lparr>busy := False\<rparr>)"

section \<open>Running and stepping\<close>

definition RunFrom :: "'v exec_env \<Rightarrow> u64 \<Rightarrow> 'v vsim \<Rightarrow> (abort + 'v vsim) option" where
  "RunFrom env entry_pc s =
     (if predecode_cache s = None then Some (Inl EmptyCache)
      else let (sc, s1) = scope_enter 0 s
           in map_option (map_result (scope_exit sc)) (run_loop (StepOnce env) (WritePc entry_pc s1)))"

definition DebugRunFrom :: "'v exec_env \<Rightarrow> u64 \<Rightarrow> 'v vsim \<Rightarrow> (abort + 'v vsim) option" where
  "DebugRunFrom env entry_pc s =
     (let (sc, s1) = scope_enter (trace_parameters s) s
      in map_option (map_result (scope_exit sc)) (run_loop (DebugStepOnce env) (WritePc entry_pc s1)))"

text \<open>The steps; with an entry point, the program counter is set inside the scope.\<close>

definition api_StepOnce :: "'v exec_env \<Rightarrow> u64 option \<Rightarrow> 'v vsim \<Rightarrow> abort + (bool \<times> 'v vsim)" where
  "api_StepOnce env entry_pc s =
     (if predecode_cache s = None then Inl EmptyCache
      else let (sc, s1) = scope_enter 0 s;
               s2 = (case entry_pc of None \<Rightarrow> s1 | Some a \<Rightarrow> WritePc a s1)
           in map_result (map_prod id (scope_exit sc)) (StepOnce env s2))"

definition api_DebugStepOnce :: "'v exec_env \<Rightarrow> u64 option \<Rightarrow> 'v vsim \<Rightarrow> abort + (bool \<times> 'v vsim)" where
  "api_DebugStepOnce env entry_pc s =
     (let (sc, s1) = scope_enter (trace_parameters s) s;
          s2 = (case entry_pc of None \<Rightarrow> s1 | Some a \<Rightarrow> WritePc a s1)
      in map_result (map_prod id (scope_exit sc)) (DebugStepOnce env s2))"

section \<open>Typed register access\<close>

abbreviation GpSP :: u8 where "GpSP \<equiv> 31"
abbreviation GpPC :: u8 where "GpPC \<equiv> 32"

definition WriteGp :: "u8 \<Rightarrow> u64 \<Rightarrow> 'v vsim \<Rightarrow> abort + 'v vsim" where
  "WriteGp reg v s =
     (if reg \<le> 30 then Inr (WriteXRegister (unat reg) v s)
      else if reg = GpSP then Inr (WriteSp v s)
      else if reg = GpPC then Inr (WritePc v s)
      else Inl (RegisterIndex (unat reg)))"

definition ReadGp :: "u8 \<Rightarrow> 'v vsim \<Rightarrow> abort + u64" where
  "ReadGp reg s =
     (if reg \<le> 30 then Inr (ReadXRegister (unat reg) s)
      else if reg = GpSP then Inr (ReadRegister 31 Reg31IsStackPointer s)
      else if reg = GpPC then Inr (pc_reg s)
      else Inl (RegisterIndex (unat reg)))"

record VRegisterValue =
  v_lo :: u64
  v_hi :: u64

definition WriteV :: "u8 \<Rightarrow> VRegisterValue \<Rightarrow> 'v vsim \<Rightarrow> abort + 'v vsim" where
  "WriteV reg v s =
     (if reg > 31 then Inl (RegisterIndex (unat reg))
      else Inr (WriteVRegister (unat reg) (ucast (v_lo v) OR push_bit 64 (ucast (v_hi v)) :: u128) s))"

definition ReadV128 :: "u8 \<Rightarrow> 'v vsim \<Rightarrow> abort + VRegisterValue" where
  "ReadV128 reg s =
     (if reg > 31 then Inl (RegisterIndex (unat reg))
      else let q = ReadVRegister (unat reg) s :: u128
           in Inr \<lparr> v_lo = ucast q, v_hi = ucast (drop_bit 64 q) \<rparr>)"

abbreviation SysNZCV :: u8 where "SysNZCV \<equiv> 0"
abbreviation SysFPCR :: u8 where "SysFPCR \<equiv> 1"
abbreviation SysFPSR :: u8 where "SysFPSR \<equiv> 2"
abbreviation SysBType :: u8 where "SysBType \<equiv> 3"

text \<open>The casts between \<open>BType\<close> and its number.\<close>

definition BType_of :: "u8 \<Rightarrow> BType" where
  "BType_of b = (if b = 0 then DefaultBType else if b = 1 then BranchFromUnguardedOrToIP
     else if b = 2 then BranchAndLink else BranchFromGuardedNotToIP)"

fun BType_code :: "BType \<Rightarrow> u32" where
  "BType_code DefaultBType = 0"
| "BType_code BranchFromUnguardedOrToIP = 1"
| "BType_code BranchAndLink = 2"
| "BType_code BranchFromGuardedNotToIP = 3"

definition WriteSys :: "u8 \<Rightarrow> u32 \<Rightarrow> 'v vsim \<Rightarrow> abort + 'v vsim" where
  "WriteSys reg v s =
     (if reg = SysNZCV then Inr (s\<lparr>nzcv := SetRawValue v (nzcv s)\<rparr>)
      else if reg = SysFPCR then Inr (s\<lparr>fpcr := SetRawValue v (fpcr s)\<rparr>)
      else if reg = SysFPSR then Inr (s\<lparr>fpsr_storage := v\<rparr>)
      else if reg = SysBType
      then let b = (ucast v :: u8)
           in if b > 3 then Inl (RegisterIndex (unat b))
              else Inr (UpdateBType (WriteNextBType (BType_of b) s))
      else Inl (RegisterIndex (unat reg)))"

definition ReadSys :: "u8 \<Rightarrow> 'v vsim \<Rightarrow> abort + u32" where
  "ReadSys reg s =
     (if reg = SysNZCV
      then Inr (push_bit 31 (of_bool (ReadN s)) OR push_bit 30 (of_bool (ReadZ s))
                OR push_bit 29 (of_bool (ReadC s)) OR push_bit 28 (of_bool (ReadV s)))
      else if reg = SysFPCR then Inr (GetRawValue (fpcr s))
      else if reg = SysFPSR then Inr (fpsr_storage s)
      else if reg = SysBType then Inr (BType_code (btype s))
      else Inl (RegisterIndex (unat reg)))"

section \<open>Bulk register access\<close>

record RegisterFile =
  rf_x :: "nat \<Rightarrow> u64"
  rf_sp :: u64
  rf_pc :: u64
  rf_v :: "nat \<Rightarrow> VRegisterValue"
  rf_nzcv :: u32
  rf_fpcr :: u32
  rf_fpsr :: u32
  rf_btype :: u32

text \<open>The loops over the arrays, of 31 and 32 elements; an abort ends them.\<close>

fun collect :: "(nat \<Rightarrow> abort + 'a) \<Rightarrow> nat \<Rightarrow> abort + (nat \<Rightarrow> 'a)" where
  "collect f 0 = Inr (\<lambda>_. undefined)"
| "collect f (Suc n) = and_then (collect f n) (\<lambda>g. and_then (f n) (\<lambda>a. Inr (g(n := a))))"

fun write_each :: "(nat \<Rightarrow> 'v vsim \<Rightarrow> abort + 'v vsim) \<Rightarrow> nat \<Rightarrow> 'v vsim \<Rightarrow> abort + 'v vsim" where
  "write_each f 0 s = Inr s"
| "write_each f (Suc n) s = and_then (write_each f n s) (f n)"

definition ReadAll :: "'v vsim \<Rightarrow> abort + RegisterFile" where
  "ReadAll s =
     and_then (collect (\<lambda>i. ReadGp (of_nat i) s) 31) (\<lambda>x.
     and_then (ReadGp GpSP s) (\<lambda>sp.
     and_then (ReadGp GpPC s) (\<lambda>pc.
     and_then (collect (\<lambda>i. ReadV128 (of_nat i) s) 32) (\<lambda>v.
     and_then (ReadSys SysNZCV s) (\<lambda>n.
     and_then (ReadSys SysFPCR s) (\<lambda>fc.
     and_then (ReadSys SysFPSR s) (\<lambda>fs.
     and_then (ReadSys SysBType s) (\<lambda>b.
       Inr \<lparr> rf_x = x, rf_sp = sp, rf_pc = pc, rf_v = v, rf_nzcv = n, rf_fpcr = fc,
             rf_fpsr = fs, rf_btype = b \<rparr>))))))))"

definition WriteAll :: "RegisterFile \<Rightarrow> 'v vsim \<Rightarrow> abort + 'v vsim" where
  "WriteAll file s =
     and_then (write_each (\<lambda>i. WriteGp (of_nat i) (rf_x file i)) 31 s) (\<lambda>s.
     and_then (WriteGp GpSP (rf_sp file) s) (\<lambda>s.
     and_then (WriteGp GpPC (rf_pc file) s) (\<lambda>s.
     and_then (write_each (\<lambda>i. WriteV (of_nat i) (rf_v file i)) 32 s) (\<lambda>s.
     and_then (WriteSys SysNZCV (rf_nzcv file) s) (\<lambda>s.
     and_then (WriteSys SysFPCR (rf_fpcr file) s) (\<lambda>s.
     and_then (WriteSys SysFPSR (rf_fpsr file) s) (\<lambda>s.
       WriteSys SysBType (rf_btype file) s)))))))"

section \<open>Batched writes\<close>

datatype RegisterWrite = GpWrite u8 u64 | VWrite u8 VRegisterValue | SysWrite u8 u32

fun visit_write :: "nat \<Rightarrow> RegisterWrite \<Rightarrow> 'v vsim \<Rightarrow> abort + 'v vsim" where
  "visit_write i (GpWrite reg v) s = (if reg > 32 then Inl (InvalidSpanElement i) else WriteGp reg v s)"
| "visit_write i (VWrite reg v) s = (if reg > 31 then Inl (InvalidSpanElement i) else WriteV reg v s)"
| "visit_write i (SysWrite reg v) s = (if reg > 3 then Inl (InvalidSpanElement i) else WriteSys reg v s)"

fun write_span :: "nat \<Rightarrow> RegisterWrite list \<Rightarrow> 'v vsim \<Rightarrow> abort + 'v vsim" where
  "write_span i [] s = Inr s"
| "write_span i (w # ws) s = and_then (visit_write i w s) (write_span (Suc i) ws)"

definition WriteSpan :: "RegisterWrite list \<Rightarrow> 'v vsim \<Rightarrow> abort + 'v vsim" where
  "WriteSpan writes s = write_span 0 writes s"

section \<open>Configuration\<close>

definition SetTraceParameters :: "u32 \<Rightarrow> 'v vsim \<Rightarrow> 'v vsim" where
  "SetTraceParameters parameters s = s\<lparr>trace_parameters := parameters\<rparr>"

definition SetMemoryWriteObserver :: "bool \<Rightarrow> 'v vsim \<Rightarrow> 'v vsim" where
  "SetMemoryWriteObserver observed s = s\<lparr>write_sink := (if observed then Some [] else None)\<rparr>"

definition SetBranchHook :: "nat option \<Rightarrow> 'v vsim \<Rightarrow> 'v vsim" where
  "SetBranchHook hook s = s\<lparr>branch_hook := hook\<rparr>"

section \<open>Banks of registers\<close>

text \<open>
  What bulk access needs of the typed access to an array of registers: a write in
  range succeeds, a read gives what was written last, other registers keep their
  value, and writing back what was read changes nothing.
\<close>

locale register_bank =
  fixes wr :: "nat \<Rightarrow> 'a \<Rightarrow> 'v vsim \<Rightarrow> abort + 'v vsim"
    and rd :: "nat \<Rightarrow> 'v vsim \<Rightarrow> abort + 'a" and n :: nat
  assumes wr_total: "i < n \<Longrightarrow> \<exists>s'. wr i a s = Inr s'"
    and rd_total: "i < n \<Longrightarrow> \<exists>a. rd i s = Inr a"
    and rd_wr: "i < n \<Longrightarrow> wr i a s = Inr s' \<Longrightarrow> rd i s' = Inr a"
    and rd_wr_other: "i < n \<Longrightarrow> j < n \<Longrightarrow> j \<noteq> i \<Longrightarrow> wr i a s = Inr s' \<Longrightarrow> rd j s' = rd j s"
    and wr_rd: "i < n \<Longrightarrow> rd i s = Inr a \<Longrightarrow> wr i a s = Inr s"
begin

lemma write_each_total:
  "m \<le> n \<Longrightarrow> \<exists>s'. write_each (\<lambda>i. wr i (f i)) m s = Inr s'"
proof (induction m)
  case (Suc m)
  then obtain t where "write_each (\<lambda>i. wr i (f i)) m s = Inr t" by auto
  with Suc.prems show ?case using wr_total [of m "f m" t] by simp
qed simp

lemma read_write_each:
  "m \<le> n \<Longrightarrow> write_each (\<lambda>i. wr i (f i)) m s = Inr s' \<Longrightarrow> i < m \<Longrightarrow> rd i s' = Inr (f i)"
proof (induction m arbitrary: s')
  case (Suc m)
  then obtain t where t: "write_each (\<lambda>i. wr i (f i)) m s = Inr t" "wr m (f m) t = Inr s'" by auto
  show ?case
  proof (cases "i = m")
    case True
    with t(2) Suc.prems show ?thesis using rd_wr [of m "f m" t s'] by simp
  next
    case False
    then have "rd i s' = rd i t" using Suc.prems t(2) rd_wr_other [of m i "f m" t s'] by simp
    with Suc False t show ?thesis by simp
  qed
qed simp

lemma collect_total: "m \<le> n \<Longrightarrow> \<exists>g. collect (\<lambda>i. rd i s) m = Inr g"
proof (induction m)
  case (Suc m)
  moreover have "m < n" using Suc.prems by simp
  ultimately show ?case using rd_total [of m s] by auto
qed simp

lemma collect_nth: "collect f m = Inr g \<Longrightarrow> i < m \<Longrightarrow> f i = Inr (g i)"
  by (induction m arbitrary: g) (auto simp: less_Suc_eq)

lemma write_each_collected:
  "m \<le> n \<Longrightarrow> (\<And>i. i < m \<Longrightarrow> rd i s = Inr (g i)) \<Longrightarrow> write_each (\<lambda>i. wr i (g i)) m s = Inr s"
  by (induction m) (auto intro: wr_rd)

end

lemma unat_of_nat_u8: "i < 256 \<Longrightarrow> unat (of_nat i :: u8) = i"
  by (simp add: unat_of_nat take_bit_nat_eq_self)

lemma u8_le_iff: "i < 256 \<Longrightarrow> (of_nat i :: u8) \<le> 30 \<longleftrightarrow> i \<le> 30" "i < 256 \<Longrightarrow> (31 :: u8) < of_nat i \<longleftrightarrow> 31 < i"
  by (simp_all add: word_le_nat_alt word_less_nat_alt unat_of_nat_u8)

interpretation x_bank: register_bank "\<lambda>i. WriteGp (of_nat i)" "\<lambda>i. ReadGp (of_nat i)" 31
proof unfold_locales
  fix i j :: nat and a :: u64 and s s' :: "'v vsim"
  note [simp] = WriteGp_def ReadGp_def u8_le_iff unat_of_nat_u8
  assume i: "i < 31"
  show "\<exists>s'. WriteGp (of_nat i) a s = Inr s'" "\<exists>a. ReadGp (of_nat i) s = Inr a" using i by auto
  { assume "WriteGp (of_nat i) a s = Inr s'"
    with i show "ReadGp (of_nat i) s' = Inr a" by (auto simp: Read_WriteRegister_same) }
  { assume "j < 31" "j \<noteq> i" "WriteGp (of_nat i) a s = Inr s'"
    with i show "ReadGp (of_nat j) s' = ReadGp (of_nat j) s" by auto }
  { assume "ReadGp (of_nat i) s = Inr a"
    with i show "WriteGp (of_nat i) a s = Inr s" by (auto simp: WriteRegister_def ReadRegister_def) }
qed

lemma halves128:
  "ucast (ucast lo OR push_bit 64 (ucast hi) :: u128) = (lo :: u64)"
  "ucast (drop_bit 64 (ucast lo OR push_bit 64 (ucast hi) :: u128)) = (hi :: u64)"
  "ucast (ucast q :: u64) OR push_bit 64 (ucast (ucast (drop_bit 64 q) :: u64)) = (q :: u128)"
proof -
  show "ucast (ucast lo OR push_bit 64 (ucast hi) :: u128) = (lo :: u64)"
    by (rule word_eq_bitI) (auto simp: bit_simps)
  show "ucast (drop_bit 64 (ucast lo OR push_bit 64 (ucast hi) :: u128)) = (hi :: u64)"
  proof (rule word_eq_bitI)
    fix k assume "k < LENGTH(64)"
    then show "bit (ucast (drop_bit 64 (ucast lo OR push_bit 64 (ucast hi) :: u128)) :: u64) k = bit hi k"
      using bit_word_lt [of lo "64 + k"] by (auto simp: bit_simps)
  qed
  show "ucast (ucast q :: u64) OR push_bit 64 (ucast (ucast (drop_bit 64 q) :: u64)) = q"
  proof (rule word_eq_bitI)
    fix k assume "k < LENGTH(128)"
    then show "bit (ucast (ucast q :: u64) OR push_bit 64 (ucast (ucast (drop_bit 64 q) :: u64)) :: u128) k = bit q k"
      by (cases "k < 64") (auto simp: bit_simps)
  qed
qed

interpretation v_bank: register_bank "\<lambda>i. WriteV (of_nat i)" "\<lambda>i. ReadV128 (of_nat i)" 32
proof unfold_locales
  fix i j :: nat and a :: VRegisterValue and s s' :: "'v vsim"
  note [simp] = WriteV_def ReadV128_def u8_le_iff unat_of_nat_u8 ReadVRegister_def WriteVRegister_def Let_def
  assume i: "i < 32"
  show "\<exists>s'. WriteV (of_nat i) a s = Inr s'" "\<exists>a. ReadV128 (of_nat i) s = Inr a" using i by auto
  { assume "WriteV (of_nat i) a s = Inr s'"
    with i show "ReadV128 (of_nat i) s' = Inr a" by (auto simp: halves128 simp del: drop_bit_or) }
  { assume "j < 32" "j \<noteq> i" "WriteV (of_nat i) a s = Inr s'"
    with i show "ReadV128 (of_nat j) s' = ReadV128 (of_nat j) s" by auto }
  { assume "ReadV128 (of_nat i) s = Inr a"
    with i show "WriteV (of_nat i) a s = Inr s" by (auto simp: halves128) }
qed

end
