(* ===== verification/Api_Contracts.thy ===== *)
theory Api_Contracts
  imports Sim_Api
begin

text \<open>
  What the public wrapper promises: the state a constructed simulator starts in, the
  round trips of the typed and the bulk register access, where a write aborts, the
  batched writes, and the execution scope of nested calls.
\<close>

section \<open>System registers through their write mask\<close>

text \<open>A system register in which only the bits of \<open>m\<close> can be set, and the others are zero.\<close>

definition masked :: "u32 \<Rightarrow> SimSystemRegister \<Rightarrow> bool" where
  "masked m r \<longleftrightarrow> sr_write_ignore_mask r = NOT m \<and> sr_value r AND NOT m = 0"

definition sys_ok :: "'v vsim \<Rightarrow> bool" where
  "sys_ok s \<longleftrightarrow> masked 0xF0000000 (nzcv s) \<and> masked 0x07C00000 (fpcr s)"

lemma masked_default: "masked m (sr_default m)"
  by (simp add: masked_def sr_default_def)

lemma SetRawValue_masked:
  assumes "masked m r"
  shows "masked m (SetRawValue v r)" "sr_value (SetRawValue v r) = v AND m"
proof -
  have *: "sr_value r AND NOT m = 0" "sr_write_ignore_mask r = NOT m" using assms by (simp_all add: masked_def)
  then show "sr_value (SetRawValue v r) = v AND m" by (simp add: SetRawValue_def)
  with * show "masked m (SetRawValue v r)"
    by (simp add: masked_def SetRawValue_def and.assoc)
qed

lemma masked_value: "masked m r \<Longrightarrow> sr_value r AND m = sr_value r"
  by (rule word_eq_bitI) (auto simp: masked_def bit_simps dest!: arg_cong [where f = "\<lambda>w. bit w n" for n])

lemma SetRawValue_same: "masked m r \<Longrightarrow> SetRawValue (sr_value r) r = r"
  using SetRawValue_masked(2) [of m r "sr_value r"] masked_value [of m r]
  by (simp add: SetRawValue_def)

lemma flag_bit: "i < 32 \<Longrightarrow> sr_field i i r \<noteq> 0 \<longleftrightarrow> bit (sr_value r) i"
proof -
  assume i: "i < 32"
  have "sr_field i i r = of_bool (bit (sr_value r) i)"
    using i by (intro word_eq_bitI)
      (auto simp: sr_field_def ExtractUnsignedBitfield32_def bit_simps bit_ExtractUnsignedBitfield64 bit_1_iff)
  then show ?thesis by simp
qed

lemma flag_reads:
  "ReadN s = bit (sr_value (nzcv s)) 31" "ReadZ s = bit (sr_value (nzcv s)) 30"
  "ReadC s = bit (sr_value (nzcv s)) 29" "ReadV s = bit (sr_value (nzcv s)) 28"
  by (simp_all add: ReadN_def ReadZ_def ReadC_def ReadV_def flag_bit)

lemma flags_mask: "(0xF0000000 :: u32) = push_bit 28 (mask 4)"
  by (simp add: mask_eq_exp_minus_1 push_bit_eq_mult)

lemma ReadSys_NZCV:
  "ReadSys SysNZCV s = Inr (sr_value (nzcv s) AND 0xF0000000)"
proof -
  let ?v = "sr_value (nzcv s)"
  let ?f = "\<lambda>k. push_bit k (of_bool (bit ?v k)) :: u32"
  have "?f 31 OR ?f 30 OR ?f 29 OR ?f 28 = ?v AND push_bit 28 (mask 4)"
  proof (rule word_eq_bitI)
    fix n assume "n < LENGTH(32)"
    then consider "n < 28" | "n = 28" | "n = 29" | "n = 30" | "n = 31" by fastforce
    then show "bit (?f 31 OR ?f 30 OR ?f 29 OR ?f 28) n = bit (?v AND push_bit 28 (mask 4)) n"
      by cases (auto simp: bit_simps bit_1_iff)
  qed
  then show ?thesis by (simp add: ReadSys_def flag_reads flags_mask)
qed

section \<open>Bulk access\<close>

lemma write_each_frame:
  assumes "\<And>i s s'. f i s = Inr s' \<Longrightarrow> P s' = P s" "write_each f m s = Inr s'"
  shows "P s' = P s"
  using assms(2) by (induction m arbitrary: s') (auto dest: assms(1))

lemma write_x_frame:
  assumes "write_each (\<lambda>i. WriteGp (of_nat i) (f i)) m s = Inr s'" "m \<le> 31"
  shows "s' = s\<lparr>xregs := xregs s'\<rparr> \<and> xregs s' 31 = xregs s 31"
  using assms
proof (induction m arbitrary: s')
  case (Suc m)
  then obtain t where t: "write_each (\<lambda>i. WriteGp (of_nat i) (f i)) m s = Inr t"
      "WriteGp (of_nat m) (f m) t = Inr s'" by auto
  with Suc have "t = s\<lparr>xregs := xregs t\<rparr>" "xregs t 31 = xregs s 31" by auto
  moreover have "s' = t\<lparr>xregs := xregs s'\<rparr>" "xregs s' 31 = xregs t 31"
    using t(2) Suc.prems by (auto simp: WriteGp_def u8_le_iff unat_of_nat_u8 WriteRegister_def)
  ultimately show ?case by (metis (no_types, lifting) vsim.surjective vsim.update_convs(1) vsim.select_convs)
qed simp

lemma write_v_frame:
  assumes "write_each (\<lambda>i. WriteV (of_nat i) (f i)) m s = Inr s'" "m \<le> 32"
  shows "s' = s\<lparr>vregs := vregs s'\<rparr>"
  using assms
proof (induction m arbitrary: s')
  case (Suc m)
  then obtain t where t: "write_each (\<lambda>i. WriteV (of_nat i) (f i)) m s = Inr t"
      "WriteV (of_nat m) (f m) t = Inr s'" by auto
  with Suc have "t = s\<lparr>vregs := vregs t\<rparr>" by auto
  moreover have "s' = t\<lparr>vregs := vregs s'\<rparr>"
    using t(2) Suc.prems by (auto simp: WriteV_def u8_le_iff unat_of_nat_u8 WriteVRegister_def)
  ultimately show ?case by (metis (no_types, lifting) vsim.surjective vsim.update_convs(2) vsim.select_convs)
qed simp

text \<open>What a bulk write does to the state; only a branch type out of range makes it abort.\<close>

lemma WriteAll_cases:
  obtains X V where
    "WriteAll rf s =
       (let b = ucast (rf_btype rf) :: u8 in
        if b > 3 then Inl (RegisterIndex (unat b))
        else Inr (s\<lparr>xregs := X, pc_reg := AddressUntag (rf_pc rf), pc_modified := True, vregs := V,
              nzcv := SetRawValue (rf_nzcv rf) (nzcv s), fpcr := SetRawValue (rf_fpcr rf) (fpcr s),
              fpsr_storage := rf_fpsr rf, btype := BType_of b, next_btype := DefaultBType\<rparr>))"
    "\<And>i. i < 31 \<Longrightarrow> X i = rf_x rf i" "X 31 = rf_sp rf"
    "\<And>i. i < 32 \<Longrightarrow> V i = ucast (v_lo (rf_v rf i)) OR push_bit 64 (ucast (v_hi (rf_v rf i)))"
proof -
  obtain s1 where s1: "write_each (\<lambda>i. WriteGp (of_nat i) (rf_x rf i)) 31 s = Inr s1"
    using x_bank.write_each_total [of 31 "rf_x rf" s] by auto
  define s2 where "s2 = WritePc (rf_pc rf) (WriteSp (rf_sp rf) s1)"
  obtain s3 where s3: "write_each (\<lambda>i. WriteV (of_nat i) (rf_v rf i)) 32 s2 = Inr s3"
    using v_bank.write_each_total [of 32 "rf_v rf" s2] by auto
  note f1 = write_x_frame [OF s1, simplified] and f3 = write_v_frame [OF s3, simplified]
  let ?X = "(xregs s1)(31 := rf_sp rf)"
  have x: "?X i = rf_x rf i" if "i < 31" for i
    using x_bank.read_write_each [OF _ s1 that] that
    by (simp add: ReadGp_def u8_le_iff unat_of_nat_u8 ReadRegister_def)
  have v: "vregs s3 i = ucast (v_lo (rf_v rf i)) OR push_bit 64 (ucast (v_hi (rf_v rf i)))" if "i < 32" for i
  proof -
    have r: "ReadV128 (of_nat i) s3 = Inr (rf_v rf i)"
      using v_bank.read_write_each [OF _ s3 that] by simp
    then have "rf_v rf i = \<lparr> v_lo = ucast (vregs s3 i), v_hi = ucast (drop_bit 64 (vregs s3 i)) \<rparr>"
      using that by (simp add: ReadV128_def u8_le_iff unat_of_nat_u8 ReadVRegister_def Let_def)
    then show ?thesis using halves128(3) [of "vregs s3 i"] by simp
  qed
  have w: "WriteGp GpSP (rf_sp rf) s1 = Inr (WriteSp (rf_sp rf) s1)"
    "WriteGp GpPC (rf_pc rf) (WriteSp (rf_sp rf) s1) = Inr s2"
    by (simp_all add: WriteGp_def s2_def word_le_nat_alt)
  have s2: "s2 = s\<lparr>xregs := ?X, pc_reg := AddressUntag (rf_pc rf), pc_modified := True\<rparr>"
  proof -
    obtain X0 where "s1 = s\<lparr>xregs := X0\<rparr>" using f1 by blast
    then show ?thesis by (simp add: s2_def WritePc_def WriteSp_def WriteRegister_def)
  qed
  have s3': "s3 = s\<lparr>xregs := ?X, pc_reg := AddressUntag (rf_pc rf), pc_modified := True, vregs := vregs s3\<rparr>"
    using f3 unfolding s2 .
  have all: "WriteAll rf s =
       (let b = ucast (rf_btype rf) :: u8 in
        if b > 3 then Inl (RegisterIndex (unat b))
        else Inr (s3\<lparr>nzcv := SetRawValue (rf_nzcv rf) (nzcv s3), fpcr := SetRawValue (rf_fpcr rf) (fpcr s3),
              fpsr_storage := rf_fpsr rf, btype := BType_of b, next_btype := DefaultBType\<rparr>))"
    by (simp add: WriteAll_def s1 w s3 WriteSys_def UpdateBType_def WriteNextBType_def Let_def)
  have "s3\<lparr>nzcv := SetRawValue (rf_nzcv rf) (nzcv s3), fpcr := SetRawValue (rf_fpcr rf) (fpcr s3),
              fpsr_storage := rf_fpsr rf, btype := b, next_btype := DefaultBType\<rparr>
      = s\<lparr>xregs := ?X, pc_reg := AddressUntag (rf_pc rf), pc_modified := True, vregs := vregs s3,
          nzcv := SetRawValue (rf_nzcv rf) (nzcv s), fpcr := SetRawValue (rf_fpcr rf) (fpcr s),
          fpsr_storage := rf_fpsr rf, btype := b, next_btype := DefaultBType\<rparr>" for b
    by (subst (1 2 3) s3') simp
  with all x v show ?thesis
    by (intro that [where X = ?X and V = "vregs s3"]) (simp_all add: Let_def)
qed

lemma ReadAll_total:
  obtains g where "ReadAll s = Inr g" "\<And>i. i < 31 \<Longrightarrow> rf_x g i = xregs s i" "rf_sp g = xregs s 31"
    "rf_pc g = pc_reg s"
    "\<And>i. i < 32 \<Longrightarrow> rf_v g i = \<lparr> v_lo = ucast (vregs s i), v_hi = ucast (drop_bit 64 (vregs s i)) \<rparr>"
    "rf_nzcv g = sr_value (nzcv s) AND 0xF0000000" "rf_fpcr g = sr_value (fpcr s)"
    "rf_fpsr g = fpsr_storage s" "rf_btype g = BType_code (btype s)"
proof -
  obtain x where x: "collect (\<lambda>i. ReadGp (of_nat i) s) 31 = Inr x"
    using x_bank.collect_total [of 31 s] by auto
  obtain v where v: "collect (\<lambda>i. ReadV128 (of_nat i) s) 32 = Inr v"
    using v_bank.collect_total [of 32 s] by auto
  let ?g = "\<lparr> rf_x = x, rf_sp = xregs s 31, rf_pc = pc_reg s, rf_v = v, rf_nzcv = sr_value (nzcv s) AND 0xF0000000,
      rf_fpcr = sr_value (fpcr s), rf_fpsr = fpsr_storage s, rf_btype = BType_code (btype s) \<rparr>"
  have r: "ReadGp GpSP s = Inr (xregs s 31)" "ReadGp GpPC s = Inr (pc_reg s)"
    "ReadSys SysFPCR s = Inr (sr_value (fpcr s))" "ReadSys SysFPSR s = Inr (fpsr_storage s)"
    "ReadSys SysBType s = Inr (BType_code (btype s))"
    by (simp_all add: ReadGp_def ReadSys_def ReadRegister_def GetRawValue_def word_le_nat_alt)
  have "ReadAll s = Inr ?g" by (simp add: ReadAll_def x v r ReadSys_NZCV)
  moreover have "x i = xregs s i" if "i < 31" for i
    using x_bank.collect_nth [OF x that] that
    by (simp add: ReadGp_def u8_le_iff unat_of_nat_u8 ReadRegister_def)
  moreover have "v i = \<lparr> v_lo = ucast (vregs s i), v_hi = ucast (drop_bit 64 (vregs s i)) \<rparr>" if "i < 32" for i
    using v_bank.collect_nth [OF v that] that
    by (simp add: ReadV128_def u8_le_iff unat_of_nat_u8 ReadVRegister_def Let_def)
  ultimately show ?thesis by (intro that [of ?g]) simp_all
qed

lemma BType_roundtrip:
  "b \<le> 3 \<Longrightarrow> BType_code (BType_of b) = ucast b" "BType_of (ucast (BType_code t)) = t"
  "(ucast (BType_code t) :: u8) \<le> 3"
proof -
  { assume "b \<le> 3"
    then have "unat b = 0 \<or> unat b = 1 \<or> unat b = 2 \<or> unat b = 3" by (auto simp: word_le_nat_alt)
    then have "b = 0 \<or> b = 1 \<or> b = 2 \<or> b = 3" by (simp add: word_unat_eq_iff)
    then show "BType_code (BType_of b) = ucast b" by (auto simp: BType_of_def) }
  show "BType_of (ucast (BType_code t)) = t" "(ucast (BType_code t) :: u8) \<le> 3"
    by (cases t; simp add: BType_of_def)+
qed

lemma ucast_u8_and: "(ucast (ucast (w :: u32) :: u8) :: u32) = w AND 0xFF"
proof -
  have ff: "(0xFF :: u32) = mask 8" by (simp add: mask_eq_exp_minus_1)
  have "(ucast (ucast w :: u8) :: u32) = w AND mask 8"
    by (rule word_eq_bitI) (auto simp: bit_simps)
  then show ?thesis by (simp only: ff)
qed

text \<open>C26: Bulk register access round-trips.  \<open>WriteAll\<close> aborts exactly when the low byte of
  the branch type is above three; otherwise \<open>ReadAll\<close> then gives back every general and
  vector register and the status register exactly, the program counter without its tag byte,
  the flags and the control register cut to their writable bits, and the branch type cut to a byte.\<close>

theorem ReadAll_after_WriteAll:
  assumes "sys_ok s"
  shows "if (ucast (rf_btype rf) :: u8) > 3 then WriteAll rf s = Inl (RegisterIndex (unat (ucast (rf_btype rf) :: u8)))
    else \<exists>s' g. WriteAll rf s = Inr s' \<and> sys_ok s' \<and> ReadAll s' = Inr g
      \<and> map (rf_x g) [0..<31] = map (rf_x rf) [0..<31] \<and> rf_sp g = rf_sp rf
      \<and> rf_pc g = AddressUntag (rf_pc rf) \<and> map (rf_v g) [0..<32] = map (rf_v rf) [0..<32]
      \<and> rf_nzcv g = rf_nzcv rf AND 0xF0000000 \<and> rf_fpcr g = rf_fpcr rf AND 0x07C00000
      \<and> rf_fpsr g = rf_fpsr rf \<and> rf_btype g = rf_btype rf AND 0xFF"
proof (cases "(ucast (rf_btype rf) :: u8) > 3")
  case True
  show ?thesis by (rule WriteAll_cases [where rf = rf and s = s]) (use True in \<open>simp add: Let_def\<close>)
next
  case False
  obtain X V where w: "WriteAll rf s = Inr (s\<lparr>xregs := X, pc_reg := AddressUntag (rf_pc rf), pc_modified := True,
        vregs := V, nzcv := SetRawValue (rf_nzcv rf) (nzcv s), fpcr := SetRawValue (rf_fpcr rf) (fpcr s),
        fpsr_storage := rf_fpsr rf, btype := BType_of (ucast (rf_btype rf)), next_btype := DefaultBType\<rparr>)"
      (is "_ = Inr ?s'")
    and X: "\<And>i. i < 31 \<Longrightarrow> X i = rf_x rf i" "X 31 = rf_sp rf"
    and V: "\<And>i. i < 32 \<Longrightarrow> V i = ucast (v_lo (rf_v rf i)) OR push_bit 64 (ucast (v_hi (rf_v rf i)))"
    by (rule WriteAll_cases [where rf = rf and s = s]) (use False in \<open>simp add: Let_def\<close>)
  obtain g where g: "ReadAll ?s' = Inr g" "\<And>i. i < 31 \<Longrightarrow> rf_x g i = X i" "rf_sp g = X 31"
      "rf_pc g = AddressUntag (rf_pc rf)"
      "\<And>i. i < 32 \<Longrightarrow> rf_v g i = \<lparr> v_lo = ucast (V i), v_hi = ucast (drop_bit 64 (V i)) \<rparr>"
      "rf_nzcv g = sr_value (SetRawValue (rf_nzcv rf) (nzcv s)) AND 0xF0000000"
      "rf_fpcr g = sr_value (SetRawValue (rf_fpcr rf) (fpcr s))" "rf_fpsr g = rf_fpsr rf"
      "rf_btype g = BType_code (BType_of (ucast (rf_btype rf)))"
    by (rule ReadAll_total [of ?s']) simp
  have "rf_v g i = rf_v rf i" if "i < 32" for i
    using g(5) [OF that] V [OF that] by (simp add: halves128 del: drop_bit_or)
  with False assms g w X show ?thesis
    by (auto simp: sys_ok_def SetRawValue_masked BType_roundtrip(1) ucast_u8_and not_less and.assoc intro!: exI [of _ ?s'])
qed

definition sample_file :: RegisterFile where
  "sample_file = \<lparr> rf_x = (\<lambda>i. of_nat i), rf_sp = 0x8000, rf_pc = 0x1000, rf_v = (\<lambda>i. \<lparr> v_lo = 1, v_hi = 2 \<rparr>),
     rf_nzcv = 0xFFFFFFFF, rf_fpcr = 0xFFFFFFFF, rf_fpsr = 7, rf_btype = 0x102 \<rparr>"

lemma sys_ok_blank: "sys_ok blank_vsim"
  by (simp add: sys_ok_def blank_vsim_def NZCV_default_def FPCR_default_def masked_default)

theorem ReadAll_after_WriteAll_witness:
  "\<exists>s' g. WriteAll sample_file (blank_vsim :: visitor vsim) = Inr s' \<and> ReadAll s' = Inr g
     \<and> rf_sp g = 0x8000 \<and> rf_btype g = 2"
  using ReadAll_after_WriteAll [OF sys_ok_blank, of sample_file, where ?'a = visitor]
  by (auto simp: sample_file_def word_less_nat_alt)

text \<open>Saving and restoring the registers is the identity: between instructions (no branch type
  staged, an untagged program counter) \<open>ReadAll\<close> succeeds, and writing its result back with
  \<open>WriteAll\<close> changes nothing but the mark that the program counter was set.\<close>

theorem WriteAll_of_ReadAll:
  assumes "sys_ok s" "next_btype s = DefaultBType" "AddressUntag (pc_reg s) = pc_reg s"
  shows "\<exists>g. ReadAll s = Inr g \<and> WriteAll g s = Inr (s\<lparr>pc_modified := True\<rparr>)"
proof -
  obtain g where g: "ReadAll s = Inr g" "\<And>i. i < 31 \<Longrightarrow> rf_x g i = xregs s i" "rf_sp g = xregs s 31"
      "rf_pc g = pc_reg s"
      "\<And>i. i < 32 \<Longrightarrow> rf_v g i = \<lparr> v_lo = ucast (vregs s i), v_hi = ucast (drop_bit 64 (vregs s i)) \<rparr>"
      "rf_nzcv g = sr_value (nzcv s) AND 0xF0000000" "rf_fpcr g = sr_value (fpcr s)"
      "rf_fpsr g = fpsr_storage s" "rf_btype g = BType_code (btype s)"
    by (rule ReadAll_total [of s]) simp
  have x: "write_each (\<lambda>i. WriteGp (of_nat i) (rf_x g i)) 31 s = Inr s"
    using g(2) by (intro x_bank.write_each_collected)
      (simp_all add: ReadGp_def u8_le_iff unat_of_nat_u8 ReadRegister_def)
  have v: "write_each (\<lambda>i. WriteV (of_nat i) (rf_v g i)) 32 t = Inr t" if "vregs t = vregs s" for t
    using g(5) that by (intro v_bank.write_each_collected)
      (simp_all add: ReadV128_def u8_le_iff unat_of_nat_u8 ReadVRegister_def Let_def)
  have "SetRawValue (rf_nzcv g) (nzcv s) = nzcv s" "SetRawValue (rf_fpcr g) (fpcr s) = fpcr s"
    using assms(1) g(6,7) masked_value [of "0xF0000000" "nzcv s"]
      SetRawValue_same [of "0xF0000000" "nzcv s"] SetRawValue_same [of "0x07C00000" "fpcr s"]
    by (simp_all add: sys_ok_def)
  moreover have "\<not> (ucast (rf_btype g) :: u8) > 3" "BType_of (ucast (rf_btype g)) = btype s"
    using BType_roundtrip(2,3) [of "btype s"] by (simp_all add: g(9) not_less)
  ultimately have "WriteAll g s = Inr (s\<lparr>pc_modified := True\<rparr>)"
    using assms(2,3) g(3,4,8)
    by (simp add: WriteAll_def x v WriteGp_def WriteSp_def WriteRegister_def WritePc_def WriteSys_def
        WriteNextBType_def UpdateBType_def Let_def word_le_nat_alt)
  with g(1) show ?thesis by blast
qed

theorem WriteAll_of_ReadAll_witness:
  "\<exists>g. ReadAll ret_vsim = Inr g \<and> WriteAll g ret_vsim = Inr (ret_vsim\<lparr>pc_modified := True\<rparr>)"
proof (rule WriteAll_of_ReadAll)
  show "sys_ok ret_vsim" using sys_ok_blank [where ?'a = visitor] by (simp add: sys_ok_def ret_vsim_def)
  show "next_btype ret_vsim = DefaultBType" by (simp add: ret_vsim_def blank_vsim_def)
  show "AddressUntag (pc_reg ret_vsim) = pc_reg ret_vsim" by (simp add: ret_vsim_def AddressUntag_def)
qed

section \<open>Batched writes\<close>

text \<open>The single write an element stands for, whether its register name is in range, and a run of writes.\<close>

fun single_write :: "RegisterWrite \<Rightarrow> 'v vsim \<Rightarrow> abort + 'v vsim" where
  "single_write (GpWrite reg v) s = WriteGp reg v s"
| "single_write (VWrite reg v) s = WriteV reg v s"
| "single_write (SysWrite reg v) s = WriteSys reg v s"

fun names_register :: "RegisterWrite \<Rightarrow> bool" where
  "names_register (GpWrite reg v) \<longleftrightarrow> reg \<le> 32"
| "names_register (VWrite reg v) \<longleftrightarrow> reg \<le> 31"
| "names_register (SysWrite reg v) \<longleftrightarrow> reg \<le> 3"

fun writes_in_order :: "RegisterWrite list \<Rightarrow> 'v vsim \<Rightarrow> abort + 'v vsim" where
  "writes_in_order [] s = Inr s"
| "writes_in_order (w # ws) s = and_then (single_write w s) (writes_in_order ws)"

lemma visit_write_single:
  "visit_write i w s = (if names_register w then single_write w s else Inl (InvalidSpanElement i))"
  by (cases w) (auto simp: not_le)

lemma write_span_takeWhile:
  "write_span i ws s = and_then (writes_in_order (takeWhile names_register ws) s)
     (\<lambda>s'. if takeWhile names_register ws = ws then Inr s'
           else Inl (InvalidSpanElement (i + length (takeWhile names_register ws))))"
proof (induction ws arbitrary: i s)
  case (Cons w ws)
  show ?case by (cases "single_write w s") (auto simp: visit_write_single Cons.IH cong: if_cong)
qed simp

text \<open>A batched write is the sequence of the single writes in order.  It stops at the first
  element that names no register, after the writes before it, and reports that element's index;
  a single write that aborts ends it too.\<close>

theorem WriteSpan_is_writes_in_order:
  "WriteSpan ws s = and_then (writes_in_order (takeWhile names_register ws) s)
     (\<lambda>s'. if takeWhile names_register ws = ws then Inr s'
           else Inl (InvalidSpanElement (length (takeWhile names_register ws))))"
  by (simp add: WriteSpan_def write_span_takeWhile cong: if_cong)

section \<open>Construction\<close>

lemma fold_WriteX:
  "n \<le> 31 \<Longrightarrow> fold (\<lambda>i. WriteXRegister i v) [0..<n] s = s\<lparr>xregs := \<lambda>i. if i < n then v else xregs s i\<rparr>"
  by (induction n) (auto simp: WriteRegister_def fun_eq_iff intro!: arg_cong [where f = "\<lambda>x. s\<lparr>xregs := x\<rparr>"])

lemma ResetRegisters_eq:
  "ResetRegisters s = s\<lparr>xregs := (\<lambda>i. if i < 31 then 0xbadbeef else xregs s i)(30 := 0)\<rparr>"
proof -
  have "[0..<32] = [0..<31] @ [31]" using upt_Suc_append [of 0 31] by simp
  then have "fold (\<lambda>i. WriteXRegister i 0xbadbeef) [0..<32] s =
      s\<lparr>xregs := \<lambda>i. if i < 31 then 0xbadbeef else xregs s i\<rparr>"
    by (simp add: fold_WriteX del: upt.simps)
  then show ?thesis
    by (simp only: ResetRegisters_def) (simp add: WriteLr_def WriteRegister_def)
qed

lemma ResetState_result:
  assumes "\<not> gcs_valid s"
  shows "\<exists>stacks token. ResetState s = Inr ((WriteSp (stack_base (stack s)) (ResetVRegisters (ResetRegisters
      (ResetSystemRegisters s))))\<lparr>gcs_stacks := stacks, gcs_valid := True, gcs_live := True, gcs_token := token, gcs_stack := [], gcs_enabled := True,
       pc_reg := 0, pc_modified := False, btype := DefaultBType, next_btype := DefaultBType\<rparr>)"
proof -
  let ?t = "ResetVRegisters (ResetRegisters (ResetSystemRegisters s))"
  have t: "gcs_valid (WriteSp a ?t) = False" "stack ?t = stack s" for a
    using assms by (simp_all add: ResetVRegisters_def ResetSystemRegisters_def ResetRegisters_eq WriteSp_def WriteRegister_def)
  show ?thesis
    by (simp add: ResetState_def ResetGCSState_def t AllocateStackInternal_def GCSPop_def Let_def) blast
qed

text \<open>The constructor aborts exactly when the stack buffer is smaller than 12 KiB.  Otherwise the
  guest starts with the stack pointer at the 16-byte aligned top of the buffer, a null link register,
  the marker value in the other general registers, clear flags and branch type, a null program
  counter (so that a step does nothing), an empty control stack that is checked, no hook and no
  observer, outside any run, and with the memory as it was.\<close>

theorem construct_initial_state:
  "if stack_size < 12 * 1024 then construct cache data stack_buffer stack_size s = Inl StackTooSmall
   else \<exists>s'. construct cache data stack_buffer stack_size s = Inr s'
     \<and> map (\<lambda>i. ReadXRegister i s') [0..<30] = replicate 30 0xbadbeef \<and> ReadXRegister 30 s' = 0
     \<and> ReadRegister 31 Reg31IsStackPointer s' = (stack_buffer + stack_size) AND NOT 15
     \<and> sys_ok s' \<and> ReadSys SysNZCV s' = Inr 0 \<and> btype s' = DefaultBType \<and> next_btype s' = DefaultBType
     \<and> IsSimulationFinished s' \<and> gcs_stack s' = [] \<and> gcs_enabled s' \<and> \<not> busy s'
     \<and> branch_hook s' = None \<and> write_sink s' = None \<and> predecode_cache s' = cache \<and> memory s' = memory s"
proof (cases "stack_size < 12 * 1024")
  case True
  then show ?thesis by (simp add: construct_def CheckStackSize_def kMinStackSize_def)
next
  case False
  let ?r = "s\<lparr>stack := Allocate data default_SimStack, last_instr := 0, form_hash := 0,
        gcs_valid := False, gcs_live := False, gcs_token := kGCSNoStack, gcs_enabled := False,
        local_monitor := lm_initial, global_monitor := gm_initial, write_sink := None\<rparr>"
  from ResetState_result [of ?r] obtain stacks token where
    t: "ResetState ?r = Inr ((WriteSp (stack_base (stack ?r)) (ResetVRegisters (ResetRegisters (ResetSystemRegisters ?r))))
      \<lparr>gcs_stacks := stacks, gcs_valid := True, gcs_live := True, gcs_token := token, gcs_stack := [], gcs_enabled := True,
       pc_reg := 0, pc_modified := False, btype := DefaultBType, next_btype := DefaultBType\<rparr>)" (is "_ = Inr ?t")
    by auto
  let ?s' = "WriteSp ((stack_buffer + stack_size) AND NOT 15)
    (?t\<lparr>guard_pages := False, predecode_cache := cache, cur_range := None, branch_hook := None,
       busy := False, vixl_trace := 0, trace_parameters := 0, fpsr_storage := 0, rand_gen := rand_seed\<rparr>)"
  have c: "construct cache data stack_buffer stack_size s = Inr ?s'"
    unfolding construct_def CheckStackSize_def kMinStackSize_def using False t by (simp add: Let_def)
  note [simp] = ResetSystemRegisters_def ResetRegisters_eq ResetVRegisters_def WriteSp_def
    WriteRegister_def
  have "map (\<lambda>i. ReadXRegister i ?s') [0..<30] = replicate 30 0xbadbeef"
    "ReadXRegister 30 ?s' = 0"
    "ReadRegister 31 Reg31IsStackPointer ?s' = (stack_buffer + stack_size) AND NOT 15"
    by (simp_all add: ReadRegister_def list_eq_iff_nth_eq del: upt.simps replicate.simps)
  moreover have "sys_ok ?s'" by (simp add: sys_ok_def NZCV_default_def FPCR_default_def masked_default)
  moreover have "ReadSys SysNZCV ?s' = Inr 0" by (simp add: ReadSys_NZCV NZCV_default_def sr_default_def)
  ultimately show ?thesis
    unfolding c using False by (simp add: IsSimulationFinished_def)
qed

end
