(* ===== verification/Branch_Contracts.thy ===== *)
theory Branch_Contracts
  imports Api_Contracts
begin

text \<open>
  What the branches promise: which targets an authenticated branch accepts, how calls
  and returns balance the guarded control stack, what the branch hook can change, and
  what a nested run leaves behind.
\<close>

section \<open>Authenticated targets\<close>

text \<open>The key an authenticated register branch uses.\<close>

abbreviation branch_key :: "instruction \<Rightarrow> PACKey" where
  "branch_key instr \<equiv> (if ExtractBit 10 (insn_bits instr) = 0 then kPACKeyIA else kPACKeyIB)"

lemma low_two_bits: "(w :: u64) AND 3 = 0 \<longleftrightarrow> \<not> bit w 0 \<and> \<not> bit w 1"
proof -
  have three: "(3 :: u64) = mask 2" by (simp add: mask_eq_exp_minus_1)
  have "w AND mask 2 \<noteq> 0 \<longleftrightarrow> (\<exists>i. bit w i \<and> i < 2)"
    unfolding word_nonzero_iff_bit bit_and_iff bit_mask_iff by auto
  also have "\<dots> \<longleftrightarrow> bit w 0 \<or> bit w 1" by (auto simp: numeral_2_eq_2 less_Suc_eq)
  finally show ?thesis unfolding three by blast
qed

lemma error_bits_set:
  assumes "key_number key < 2"
  shows "drop_bit 53 ((extend_ptr p AND NOT (push_bit 53 3)) OR push_bit 53 (push_bit (key_number key) 1)) AND 3 \<noteq> (0 :: u64)"
proof -
  have n: "key_number key = 0 \<or> key_number key = 1" using assms by auto
  then show ?thesis
    unfolding low_two_bits by (auto simp: bit_simps bit_1_iff)
qed

text \<open>An authenticated register branch goes on exactly when the pointer carries the code computed
  for its context and key and lies in the lower half of the address space; then its target is the
  pointer with the code stripped.  Every other pointer aborts, also a correctly signed pointer of the
  upper half, since the test looks at two bits of the sign extension.\<close>

theorem authenticated_branch_target:
  assumes "authenticate f"
  shows "authenticated_target instr f =
    (let p = branch_addr f; target = StripPAC p kInstructionPointer
     in if p AND pac_field = ComputePAC target (branch_context f) (branch_key instr) AND pac_field \<and> \<not> bit p 55
        then Inr target else Inl PointerAuthFailure)"
proof -
  let ?p = "branch_addr f"
  have k: "key_number (branch_key instr) < 2" by (simp add: kPACKeyIA_def kPACKeyIB_def)
  have e: "drop_bit 53 (extend_ptr ?p) AND 3 = 0 \<longleftrightarrow> \<not> bit ?p 55"
    unfolding low_two_bits by (simp add: bit_drop_bit_eq bit_extend_ptr)
  show ?thesis
    using assms error_bits_set [OF k, of ?p] e
    by (auto simp: authenticated_target_def AuthPAC_extend StripPAC_extend Let_def GetTopPACBit_def HasTBI_def
        split: if_splits)
qed

definition signed_form :: branch_form where
  "signed_form = \<lparr> authenticate = True, link = False, ret = False, compare_gcs = False,
     branch_addr = AddPAC 0x1000 7 kPACKeyIA kInstructionPointer, branch_context = 7 \<rparr>"

lemma bit_4096: "bit (0x1000 :: u64) i \<longleftrightarrow> i = 12"
proof -
  have "(0x1000 :: u64) = 2 ^ 12" by simp
  then show ?thesis by (simp only: bit_exp_iff) auto
qed

theorem authenticated_branch_target_witness:
  "authenticated_target \<lparr> insn_addr = 0, insn_bits = 0 \<rparr> signed_form = Inr 0x1000"
proof -
  have c: "canonical 0x1000" unfolding canonical_def bit_4096 by simp
  have s: "StripPAC (branch_addr signed_form) kInstructionPointer = 0x1000"
    by (simp add: signed_form_def StripPAC_extend extend_AddPAC canonical_extend [OF c])
  have "\<not> bit (branch_addr signed_form) 55"
    by (simp add: signed_form_def AddPAC_split bit_or_iff bit_and_iff bit_pac_field bit_4096)
  moreover have "branch_addr signed_form AND pac_field = ComputePAC 0x1000 7 kPACKeyIA AND pac_field"
    by (simp add: signed_form_def AddPAC_field c canonical_extend [OF c])
  moreover have "branch_key \<lparr> insn_addr = 0, insn_bits = 0 \<rparr> = kPACKeyIA"
    by (simp add: ExtractBit_def)
  ultimately show ?thesis
    using authenticated_branch_target [of signed_form "\<lparr> insn_addr = 0, insn_bits = 0 \<rparr>"] s
    by (simp add: Let_def) (simp add: signed_form_def)
qed

section \<open>Returns and the guarded control stack\<close>

lemma ret_form_of:
  assumes "Mask UnconditionalBranchToRegisterMask (insn_bits instr) = RET"
  shows "register_branch_form instr s = Some \<lparr> authenticate = False, link = False, ret = True, compare_gcs = True,
      branch_addr = ReadXRegister (rn_of (insn_bits instr)) s, branch_context = 0 \<rparr>"
    and "GetBTypeFromInstruction instr t = DefaultBType"
  using assms by (simp_all add: register_branch_form_def GetBTypeFromInstruction_def Let_def)

lemma RET_leaf:
  assumes "Mask UnconditionalBranchToRegisterMask (insn_bits instr) = RET"
  shows "VisitUnconditionalBranchToRegister h instr s =
    (let target = ReadXRegister (rn_of (insn_bits instr)) s; expected = GCSPeek s in
     if gcs_enabled s \<and> expected \<noteq> 0 \<and> expected AND 3 \<noteq> 0
     then Inl (GcsFailure ''GCS contains misaligned return address'')
     else if gcs_enabled s \<and> expected \<noteq> 0 \<and> target \<noteq> 0 \<and> target \<noteq> expected
     then Inl (GcsFailure ''GCS mismatch'')
     else GabyHookedWritePc h target
            (s\<lparr>gcs_stack := if expected = 0 then gcs_stack s else butlast (gcs_stack s),
               next_btype := DefaultBType\<rparr>))"
proof -
  have "GCSPeek s \<noteq> 0 \<Longrightarrow> gcs_stack s \<noteq> []" by (auto simp: GCSPeek_def)
  moreover have "VisitUnconditionalBranchToRegister h instr s =
      and_then (check_gcs (ReadXRegister (rn_of (insn_bits instr)) s) s)
        (\<lambda>s1. GabyHookedWritePc h (ReadXRegister (rn_of (insn_bits instr)) s) (WriteNextBType DefaultBType s1))"
    by (simp add: VisitUnconditionalBranchToRegister_def ret_form_of [OF assms] authenticated_target_def Let_def)
  ultimately show ?thesis
    by (auto simp: check_gcs_def Let_def ReportGCSFailure_def GCSPop_def WriteNextBType_def)
qed

text \<open>What \<open>RET\<close> does.  With a return address on the control stack it pops it, and aborts when
  checks are on and the address is misaligned or differs from a target that is not null; with an empty
  stack (or a null entry) nothing is checked and nothing popped.  Then it branches, with no branch type.\<close>

theorem RET_checks_the_control_stack:
  assumes "Mask UnconditionalBranchToRegisterMask (insn_bits instr) = RET"
  shows "VisitUnconditionalBranchToRegister h instr s =
    (let target = ReadXRegister (rn_of (insn_bits instr)) s; expected = GCSPeek s in
     if gcs_enabled s \<and> expected \<noteq> 0 \<and> expected AND 3 \<noteq> 0
     then Inl (GcsFailure ''GCS contains misaligned return address'')
     else if gcs_enabled s \<and> expected \<noteq> 0 \<and> target \<noteq> 0 \<and> target \<noteq> expected
     then Inl (GcsFailure ''GCS mismatch'')
     else GabyHookedWritePc h target
            (s\<lparr>gcs_stack := if expected = 0 then gcs_stack s else butlast (gcs_stack s),
               next_btype := DefaultBType\<rparr>))"
  by (rule RET_leaf [OF assms])

definition ret_instr :: "u64 \<Rightarrow> instruction" where
  "ret_instr a = \<lparr> insn_addr = a, insn_bits = ret_word \<rparr>"

lemma ret_instr_simps [simp]:
  "insn_addr (ret_instr a) = a" "Mask UnconditionalBranchToRegisterMask (insn_bits (ret_instr a)) = RET"
  "rn_of (insn_bits (ret_instr a)) = 30"
  by (simp_all add: ret_instr_def ret_word_def Mask_def GetRn_def ExtractBits_def
      ExtractUnsignedBitfield32_def ExtractUnsignedBitfield64_def)

text \<open>A link register that differs from the recorded return address.\<close>

theorem RET_checks_the_control_stack_witness:
  "VisitUnconditionalBranchToRegister (bare_host False) (ret_instr 0x1000)
     (ret_vsim\<lparr>gcs_stack := [0x2000], xregs := (\<lambda>r. 0x3000)\<rparr>) = Inl (GcsFailure ''GCS mismatch'')"
proof -
  have "(0x2000 :: u64) AND 3 = 0" by simp
  then show ?thesis
    using RET_checks_the_control_stack [of "ret_instr 0x1000" "bare_host False"
        "ret_vsim\<lparr>gcs_stack := [0x2000], xregs := (\<lambda>r. 0x3000)\<rparr>"]
    by (simp add: GCSPeek_def ReadRegister_def Let_def) (simp add: ret_vsim_def blank_vsim_def)
qed

text \<open>C28: A call and its return balance.  After \<open>BL\<close>, whatever the callee does, if at its
  \<open>RET\<close> the control stack and the link register are those the call left, the return does not
  abort, goes to the instruction after the call, and leaves the control stack as before the call.\<close>

theorem call_and_return_balance:
  assumes "Mask UnconditionalBranchMask (insn_bits call) = BL" "branch_hook s = None"
    and "GetNextInstruction call \<noteq> 0" "GetNextInstruction call AND 3 = 0"
    and "Mask UnconditionalBranchToRegisterMask (insn_bits return) = RET" "rn_of (insn_bits return) = 30"
    and "VisitUnconditionalBranch h call s = Inr s1"
    and "gcs_stack t = gcs_stack s1" "xregs t 30 = xregs s1 30" "branch_hook t = None"
  shows "pc_reg s1 = AddressUntag (GetImmPCOffsetTarget call)
    \<and> (\<exists>t'. VisitUnconditionalBranchToRegister h return t = Inr t' \<and> gcs_stack t' = gcs_stack s
          \<and> pc_reg t' = AddressUntag (GetNextInstruction call))"
proof -
  have "s1 = WritePc (GetImmPCOffsetTarget call)
      (GCSPush (GetNextInstruction call) (WriteLr (GetNextInstruction call) s))"
    using assms(1,2,7) by (simp add: VisitUnconditionalBranch_def GabyHookedWritePc_def GCSPush_def WriteLr_def
        WriteRegister_def)
  then have s1: "gcs_stack s1 = gcs_stack s @ [GetNextInstruction call]" "xregs s1 30 = GetNextInstruction call"
      "pc_reg s1 = AddressUntag (GetImmPCOffsetTarget call)"
    by (simp_all add: WritePc_def GCSPush_def WriteLr_def WriteRegister_def)
  then show ?thesis
    using assms(3,4,6,8-10)
    by (simp add: RET_leaf [OF assms(5)] GCSPeek_def Let_def GabyHookedWritePc_def WritePc_def ReadRegister_def)
qed

definition call_instr :: instruction where
  "call_instr = \<lparr> insn_addr = 0x1000, insn_bits = 0x94000002 \<rparr>"

theorem call_and_return_balance_witness:
  "\<exists>s1 t'. VisitUnconditionalBranch (bare_host False) call_instr ret_vsim = Inr s1 \<and>
     VisitUnconditionalBranchToRegister (bare_host False) (ret_instr 0x1008) s1 = Inr t' \<and> gcs_stack t' = []"
proof -
  have c: "Mask UnconditionalBranchMask (insn_bits call_instr) = BL" "GetNextInstruction call_instr = 0x1004"
    by (simp_all add: call_instr_def Mask_def GetNextInstruction_def)
  obtain s1 where s1: "VisitUnconditionalBranch (bare_host False) call_instr ret_vsim = Inr s1" "branch_hook s1 = None"
    by (simp add: VisitUnconditionalBranch_def c GabyHookedWritePc_def GCSPush_def WriteLr_def WriteRegister_def
        WritePc_def)
  then show ?thesis
    using call_and_return_balance [OF c(1) _ _ _ _ _ s1(1), of "ret_instr 0x1008" s1] by (auto simp: c)
qed

section \<open>The branch hook\<close>

text \<open>A hook that returns the target it was given changes nothing on word-aligned targets; on a
  misaligned target the simulator aborts with the hook installed, and branches there without it.\<close>

theorem identity_hook_changes_only_misaligned_branches:
  assumes "branch_hook s = Some k" "\<And>a t. hook_fn h k a t = Inr (a, t)"
  shows "map_result (\<lambda>t. t\<lparr>branch_hook := None\<rparr>) (GabyHookedWritePc h target s) =
    (if IsWordAligned target then GabyHookedWritePc h target (s\<lparr>branch_hook := None\<rparr>) else Inl HookMisalignedPc)"
  using assms by (simp add: GabyHookedWritePc_def WritePc_def)

theorem identity_hook_changes_only_misaligned_branches_witness:
  "map_result (\<lambda>t. t\<lparr>branch_hook := None\<rparr>)
     (GabyHookedWritePc (bare_host False) 0x1002 (ret_vsim\<lparr>branch_hook := Some 0\<rparr>)) = Inl HookMisalignedPc"
proof -
  have "\<not> IsWordAligned 0x1002" by (simp add: IsWordAligned_def)
  then show ?thesis
    using identity_hook_changes_only_misaligned_branches [of "ret_vsim\<lparr>branch_hook := Some 0\<rparr>" 0 "bare_host False" "0x1002"]
    by (simp add: bare_host_def)
qed

text \<open>A hook that returns 0 ends the run: if the leaf returns with the program counter the hook
  committed, the step succeeds and the run loop of either track stops there, whatever the target was.\<close>

theorem hook_returning_null_ends_the_run:
  assumes "branch_hook s = Some k" "hook_fn h k target s = Inr (0, t)"
  shows "\<exists>s'. and_then (GabyHookedWritePc h target s) (finish_instruction env False) = Inr s'
    \<and> run_loop (StepOnce env) s' = Some (Inr s') \<and> run_loop (DebugStepOnce env) s' = Some (Inr s')"
proof -
  have stop: "IsSimulationFinished s' \<Longrightarrow> run_loop (StepOnce env) s' = Some (Inr s')"
    "IsSimulationFinished s' \<Longrightarrow> run_loop (DebugStepOnce env) s' = Some (Inr s')" for s'
    by (subst run_loop.simps, simp add: StepOnce_def DebugStepOnce_def)+
  show ?thesis
    using assms stop
    by (simp add: GabyHookedWritePc_def IsWordAligned_def finish_instruction_def WritePc_def IncrementPc_def
        UpdateBType_def IsSimulationFinished_def AddressUntag_def)
qed

definition stop_host :: "'v host" where
  "stop_host = (bare_host False)\<lparr>hook_fn := (\<lambda>k a s. Inr (0, s))\<rparr>"

theorem hook_returning_null_ends_the_run_witness:
  "\<exists>s'. and_then (GabyHookedWritePc stop_host 0x2000 (ret_vsim\<lparr>branch_hook := Some 0\<rparr>))
       (finish_instruction ret_env False) = Inr s' \<and> run_loop (StepOnce ret_env) s' = Some (Inr s')"
  using hook_returning_null_ends_the_run [of "ret_vsim\<lparr>branch_hook := Some 0\<rparr>" 0 stop_host "0x2000"
      "ret_vsim\<lparr>branch_hook := Some 0\<rparr>" ret_env]
  by (auto simp: stop_host_def)

text \<open>A hook that reads the branch type through the typed interface and writes it back.\<close>

definition echo_btype :: "nat \<Rightarrow> u64 \<Rightarrow> 'v vsim \<Rightarrow> abort + (u64 \<times> 'v vsim)" where
  "echo_btype k a s = and_then (ReadSys SysBType s) (\<lambda>v. and_then (WriteSys SysBType v s) (\<lambda>s'. Inr (a, s')))"

text \<open>A hook that writes back the branch type it just read loses the one staged for the target.
  The interface allows the write, and outside a run it is the identity; inside the hook of an indirect
  branch, the target instruction then runs with the default branch type instead of the staged one.\<close>

theorem echoing_the_branch_type_loses_the_staged_one:
  assumes "branch_hook s = Some k" "hook_fn h = echo_btype" "IsWordAligned target"
  shows "map_result (\<lambda>t. btype (UpdateBType t)) (GabyHookedWritePc h target s) = Inr DefaultBType
    \<and> map_result (\<lambda>t. btype (UpdateBType t)) (GabyHookedWritePc h target (s\<lparr>branch_hook := None\<rparr>)) = Inr (next_btype s)
    \<and> map_result (\<lambda>(a, t). btype t) (echo_btype k target s) = Inr (btype s)"
proof -
  have "\<not> (3 :: u8) < ucast (BType_code (btype s))" using BType_roundtrip(3) by (simp add: not_less)
  then have "echo_btype k target s = Inr (target, s\<lparr>next_btype := DefaultBType\<rparr>)"
    by (simp add: echo_btype_def ReadSys_def WriteSys_def Let_def BType_roundtrip(2) WriteNextBType_def UpdateBType_def)
  with assms show ?thesis
    by (simp add: GabyHookedWritePc_def WritePc_def UpdateBType_def)
qed

definition echo_host :: "'v host" where "echo_host = (bare_host False)\<lparr>hook_fn := echo_btype\<rparr>"

theorem echoing_the_branch_type_loses_the_staged_one_witness:
  "map_result (\<lambda>t. btype (UpdateBType t))
     (GabyHookedWritePc echo_host 0x1000 (ret_vsim\<lparr>branch_hook := Some 0, next_btype := BranchAndLink\<rparr>)) = Inr DefaultBType"
  using echoing_the_branch_type_loses_the_staged_one
    [of "ret_vsim\<lparr>branch_hook := Some 0, next_btype := BranchAndLink\<rparr>" 0 echo_host "0x1000"]
  by (simp add: echo_host_def IsWordAligned_def)

section \<open>The execution scope\<close>

lemma run_loop_ends:
  assumes "run_loop step s = Some (Inr s')"
  shows "\<exists>t. step t = Inr (False, s')"
proof -
  obtain n where "run_fuel n step s = Some (Inr s')" using run_loop_fuel [OF assms] by blast
  then show ?thesis
  proof (induction n arbitrary: s)
    case (Suc n)
    then show ?case by (auto split: sum.splits prod.splits if_splits)
  qed simp
qed

lemma run_ends_finished:
  "run_loop (StepOnce env) s = Some (Inr s') \<Longrightarrow> IsSimulationFinished s'"
  "run_loop (DebugStepOnce env) s = Some (Inr s') \<Longrightarrow> IsSimulationFinished s'"
  by (auto dest!: run_loop_ends simp: StepOnce_def DebugStepOnce_def split: if_splits)

lemma restore_saved: "GabySaveCursor (GabyRestoreCursor c s) = c"
  by (simp add: GabySaveCursor_def GabyRestoreCursor_def)

lemma run_cursor:
  assumes "RunFrom env entry_pc s = Some (Inr s') \<or> DebugRunFrom env entry_pc s = Some (Inr s')"
  shows "vixl_trace s' = vixl_trace s \<and>
    (if busy s then GabySaveCursor s' = GabySaveCursor s else IsSimulationFinished s' \<and> \<not> busy s')"
proof -
  have "\<exists>t. IsSimulationFinished t \<and> s' = scope_exit (fst (scope_enter m s)) t" for m
    using assms run_ends_finished
    by (fastforce simp: RunFrom_def DebugRunFrom_def scope_enter_def split: if_splits)
  then obtain t where "IsSimulationFinished t" "s' = scope_exit (fst (scope_enter 0 s)) t" by blast
  then show ?thesis
    by (auto simp: scope_exit_def scope_enter_def Let_def IsSimulationFinished_def GabyRestoreCursor_def
        GabySaveCursor_def)
qed

text \<open>C10: The execution scope.  A run that ends inside another one hands its caller the cursor it had at
  the call (program counter, remembered range, form, branch types) and the trace mask; an outermost run
  ends at the null program counter, with the simulator no longer busy.  Both tracks behave alike.\<close>

theorem run_restores_the_cursor_of_its_caller:
  assumes "RunFrom env entry_pc s = Some (Inr s') \<or> DebugRunFrom env entry_pc s = Some (Inr s')"
  shows "vixl_trace s' = vixl_trace s \<and>
    (if busy s then GabySaveCursor s' = GabySaveCursor s else IsSimulationFinished s' \<and> \<not> busy s')"
  by (rule run_cursor [OF assms])

text \<open>The sample guest, entered with any program counter and control stack.\<close>

lemma runnable_cong:
  assumes "predecode_cache s = predecode_cache t" "pc_reg s = pc_reg t" "memory s = memory t"
    "guard_pages s = guard_pages t" "btype s = btype t"
  shows "runnable env s = runnable env t"
  using assms by (simp add: runnable_def registered_def btype_checked_def fetch_def)

definition nested_vsim :: "bool \<Rightarrow> u64 \<Rightarrow> u64 list \<Rightarrow> visitor vsim" where
  "nested_vsim nested pc gcs = ret_vsim\<lparr>busy := nested, pc_reg := pc, gcs_stack := gcs\<rparr>"

lemma nested_fields [simp]:
  "busy (nested_vsim n pc gcs) = n" "gcs_stack (nested_vsim n pc gcs) = gcs" "pc_reg (nested_vsim n pc gcs) = pc"
  "predecode_cache (nested_vsim n pc gcs) = predecode_cache ret_vsim" "memory (nested_vsim n pc gcs) = memory ret_vsim"
  "guard_pages (nested_vsim n pc gcs) = False" "btype (nested_vsim n pc gcs) = DefaultBType"
  "xregs (nested_vsim n pc gcs) r = 0" "branch_hook (nested_vsim n pc gcs) = None"
  by (simp_all add: nested_vsim_def)

lemma nested_ret_run:
  assumes "gcs = [] \<or> last gcs AND 3 = 0"  "gcs \<noteq> [] \<Longrightarrow> last gcs \<noteq> 0"
  shows "\<exists>s'. RunFrom ret_env 0x1000 (nested_vsim n pc gcs) = Some (Inr s') \<and> gcs_stack s' = butlast gcs"
proof -
  define s1 where "s1 = WritePc 0x1000 ((nested_vsim n pc gcs)\<lparr>busy := True, vixl_trace := 0\<rparr>)"
  have s1: "pc_reg s1 = 0x1000" "gcs_stack s1 = gcs" "guard_pages s1 = False" "btype s1 = DefaultBType"
    "xregs s1 30 = 0" "branch_hook s1 = None" "predecode_cache s1 = predecode_cache ret_vsim" "memory s1 = memory ret_vsim"
    by (simp_all add: s1_def WritePc_def AddressUntag_def)
  have run: "runnable ret_env s1"
    using ret_runnable runnable_cong [of s1 ret_vsim ret_env] s1 by simp
  have f: "fetch 0x1000 s1 = ret_instr 0x1000"
    using ret_fetch by (simp add: fetch_def s1 ret_instr_def)
  obtain t where t: "ExecuteInstruction ret_env s1 = Inr t" "pc_reg t = 0" "gcs_stack t = butlast gcs"
  proof -
    have "\<exists>t. ExecuteInstruction ret_env s1 = Inr t \<and> pc_reg t = 0 \<and> gcs_stack t = butlast gcs"
      using assms
      by (auto simp: ExecuteInstruction_def Let_def s1 f check_btype_def Visit_def RET_leaf ReadRegister_def
          GCSPeek_def GabyHookedWritePc_def finish_instruction_def UpdateBType_def IncrementPc_def WritePc_def
          AddressUntag_def)
    then show ?thesis using that by blast
  qed
  obtain k where k: "ExecuteInstructionCached ret_env s1 = Inr (set_range k t)"
    using bare_leaves.cached_step_is_decoder_step [OF _ run] t(1) by auto
  have "run_loop (StepOnce ret_env) s1 = Some (Inr (set_range k t))"
    using s1(1) t(2) by (subst run_loop.simps, subst run_loop.simps)
      (simp add: StepOnce_def IsSimulationFinished_def k range_simps)
  then show ?thesis
    using t(3) by (auto simp: RunFrom_def scope_enter_def s1_def ret_vsim_def scope_exit_def Let_def
        GabyRestoreCursor_def range_simps)
qed

theorem run_restores_the_cursor_of_its_caller_witness:
  "\<exists>s'. RunFrom ret_env 0x1000 (nested_vsim True 0x5000 []) = Some (Inr s') \<and> pc_reg s' = 0x5000"
proof -
  obtain s' where s': "RunFrom ret_env 0x1000 (nested_vsim True 0x5000 []) = Some (Inr s')"
    using nested_ret_run [of "[]" True "0x5000"] by auto
  then have "GabySaveCursor s' = GabySaveCursor (nested_vsim True 0x5000 [])"
    using run_restores_the_cursor_of_its_caller [of ret_env "0x1000" "nested_vsim True 0x5000 []" s'] by simp
  then have "pc_reg s' = 0x5000" by (simp add: GabySaveCursor_def)
  with s' show ?thesis by blast
qed

text \<open>A state at which a run ends by returning to null: the instruction is a RET whose register holds 0, its
  form and leaf are those of RET, and no check stops it; a branch hook, if there is one, lets the null target pass.\<close>

definition returns_to_null :: "visitor exec_env \<Rightarrow> visitor host \<Rightarrow> visitor vsim \<Rightarrow> bool" where
  "returns_to_null env h t \<longleftrightarrow>
     (let instr = fetch (pc_reg t) t; d = decode (pre_env env) (insn_bits instr)
      in pc_reg t \<noteq> 0 \<and> Mask UnconditionalBranchToRegisterMask (insn_bits instr) = RET
        \<and> ReadXRegister (rn_of (insn_bits instr)) t = 0 \<and> check_btype instr t = Inr ()
        \<and> is_available d \<and> \<not> is_unallocated d
        \<and> resolve (pre_env env) (form_hash_of d) = Some V_UnconditionalBranchToRegister \<and> \<not> last_was_movprfx t
        \<and> (\<forall>hook. branch_hook t = Some hook \<longrightarrow> (\<forall>u. hook_fn h hook 0 u = Inr (0, u))))"

lemma hooked_null:
  assumes "\<forall>hook. branch_hook t = Some hook \<longrightarrow> (\<forall>u. hook_fn h hook 0 u = Inr (0, u))"
  shows "GabyHookedWritePc h 0 t = Inr (WritePc 0 t)"
  using assms by (auto simp: GabyHookedWritePc_def IsWordAligned_def split: option.split)

text \<open>The step there pops the control stack and finishes the run, on both tracks.\<close>

lemma null_return_step:
  assumes env: "leaf_of env = visitor_fun h rest" and t: "returns_to_null env h t"
    and top: "last gcs AND 3 = 0" "last gcs \<noteq> 0" "gcs_stack t = gcs" "gcs \<noteq> []"
  shows "\<exists>u. DebugStepOnce env t = Inr (True, u) \<and> IsSimulationFinished u \<and> gcs_stack u = butlast gcs"
proof -
  let ?i = "fetch (pc_reg t) t"
  have r: "Mask UnconditionalBranchToRegisterMask (insn_bits ?i) = RET" "ReadXRegister (rn_of (insn_bits ?i)) t = 0"
    "check_btype ?i t = Inr ()" "\<not> IsSimulationFinished t"
    using t by (simp_all add: returns_to_null_def Let_def IsSimulationFinished_def)
  define t0 where "t0 = t\<lparr>pc_modified := False, form_hash := form_hash_of (decode (pre_env env) (insn_bits ?i))\<rparr>"
  have t0: "ReadXRegister (rn_of (insn_bits ?i)) t0 = 0" "GCSPeek t0 = last gcs" "gcs_stack t0 = gcs"
    using r(2) top by (simp_all add: t0_def ReadRegister_def Let_def GCSPeek_def cong: if_cong)
  have hk: "GabyHookedWritePc h 0 (t0\<lparr>gcs_stack := butlast gcs, next_btype := DefaultBType\<rparr>) =
      Inr (WritePc 0 (t0\<lparr>gcs_stack := butlast gcs, next_btype := DefaultBType\<rparr>))"
    by (rule hooked_null) (use t in \<open>simp add: t0_def returns_to_null_def Let_def\<close>)
  have leaf: "VisitUnconditionalBranchToRegister h ?i t0 =
      Inr (WritePc 0 (t0\<lparr>gcs_stack := butlast gcs, next_btype := DefaultBType\<rparr>))"
    using top t0 hk by (simp add: RET_leaf [OF r(1)] Let_def)
  have "check_btype ?i (t\<lparr>pc_modified := False\<rparr>) = Inr ()" using r(3) by (simp add: check_btype_def)
  then have "ExecuteInstruction env t =
      finish_instruction env False (WritePc 0 (t0\<lparr>gcs_stack := butlast gcs, next_btype := DefaultBType\<rparr>))"
    using t leaf
    by (cases "finish_instruction env False (WritePc 0 (t0\<lparr>gcs_stack := butlast gcs, next_btype := DefaultBType\<rparr>))")
      (simp_all add: ExecuteInstruction_def returns_to_null_def Visit_def Let_def env t0_def last_was_movprfx_def)
  then show ?thesis using r(4)
    by (simp add: DebugStepOnce_def finish_instruction_def UpdateBType_def IncrementPc_def WritePc_def
        AddressUntag_def IsSimulationFinished_def)
qed

lemma cached_null_return_step:
  assumes env: "leaf_of env = visitor_fun h rest" and contract: "oblivious_host h" "\<And>n. oblivious (rest n)"
    and t: "returns_to_null env h t" "runnable env t"
    and top: "last gcs AND 3 = 0" "last gcs \<noteq> 0" "gcs_stack t = gcs" "gcs \<noteq> []"
  shows "\<exists>u. StepOnce env t = Inr (True, u) \<and> IsSimulationFinished u \<and> gcs_stack u = butlast gcs"
proof -
  obtain u where u: "DebugStepOnce env t = Inr (True, u)" "IsSimulationFinished u" "gcs_stack u = butlast gcs"
    using null_return_step [OF env t(1) top] by blast
  have "set_range (cur_range t) t = t" by (simp add: set_range_def)
  then obtain k where "StepOnce env t = map_result (map_prod id (set_range k)) (DebugStepOnce env t)"
    using range_oblivious.step_pair [OF visitor_contract [OF contract] env, of t "cur_range t"] t(2) by auto
  with u show ?thesis by (simp add: range_simps)
qed

text \<open>Steps up to a last one are the run.\<close>

lemma run_along:
  assumes "(\<lambda>a b. step a = Inr (True, b))\<^sup>*\<^sup>* s t" "step t = Inr (True, u)" "step u = Inr (False, u)"
  shows "run_loop step s = Some (Inr u)"
  using assms(1)
proof (induction rule: converse_rtranclp_induct)
  case base
  show ?case using assms(2,3) by (subst run_loop.simps, subst run_loop.simps) simp
next
  case (step a b)
  then show ?case by (subst run_loop.simps) simp
qed

definition nested_reaches :: "bool \<Rightarrow> visitor exec_env \<Rightarrow> u64 \<Rightarrow> visitor vsim \<Rightarrow> visitor vsim \<Rightarrow> bool" where
  "nested_reaches cached env entry s t \<longleftrightarrow>
     (let step = (if cached then StepOnce env else DebugStepOnce env);
          s0 = WritePc entry (snd (scope_enter (if cached then 0 else trace_parameters s) s))
      in (\<lambda>a b. step a = Inr (True, b))\<^sup>*\<^sup>* s0 t)"

text \<open>C35: The cursor of a nested run leaves out the guarded control stack.  Take any nested run, on either
  track, of any guest code that comes to a RET with a null target, the documented end of a run, with
  the control stack as it was at the call of the run.  Then the run returns, its caller has its cursor back,
  but the return address on top of the stack, which the caller recorded, is gone: the caller's own
  RET to this address aborts with a mismatch when the entry below is another address.\<close>

theorem nested_run_pops_the_control_stack_of_its_caller:
  assumes "leaf_of env = visitor_fun h rest" "oblivious_host h" "\<And>n. oblivious (rest n)"
    and "busy s" "gcs_stack s = below @ [addr]" "addr \<noteq> 0" "addr AND 3 = 0"
    and "nested_reaches cached env entry s t" "returns_to_null env h t" "gcs_stack t = gcs_stack s"
    and "cached \<Longrightarrow> predecode_cache s \<noteq> None \<and> runnable env t"
  shows "\<exists>s'. (if cached then RunFrom else DebugRunFrom) env entry s = Some (Inr s')
    \<and> GabySaveCursor s' = GabySaveCursor s \<and> gcs_stack s' = below
    \<and> (\<forall>c instr. gcs_stack c = gcs_stack s' \<longrightarrow> gcs_enabled c
        \<longrightarrow> Mask UnconditionalBranchToRegisterMask (insn_bits instr) = RET
        \<longrightarrow> ReadXRegister (rn_of (insn_bits instr)) c = addr
        \<longrightarrow> GCSPeek c \<notin> {0, addr} \<longrightarrow> GCSPeek c AND 3 = 0
        \<longrightarrow> VisitUnconditionalBranchToRegister h instr c = Inl (GcsFailure ''GCS mismatch''))"
proof -
  let ?step = "if cached then StepOnce env else DebugStepOnce env"
  let ?trace = "if cached then 0 else trace_parameters s"
  have gcs: "last (gcs_stack t) AND 3 = 0" "last (gcs_stack t) \<noteq> 0" "gcs_stack t \<noteq> []" using assms(5-7,10) by simp_all
  obtain u where u: "?step t = Inr (True, u)" "IsSimulationFinished u" "gcs_stack u = butlast (gcs_stack t)"
    using null_return_step [OF assms(1,9) gcs(1,2) refl gcs(3)]
      cached_null_return_step [OF assms(1-3,9) _ gcs(1,2) refl gcs(3)] assms(11) by (cases cached) auto
  have "run_loop ?step (WritePc entry (snd (scope_enter ?trace s))) = Some (Inr u)"
    by (rule run_along [where step = ?step and t = t and u = u])
      (use assms(8) u(1,2) in \<open>simp_all add: nested_reaches_def Let_def StepOnce_def DebugStepOnce_def\<close>)
  then have run: "(if cached then RunFrom else DebugRunFrom) env entry s = Some (Inr (scope_exit (fst (scope_enter ?trace s)) u))"
    using assms(11) by (cases cached) (simp_all add: RunFrom_def DebugRunFrom_def scope_enter_def)
  have "GabySaveCursor (scope_exit (fst (scope_enter ?trace s)) u) = GabySaveCursor s"
    "gcs_stack (scope_exit (fst (scope_enter ?trace s)) u) = below"
    using assms(4,5,10) u(3) by (simp_all add: scope_exit_def scope_enter_def Let_def restore_saved)
      (simp add: GabyRestoreCursor_def)
  with run assms(6) show ?thesis by (auto simp: RET_leaf Let_def)
qed

theorem nested_run_pops_the_control_stack_of_its_caller_witness:
  "\<exists>s'. RunFrom ret_env 0x1000 (nested_vsim True 0x5000 [0x7000, 0x6000]) = Some (Inr s') \<and> gcs_stack s' = [0x7000]"
proof -
  let ?s = "nested_vsim True 0x5000 [0x7000, 0x6000]"
  define t where "t = WritePc 0x1000 (?s\<lparr>busy := True, vixl_trace := 0\<rparr>)"
  have t: "pc_reg t = 0x1000" "gcs_stack t = [0x7000, 0x6000]" "guard_pages t = False" "btype t = DefaultBType"
    "xregs t 30 = 0" "branch_hook t = None" "predecode_cache t = predecode_cache ret_vsim" "memory t = memory ret_vsim"
    "form_hash t = 0"
    by (simp_all add: t_def WritePc_def AddressUntag_def) (simp add: nested_vsim_def ret_vsim_def blank_vsim_def)
  have f: "fetch 0x1000 t = ret_instr 0x1000" using ret_fetch by (simp add: fetch_def t ret_instr_def)
  have run: "runnable ret_env t" using ret_runnable runnable_cong [of t ret_vsim ret_env] t by simp
  have "returns_to_null ret_env (bare_host False) t"
    by (simp add: returns_to_null_def Let_def t f ReadRegister_def check_btype_def last_was_movprfx_def movprfx_hashes)
  moreover have "nested_reaches True ret_env 0x1000 ?s t"
    by (simp add: nested_reaches_def scope_enter_def t_def)
  moreover have "predecode_cache ?s \<noteq> None" by (simp add: ret_vsim_def)
  ultimately show ?thesis
    using nested_run_pops_the_control_stack_of_its_caller
      [of ret_env "bare_host False" abort_rest ?s "[0x7000]" "0x6000" True "0x1000" t]
      bare_host_oblivious abort_rest_oblivious run t(2) by auto
qed

end
