(* ===== verification/Memory_Contracts.thy ===== *)
theory Memory_Contracts
  imports Track_Equivalence
begin

text \<open>
  What the memory accesses promise: round trips between stores and loads, the effect
  of the atomic operations, and the exclusive monitors.
\<close>

section \<open>Register fields\<close>

lemma unat_ExtractBits_less:
  assumes "lsb \<le> msb" "msb < 32"
  shows "unat (ExtractBits msb lsb bits) < 2 ^ (msb - lsb + 1)"
proof -
  have "take_bit (msb - lsb + 1) (ExtractBits msb lsb bits) = ExtractBits msb lsb bits"
    using assms by (intro word_eq_bitI)
      (auto simp: ExtractBits_def ExtractUnsignedBitfield32_def bit_simps bit_ExtractUnsignedBitfield64)
  then show ?thesis by (metis take_bit_nat_less_exp unsigned_take_bit_eq)
qed

lemma register_number_less:
  "rd_of bits < 32" "rn_of bits < 32" "rm_of bits < 32" "ra_of bits < 32" "rt_of bits < 32" "rt2_of bits < 32"
  "rs_of bits < 32"
  using unat_ExtractBits_less [of 0 4 bits] unat_ExtractBits_less [of 5 9 bits] unat_ExtractBits_less [of 16 20 bits]
    unat_ExtractBits_less [of 10 14 bits]
  by (simp_all add: GetRd_def GetRn_def GetRm_def GetRa_def GetRt_def GetRt2_def GetRs_def)

section \<open>Typed accesses\<close>

lemma MemReadT_Inr:
  "MemReadT a s = Inr v \<Longrightarrow> v = read_mem (memory s) (AddressUntag a) (LENGTH('a) div 8)" for v :: "'a::len word"
  by (auto simp: MemReadT_def MemRead_def)

lemma MemRead_memory_cong:
  assumes "stack s' = stack s" "mte_active s' = mte_active s" "mte_tags s' = mte_tags s"
    "MemReadT a s = Inr (v :: 'a::len word)"
  shows "MemReadT a s' = Inr (read_mem (memory s') (AddressUntag a) (LENGTH('a) div 8) :: 'a word)"
  using assms access_checks_cong [OF assms(1-3)] by (auto simp: MemReadT_def MemRead_def)

lemma WriteRegisterT_frame [frame_simps]:
  "memory (WriteRegisterT b c v s) = memory s" "stack (WriteRegisterT b c v s) = stack s"
  "vregs (WriteRegisterT b c v s) = vregs s" "nzcv (WriteRegisterT b c v s) = nzcv s"
  "pc_reg (WriteRegisterT b c v s) = pc_reg s"
  "mte_active (WriteRegisterT b c v s) = mte_active s" "mte_tags (WriteRegisterT b c v s) = mte_tags s"
  by (simp_all add: WriteRegisterT_def WriteRegisterNarrowSigned_def WriteRegisterNarrowUnsigned_def
      WriteRegister_def Let_def)

text \<open>What a register holds after a write of type \<open>T\<close>.\<close>

definition widened :: "bool \<Rightarrow> 'a::len word \<Rightarrow> u64" where
  "widened sgnd v = (if LENGTH('a) < 32 \<and> sgnd then take_bit 32 (scast v) else ucast v)"

lemma xregs_WriteRegisterT:
  assumes "c < 31"
  shows "xregs (WriteRegisterT sgnd c (v :: 'a::len word) s) = (xregs s)(c := widened sgnd v)"
proof -
  have "ucast (ucast (scast v :: u64) :: u32) = (take_bit 32 (scast v) :: u64)"
    by (rule word_eq_bitI) (simp add: bit_simps)
  moreover have "ucast (ucast (ucast v :: u64) :: u32) = (ucast v :: u64)" if "LENGTH('a) < 32"
    using that by (intro word_eq_bitI) (use bit_word_lt [of v] in \<open>fastforce simp: bit_simps\<close>)
  ultimately show ?thesis
    using assms by (auto simp: WriteRegisterT_def WriteRegisterNarrowSigned_def WriteRegisterNarrowUnsigned_def
        WriteRegister_def widened_def)
qed

lemma xregs_WriteRegisterT_zero: "WriteRegisterT sgnd 31 v s = s"
  by (simp add: WriteRegisterT_def WriteRegisterNarrowSigned_def WriteRegisterNarrowUnsigned_def)

section \<open>Atomic operations\<close>

lemma atomic_simple:
  fixes T :: "'a::len itself"
  assumes "AtomicMemorySimpleHelper u sgnd T instr s = Inr s'"
  defines "bits \<equiv> insn_bits instr"
  defines "a \<equiv> ReadRegister (rn_of bits) Reg31IsStackPointer s :: u64"
  defines "old \<equiv> read_mem (memory s) (AddressUntag a) (LENGTH('a) div 8) :: 'a word"
  shows "MemReadT a s = Inr old"
    and "MemWriteT a (atomic_simple_result sgnd (Mask AtomicMemorySimpleOpMask bits) old
           (ReadRegister (rs_of bits) Reg31IsZeroRegister s)) (WriteRegisterT sgnd (rt_of bits) old s) = Inr s'"
proof -
  from assms(1) obtain v :: "'a word" where v: "MemReadT a s = Inr v"
      "MemWriteT a (atomic_simple_result sgnd (Mask AtomicMemorySimpleOpMask bits) v
           (ReadRegister (rs_of bits) Reg31IsZeroRegister s)) (WriteRegisterT sgnd (rt_of bits) v s) = Inr s'"
    by (auto simp: AtomicMemorySimpleHelper_def Let_def bits_def a_def)
  with MemReadT_Inr [OF v(1)] show "MemReadT a s = Inr old"
    "MemWriteT a (atomic_simple_result sgnd (Mask AtomicMemorySimpleOpMask bits) old
           (ReadRegister (rs_of bits) Reg31IsZeroRegister s)) (WriteRegisterT sgnd (rt_of bits) old s) = Inr s'"
    by (simp_all add: old_def)
qed

lemma atomic_effect:
  fixes T :: "'a::len itself"
  assumes "AtomicMemorySimpleHelper u sgnd T instr s = Inr s'" "LENGTH('a) \<in> {8, 16, 32, 64}"
    and "a = (ReadRegister (rn_of (insn_bits instr)) Reg31IsStackPointer s :: u64)"
    and "old = (read_mem (memory s) (AddressUntag a) (LENGTH('a) div 8) :: 'a word)"
  shows "read_mem (memory s') (AddressUntag a) (LENGTH('a) div 8) =
      atomic_simple_result sgnd (Mask AtomicMemorySimpleOpMask (insn_bits instr)) old
        (ReadRegister (rs_of (insn_bits instr)) Reg31IsZeroRegister s)
    \<and> xregs s' = (if rt_of (insn_bits instr) = 31 then xregs s
                  else (xregs s)(rt_of (insn_bits instr) := widened sgnd old))"
proof -
  let ?n = "LENGTH('a) div 8" and ?rt = "rt_of (insn_bits instr)"
  let ?new = "atomic_simple_result sgnd (Mask AtomicMemorySimpleOpMask (insn_bits instr)) old
        (ReadRegister (rs_of (insn_bits instr)) Reg31IsZeroRegister s)"
  have w: "MemWrite ?n a ?new (WriteRegisterT sgnd ?rt old s) = Inr s'"
    using atomic_simple(2) [OF assms(1)] by (simp add: MemWriteT_def assms(3,4))
  have n: "8 * ?n = LENGTH('a)" "?n \<le> 16" "?n \<le> 2 ^ 64" using assms(2) by auto
  have "read_mem (memory s') (AddressUntag a) ?n = ?new"
    using MemWrite_memory [OF w] n read_write_mem_same [of ?n "memory s" "AddressUntag a" ?new]
    by (simp add: frame_simps)
  moreover have "xregs (WriteRegisterT sgnd ?rt old s) = (if ?rt = 31 then xregs s else (xregs s)(?rt := widened sgnd old))"
    using register_number_less(5) [of "insn_bits instr"]
    by (simp add: xregs_WriteRegisterT_zero xregs_WriteRegisterT)
  ultimately show ?thesis using MemWrite_frame(1) [OF w] by simp
qed

text \<open>C29: An atomic read-modify-write operation that completes leaves the old memory value in the
  target register and the result of the operation in memory, in one step; no other register changes.
  The old value is widened by its type: the signed byte and halfword forms (LDSMAX, LDSMIN)
  sign-extend it within the W register.\<close>

theorem atomic_operation_effect:
  fixes T :: "'a::len itself"
  assumes "AtomicMemorySimpleHelper u sgnd T instr s = Inr s'" "LENGTH('a) \<in> {8, 16, 32, 64}"
    and "a = (ReadRegister (rn_of (insn_bits instr)) Reg31IsStackPointer s :: u64)"
    and "old = (read_mem (memory s) (AddressUntag a) (LENGTH('a) div 8) :: 'a word)"
  shows "read_mem (memory s') (AddressUntag a) (LENGTH('a) div 8) =
      atomic_simple_result sgnd (Mask AtomicMemorySimpleOpMask (insn_bits instr)) old
        (ReadRegister (rs_of (insn_bits instr)) Reg31IsZeroRegister s)
    \<and> xregs s' = (if rt_of (insn_bits instr) = 31 then xregs s
                  else (xregs s)(rt_of (insn_bits instr) := widened sgnd old))"
  by (rule atomic_effect [OF assms])

text \<open>\<open>LDSMAXB\<close> on a memory byte 0x80: the target register gets 0xFFFFFF80.\<close>

definition ldsmaxb_instr :: instruction where
  "ldsmaxb_instr = \<lparr> insn_addr = 0, insn_bits = 0x38204041 \<rparr>"

definition byte_vsim :: "'v vsim \<Rightarrow> 'v vsim" where
  "byte_vsim s = s\<lparr>xregs := (\<lambda>r. if r = 2 then 0x4000 else 0), memory := (\<lambda>a. 0x80), mte_active := False,
     stack := Allocate 0x100000 default_SimStack, write_sink := None\<rparr>"

lemma untag_4000: "AddressUntag 0x4000 = 0x4000" by (simp add: AddressUntag_def)

lemma guard_4000: "IsAccessInGuardRegion (Allocate 0x100000 default_SimStack) 0x4000 1 = False"
  by (simp add: IsAccessInGuardRegion_def Allocate_def default_SimStack_def AlignUp_def Let_def)

lemma checks_4000:
  "stack s = Allocate 0x100000 default_SimStack \<Longrightarrow> \<not> mte_active s \<Longrightarrow> access_checks e 0x4000 (Suc 0) s = Inr ()"
  using guard_4000 by (simp add: access_checks_def IsMTETagsMatched_def untag_4000)

lemma ldsmaxb_fields:
  "rn_of (insn_bits ldsmaxb_instr) = 2" "rs_of (insn_bits ldsmaxb_instr) = 0" "rt_of (insn_bits ldsmaxb_instr) = 1"
  by (simp_all add: ldsmaxb_instr_def GetRn_def GetRs_def GetRt_def ExtractBits_def
      ExtractUnsignedBitfield32_def ExtractUnsignedBitfield64_def)

lemma byte_fields [simp]:
  "xregs (byte_vsim s) = (\<lambda>r. if r = 2 then 0x4000 else 0)" "memory (byte_vsim s) = (\<lambda>a. 0x80)"
  "mte_active (byte_vsim s) = False" "stack (byte_vsim s) = Allocate 0x100000 default_SimStack"
  by (simp_all add: byte_vsim_def)

lemma MemWriteT_ok:
  "access_checks StackGuardWrite a (LENGTH('a) div 8) s = Inr () \<Longrightarrow> \<exists>s'. MemWriteT a (v :: 'a::len word) s = Inr s'"
  by (simp add: MemWriteT_def MemWrite_def Memory_Write_def)

lemma ldsmaxb_runs:
  assumes "xregs s = (\<lambda>r. if r = 2 then 0x4000 else 0)" "mte_active s = False"
    "stack s = Allocate 0x100000 default_SimStack"
  shows "\<exists>s'. AtomicMemorySimpleHelper True True TYPE(8) ldsmaxb_instr s = Inr s'"
proof -
  have rn: "ReadRegister 2 Reg31IsStackPointer s = (0x4000 :: u64)" by (simp add: ReadRegister_def assms)
  have c: "CheckIsValidUnalignedAtomicAccess True 2 0x4000 1 = Inr ()"
    by (simp add: CheckIsValidUnalignedAtomicAccess_def crosses_granule_def AlignDown_def)
  have rd: "MemReadT 0x4000 s = Inr (read_mem (memory s) (AddressUntag 0x4000) 1 :: u8)"
    by (simp add: MemReadT_def MemRead_def checks_4000 assms)
  have wr: "\<exists>s'. MemWriteT 0x4000 v (WriteRegisterT b n d s) = Inr s'" for v d :: u8 and b n
    by (rule MemWriteT_ok) (simp add: checks_4000 frame_simps assms)
  show ?thesis
    unfolding AtomicMemorySimpleHelper_def Let_def ldsmaxb_fields rn
    using c wr by (simp add: rd del: read_mem.simps)
qed

theorem atomic_operation_effect_witness:
  "\<exists>s'. AtomicMemorySimpleHelper True True TYPE(8) ldsmaxb_instr (byte_vsim ret_vsim) = Inr s' \<and> xregs s' 1 = 0xFFFFFF80"
proof -
  obtain s' where s': "AtomicMemorySimpleHelper True True TYPE(8) ldsmaxb_instr (byte_vsim ret_vsim) = Inr s'"
    using ldsmaxb_runs [of "byte_vsim ret_vsim"] by auto
  have m: "read_mem (\<lambda>a. 0x80) a (Suc 0) = (0x80 :: u8)" for a by simp
  have "xregs s' 1 = widened True (0x80 :: u8)"
    using atomic_operation_effect [OF s' _ refl refl] by (simp add: ldsmaxb_fields m del: read_mem.simps)
  then show ?thesis using s' by (simp add: widened_def)
qed

section \<open>Stores and loads\<close>

text \<open>C27: Memory round trip.  A load at the address of a completed store (of any size up to 16 bytes)
  succeeds and gives the stored value, even with another top byte in the address when tags are off;
  a load of bytes the store did not touch is what it was before.\<close>

theorem load_after_store:
  assumes "MemWriteT a (v :: 'a::len word) s = Inr s'" "LENGTH('a) \<in> {8, 16, 32, 64, 128}"
  shows "MemReadT a s' = Inr v
    \<and> (\<not> mte_active s \<longrightarrow> AddressUntag b = AddressUntag a \<longrightarrow> MemReadT b s' = Inr v)
    \<and> ((\<forall>j < LENGTH('b) div 8. LENGTH('a) div 8 \<le> unat (AddressUntag b + of_nat j - AddressUntag a)) \<longrightarrow>
         MemReadT b s' = (MemReadT b s :: abort + 'b::len word))"
proof -
  let ?n = "LENGTH('a) div 8"
  have n: "?n \<le> 16" "8 * ?n = LENGTH('a)" "?n \<le> 2 ^ 64" using assms(2) by auto
  have w: "MemWrite ?n a v s = Inr s'" using assms(1) by (simp add: MemWriteT_def)
  note m = MemWrite_memory [OF w] and f = MemWrite_frame [OF w]
  have same: "MemReadT a s' = Inr v"
    using MemRead_after_MemWrite [OF w n(1)] n(2) by (simp add: MemReadT_def)
  have "MemReadT b s' = Inr v" if "\<not> mte_active s" "AddressUntag b = AddressUntag a"
  proof -
    have "access_checks e b ?n s' = access_checks e a ?n s'" for e
      using that f by (simp add: access_checks_def IsMTETagsMatched_def)
    with same that show ?thesis by (auto simp: MemReadT_def MemRead_def)
  qed
  moreover have "MemReadT b s' = (MemReadT b s :: abort + 'b word)"
    if "\<forall>j < LENGTH('b) div 8. ?n \<le> unat (AddressUntag b + of_nat j - AddressUntag a)"
  proof -
    have "access_checks e b k s' = access_checks e b k s" for e k
      by (rule access_checks_cong) (simp_all add: f)
    with that show ?thesis
      by (simp add: MemReadT_def MemRead_def m read_write_mem_other [OF n(3)])
  qed
  ultimately show ?thesis using same by blast
qed

theorem load_after_store_witness:
  "\<exists>s'. MemWriteT 0x4000 (0x12 :: u8) (byte_vsim ret_vsim) = Inr s' \<and> MemReadT 0x4000 s' = Inr (0x12 :: u8)"
proof -
  obtain s' where s': "MemWriteT 0x4000 (0x12 :: u8) (byte_vsim ret_vsim) = Inr s'"
    using MemWriteT_ok [of "0x4000" "byte_vsim ret_vsim" "0x12 :: u8"] by (auto simp: checks_4000)
  then show ?thesis using load_after_store [OF s', where ?'b = 8, of "0x4000"] by auto
qed

end
