(* ===== verification/Shadow_Runner.thy ===== *)
theory Shadow_Runner
  imports Branch_Contracts Memory_Contracts
begin

text \<open>
  The lockstep oracle \<open>gaby_vm::testing::ShadowRunner\<close> (\<open>src/gaby_vm/shadow_runner.cc\<close>):
  two simulators over the same host memory, one stepped on the cache track and one on
  the decoder track; after every step all registers and the recorded memory writes are
  compared, and the first difference is reported.  Guest memory is the host's, so in the
  model the memory each simulator leaves is handed to the other one, with the rest of what the
  simulators of a process have in common.
\<close>

section \<open>Reports\<close>

datatype report_kind = RegisterKind | MemoryWriteKind

record DivergenceReport =
  rep_kind :: report_kind
  rep_pc :: u64
  reg_index :: int
  reg_name :: string
  fast_lo :: u64
  fast_hi :: u64
  ref_lo :: u64
  ref_hi :: u64
  mem_addr :: u64
  mem_size :: nat
  mem_fast_lo :: u64
  mem_fast_hi :: u64
  mem_ref_lo :: u64
  mem_ref_hi :: u64

definition empty_report :: DivergenceReport where
  "empty_report = \<lparr> rep_kind = RegisterKind, rep_pc = 0, reg_index = 0, reg_name = '''', fast_lo = 0, fast_hi = 0,
     ref_lo = 0, ref_hi = 0, mem_addr = 0, mem_size = 0, mem_fast_lo = 0, mem_fast_hi = 0, mem_ref_lo = 0,
     mem_ref_hi = 0 \<rparr>"

definition FillRegReport ::
  "u64 \<Rightarrow> int \<Rightarrow> string \<Rightarrow> u64 \<Rightarrow> u64 \<Rightarrow> u64 \<Rightarrow> u64 \<Rightarrow> DivergenceReport \<Rightarrow> DivergenceReport" where
  "FillRegReport pc index name flo fhi rlo rhi report =
     report\<lparr>rep_kind := RegisterKind, rep_pc := pc, reg_index := index, reg_name := name,
       fast_lo := flo, fast_hi := fhi, ref_lo := rlo, ref_hi := rhi\<rparr>"

text \<open>\<open>snprintf\<close> of a register number below 100.\<close>

definition digit :: "nat \<Rightarrow> char" where "digit d = char_of (48 + d)"

definition numbered :: "char \<Rightarrow> nat \<Rightarrow> string" where
  "numbered c i = (if i < 10 then [c, digit i] else [c, digit (i div 10), digit (i mod 10)])"

section \<open>Comparing one step\<close>

text \<open>The first report of a sequence of comparisons; an abort of an accessor ends it.\<close>

fun first_report :: "(abort + 'r option) list \<Rightarrow> abort + 'r option" where
  "first_report [] = Inr None"
| "first_report (c # cs) =
     (case c of Inl e \<Rightarrow> Inl e | Inr (Some r) \<Rightarrow> Inr (Some r) | Inr None \<Rightarrow> first_report cs)"

definition compare_item ::
  "('v vsim \<Rightarrow> abort + 'a) \<Rightarrow> ('a \<Rightarrow> 'a \<Rightarrow> DivergenceReport) \<Rightarrow> 'v vsim \<Rightarrow> 'v vsim \<Rightarrow> abort + DivergenceReport option" where
  "compare_item read report fast ref =
     and_then (read fast) (\<lambda>f. and_then (read ref) (\<lambda>r. Inr (if f \<noteq> r then Some (report f r) else None)))"

definition no_write :: MemoryWriteRecord where
  "no_write = \<lparr> mw_addr = 0, mw_size = 0, mw_lo = 0, mw_hi = 0 \<rparr>"

text \<open>The loop from index \<open>i\<close> over \<open>n\<close> pairs of recorded writes.\<close>

fun compare_writes_from ::
  "nat \<Rightarrow> nat \<Rightarrow> u64 \<Rightarrow> MemoryWriteRecord list \<Rightarrow> MemoryWriteRecord list \<Rightarrow> DivergenceReport \<Rightarrow> DivergenceReport option" where
  "compare_writes_from i 0 pc fws rws report = None"
| "compare_writes_from i (Suc n) pc fws rws report =
     (let fast_has = i < length fws; ref_has = i < length rws;
          fw = (if fast_has then fws ! i else no_write); rw = (if ref_has then rws ! i else no_write)
      in if fw \<noteq> rw
         then Some (report\<lparr>rep_kind := MemoryWriteKind, rep_pc := pc, reg_index := -1, reg_name := '''',
             mem_addr := if fast_has then mw_addr fw else mw_addr rw,
             mem_size := if fast_has then mw_size fw else mw_size rw,
             mem_fast_lo := mw_lo fw, mem_fast_hi := mw_hi fw, mem_ref_lo := mw_lo rw, mem_ref_hi := mw_hi rw\<rparr>)
         else compare_writes_from (Suc i) n pc fws rws report)"

definition CompareMemoryWrites ::
  "u64 \<Rightarrow> MemoryWriteRecord list \<Rightarrow> MemoryWriteRecord list \<Rightarrow> DivergenceReport \<Rightarrow> DivergenceReport option" where
  "CompareMemoryWrites pc fws rws report =
     compare_writes_from 0 (if length fws > length rws then length fws else length rws) pc fws rws report"

definition recorded :: "'v vsim \<Rightarrow> MemoryWriteRecord list" where
  "recorded s = (case write_sink s of None \<Rightarrow> [] | Some ws \<Rightarrow> ws)"

definition CompareStep :: "u64 \<Rightarrow> DivergenceReport \<Rightarrow> 'v vsim \<Rightarrow> 'v vsim \<Rightarrow> abort + DivergenceReport option" where
  "CompareStep pc report fast ref =
     (let word = (\<lambda>index name f r. FillRegReport pc index name f 0 r 0 report);
          sys = (\<lambda>name reg. compare_item (ReadSys reg) (\<lambda>f r. word (-1) name (ucast f) (ucast r)) fast ref)
      in first_report
        (map (\<lambda>i. compare_item (ReadGp (of_nat i)) (word (int i) (numbered (CHR ''X'') i)) fast ref) [0..<31]
         @ [compare_item (ReadGp GpSP) (word (-1) ''SP'') fast ref]
         @ map (\<lambda>i. compare_item (ReadV128 (of_nat i))
               (\<lambda>f r. FillRegReport pc (int i) (numbered (CHR ''V'') i) (v_lo f) (v_hi f) (v_lo r) (v_hi r) report)
               fast ref) [0..<32]
         @ [compare_item (ReadGp GpPC) (word (-1) ''PC'') fast ref, sys ''NZCV'' SysNZCV, sys ''FPCR'' SysFPCR,
            sys ''FPSR'' SysFPSR, sys ''BType'' SysBType,
            Inr (CompareMemoryWrites pc (recorded fast) (recorded ref) report)]))"

section \<open>The two simulators\<close>

record 'v shadow =
  fast_sim :: "'v vsim"
  ref_sim :: "'v vsim"

text \<open>What the two have in common: the host's memory, the switch of the tag checks and the vector of
  guarded control stacks, in which each has an active stack of its own.\<close>

definition share_memory :: "'v vsim \<Rightarrow> 'v vsim \<Rightarrow> 'v vsim" where
  "share_memory from_sim s = 
     s\<lparr>memory := memory from_sim, mte_active := mte_active from_sim, gcs_stacks := parked_stacks from_sim\<rparr>"

definition shadow_construct ::
  "'v PredecodeCache \<Rightarrow> u64 \<Rightarrow> u64 \<Rightarrow> u64 \<Rightarrow> u64 \<Rightarrow> 'v vsim \<Rightarrow> 'v vsim \<Rightarrow> abort + 'v shadow" where
  "shadow_construct cache data data' stack_buffer stack_size s s' =
     and_then (construct (Some cache) data stack_buffer stack_size s) (\<lambda>f.
     and_then (construct None data' stack_buffer stack_size (share_memory f s')) (\<lambda>r.
       Inr \<lparr> fast_sim = SetMemoryWriteObserver True (share_memory r f), ref_sim = SetMemoryWriteObserver True r \<rparr>))"

text \<open>A write to both simulators, in the order of the code; a read is one of the fast simulator.
  The \<open>unsigned\<close> code is cast to the \<open>uint8_t\<close> of a register name.\<close>

definition mirror :: "('v vsim \<Rightarrow> abort + 'v vsim) \<Rightarrow> 'v shadow \<Rightarrow> abort + 'v shadow" where
  "mirror w sh = and_then (w (fast_sim sh)) (\<lambda>f. and_then (w (ref_sim sh)) (\<lambda>r. Inr \<lparr> fast_sim = f, ref_sim = r \<rparr>))"

definition shadow_WriteXRegister :: "u32 \<Rightarrow> u64 \<Rightarrow> 'v shadow \<Rightarrow> abort + 'v shadow" where
  "shadow_WriteXRegister code v sh = mirror (WriteGp (ucast code) v) sh"

definition shadow_WriteSp :: "u64 \<Rightarrow> 'v shadow \<Rightarrow> abort + 'v shadow" where
  "shadow_WriteSp v sh = mirror (WriteGp GpSP v) sh"

definition shadow_ReadXRegister :: "u32 \<Rightarrow> 'v shadow \<Rightarrow> abort + u64" where
  "shadow_ReadXRegister code sh = ReadGp (ucast code) (fast_sim sh)"

definition shadow_ReadSp :: "'v shadow \<Rightarrow> abort + u64" where
  "shadow_ReadSp sh = ReadGp GpSP (fast_sim sh)"

definition shadow_SetBranchHook :: "nat option \<Rightarrow> 'v shadow \<Rightarrow> 'v shadow" where
  "shadow_SetBranchHook hook sh =
     sh\<lparr>fast_sim := SetBranchHook hook (fast_sim sh), ref_sim := SetBranchHook hook (ref_sim sh)\<rparr>"

section \<open>Lockstep\<close>

definition clear_writes :: "'v vsim \<Rightarrow> 'v vsim" where
  "clear_writes s = s\<lparr>write_sink := Some []\<rparr>"

text \<open>
  One round: step the fast simulator, then the reference on the memory the first one
  left.  The result is \<open>None\<close> when both were finished, else whether each took a step.
\<close>

definition lockstep_round :: "'v exec_env \<Rightarrow> 'v shadow \<Rightarrow> abort + (bool \<times> bool \<times> 'v shadow)" where
  "lockstep_round env sh =
     and_then (api_StepOnce env None (clear_writes (fast_sim sh))) (\<lambda>(fast_alive, f).
     and_then (api_DebugStepOnce env None (share_memory f (clear_writes (ref_sim sh)))) (\<lambda>(ref_alive, r).
       Inr (fast_alive, ref_alive, \<lparr> fast_sim = share_memory r f, ref_sim = r \<rparr>)))"

text \<open>
  The loop.  \<open>handled\<close> says whether a handler is installed: the default one aborts.
  The report it was given is part of the result.
\<close>

partial_function (option) lockstep ::
  "'v exec_env \<Rightarrow> bool \<Rightarrow> 'v shadow \<Rightarrow> (abort + (DivergenceReport option \<times> 'v shadow)) option" where
  "lockstep env handled sh =
     (case lockstep_round env sh of
        Inl e \<Rightarrow> Some (Inl e)
      | Inr (fast_alive, ref_alive, sh') \<Rightarrow>
          if \<not> fast_alive \<and> \<not> ref_alive then Some (Inr (None, sh'))
          else (case CompareStep (pc_reg (fast_sim sh)) empty_report (fast_sim sh') (ref_sim sh') of
                  Inl e \<Rightarrow> Some (Inl e)
                | Inr (Some report) \<Rightarrow>
                    Some (if handled then Inr (Some report, sh') else Inl (HostAbort ''divergence''))
                | Inr None \<Rightarrow>
                    if \<not> fast_alive \<or> \<not> ref_alive then Some (Inr (None, sh'))
                    else lockstep env handled sh'))"

definition shadow_RunFrom ::
  "'v exec_env \<Rightarrow> bool \<Rightarrow> u64 \<Rightarrow> 'v shadow \<Rightarrow> (abort + (DivergenceReport option \<times> 'v shadow)) option" where
  "shadow_RunFrom env handled entry_pc sh =
     (case mirror (WriteGp GpPC entry_pc) sh of
        Inl e \<Rightarrow> Some (Inl e)
      | Inr sh' \<Rightarrow> lockstep env handled sh')"

section \<open>What a comparison decides\<close>

lemma first_report_None:
  "first_report cs = Inr None \<longleftrightarrow> (\<forall>c \<in> set cs. c = Inr None)"
  by (induction cs) (auto split: sum.splits option.splits)

lemma first_report_Some:
  "first_report cs = Inr (Some r) \<Longrightarrow> Inr (Some r) \<in> set cs"
  by (induction cs) (auto split: sum.splits option.splits)

lemma compare_item_None:
  assumes "read f = Inr a" "read r = Inr b"
  shows "compare_item read rep f r = Inr None \<longleftrightarrow> a = b"
  using assms by (simp add: compare_item_def)

lemma compare_writes_None:
  "compare_writes_from i n pc fws rws rep = None \<longleftrightarrow>
     (\<forall>j. i \<le> j \<and> j < i + n \<longrightarrow>
        (if j < length fws then fws ! j else no_write) = (if j < length rws then rws ! j else no_write))"
proof (induction n arbitrary: i)
  case (Suc n)
  have "(\<forall>j. i \<le> j \<and> j < i + Suc n \<longrightarrow> P j) \<longleftrightarrow> P i \<and> (\<forall>j. Suc i \<le> j \<and> j < Suc i + n \<longrightarrow> P j)" for P
    by (auto simp: Suc_le_eq) (metis le_neq_implies_less)
  then show ?case by (simp add: Let_def Suc.IH)
qed auto

lemma CompareMemoryWrites_None:
  assumes "no_write \<notin> set fws" "no_write \<notin> set rws"
  shows "CompareMemoryWrites pc fws rws rep = None \<longleftrightarrow> fws = rws"
proof
  assume none: "CompareMemoryWrites pc fws rws rep = None"
  have eq: "(if j < length fws then fws ! j else no_write) = (if j < length rws then rws ! j else no_write)"
    if "j < max (length fws) (length rws)" for j
    using none that by (auto simp: CompareMemoryWrites_def compare_writes_None max_def split: if_splits)
  have len: "length fws = length rws"
  proof (rule ccontr)
    assume "length fws \<noteq> length rws"
    then consider "length fws < length rws" | "length rws < length fws" by linarith
    then show False
    proof cases
      case 1
      then have "rws ! length fws = no_write" using eq [of "length fws"] by simp
      with 1 assms(2) show False by (metis nth_mem)
    next
      case 2
      then have "fws ! length rws = no_write" using eq [of "length rws"] by simp
      with 2 assms(1) show False by (metis nth_mem)
    qed
  qed
  show "fws = rws"
    by (rule nth_equalityI) (use eq len in auto)
qed (simp add: CompareMemoryWrites_def compare_writes_None)

lemma BType_code_eq: "BType_code a = BType_code b \<longleftrightarrow> a = b"
  by (cases a; cases b) simp_all

lemma reads_compare:
  "i < 31 \<Longrightarrow> compare_item (ReadGp (of_nat i)) rep f r = Inr None \<longleftrightarrow> xregs f i = xregs r i"
  "compare_item (ReadGp GpSP) rep f r = Inr None \<longleftrightarrow> xregs f 31 = xregs r 31"
  "compare_item (ReadGp GpPC) rep f r = Inr None \<longleftrightarrow> pc_reg f = pc_reg r"
  "compare_item (ReadSys SysNZCV) rep' f r = Inr None \<longleftrightarrow>
     sr_value (nzcv f) AND 0xF0000000 = sr_value (nzcv r) AND 0xF0000000"
  "compare_item (ReadSys SysFPCR) rep' f r = Inr None \<longleftrightarrow> sr_value (fpcr f) = sr_value (fpcr r)"
  "compare_item (ReadSys SysFPSR) rep' f r = Inr None \<longleftrightarrow> fpsr_storage f = fpsr_storage r"
  "compare_item (ReadSys SysBType) rep' f r = Inr None \<longleftrightarrow> btype f = btype r"
  by (simp_all add: compare_item_None ReadGp_def u8_le_iff unat_of_nat_u8 ReadRegister_def word_le_nat_alt)
    (simp_all add: compare_item_None ReadSys_NZCV ReadSys_def [of SysFPCR] ReadSys_def [of SysFPSR]
      ReadSys_def [of SysBType] GetRawValue_def BType_code_eq)

lemma reads_compare_v:
  assumes "i < 32"
  shows "compare_item (ReadV128 (of_nat i)) rep f r = Inr None \<longleftrightarrow> vregs f i = vregs r i"
proof -
  have "vregs f i = vregs r i" if "ucast (vregs f i) = (ucast (vregs r i) :: u64)"
      "ucast (drop_bit 64 (vregs f i)) = (ucast (drop_bit 64 (vregs r i)) :: u64)"
    using that halves128(3) [of "vregs f i"] halves128(3) [of "vregs r i"] by metis
  then show ?thesis
    using assms by (auto simp: compare_item_None ReadV128_def u8_le_iff unat_of_nat_u8 ReadVRegister_def Let_def)
qed

text \<open>The two simulators show the same registers and control state.\<close>

definition agree :: "'v vsim \<Rightarrow> 'v vsim \<Rightarrow> bool" where
  "agree f r \<longleftrightarrow>
     map (xregs f) [0..<32] = map (xregs r) [0..<32] \<and> map (vregs f) [0..<32] = map (vregs r) [0..<32]
     \<and> pc_reg f = pc_reg r \<and> sr_value (nzcv f) AND 0xF0000000 = sr_value (nzcv r) AND 0xF0000000
     \<and> sr_value (fpcr f) = sr_value (fpcr r) \<and> fpsr_storage f = fpsr_storage r \<and> btype f = btype r"

lemma agree_alt:
  "agree f r \<longleftrightarrow> (\<forall>i < 31. xregs f i = xregs r i) \<and> xregs f 31 = xregs r 31 \<and> (\<forall>i < 32. vregs f i = vregs r i)
     \<and> pc_reg f = pc_reg r \<and> sr_value (nzcv f) AND 0xF0000000 = sr_value (nzcv r) AND 0xF0000000
     \<and> sr_value (fpcr f) = sr_value (fpcr r) \<and> fpsr_storage f = fpsr_storage r \<and> btype f = btype r"
proof -
  have "(\<forall>i < 32. P i) \<longleftrightarrow> (\<forall>i < 31. P i) \<and> P 31" for P :: "nat \<Rightarrow> bool"
    using less_Suc_eq [of _ 31] by auto
  then show ?thesis unfolding agree_def list_eq_iff_nth_eq by (auto simp del: upt.simps)
qed

lemma CompareStep_agree:
  "CompareStep pc rep f r = Inr None \<longleftrightarrow>
     agree f r \<and> CompareMemoryWrites pc (recorded f) (recorded r) rep = None"
proof -
  have v: "(\<forall>i\<in>{0..<32}. compare_item (ReadV128 (of_nat i)) (rep' i) f r = Inr None) \<longleftrightarrow> (\<forall>i < 32. vregs f i = vregs r i)"
    for rep' using reads_compare_v [of _ _ f r] by auto
  have x: "(\<forall>i\<in>{0..<31}. compare_item (ReadGp (of_nat i)) (rep' i) f r = Inr None) \<longleftrightarrow> (\<forall>i < 31. xregs f i = xregs r i)"
    for rep' using reads_compare(1) [of _ _ f r] by auto
  show ?thesis
    unfolding CompareStep_def Let_def first_report_None set_append ball_Un set_map ball_simps image_iff set_upt
      bex_simps list.set x v reads_compare agree_alt by auto
qed

section \<open>Properties\<close>

text \<open>C38: One comparison finds no difference exactly when the two simulators show the same general,
  vector and control registers and recorded the same memory writes during the step.\<close>

theorem CompareStep_decides_agreement:
  assumes "no_write \<notin> set (recorded f)" "no_write \<notin> set (recorded r)"
  shows "CompareStep pc rep f r = Inr None \<longleftrightarrow> agree f r \<and> recorded f = recorded r"
  using CompareMemoryWrites_None [OF assms] by (simp add: CompareStep_agree)

theorem CompareStep_decides_agreement_witness:
  "CompareStep 0 empty_report ret_vsim (ret_vsim\<lparr>xregs := (\<lambda>r. 1)\<rparr>) \<noteq> Inr None
   \<and> CompareStep 0 empty_report ret_vsim ret_vsim = Inr None"
proof -
  have [simp]: "recorded (ret_vsim\<lparr>xregs := x\<rparr>) = []" "recorded ret_vsim = []" for x
    by (simp_all add: recorded_def ret_vsim_def blank_vsim_def)
  have "\<not> agree ret_vsim (ret_vsim\<lparr>xregs := (\<lambda>r. 1)\<rparr>)" by (auto simp: agree_alt)
  moreover have "agree ret_vsim ret_vsim" by (simp add: agree_def)
  ultimately show ?thesis
    using CompareStep_decides_agreement [of ret_vsim "ret_vsim\<lparr>xregs := (\<lambda>r. 1)\<rparr>" 0 empty_report]
      CompareStep_decides_agreement [of ret_vsim ret_vsim 0 empty_report] by simp
qed

lemma round_alive:
  assumes "lockstep_round env sh = Inr (fast_alive, ref_alive, sh')"
  shows "fast_alive = (\<not> IsSimulationFinished (fast_sim sh))" "ref_alive = (\<not> IsSimulationFinished (ref_sim sh))"
  using assms
  by (auto simp: lockstep_round_def api_StepOnce_def api_DebugStepOnce_def scope_enter_def StepOnce_def
      DebugStepOnce_def clear_writes_def share_memory_def IsSimulationFinished_def split: if_splits)

lemma finished_round:
  assumes "lockstep_round env sh = Inr (False, False, sh')" "agree (fast_sim sh) (ref_sim sh)"
  shows "agree (fast_sim sh') (ref_sim sh')"
proof -
  have step: "b = False \<Longrightarrow> xregs t = xregs s \<and> vregs t = vregs s \<and> nzcv t = nzcv s \<and> fpcr t = fpcr s
      \<and> fpsr_storage t = fpsr_storage s \<and> pc_reg t = pc_reg s \<and> btype t = btype s"
    if "api_StepOnce env None s = Inr (b, t) \<or> api_DebugStepOnce env None s = Inr (b, t)" for b t s
    using that
    by (auto simp: api_StepOnce_def api_DebugStepOnce_def scope_enter_def StepOnce_def DebugStepOnce_def
        scope_exit_def Let_def GabyRestoreCursor_def GabySaveCursor_def split: if_splits)
  from assms(1) obtain f r where
      "api_StepOnce env None (clear_writes (fast_sim sh)) = Inr (False, f)"
      "api_DebugStepOnce env None (share_memory f (clear_writes (ref_sim sh))) = Inr (False, r)"
      "sh' = \<lparr> fast_sim = share_memory r f, ref_sim = r \<rparr>"
    by (auto simp: lockstep_round_def)
  with step [of "clear_writes (fast_sim sh)" False f] step [of "share_memory f (clear_writes (ref_sim sh))" False r]
  show ?thesis
    using assms(2) by (simp add: agree_def clear_writes_def share_memory_def)
qed

definition settled :: "'v shadow \<Rightarrow> bool" where
  "settled sh \<longleftrightarrow> agree (fast_sim sh) (ref_sim sh)
     \<and> IsSimulationFinished (fast_sim sh) \<and> IsSimulationFinished (ref_sim sh)"

lemma finished_settled:
  assumes "lockstep_round env sh = Inr (False, False, sh')" "agree (fast_sim sh) (ref_sim sh)"
  shows "settled sh'"
proof -
  have "agree (fast_sim sh') (ref_sim sh')" using finished_round [OF assms] .
  moreover have "pc_reg (fast_sim sh') = 0"
    using assms(1)
    by (auto simp: lockstep_round_def api_StepOnce_def scope_enter_def StepOnce_def scope_exit_def Let_def
        GabyRestoreCursor_def GabySaveCursor_def share_memory_def IsSimulationFinished_def clear_writes_def
        split: if_splits)
  ultimately show ?thesis by (simp add: settled_def IsSimulationFinished_def agree_def)
qed

lemma agree_alive:
  assumes "lockstep_round env sh = Inr (fast_alive, ref_alive, sh')" "agree (fast_sim sh) (ref_sim sh)"
  shows "fast_alive = ref_alive"
  using round_alive [OF assms(1)] assms(2) by (simp add: IsSimulationFinished_def agree_def)

lemma lockstep_agree:
  assumes "lockstep env handled sh = Some (Inr (None, sh'))" "agree (fast_sim sh) (ref_sim sh)"
  shows "settled sh'"
proof -
  have "\<forall>sh'. res = Inr (None, sh') \<longrightarrow> agree (fast_sim sh) (ref_sim sh) \<longrightarrow> settled sh'"
    if "lockstep env handled sh = Some res" for res
  proof (rule lockstep.raw_induct [where P = "\<lambda>env handled sh res. \<forall>sh'. res = Inr (None, sh') \<longrightarrow>
        agree (fast_sim sh) (ref_sim sh) \<longrightarrow> settled sh'", OF _ that])
    fix loop :: "'v exec_env \<Rightarrow> bool \<Rightarrow> 'v shadow \<Rightarrow> (abort + (DivergenceReport option \<times> 'v shadow)) option"
      and env handled sh res
    assume IH: "\<And>env handled sh res. loop env handled sh = Some res \<Longrightarrow> \<forall>sh'. res = Inr (None, sh') \<longrightarrow>
        agree (fast_sim sh) (ref_sim sh) \<longrightarrow> settled sh'"
      and body: "(case lockstep_round env sh of Inl e \<Rightarrow> Some (Inl e)
      | Inr (fast_alive, ref_alive, sh') \<Rightarrow>
          if \<not> fast_alive \<and> \<not> ref_alive then Some (Inr (None, sh'))
          else (case CompareStep (pc_reg (fast_sim sh)) empty_report (fast_sim sh') (ref_sim sh') of
                  Inl e \<Rightarrow> Some (Inl e)
                | Inr None \<Rightarrow> if \<not> fast_alive \<or> \<not> ref_alive then Some (Inr (None, sh')) else loop env handled sh'
                | Inr (Some report) \<Rightarrow>
                    Some (if handled then Inr (Some report, sh') else Inl (HostAbort ''divergence'')))) = Some res"
    show "\<forall>sh'. res = Inr (None, sh') \<longrightarrow> agree (fast_sim sh) (ref_sim sh) \<longrightarrow> settled sh'"
      using body finished_settled [of env sh] agree_alive [of env sh] IH
      by (auto simp: CompareStep_agree split: sum.splits prod.splits if_splits option.splits)
  qed
  with assms show ?thesis by blast
qed


lemma mirrored_pc_agrees:
  assumes "mirror (WriteGp GpPC a) sh = Inr sh'" "agree (fast_sim sh) (ref_sim sh)"
  shows "agree (fast_sim sh') (ref_sim sh')"
  using assms by (auto simp: mirror_def WriteGp_def WritePc_def agree_def)

text \<open>C12: A lockstep run that starts in agreement and returns without a report has run both tracks to
  the end: they have the same registers and control state, and both are at the null program counter.\<close>

theorem run_without_report_ends_in_agreement:
  assumes "shadow_RunFrom env handled entry_pc sh = Some (Inr (None, sh'))" "agree (fast_sim sh) (ref_sim sh)"
  shows "agree (fast_sim sh') (ref_sim sh') \<and> IsSimulationFinished (fast_sim sh') \<and> IsSimulationFinished (ref_sim sh')"
proof -
  obtain t where t: "mirror (WriteGp GpPC entry_pc) sh = Inr t" "lockstep env handled t = Some (Inr (None, sh'))"
    using assms(1) by (auto simp: shadow_RunFrom_def split: sum.splits)
  then have "settled sh'" using lockstep_agree [OF t(2)] mirrored_pc_agrees [OF t(1) assms(2)] by blast
  then show ?thesis by (simp add: settled_def)
qed

text \<open>The sample guest under both tracks.\<close>

definition ret_shadow :: "visitor shadow" where
  "ret_shadow = \<lparr> fast_sim = (nested_vsim False 0 [])\<lparr>write_sink := Some []\<rparr>,
     ref_sim = (nested_vsim False 0 [])\<lparr>write_sink := Some [], predecode_cache := None\<rparr> \<rparr>"

lemma ret_executes:
  assumes "pc_reg s = 0x1000" "gcs_stack s = []" "guard_pages s = False" "btype s = DefaultBType"
    "xregs s 30 = 0" "branch_hook s = None" "memory s = memory ret_vsim"
  obtains t where "ExecuteInstruction ret_env s = Inr t" "pc_reg t = 0" "btype t = DefaultBType"
    "xregs t = xregs s" "vregs t = vregs s" "nzcv t = nzcv s" "fpcr t = fpcr s" "fpsr_storage t = fpsr_storage s"
    "write_sink t = write_sink s" "memory t = memory s" "predecode_cache t = predecode_cache s"
proof -
  have "fetch 0x1000 s = ret_instr 0x1000"
    using ret_fetch by (simp add: fetch_def assms ret_instr_def)
  then have "\<exists>t. ExecuteInstruction ret_env s = Inr t \<and> pc_reg t = 0 \<and> btype t = DefaultBType
    \<and> xregs t = xregs s \<and> vregs t = vregs s \<and> nzcv t = nzcv s \<and> fpcr t = fpcr s \<and> fpsr_storage t = fpsr_storage s
    \<and> write_sink t = write_sink s \<and> memory t = memory s \<and> predecode_cache t = predecode_cache s"
    by (simp add: ExecuteInstruction_def Let_def assms check_btype_def Visit_def RET_leaf ReadRegister_def
        GCSPeek_def GabyHookedWritePc_def finish_instruction_def UpdateBType_def IncrementPc_def WritePc_def
        AddressUntag_def)
  then show ?thesis using that by blast
qed


definition ret_started :: "visitor shadow" where
  "ret_started = \<lparr> fast_sim = WritePc 0x1000 (fast_sim ret_shadow), ref_sim = WritePc 0x1000 (ref_sim ret_shadow) \<rparr>"

lemma ret_started_fields [simp]:
  "pc_reg (fast_sim ret_started) = 0x1000" "pc_reg (ref_sim ret_started) = 0x1000"
  "predecode_cache (fast_sim ret_started) = predecode_cache ret_vsim" "memory (fast_sim ret_started) = memory ret_vsim"
  "memory (ref_sim ret_started) = memory ret_vsim" "busy (fast_sim ret_started) = False" "busy (ref_sim ret_started) = False"
  by (simp_all add: ret_started_def ret_shadow_def WritePc_def AddressUntag_def)

lemma ret_round:
  obtains sh' where "lockstep_round ret_env ret_started = Inr (True, True, sh')"
    "agree (fast_sim sh') (ref_sim sh')" "recorded (fast_sim sh') = []" "recorded (ref_sim sh') = []"
    "IsSimulationFinished (fast_sim sh')" "IsSimulationFinished (ref_sim sh')" "predecode_cache (fast_sim sh') \<noteq> None"
proof -
  let ?f = "(clear_writes (fast_sim ret_started))\<lparr>busy := True, vixl_trace := 0\<rparr>"
  obtain t where t: "ExecuteInstruction ret_env ?f = Inr t" "pc_reg t = 0" "btype t = DefaultBType"
    "xregs t = xregs ?f" "vregs t = vregs ?f" "nzcv t = nzcv ?f" "fpcr t = fpcr ?f" "fpsr_storage t = fpsr_storage ?f"
    "write_sink t = write_sink ?f" "memory t = memory ?f" "predecode_cache t = predecode_cache ?f"
    by (rule ret_executes [of ?f])
      (simp_all add: clear_writes_def ret_started_def ret_shadow_def WritePc_def AddressUntag_def)
  have "runnable ret_env ?f = runnable ret_env ret_vsim"
    by (rule runnable_cong)
      (simp_all add: clear_writes_def ret_started_def ret_shadow_def WritePc_def AddressUntag_def ret_vsim_def
        blank_vsim_def)
  then have run: "runnable ret_env ?f" using ret_runnable by simp
  obtain k where k: "ExecuteInstructionCached ret_env ?f = Inr (set_range k t)"
    using bare_leaves.cached_step_is_decoder_step [OF _ run] t(1) by auto
  define f where "f = (set_range k t)\<lparr>vixl_trace := vixl_trace (fast_sim ret_started), busy := False\<rparr>"
  have f: "api_StepOnce ret_env None (clear_writes (fast_sim ret_started)) = Inr (True, f)"
    using k by (simp add: api_StepOnce_def scope_enter_def StepOnce_def IsSimulationFinished_def scope_exit_def Let_def
        f_def clear_writes_def) (simp add: ret_vsim_def)
  have fm: "memory f = memory ret_vsim"
    by (simp add: f_def range_simps t clear_writes_def)
  let ?start = "share_memory f (clear_writes (ref_sim ret_started))"
  let ?r = "?start\<lparr>busy := True, vixl_trace := trace_parameters ?start\<rparr>"
  obtain u where u: "ExecuteInstruction ret_env ?r = Inr u" "pc_reg u = 0" "btype u = DefaultBType"
    "xregs u = xregs ?r" "vregs u = vregs ?r" "nzcv u = nzcv ?r" "fpcr u = fpcr ?r" "fpsr_storage u = fpsr_storage ?r"
    "write_sink u = write_sink ?r" "memory u = memory ?r" "predecode_cache u = predecode_cache ?r"
    by (rule ret_executes [of ?r])
      (simp_all add: clear_writes_def share_memory_def fm ret_started_def ret_shadow_def WritePc_def AddressUntag_def)
  define r where "r = u\<lparr>vixl_trace := vixl_trace (ref_sim ret_started), busy := False\<rparr>"
  have "api_DebugStepOnce ret_env None ?start = Inr (True, r)"
    using u(1) by (simp add: api_DebugStepOnce_def scope_enter_def DebugStepOnce_def IsSimulationFinished_def
        scope_exit_def Let_def r_def clear_writes_def share_memory_def)
  then have "lockstep_round ret_env ret_started = Inr (True, True, \<lparr> fast_sim = share_memory r f, ref_sim = r \<rparr>)"
    using f by (simp add: lockstep_round_def)
  moreover have "agree (share_memory r f) r"
    by (simp add: agree_def share_memory_def f_def r_def range_simps t u clear_writes_def)
      (simp add: ret_started_def ret_shadow_def WritePc_def)
  moreover have "recorded (share_memory r f) = []" "recorded r = []"
    by (simp_all add: recorded_def share_memory_def f_def r_def range_simps t u clear_writes_def)
  moreover have "IsSimulationFinished (share_memory r f)" "IsSimulationFinished r" "predecode_cache (share_memory r f) \<noteq> None"
    by (simp_all add: IsSimulationFinished_def share_memory_def f_def r_def range_simps t u clear_writes_def)
      (simp add: ret_vsim_def)
  ultimately show ?thesis using that [of "\<lparr> fast_sim = share_memory r f, ref_sim = r \<rparr>"] by simp
qed


theorem run_without_report_ends_in_agreement_witness:
  "\<exists>sh'. shadow_RunFrom ret_env False 0x1000 ret_shadow = Some (Inr (None, sh')) \<and> agree (fast_sim sh') (ref_sim sh')
     \<and> IsSimulationFinished (ref_sim sh')"
proof -
  obtain s1 where s1: "lockstep_round ret_env ret_started = Inr (True, True, s1)"
    "agree (fast_sim s1) (ref_sim s1)" "recorded (fast_sim s1) = []" "recorded (ref_sim s1) = []"
    "IsSimulationFinished (fast_sim s1)" "IsSimulationFinished (ref_sim s1)" "predecode_cache (fast_sim s1) \<noteq> None"
    by (rule ret_round)
  have c: "CompareStep pc empty_report (fast_sim s1) (ref_sim s1) = Inr None" for pc
    using s1(2-4) by (simp add: CompareStep_agree CompareMemoryWrites_None)
  have "\<exists>s2. lockstep_round ret_env s1 = Inr (False, False, s2)"
    using s1(5-7)
    by (simp add: lockstep_round_def api_StepOnce_def api_DebugStepOnce_def scope_enter_def StepOnce_def
        DebugStepOnce_def IsSimulationFinished_def clear_writes_def share_memory_def) blast
  then obtain s2 where s2: "lockstep_round ret_env s1 = Inr (False, False, s2)" by blast
  have "lockstep ret_env False s1 = Some (Inr (None, s2))"
    by (subst lockstep.simps) (simp add: s2)
  then have "lockstep ret_env False ret_started = Some (Inr (None, s2))"
    by (subst lockstep.simps) (simp add: s1(1) c)
  moreover have "mirror (WriteGp GpPC 0x1000) ret_shadow = Inr ret_started"
    by (simp add: mirror_def WriteGp_def ret_started_def)
  ultimately have run: "shadow_RunFrom ret_env False 0x1000 ret_shadow = Some (Inr (None, s2))"
    by (simp add: shadow_RunFrom_def)
  have "agree (fast_sim ret_shadow) (ref_sim ret_shadow)" by (simp add: ret_shadow_def agree_def)
  then show ?thesis using run_without_report_ends_in_agreement [OF run] run by blast
qed


lemma first_report_total: "\<forall>c \<in> set cs. \<exists>x. c = Inr x \<Longrightarrow> \<exists>x. first_report cs = Inr x"
  by (induction cs) (auto split: option.splits)

lemma compare_item_total: "read f = Inr a \<Longrightarrow> read r = Inr b \<Longrightarrow> \<exists>x. compare_item read rep f r = Inr x"
  by (simp add: compare_item_def)

lemma CompareStep_total:
  fixes f r :: "'v vsim"
  shows "\<exists>x. CompareStep pc rep f r = Inr x"
proof -
  have x: "\<exists>a. ReadGp (of_nat i) s = Inr a" if "i < 31" for i and s :: "'v vsim" using x_bank.rd_total [OF that] .
  have v: "\<exists>a. ReadV128 (of_nat i) s = Inr a" if "i < 32" for i and s :: "'v vsim" using v_bank.rd_total [OF that] .
  have y: "\<exists>a. ReadGp GpSP s = Inr a" "\<exists>a. ReadGp GpPC s = Inr a" "\<exists>a. ReadSys SysNZCV s = Inr a"
    "\<exists>a. ReadSys SysFPCR s = Inr a" "\<exists>a. ReadSys SysFPSR s = Inr a" "\<exists>a. ReadSys SysBType s = Inr a" for s :: "'v vsim"
    by (simp_all add: ReadGp_def ReadSys_def)
  have c: "\<exists>x. compare_item read rep' f r = Inr x"
    if "\<And>s :: 'v vsim. \<exists>a. read s = Inr a" for read :: "'v vsim \<Rightarrow> abort + 'b" and rep'
    using that compare_item_total [of read f _ r] by meson
  show ?thesis
    unfolding CompareStep_def Let_def
    by (rule first_report_total) (auto intro!: c y x v simp del: upt.simps upt_rec_numeral)
qed

text \<open>C37: A false alarm.  Two simulators that agree execute the same atomic update in lockstep, over the
  one memory they share: the reference reads the value the fast track has just stored.  Whenever that
  value differs from the original one (and the target is not the zero register), the target registers
  differ and the comparison reports a divergence, although both tracks executed the instruction right.\<close>

theorem lockstep_reports_atomic_updates:
  fixes T :: "'a::len itself" and f r f' r' f2 r2 :: "'v vsim"
  assumes "AtomicMemorySimpleHelper u sgnd T instr f = Inr f'"
    and "AtomicMemorySimpleHelper u sgnd T instr (share_memory f' r) = Inr r'"
    and "agree f r" "LENGTH('a) \<in> {8, 16, 32, 64}" "rt_of (insn_bits instr) \<noteq> 31"
    and "a = (ReadRegister (rn_of (insn_bits instr)) Reg31IsStackPointer f :: u64)"
    and "old = (read_mem (memory f) (AddressUntag a) (LENGTH('a) div 8) :: 'a word)"
    and "new = atomic_simple_result sgnd (Mask AtomicMemorySimpleOpMask (insn_bits instr)) old
      (ReadRegister (rs_of (insn_bits instr)) Reg31IsZeroRegister f)"
    and "widened sgnd new \<noteq> widened sgnd old"
    and "finish_instruction env False f' = Inr f2" "finish_instruction env False r' = Inr r2"
  shows "xregs f2 (rt_of (insn_bits instr)) = widened sgnd old \<and> xregs r2 (rt_of (insn_bits instr)) = widened sgnd new
    \<and> (\<exists>report. CompareStep pc rep (share_memory r2 f2) r2 = Inr (Some report))"
proof -
  let ?rt = "rt_of (insn_bits instr)"
  note lt = register_number_less [of "insn_bits instr"]
  have x: "xregs r i = xregs f i" if "i < 32" for i
    using assms(3) that unfolding agree_def list_eq_iff_nth_eq by (simp del: upt.simps)
  have a: "a = ReadRegister (rn_of (insn_bits instr)) Reg31IsStackPointer (share_memory f' r)"
    using x [of "rn_of (insn_bits instr)"] lt by (simp add: assms(6) ReadRegister_def share_memory_def)
  note ef = atomic_effect [OF assms(1,4,6,7)]
  have new: "new = read_mem (memory (share_memory f' r)) (AddressUntag a) (LENGTH('a) div 8)"
    using ef assms(8) by (simp add: share_memory_def)
  note er = atomic_effect [OF assms(2,4) a new]
  have fin: "xregs s2 = xregs s" if "finish_instruction env False s = Inr s2" for s s2 :: "'v vsim"
    using that by (auto simp: finish_instruction_def UpdateBType_def IncrementPc_def)
  have t: "xregs f2 ?rt = widened sgnd old" "xregs r2 ?rt = widened sgnd new"
    using ef er assms(5) fin [OF assms(10)] fin [OF assms(11)] by simp_all
  have "\<not> agree (share_memory r2 f2) r2"
  proof
    assume "agree (share_memory r2 f2) r2"
    then have "xregs f2 ?rt = xregs r2 ?rt"
      using lt(5) unfolding agree_def list_eq_iff_nth_eq by (simp add: share_memory_def del: upt.simps)
    then show False using t assms(9) by simp
  qed
  then have "CompareStep pc rep (share_memory r2 f2) r2 \<noteq> Inr None" by (simp add: CompareStep_agree)
  moreover obtain c where "CompareStep pc rep (share_memory r2 f2) r2 = Inr c" using CompareStep_total by blast
  ultimately show ?thesis using t by (cases c) auto
qed


lemma atomic_keeps_checks:
  fixes T :: "'a::len itself" and s :: "'v vsim"
  assumes "AtomicMemorySimpleHelper u sgnd T instr s = Inr s'"
  shows "mte_active s' = mte_active s"
proof -
  have "mte_active (WriteRegisterT b n d t) = mte_active t" for b n and d :: "'a word" and t :: "'v vsim"
    by (simp add: WriteRegisterT_def WriteRegisterNarrowSigned_def WriteRegisterNarrowUnsigned_def WriteRegister_def Let_def)
  with assms show ?thesis
    by (auto simp: AtomicMemorySimpleHelper_def Let_def MemWriteT_def dest!: MemWrite_frame(7))
qed

theorem lockstep_reports_atomic_updates_witness:
  "\<exists>f' r'. AtomicMemorySimpleHelper True True TYPE(8) ldsmaxb_instr (byte_vsim ret_vsim) = Inr f'
     \<and> AtomicMemorySimpleHelper True True TYPE(8) ldsmaxb_instr (share_memory f' (byte_vsim ret_vsim)) = Inr r'
     \<and> xregs f' 1 = 0xFFFFFF80 \<and> xregs r' 1 = 0"
proof -
  let ?s = "byte_vsim ret_vsim"
  obtain f' where f: "AtomicMemorySimpleHelper True True TYPE(8) ldsmaxb_instr ?s = Inr f'"
    using ldsmaxb_runs [of ?s] by auto
  obtain r' where r: "AtomicMemorySimpleHelper True True TYPE(8) ldsmaxb_instr (share_memory f' ?s) = Inr r'"
    using ldsmaxb_runs [of "share_memory f' ?s"] atomic_keeps_checks [OF f] by (auto simp: share_memory_def)
  have fin: "\<exists>t. finish_instruction ret_env False s = Inr t \<and> xregs t = xregs s" for s
    by (simp add: finish_instruction_def UpdateBType_def IncrementPc_def)
  obtain f2 r2 where fr: "finish_instruction ret_env False f' = Inr f2" "xregs f2 = xregs f'"
      "finish_instruction ret_env False r' = Inr r2" "xregs r2 = xregs r'"
    using fin by metis
  have old: "(0x80 :: u8) = read_mem (memory ?s) (AddressUntag 0x4000) (LENGTH(8) div 8)" by simp
  have op: "Mask AtomicMemorySimpleOpMask (insn_bits ldsmaxb_instr) = LDSMAXOp"
    by (simp add: ldsmaxb_instr_def Mask_def)
  have new: "(0 :: u8) = atomic_simple_result True (Mask AtomicMemorySimpleOpMask (insn_bits ldsmaxb_instr)) 0x80
      (ReadRegister (rs_of (insn_bits ldsmaxb_instr)) Reg31IsZeroRegister ?s)"
    unfolding op by (simp add: ldsmaxb_fields ReadRegister_def atomic_simple_result_def)
  have a: "(0x4000 :: u64) = ReadRegister (rn_of (insn_bits ldsmaxb_instr)) Reg31IsStackPointer ?s"
    by (simp add: ldsmaxb_fields ReadRegister_def)
  have "agree ?s ?s" by (simp add: agree_def)
  then have "xregs f2 1 = widened True (0x80 :: u8) \<and> xregs r2 1 = widened True (0 :: u8)"
    using lockstep_reports_atomic_updates [OF f r _ _ _ a old new _ fr(1,3)]
    by (simp add: ldsmaxb_fields widened_def)
  then show ?thesis using f r fr by (auto simp: widened_def)
qed

end
