(* ===== verification/Lane_Laws.thy ===== *)
theory Lane_Laws
  imports Sim_Permute
begin

text \<open>
  The algebra of lanes: reading a lane after writing one, and the contract \<open>lane_op\<close> of an
  operation whose loop body reads and writes only its own lane.  Its consequence is that the
  loop computes every lane from the operands before the instruction, also when the
  destination is one of the sources.
\<close>

section \<open>Lanes of a register\<close>

lemma bit_GetLane:
  "lane_size \<le> 64 \<Longrightarrow> bit (GetLane lane_size i x) n \<longleftrightarrow> n < lane_size \<and> bit x (i * lane_size + n)"
  by (auto simp: GetLane_def bit_take_bit_iff bit_ucast_iff bit_drop_bit_eq)

lemma bit_InsertLane:
  assumes "lane_size \<le> 64"
  shows "bit (InsertLane lane_size i v x) n \<longleftrightarrow> n < 128 \<and>
    (if i * lane_size \<le> n \<and> n < i * lane_size + lane_size then bit v (n - i * lane_size) else bit x n)"
  using assms
  by (auto simp: InsertLane_def bit_or_iff bit_and_iff bit_not_iff bit_push_bit_iff bit_mask_iff
      bit_take_bit_iff bit_ucast_iff dest: bit_imp_le_length)

lemma GetLane_InsertLane_same:
  assumes "lane_size \<le> 64" "i * lane_size + lane_size \<le> 128"
  shows "GetLane lane_size i (InsertLane lane_size i v x) = take_bit lane_size v"
  by (rule bit_word_eqI) (use assms in \<open>auto simp: bit_GetLane bit_InsertLane bit_take_bit_iff\<close>)

lemma GetLane_InsertLane_other:
  assumes "lane_size \<le> 64" "i \<noteq> j"
  shows "GetLane lane_size i (InsertLane lane_size j v x) = GetLane lane_size i x"
proof (rule bit_word_eqI)
  fix n
  have "\<not> (j * lane_size \<le> i * lane_size + n \<and> i * lane_size + n < j * lane_size + lane_size)" if "n < lane_size"
  proof (cases "i < j")
    case True
    then have "i * lane_size + lane_size \<le> j * lane_size"
      by (metis add.commute mult_Suc Suc_leI mult_le_mono1)
    with that show ?thesis by simp
  next
    case False
    with assms have "j * lane_size + lane_size \<le> i * lane_size"
      by (metis add.commute mult_Suc Suc_leI mult_le_mono1 nat_neq_iff)
    then show ?thesis by simp
  qed
  then show "bit (GetLane lane_size i (InsertLane lane_size j v x)) n = bit (GetLane lane_size i x) n"
    using assms by (auto simp: bit_GetLane bit_InsertLane dest: bit_imp_le_length)
qed

lemma InsertLane_GetLane:
  "lane_size \<le> 64 \<Longrightarrow> InsertLane lane_size i (GetLane lane_size i x) x = x"
  by (rule bit_word_eqI) (auto simp: bit_GetLane bit_InsertLane dest: bit_imp_le_length)

lemma InsertLane_take_bit:
  "lane_size \<le> 64 \<Longrightarrow> InsertLane lane_size i (take_bit lane_size v) x = InsertLane lane_size i v x"
  by (rule bit_word_eqI) (auto simp: bit_InsertLane bit_take_bit_iff)

section \<open>Formats with lanes\<close>

lemma has_lanes_simps [simp]:
  "has_lanes kFormat8B" "has_lanes kFormat16B" "has_lanes kFormat4H" "has_lanes kFormat8H"
  "has_lanes kFormat2S" "has_lanes kFormat4S" "has_lanes kFormat1D" "has_lanes kFormat2D"
  "has_lanes kFormatB" "has_lanes kFormatH" "has_lanes kFormatS" "has_lanes kFormatD" "has_lanes kFormat2H"
  "has_lanes kFormatVnB" "has_lanes kFormatVnH" "has_lanes kFormatVnS" "has_lanes kFormatVnD"
  "\<not> has_lanes kFormatUndefined" "\<not> has_lanes kFormat1Q" "\<not> has_lanes kFormatVnQ" "\<not> has_lanes kFormatVnO"
  by (simp_all add: has_lanes_def)

lemma has_lanes_size:
  "has_lanes vf \<Longrightarrow> 8 \<le> LaneSizeInBitsFromFormat vf \<and> LaneSizeInBitsFromFormat vf \<le> 64"
  by (auto simp: has_lanes_def)

lemma has_lanes_le: "has_lanes vf \<Longrightarrow> LaneSizeInBitsFromFormat vf \<le> 64"
  using has_lanes_size by blast

lemma lanes_fit: "has_lanes vf \<Longrightarrow> LaneCount vf * LaneSizeInBitsFromFormat vf \<le> 128"
  by (cases vf) (simp_all add: LaneCount_def)

lemma lane_fits:
  assumes "has_lanes vf" "i < LaneCount vf"
  shows "i * LaneSizeInBitsFromFormat vf + LaneSizeInBitsFromFormat vf \<le> 128"
proof -
  have "Suc i * LaneSizeInBitsFromFormat vf \<le> LaneCount vf * LaneSizeInBitsFromFormat vf"
    using assms(2) by (intro mult_le_mono1) simp
  then show ?thesis using lanes_fit [OF assms(1)] by simp
qed

text \<open>For a NEON format the lanes are the register part that \<open>ClearForWrite\<close> keeps.\<close>

lemma lanes_are_register:
  "has_lanes vf \<Longrightarrow> \<not> IsSVEFormat vf \<Longrightarrow>
    LaneCount vf * LaneSizeInBitsFromFormat vf = RegisterSizeInBitsFromFormat vf"
  by (cases vf) (simp_all add: LaneCount_def)

lemma register_size_bytes:
  "8 * RegisterSizeInBytesFromFormat vf = RegisterSizeInBitsFromFormat vf"
  by (cases vf) (simp_all add: RegisterSizeInBytesFromFormat_def)

lemma bit_LUint:
  "has_lanes vf \<Longrightarrow> bit (LUint vf B r i) n \<longleftrightarrow>
    n < LaneSizeInBitsFromFormat vf \<and> bit (B r) (i * LaneSizeInBitsFromFormat vf + n)"
  using has_lanes_le [of vf] by (simp add: LUint_def bit_GetLane)

lemma LUint_take_bit [simp]:
  "take_bit (LaneSizeInBitsFromFormat vf) (LUint vf B r i) = LUint vf B r i"
  by (cases "has_lanes vf")
    (simp_all add: LUint_def GetLane_def)

lemma LInt_LUint:
  "has_lanes vf \<Longrightarrow> LInt vf B r i = signed_take_bit (LaneSizeInBitsFromFormat vf - 1) (LUint vf B r i)"
  by (simp add: LInt_def LUint_def)

lemma SetInt_SetUint: "SetInt = SetUint"
  by (intro ext) (simp add: SetInt_def SetUint_def)

lemma LUint_SetUint_same:
  "has_lanes vf \<Longrightarrow> i < LaneCount vf \<Longrightarrow>
    LUint vf (SetUint vf r i v B) r i = take_bit (LaneSizeInBitsFromFormat vf) v"
  by (simp add: LUint_def SetUint_def GetLane_InsertLane_same has_lanes_le lane_fits)

lemma LUint_SetUint_other:
  "i \<noteq> j \<Longrightarrow> LUint vf (SetUint vf r i v B) r' j = LUint vf B r' j"
  by (auto simp: LUint_def SetUint_def GetLane_InsertLane_other has_lanes_le)

lemma SetUint_other_register [simp]: "r' \<noteq> r \<Longrightarrow> SetUint vf r i v B r' = B r'"
  by (simp add: SetUint_def)

lemma LUint_other_register [simp]: "r' \<noteq> r \<Longrightarrow> LUint vf (SetUint vf' r i v B) r' j = LUint vf B r' j"
  by (simp add: LUint_def)

lemma LUint_cong: "B r = B' r \<Longrightarrow> LUint vf B r i = LUint vf B' r i"
  by (simp add: LUint_def)

lemma LInt_cong: "B r = B' r \<Longrightarrow> LInt vf B r i = LInt vf B' r i"
  by (simp add: LInt_def)

lemma SetUint_LUint [simp]: "SetUint vf r i (LUint vf B r i) B = B"
  by (auto simp: SetUint_def LUint_def InsertLane_GetLane has_lanes_le)

lemma SetUint_take_bit:
  "SetUint vf r i (take_bit (LaneSizeInBitsFromFormat vf) v) B = SetUint vf r i v B"
  by (simp add: SetUint_def InsertLane_take_bit has_lanes_le)

text \<open>Writing a lane leaves the bits past the lanes.\<close>

lemma SetUint_above:
  assumes "has_lanes vf" "i < LaneCount vf" "LaneCount vf * LaneSizeInBitsFromFormat vf \<le> n"
  shows "bit (SetUint vf r i v B r') n = bit (B r') n"
proof -
  have "Suc i * LaneSizeInBitsFromFormat vf \<le> LaneCount vf * LaneSizeInBitsFromFormat vf"
    using assms(2) by (intro mult_le_mono1) simp
  with assms show ?thesis
    by (auto simp: SetUint_def bit_InsertLane has_lanes_le dest: bit_imp_le_length)
qed

lemma bit_ClearForWrite:
  "bit (ClearForWrite vf r B r') n \<longleftrightarrow>
    bit (B r') n \<and> (r' = r \<and> \<not> IsSVEFormat vf \<longrightarrow> n < RegisterSizeInBitsFromFormat vf)"
  by (auto simp: ClearForWrite_def ClearTail_def register_size_bytes bit_take_bit_iff)

lemma ClearForWrite_other [simp]: "r' \<noteq> r \<Longrightarrow> ClearForWrite vf r B r' = B r'"
  by (simp add: ClearForWrite_def)

lemma lane_bit_below:
  assumes "i < n" "k < (w :: nat)"
  shows "i * w + k < n * w"
proof -
  have "i * w + k < i * w + w" using assms(2) by simp
  also have "\<dots> = Suc i * w" by simp
  also have "\<dots> \<le> n * w" using assms(1) by (intro mult_le_mono1) simp
  finally show ?thesis .
qed

lemma LUint_ClearForWrite:
  assumes "has_lanes vf" "i < LaneCount vf"
  shows "LUint vf (ClearForWrite vf r B) r' i = LUint vf B r' i"
proof (rule bit_word_eqI)
  fix n
  show "bit (LUint vf (ClearForWrite vf r B) r' i) n = bit (LUint vf B r' i) n"
    using assms lanes_are_register [OF assms(1)] lane_bit_below [OF assms(2), of n "LaneSizeInBitsFromFormat vf"]
    by (auto simp: bit_LUint bit_ClearForWrite)
qed

text \<open>Two registers with the same lanes and nothing above them are equal.\<close>

lemma register_eq_by_lanes:
  assumes f: "has_lanes vf"
    and lanes: "\<And>i. i < LaneCount vf \<Longrightarrow> LUint vf B r i = LUint vf B' r' i"
    and above: "\<And>n. LaneCount vf * LaneSizeInBitsFromFormat vf \<le> n \<Longrightarrow> bit (B r) n = bit (B' r') n"
  shows "B r = B' r'"
proof (rule bit_word_eqI)
  fix n
  let ?w = "LaneSizeInBitsFromFormat vf"
  have w: "?w > 0" using has_lanes_size [OF f] by simp
  show "bit (B r) n = bit (B' r') n"
  proof (cases "n < LaneCount vf * ?w")
    case True
    then have "n div ?w < LaneCount vf" by (simp add: less_mult_imp_div_less)
    from lanes [OF this] have "bit (LUint vf B r (n div ?w)) (n mod ?w) = bit (LUint vf B' r' (n div ?w)) (n mod ?w)"
      by simp
    then show ?thesis using f w by (simp add: bit_LUint)
  next
    case False
    then show ?thesis by (intro above) simp
  qed
qed

section \<open>Loops that write arrays\<close>

lemma for_lanes_0 [simp]: "for_lanes 0 body st = st"
  by (simp add: for_lanes_def)

lemma for_lanes_Suc [simp]: "for_lanes (Suc n) body st = body n (for_lanes n body st)"
  by (simp add: for_lanes_def)

lemma write_array_other [simp]: "r' \<noteq> r \<Longrightarrow> write_array vf r n f B r' = B r'"
  by (induction n) (simp_all add: write_array_def)

lemma LUint_write_array:
  assumes f: "has_lanes vf" and "n \<le> LaneCount vf"
  shows "LUint vf (write_array vf r n f B) r j =
    (if j < n then take_bit (LaneSizeInBitsFromFormat vf) (f j) else LUint vf B r j)"
  using assms(2)
proof (induction n)
  case (Suc n)
  then show ?case
    using f by (auto simp: write_array_def LUint_SetUint_same LUint_SetUint_other less_Suc_eq)
qed (simp add: write_array_def)

lemma write_array_above:
  assumes f: "has_lanes vf" and "n \<le> LaneCount vf" and "LaneCount vf * LaneSizeInBitsFromFormat vf \<le> k"
  shows "bit (write_array vf r n f B r') k = bit (B r') k"
  using assms(2)
  by (induction n) (simp_all add: write_array_def SetUint_above [OF f _ assms(3)])

lemma LUint_SetUintArray:
  assumes "has_lanes vf" "i < LaneCount vf"
  shows "LUint vf (SetUintArray vf r f B) r i = take_bit (LaneSizeInBitsFromFormat vf) (f i)"
  using assms by (simp add: SetUintArray_def LUint_write_array)

lemma SetUintArray_other [simp]: "r' \<noteq> r \<Longrightarrow> SetUintArray vf r f B r' = B r'"
  by (simp add: SetUintArray_def)

lemma SetUintArray_above:
  assumes "has_lanes vf" "\<not> IsSVEFormat vf" "RegisterSizeInBitsFromFormat vf \<le> n"
  shows "\<not> bit (SetUintArray vf r f B r) n"
  using assms write_array_above [OF assms(1) order_refl, of n r f "ClearForWrite vf r B" r]
  by (simp add: SetUintArray_def bit_ClearForWrite lanes_are_register)

lemma SetIntArray_SetUintArray: "SetIntArray = SetUintArray"
  by (intro ext) (simp add: SetIntArray_def SetUintArray_def write_array_def SetInt_SetUint)

section \<open>Operations that work lane by lane\<close>

text \<open>A lane of the working state: its value, its saturation flags, its rounding bit.\<close>

type_synonym lane = "u64 \<times> u32 \<times> bool"

definition lane_of :: "VectorFormat \<Rightarrow> vstate \<Rightarrow> nat \<Rightarrow> lane" where
  "lane_of vf st i =
     (LUint vf (snd st) (lv_register (fst st)) i, lv_saturated (fst st) i, lv_round (fst st) i)"

definition put_lane :: "VectorFormat \<Rightarrow> nat \<Rightarrow> lane \<Rightarrow> vstate \<Rightarrow> vstate" where
  "put_lane vf i l st =
     (let (v, s, b) = l; (d, B) = st
      in (d\<lparr>lv_saturated := (lv_saturated d)(i := s), lv_round := (lv_round d)(i := b)\<rparr>,
          SetUint vf (lv_register d) i v B))"

definition cut_lane :: "VectorFormat \<Rightarrow> lane \<Rightarrow> lane" where
  "cut_lane vf l = (take_bit (LaneSizeInBitsFromFormat vf) (fst l), snd l)"

text \<open>
  The contract: the body puts into lane \<open>i\<close> what \<open>f\<close> makes of the lanes \<open>i\<close> of the registers
  and of the lane state.
\<close>

locale lane_op =
  fixes vf :: VectorFormat
    and body :: "nat \<Rightarrow> vstate \<Rightarrow> vstate"
    and f :: "(vref \<Rightarrow> u64) \<Rightarrow> lane \<Rightarrow> lane"
  assumes body_is_put: "has_lanes vf \<Longrightarrow>
    body i st = put_lane vf i (f (\<lambda>r. LUint vf (snd st) r i) (lane_of vf st i)) st"
begin

lemma register_kept: "has_lanes vf \<Longrightarrow> lv_register (fst (for_lanes n body st)) = lv_register (fst st)"
  by (induction n) (simp_all add: body_is_put put_lane_def case_prod_beta)

lemma other_registers_kept:
  "has_lanes vf \<Longrightarrow> r \<noteq> lv_register (fst st) \<Longrightarrow> snd (for_lanes n body st) r = snd st r"
  by (induction n) (simp_all add: body_is_put put_lane_def case_prod_beta register_kept)

lemma other_lanes_kept:
  "has_lanes vf \<Longrightarrow> n \<le> j \<Longrightarrow> LUint vf (snd (for_lanes n body st)) r j = LUint vf (snd st) r j \<and>
    lane_of vf (for_lanes n body st) j = lane_of vf st j"
proof (induction n)
  case (Suc n)
  let ?st = "for_lanes n body st"
  have ih: "LUint vf (snd ?st) r j = LUint vf (snd st) r j" "lane_of vf ?st j = lane_of vf st j"
    using Suc by simp_all
  have "LUint vf (snd (body n ?st)) r' j = LUint vf (snd ?st) r' j" for r'
    using Suc.prems by (simp add: body_is_put put_lane_def case_prod_beta LUint_SetUint_other)
  moreover have "lane_of vf (body n ?st) j = lane_of vf ?st j"
    using Suc.prems by (simp add: body_is_put put_lane_def case_prod_beta LUint_SetUint_other lane_of_def)
  ultimately show ?case using ih by simp
qed simp

lemma lanes_computed:
  assumes "has_lanes vf" "j < n" "n \<le> LaneCount vf"
  shows "lane_of vf (for_lanes n body st) j =
    cut_lane vf (f (\<lambda>r. LUint vf (snd st) r j) (lane_of vf st j))"
  using assms(2,3)
proof (induction n)
  case (Suc n)
  let ?st = "for_lanes n body st"
  show ?case
  proof (cases "j = n")
    case True
    have "LUint vf (snd ?st) r j = LUint vf (snd st) r j" for r
      using other_lanes_kept [OF assms(1), of n j st r] True by simp
    moreover have "lane_of vf ?st j = lane_of vf st j"
      using other_lanes_kept [OF assms(1), of n j st] True by simp
    moreover have "lane_of vf (put_lane vf j l ?st) j = cut_lane vf l" for l
      using assms(1) Suc.prems
      by (simp add: put_lane_def lane_of_def cut_lane_def case_prod_beta LUint_SetUint_same)
    ultimately show ?thesis
      using True body_is_put [OF assms(1), of n ?st] by simp
  next
    case False
    then have "j < n" using Suc.prems by simp
    moreover have "lane_of vf (body n ?st) j = lane_of vf ?st j"
      using False assms(1) by (simp add: body_is_put put_lane_def case_prod_beta LUint_SetUint_other lane_of_def)
    ultimately show ?thesis using Suc by simp
  qed
qed simp

lemma above_kept:
  assumes "has_lanes vf" "n \<le> LaneCount vf" "LaneCount vf * LaneSizeInBitsFromFormat vf \<le> k"
  shows "bit (snd (for_lanes n body st) r) k = bit (snd st r) k"
  using assms(2)
  by (induction n)
    (simp_all add: body_is_put [OF assms(1)] put_lane_def case_prod_beta SetUint_above [OF assms(1) _ assms(3)])

end

end
