(* ===== verification/Lane_Arith.thy ===== *)
theory Lane_Arith
  imports Lane_Laws
begin

text \<open>
  The lane operations in integers: what a lane reads as, unsigned and signed, what the
  operations on left-justified words and the saturation and rounding state compute, and the
  interpretations of \<open>lane_op\<close> for the loop bodies of the operations.
\<close>

section \<open>Readings of a lane\<close>

definition sread :: "nat \<Rightarrow> int \<Rightarrow> int" where
  "sread w a = signed_take_bit (w - 1) a"

lemma sread_cases:
  assumes "0 \<le> a" "a < 2 ^ w" "0 < w"
  shows "sread w a = (if a < 2 ^ (w - 1) then a else a - 2 ^ w)"
proof -
  obtain k where w: "w = Suc k" using assms(3) by (cases w) auto
  have t: "take_bit (Suc k) a = a"
    using assms(1,2) unfolding w by (rule take_bit_int_eq_self)
  have b: "bit a k \<longleftrightarrow> \<not> a < 2 ^ k"
    using int_top_bit [of a k] assms(1,2) by (simp add: w not_less)
  have "signed_take_bit k a = take_bit (Suc k) a - 2 ^ Suc k * of_bool (bit a k)"
    by (simp add: signed_take_bit_eq_take_bit_minus)
  then show ?thesis by (simp add: sread_def w t b)
qed

lemma sint_signed_take_bit: "n < 64 \<Longrightarrow> sint (signed_take_bit n (x :: u64)) = signed_take_bit n (uint x)"
  by (rule bit_eqI)
    (auto simp: bit_simps min_def bit_sint_iff bit_uint_iff dest: bit_imp_le_length)

definition ulane :: "VectorFormat \<Rightarrow> vbank \<Rightarrow> vref \<Rightarrow> nat \<Rightarrow> int" where
  "ulane vf B r i = uint (LUint vf B r i)"

definition slane :: "VectorFormat \<Rightarrow> vbank \<Rightarrow> vref \<Rightarrow> nat \<Rightarrow> int" where
  "slane vf B r i = sint (LInt vf B r i)"

lemma uint_take_bit_int: "uint (take_bit n (x :: u64)) = uint x mod 2 ^ n"
proof -
  have "uint (take_bit n x) = take_bit n (uint x)" by (rule unsigned_take_bit_eq)
  then show ?thesis by (simp only: take_bit_eq_mod)
qed

lemma ulane_bounds: "0 \<le> ulane vf B r i" "ulane vf B r i < 2 ^ LaneSizeInBitsFromFormat vf"
proof -
  have "ulane vf B r i = uint (LUint vf B r i) mod 2 ^ LaneSizeInBitsFromFormat vf"
    using uint_take_bit_int [of "LaneSizeInBitsFromFormat vf" "LUint vf B r i"] by (simp add: ulane_def)
  then show "0 \<le> ulane vf B r i" "ulane vf B r i < 2 ^ LaneSizeInBitsFromFormat vf" by simp_all
qed

lemma slane_sread: "has_lanes vf \<Longrightarrow> slane vf B r i = sread (LaneSizeInBitsFromFormat vf) (ulane vf B r i)"
  using has_lanes_size [of vf]
  by (simp only: slane_def ulane_def LInt_LUint sread_def) (rule sint_signed_take_bit, arith)

lemma sread_bounds:
  assumes "0 \<le> a" "a < 2 ^ w" "0 < w"
  shows "- (2 ^ (w - 1)) \<le> sread w a" "sread w a < 2 ^ (w - 1)"
proof -
  have "(2 :: int) ^ w = 2 * 2 ^ (w - 1)" using assms(3) by (cases w) auto
  then show "- (2 ^ (w - 1)) \<le> sread w a" "sread w a < 2 ^ (w - 1)"
    using assms by (auto simp: sread_cases)
qed

lemma sread_mod: 
  assumes "0 \<le> a" "a < 2 ^ w" "0 < w"
  shows "sread w a mod 2 ^ w = a"
  using assms by (simp add: sread_cases)

end
