(* ===== verification/Lane_Ops.thy ===== *)
theory Lane_Ops
  imports Lane_Arith Sim_Neon
begin

text \<open>
  The loop bodies of the lane-wise operations satisfy \<open>lane_op\<close>: for each, its action on a lane
  as a function of the lanes of the sources and of the lane state, and the interpretation.
\<close>

section \<open>Whole loops\<close>

context lane_op
begin

text \<open>The loop of an operation: the destination cleared past the format, then lane after lane.\<close>

lemma op_lane:
  assumes "has_lanes vf" "j < LaneCount vf"
  shows "lane_of vf (for_lanes (LaneCount vf) body (LogicV rd, ClearForWrite vf rd B)) j =
    cut_lane vf (f (\<lambda>r. LUint vf B r j) (LUint vf B rd j, 0, False))"
  using lanes_computed [OF assms(1,2) order_refl, of "(LogicV rd, ClearForWrite vf rd B)"] assms
  by (simp add: LUint_ClearForWrite lane_of_def LogicV_def)

lemma op_register:
  assumes "has_lanes vf"
  shows "lv_register (fst (for_lanes (LaneCount vf) body (LogicV rd, B))) = rd"
  using assms by (simp add: register_kept LogicV_def)

lemma op_other:
  assumes "has_lanes vf" "r \<noteq> rd"
  shows "snd (for_lanes (LaneCount vf) body (LogicV rd, ClearForWrite vf rd B)) r = B r"
  using assms by (simp add: other_registers_kept LogicV_def)

lemma op_above:
  assumes "has_lanes vf" "\<not> IsSVEFormat vf" "RegisterSizeInBitsFromFormat vf \<le> n"
  shows "\<not> bit (snd (for_lanes (LaneCount vf) body (LogicV rd, ClearForWrite vf rd B)) rd) n"
  using assms above_kept [OF assms(1) order_refl, of n "(LogicV rd, ClearForWrite vf rd B)" rd]
  by (simp add: lanes_are_register bit_ClearForWrite)

text \<open>A loop that works on what another has left.\<close>

lemma chain_lane:
  assumes "has_lanes vf" "j < LaneCount vf"
  shows "lane_of vf (for_lanes (LaneCount vf) body st) j =
    cut_lane vf (f (\<lambda>r. LUint vf (snd st) r j) (lane_of vf st j))"
  by (rule lanes_computed [OF assms order_refl])

lemma chain_above:
  assumes "has_lanes vf" "\<not> IsSVEFormat vf" "RegisterSizeInBitsFromFormat vf \<le> n"
  shows "bit (snd (for_lanes (LaneCount vf) body st) r) n = bit (snd st r) n"
  using assms by (intro above_kept order_refl) (simp_all add: lanes_are_register)

end

lemmas step_body_defs = put_lane_def lane_of_def case_prod_beta Let_def SetInt_SetUint SetSatFlag_def
  SetSignedSat_def SetUnsignedSat_def SetRounding_def GetSignedSaturation_def GetUnsignedSaturation_def
  GetRounding_def UintLeftJustified_def IntLeftJustified_def LInt_LUint

section \<open>The actions on a lane\<close>

text \<open>\<open>set_flags\<close> and \<open>set_bit_if\<close>: the saturation flags with more of them set.\<close>

definition set_flags :: "bool \<Rightarrow> u32 \<Rightarrow> u32 \<Rightarrow> u32" where
  "set_flags c flag s = (if c then s OR flag else s)"

definition sext :: "VectorFormat \<Rightarrow> u64 \<Rightarrow> u64" where
  "sext vf x = signed_take_bit (LaneSizeInBitsFromFormat vf - 1) x"

definition just :: "VectorFormat \<Rightarrow> u64 \<Rightarrow> u64" where
  "just vf x = push_bit (64 - LaneSizeInBitsFromFormat vf) x"

definition add_step :: "VectorFormat \<Rightarrow> vref \<Rightarrow> vref \<Rightarrow> (vref \<Rightarrow> u64) \<Rightarrow> lane \<Rightarrow> lane" where
  "add_step vf src1 src2 R l =
     (let (v, s, b) = l;
          ua = just vf (R src1); ub = just vf (R src2); ur = ua + ub;
          pos_a = (drop_bit 63 ua = 0); pos_b = (drop_bit 63 ub = 0); pos_r = (drop_bit 63 ur = 0);
          s = set_flags (ur < ua) kUnsignedSatPositive s;
          s = set_flags (pos_a = pos_b \<and> pos_a \<noteq> pos_r)
                (if pos_a then kSignedSatPositive else kSignedSatNegative) s
      in (drop_bit (64 - LaneSizeInBitsFromFormat vf) ur, s, b))"

definition sub_step :: "VectorFormat \<Rightarrow> vref \<Rightarrow> vref \<Rightarrow> (vref \<Rightarrow> u64) \<Rightarrow> lane \<Rightarrow> lane" where
  "sub_step vf src1 src2 R l =
     (let (v, s, b) = l;
          ua = just vf (R src1); ub = just vf (R src2); ur = ua - ub;
          pos_a = (drop_bit 63 ua = 0); pos_b = (drop_bit 63 ub = 0); pos_r = (drop_bit 63 ur = 0);
          s = set_flags (ub > ua) kUnsignedSatNegative s;
          s = set_flags (pos_a \<noteq> pos_b \<and> pos_a \<noteq> pos_r)
                (if pos_a then kSignedSatPositive else kSignedSatNegative) s
      in (drop_bit (64 - LaneSizeInBitsFromFormat vf) ur, s, b))"

definition mul_step :: "VectorFormat \<Rightarrow> vref \<Rightarrow> vref \<Rightarrow> (vref \<Rightarrow> u64) \<Rightarrow> lane \<Rightarrow> lane" where
  "mul_step vf src1 src2 R l =
     (R src1 * R src2, snd l)"

definition cmp_step :: "VectorFormat \<Rightarrow> vref \<Rightarrow> vref \<Rightarrow> vcond \<Rightarrow> (vref \<Rightarrow> u64) \<Rightarrow> lane \<Rightarrow> lane" where
  "cmp_step vf src1 src2 cond R l =
     (if cmp_holds cond (sext vf (R src1)) (sext vf (R src2)) (R src1) (R src2)
         then MaxUintFromFormat vf else 0, snd l)"

definition cmptst_step :: "VectorFormat \<Rightarrow> vref \<Rightarrow> vref \<Rightarrow> (vref \<Rightarrow> u64) \<Rightarrow> lane \<Rightarrow> lane" where
  "cmptst_step vf src1 src2 R l =
     (if R src1 AND R src2 \<noteq> 0 then MaxUintFromFormat vf else 0, snd l)"

definition sminmax_step :: "VectorFormat \<Rightarrow> vref \<Rightarrow> vref \<Rightarrow> bool \<Rightarrow> (vref \<Rightarrow> u64) \<Rightarrow> lane \<Rightarrow> lane" where
  "sminmax_step vf src1 src2 mx R l =
     (let x = sext vf (R src1); y = sext vf (R src2)
      in if mx then if sint x > sint y then x else y else if sint x < sint y then x else y, snd l)"

definition uminmax_step :: "VectorFormat \<Rightarrow> vref \<Rightarrow> vref \<Rightarrow> bool \<Rightarrow> (vref \<Rightarrow> u64) \<Rightarrow> lane \<Rightarrow> lane" where
  "uminmax_step vf src1 src2 mx R l =
     (let x = R src1; y = R src2
      in if mx then if x > y then x else y else if x < y then x else y, snd l)"

definition absdiff_step :: "VectorFormat \<Rightarrow> vref \<Rightarrow> vref \<Rightarrow> bool \<Rightarrow> (vref \<Rightarrow> u64) \<Rightarrow> lane \<Rightarrow> lane" where
  "absdiff_step vf src1 src2 is_signed R l =
     (if (if is_signed then sint (sext vf (R src1)) > sint (sext vf (R src2)) else R src1 > R src2)
         then R src1 - R src2 else R src2 - R src1, snd l)"

definition and_step :: "VectorFormat \<Rightarrow> vref \<Rightarrow> vref \<Rightarrow> (vref \<Rightarrow> u64) \<Rightarrow> lane \<Rightarrow> lane" where
  "and_step vf src1 src2 R l =
     (R src1 AND R src2, snd l)"

definition orr_step :: "VectorFormat \<Rightarrow> vref \<Rightarrow> vref \<Rightarrow> (vref \<Rightarrow> u64) \<Rightarrow> lane \<Rightarrow> lane" where
  "orr_step vf src1 src2 R l =
     (R src1 OR R src2, snd l)"

definition orn_step :: "VectorFormat \<Rightarrow> vref \<Rightarrow> vref \<Rightarrow> (vref \<Rightarrow> u64) \<Rightarrow> lane \<Rightarrow> lane" where
  "orn_step vf src1 src2 R l =
     (R src1 OR NOT (R src2), snd l)"

definition eor_step :: "VectorFormat \<Rightarrow> vref \<Rightarrow> vref \<Rightarrow> (vref \<Rightarrow> u64) \<Rightarrow> lane \<Rightarrow> lane" where
  "eor_step vf src1 src2 R l =
     (R src1 XOR R src2, snd l)"

definition bic_step :: "VectorFormat \<Rightarrow> vref \<Rightarrow> vref \<Rightarrow> (vref \<Rightarrow> u64) \<Rightarrow> lane \<Rightarrow> lane" where
  "bic_step vf src1 src2 R l =
     (R src1 AND NOT (R src2), snd l)"

definition bif_step :: "VectorFormat \<Rightarrow> vref \<Rightarrow> vref \<Rightarrow> (vref \<Rightarrow> u64) \<Rightarrow> lane \<Rightarrow> lane" where
  "bif_step vf src1 src2 R l =
     (fst l XOR ((fst l XOR R src1) AND NOT (R src2)), snd l)"

definition bit_step :: "VectorFormat \<Rightarrow> vref \<Rightarrow> vref \<Rightarrow> (vref \<Rightarrow> u64) \<Rightarrow> lane \<Rightarrow> lane" where
  "bit_step vf src1 src2 R l =
     (fst l XOR ((fst l XOR R src1) AND R src2), snd l)"

definition bsl_step :: "VectorFormat \<Rightarrow> vref \<Rightarrow> vref \<Rightarrow> vref \<Rightarrow> (vref \<Rightarrow> u64) \<Rightarrow> lane \<Rightarrow> lane" where
  "bsl_step vf src_mask src1 src2 R l =
     (R src2 XOR ((R src2 XOR R src1) AND R src_mask), snd l)"

definition not_step :: "VectorFormat \<Rightarrow> vref \<Rightarrow> (vref \<Rightarrow> u64) \<Rightarrow> lane \<Rightarrow> lane" where
  "not_step vf src R l =
     (NOT (R src), snd l)"

definition neg_step :: "VectorFormat \<Rightarrow> vref \<Rightarrow> (vref \<Rightarrow> u64) \<Rightarrow> lane \<Rightarrow> lane" where
  "neg_step vf src R l =
     (let (v, s, b) = l; sa = sext vf (R src)
      in (if sa = push_bit 63 1 then sa else - sa, set_flags (sa = MinIntFromFormat vf) kSignedSatPositive s, b))"

definition abs_step :: "VectorFormat \<Rightarrow> vref \<Rightarrow> (vref \<Rightarrow> u64) \<Rightarrow> lane \<Rightarrow> lane" where
  "abs_step vf src R l =
     (let (v, s, b) = l; sa = sext vf (R src)
      in (if sint sa < 0 then (if sa = push_bit 63 1 then sa else - sa) else sa,
          set_flags (sa = MinIntFromFormat vf) kSignedSatPositive s, b))"

definition suqadd_step :: "VectorFormat \<Rightarrow> vref \<Rightarrow> vref \<Rightarrow> (vref \<Rightarrow> u64) \<Rightarrow> lane \<Rightarrow> lane" where
  "suqadd_step vf src1 src2 R l =
     (let sa = just vf (R src1); ub = just vf (R src2); ur = sa + ub
      in if sint ur < sint sa then MaxIntFromFormat vf else sext vf (R src1) + R src2, snd l)"

definition usqadd_step :: "VectorFormat \<Rightarrow> vref \<Rightarrow> vref \<Rightarrow> (vref \<Rightarrow> u64) \<Rightarrow> lane \<Rightarrow> lane" where
  "usqadd_step vf src1 src2 R l =
     (let ua = just vf (R src1); sb = just vf (R src2); ur = ua + sb
      in if sint sb > 0 \<and> ur \<le> ua then MaxUintFromFormat vf
         else if sint sb < 0 \<and> ur \<ge> ua then 0
         else R src1 + sext vf (R src2), snd l)"

definition sshl_step :: "VectorFormat \<Rightarrow> vref \<Rightarrow> vref \<Rightarrow> bool \<Rightarrow> (vref \<Rightarrow> u64) \<Rightarrow> lane \<Rightarrow> lane" where
  "sshl_step vf src1 src2 shift_in_ls_byte R l =
     (let (v, s, b) = l;
          shift_val = CalculateSignedShiftDistance (sext vf (R src2)) (int (LaneSizeInBitsFromFormat vf)) shift_in_ls_byte;
          lj = just vf (R src1);
          s = set_flags (shift_val > CountLeadingSignBitsFallBack lj 64 \<and> lj \<noteq> 0)
                (if sint lj \<ge> 0 then kSignedSatPositive else kSignedSatNegative) s;
          s = (if sint lj < 0 then s OR kUnsignedSatNegative
               else set_flags (shift_val > int (CountLeadingZerosFallBack lj 64) \<and> lj \<noteq> 0) kUnsignedSatPositive s);
          src_val = sext vf (R src1);
          src_is_negative = (sint src_val < 0)
      in if shift_val > 63 then (0, s, b)
         else if shift_val < - 63 then (if src_is_negative then - 1 else 0, s, src_is_negative)
         else if shift_val < 0
         then (let k = nat (- shift_val)
               in (if src_is_negative then drop_bit k src_val OR push_bit (64 - k) (NOT 0) else drop_bit k src_val,
                   s, b \<or> drop_bit (k - 1) src_val AND 1 = 1))
         else (push_bit (nat shift_val) src_val, s, b))"

definition ushl_step :: "VectorFormat \<Rightarrow> vref \<Rightarrow> vref \<Rightarrow> bool \<Rightarrow> (vref \<Rightarrow> u64) \<Rightarrow> lane \<Rightarrow> lane" where
  "ushl_step vf src1 src2 shift_in_ls_byte R l =
     (let (v, s, b) = l;
          shift_val = CalculateSignedShiftDistance (sext vf (R src2)) (int (LaneSizeInBitsFromFormat vf)) shift_in_ls_byte;
          lj = just vf (R src1);
          s = set_flags (shift_val > int (CountLeadingZerosFallBack lj 64) \<and> lj \<noteq> 0) kUnsignedSatPositive s;
          src_val = R src1
      in if shift_val > 63 \<or> shift_val < - 64 then (0, s, b)
         else if shift_val < 0
         then (let k = nat (- shift_val)
               in (if shift_val = - 64 then 0 else drop_bit k src_val, s, b \<or> drop_bit (k - 1) src_val AND 1 = 1))
         else (push_bit (nat shift_val) src_val, s, b))"

definition signed_saturate_step :: "VectorFormat \<Rightarrow> (vref \<Rightarrow> u64) \<Rightarrow> lane \<Rightarrow> lane" where
  "signed_saturate_step vf R l =
     (let (v, s, b) = l; sat = s AND kSignedSatMask
      in (if sat = kSignedSatPositive then MaxIntFromFormat vf
          else if sat = kSignedSatNegative then MinIntFromFormat vf else v, s, b))"

definition unsigned_saturate_step :: "VectorFormat \<Rightarrow> (vref \<Rightarrow> u64) \<Rightarrow> lane \<Rightarrow> lane" where
  "unsigned_saturate_step vf R l =
     (let (v, s, b) = l; sat = s AND kUnsignedSatMask
      in (if sat = kUnsignedSatPositive then MaxUintFromFormat vf
          else if sat = kUnsignedSatNegative then 0 else v, s, b))"

definition round_step :: "VectorFormat \<Rightarrow> (vref \<Rightarrow> u64) \<Rightarrow> lane \<Rightarrow> lane" where
  "round_step vf R l =
     (let (v, s, b) = l in (v + (if b then 1 else 0), s, b))"

definition uhalve_step :: "VectorFormat \<Rightarrow> (vref \<Rightarrow> u64) \<Rightarrow> lane \<Rightarrow> lane" where
  "uhalve_step vf R l =
     (let (v, s, b) = l
      in (if s AND kUnsignedSatMask \<noteq> 0 then drop_bit 1 v OR (drop_bit 1 (MaxUintFromFormat vf) + 1) else drop_bit 1 v,
          s, v AND 1 = 1))"

definition halve_step :: "VectorFormat \<Rightarrow> (vref \<Rightarrow> u64) \<Rightarrow> lane \<Rightarrow> lane" where
  "halve_step vf R l =
     (let (v, s, b) = l; x = sext vf v; h = ExtractSignedBitfield64 63 1 x
      in (if s AND kSignedSatMask = 0 then h else h XOR (drop_bit 1 (MaxUintFromFormat vf) + 1), s, x AND 1 = 1))"

section \<open>The interpretations\<close>

text \<open>A flag that is not set leaves the lane state as it is.\<close>

interpretation add_loop: lane_op vf "add_lane vf src1 src2" "add_step vf src1 src2"
  for vf src1 src2
  by unfold_locales
    (simp add: add_lane_def add_step_def step_body_defs set_flags_def sext_def just_def)

interpretation sub_loop: lane_op vf "sub_lane vf src1 src2" "sub_step vf src1 src2"
  for vf src1 src2
  by unfold_locales
    (simp add: sub_lane_def sub_step_def step_body_defs set_flags_def sext_def just_def)

interpretation mul_loop: lane_op vf "mul_lane vf src1 src2" "mul_step vf src1 src2"
  for vf src1 src2
  by unfold_locales
    (simp add: mul_lane_def mul_step_def step_body_defs set_flags_def sext_def just_def)

interpretation cmp_loop: lane_op vf "cmp_lane vf src1 src2 cond" "cmp_step vf src1 src2 cond"
  for vf src1 src2 cond
  by unfold_locales
    (simp add: cmp_lane_def cmp_step_def step_body_defs set_flags_def sext_def just_def)

interpretation cmptst_loop: lane_op vf "cmptst_lane vf src1 src2" "cmptst_step vf src1 src2"
  for vf src1 src2
  by unfold_locales
    (simp add: cmptst_lane_def cmptst_step_def step_body_defs set_flags_def sext_def just_def)

interpretation sminmax_loop: lane_op vf "sminmax_lane vf src1 src2 mx" "sminmax_step vf src1 src2 mx"
  for vf src1 src2 mx
  by unfold_locales
    (simp add: sminmax_lane_def sminmax_step_def step_body_defs set_flags_def sext_def just_def)

interpretation uminmax_loop: lane_op vf "uminmax_lane vf src1 src2 mx" "uminmax_step vf src1 src2 mx"
  for vf src1 src2 mx
  by unfold_locales
    (simp add: uminmax_lane_def uminmax_step_def step_body_defs set_flags_def sext_def just_def)

interpretation absdiff_loop: lane_op vf "absdiff_lane vf src1 src2 is_signed" "absdiff_step vf src1 src2 is_signed"
  for vf src1 src2 is_signed
  by unfold_locales
    (simp add: absdiff_lane_def absdiff_step_def step_body_defs set_flags_def sext_def just_def)

interpretation and_op_loop: lane_op vf "and_lane vf src1 src2" "and_step vf src1 src2"
  for vf src1 src2
  by unfold_locales
    (simp add: and_lane_def and_step_def step_body_defs set_flags_def sext_def just_def)

interpretation orr_loop: lane_op vf "orr_lane vf src1 src2" "orr_step vf src1 src2"
  for vf src1 src2
  by unfold_locales
    (simp add: orr_lane_def orr_step_def step_body_defs set_flags_def sext_def just_def)

interpretation orn_loop: lane_op vf "orn_lane vf src1 src2" "orn_step vf src1 src2"
  for vf src1 src2
  by unfold_locales
    (simp add: orn_lane_def orn_step_def step_body_defs set_flags_def sext_def just_def)

interpretation eor_loop: lane_op vf "eor_lane vf src1 src2" "eor_step vf src1 src2"
  for vf src1 src2
  by unfold_locales
    (simp add: eor_lane_def eor_step_def step_body_defs set_flags_def sext_def just_def)

interpretation bic_loop: lane_op vf "bic_lane vf src1 src2" "bic_step vf src1 src2"
  for vf src1 src2
  by unfold_locales
    (simp add: bic_lane_def bic_step_def step_body_defs set_flags_def sext_def just_def)

interpretation bif_loop: lane_op vf "bif_lane vf src1 src2" "bif_step vf src1 src2"
  for vf src1 src2
  by unfold_locales
    (simp add: bif_lane_def bif_step_def step_body_defs set_flags_def sext_def just_def)

interpretation bit_loop: lane_op vf "bit_lane vf src1 src2" "bit_step vf src1 src2"
  for vf src1 src2
  by unfold_locales
    (simp add: bit_lane_def bit_step_def step_body_defs set_flags_def sext_def just_def)

interpretation bsl_loop: lane_op vf "bsl_lane vf src_mask src1 src2" "bsl_step vf src_mask src1 src2"
  for vf src_mask src1 src2
  by unfold_locales
    (simp add: bsl_lane_def bsl_step_def step_body_defs set_flags_def sext_def just_def)

interpretation not_op_loop: lane_op vf "not_lane vf src" "not_step vf src"
  for vf src
  by unfold_locales
    (simp add: not_lane_def not_step_def step_body_defs set_flags_def sext_def just_def)

interpretation neg_loop: lane_op vf "neg_lane vf src" "neg_step vf src"
  for vf src
  by unfold_locales
    (simp add: neg_lane_def neg_step_def step_body_defs set_flags_def sext_def just_def)

interpretation abs_loop: lane_op vf "abs_lane vf src" "abs_step vf src"
  for vf src
  by unfold_locales
    (simp add: abs_lane_def abs_step_def step_body_defs set_flags_def sext_def just_def)

interpretation suqadd_loop: lane_op vf "suqadd_lane vf src1 src2" "suqadd_step vf src1 src2"
  for vf src1 src2
  by unfold_locales
    (simp add: suqadd_lane_def suqadd_step_def step_body_defs set_flags_def sext_def just_def)

interpretation usqadd_loop: lane_op vf "usqadd_lane vf src1 src2" "usqadd_step vf src1 src2"
  for vf src1 src2
  by unfold_locales
    (simp add: usqadd_lane_def usqadd_step_def step_body_defs set_flags_def sext_def just_def)

interpretation sshl_loop: lane_op vf "sshl_lane vf src1 src2 shift_in_ls_byte" "sshl_step vf src1 src2 shift_in_ls_byte"
  for vf src1 src2 shift_in_ls_byte
  by unfold_locales
    (simp add: sshl_lane_def sshl_step_def step_body_defs set_flags_def sext_def just_def)

interpretation ushl_loop: lane_op vf "ushl_lane vf src1 src2 shift_in_ls_byte" "ushl_step vf src1 src2 shift_in_ls_byte"
  for vf src1 src2 shift_in_ls_byte
  by unfold_locales
    (simp add: ushl_lane_def ushl_step_def step_body_defs set_flags_def sext_def just_def)

interpretation signed_saturate_loop: lane_op vf "signed_saturate_lane vf" "signed_saturate_step vf"
  for vf
  by unfold_locales
    (simp add: signed_saturate_lane_def signed_saturate_step_def step_body_defs set_flags_def sext_def just_def)

interpretation unsigned_saturate_loop: lane_op vf "unsigned_saturate_lane vf" "unsigned_saturate_step vf"
  for vf
  by unfold_locales
    (simp add: unsigned_saturate_lane_def unsigned_saturate_step_def step_body_defs set_flags_def sext_def just_def)

interpretation round_loop: lane_op vf "round_lane vf" "round_step vf"
  for vf
  by unfold_locales
    (simp add: round_lane_def round_step_def step_body_defs set_flags_def sext_def just_def)

interpretation uhalve_loop: lane_op vf "uhalve_lane vf" "uhalve_step vf"
  for vf
  by unfold_locales
    (simp add: uhalve_lane_def uhalve_step_def step_body_defs set_flags_def sext_def just_def)

interpretation halve_loop: lane_op vf "halve_lane vf" "halve_step vf"
  for vf
  by unfold_locales
    (simp add: halve_lane_def halve_step_def step_body_defs set_flags_def sext_def just_def)

end
