(* ===== verification/Lane_Exact.thy ===== *)
theory Lane_Exact
  imports Lane_Ops
begin

text \<open>
  What the lane operations compute in integers.  A lane of the working state is \<open>exact\<close> for
  an unsigned and a signed result when it holds both modulo the lane size and its saturation
  flags say whether, and on which side, each result leaves its range; saturation then clamps,
  and halving and rounding divide.
\<close>

abbreviation lw :: "VectorFormat \<Rightarrow> nat" where "lw vf \<equiv> LaneSizeInBitsFromFormat vf"

lemma lw_bounds: "has_lanes vf \<Longrightarrow> 0 < lw vf" "has_lanes vf \<Longrightarrow> lw vf \<le> 64"
  using has_lanes_size [of vf] by simp_all

section \<open>Left-justified words\<close>

lemma pow_split: "n \<le> 64 \<Longrightarrow> (2 :: int) ^ 64 = 2 ^ n * 2 ^ (64 - n)"
  by (simp flip: power_add)

lemma pow_half: "0 < n \<Longrightarrow> (2 :: int) ^ n = 2 * 2 ^ (n - 1)"
  by (cases n) simp_all

lemma uint_just:
  assumes "has_lanes vf"
  shows "uint (just vf z) = (uint z mod 2 ^ lw vf) * 2 ^ (64 - lw vf)"
proof -
  have "uint (just vf z) = take_bit 64 (push_bit (64 - lw vf) (uint z))"
    unfolding just_def by (simp only: unsigned_push_bit_eq) simp
  also have "\<dots> = (uint z * 2 ^ (64 - lw vf)) mod 2 ^ 64"
    by (simp only: take_bit_eq_mod push_bit_eq_mult)
  also have "\<dots> = (uint z * 2 ^ (64 - lw vf)) mod (2 ^ lw vf * 2 ^ (64 - lw vf))"
    by (subst pow_split [OF lw_bounds(2) [OF assms]]) (rule refl)
  also have "\<dots> = (uint z mod 2 ^ lw vf) * 2 ^ (64 - lw vf)"
    by (rule mult_mod_left [symmetric])
  finally show ?thesis .
qed

lemma just_add: "just vf x + just vf y = just vf (x + y)"
  by (simp add: just_def push_bit_eq_mult distrib_right)

lemma just_diff: "just vf x - just vf y = just vf (x - y)"
  by (simp add: just_def push_bit_eq_mult left_diff_distrib)

lemma drop_just: "has_lanes vf \<Longrightarrow> drop_bit (64 - lw vf) (just vf z) = take_bit (lw vf) z"
  using lw_bounds [of vf]
  by (intro bit_word_eqI) (auto simp: just_def bit_drop_bit_eq bit_push_bit_iff bit_take_bit_iff)

lemma just_less:
  "has_lanes vf \<Longrightarrow> just vf x < just vf y \<longleftrightarrow> uint x mod 2 ^ lw vf < uint y mod 2 ^ lw vf"
  by (simp add: word_less_alt uint_just)

lemma just_top:
  assumes "has_lanes vf"
  shows "drop_bit 63 (just vf z) = 0 \<longleftrightarrow> uint z mod 2 ^ lw vf < 2 ^ (lw vf - 1)"
proof -
  have p: "(2 :: int) ^ 63 = 2 ^ (lw vf - 1) * 2 ^ (64 - lw vf)"
    using lw_bounds [OF assms] by (simp flip: power_add)
  have "drop_bit 63 (just vf z) = 0 \<longleftrightarrow> uint (drop_bit 63 (just vf z)) = 0"
    by (simp only: uint_0_iff)
  also have "\<dots> \<longleftrightarrow> uint (just vf z) div 2 ^ 63 = 0"
    by (simp only: drop_bit_eq_div uint_div) simp
  also have "\<dots> \<longleftrightarrow> uint (just vf z) < 2 ^ 63"
    using zdiv_eq_0_iff [of "uint (just vf z)" "2 ^ 63"] uint_ge_0 [of "just vf z"] by auto
  finally show ?thesis by (simp only: uint_just [OF assms] p) simp
qed

lemma mod64: "w \<le> 64 \<Longrightarrow> (x :: int) mod 18446744073709551616 mod 2 ^ w = x mod 2 ^ w"
  using mod_mod_cancel [of "2 ^ w" "2 ^ 64" x] le_imp_power_dvd [of w 64 "2 :: int"] by simp

lemma uint_sum_mod: "w \<le> 64 \<Longrightarrow> uint ((x :: u64) + y) mod 2 ^ w = (uint x + uint y) mod 2 ^ w"
  by (simp add: uint_word_ariths mod64)

lemma uint_diff_mod: "w \<le> 64 \<Longrightarrow> uint ((x :: u64) - y) mod 2 ^ w = (uint x - uint y) mod 2 ^ w"
  by (simp add: uint_word_ariths mod64)

lemma uint_mult_mod: "w \<le> 64 \<Longrightarrow> uint ((x :: u64) * y) mod 2 ^ w = (uint x * uint y) mod 2 ^ w"
  by (simp add: uint_word_ariths mod64)

lemma mod_sum_cases:
  fixes a b M :: int
  assumes "0 \<le> a" "a < M" "0 \<le> b" "b < M"
  shows "(a + b) mod M = (if a + b < M then a + b else a + b - M)"
    "(a - b) mod M = (if b \<le> a then a - b else a - b + M)"
proof -
  have "(a + b) mod M = (a + b - M) mod M" "(a - b) mod M = (a - b + M) mod M" by simp_all
  moreover have "(a + b - M) mod M = a + b - M" if "M \<le> a + b"
    using assms that by (intro mod_pos_pos_trivial) auto
  moreover have "(a - b + M) mod M = a - b + M" if "a < b"
    using assms that by (intro mod_pos_pos_trivial) auto
  ultimately show "(a + b) mod M = (if a + b < M then a + b else a + b - M)"
    "(a - b) mod M = (if b \<le> a then a - b else a - b + M)"
    using assms by simp_all
qed

lemma mod_range_cases:
  fixes e M :: int
  assumes "- M \<le> e" "e < 2 * M"
  shows "e mod M = (if M \<le> e then e - M else if e < 0 then e + M else e)"
proof (cases "M \<le> e")
  case True
  have "e mod M = (e - M) mod M" by simp
  also have "\<dots> = e - M" using assms True by (intro mod_pos_pos_trivial) auto
  finally show ?thesis using True by simp
next
  case False
  have "e mod M = (e + M) mod M" by simp
  also have "\<dots> = e + M" if "e < 0" using assms that by (intro mod_pos_pos_trivial) auto
  finally show ?thesis using False assms by (auto simp: mod_pos_pos_trivial not_less)
qed

section \<open>Exact lanes\<close>

lemma sread_take: "0 < w \<Longrightarrow> sread w (a mod 2 ^ w) = sread w a"
proof -
  assume "0 < w"
  then obtain k where "w = Suc k" by (cases w) auto
  then have "sread w (take_bit w a) = sread w a" by (simp add: sread_def signed_take_bit_take_bit)
  then show ?thesis by (simp only: take_bit_eq_mod)
qed

definition uclamp :: "nat \<Rightarrow> int \<Rightarrow> int" where
  "uclamp w x = max 0 (min (2 ^ w - 1) x)"

definition sclamp :: "nat \<Rightarrow> int \<Rightarrow> int" where
  "sclamp w x = max (- (2 ^ (w - 1))) (min (2 ^ (w - 1) - 1) x)"

lemma clamp_cases: "lo \<le> hi \<Longrightarrow> max lo (min hi x) = (if hi < x then hi else if x < lo then lo else (x :: int))"
  by auto

lemma uclamp_cases: "uclamp w x = (if 2 ^ w \<le> x then 2 ^ w - 1 else if x < 0 then 0 else x)"
  unfolding uclamp_def by (subst clamp_cases) auto

lemma sclamp_cases:
  "sclamp w x = (if 2 ^ (w - 1) \<le> x then 2 ^ (w - 1) - 1 else if x < - (2 ^ (w - 1)) then - (2 ^ (w - 1)) else x)"
proof -
  have "- (2 ^ (w - 1)) \<le> (2 ^ (w - 1) - 1 :: int)" by (rule order_trans [of _ 0]) simp_all
  then show ?thesis unfolding sclamp_def by (subst clamp_cases) auto
qed

definition exact_value :: "nat \<Rightarrow> int \<Rightarrow> lane \<Rightarrow> bool" where
  "exact_value w e l \<longleftrightarrow> uint (fst l) = e mod 2 ^ w"

definition unsigned_flags :: "nat \<Rightarrow> int \<Rightarrow> u32 \<Rightarrow> bool" where
  "unsigned_flags w e s \<longleftrightarrow>
     s AND kUnsignedSatMask = (if 2 ^ w \<le> e then kUnsignedSatPositive else if e < 0 then kUnsignedSatNegative else 0)"

definition signed_flags :: "nat \<Rightarrow> int \<Rightarrow> u32 \<Rightarrow> bool" where
  "signed_flags w e s \<longleftrightarrow>
     s AND kSignedSatMask = (if 2 ^ (w - 1) \<le> e then kSignedSatPositive
                             else if e < - (2 ^ (w - 1)) then kSignedSatNegative else 0)"

lemma flag_masks:
  "(0 :: u32) AND 12 = 0" "(0 :: u32) AND 3 = 0" "(1 :: u32) AND 12 = 0" "(2 :: u32) AND 12 = 0"
  "(4 :: u32) AND 12 = 4" "(8 :: u32) AND 12 = 8" "(4 :: u32) AND 3 = 0" "(8 :: u32) AND 3 = 0"
  "(1 :: u32) AND 3 = 1" "(2 :: u32) AND 3 = 2"
  "(4 :: u32) OR 1 = 5" "(4 :: u32) OR 2 = 6" "(8 :: u32) OR 1 = 9" "(8 :: u32) OR 2 = 10"
  "(5 :: u32) AND 12 = 4" "(6 :: u32) AND 12 = 4" "(9 :: u32) AND 12 = 8" "(10 :: u32) AND 12 = 8"
  "(5 :: u32) AND 3 = 1" "(6 :: u32) AND 3 = 2" "(9 :: u32) AND 3 = 1" "(10 :: u32) AND 3 = 2"
  "(1 :: u32) OR 4 = 5" "(2 :: u32) OR 4 = 6" "(1 :: u32) OR 8 = 9" "(2 :: u32) OR 8 = 10"
  by simp_all

subsection \<open>Addition and subtraction\<close>

lemma add_exact:
  fixes R :: "vref \<Rightarrow> u64" and vf src1 src2 v
  defines "w \<equiv> lw vf" and "l \<equiv> cut_lane vf (add_step vf src1 src2 R (v, 0, False))"
  assumes f: "has_lanes vf" and a: "uint (R src1) < 2 ^ w" and b: "uint (R src2) < 2 ^ w"
  shows "exact_value w (uint (R src1) + uint (R src2)) l"
    "unsigned_flags w (uint (R src1) + uint (R src2)) (fst (snd l))"
    "signed_flags w (sread w (uint (R src1)) + sread w (uint (R src2))) (fst (snd l))"
proof -
  define A B H where "A = uint (R src1)" and "B = uint (R src2)" and "H = (2 :: int) ^ (w - 1)"
  have w: "0 < w" "w \<le> 64" using lw_bounds [OF f] by (simp_all add: w_def)
  have M: "(2 :: int) ^ w = 2 * H" using pow_half [OF w(1)] by (simp add: H_def)
  have h: "(2 :: int) ^ (w - Suc 0) = H" by (simp add: H_def)
  have ab: "0 \<le> A" "A < 2 * H" "0 \<le> B" "B < 2 * H" using a b by (simp_all add: A_def B_def flip: M)
  have ur: "uint (R src1 + R src2) mod (2 * H) = (if A + B < 2 * H then A + B else A + B - 2 * H)"
    using uint_sum_mod [OF w(2), of "R src1" "R src2"] mod_sum_cases(1) [OF ab]
    by (simp add: M A_def B_def)
  have ua: "A mod (2 * H) = A" "B mod (2 * H) = B" using ab by simp_all
  show "exact_value w (uint (R src1) + uint (R src2)) l"
    using f by (simp add: exact_value_def l_def cut_lane_def add_step_def Let_def just_add drop_just
        uint_take_bit_int w_def uint_sum_mod lw_bounds)
  have s: "fst (snd l) = set_flags (uint (R src1 + R src2) mod (2 * H) < A) kUnsignedSatPositive
      (set_flags ((A < H) = (B < H) \<and> (A < H) \<noteq> (uint (R src1 + R src2) mod (2 * H) < H))
        (if A < H then kSignedSatPositive else kSignedSatNegative) 0)"
    using f ua ab
    by (simp add: l_def cut_lane_def add_step_def Let_def just_add just_less just_top M [unfolded w_def]
        A_def B_def H_def w_def set_flags_def or.commute)
  show "unsigned_flags w (uint (R src1) + uint (R src2)) (fst (snd l))"
    using ab by (auto simp: s ur unsigned_flags_def set_flags_def flag_masks M simp flip: A_def B_def)
  show "signed_flags w (sread w (uint (R src1)) + sread w (uint (R src2))) (fst (snd l))"
    using ab w a b
    by (auto simp: s ur signed_flags_def set_flags_def flag_masks sread_cases M h simp flip: A_def B_def)
qed

lemma sub_exact:
  fixes R :: "vref \<Rightarrow> u64" and vf src1 src2 v
  defines "w \<equiv> lw vf" and "l \<equiv> cut_lane vf (sub_step vf src1 src2 R (v, 0, False))"
  assumes f: "has_lanes vf" and a: "uint (R src1) < 2 ^ w" and b: "uint (R src2) < 2 ^ w"
  shows "exact_value w (uint (R src1) - uint (R src2)) l"
    "unsigned_flags w (uint (R src1) - uint (R src2)) (fst (snd l))"
    "signed_flags w (sread w (uint (R src1)) - sread w (uint (R src2))) (fst (snd l))"
proof -
  define A B H where "A = uint (R src1)" and "B = uint (R src2)" and "H = (2 :: int) ^ (w - 1)"
  have w: "0 < w" "w \<le> 64" using lw_bounds [OF f] by (simp_all add: w_def)
  have M: "(2 :: int) ^ w = 2 * H" using pow_half [OF w(1)] by (simp add: H_def)
  have h: "(2 :: int) ^ (w - Suc 0) = H" by (simp add: H_def)
  have ab: "0 \<le> A" "A < 2 * H" "0 \<le> B" "B < 2 * H" using a b by (simp_all add: A_def B_def flip: M)
  have ur: "uint (R src1 - R src2) mod (2 * H) = (if B \<le> A then A - B else A - B + 2 * H)"
    using uint_diff_mod [OF w(2), of "R src1" "R src2"] mod_sum_cases(2) [OF ab]
    by (simp add: M A_def B_def)
  have ua: "A mod (2 * H) = A" "B mod (2 * H) = B" using ab by simp_all
  show "exact_value w (uint (R src1) - uint (R src2)) l"
    using f by (simp add: exact_value_def l_def cut_lane_def sub_step_def Let_def just_diff drop_just
        uint_take_bit_int w_def uint_diff_mod lw_bounds)
  have s: "fst (snd l) = set_flags ((A < H) \<noteq> (B < H) \<and> (A < H) \<noteq> (uint (R src1 - R src2) mod (2 * H) < H))
        (if A < H then kSignedSatPositive else kSignedSatNegative)
        (set_flags (A < B) kUnsignedSatNegative 0)"
    using f ua ab
    by (simp add: l_def cut_lane_def sub_step_def Let_def just_diff just_less just_top M [unfolded w_def]
        A_def B_def H_def w_def set_flags_def)
  show "unsigned_flags w (uint (R src1) - uint (R src2)) (fst (snd l))"
    using ab by (auto simp: s ur unsigned_flags_def set_flags_def flag_masks M simp flip: A_def B_def)
  show "signed_flags w (sread w (uint (R src1)) - sread w (uint (R src2))) (fst (snd l))"
    using ab w a b
    by (auto simp: s ur signed_flags_def set_flags_def flag_masks sread_cases M h simp flip: A_def B_def)
qed

text \<open>The same value as the signed result.\<close>

lemma sread_mod_self: "0 < w \<Longrightarrow> sread w a mod 2 ^ w = a mod 2 ^ w"
  using sread_mod [of "a mod 2 ^ w" w] sread_take [of w a] by simp

lemma exact_value_cong: "exact_value w e l \<Longrightarrow> e mod 2 ^ w = e' mod 2 ^ w \<Longrightarrow> exact_value w e' l"
  by (simp add: exact_value_def)

lemma add_exact_signed:
  assumes "has_lanes vf" "uint (R src1) < 2 ^ lw vf" "uint (R src2) < 2 ^ lw vf"
  shows "exact_value (lw vf) (sread (lw vf) (uint (R src1)) + sread (lw vf) (uint (R src2)))
    (cut_lane vf (add_step vf src1 src2 R (v, 0, False)))"
  by (rule exact_value_cong [OF add_exact(1) [OF assms]], rule mod_add_cong)
    (simp_all add: sread_mod_self lw_bounds assms)

lemma sub_exact_signed:
  assumes "has_lanes vf" "uint (R src1) < 2 ^ lw vf" "uint (R src2) < 2 ^ lw vf"
  shows "exact_value (lw vf) (sread (lw vf) (uint (R src1)) - sread (lw vf) (uint (R src2)))
    (cut_lane vf (sub_step vf src1 src2 R (v, 0, False)))"
  by (rule exact_value_cong [OF sub_exact(1) [OF assms]], rule mod_diff_cong)
    (simp_all add: sread_mod_self lw_bounds assms)

subsection \<open>Saturation\<close>

lemma uint_mask64: "n \<le> 64 \<Longrightarrow> uint (mask n :: u64) = 2 ^ n - 1"
proof -
  assume "n \<le> 64"
  then have "uint (mask n :: u64) = mask n" by (intro bit_eqI) (auto simp: bit_uint_iff bit_mask_iff)
  then show ?thesis by (simp add: mask_eq_exp_minus_1)
qed

lemma MaxUint_value: "has_lanes vf \<Longrightarrow> uint (MaxUintFromFormat vf) = 2 ^ lw vf - 1"
  by (simp add: MaxUintFromFormat_def GetUintMask_eq_mask uint_mask64 lw_bounds)

lemma MaxInt_mask: "has_lanes vf \<Longrightarrow> MaxIntFromFormat vf = mask (lw vf - 1)"
  using lw_bounds [of vf]
  by (intro bit_word_eqI) (auto simp: MaxIntFromFormat_def GetUintMask_eq_mask bit_drop_bit_eq bit_mask_iff)

lemma MaxInt_value: "has_lanes vf \<Longrightarrow> uint (MaxIntFromFormat vf) = 2 ^ (lw vf - 1) - 1"
  using lw_bounds [of vf] by (simp add: MaxInt_mask uint_mask64)

lemma MinInt_value:
  assumes "has_lanes vf"
  shows "uint (MinIntFromFormat vf) mod 2 ^ lw vf = (- (2 ^ (lw vf - 1))) mod 2 ^ lw vf"
proof -
  have "MinIntFromFormat vf = 0 - (MaxIntFromFormat vf + 1)"
    by (simp only: MinIntFromFormat_def diff_diff_eq [symmetric] diff_0)
  then have "uint (MinIntFromFormat vf) mod 2 ^ lw vf = uint (0 - (MaxIntFromFormat vf + 1)) mod 2 ^ lw vf"
    by (rule arg_cong)
  also have "\<dots> = (0 - uint (MaxIntFromFormat vf + 1)) mod 2 ^ lw vf"
    using uint_diff_mod [OF lw_bounds(2) [OF assms], of 0 "MaxIntFromFormat vf + 1"] by simp
  also have "\<dots> = (0 - (uint (MaxIntFromFormat vf) + uint (1 :: u64))) mod 2 ^ lw vf"
    by (rule mod_diff_cong [OF refl uint_sum_mod [OF lw_bounds(2) [OF assms]]])
  finally show ?thesis by (simp add: MaxInt_value assms)
qed

lemma exact_cut:
  "exact_value (lw vf) e (cut_lane vf l) \<longleftrightarrow> uint (fst l) mod 2 ^ lw vf = e mod 2 ^ lw vf"
  by (simp add: exact_value_def cut_lane_def uint_take_bit_int)

lemma unsigned_saturate_exact:
  assumes f: "has_lanes vf" and v: "exact_value (lw vf) e l" and s: "unsigned_flags (lw vf) e (fst (snd l))"
  shows "exact_value (lw vf) (uclamp (lw vf) e) (cut_lane vf (unsigned_saturate_step vf R l))"
proof -
  obtain x t b where l: "l = (x, t, b)" by (cases l)
  show ?thesis
    using v s f unfolding exact_cut
    by (auto simp: l exact_value_def unsigned_flags_def unsigned_saturate_step_def uclamp_cases
        MaxUint_value)
qed

lemma signed_saturate_exact:
  assumes f: "has_lanes vf" and v: "exact_value (lw vf) e l" and s: "signed_flags (lw vf) e (fst (snd l))"
  shows "exact_value (lw vf) (sclamp (lw vf) e) (cut_lane vf (signed_saturate_step vf R l))"
proof -
  obtain x t b where l: "l = (x, t, b)" by (cases l)
  show ?thesis
    using v s f unfolding exact_cut
    by (auto simp: l exact_value_def signed_flags_def signed_saturate_step_def sclamp_cases
        MaxInt_value MinInt_value)
qed

subsection \<open>Halving and rounding\<close>

lemma round_exact:
  assumes "has_lanes vf" and "exact_value (lw vf) e l"
  shows "exact_value (lw vf) (e + of_bool (snd (snd l))) (cut_lane vf (round_step vf R l))"
proof -
  obtain x t b where l: "l = (x, t, b)" by (cases l)
  show ?thesis
    using assms uint_sum_mod [OF lw_bounds(2) [OF assms(1)], of x 1]
    unfolding exact_cut by (cases b) (auto simp: l exact_value_def round_step_def mod_add_left_eq)
qed

lemma odd_lane: "has_lanes vf \<Longrightarrow> uint x mod 2 ^ lw vf = e mod 2 ^ lw vf \<Longrightarrow> x AND 1 = 1 \<longleftrightarrow> odd e"
proof -
  assume f: "has_lanes vf" and e: "uint x mod 2 ^ lw vf = e mod 2 ^ lw vf"
  have "2 dvd (2 :: int) ^ lw vf" using lw_bounds(1) [OF f] by simp
  then have "odd (uint x) \<longleftrightarrow> odd e" by (metis e dvd_mod_iff)
  moreover have "x AND 1 = 1 \<longleftrightarrow> odd x" by (simp add: and_one_eq odd_iff_mod_2_eq_one)
  moreover have "odd (uint x) \<longleftrightarrow> odd x" using bit_uint_iff [of x 0] by (simp add: bit_0)
  ultimately show ?thesis by simp
qed

lemma uint_disjoint_or:
  assumes "w \<le> 64" "x AND y = 0"
  shows "uint (x OR y :: u64) mod 2 ^ w = (uint x + uint y) mod 2 ^ w"
proof -
  have "x OR y = x + y" using word_plus_and_or [of x y] assms(2) by simp
  then show ?thesis using uint_sum_mod [OF assms(1), of x y] by (simp only:)
qed

lemma uint_exp64: "n < 64 \<Longrightarrow> uint (2 ^ n :: u64) = 2 ^ n"
  by (rule bit_eqI) (auto simp: bit_uint_iff bit_exp_iff)

lemma half_top:
  assumes "has_lanes vf"
  shows "drop_bit 1 (MaxUintFromFormat vf) + 1 = 2 ^ (lw vf - 1)"
proof -
  have "drop_bit 1 (MaxUintFromFormat vf) = mask (lw vf - 1)"
    using MaxInt_mask [OF assms] by (simp add: MaxIntFromFormat_def MaxUintFromFormat_def)
  then show ?thesis by (simp add: mask_eq_exp_minus_1)
qed

lemma uint_half: "uint (drop_bit 1 (x :: u64)) = uint x div 2"
  by (simp add: drop_bit_eq_div uint_div)

lemma half_shift: "(e - 2 * H) div 2 + H = e div 2" "(e + 2 * H) div 2 + H = e div 2 + 2 * (H :: int)"
  by presburger+

lemma uhalve_exact:
  assumes f: "has_lanes vf" and v: "exact_value (lw vf) e l" and s: "unsigned_flags (lw vf) e (fst (snd l))"
    and e: "- (2 ^ lw vf) \<le> e" "e < 2 * 2 ^ lw vf"
  shows "exact_value (lw vf) (e div 2) (cut_lane vf (uhalve_step vf R l))"
    "snd (snd (cut_lane vf (uhalve_step vf R l))) \<longleftrightarrow> odd e"
proof -
  obtain x t b where l: "l = (x, t, b)" by (cases l)
  define H where "H = (2 :: int) ^ (lw vf - 1)"
  have M: "(2 :: int) ^ lw vf = 2 * H" using pow_half [OF lw_bounds(1) [OF f]] by (simp add: H_def)
  have H: "0 < H" by (simp add: H_def)
  have x: "uint x = e mod (2 * H)" using v by (simp add: exact_value_def l M)
  have n: "lw vf - 1 < 64" using lw_bounds [OF f] by simp
  have "uint (take_bit (lw vf) x) = uint x" using x H by (simp add: uint_take_bit_int M)
  then have "take_bit (lw vf) x = x" by (simp only: word_uint_eq_iff)
  then have "\<not> bit x (lw vf)" by (metis bit_take_bit_iff less_irrefl)
  then have xb: "\<not> bit (drop_bit 1 x) (lw vf - 1)"
    using lw_bounds(1) [OF f] by (simp add: bit_drop_bit_eq)
  have disjoint: "drop_bit 1 x AND 2 ^ (lw vf - 1) = 0"
    by (rule bit_word_eqI) (use xb in \<open>auto simp: bit_and_iff bit_exp_iff\<close>)
  have up: "uint (drop_bit 1 x OR 2 ^ (lw vf - 1)) mod (2 * H) = (uint x div 2 + H) mod (2 * H)"
    using uint_disjoint_or [OF lw_bounds(2) [OF f] disjoint] uint_exp64 [OF n] uint_half [of x]
    by (simp add: M H_def)
  have cases: "e mod (2 * H) = (if 2 * H \<le> e then e - 2 * H else if e < 0 then e + 2 * H else e)"
    using e H by (simp only: M mod_range_cases)
  show "exact_value (lw vf) (e div 2) (cut_lane vf (uhalve_step vf R l))"
    unfolding exact_cut
  proof (cases "fst (snd l) AND kUnsignedSatMask = 0")
    case True
    then have "0 \<le> e" "e < 2 * H" using s H by (auto simp: unsigned_flags_def M l split: if_splits)
    then show "uint (fst (uhalve_step vf R l)) mod 2 ^ lw vf = (e div 2) mod 2 ^ lw vf"
      using True uint_half [of x] by (simp add: l uhalve_step_def x)
  next
    case False
    then have "e < 0 \<or> 2 * H \<le> e" using s by (auto simp: unsigned_flags_def M l split: if_splits)
    then have "uint x div 2 + H = e div 2 \<or> uint x div 2 + H = e div 2 + 2 * H"
      using half_shift [of e H] unfolding x cases by (auto simp del: One_nat_def)
    then have "(uint x div 2 + H) mod (2 * H) = (e div 2) mod (2 * H)" by (elim disjE) simp_all
    then show "uint (fst (uhalve_step vf R l)) mod 2 ^ lw vf = (e div 2) mod 2 ^ lw vf"
      using False half_top [OF f] up by (simp add: l uhalve_step_def M)
  qed
  show "snd (snd (cut_lane vf (uhalve_step vf R l))) \<longleftrightarrow> odd e"
    using odd_lane [OF f, of x e] v by (simp add: l uhalve_step_def cut_lane_def exact_value_def)
qed

lemma uint_sint_mod:
  assumes "w \<le> 64"
  shows "uint (x :: u64) mod 2 ^ w = sint x mod 2 ^ w"
proof -
  have "take_bit w (uint x) = take_bit w (sint x)"
    using assms by (intro bit_eqI) (auto simp: bit_take_bit_iff bit_uint_iff bit_sint_iff min_def dest: bit_imp_le_length)
  then show ?thesis by (simp only: take_bit_eq_mod)
qed

lemma sint_sext:
  assumes "has_lanes vf"
  shows "sint (sext vf x) = sread (lw vf) (uint x)"
  using has_lanes_size [OF assms] by (simp only: sext_def sread_def) (rule sint_signed_take_bit, arith)

lemma sint_half: "sint (ExtractSignedBitfield64 63 1 x) = sint x div 2"
proof -
  have b: "bit (ExtractSignedBitfield64 63 1 x) n \<longleftrightarrow> bit x (min 63 (1 + n))" if "n < 64" for n
    using that by (intro bit_ExtractSignedBitfield64) simp_all
  have "sint (ExtractSignedBitfield64 63 1 x) = drop_bit 1 (sint x)"
  proof (rule bit_eqI)
    fix n
    show "bit (sint (ExtractSignedBitfield64 63 1 x)) n = bit (drop_bit 1 (sint x)) n"
    proof (cases "n < 63")
      case True
      then have "min 63 (1 + n) = Suc n" by simp
      with True show ?thesis using b [of n] by (simp add: bit_sint_iff bit_drop_bit_eq)
    next
      case False
      then show ?thesis
        using b [of 63] bit_imp_le_length [of "ExtractSignedBitfield64 63 1 x" n] bit_imp_le_length [of x "Suc n"]
        by (cases "n = 63") (auto simp: bit_sint_iff bit_drop_bit_eq min_def)
    qed
  qed
  then show ?thesis by (simp add: drop_bit_eq_div)
qed

lemma xor_top:
  assumes "0 < w" "w \<le> 64"
  shows "uint (x XOR 2 ^ (w - 1) :: u64) mod 2 ^ w = (uint x + 2 ^ (w - 1)) mod 2 ^ w"
proof (cases "bit x (w - 1)")
  case False
  then have d: "x AND 2 ^ (w - 1) = 0" by (intro bit_word_eqI) (auto simp: bit_and_iff bit_exp_iff)
  then have "x XOR 2 ^ (w - 1) = x OR 2 ^ (w - 1)"
    by (intro bit_word_eqI) (auto simp: bit_eq_iff bit_xor_iff bit_or_iff bit_and_iff)
  with uint_disjoint_or [OF assms(2) d] uint_exp64 [of "w - 1"] assms show ?thesis by simp
next
  case True
  let ?y = "x XOR 2 ^ (w - 1)"
  have d: "?y AND 2 ^ (w - 1) = 0"
    using True by (intro bit_word_eqI) (auto simp: bit_and_iff bit_exp_iff bit_xor_iff)
  have "?y OR 2 ^ (w - 1) = x"
    using True by (intro bit_word_eqI) (auto simp: bit_or_iff bit_exp_iff bit_xor_iff)
  with uint_disjoint_or [OF assms(2) d] uint_exp64 [of "w - 1"] assms
  have "uint x mod 2 ^ w = (uint ?y + 2 ^ (w - 1)) mod 2 ^ w" by simp
  then have "(uint x + 2 ^ (w - 1)) mod 2 ^ w = (uint ?y + 2 ^ (w - 1) + 2 ^ (w - 1)) mod 2 ^ w"
    by (rule mod_add_cong) simp
  also have "uint ?y + 2 ^ (w - 1) + 2 ^ (w - 1) = uint ?y + 2 ^ w"
    using pow_half [OF assms(1)] by simp
  finally show ?thesis by simp
qed

lemma sread_cong: "0 < w \<Longrightarrow> a mod 2 ^ w = b mod 2 ^ w \<Longrightarrow> sread w a = sread w b"
  using sread_take [of w a] sread_take [of w b] by simp

lemma sread_wrap:
  assumes "0 < w" "- (2 ^ w) \<le> e" "e < 2 ^ w"
  shows "sread w e = (if 2 ^ (w - 1) \<le> e then e - 2 ^ w else if e < - (2 ^ (w - 1)) then e + 2 ^ w else e)"
proof -
  define H where "H = (2 :: int) ^ (w - 1)"
  have M: "(2 :: int) ^ w = 2 * H" using pow_half [OF assms(1)] by (simp add: H_def)
  have "sread w e = sread w (e mod 2 ^ w)" using sread_take [OF assms(1)] by simp
  also have "e mod 2 ^ w = (if e < 0 then e + 2 ^ w else e)"
    using mod_range_cases [of "2 ^ w" e] assms by (simp add: not_le)
  also have "sread w \<dots> = (if (if e < 0 then e + 2 ^ w else e) < 2 ^ (w - 1)
      then (if e < 0 then e + 2 ^ w else e) else (if e < 0 then e + 2 ^ w else e) - 2 ^ w)"
    using assms by (intro sread_cases) auto
  finally show ?thesis using assms by (simp add: M H_def [symmetric] del: One_nat_def)
qed

lemma halve_exact:
  assumes f: "has_lanes vf" and v: "exact_value (lw vf) e l" and s: "signed_flags (lw vf) e (fst (snd l))"
    and e: "- (2 ^ lw vf) \<le> e" "e < 2 ^ lw vf"
  shows "exact_value (lw vf) (e div 2) (cut_lane vf (halve_step vf R l))"
    "snd (snd (cut_lane vf (halve_step vf R l))) \<longleftrightarrow> odd e"
proof -
  obtain x t b where l: "l = (x, t, b)" by (cases l)
  define H where "H = (2 :: int) ^ (lw vf - 1)"
  note w = lw_bounds [OF f]
  have M: "(2 :: int) ^ lw vf = 2 * H" using pow_half [OF w(1)] by (simp add: H_def)
  have h: "(2 :: int) ^ (lw vf - Suc 0) = H" by (simp add: H_def)
  have H: "0 < H" by (simp add: H_def)
  have x: "uint x = e mod 2 ^ lw vf" using v by (simp add: exact_value_def l)
  have sx: "sint (sext vf x) = (if H \<le> e then e - 2 * H else if e < - H then e + 2 * H else e)"
    using sread_wrap [OF w(1) e] sread_take [OF w(1), of e]
    by (simp add: sint_sext [OF f] x M h)
  let ?h = "ExtractSignedBitfield64 63 1 (sext vf x)"
  have uh: "uint ?h mod (2 * H) = (sint (sext vf x) div 2) mod (2 * H)"
    using uint_sint_mod [OF w(2), of ?h] sint_half [of "sext vf x"] by (simp only: M)
  have "uint (fst (halve_step vf R l)) mod (2 * H) = (e div 2) mod (2 * H)"
  proof (cases "t AND kSignedSatMask = 0")
    case True
    then have "- H \<le> e" "e < H" using s H by (auto simp: signed_flags_def l h split: if_splits)
    then have "sint (sext vf x) = e" by (simp add: sx)
    then show ?thesis using True uh by (simp add: l halve_step_def Let_def)
  next
    case False
    then have out: "e < - H \<or> H \<le> e" using s by (auto simp: signed_flags_def l h split: if_splits)
    have "uint (fst (halve_step vf R l)) mod (2 * H) = (uint ?h + H) mod (2 * H)"
      using False xor_top [OF w, of ?h] half_top [OF f] by (simp add: l halve_step_def Let_def M h)
    also have "\<dots> = (sint (sext vf x) div 2 + H) mod (2 * H)"
      by (rule mod_add_cong [OF uh refl])
    also have "sint (sext vf x) div 2 + H = e div 2 \<or> sint (sext vf x) div 2 + H = e div 2 + 2 * H"
      using out half_shift [of e H] unfolding sx by auto
    then have "(sint (sext vf x) div 2 + H) mod (2 * H) = (e div 2) mod (2 * H)" by (elim disjE) simp_all
    finally show ?thesis .
  qed
  then show "exact_value (lw vf) (e div 2) (cut_lane vf (halve_step vf R l))"
    unfolding exact_cut by (simp only: M)
  have "uint (sext vf x) mod 2 ^ lw vf = e mod 2 ^ lw vf"
  proof -
    have "sint (sext vf x) = e \<or> sint (sext vf x) = e - 2 ^ lw vf \<or> sint (sext vf x) = e + 2 ^ lw vf"
      by (simp add: sx M)
    then have "sint (sext vf x) mod 2 ^ lw vf = e mod 2 ^ lw vf" by (elim disjE) simp_all
    then show ?thesis by (simp only: uint_sint_mod [OF w(2)])
  qed
  then show "snd (snd (cut_lane vf (halve_step vf R l))) \<longleftrightarrow> odd e"
    using odd_lane [OF f, of "sext vf x" e] by (simp add: l halve_step_def cut_lane_def Let_def)
qed

end
