(* ===== verification/Lane_Shift.thy ===== *)
theory Lane_Shift
  imports Lane_Exact
begin

text \<open>
  Shifts of a lane by a register: the shifted value, the overflow flags that the leading-bit
  counts give, and the bit that rounding adds.
\<close>

section \<open>Shifts in integers\<close>

text \<open>A negative distance shifts to the right, towards minus infinity or to the nearest.\<close>

definition shifted :: "int \<Rightarrow> int \<Rightarrow> int" where
  "shifted x sh = (if 0 \<le> sh then x * 2 ^ nat sh else x div 2 ^ nat (- sh))"

definition rshifted :: "int \<Rightarrow> int \<Rightarrow> int" where
  "rshifted x sh = (if 0 \<le> sh then x * 2 ^ nat sh else (x + 2 ^ (nat (- sh) - 1)) div 2 ^ nat (- sh))"

definition round_bit :: "int \<Rightarrow> int \<Rightarrow> bool" where
  "round_bit x sh \<longleftrightarrow> sh < 0 \<and> odd (x div 2 ^ (nat (- sh) - 1))"

lemma shifted_round: "shifted x sh + of_bool (round_bit x sh) = rshifted x sh"
proof (cases "0 \<le> sh")
  case False
  then obtain k where k: "nat (- sh) = Suc k" by (cases "nat (- sh)") auto
  let ?q = "x div 2 ^ k"
  have half: "y div 2 ^ Suc k = y div 2 ^ k div 2" for y :: int
    using zdiv_zmult2_eq [of 2 y "2 ^ k"] by (simp add: mult.commute)
  have "(x + 2 ^ k) div 2 ^ k = ?q + 1" by (subst div_add_self2) simp_all
  then have "(x + 2 ^ k) div 2 ^ Suc k = (?q + 1) div 2" using half [of "x + 2 ^ k"] by (simp only:)
  moreover have "?q div 2 + of_bool (odd ?q) = (?q + 1) div 2" by (cases "even ?q") (auto elim!: evenE oddE)
  ultimately show ?thesis using False k half [of x] by (simp add: shifted_def rshifted_def round_bit_def)
qed (simp add: shifted_def rshifted_def round_bit_def)

section \<open>Counts of leading bits as overflow tests\<close>

lemma clz_overflow:
  assumes "u \<noteq> 0"
  shows "CountLeadingZerosFallBack u 64 < n \<longleftrightarrow> 2 ^ 64 \<le> uint u * 2 ^ n"
proof -
  define c where "c = CountLeadingZerosFallBack u 64"
  have spec: "c < 64 \<and> bit u (64 - 1 - c) \<and> (\<forall>i. 64 - 1 - c < i \<longrightarrow> \<not> bit u i)"
    unfolding c_def by (rule CountLeadingZerosFallBack_spec) (use assms in \<open>auto dest: bit_imp_le_length\<close>)
  define k where "k = 63 - c"
  have k: "k < 64" "bit u k" "\<And>i. k < i \<Longrightarrow> \<not> bit u i" "c = 63 - k" using spec by (auto simp: k_def)
  have "take_bit (Suc k) u = u"
    by (rule bit_word_eqI) (use k(3) in \<open>auto simp: bit_take_bit_iff less_Suc_eq_le not_less\<close>, meson not_le)
  then have "uint u mod 2 ^ Suc k = uint u" by (metis uint_take_bit_int)
  then have up: "uint u < 2 ^ Suc k" by (metis pos_mod_bound zero_less_numeral zero_less_power)
  have low: "2 ^ k \<le> uint u"
  proof (rule ccontr)
    assume "\<not> 2 ^ k \<le> uint u"
    then have "uint u div 2 ^ k = 0" by (simp add: div_pos_pos_trivial)
    then show False using k(2) bit_uint_iff [of u k] k(1) by (simp add: bit_iff_odd [of "uint u"])
  qed
  show ?thesis
  proof (cases "c < n")
    case True
    have "2 ^ 64 = (2 :: int) ^ k * 2 ^ Suc c" using k by (simp flip: power_add power_Suc)
    also have "\<dots> \<le> uint u * 2 ^ Suc c" using low by (intro mult_right_mono) simp_all
    also have "\<dots> \<le> uint u * 2 ^ n" using True by (intro mult_left_mono power_increasing) simp_all
    finally show ?thesis using True by (simp only: c_def)
  next
    case False
    have "uint u * 2 ^ n \<le> uint u * 2 ^ (63 - k)" using False k by (intro mult_left_mono) simp_all
    also have "\<dots> < 2 ^ Suc k * 2 ^ (63 - k)" using up by (intro mult_strict_right_mono) simp_all
    also have "\<dots> = 2 ^ 64" using k(1) by (simp only: flip: power_add) (rule arg_cong [of _ _ "power 2"], arith)
    finally show ?thesis using False by (simp add: c_def not_le [symmetric])
  qed
qed

lemma clsb_overflow:
  assumes "u \<noteq> 0"
  shows "CountLeadingSignBitsFallBack u 64 < int n \<longleftrightarrow>
    (if 0 \<le> sint u then 2 ^ 63 \<le> sint u * 2 ^ n else sint u * 2 ^ n < - (2 ^ 63))"
proof (cases "0 \<le> sint u")
  case True
  then have s: "uint u = sint u" using sint_msb [of u] uint_lt2p [of u] by (auto split: if_splits)
  have "CountLeadingSignBitsFallBack u 64 < int n \<longleftrightarrow> CountLeadingZerosFallBack u 64 < Suc n"
    using True by (auto simp: CountLeadingSignBitsFallBack_def)
  also have "\<dots> \<longleftrightarrow> 2 ^ 63 \<le> sint u * 2 ^ n" using clz_overflow [OF assms, of "Suc n"] by (auto simp: s)
  finally show ?thesis using True by simp
next
  case False
  define m where "m = uint (NOT u)"
  have "sint (NOT u) = NOT (sint u)"
    by (rule bit_eqI) (auto simp: bit_sint_iff bit_not_iff dest: bit_imp_le_length)
  moreover have "bit u 63" using False sint_msb [of u] uint_ge_0 [of u] by (simp split: if_splits)
  then have "sint (NOT u) = m" using sint_msb [of "NOT u"] by (simp add: m_def bit_not_iff)
  ultimately have m: "sint u = - 1 - m" by (simp add: not_int_def)
  have neg: "CountLeadingSignBitsFallBack u 64 < int n \<longleftrightarrow> CountLeadingZerosFallBack (NOT u) 64 < Suc n"
    using False by (auto simp: CountLeadingSignBitsFallBack_def)
  have "CountLeadingZerosFallBack (NOT u) 64 < Suc n \<longleftrightarrow> - (2 ^ 63) > (- 1 - m) * 2 ^ n"
  proof (cases "NOT u = 0")
    case True
    then have "m = 0" by (simp add: m_def)
    moreover have "(2 :: int) ^ 63 < 2 ^ n \<longleftrightarrow> 63 < n" by (rule power_strict_increasing_iff) simp
    ultimately show ?thesis using True by (auto simp: not_less)
  next
    case nz: False
    then have "m \<noteq> 0" "0 \<le> m" using uint_0_iff [of "NOT u"] by (simp_all add: m_def)
    then have m1: "1 \<le> m" by linarith
    have t: "CountLeadingZerosFallBack (NOT u) 64 < Suc n \<longleftrightarrow> 2 ^ 63 \<le> m * 2 ^ n"
      using clz_overflow [OF nz, of "Suc n"] by (auto simp: m_def)
    show ?thesis
    proof (cases "n \<le> 63")
      case True
      then have p: "(2 :: int) ^ 63 = 2 ^ (63 - n) * 2 ^ n" by (simp flip: power_add)
      have "2 ^ 63 \<le> m * 2 ^ n \<longleftrightarrow> 2 ^ (63 - n) \<le> m" unfolding p by simp
      also have "\<dots> \<longleftrightarrow> (- 1 - m) < - (2 ^ (63 - n))" by linarith
      also have "\<dots> \<longleftrightarrow> (- 1 - m) * 2 ^ n < - (2 ^ (63 - n)) * 2 ^ n"
        by (rule mult_less_cancel_right_pos [symmetric]) simp
      finally show ?thesis using t p by simp
    next
      case False
      then have big: "(2 :: int) ^ 63 < 2 ^ n" by (intro power_strict_increasing) simp_all
      also have "\<dots> \<le> m * 2 ^ n" using m1 by simp
      finally have a: "2 ^ 63 < m * 2 ^ n" .
      then have "(- 1 - m) * 2 ^ n < - (2 ^ 63)" using big by (simp add: left_diff_distrib)
      with a t show ?thesis by simp
    qed
  qed
  with False neg m show ?thesis by simp
qed

section \<open>The shifts of a lane\<close>

definition shift_distance :: "int \<Rightarrow> int" where
  "shift_distance b = sread 8 b"

lemma CalculateSignedShiftDistance_byte:
  assumes "has_lanes vf"
  shows "CalculateSignedShiftDistance (sext vf y) e True = shift_distance (uint y)"
proof -
  have "bit (ExtractSignedBitfield64 7 0 (sext vf y)) n = bit (signed_take_bit 7 y) n" if "n < 64" for n
    using that assms unfolding has_lanes_def
    by (auto simp: bit_ExtractSignedBitfield64 bit_signed_take_bit_iff sext_def min_def)
  then have "ExtractSignedBitfield64 7 0 (sext vf y) = signed_take_bit 7 y"
    by (intro bit_word_eqI) simp
  then show ?thesis
    using sint_signed_take_bit [of 7 y] by (simp add: CalculateSignedShiftDistance_def shift_distance_def sread_def)
qed

lemma odd_drop: "drop_bit k (x :: u64) AND 1 = 1 \<longleftrightarrow> odd (uint x div 2 ^ k)"
proof -
  have "drop_bit k x AND 1 = 1 \<longleftrightarrow> odd (drop_bit k x)" by (simp add: and_one_eq odd_iff_mod_2_eq_one)
  also have "\<dots> \<longleftrightarrow> bit x k" by (simp add: bit_drop_bit_eq flip: bit_0)
  also have "\<dots> \<longleftrightarrow> bit (uint x) k" using bit_imp_le_length [of x k] by (auto simp: bit_uint_iff)
  finally show ?thesis by (simp add: bit_iff_odd)
qed

lemma uint_drop: "uint (drop_bit k (x :: u64)) = uint x div 2 ^ k"
proof -
  have "uint (drop_bit k x) = drop_bit k (uint x)"
    by (rule bit_eqI) (auto simp: bit_uint_iff bit_drop_bit_eq dest: bit_imp_le_length)
  then show ?thesis by (simp only: drop_bit_eq_div)
qed

lemma uint_push_mod:
  assumes "n < 64" "w \<le> 64"
  shows "uint (push_bit n (x :: u64)) mod 2 ^ w = (uint x * 2 ^ n) mod 2 ^ w"
  using uint_mult_mod [OF assms(2), of x "2 ^ n"] uint_exp64 [OF assms(1)] by (simp add: push_bit_eq_mult)

lemma far_left: "w \<le> 64 \<Longrightarrow> 64 \<le> n \<Longrightarrow> (x * 2 ^ n) mod 2 ^ w = (0 :: int)"
  using le_imp_power_dvd [of w n "2 :: int"] by (simp add: mod_0_imp_dvd dvd_imp_mod_0)

lemma just_nonzero: "has_lanes vf \<Longrightarrow> uint x < 2 ^ lw vf \<Longrightarrow> just vf x = 0 \<longleftrightarrow> x = 0"
  using uint_just [of vf x] uint_0_iff [of "just vf x"] uint_0_iff [of x]
  by (simp add: mod_pos_pos_trivial)

lemma ushl_exact:
  fixes R :: "vref \<Rightarrow> u64" and vf src1 src2 v
  defines "l \<equiv> cut_lane vf (ushl_step vf src1 src2 True R (v, 0, False))"
    and "sh \<equiv> shift_distance (uint (R src2))" and "a \<equiv> uint (R src1)"
  assumes f: "has_lanes vf" and a: "a < 2 ^ lw vf"
  shows "exact_value (lw vf) (shifted a sh) l" "unsigned_flags (lw vf) (shifted a sh) (fst (snd l))"
    "snd (snd l) \<longleftrightarrow> round_bit a sh"
proof -
  note w = lw_bounds [OF f]
  have a0: "0 \<le> a" by (simp add: a_def)
  have "(2 :: int) ^ lw vf \<le> 2 ^ 64" using w by (intro power_increasing) simp_all
  with a have a64: "a < 2 ^ 64" by simp
  have d: "CalculateSignedShiftDistance (sext vf (R src2)) (int (lw vf)) True = sh"
    using CalculateSignedShiftDistance_byte [OF f] by (simp add: sh_def)
  have far: "a div 2 ^ k = 0" if "64 \<le> k" for k
  proof -
    have "(2 :: int) ^ 64 \<le> 2 ^ k" using that by (intro power_increasing) simp_all
    with a64 a0 show ?thesis by (intro div_pos_pos_trivial) simp_all
  qed
  have step: "ushl_step vf src1 src2 True R (v, 0, False) =
      (let s = set_flags (sh > int (CountLeadingZerosFallBack (just vf (R src1)) 64) \<and> just vf (R src1) \<noteq> 0)
                 kUnsignedSatPositive 0
       in if sh > 63 \<or> sh < - 64 then (0, s, False)
          else if sh < 0
          then (if sh = - 64 then 0 else drop_bit (nat (- sh)) (R src1), s,
                odd (a div 2 ^ (nat (- sh) - 1)))
          else (push_bit (nat sh) (R src1), s, False))"
    by (simp add: ushl_step_def Let_def d odd_drop a_def)
  show "exact_value (lw vf) (shifted a sh) l"
    unfolding l_def exact_cut step
    using far [of "nat (- sh)"] far_left [OF w(2), of "nat sh" a] uint_push_mod [OF _ w(2), of "nat sh" "R src1"]
    by (auto simp: Let_def shifted_def uint_drop a_def)
  show "snd (snd l) \<longleftrightarrow> round_bit a sh"
    unfolding l_def cut_lane_def step using far [of "nat (- sh) - 1"]
    by (auto simp: Let_def round_bit_def)
  have over: "2 ^ lw vf \<le> a * 2 ^ n \<longleftrightarrow> 2 ^ 64 \<le> uint (just vf (R src1)) * 2 ^ n" for n
  proof -
    have "uint (just vf (R src1)) * 2 ^ n = (a * 2 ^ n) * 2 ^ (64 - lw vf)"
      using a a0 by (simp add: uint_just [OF f] a_def)
    then show ?thesis by (simp only: pow_split [OF w(2)]) simp
  qed
  have flag: "sh > int (CountLeadingZerosFallBack (just vf (R src1)) 64) \<and> just vf (R src1) \<noteq> 0
      \<longleftrightarrow> 2 ^ lw vf \<le> shifted a sh"
  proof (cases "R src1 = 0 \<or> sh < 0")
    case True
    have "a div 2 ^ nat (- sh) \<le> a" using zdiv_mono2 [of a 1 "2 ^ nat (- sh)"] a0 by simp
    then show ?thesis using True a a0 by (auto simp: a_def shifted_def just_def)
  next
    case False
    then obtain n where n: "sh = int n" by (metis int_nat_eq not_less)
    have nz: "just vf (R src1) \<noteq> 0" using False just_nonzero [OF f, of "R src1"] a by (simp add: a_def)
    show ?thesis using clz_overflow [OF nz, of n] nz over [of n] by (simp add: n shifted_def)
  qed
  have "0 \<le> shifted a sh" using a0 by (simp add: shifted_def pos_imp_zdiv_nonneg_iff)
  then show "unsigned_flags (lw vf) (shifted a sh) (fst (snd l))"
    unfolding l_def cut_lane_def step flag
    by (auto simp: Let_def unsigned_flags_def set_flags_def flag_masks)
qed

lemma sint_just:
  assumes f: "has_lanes vf"
  shows "sint (just vf x) = sread (lw vf) (uint x) * 2 ^ (64 - lw vf)"
proof -
  note w = lw_bounds [OF f]
  define r where "r = uint x mod 2 ^ lw vf"
  have r: "0 \<le> r" "r < 2 ^ lw vf" by (simp_all add: r_def)
  have u: "uint (just vf x) = r * 2 ^ (64 - lw vf)" by (simp add: uint_just [OF f] r_def)
  have p: "(2 :: int) ^ 63 = 2 ^ (lw vf - 1) * 2 ^ (64 - lw vf)" using w by (simp flip: power_add)
  have "bit (just vf x) 63 \<longleftrightarrow> 2 ^ 63 \<le> uint (just vf x)"
    using int_top_bit [of "uint (just vf x)" 63] uint_lt2p [of "just vf x"] by (simp add: bit_uint_iff)
  also have "\<dots> \<longleftrightarrow> 2 ^ (lw vf - 1) \<le> r" unfolding u p by simp
  finally have b: "bit (just vf x) 63 \<longleftrightarrow> \<not> r < 2 ^ (lw vf - 1)" by (simp only: not_less)
  have "sint (just vf x) = (if r < 2 ^ (lw vf - 1) then r * 2 ^ (64 - lw vf) else (r - 2 ^ lw vf) * 2 ^ (64 - lw vf))"
    unfolding sint_msb b u left_diff_distrib by (subst pow_split [OF w(2)]) simp
  also have "\<dots> = sread (lw vf) r * 2 ^ (64 - lw vf)" using sread_cases [OF r w(1)] by simp
  finally show ?thesis using sread_take [OF w(1), of "uint x"] by (simp add: r_def)
qed

lemma sread_range:
  assumes "0 < w"
  shows "- (2 ^ (w - 1)) \<le> sread w a" "sread w a < 2 ^ (w - 1)"
  using sread_bounds [of "a mod 2 ^ w" w] sread_take [OF assms, of a] assms by simp_all

lemma arith_shift_right:
  assumes "0 < k" "k < 64"
  shows "sint (if sint x < 0 then drop_bit k x OR push_bit (64 - k) (NOT 0) else drop_bit k (x :: u64)) = sint x div 2 ^ k"
proof -
  have neg: "sint x < 0 \<longleftrightarrow> bit x 63" using sint_msb [of x] uint_lt2p [of x] by (auto split: if_splits)
  have "sint (if sint x < 0 then drop_bit k x OR push_bit (64 - k) (NOT 0) else drop_bit k x) = drop_bit k (sint x)"
    unfolding neg using assms
    by (intro bit_eqI)
      (auto simp: bit_sint_iff bit_drop_bit_eq bit_or_iff bit_push_bit_iff bit_not_iff bit_mask_iff
        dest: bit_imp_le_length)
  then show ?thesis by (simp only: drop_bit_eq_div)
qed

lemma odd_drop_signed: "k < 64 \<Longrightarrow> drop_bit k (x :: u64) AND 1 = 1 \<longleftrightarrow> odd (sint x div 2 ^ k)"
proof -
  assume k: "k < 64"
  have "drop_bit k x AND 1 = 1 \<longleftrightarrow> odd (drop_bit k x)" by (simp add: and_one_eq odd_iff_mod_2_eq_one)
  also have "\<dots> \<longleftrightarrow> bit x k" by (simp add: bit_drop_bit_eq flip: bit_0)
  also have "\<dots> \<longleftrightarrow> bit (sint x) k" using k by (auto simp: bit_sint_iff)
  finally show ?thesis by (simp add: bit_iff_odd)
qed

lemma far_right:
  fixes x :: int
  assumes "- (2 ^ 63) \<le> x" "x < 2 ^ 63" "63 \<le> k"
  shows "x div 2 ^ k = (if x < 0 then - 1 else 0)"
proof -
  have p: "(2 :: int) ^ 63 \<le> 2 ^ k" using assms(3) by (intro power_increasing) simp_all
  show ?thesis
  proof (cases "x < 0")
    case True
    have "(x + 2 ^ k) div 2 ^ k = 0" using True assms(1) p by (intro div_pos_pos_trivial) linarith+
    then have "x div 2 ^ k + 1 = 0" by (subst (asm) div_add_self2) simp_all
    with True show ?thesis by simp
  next
    case False
    with assms p show ?thesis by (simp add: div_pos_pos_trivial)
  qed
qed

lemma clsb_nonneg: "u \<noteq> 0 \<Longrightarrow> 0 \<le> CountLeadingSignBitsFallBack u 64"
  using clsb_overflow [of u 0] sint_range_size [of u] by (auto simp: word_size not_less split: if_splits)

lemma shift_right_range:
  fixes x :: int
  assumes "- H \<le> x" "x < H"
  shows "- H \<le> x div 2 ^ k" "x div 2 ^ k < H"
proof -
  have "0 \<le> x \<Longrightarrow> 0 \<le> x div 2 ^ k \<and> x div 2 ^ k \<le> x"
    using zdiv_mono2 [of x 1 "2 ^ k"] by (simp add: pos_imp_zdiv_nonneg_iff)
  moreover have "x < 0 \<Longrightarrow> x \<le> x div 2 ^ k \<and> x div 2 ^ k < 0"
    using zdiv_mono2_neg [of x 1 "2 ^ k"] by (simp add: pos_imp_zdiv_neg_iff)
  ultimately show "- H \<le> x div 2 ^ k" "x div 2 ^ k < H" using assms by linarith+
qed

lemma sshl_exact:
  fixes R :: "vref \<Rightarrow> u64" and vf src1 src2 v
  defines "l \<equiv> cut_lane vf (sshl_step vf src1 src2 True R (v, 0, False))"
    and "sh \<equiv> shift_distance (uint (R src2))" and "x \<equiv> sread (lw vf) (uint (R src1))"
  assumes f: "has_lanes vf"
  shows "exact_value (lw vf) (shifted x sh) l" "signed_flags (lw vf) (shifted x sh) (fst (snd l))"
    "snd (snd l) \<longleftrightarrow> round_bit x sh"
proof -
  note w = lw_bounds [OF f]
  have xr: "- (2 ^ (lw vf - 1)) \<le> x" "x < 2 ^ (lw vf - 1)" using sread_range [OF w(1)] by (simp_all add: x_def)
  have "(2 :: int) ^ (lw vf - 1) \<le> 2 ^ 63" using w by (intro power_increasing) simp_all
  with xr have x63: "- (2 ^ 63) \<le> x" "x < 2 ^ 63" by linarith+
  have sx: "sint (sext vf (R src1)) = x" by (simp add: sint_sext [OF f] x_def)
  have d: "CalculateSignedShiftDistance (sext vf (R src2)) (int (lw vf)) True = sh"
    using CalculateSignedShiftDistance_byte [OF f] by (simp add: sh_def)
  have lj: "sint (just vf (R src1)) = x * 2 ^ (64 - lw vf)" by (simp add: sint_just [OF f] x_def)
  have lj0: "0 \<le> sint (just vf (R src1)) \<longleftrightarrow> 0 \<le> x" by (simp add: lj zero_le_mult_iff)
  define over where "over \<longleftrightarrow> sh > CountLeadingSignBitsFallBack (just vf (R src1)) 64 \<and> just vf (R src1) \<noteq> 0"
  have step: "fst (sshl_step vf src1 src2 True R (v, 0, False)) =
         (if sh > 63 then 0 else if sh < - 63 then if x < 0 then - 1 else 0
          else if sh < 0
          then (if sint (sext vf (R src1)) < 0 then drop_bit (nat (- sh)) (sext vf (R src1)) OR push_bit (64 - nat (- sh)) (NOT 0)
                else drop_bit (nat (- sh)) (sext vf (R src1)))
          else push_bit (nat sh) (sext vf (R src1)))"
    "snd (snd (sshl_step vf src1 src2 True R (v, 0, False))) \<longleftrightarrow>
       sh \<le> 63 \<and> (if sh < - 63 then x < 0 else sh < 0 \<and> odd (x div 2 ^ (nat (- sh) - 1)))"
    "fst (snd (sshl_step vf src1 src2 True R (v, 0, False))) AND 3 =
       (if over then if 0 \<le> x then kSignedSatPositive else kSignedSatNegative else 0)"
    using lj0
    by (auto simp: sshl_step_def Let_def d sx odd_drop_signed over_def set_flags_def flag_masks not_less)
  have u: "uint y mod 2 ^ lw vf = sint (y :: u64) mod 2 ^ lw vf" for y by (rule uint_sint_mod [OF w(2)])
  show "exact_value (lw vf) (shifted x sh) l"
  proof -
    consider "sh > 63" | "sh < - 63" | "- 63 \<le> sh" "sh < 0" | "0 \<le> sh" "sh \<le> 63" by linarith
    then show ?thesis
      unfolding l_def exact_cut
    proof cases
      case 1
      then show "uint (fst (sshl_step vf src1 src2 True R (v, 0, False))) mod 2 ^ lw vf = shifted x sh mod 2 ^ lw vf"
        using far_left [OF w(2), of "nat sh" x] by (simp add: step(1) shifted_def)
    next
      case 2
      then show "uint (fst (sshl_step vf src1 src2 True R (v, 0, False))) mod 2 ^ lw vf = shifted x sh mod 2 ^ lw vf"
        using far_right [OF x63, of "nat (- sh)"] u [of "- 1"] by (simp add: step(1) shifted_def)
    next
      case 3
      then show "uint (fst (sshl_step vf src1 src2 True R (v, 0, False))) mod 2 ^ lw vf = shifted x sh mod 2 ^ lw vf"
        using arith_shift_right [of "nat (- sh)" "sext vf (R src1)"] by (simp only: step(1) u) (simp add: shifted_def sx)
    next
      case 4
      then have "uint (fst (sshl_step vf src1 src2 True R (v, 0, False))) mod 2 ^ lw vf =
          (uint (sext vf (R src1)) * 2 ^ nat sh) mod 2 ^ lw vf"
        using uint_push_mod [OF _ w(2), of "nat sh"] by (simp add: step(1))
      also have "\<dots> = (x * 2 ^ nat sh) mod 2 ^ lw vf"
        using u [of "sext vf (R src1)"] by (intro mod_mult_cong) (simp_all add: sx)
      finally show "uint (fst (sshl_step vf src1 src2 True R (v, 0, False))) mod 2 ^ lw vf = shifted x sh mod 2 ^ lw vf"
        using 4 by (simp add: shifted_def)
    qed
  qed
  show "snd (snd l) \<longleftrightarrow> round_bit x sh"
    using far_right [OF x63, of "nat (- sh) - 1"]
    by (auto simp: l_def cut_lane_def step(2) round_bit_def)
  have H: "(2 :: int) ^ 63 = 2 ^ (lw vf - 1) * 2 ^ (64 - lw vf)" using w by (simp flip: power_add)
  have flag: "over \<longleftrightarrow> shifted x sh < - (2 ^ (lw vf - 1)) \<or> 2 ^ (lw vf - 1) \<le> shifted x sh"
  proof (cases "sh < 0")
    case True
    then have "\<not> over"
      using clsb_nonneg [of "just vf (R src1)"] by (cases "just vf (R src1) = 0") (auto simp: over_def)
    with True shift_right_range [OF xr, of "nat (- sh)"] show ?thesis by (auto simp: shifted_def)
  next
    case False
    then obtain n where n: "sh = int n" by (metis int_nat_eq not_less)
    have zero: "just vf (R src1) = 0 \<longleftrightarrow> x = 0" using signed_eq_0_iff [of "just vf (R src1)", where 'a = int] by (simp add: lj)
    have "sint (just vf (R src1)) * 2 ^ n = (x * 2 ^ n) * 2 ^ (64 - lw vf)" by (simp add: lj)
    then have "2 ^ 63 \<le> sint (just vf (R src1)) * 2 ^ n \<longleftrightarrow> 2 ^ (lw vf - 1) \<le> x * 2 ^ n"
      "sint (just vf (R src1)) * 2 ^ n < - (2 ^ 63) \<longleftrightarrow> x * 2 ^ n < - (2 ^ (lw vf - 1))"
      unfolding H by (simp_all only: minus_mult_left mult_le_cancel_right_pos mult_less_cancel_right_pos zero_less_power zero_less_numeral)
    then have "over \<longleftrightarrow> x \<noteq> 0 \<and> (if 0 \<le> x then 2 ^ (lw vf - 1) \<le> x * 2 ^ n else x * 2 ^ n < - (2 ^ (lw vf - 1)))"
      using clsb_overflow [of "just vf (R src1)" n] lj0 zero by (auto simp: over_def n)
    moreover have "0 \<le> x \<Longrightarrow> \<not> x * 2 ^ n < - (2 ^ (lw vf - 1))" "x < 0 \<Longrightarrow> \<not> 2 ^ (lw vf - 1) \<le> x * 2 ^ n"
      using mult_neg_pos [of x "2 ^ n"] mult_nonneg_nonneg [of x "2 ^ n"]
      by (smt (verit) zero_less_power)+
    ultimately show ?thesis by (auto simp: n shifted_def)
  qed
  have sign: "0 \<le> shifted x sh \<longleftrightarrow> 0 \<le> x"
    by (simp add: shifted_def pos_imp_zdiv_nonneg_iff zero_le_mult_iff)
  have "(0 :: int) < 2 ^ (lw vf - 1)" by simp
  with sign have "2 ^ (lw vf - 1) \<le> shifted x sh \<Longrightarrow> 0 \<le> x" "shifted x sh < - (2 ^ (lw vf - 1)) \<Longrightarrow> x < 0"
    by linarith+
  then show "signed_flags (lw vf) (shifted x sh) (fst (snd l))"
    using step(3) flag by (auto simp: l_def cut_lane_def signed_flags_def)
qed

end
