(* ===== verification/Lane_Contracts.thy ===== *)
theory Lane_Contracts
  imports Lane_Shift
begin

text \<open>
  The lane-wise operations as functions of the lanes before the instruction: \<open>vec_op\<close> collects
  what a loop leaves, loops fuse by composition, and \<open>computes\<close> states the integer function of
  the lanes of the destination and of two sources, which may be the same register.
\<close>

section \<open>Operations as functions of the lanes\<close>

definition vec_op :: "VectorFormat \<Rightarrow> vref \<Rightarrow> (vbank \<Rightarrow> vstate) \<Rightarrow> ((vref \<Rightarrow> u64) \<Rightarrow> lane) \<Rightarrow> bool" where
  "vec_op vf rd op F \<longleftrightarrow> (\<forall>B.
     lv_register (fst (op B)) = rd \<and>
     (\<forall>j<LaneCount vf. lane_of vf (op B) j = F (\<lambda>r. LUint vf B r j)) \<and>
     (\<forall>n\<ge>RegisterSizeInBitsFromFormat vf. \<not> bit (snd (op B) rd) n) \<and>
     (\<forall>r. r \<noteq> rd \<longrightarrow> snd (op B) r = B r))"

lemma vec_opD:
  assumes "vec_op vf rd op F"
  shows "lv_register (fst (op B)) = rd"
    "j < LaneCount vf \<Longrightarrow> lane_of vf (op B) j = F (\<lambda>r. LUint vf B r j)"
    "RegisterSizeInBitsFromFormat vf \<le> n \<Longrightarrow> \<not> bit (snd (op B) rd) n"
    "r \<noteq> rd \<Longrightarrow> snd (op B) r = B r"
  using assms by (simp_all add: vec_op_def)

lemma vec_op_value:
  assumes "vec_op vf rd op F" "j < LaneCount vf"
  shows "LUint vf (snd (op B)) rd j = fst (F (\<lambda>r. LUint vf B r j))"
  using vec_opD(1,2) [OF assms(1)] assms(2) by (metis fst_conv lane_of_def)

context lane_op
begin

lemma vec_op_loop:
  assumes "has_lanes vf" "\<not> IsSVEFormat vf"
  shows "vec_op vf rd (\<lambda>B. for_lanes (LaneCount vf) body (LogicV rd, ClearForWrite vf rd B))
    (\<lambda>R. cut_lane vf (f R (R rd, 0, False)))"
  using assms by (simp add: vec_op_def op_register op_lane op_above op_other)

text \<open>A further loop that reads only the lane state works on what the first has left.\<close>

lemma vec_op_chain:
  assumes "has_lanes vf" "\<not> IsSVEFormat vf" and op: "vec_op vf rd op F" and local: "\<And>R R' l. f R l = f R' l"
  shows "vec_op vf rd (for_lanes (LaneCount vf) body \<circ> op) (\<lambda>R. cut_lane vf (f R (F R)))"
proof -
  have r: "lv_register (fst (op B)) = rd" for B by (rule vec_opD [OF op])
  have above: "bit (snd (for_lanes (LaneCount vf) body st) q) n = bit (snd st q) n"
    if "RegisterSizeInBitsFromFormat vf \<le> n" for st q n
    by (rule chain_above [OF assms(1,2) that])
  have lane: "lane_of vf (for_lanes (LaneCount vf) body (op B)) j = cut_lane vf (f (\<lambda>r. LUint vf B r j) (F (\<lambda>r. LUint vf B r j)))"
    if "j < LaneCount vf" for B j
    using chain_lane [OF assms(1) that, of "op B"] vec_opD(2) [OF op that, of B] local by metis
  show ?thesis
    using vec_opD [OF op] by (simp add: vec_op_def register_kept assms(1) other_registers_kept r lane above)
qed

end

lemma vec_op_cong: "vec_op vf rd op F \<Longrightarrow> (\<And>B. op' B = op B) \<Longrightarrow> vec_op vf rd op' F"
  by (simp add: vec_op_def)

section \<open>The integer function of an operation\<close>

definition computes ::
  "VectorFormat \<Rightarrow> vref \<Rightarrow> vref \<Rightarrow> vref \<Rightarrow> (vbank \<Rightarrow> vstate) \<Rightarrow> (int \<Rightarrow> int \<Rightarrow> int \<Rightarrow> int) \<Rightarrow> bool" where
  "computes vf rd rn rm op g \<longleftrightarrow> (\<forall>B.
     (\<forall>i<LaneCount vf. ulane vf (snd (op B)) rd i =
        g (ulane vf B rd i) (ulane vf B rn i) (ulane vf B rm i) mod 2 ^ lw vf) \<and>
     (\<forall>n\<ge>RegisterSizeInBitsFromFormat vf. \<not> bit (snd (op B) rd) n) \<and>
     (\<forall>k. VReg k \<noteq> rd \<longrightarrow> snd (op B) (VReg k) = B (VReg k)))"

definition lanes_fit_in :: "VectorFormat \<Rightarrow> (vref \<Rightarrow> u64) \<Rightarrow> bool" where
  "lanes_fit_in vf R \<longleftrightarrow> (\<forall>r. uint (R r) < 2 ^ lw vf)"

lemma lanes_of_bank_fit: "lanes_fit_in vf (\<lambda>r. LUint vf B r j)"
  using ulane_bounds(2) [of vf B] by (simp add: lanes_fit_in_def ulane_def)

lemma computesI:
  assumes op: "vec_op vf rd op F"
    and F: "\<And>R. lanes_fit_in vf R \<Longrightarrow> exact_value (lw vf) (g (uint (R rd)) (uint (R rn)) (uint (R rm))) (F R)"
  shows "computes vf rd rn rm op g"
  using vec_op_value [OF op] F [OF lanes_of_bank_fit] vec_opD(3,4) [OF op]
  by (simp add: computes_def ulane_def exact_value_def)

text \<open>The same with a first operation into a local register, which the second reads.\<close>

lemma computes_via_temp:
  assumes one: "vec_op vf (Temp t) op1 F1" and two: "vec_op vf (VReg d) op2 F2"
    and op: "\<And>B. snd (op B) = snd (op2 (snd (op1 (C (SimVRegister_init (Temp t) B)))))"
    and C: "\<And>B r j. j < LaneCount vf \<Longrightarrow> LUint vf (C B) r j = LUint vf B r j"
    and C': "\<And>B r. r \<noteq> VReg d \<Longrightarrow> C B r = B r"
    and F: "\<And>R. lanes_fit_in vf R \<Longrightarrow>
      exact_value (lw vf) (g (uint (R (VReg d))) (uint (R (VReg n))) (uint (R (VReg m))))
        (F2 (R(Temp t := fst (F1 (R(Temp t := 0))))))"
  shows "computes vf (VReg d) (VReg n) (VReg m) op g"
proof -
  { fix B j assume j: "j < LaneCount vf"
    let ?R = "\<lambda>r. LUint vf B r j" and ?B0 = "C (SimVRegister_init (Temp t) B)"
    have r0: "(\<lambda>r. LUint vf ?B0 r j) = ?R(Temp t := 0)"
    proof (rule ext)
      fix r show "LUint vf ?B0 r j = (?R(Temp t := 0)) r"
        unfolding C [OF j] by (cases "r = Temp t") (simp_all add: LUint_def SimVRegister_init_def GetLane_def)
    qed
    have other: "LUint vf (snd (op1 ?B0)) r j = ?R r" if "r \<noteq> Temp t" for r
      using vec_opD(4) [OF one that, of ?B0] LUint_cong [of "snd (op1 ?B0)" r ?B0 vf j] fun_cong [OF r0, of r] that
      by simp
    have "(\<lambda>r. LUint vf (snd (op1 ?B0)) r j) = ?R(Temp t := fst (F1 (?R(Temp t := 0))))"
    proof (rule ext)
      fix r show "LUint vf (snd (op1 ?B0)) r j = (?R(Temp t := fst (F1 (?R(Temp t := 0))))) r"
        using vec_op_value [OF one j, of ?B0] other [of r] r0 by (cases "r = Temp t") simp_all
    qed
    then have "LUint vf (snd (op B)) (VReg d) j = fst (F2 (?R(Temp t := fst (F1 (?R(Temp t := 0))))))"
      using vec_op_value [OF two j, of "snd (op1 ?B0)"] by (simp add: op)
    with F [OF lanes_of_bank_fit, of B j]
    have "ulane vf (snd (op B)) (VReg d) j =
        g (ulane vf B (VReg d) j) (ulane vf B (VReg n) j) (ulane vf B (VReg m) j) mod 2 ^ lw vf"
      by (simp add: ulane_def exact_value_def) }
  moreover have "snd (op B) (VReg k) = B (VReg k)" if "k \<noteq> d" for B k
    using that by (simp add: op vec_opD(4) [OF two] vec_opD(4) [OF one] C' SimVRegister_init_def)
  ultimately show ?thesis using vec_opD(3) [OF two] by (simp add: computes_def op)
qed

section \<open>The loops of the operations\<close>

definition neon_format :: "VectorFormat \<Rightarrow> bool" where
  "neon_format vf \<longleftrightarrow> has_lanes vf \<and> \<not> IsSVEFormat vf"

lemma neon_formatD: "neon_format vf \<Longrightarrow> has_lanes vf" "neon_format vf \<Longrightarrow> \<not> IsSVEFormat vf"
  by (simp_all add: neon_format_def)

lemma add_vec:
  assumes "neon_format vf"
  shows "vec_op vf rd (add_v vf (LogicV rd) rn rm) (\<lambda>R. cut_lane vf (add_step vf rn rm R (R rd, 0, False)))"
  by (rule vec_op_cong [OF add_loop.vec_op_loop [OF neon_formatD [OF assms]]]) (simp add: add_v_def LogicV_def)

lemma sub_vec:
  assumes "neon_format vf"
  shows "vec_op vf rd (sub_v vf (LogicV rd) rn rm) (\<lambda>R. cut_lane vf (sub_step vf rn rm R (R rd, 0, False)))"
  by (rule vec_op_cong [OF sub_loop.vec_op_loop [OF neon_formatD [OF assms]]]) (simp add: sub_v_def LogicV_def)

lemma mul_vec:
  assumes "neon_format vf"
  shows "vec_op vf rd (mul_v vf (LogicV rd) rn rm) (\<lambda>R. cut_lane vf (mul_step vf rn rm R (R rd, 0, False)))"
  by (rule vec_op_cong [OF mul_loop.vec_op_loop [OF neon_formatD [OF assms]]]) (simp add: mul_v_def LogicV_def)

lemma cmp_vec:
  assumes "neon_format vf"
  shows "vec_op vf rd (cmp_v vf (LogicV rd) rn rm cond) (\<lambda>R. cut_lane vf (cmp_step vf rn rm cond R (R rd, 0, False)))"
  by (rule vec_op_cong [OF cmp_loop.vec_op_loop [OF neon_formatD [OF assms]]]) (simp add: cmp_v_def LogicV_def)

lemma cmptst_vec:
  assumes "neon_format vf"
  shows "vec_op vf rd (cmptst_v vf (LogicV rd) rn rm) (\<lambda>R. cut_lane vf (cmptst_step vf rn rm R (R rd, 0, False)))"
  by (rule vec_op_cong [OF cmptst_loop.vec_op_loop [OF neon_formatD [OF assms]]]) (simp add: cmptst_v_def LogicV_def)

lemma sminmax_vec:
  assumes "neon_format vf"
  shows "vec_op vf rd (sminmax_v vf (LogicV rd) rn rm mx) (\<lambda>R. cut_lane vf (sminmax_step vf rn rm mx R (R rd, 0, False)))"
  by (rule vec_op_cong [OF sminmax_loop.vec_op_loop [OF neon_formatD [OF assms]]]) (simp add: sminmax_v_def LogicV_def)

lemma uminmax_vec:
  assumes "neon_format vf"
  shows "vec_op vf rd (uminmax_v vf (LogicV rd) rn rm mx) (\<lambda>R. cut_lane vf (uminmax_step vf rn rm mx R (R rd, 0, False)))"
  by (rule vec_op_cong [OF uminmax_loop.vec_op_loop [OF neon_formatD [OF assms]]]) (simp add: uminmax_v_def LogicV_def)

lemma absdiff_vec:
  assumes "neon_format vf"
  shows "vec_op vf rd (absdiff_v vf (LogicV rd) rn rm sgnd) (\<lambda>R. cut_lane vf (absdiff_step vf rn rm sgnd R (R rd, 0, False)))"
  by (rule vec_op_cong [OF absdiff_loop.vec_op_loop [OF neon_formatD [OF assms]]]) (simp add: absdiff_v_def LogicV_def)

lemma sshl_vec:
  assumes "neon_format vf"
  shows "vec_op vf rd (sshl_v vf (LogicV rd) rn rm lsb) (\<lambda>R. cut_lane vf (sshl_step vf rn rm lsb R (R rd, 0, False)))"
  by (rule vec_op_cong [OF sshl_loop.vec_op_loop [OF neon_formatD [OF assms]]]) (simp add: sshl_v_def LogicV_def)

lemma ushl_vec:
  assumes "neon_format vf"
  shows "vec_op vf rd (ushl_v vf (LogicV rd) rn rm lsb) (\<lambda>R. cut_lane vf (ushl_step vf rn rm lsb R (R rd, 0, False)))"
  by (rule vec_op_cong [OF ushl_loop.vec_op_loop [OF neon_formatD [OF assms]]]) (simp add: ushl_v_def LogicV_def)

lemma neg_vec:
  assumes "neon_format vf"
  shows "vec_op vf rd (neg_v vf (LogicV rd) rn) (\<lambda>R. cut_lane vf (neg_step vf rn R (R rd, 0, False)))"
  by (rule vec_op_cong [OF neg_loop.vec_op_loop [OF neon_formatD [OF assms]]]) (simp add: neg_v_def LogicV_def)

lemma abs_vec:
  assumes "neon_format vf"
  shows "vec_op vf rd (abs_v vf (LogicV rd) rn) (\<lambda>R. cut_lane vf (abs_step vf rn R (R rd, 0, False)))"
  by (rule vec_op_cong [OF abs_loop.vec_op_loop [OF neon_formatD [OF assms]]]) (simp add: abs_v_def LogicV_def)

lemma suqadd_vec:
  assumes "neon_format vf"
  shows "vec_op vf rd (suqadd_v vf (LogicV rd) rn rm) (\<lambda>R. cut_lane vf (suqadd_step vf rn rm R (R rd, 0, False)))"
  by (rule vec_op_cong [OF suqadd_loop.vec_op_loop [OF neon_formatD [OF assms]]]) (simp add: suqadd_v_def LogicV_def)

lemma usqadd_vec:
  assumes "neon_format vf"
  shows "vec_op vf rd (usqadd_v vf (LogicV rd) rn rm) (\<lambda>R. cut_lane vf (usqadd_step vf rn rm R (R rd, 0, False)))"
  by (rule vec_op_cong [OF usqadd_loop.vec_op_loop [OF neon_formatD [OF assms]]]) (simp add: usqadd_v_def LogicV_def)

lemma bif_vec:
  assumes "neon_format vf"
  shows "vec_op vf rd (bif_v vf (LogicV rd) rn rm) (\<lambda>R. cut_lane vf (bif_step vf rn rm R (R rd, 0, False)))"
  by (rule vec_op_cong [OF bif_loop.vec_op_loop [OF neon_formatD [OF assms]]]) (simp add: bif_v_def LogicV_def)

lemma bit_vec:
  assumes "neon_format vf"
  shows "vec_op vf rd (bit_v vf (LogicV rd) rn rm) (\<lambda>R. cut_lane vf (bit_step vf rn rm R (R rd, 0, False)))"
  by (rule vec_op_cong [OF bit_loop.vec_op_loop [OF neon_formatD [OF assms]]]) (simp add: bit_v_def LogicV_def)

lemma orr_vec:
  assumes "neon_format vf"
  shows "vec_op vf rd (orr_v vf (LogicV rd) rn rm) (\<lambda>R. cut_lane vf (orr_step vf rn rm R (R rd, 0, False)))"
  by (rule vec_op_cong [OF orr_loop.vec_op_loop [OF neon_formatD [OF assms]]]) (simp add: orr_v_def LogicV_def)

lemma orn_vec:
  assumes "neon_format vf"
  shows "vec_op vf rd (orn_v vf (LogicV rd) rn rm) (\<lambda>R. cut_lane vf (orn_step vf rn rm R (R rd, 0, False)))"
  by (rule vec_op_cong [OF orn_loop.vec_op_loop [OF neon_formatD [OF assms]]]) (simp add: orn_v_def LogicV_def)

lemma eor_vec:
  assumes "neon_format vf"
  shows "vec_op vf rd (eor_v vf (LogicV rd) rn rm) (\<lambda>R. cut_lane vf (eor_step vf rn rm R (R rd, 0, False)))"
  by (rule vec_op_cong [OF eor_loop.vec_op_loop [OF neon_formatD [OF assms]]]) (simp add: eor_v_def LogicV_def)

lemma bic_vec:
  assumes "neon_format vf"
  shows "vec_op vf rd (bic_v vf (LogicV rd) rn rm) (\<lambda>R. cut_lane vf (bic_step vf rn rm R (R rd, 0, False)))"
  by (rule vec_op_cong [OF bic_loop.vec_op_loop [OF neon_formatD [OF assms]]]) (simp add: bic_v_def LogicV_def)

lemma bsl_vec:
  assumes "neon_format vf"
  shows "vec_op vf rd (bsl_v vf (LogicV rd) rk rn rm) (\<lambda>R. cut_lane vf (bsl_step vf rk rn rm R (R rd, 0, False)))"
  by (rule vec_op_cong [OF bsl_loop.vec_op_loop [OF neon_formatD [OF assms]]]) (simp add: bsl_v_def LogicV_def)

lemma and_vec:
  assumes "neon_format vf"
  shows "vec_op vf rd (and_v vf (LogicV rd) rn rm) (\<lambda>R. cut_lane vf (and_step vf rn rm R (R rd, 0, False)))"
  by (rule vec_op_cong [OF and_op_loop.vec_op_loop [OF neon_formatD [OF assms]]]) (simp add: and_v_def LogicV_def)

lemma not_vec:
  assumes "neon_format vf"
  shows "vec_op vf rd (not_v vf (LogicV rd) rn) (\<lambda>R. cut_lane vf (not_step vf rn R (R rd, 0, False)))"
  by (rule vec_op_cong [OF not_op_loop.vec_op_loop [OF neon_formatD [OF assms]]]) (simp add: not_v_def LogicV_def)

lemma SignedSaturate_chain:
  assumes "neon_format vf" "vec_op vf rd op F"
  shows "vec_op vf rd (SignedSaturate vf \<circ> op) (\<lambda>R. cut_lane vf (signed_saturate_step vf (\<lambda>r. 0) (F R)))"
  using signed_saturate_loop.vec_op_chain [OF neon_formatD [OF assms(1)] assms(2)]
  by (simp add: SignedSaturate_def [abs_def] signed_saturate_step_def comp_def)

lemma UnsignedSaturate_chain:
  assumes "neon_format vf" "vec_op vf rd op F"
  shows "vec_op vf rd (UnsignedSaturate vf \<circ> op) (\<lambda>R. cut_lane vf (unsigned_saturate_step vf (\<lambda>r. 0) (F R)))"
  using unsigned_saturate_loop.vec_op_chain [OF neon_formatD [OF assms(1)] assms(2)]
  by (simp add: UnsignedSaturate_def [abs_def] unsigned_saturate_step_def comp_def)

lemma Round_chain:
  assumes "neon_format vf" "vec_op vf rd op F"
  shows "vec_op vf rd (Round vf \<circ> op) (\<lambda>R. cut_lane vf (round_step vf (\<lambda>r. 0) (F R)))"
  using round_loop.vec_op_chain [OF neon_formatD [OF assms(1)] assms(2)]
  by (simp add: Round_def [abs_def] round_step_def comp_def)

lemma Uhalve_chain:
  assumes "neon_format vf" "vec_op vf rd op F"
  shows "vec_op vf rd (Uhalve vf \<circ> op) (\<lambda>R. cut_lane vf (uhalve_step vf (\<lambda>r. 0) (F R)))"
  using uhalve_loop.vec_op_chain [OF neon_formatD [OF assms(1)] assms(2)]
  by (simp add: Uhalve_def [abs_def] uhalve_step_def comp_def)

lemma Halve_chain:
  assumes "neon_format vf" "vec_op vf rd op F"
  shows "vec_op vf rd (Halve vf \<circ> op) (\<lambda>R. cut_lane vf (halve_step vf (\<lambda>r. 0) (F R)))"
  using halve_loop.vec_op_chain [OF neon_formatD [OF assms(1)] assms(2)]
  by (simp add: Halve_def [abs_def] halve_step_def comp_def)

section \<open>The integer functions of the operations\<close>

lemma fits: "lanes_fit_in vf R \<Longrightarrow> uint (R r) < 2 ^ lw vf"
  by (simp add: lanes_fit_in_def)

definition lane_mask :: "nat \<Rightarrow> bool \<Rightarrow> int" where
  "lane_mask w c = (if c then 2 ^ w - 1 else 0)"

lemma exact_cut_value:
  "exact_value (lw vf) e (cut_lane vf (x, t)) \<longleftrightarrow> uint x mod 2 ^ lw vf = e mod 2 ^ lw vf"
  by (simp add: exact_cut)

subsection \<open>Arithmetic\<close>

lemma add_computes:
  "neon_format vf \<Longrightarrow> computes vf rd rn rm (add_v vf (LogicV rd) rn rm) (\<lambda>d a b. a + b)"
  by (intro computesI [OF add_vec] add_exact(1) fits neon_formatD)

lemma sub_computes:
  "neon_format vf \<Longrightarrow> computes vf rd rn rm (sub_v vf (LogicV rd) rn rm) (\<lambda>d a b. a - b)"
  by (intro computesI [OF sub_vec] sub_exact(1) fits neon_formatD)

lemma mul_exact:
  "has_lanes vf \<Longrightarrow> exact_value (lw vf) (uint (R src1) * uint (R src2)) (cut_lane vf (mul_step vf src1 src2 R l))"
  by (simp add: mul_step_def exact_cut_value uint_mult_mod lw_bounds)

lemma mul_computes:
  "neon_format vf \<Longrightarrow> computes vf rd rn rm (mul_v vf (LogicV rd) rn rm) (\<lambda>d a b. a * b)"
  by (intro computesI [OF mul_vec] mul_exact neon_formatD)

subsection \<open>Comparisons, minima, maxima and differences\<close>

lemma mask_exact:
  "has_lanes vf \<Longrightarrow>
    exact_value (lw vf) (lane_mask (lw vf) c) (cut_lane vf (if c then MaxUintFromFormat vf else 0, t))"
  by (simp add: exact_cut_value lane_mask_def MaxUint_value)

fun cmp_int :: "vcond \<Rightarrow> nat \<Rightarrow> int \<Rightarrow> int \<Rightarrow> bool" where
  "cmp_int VC_eq w a b = (a = b)"
| "cmp_int VC_ge w a b = (sread w a \<ge> sread w b)"
| "cmp_int VC_gt w a b = (sread w a > sread w b)"
| "cmp_int VC_hi w a b = (a > b)"
| "cmp_int VC_hs w a b = (a \<ge> b)"
| "cmp_int VC_lt w a b = (sread w a < sread w b)"
| "cmp_int VC_le w a b = (sread w a \<le> sread w b)"

lemma cmp_computes:
  assumes "neon_format vf"
  shows "computes vf rd rn rm (cmp_v vf (LogicV rd) rn rm cond) (\<lambda>d a b. lane_mask (lw vf) (cmp_int cond (lw vf) a b))"
proof (rule computesI [OF cmp_vec [OF assms]])
  fix R :: "vref \<Rightarrow> u64"
  have "cmp_holds cond (sext vf (R rn)) (sext vf (R rm)) (R rn) (R rm) =
      cmp_int cond (lw vf) (uint (R rn)) (uint (R rm))"
    using sint_sext [OF neon_formatD(1) [OF assms]]
    by (cases cond) (simp_all add: word_less_alt word_le_def word_uint_eq_iff)
  then show "exact_value (lw vf) (lane_mask (lw vf) (cmp_int cond (lw vf) (uint (R rn)) (uint (R rm))))
      (cut_lane vf (cmp_step vf rn rm cond R (R rd, 0, False)))"
    using mask_exact [OF neon_formatD(1) [OF assms]] by (simp add: cmp_step_def)
qed

lemma cmptst_computes:
  assumes "neon_format vf"
  shows "computes vf rd rn rm (cmptst_v vf (LogicV rd) rn rm) (\<lambda>d a b. lane_mask (lw vf) (a AND b \<noteq> 0))"
proof (rule computesI [OF cmptst_vec [OF assms]])
  fix R :: "vref \<Rightarrow> u64"
  have "R rn AND R rm \<noteq> 0 \<longleftrightarrow> uint (R rn) AND uint (R rm) \<noteq> 0"
    using uint_0_iff [of "R rn AND R rm"] by (simp add: unsigned_and_eq)
  then show "exact_value (lw vf) (lane_mask (lw vf) (uint (R rn) AND uint (R rm) \<noteq> 0))
      (cut_lane vf (cmptst_step vf rn rm R (R rd, 0, False)))"
    using mask_exact [OF neon_formatD(1) [OF assms]] by (simp add: cmptst_step_def)
qed

lemma sminmax_computes:
  assumes "neon_format vf"
  shows "computes vf rd rn rm (sminmax_v vf (LogicV rd) rn rm mx)
    (\<lambda>d a b. (if mx then max else min) (sread (lw vf) a) (sread (lw vf) b))"
  by (rule computesI [OF sminmax_vec [OF assms]])
    (simp add: sminmax_step_def Let_def exact_cut_value uint_sint_mod lw_bounds sint_sext neon_formatD [OF assms]
      max_def min_def)

lemma uminmax_computes:
  assumes "neon_format vf"
  shows "computes vf rd rn rm (uminmax_v vf (LogicV rd) rn rm mx) (\<lambda>d a b. (if mx then max else min) a b)"
  by (rule computesI [OF uminmax_vec [OF assms]])
    (auto simp: uminmax_step_def Let_def exact_cut_value word_less_alt max_def min_def)

definition absdiff :: "nat \<Rightarrow> bool \<Rightarrow> int \<Rightarrow> int \<Rightarrow> int" where
  "absdiff w sgnd a b = (if sgnd then \<bar>sread w a - sread w b\<bar> else \<bar>a - b\<bar>)"

lemma absdiff_exact:
  assumes f: "has_lanes vf" and R: "lanes_fit_in vf R"
  shows "exact_value (lw vf) (absdiff (lw vf) sgnd (uint (R src1)) (uint (R src2)))
    (cut_lane vf (absdiff_step vf src1 src2 sgnd R l))"
proof -
  let ?a = "uint (R src1)" and ?b = "uint (R src2)"
  note w = lw_bounds [OF f]
  have s: "(x - y) mod 2 ^ lw vf = (sread (lw vf) x - sread (lw vf) y) mod 2 ^ lw vf" for x y
    by (rule mod_diff_cong) (simp_all add: sread_mod_self w)
  show ?thesis
    by (cases sgnd)
      (auto simp add: absdiff_step_def exact_cut_value absdiff_def sint_sext f uint_diff_mod w
        word_less_alt abs_if s [of ?a ?b] s [of ?b ?a])
qed

lemma absdiff_computes:
  "neon_format vf \<Longrightarrow> computes vf rd rn rm (absdiff_v vf (LogicV rd) rn rm sgnd) (\<lambda>d a b. absdiff (lw vf) sgnd a b)"
  by (intro computesI [OF absdiff_vec] absdiff_exact neon_formatD)

subsection \<open>Saturating and halving\<close>

lemma uqadd_computes:
  assumes f: "neon_format vf"
  shows "computes vf rd rn rm (UnsignedSaturate vf \<circ> add_v vf (LogicV rd) rn rm) (\<lambda>d a b. uclamp (lw vf) (a + b))"
  by (intro computesI [OF UnsignedSaturate_chain [OF f add_vec [OF f]]] unsigned_saturate_exact add_exact fits
      neon_formatD(1) [OF f])

lemma uqsub_computes:
  assumes f: "neon_format vf"
  shows "computes vf rd rn rm (UnsignedSaturate vf \<circ> sub_v vf (LogicV rd) rn rm) (\<lambda>d a b. uclamp (lw vf) (a - b))"
  by (intro computesI [OF UnsignedSaturate_chain [OF f sub_vec [OF f]]] unsigned_saturate_exact sub_exact fits
      neon_formatD(1) [OF f])

lemma sqadd_computes:
  assumes f: "neon_format vf"
  shows "computes vf rd rn rm (SignedSaturate vf \<circ> add_v vf (LogicV rd) rn rm)
    (\<lambda>d a b. sclamp (lw vf) (sread (lw vf) a + sread (lw vf) b))"
  by (intro computesI [OF SignedSaturate_chain [OF f add_vec [OF f]]] signed_saturate_exact
      add_exact_signed add_exact(3) fits neon_formatD(1) [OF f])

lemma sqsub_computes:
  assumes f: "neon_format vf"
  shows "computes vf rd rn rm (SignedSaturate vf \<circ> sub_v vf (LogicV rd) rn rm)
    (\<lambda>d a b. sclamp (lw vf) (sread (lw vf) a - sread (lw vf) b))"
  by (intro computesI [OF SignedSaturate_chain [OF f sub_vec [OF f]]] signed_saturate_exact
      sub_exact_signed sub_exact(3) fits neon_formatD(1) [OF f])

lemma round_odd: "(e :: int) div 2 + of_bool (odd e) = (e + 1) div 2"
  by (cases "even e") (auto elim!: evenE oddE)

lemma uhalve_round:
  assumes "has_lanes vf" "exact_value (lw vf) e l" "unsigned_flags (lw vf) e (fst (snd l))"
    "- (2 ^ lw vf) \<le> e" "e < 2 * 2 ^ lw vf"
  shows "exact_value (lw vf) ((e + 1) div 2) (cut_lane vf (round_step vf R (cut_lane vf (uhalve_step vf R' l))))"
  using round_exact [OF assms(1) uhalve_exact(1) [OF assms]] uhalve_exact(2) [OF assms] round_odd [of e] by simp

lemma halve_round:
  assumes "has_lanes vf" "exact_value (lw vf) e l" "signed_flags (lw vf) e (fst (snd l))"
    "- (2 ^ lw vf) \<le> e" "e < 2 ^ lw vf"
  shows "exact_value (lw vf) ((e + 1) div 2) (cut_lane vf (round_step vf R (cut_lane vf (halve_step vf R' l))))"
  using round_exact [OF assms(1) halve_exact(1) [OF assms]] halve_exact(2) [OF assms] round_odd [of e] by simp

text \<open>The ranges of sums and differences of lanes.\<close>

lemma lane_ranges:
  assumes "neon_format vf" "lanes_fit_in vf R"
  shows "- (2 ^ lw vf) \<le> uint (R p) + uint (R q)" "uint (R p) + uint (R q) < 2 * 2 ^ lw vf"
    "- (2 ^ lw vf) \<le> uint (R p) - uint (R q)" "uint (R p) - uint (R q) < 2 * 2 ^ lw vf"
    "- (2 ^ lw vf) \<le> sread (lw vf) (uint (R p)) + sread (lw vf) (uint (R q))"
    "sread (lw vf) (uint (R p)) + sread (lw vf) (uint (R q)) < 2 ^ lw vf"
    "- (2 ^ lw vf) \<le> sread (lw vf) (uint (R p)) - sread (lw vf) (uint (R q))"
    "sread (lw vf) (uint (R p)) - sread (lw vf) (uint (R q)) < 2 ^ lw vf"
proof -
  note w = lw_bounds(1) [OF neon_formatD(1) [OF assms(1)]]
  note u = fits [OF assms(2), of p] fits [OF assms(2), of q] uint_ge_0 [of "R p"] uint_ge_0 [of "R q"]
  show "- (2 ^ lw vf) \<le> uint (R p) + uint (R q)" "uint (R p) + uint (R q) < 2 * 2 ^ lw vf"
    "- (2 ^ lw vf) \<le> uint (R p) - uint (R q)" "uint (R p) - uint (R q) < 2 * 2 ^ lw vf"
    using u by linarith+
  note s = sread_range [OF w, of "uint (R p)"] sread_range [OF w, of "uint (R q)"] pow_half [OF w]
  show "- (2 ^ lw vf) \<le> sread (lw vf) (uint (R p)) + sread (lw vf) (uint (R q))"
    "sread (lw vf) (uint (R p)) + sread (lw vf) (uint (R q)) < 2 ^ lw vf"
    "- (2 ^ lw vf) \<le> sread (lw vf) (uint (R p)) - sread (lw vf) (uint (R q))"
    "sread (lw vf) (uint (R p)) - sread (lw vf) (uint (R q)) < 2 ^ lw vf"
    using s by linarith+
qed

lemma uhadd_computes:
  assumes f: "neon_format vf"
  shows "computes vf rd rn rm (Uhalve vf \<circ> add_v vf (LogicV rd) rn rm) (\<lambda>d a b. (a + b) div 2)"
  by (intro computesI [OF Uhalve_chain [OF f add_vec [OF f]]] uhalve_exact add_exact fits lane_ranges
      neon_formatD(1) [OF f] f)

lemma uhsub_computes:
  assumes f: "neon_format vf"
  shows "computes vf rd rn rm (Uhalve vf \<circ> sub_v vf (LogicV rd) rn rm) (\<lambda>d a b. (a - b) div 2)"
  by (intro computesI [OF Uhalve_chain [OF f sub_vec [OF f]]] uhalve_exact sub_exact fits lane_ranges
      neon_formatD(1) [OF f] f)

lemma urhadd_computes:
  assumes f: "neon_format vf"
  shows "computes vf rd rn rm (Round vf \<circ> Uhalve vf \<circ> add_v vf (LogicV rd) rn rm) (\<lambda>d a b. (a + b + 1) div 2)"
  unfolding comp_assoc
  by (intro computesI [OF Round_chain [OF f Uhalve_chain [OF f add_vec [OF f]]]] uhalve_round add_exact fits
      lane_ranges neon_formatD(1) [OF f] f)

lemma shadd_computes:
  assumes f: "neon_format vf"
  shows "computes vf rd rn rm (Halve vf \<circ> add_v vf (LogicV rd) rn rm)
    (\<lambda>d a b. (sread (lw vf) a + sread (lw vf) b) div 2)"
  by (intro computesI [OF Halve_chain [OF f add_vec [OF f]]] halve_exact add_exact_signed add_exact(3) fits
      lane_ranges neon_formatD(1) [OF f] f)

lemma shsub_computes:
  assumes f: "neon_format vf"
  shows "computes vf rd rn rm (Halve vf \<circ> sub_v vf (LogicV rd) rn rm)
    (\<lambda>d a b. (sread (lw vf) a - sread (lw vf) b) div 2)"
  by (intro computesI [OF Halve_chain [OF f sub_vec [OF f]]] halve_exact sub_exact_signed sub_exact(3) fits
      lane_ranges neon_formatD(1) [OF f] f)

lemma srhadd_computes:
  assumes f: "neon_format vf"
  shows "computes vf rd rn rm (Round vf \<circ> Halve vf \<circ> add_v vf (LogicV rd) rn rm)
    (\<lambda>d a b. (sread (lw vf) a + sread (lw vf) b + 1) div 2)"
  unfolding comp_assoc
  by (intro computesI [OF Round_chain [OF f Halve_chain [OF f add_vec [OF f]]]] halve_round add_exact_signed
      add_exact(3) fits lane_ranges neon_formatD(1) [OF f] f)

subsection \<open>Shifts by a register\<close>

lemma round_step_state: "fst (snd (cut_lane vf (round_step vf R l))) = fst (snd l)"
  by (cases l) (simp add: round_step_def cut_lane_def)

lemma flags_round_step:
  "unsigned_flags w e (fst (snd l)) \<Longrightarrow> unsigned_flags w e (fst (snd (cut_lane vf (round_step vf R l))))"
  "signed_flags w e (fst (snd l)) \<Longrightarrow> signed_flags w e (fst (snd (cut_lane vf (round_step vf R l))))"
  by (simp_all add: round_step_state)

text \<open>Rounding does not leave a range that the truncated shift is in.\<close>

lemma unsigned_flags_round:
  assumes "has_lanes vf" "0 \<le> a" "a < 2 ^ lw vf" "unsigned_flags (lw vf) (shifted a sh) s"
  shows "unsigned_flags (lw vf) (rshifted a sh) s"
proof (cases "0 \<le> sh")
  case False
  have w: "(2 :: int) ^ lw vf = 2 * 2 ^ (lw vf - 1)" "(1 :: int) \<le> 2 ^ (lw vf - 1)"
    using pow_half [OF lw_bounds(1) [OF assms(1)]] by simp_all
  have "a div 2 ^ nat (- sh) \<le> a div 2" using False assms(2) by (intro zdiv_mono2) (simp_all add: self_le_power)
  moreover have "0 \<le> a div 2 ^ nat (- sh)" using assms(2) by (simp add: pos_imp_zdiv_nonneg_iff)
  moreover have "a div 2 \<le> 2 ^ (lw vf - 1) - 1" using assms(3) w by linarith
  ultimately have "0 \<le> shifted a sh" "shifted a sh + 1 < 2 ^ lw vf \<or> shifted a sh + 1 = 2 ^ (lw vf - 1)"
    using False w by (auto simp: shifted_def)
  then have "shifted a sh < 2 ^ lw vf" "0 \<le> rshifted a sh" "rshifted a sh < 2 ^ lw vf"
    using shifted_round [of a sh] w by (auto simp: of_bool_def split: if_splits)
  then show ?thesis using assms(4) \<open>0 \<le> shifted a sh\<close> by (simp add: unsigned_flags_def)
qed (use assms(4) in \<open>simp add: shifted_def rshifted_def\<close>)

lemma signed_flags_round:
  assumes "has_lanes vf" "- (2 ^ (lw vf - 1)) \<le> x" "x < 2 ^ (lw vf - 1)" "signed_flags (lw vf) (shifted x sh) s"
  shows "signed_flags (lw vf) (rshifted x sh) s"
proof (cases "0 \<le> sh")
  case False
  define H where "H = (2 :: int) ^ (lw vf - 1)"
  have "1 \<le> lw vf - 1" using has_lanes_size [OF assms(1)] by arith
  then have "(2 :: int) ^ 1 \<le> H" unfolding H_def by (intro power_increasing) simp_all
  then have H: "2 \<le> H" by simp
  have "(2 :: int) ^ 1 \<le> 2 ^ nat (- sh)" using False by (intro power_increasing) simp_all
  then have p: "(2 :: int) \<le> 2 ^ nat (- sh)" by simp
  have "x div 2 ^ nat (- sh) \<le> x div 2" if "0 \<le> x" using that p by (intro zdiv_mono2) simp_all
  moreover have "x div 2 ^ nat (- sh) < 0" if "x < 0" using that by (simp add: pos_imp_zdiv_neg_iff)
  moreover have "x div 2 + 1 \<le> H - 1" if "0 \<le> x" using assms(3) H that unfolding H_def by linarith
  ultimately have up: "shifted x sh + 1 < H"
    using False H by (cases "0 \<le> x") (fastforce simp: shifted_def)+
  have low: "- H \<le> shifted x sh"
    using False shift_right_range(1) [of H x "nat (- sh)"] assms(2,3) by (simp add: shifted_def H_def)
  then have "- H \<le> rshifted x sh" "rshifted x sh < H"
    using shifted_round [of x sh] up by (auto simp: of_bool_def split: if_splits)
  then show ?thesis using assms(4) low up by (simp add: signed_flags_def H_def)
qed (use assms(4) in \<open>simp add: shifted_def rshifted_def\<close>)

lemma round_shift_exact:
  assumes "has_lanes vf" "exact_value (lw vf) (shifted x sh) l" "snd (snd l) \<longleftrightarrow> round_bit x sh"
  shows "exact_value (lw vf) (rshifted x sh) (cut_lane vf (round_step vf R l))"
  using round_exact [OF assms(1,2)] shifted_round [of x sh] assms(3) by simp

lemma ushl_computes:
  assumes f: "neon_format vf"
  shows "computes vf rd rn rm (ushl_v vf (LogicV rd) rn rm True) (\<lambda>d a b. shifted a (shift_distance b))"
    "computes vf rd rn rm (UnsignedSaturate vf \<circ> ushl_v vf (LogicV rd) rn rm True)
      (\<lambda>d a b. uclamp (lw vf) (shifted a (shift_distance b)))"
    "computes vf rd rn rm (Round vf \<circ> ushl_v vf (LogicV rd) rn rm True) (\<lambda>d a b. rshifted a (shift_distance b))"
    "computes vf rd rn rm (UnsignedSaturate vf \<circ> Round vf \<circ> ushl_v vf (LogicV rd) rn rm True)
      (\<lambda>d a b. uclamp (lw vf) (rshifted a (shift_distance b)))"
proof -
  note fv = neon_formatD(1) [OF f] and v = ushl_vec [OF f, of rd rn rm True]
  show "computes vf rd rn rm (ushl_v vf (LogicV rd) rn rm True) (\<lambda>d a b. shifted a (shift_distance b))"
    by (intro computesI [OF v] ushl_exact fits fv)
  show "computes vf rd rn rm (UnsignedSaturate vf \<circ> ushl_v vf (LogicV rd) rn rm True)
      (\<lambda>d a b. uclamp (lw vf) (shifted a (shift_distance b)))"
    by (intro computesI [OF UnsignedSaturate_chain [OF f v]] unsigned_saturate_exact ushl_exact fits fv)
  show "computes vf rd rn rm (Round vf \<circ> ushl_v vf (LogicV rd) rn rm True) (\<lambda>d a b. rshifted a (shift_distance b))"
    by (intro computesI [OF Round_chain [OF f v]] round_shift_exact ushl_exact fits fv)
  show "computes vf rd rn rm (UnsignedSaturate vf \<circ> Round vf \<circ> ushl_v vf (LogicV rd) rn rm True)
      (\<lambda>d a b. uclamp (lw vf) (rshifted a (shift_distance b)))"
    unfolding comp_assoc
    by (intro computesI [OF UnsignedSaturate_chain [OF f Round_chain [OF f v]]] unsigned_saturate_exact
        round_shift_exact ushl_exact flags_round_step unsigned_flags_round fits fv uint_ge_0)
qed

lemma sshl_computes:
  assumes f: "neon_format vf"
  shows "computes vf rd rn rm (sshl_v vf (LogicV rd) rn rm True) (\<lambda>d a b. shifted (sread (lw vf) a) (shift_distance b))"
    "computes vf rd rn rm (SignedSaturate vf \<circ> sshl_v vf (LogicV rd) rn rm True)
      (\<lambda>d a b. sclamp (lw vf) (shifted (sread (lw vf) a) (shift_distance b)))"
    "computes vf rd rn rm (Round vf \<circ> sshl_v vf (LogicV rd) rn rm True)
      (\<lambda>d a b. rshifted (sread (lw vf) a) (shift_distance b))"
    "computes vf rd rn rm (SignedSaturate vf \<circ> Round vf \<circ> sshl_v vf (LogicV rd) rn rm True)
      (\<lambda>d a b. sclamp (lw vf) (rshifted (sread (lw vf) a) (shift_distance b)))"
proof -
  note fv = neon_formatD(1) [OF f] and v = sshl_vec [OF f, of rd rn rm True]
  show "computes vf rd rn rm (sshl_v vf (LogicV rd) rn rm True) (\<lambda>d a b. shifted (sread (lw vf) a) (shift_distance b))"
    by (intro computesI [OF v] sshl_exact fv)
  show "computes vf rd rn rm (SignedSaturate vf \<circ> sshl_v vf (LogicV rd) rn rm True)
      (\<lambda>d a b. sclamp (lw vf) (shifted (sread (lw vf) a) (shift_distance b)))"
    by (intro computesI [OF SignedSaturate_chain [OF f v]] signed_saturate_exact sshl_exact fv)
  show "computes vf rd rn rm (Round vf \<circ> sshl_v vf (LogicV rd) rn rm True)
      (\<lambda>d a b. rshifted (sread (lw vf) a) (shift_distance b))"
    by (intro computesI [OF Round_chain [OF f v]] round_shift_exact sshl_exact fv)
  show "computes vf rd rn rm (SignedSaturate vf \<circ> Round vf \<circ> sshl_v vf (LogicV rd) rn rm True)
      (\<lambda>d a b. sclamp (lw vf) (rshifted (sread (lw vf) a) (shift_distance b)))"
    unfolding comp_assoc
    by (intro computesI [OF SignedSaturate_chain [OF f Round_chain [OF f v]]] signed_saturate_exact
        round_shift_exact sshl_exact flags_round_step signed_flags_round fv sread_range lw_bounds)
qed

subsection \<open>Operations through a local register\<close>

lemma fit_upd: "lanes_fit_in vf R \<Longrightarrow> lanes_fit_in vf (R(t := 0))"
  by (simp add: lanes_fit_in_def)

lemma accumulate_computes:
  assumes f: "neon_format vf" and one: "vec_op vf (Temp t) op1 F1"
    and F1: "\<And>R. lanes_fit_in vf R \<Longrightarrow> exact_value (lw vf) (h (uint (R (VReg n))) (uint (R (VReg m)))) (F1 R)"
    and C: "\<And>B r j. j < LaneCount vf \<Longrightarrow> LUint vf (C B) r j = LUint vf B r j"
    and C': "\<And>B r. r \<noteq> VReg d \<Longrightarrow> C B r = B r"
  shows "(\<And>B. snd (op B) = snd (add_v vf (LogicV (VReg d)) (VReg d) (Temp t) (snd (op1 (C (SimVRegister_init (Temp t) B))))))
      \<Longrightarrow> computes vf (VReg d) (VReg n) (VReg m) op (\<lambda>d a b. d + h a b)"
    "(\<And>B. snd (op B) = snd (sub_v vf (LogicV (VReg d)) (VReg d) (Temp t) (snd (op1 (C (SimVRegister_init (Temp t) B))))))
      \<Longrightarrow> computes vf (VReg d) (VReg n) (VReg m) op (\<lambda>d a b. d - h a b)"
proof -
  note fv = neon_formatD(1) [OF f]
  have p: "uint (fst (F1 (R(Temp t := 0)))) = h (uint (R (VReg n))) (uint (R (VReg m))) mod 2 ^ lw vf"
    if "lanes_fit_in vf R" for R
    using F1 [OF fit_upd [OF that]] by (simp add: exact_value_def)
  have acc: "exact_value (lw vf) (uint (R (VReg d)) + h (uint (R (VReg n))) (uint (R (VReg m))))
      (cut_lane vf (add_step vf (VReg d) (Temp t) (R(Temp t := q)) (v, 0, False)))"
    "exact_value (lw vf) (uint (R (VReg d)) - h (uint (R (VReg n))) (uint (R (VReg m))))
      (cut_lane vf (sub_step vf (VReg d) (Temp t) (R(Temp t := q)) (v, 0, False)))"
    if R: "lanes_fit_in vf R" and q: "uint q = h (uint (R (VReg n))) (uint (R (VReg m))) mod 2 ^ lw vf" for R q v
  proof -
    have "exact_value (lw vf) (uint (R (VReg d)) + uint q)
        (cut_lane vf (add_step vf (VReg d) (Temp t) (R(Temp t := q)) (v, 0, False)))"
      using add_exact(1) [OF fv, of "R(Temp t := q)" "VReg d" "Temp t"] fits [OF R, of "VReg d"] q by simp
    then show "exact_value (lw vf) (uint (R (VReg d)) + h (uint (R (VReg n))) (uint (R (VReg m))))
        (cut_lane vf (add_step vf (VReg d) (Temp t) (R(Temp t := q)) (v, 0, False)))"
      by (rule exact_value_cong) (simp only: q mod_add_right_eq)
    have "exact_value (lw vf) (uint (R (VReg d)) - uint q)
        (cut_lane vf (sub_step vf (VReg d) (Temp t) (R(Temp t := q)) (v, 0, False)))"
      using sub_exact(1) [OF fv, of "R(Temp t := q)" "VReg d" "Temp t"] fits [OF R, of "VReg d"] q by simp
    then show "exact_value (lw vf) (uint (R (VReg d)) - h (uint (R (VReg n))) (uint (R (VReg m))))
        (cut_lane vf (sub_step vf (VReg d) (Temp t) (R(Temp t := q)) (v, 0, False)))"
      by (rule exact_value_cong) (simp only: q mod_diff_right_eq)
  qed
  show "computes vf (VReg d) (VReg n) (VReg m) op (\<lambda>d a b. d + h a b)"
    if "\<And>B. snd (op B) = snd (add_v vf (LogicV (VReg d)) (VReg d) (Temp t) (snd (op1 (C (SimVRegister_init (Temp t) B)))))"
    by (rule computes_via_temp [OF one add_vec [OF f] that C C']) (simp_all add: acc p)
  show "computes vf (VReg d) (VReg n) (VReg m) op (\<lambda>d a b. d - h a b)"
    if "\<And>B. snd (op B) = snd (sub_v vf (LogicV (VReg d)) (VReg d) (Temp t) (snd (op1 (C (SimVRegister_init (Temp t) B)))))"
    by (rule computes_via_temp [OF one sub_vec [OF f] that C C']) (simp_all add: acc p)
qed

lemma mla_mls_computes:
  assumes f: "neon_format vf"
  shows "computes vf (VReg d) (VReg n) (VReg m) (mla_v vf (LogicV (VReg d)) (VReg d) (VReg n) (VReg m)) (\<lambda>d a b. d + a * b)"
    "computes vf (VReg d) (VReg n) (VReg m) (mls_v vf (LogicV (VReg d)) (VReg d) (VReg n) (VReg m)) (\<lambda>d a b. d - a * b)"
  by (rule accumulate_computes [OF f mul_vec [OF f, of "Temp 2" "VReg n" "VReg m"], where C = id];
      simp add: mla_v_def Let_def mul_exact neon_formatD(1) [OF f])
    (rule accumulate_computes [OF f mul_vec [OF f, of "Temp 3" "VReg n" "VReg m"], where C = id];
      simp add: mls_v_def Let_def mul_exact neon_formatD(1) [OF f])

lemma saba_uaba_computes:
  assumes f: "neon_format vf"
  shows "computes vf (VReg d) (VReg n) (VReg m) (saba_v vf (LogicV (VReg d)) (VReg n) (VReg m))
      (\<lambda>d a b. d + absdiff (lw vf) True a b)"
    "computes vf (VReg d) (VReg n) (VReg m) (uaba_v vf (LogicV (VReg d)) (VReg n) (VReg m))
      (\<lambda>d a b. d + absdiff (lw vf) False a b)"
  by (rule accumulate_computes [OF f absdiff_vec [OF f, of "Temp 34" "VReg n" "VReg m" True],
        where C = "ClearForWrite vf (VReg d)"];
      simp add: saba_v_def Let_def LogicV_def LUint_ClearForWrite absdiff_exact neon_formatD(1) [OF f])
    (rule accumulate_computes [OF f absdiff_vec [OF f, of "Temp 35" "VReg n" "VReg m" False],
        where C = "ClearForWrite vf (VReg d)"];
      simp add: uaba_v_def Let_def LogicV_def LUint_ClearForWrite absdiff_exact neon_formatD(1) [OF f])

end
