(* ===== verification/Neon_Contracts.thy ===== *)
theory Neon_Contracts
  imports Lane_Contracts
begin

text \<open>
  What the NEON visitors compute, stated over the registers of the simulator: a table of
  integer functions for the instructions of the class, the lanes of the destination being the
  function of the lanes of the operands before the instruction.
\<close>

section \<open>Lanes of a register as integers\<close>

definition lane_int :: "nat \<Rightarrow> u128 \<Rightarrow> nat \<Rightarrow> int" where
  "lane_int w x i = (uint x div 2 ^ (i * w)) mod 2 ^ w"

lemma ulane_lane_int:
  assumes "has_lanes vf"
  shows "ulane vf B r i = lane_int (lw vf) (B r) i"
proof -
  let ?w = "lw vf"
  have "uint (LUint vf B r i) = take_bit ?w (drop_bit (i * ?w) (uint (B r)))"
    using lw_bounds [OF assms]
    by (intro bit_eqI)
      (auto simp: bit_uint_iff bit_LUint [OF assms] bit_take_bit_iff bit_drop_bit_eq dest: bit_imp_le_length)
  then show ?thesis by (simp only: ulane_def lane_int_def take_bit_eq_mod drop_bit_eq_div)
qed

text \<open>
  The outcome of an instruction that writes the lanes of \<open>rd\<close>: the lanes hold \<open>g\<close> of the lanes
  of \<open>rd\<close>, \<open>rn\<close> and \<open>rm\<close> before it, the rest of \<open>rd\<close> is zero, and nothing else changes.
\<close>

definition vector_result ::
  "VectorFormat \<Rightarrow> u32 \<Rightarrow> (int \<Rightarrow> int \<Rightarrow> int \<Rightarrow> int) \<Rightarrow> 'v vsim \<Rightarrow> 'v vsim \<Rightarrow> bool" where
  "vector_result vf bits g s s' \<longleftrightarrow>
     (let w = LaneSizeInBitsFromFormat vf; d = unat (GetRd bits); n = unat (GetRn bits); m = unat (GetRm bits) in
      (\<forall>i < LaneCount vf.
         lane_int w (vregs s' d) i =
           g (lane_int w (vregs s d) i) (lane_int w (vregs s n) i) (lane_int w (vregs s m) i) mod 2 ^ w) \<and>
      drop_bit (RegisterSizeInBitsFromFormat vf) (vregs s' d) = 0 \<and>
      s' = s\<lparr>vregs := (vregs s)(d := vregs s' d)\<rparr>)"

lemma run_bank_vregs: "vregs (run_bank op s) k = snd (op (bank_of s)) (VReg k)"
  by (simp add: run_bank_def)

lemma bank_of_VReg [simp]: "bank_of s (VReg k) = vregs s k"
  by (simp add: bank_of_def)

lemma run_bank_frame:
  assumes "\<And>k. k \<noteq> d \<Longrightarrow> snd (op (bank_of s)) (VReg k) = vregs s k"
  shows "run_bank op s = s\<lparr>vregs := (vregs s)(d := vregs (run_bank op s) d)\<rparr>"
proof -
  have "vregs (run_bank op s) = (vregs s)(d := vregs (run_bank op s) d)"
    using assms by (auto simp: run_bank_vregs)
  then show ?thesis
    by (metis (no_types, lifting) run_bank_def vsim.surjective vsim.update_convs(2) vsim.select_convs(2))
qed

lemma computes_result:
  assumes f: "neon_format vf"
    and op: "computes vf (VReg (unat (GetRd bits))) (VReg (unat (GetRn bits))) (VReg (unat (GetRm bits))) op g"
  shows "vector_result vf bits g s (run_bank op s)"
proof -
  let ?d = "unat (GetRd bits)"
  have zero: "drop_bit (RegisterSizeInBitsFromFormat vf) (vregs (run_bank op s) ?d) = 0"
    using op by (intro bit_word_eqI) (simp add: computes_def run_bank_vregs bit_drop_bit_eq)
  have frame: "run_bank op s = s\<lparr>vregs := (vregs s)(?d := vregs (run_bank op s) ?d)\<rparr>"
    using op by (intro run_bank_frame) (simp add: computes_def)
  show ?thesis
    using op zero frame
    by (simp add: vector_result_def Let_def computes_def ulane_lane_int [OF neon_formatD(1) [OF f]]
        run_bank_vregs)
qed

section \<open>Three registers of the same format\<close>

text \<open>
  The integer functions of the instructions: \<open>d\<close>, \<open>a\<close>, \<open>b\<close> are the unsigned readings of the
  lanes of \<open>rd\<close>, \<open>rn\<close> and \<open>rm\<close>.
\<close>

definition neon_3same_spec :: "nat \<Rightarrow> (u32 \<times> (int \<Rightarrow> int \<Rightarrow> int \<Rightarrow> int)) list" where
  "neon_3same_spec w =
     [(NEON_ADD, \<lambda>d a b. a + b),
      (NEON_SUB, \<lambda>d a b. a - b),
      (NEON_MUL, \<lambda>d a b. a * b),
      (NEON_MLA, \<lambda>d a b. d + a * b),
      (NEON_MLS, \<lambda>d a b. d - a * b),
      (NEON_CMEQ, \<lambda>d a b. lane_mask w (a = b)),
      (NEON_CMGE, \<lambda>d a b. lane_mask w (sread w a \<ge> sread w b)),
      (NEON_CMGT, \<lambda>d a b. lane_mask w (sread w a > sread w b)),
      (NEON_CMHI, \<lambda>d a b. lane_mask w (a > b)),
      (NEON_CMHS, \<lambda>d a b. lane_mask w (a \<ge> b)),
      (NEON_CMTST, \<lambda>d a b. lane_mask w (a AND b \<noteq> 0)),
      (NEON_SMAX, \<lambda>d a b. max (sread w a) (sread w b)),
      (NEON_SMIN, \<lambda>d a b. min (sread w a) (sread w b)),
      (NEON_UMAX, \<lambda>d a b. max a b),
      (NEON_UMIN, \<lambda>d a b. min a b),
      (NEON_SABD, \<lambda>d a b. \<bar>sread w a - sread w b\<bar>),
      (NEON_UABD, \<lambda>d a b. \<bar>a - b\<bar>),
      (NEON_SABA, \<lambda>d a b. d + \<bar>sread w a - sread w b\<bar>),
      (NEON_UABA, \<lambda>d a b. d + \<bar>a - b\<bar>),
      (NEON_UQADD, \<lambda>d a b. uclamp w (a + b)),
      (NEON_SQADD, \<lambda>d a b. sclamp w (sread w a + sread w b)),
      (NEON_UQSUB, \<lambda>d a b. uclamp w (a - b)),
      (NEON_SQSUB, \<lambda>d a b. sclamp w (sread w a - sread w b)),
      (NEON_UHADD, \<lambda>d a b. (a + b) div 2),
      (NEON_URHADD, \<lambda>d a b. (a + b + 1) div 2),
      (NEON_SHADD, \<lambda>d a b. (sread w a + sread w b) div 2),
      (NEON_SRHADD, \<lambda>d a b. (sread w a + sread w b + 1) div 2),
      (NEON_UHSUB, \<lambda>d a b. (a - b) div 2),
      (NEON_SHSUB, \<lambda>d a b. (sread w a - sread w b) div 2),
      (NEON_USHL, \<lambda>d a b. shifted a (shift_distance b)),
      (NEON_SSHL, \<lambda>d a b. shifted (sread w a) (shift_distance b)),
      (NEON_URSHL, \<lambda>d a b. rshifted a (shift_distance b)),
      (NEON_SRSHL, \<lambda>d a b. rshifted (sread w a) (shift_distance b)),
      (NEON_UQSHL, \<lambda>d a b. uclamp w (shifted a (shift_distance b))),
      (NEON_SQSHL, \<lambda>d a b. sclamp w (shifted (sread w a) (shift_distance b))),
      (NEON_UQRSHL, \<lambda>d a b. uclamp w (rshifted a (shift_distance b))),
      (NEON_SQRSHL, \<lambda>d a b. sclamp w (rshifted (sread w a) (shift_distance b)))]"

text \<open>The operations of the table under the names and the functions it has for them.\<close>

lemma cmp_entries:
  assumes "neon_format vf"
  shows "computes vf rd rn rm (cmp_v vf (LogicV rd) rn rm VC_eq) (\<lambda>d a b. lane_mask (lw vf) (a = b))"
    "computes vf rd rn rm (cmp_v vf (LogicV rd) rn rm VC_ge) (\<lambda>d a b. lane_mask (lw vf) (sread (lw vf) a \<ge> sread (lw vf) b))"
    "computes vf rd rn rm (cmp_v vf (LogicV rd) rn rm VC_gt) (\<lambda>d a b. lane_mask (lw vf) (sread (lw vf) a > sread (lw vf) b))"
    "computes vf rd rn rm (cmp_v vf (LogicV rd) rn rm VC_hi) (\<lambda>d a b. lane_mask (lw vf) (a > b))"
    "computes vf rd rn rm (cmp_v vf (LogicV rd) rn rm VC_hs) (\<lambda>d a b. lane_mask (lw vf) (a \<ge> b))"
  using cmp_computes [OF assms, of rd rn rm VC_eq] cmp_computes [OF assms, of rd rn rm VC_ge]
    cmp_computes [OF assms, of rd rn rm VC_gt] cmp_computes [OF assms, of rd rn rm VC_hi]
    cmp_computes [OF assms, of rd rn rm VC_hs]
  by simp_all

lemma minmax_entries:
  assumes "neon_format vf"
  shows "computes vf rd rn rm (smax_v vf (LogicV rd) rn rm) (\<lambda>d a b. max (sread (lw vf) a) (sread (lw vf) b))"
    "computes vf rd rn rm (smin_v vf (LogicV rd) rn rm) (\<lambda>d a b. min (sread (lw vf) a) (sread (lw vf) b))"
    "computes vf rd rn rm (umax_v vf (LogicV rd) rn rm) (\<lambda>d a b. max a b)"
    "computes vf rd rn rm (umin_v vf (LogicV rd) rn rm) (\<lambda>d a b. min a b)"
  using sminmax_computes [OF assms, of rd rn rm True] sminmax_computes [OF assms, of rd rn rm False]
    uminmax_computes [OF assms, of rd rn rm True] uminmax_computes [OF assms, of rd rn rm False]
  by (simp_all add: smax_v_def [abs_def] smin_v_def [abs_def] umax_v_def [abs_def] umin_v_def [abs_def])

lemma absdiff_entries:
  assumes "neon_format vf"
  shows "computes vf rd rn rm (absdiff_v vf (LogicV rd) rn rm True) (\<lambda>d a b. \<bar>sread (lw vf) a - sread (lw vf) b\<bar>)"
    "computes vf rd rn rm (absdiff_v vf (LogicV rd) rn rm False) (\<lambda>d a b. \<bar>a - b\<bar>)"
    "computes vf (VReg d) (VReg n) (VReg m) (saba_v vf (LogicV (VReg d)) (VReg n) (VReg m))
      (\<lambda>d a b. d + \<bar>sread (lw vf) a - sread (lw vf) b\<bar>)"
    "computes vf (VReg d) (VReg n) (VReg m) (uaba_v vf (LogicV (VReg d)) (VReg n) (VReg m)) (\<lambda>d a b. d + \<bar>a - b\<bar>)"
  using absdiff_computes [OF assms, of rd rn rm True] absdiff_computes [OF assms, of rd rn rm False]
    saba_uaba_computes [OF assms, of d n m]
  by (simp_all add: absdiff_def)

lemmas lane_functions = add_computes sub_computes mul_computes mla_mls_computes cmp_entries cmptst_computes
  minmax_entries absdiff_entries uqadd_computes sqadd_computes uqsub_computes sqsub_computes
  uhadd_computes urhadd_computes shadd_computes srhadd_computes uhsub_computes shsub_computes
  ushl_computes sshl_computes

text \<open>Each entry of a table of functions belongs to an operation of the code's table.\<close>

definition table_computes ::
  "VectorFormat \<Rightarrow> vref \<Rightarrow> vref \<Rightarrow> vref \<Rightarrow> op_table \<Rightarrow> (u32 \<times> (int \<Rightarrow> int \<Rightarrow> int \<Rightarrow> int)) list \<Rightarrow> bool" where
  "table_computes vf rd rn rm table spec \<longleftrightarrow>
     list_all (\<lambda>(key, g). \<exists>op. (key, vf, op) \<in> set table \<and> computes vf rd rn rm op g) spec"

lemma table_computesD:
  assumes "table_computes vf rd rn rm table spec" "distinct (map fst table)" "map_of spec key = Some g"
  shows "\<exists>op. map_of table key = Some (vf, op) \<and> computes vf rd rn rm op g"
proof -
  from assms(3) have "(key, g) \<in> set spec" by (rule map_of_SomeD)
  with assms(1) obtain op where "(key, vf, op) \<in> set table" "computes vf rd rn rm op g"
    by (auto simp: table_computes_def list_all_iff)
  then show ?thesis using map_of_is_SomeI [OF assms(2)] by blast
qed

lemma table_entry:
  "computes vf rd rn rm op g \<Longrightarrow> (key, vf, op) \<in> set table \<Longrightarrow>
    \<exists>op. (key, vf, op) \<in> set table \<and> computes vf rd rn rm op g"
  by blast

lemma table_computesI:
  "table_computes vf rd rn rm table []"
  "\<exists>op. (key, vf, op) \<in> set table \<and> computes vf rd rn rm op g \<Longrightarrow> table_computes vf rd rn rm table spec \<Longrightarrow>
    table_computes vf rd rn rm table ((key, g) # spec)"
  by (simp_all add: table_computes_def)

lemma neon_3same_table_computes:
  assumes f: "neon_format vf"
  shows "table_computes vf (VReg d) (VReg n) (VReg m) (neon_3same_table vf (VReg d) (VReg n) (VReg m)) (neon_3same_spec (lw vf))"
  unfolding neon_3same_spec_def neon_3same_table_def
  by (intro table_computesI; rule table_entry, rule lane_functions [OF f], (rule list.set_intros(1) | rule list.set_intros(2))+)

lemma neon_3same_keys: "distinct (map fst (neon_3same_table vf rd rn rm))"
  by (simp add: neon_3same_table_def)

text \<open>The operation code decides the tests on the class of the instruction.\<close>

lemma Mask_of_Mask: "m AND m' = m \<Longrightarrow> Mask m' bits = key \<Longrightarrow> Mask m bits = Mask m key"
  by (auto simp: Mask_def ac_simps)

lemma neon_3same_class:
  assumes "key \<in> set (map fst (neon_3same_spec w))" and "Mask NEON3SameMask bits = key"
  shows "Mask NEON3SameLogicalFMask bits \<noteq> NEON3SameLogicalFixed" "Mask NEON3SameFPFMask bits \<noteq> NEON3SameFPFixed"
proof -
  have m: "Mask NEON3SameLogicalFMask bits = Mask NEON3SameLogicalFMask key"
    "Mask NEON3SameFPFMask bits = Mask NEON3SameFPFMask key"
    by (rule Mask_of_Mask [OF _ assms(2)], simp)+
  have "list_all (\<lambda>k. Mask NEON3SameLogicalFMask k \<noteq> NEON3SameLogicalFixed \<and> Mask NEON3SameFPFMask k \<noteq> NEON3SameFPFixed)
      (map fst (neon_3same_spec w))"
    by (simp add: neon_3same_spec_def Mask_def)
  then show "Mask NEON3SameLogicalFMask bits \<noteq> NEON3SameLogicalFixed" "Mask NEON3SameFPFMask bits \<noteq> NEON3SameFPFixed"
    using assms(1) unfolding m by (auto simp: list_all_iff)
qed

lemma integer_formats: "GetVectorFormat bits IntegerFormatMap \<noteq> kFormatUndefined \<Longrightarrow>
    neon_format (GetVectorFormat bits IntegerFormatMap)"
proof -
  have "GetVectorFormat bits IntegerFormatMap \<in> insert kFormatUndefined (set (snd IntegerFormatMap))"
    by (auto simp: GetVectorFormat_def Let_def)
  then show "GetVectorFormat bits IntegerFormatMap \<noteq> kFormatUndefined \<Longrightarrow>
      neon_format (GetVectorFormat bits IntegerFormatMap)"
    by (auto simp: IntegerFormatMap_def neon_format_def)
qed

text \<open>C13: An instruction of the three-same class whose operation is in \<open>neon_3same_spec\<close> writes to each
  lane of its destination the integer function of that table, modulo the lane size: wrapping, clamped for
  the saturating forms, rounded for the rounding and halving ones.  The bits above the register's size
  become zero and nothing else in the simulator changes.\<close>

theorem neon_3same_integer:
  assumes "vf = GetVectorFormat (insn_bits instr) IntegerFormatMap" "vf \<noteq> kFormatUndefined"
    and "map_of (neon_3same_spec (LaneSizeInBitsFromFormat vf)) (Mask NEON3SameMask (insn_bits instr)) = Some g"
  shows "\<exists>s'. VisitNEON3Same dbg fp instr s = Inr s' \<and> vector_result vf (insn_bits instr) g s s'"
proof -
  let ?bits = "insn_bits instr" and ?key = "Mask NEON3SameMask (insn_bits instr)"
  have f: "neon_format vf" using integer_formats assms(1,2) by simp
  have "?key \<in> set (map fst (neon_3same_spec (lw vf)))" using map_of_SomeD [OF assms(3)] by force
  note c = neon_3same_class [OF this refl]
  obtain op where op: "map_of (neon_3same_table vf (vd_of ?bits) (vn_of ?bits) (vm_of ?bits)) ?key = Some (vf, op)"
    "computes vf (vd_of ?bits) (vn_of ?bits) (vm_of ?bits) op g"
    using table_computesD [OF neon_3same_table_computes [OF f] neon_3same_keys assms(3)] by blast
  have "VisitNEON3Same dbg fp instr s = Inr (run_bank op s)"
    unfolding VisitNEON3Same_def Let_def assms(1) [symmetric]
    using c op(1) assms(2) by (simp only: op_switch_def vector_op_def if_False option.case prod.case) simp
  with computes_result [OF f op(2)] show ?thesis by blast
qed

section \<open>The same functions for scalars\<close>

definition neon_scalar_3same_spec :: "nat \<Rightarrow> (u32 \<times> (int \<Rightarrow> int \<Rightarrow> int \<Rightarrow> int)) list" where
  "neon_scalar_3same_spec w =
     [(NEON_ADD_scalar, \<lambda>d a b. a + b),
      (NEON_SUB_scalar, \<lambda>d a b. a - b),
      (NEON_CMEQ_scalar, \<lambda>d a b. lane_mask w (a = b)),
      (NEON_CMGE_scalar, \<lambda>d a b. lane_mask w (sread w a \<ge> sread w b)),
      (NEON_CMGT_scalar, \<lambda>d a b. lane_mask w (sread w a > sread w b)),
      (NEON_CMHI_scalar, \<lambda>d a b. lane_mask w (a > b)),
      (NEON_CMHS_scalar, \<lambda>d a b. lane_mask w (a \<ge> b)),
      (NEON_CMTST_scalar, \<lambda>d a b. lane_mask w (a AND b \<noteq> 0)),
      (NEON_USHL_scalar, \<lambda>d a b. shifted a (shift_distance b)),
      (NEON_SSHL_scalar, \<lambda>d a b. shifted (sread w a) (shift_distance b)),
      (NEON_UQADD_scalar, \<lambda>d a b. uclamp w (a + b)),
      (NEON_SQADD_scalar, \<lambda>d a b. sclamp w (sread w a + sread w b)),
      (NEON_UQSUB_scalar, \<lambda>d a b. uclamp w (a - b)),
      (NEON_SQSUB_scalar, \<lambda>d a b. sclamp w (sread w a - sread w b)),
      (NEON_UQSHL_scalar, \<lambda>d a b. uclamp w (shifted a (shift_distance b))),
      (NEON_SQSHL_scalar, \<lambda>d a b. sclamp w (shifted (sread w a) (shift_distance b))),
      (NEON_URSHL_scalar, \<lambda>d a b. rshifted a (shift_distance b)),
      (NEON_SRSHL_scalar, \<lambda>d a b. rshifted (sread w a) (shift_distance b)),
      (NEON_UQRSHL_scalar, \<lambda>d a b. uclamp w (rshifted a (shift_distance b))),
      (NEON_SQRSHL_scalar, \<lambda>d a b. sclamp w (rshifted (sread w a) (shift_distance b)))]"

lemma neon_scalar_3same_table_computes:
  assumes f: "neon_format vf"
  shows "table_computes vf (VReg d) (VReg n) (VReg m) (neon_scalar_3same_table vf (VReg d) (VReg n) (VReg m))
    (neon_scalar_3same_spec (lw vf))"
  unfolding neon_scalar_3same_spec_def neon_scalar_3same_table_def
  by (intro table_computesI; rule table_entry, rule lane_functions [OF f], (rule list.set_intros(1) | rule list.set_intros(2))+)

lemma neon_scalar_3same_keys: "distinct (map fst (neon_scalar_3same_table vf rd rn rm))"
  by (simp add: neon_scalar_3same_table_def)

text \<open>The tests on the class, for any table whose keys lie outside it.\<close>

lemma class_excluded:
  assumes "key \<in> set (map fst spec)" "Mask m' bits = key" "m AND m' = m"
    and "list_all (\<lambda>k. Mask m k \<noteq> fixed) (map fst spec)"
  shows "Mask m bits \<noteq> fixed"
  using assms Mask_of_Mask [OF assms(3,2)] by (auto simp: list_all_iff)

lemma scalar_formats: "GetVectorFormat bits ScalarFormatMap \<noteq> kFormatUndefined \<Longrightarrow>
    neon_format (GetVectorFormat bits ScalarFormatMap)"
proof -
  have "GetVectorFormat bits ScalarFormatMap \<in> insert kFormatUndefined (set (snd ScalarFormatMap))"
    by (auto simp: GetVectorFormat_def Let_def)
  then show "GetVectorFormat bits ScalarFormatMap \<noteq> kFormatUndefined \<Longrightarrow>
      neon_format (GetVectorFormat bits ScalarFormatMap)"
    by (auto simp: ScalarFormatMap_def neon_format_def)
qed

theorem neon_scalar_3same_integer:
  assumes "vf = GetVectorFormat (insn_bits instr) ScalarFormatMap" "vf \<noteq> kFormatUndefined"
    and "map_of (neon_scalar_3same_spec (LaneSizeInBitsFromFormat vf)) (Mask NEONScalar3SameMask (insn_bits instr)) = Some g"
  shows "\<exists>s'. VisitNEONScalar3Same dbg fp instr s = Inr s' \<and> vector_result vf (insn_bits instr) g s s'"
proof -
  let ?bits = "insn_bits instr" and ?key = "Mask NEONScalar3SameMask (insn_bits instr)"
  have f: "neon_format vf" using scalar_formats assms(1,2) by simp
  have "?key \<in> set (map fst (neon_scalar_3same_spec (lw vf)))" using map_of_SomeD [OF assms(3)] by force
  then have c: "Mask NEONScalar3SameFPFMask ?bits \<noteq> NEONScalar3SameFPFixed"
    by (rule class_excluded [OF _ refl]) (simp_all add: neon_scalar_3same_spec_def Mask_def)
  obtain op where op: "map_of (neon_scalar_3same_table vf (vd_of ?bits) (vn_of ?bits) (vm_of ?bits)) ?key = Some (vf, op)"
    "computes vf (vd_of ?bits) (vn_of ?bits) (vm_of ?bits) op g"
    using table_computesD [OF neon_scalar_3same_table_computes [OF f] neon_scalar_3same_keys assms(3)] by blast
  have "VisitNEONScalar3Same dbg fp instr s = Inr (run_bank op s)"
    unfolding VisitNEONScalar3Same_def Let_def assms(1) [symmetric]
    using c op(1) assms(2) by (simp only: op_switch_def vector_op_def if_False option.case prod.case) simp
  with computes_result [OF f op(2)] show ?thesis by blast
qed

section \<open>Bitwise instructions\<close>

text \<open>A lane operation that acts bit by bit acts bit by bit on the register.\<close>

lemma bitwise_vec_op:
  assumes f: "neon_format vf" and op: "vec_op vf rd op F"
    and F: "\<And>R k. bit (fst (F R)) k \<longleftrightarrow> k < lw vf \<and> \<beta> (bit (R rd) k) (bit (R rn) k) (bit (R rm) k)"
  shows "bit (snd (op B) rd) k \<longleftrightarrow>
    k < RegisterSizeInBitsFromFormat vf \<and> \<beta> (bit (B rd) k) (bit (B rn) k) (bit (B rm) k)"
proof (cases "k < RegisterSizeInBitsFromFormat vf")
  case True
  let ?w = "lw vf" and ?i = "k div lw vf" and ?r = "k mod lw vf"
  note fv = neon_formatD(1) [OF f] and fs = neon_formatD(2) [OF f]
  have w: "0 < ?w" by (rule lw_bounds [OF fv])
  have i: "?i < LaneCount vf"
    using True lanes_are_register [OF fv fs] by (simp add: less_mult_imp_div_less)
  have r: "?r < ?w" using w by simp
  have "bit (snd (op B) rd) k \<longleftrightarrow> bit (LUint vf (snd (op B)) rd ?i) ?r" using w by (simp add: bit_LUint [OF fv])
  also have "\<dots> \<longleftrightarrow> \<beta> (bit (B rd) k) (bit (B rn) k) (bit (B rm) k)"
    using vec_op_value [OF op i, of B] F [of "\<lambda>q. LUint vf B q ?i" ?r] r by (simp add: bit_LUint [OF fv])
  finally show ?thesis using True by simp
next
  case False
  then show ?thesis using vec_opD(3) [OF op, of k B] by simp
qed

definition neon_logical_spec :: "(u32 \<times> (bool \<Rightarrow> bool \<Rightarrow> bool \<Rightarrow> bool)) list" where
  "neon_logical_spec =
     [(NEON_AND, \<lambda>d a b. a \<and> b),
      (NEON_ORR, \<lambda>d a b. a \<or> b),
      (NEON_ORN, \<lambda>d a b. a \<or> \<not> b),
      (NEON_EOR, \<lambda>d a b. a \<noteq> b),
      (NEON_BIC, \<lambda>d a b. a \<and> \<not> b),
      (NEON_BIF, \<lambda>d a b. if b then d else a),
      (NEON_BIT, \<lambda>d a b. if b then a else d),
      (NEON_BSL, \<lambda>d a b. if d then a else b)]"

definition bitwise_computes ::
  "VectorFormat \<Rightarrow> vref \<Rightarrow> vref \<Rightarrow> vref \<Rightarrow> (vbank \<Rightarrow> vstate) \<Rightarrow> (bool \<Rightarrow> bool \<Rightarrow> bool \<Rightarrow> bool) \<Rightarrow> bool" where
  "bitwise_computes vf rd rn rm op \<beta> \<longleftrightarrow> (\<forall>B.
     (\<forall>k. bit (snd (op B) rd) k \<longleftrightarrow>
        k < RegisterSizeInBitsFromFormat vf \<and> \<beta> (bit (B rd) k) (bit (B rn) k) (bit (B rm) k)) \<and>
     (\<forall>r. r \<noteq> rd \<longrightarrow> snd (op B) r = B r))"

lemma bitwise_computesI:
  assumes f: "neon_format vf" and op: "vec_op vf rd op F"
    and F: "\<And>R k. bit (fst (F R)) k \<longleftrightarrow> k < lw vf \<and> \<beta> (bit (R rd) k) (bit (R rn) k) (bit (R rm) k)"
  shows "bitwise_computes vf rd rn rm op \<beta>"
  using bitwise_vec_op [where \<beta> = \<beta>, OF f op F] vec_opD(4) [OF op] by (simp add: bitwise_computes_def)

lemma neon_logical_entries:
  assumes f: "neon_format vf" and g: "(key, \<beta>) \<in> set neon_logical_spec"
  shows "\<exists>op. (key, vf, op) \<in> set (neon_logical_table vf rd rn rm) \<and> bitwise_computes vf rd rn rm op \<beta>"
proof -
  note w = lw_bounds [OF neon_formatD(1) [OF f]]
  note b = bit_take_bit_iff bit_and_iff bit_or_iff bit_xor_iff bit_not_iff cut_lane_def
  have "bitwise_computes vf rd rn rm (and_v vf (LogicV rd) rn rm) (\<lambda>d a b. a \<and> b)"
    by (rule bitwise_computesI [OF f and_vec [OF f]]) (auto simp: and_step_def b)
  moreover have "bitwise_computes vf rd rn rm (orr_v vf (LogicV rd) rn rm) (\<lambda>d a b. a \<or> b)"
    by (rule bitwise_computesI [OF f orr_vec [OF f]]) (auto simp: orr_step_def b)
  moreover have "bitwise_computes vf rd rn rm (orn_v vf (LogicV rd) rn rm) (\<lambda>d a b. a \<or> \<not> b)"
    using w by (intro bitwise_computesI [OF f orn_vec [OF f]]) (auto simp: orn_step_def b)
  moreover have "bitwise_computes vf rd rn rm (eor_v vf (LogicV rd) rn rm) (\<lambda>d a b. a \<noteq> b)"
    by (rule bitwise_computesI [OF f eor_vec [OF f]]) (auto simp: eor_step_def b)
  moreover have "bitwise_computes vf rd rn rm (bic_v vf (LogicV rd) rn rm) (\<lambda>d a b. a \<and> \<not> b)"
    using w by (intro bitwise_computesI [OF f bic_vec [OF f]]) (auto simp: bic_step_def b)
  moreover have "bitwise_computes vf rd rn rm (bif_v vf (LogicV rd) rn rm) (\<lambda>d a b. if b then d else a)"
    using w by (intro bitwise_computesI [OF f bif_vec [OF f]]) (auto simp: bif_step_def b)
  moreover have "bitwise_computes vf rd rn rm (bit_v vf (LogicV rd) rn rm) (\<lambda>d a b. if b then a else d)"
    by (rule bitwise_computesI [OF f bit_vec [OF f]]) (auto simp: bit_step_def b)
  moreover have "bitwise_computes vf rd rn rm (bsl_v vf (LogicV rd) rd rn rm) (\<lambda>d a b. if d then a else b)"
    by (rule bitwise_computesI [OF f bsl_vec [OF f]]) (auto simp: bsl_step_def b)
  ultimately show ?thesis
    using g unfolding neon_logical_spec_def neon_logical_table_def by auto
qed

lemma neon_logical_keys: "distinct (map fst (neon_logical_table vf rd rn rm))"
  by (simp add: neon_logical_table_def)

lemma logical_formats: "neon_format (GetVectorFormat bits LogicalFormatMap)"
  "GetVectorFormat bits LogicalFormatMap \<noteq> kFormatUndefined"
  by (simp_all add: GetVectorFormat_def Let_def LogicalFormatMap_def PickBits_def neon_format_def nth_Cons split: nat.split)

text \<open>C30: The logical and select instructions of the three-same class compute their Boolean function bit
  by bit over the whole register, clear the bits above it and change nothing else.\<close>

theorem neon_logical_bitwise:
  fixes s :: "'v vsim"
  assumes "map_of neon_logical_spec (Mask NEON3SameLogicalMask (insn_bits instr)) = Some \<beta>"
    and "d = unat (GetRd (insn_bits instr))" "n = unat (GetRn (insn_bits instr))" "m = unat (GetRm (insn_bits instr))"
  shows "\<exists>s'. VisitNEON3Same dbg fp instr s = Inr s' \<and>
    s' = s\<lparr>vregs := (vregs s)(d := vregs s' d)\<rparr> \<and>
    (\<forall>k. bit (vregs s' d) k \<longleftrightarrow>
       k < RegisterSizeInBitsFromFormat (GetVectorFormat (insn_bits instr) LogicalFormatMap) \<and>
       \<beta> (bit (vregs s d) k) (bit (vregs s n) k) (bit (vregs s m) k))"
proof -
  let ?bits = "insn_bits instr" and ?key = "Mask NEON3SameLogicalMask (insn_bits instr)"
  let ?vf = "GetVectorFormat ?bits LogicalFormatMap"
  have mem: "(?key, \<beta>) \<in> set neon_logical_spec" by (rule map_of_SomeD [OF assms(1)])
  then have "Mask NEON3SameLogicalFMask ?bits = NEON3SameLogicalFixed"
    using Mask_of_Mask [of NEON3SameLogicalFMask NEON3SameLogicalMask ?bits ?key]
    by (auto simp: neon_logical_spec_def Mask_def)
  moreover obtain op where op: "(?key, ?vf, op) \<in> set (neon_logical_table ?vf (VReg d) (VReg n) (VReg m))"
    "bitwise_computes ?vf (VReg d) (VReg n) (VReg m) op \<beta>"
    using neon_logical_entries [OF logical_formats(1) mem] by blast
  have "map_of (neon_logical_table ?vf (VReg d) (VReg n) (VReg m)) ?key = Some (?vf, op)"
    by (rule map_of_is_SomeI [OF neon_logical_keys op(1)])
  ultimately have run: "VisitNEON3Same dbg fp instr s = Inr (run_bank op s)"
    using logical_formats(2) [of ?bits]
    by (simp add: VisitNEON3Same_def Let_def op_switch_def vector_op_def assms)
  have "run_bank op s = s\<lparr>vregs := (vregs s)(d := vregs (run_bank op s) d)\<rparr>"
    using op(2) by (intro run_bank_frame) (simp add: bitwise_computes_def)
  with run op(2) show ?thesis by (auto simp: bitwise_computes_def run_bank_vregs)
qed

end
