(* ===== verification/Neon_Narrow.thy ===== *)
theory Neon_Narrow
  imports Neon_Contracts
begin

text \<open>
  The narrowing instructions.  The loop reads wide lanes and writes narrow ones; with distinct
  registers it computes the narrowed lanes, and in place the second-half forms read lanes that
  they have already overwritten.
\<close>

section \<open>Loops from wide lanes to narrow lanes\<close>

locale narrowing =
  fixes vf srcf :: VectorFormat
    and offset :: nat
    and src :: vref
    and body :: "nat \<Rightarrow> vstate \<Rightarrow> vstate"
    and f :: "u64 \<Rightarrow> lane \<Rightarrow> lane"
  assumes body_is_put: "has_lanes vf \<Longrightarrow>
    body i st = put_lane vf (offset + i) (f (LUint srcf (snd st) src i) (lane_of vf st (offset + i))) st"
begin

lemma register_kept: "has_lanes vf \<Longrightarrow> lv_register (fst (for_lanes n body st)) = lv_register (fst st)"
  by (induction n) (simp_all add: body_is_put put_lane_def case_prod_beta)

lemma other_registers_kept:
  "has_lanes vf \<Longrightarrow> r \<noteq> lv_register (fst st) \<Longrightarrow> snd (for_lanes n body st) r = snd st r"
  by (induction n) (simp_all add: body_is_put put_lane_def case_prod_beta register_kept)

lemma other_lanes_kept:
  "has_lanes vf \<Longrightarrow> \<not> (offset \<le> j \<and> j < offset + n) \<Longrightarrow> lane_of vf (for_lanes n body st) j = lane_of vf st j"
proof (induction n)
  case (Suc n)
  let ?st = "for_lanes n body st"
  have "j \<noteq> offset + n" using Suc.prems by auto
  then have "lane_of vf (body n ?st) j = lane_of vf ?st j"
    using Suc.prems(1) by (simp add: body_is_put put_lane_def case_prod_beta LUint_SetUint_other lane_of_def)
  moreover have "lane_of vf ?st j = lane_of vf st j" using Suc.prems by (intro Suc.IH) auto
  ultimately show ?case by simp
qed simp

lemma lanes_computed:
  assumes "has_lanes vf" "src \<noteq> lv_register (fst st)" "j < n" "offset + n \<le> LaneCount vf"
  shows "lane_of vf (for_lanes n body st) (offset + j) =
    cut_lane vf (f (LUint srcf (snd st) src j) (lane_of vf st (offset + j)))"
  using assms(3,4)
proof (induction n)
  case (Suc n)
  let ?st = "for_lanes n body st"
  show ?case
  proof (cases "j = n")
    case True
    have "snd ?st src = snd st src" using other_registers_kept assms(1,2) by simp
    then have "LUint srcf (snd ?st) src j = LUint srcf (snd st) src j" by (rule LUint_cong)
    moreover have "lane_of vf ?st (offset + j) = lane_of vf st (offset + j)"
      using True by (intro other_lanes_kept assms(1)) simp
    moreover have "lane_of vf (put_lane vf (offset + j) l ?st) (offset + j) = cut_lane vf l" for l
      using assms(1) Suc.prems True
      by (simp add: put_lane_def lane_of_def cut_lane_def case_prod_beta LUint_SetUint_same)
    ultimately show ?thesis
      using True body_is_put [OF assms(1), of n ?st] by simp
  next
    case False
    then have "j < n" using Suc.prems by simp
    moreover have "lane_of vf (body n ?st) (offset + j) = lane_of vf ?st (offset + j)"
      using False assms(1) by (simp add: body_is_put put_lane_def case_prod_beta LUint_SetUint_other lane_of_def)
    ultimately show ?thesis using Suc by simp
  qed
qed simp

end

text \<open>The flags that a wide lane raises.\<close>

definition narrow_signed_flag :: "VectorFormat \<Rightarrow> u64 \<Rightarrow> u32" where
  "narrow_signed_flag vf y =
     (if sint y > sint (MaxIntFromFormat vf) then kSignedSatPositive
      else if sint y < sint (MinIntFromFormat vf) then kSignedSatNegative else 0)"

definition narrow_unsigned_flag :: "VectorFormat \<Rightarrow> bool \<Rightarrow> u64 \<Rightarrow> u64 \<Rightarrow> u32" where
  "narrow_unsigned_flag vf src_is_signed x y =
     (if src_is_signed
      then if sint y > sint (MaxUintFromFormat vf) then kUnsignedSatPositive
           else if sint y < 0 then kUnsignedSatNegative else 0
      else if x > MaxUintFromFormat vf then kUnsignedSatPositive else 0)"

definition narrow_step :: "VectorFormat \<Rightarrow> VectorFormat \<Rightarrow> bool \<Rightarrow> u64 \<Rightarrow> lane \<Rightarrow> lane" where
  "narrow_step vf srcf src_is_signed x l =
     (let (v, s, b) = l; y = sext srcf x
      in ((if src_is_signed then y else x) AND MaxUintFromFormat vf,
          s OR narrow_signed_flag vf y OR narrow_unsigned_flag vf src_is_signed x y, b))"

lemma LInt_sext: "LInt vf B r i = sext vf (LUint vf B r i)"
  by (cases "has_lanes vf") (simp_all add: LInt_LUint sext_def LInt_def LUint_def)

lemma SetSatFlag_0: "SetSatFlag i 0 d = d"
  by (simp add: SetSatFlag_def)

lemma narrow_flags:
  "(if sint y > sint (MaxIntFromFormat vf) then SetSignedSat i True d
    else if sint y < sint (MinIntFromFormat vf) then SetSignedSat i False d else d) =
   SetSatFlag i (narrow_signed_flag vf y) d"
  "(if ssig
    then if sint y > sint (MaxUintFromFormat vf) then SetUnsignedSat i True d
         else if sint y < 0 then SetUnsignedSat i False d else d
    else if x > MaxUintFromFormat vf then SetUnsignedSat i True d else d) =
   SetSatFlag i (narrow_unsigned_flag vf ssig x y) d"
  by (simp_all add: narrow_signed_flag_def narrow_unsigned_flag_def SetSignedSat_def SetUnsignedSat_def SetSatFlag_0)

interpretation extractnarrow_loop: narrowing vf srcf offset src
    "extractnarrow_lane vf srcf offset dsig src ssig" "narrow_step vf srcf ssig"
  for vf srcf offset dsig src ssig
proof unfold_locales
  fix i and st :: vstate
  obtain d B where st: "st = (d, B)" by (cases st)
  show "extractnarrow_lane vf srcf offset dsig src ssig i st =
      put_lane vf (offset + i) (narrow_step vf srcf ssig (LUint srcf (snd st) src i) (lane_of vf st (offset + i))) st"
    unfolding st extractnarrow_lane_def Let_def prod.case narrow_flags LInt_sext
    by (simp add: narrow_step_def put_lane_def lane_of_def SetInt_SetUint SetSatFlag_def Let_def or.assoc)
qed

section \<open>What narrowing computes\<close>

lemma and_MaxUint: "has_lanes vf \<Longrightarrow> uint (y AND MaxUintFromFormat vf) mod 2 ^ lw vf = uint y mod 2 ^ lw vf"
proof -
  assume f: "has_lanes vf"
  have "y AND MaxUintFromFormat vf = take_bit (lw vf) y"
    by (simp add: MaxUintFromFormat_def GetUintMask_eq_mask take_bit_eq_mask)
  then show ?thesis by (simp add: uint_take_bit_int)
qed

lemma sint_MaxInt: "has_lanes vf \<Longrightarrow> sint (MaxIntFromFormat vf) = 2 ^ (lw vf - 1) - 1"
proof -
  assume f: "has_lanes vf"
  have "\<not> bit (MaxIntFromFormat vf) 63" using lw_bounds [OF f] by (simp add: MaxInt_mask [OF f] bit_mask_iff)
  then show ?thesis using sint_msb [of "MaxIntFromFormat vf"] MaxInt_value [OF f] by simp
qed

lemma sint_MinInt: "has_lanes vf \<Longrightarrow> sint (MinIntFromFormat vf) = - (2 ^ (lw vf - 1))"
proof -
  assume f: "has_lanes vf"
  have "MinIntFromFormat vf = NOT (MaxIntFromFormat vf)" by (simp add: MinIntFromFormat_def not_eq_complement)
  moreover have "sint (NOT (MaxIntFromFormat vf)) = NOT (sint (MaxIntFromFormat vf))"
    by (rule bit_eqI) (auto simp: bit_sint_iff bit_not_iff dest: bit_imp_le_length)
  ultimately show ?thesis by (simp add: sint_MaxInt [OF f] not_int_def)
qed

lemma sint_MaxUint: "has_lanes vf \<Longrightarrow> lw vf < 64 \<Longrightarrow> sint (MaxUintFromFormat vf) = 2 ^ lw vf - 1"
proof -
  assume f: "has_lanes vf" "lw vf < 64"
  have "\<not> bit (MaxUintFromFormat vf) 63"
    using f by (simp add: MaxUintFromFormat_def GetUintMask_eq_mask bit_mask_iff)
  then show ?thesis using sint_msb [of "MaxUintFromFormat vf"] MaxUint_value [OF f(1)] by simp
qed

text \<open>The two readings of a wide lane.\<close>

definition wide :: "VectorFormat \<Rightarrow> bool \<Rightarrow> u64 \<Rightarrow> int" where
  "wide srcf src_is_signed x = (if src_is_signed then sread (lw srcf) (uint x) else uint x)"

lemma narrow_exact:
  assumes f: "has_lanes vf" "has_lanes srcf" "lw vf < 64"
  shows "exact_value (lw vf) (wide srcf ssig x) (cut_lane vf (narrow_step vf srcf ssig x (v, 0, b)))"
    "unsigned_flags (lw vf) (wide srcf ssig x) (fst (snd (cut_lane vf (narrow_step vf srcf ssig x (v, 0, b)))))"
    "ssig \<Longrightarrow> signed_flags (lw vf) (wide srcf ssig x) (fst (snd (cut_lane vf (narrow_step vf srcf ssig x (v, 0, b)))))"
proof -
  note w = lw_bounds [OF f(1)]
  have y: "sint (sext srcf x) = sread (lw srcf) (uint x)" by (rule sint_sext [OF f(2)])
  have u: "uint (sext srcf x) mod 2 ^ lw vf = sint (sext srcf x) mod 2 ^ lw vf" by (rule uint_sint_mod [OF w(2)])
  show "exact_value (lw vf) (wide srcf ssig x) (cut_lane vf (narrow_step vf srcf ssig x (v, 0, b)))"
    by (simp add: narrow_step_def Let_def exact_cut_value and_MaxUint [OF f(1)] wide_def u y)
  have mu: "sint (MaxUintFromFormat vf) = 2 ^ lw vf - 1" by (rule sint_MaxUint [OF f(1,3)])
  have gt: "MaxUintFromFormat vf < x \<longleftrightarrow> 2 ^ lw vf \<le> uint x" by (simp add: word_less_alt MaxUint_value [OF f(1)] zle_diff1_eq less_le_not_le) linarith
  define SF UF where "SF = narrow_signed_flag vf (sext srcf x)" and "UF = narrow_unsigned_flag vf ssig x (sext srcf x)"
  have flags: "fst (snd (cut_lane vf (narrow_step vf srcf ssig x (v, 0, b)))) = SF OR UF"
    by (simp add: narrow_step_def cut_lane_def Let_def SF_def UF_def)
  have SF: "SF = (if 2 ^ (lw vf - 1) \<le> sread (lw srcf) (uint x) then kSignedSatPositive
      else if sread (lw srcf) (uint x) < - (2 ^ (lw vf - 1)) then kSignedSatNegative else 0)"
    by (auto simp: SF_def narrow_signed_flag_def y sint_MaxInt [OF f(1)] sint_MinInt [OF f(1)])
  have UF: "UF = (if 2 ^ lw vf \<le> wide srcf ssig x then kUnsignedSatPositive
      else if wide srcf ssig x < 0 then kUnsignedSatNegative else 0)"
    by (auto simp: UF_def narrow_unsigned_flag_def y mu gt wide_def)
  have m: "(SF OR UF) AND 12 = UF" "(SF OR UF) AND 3 = SF" by (simp_all add: SF UF flag_masks)
  show "unsigned_flags (lw vf) (wide srcf ssig x) (fst (snd (cut_lane vf (narrow_step vf srcf ssig x (v, 0, b)))))"
    unfolding unsigned_flags_def flags m by (rule UF)
  show "ssig \<Longrightarrow> signed_flags (lw vf) (wide srcf ssig x) (fst (snd (cut_lane vf (narrow_step vf srcf ssig x (v, 0, b)))))"
    unfolding signed_flags_def flags m by (simp only: SF wide_def if_True)
qed

section \<open>The narrowing operations with distinct registers\<close>

text \<open>
  \<open>half\<close> tells the second-half forms, which write the upper lanes and keep the lower ones; the
  others zero the rest of the register.
\<close>

definition second_half :: "VectorFormat \<Rightarrow> bool" where
  "second_half vf \<longleftrightarrow> vf \<in> {kFormat16B, kFormat8H, kFormat4S}"

definition narrow_source :: "VectorFormat \<Rightarrow> VectorFormat" where
  "narrow_source vf = VectorFormatDoubleWidth (if second_half vf then VectorFormatHalfLanes vf else vf)"

definition narrow_offset :: "VectorFormat \<Rightarrow> nat" where
  "narrow_offset vf = (if second_half vf then LaneCount vf div 2 else 0)"

definition narrow_format :: "VectorFormat \<Rightarrow> bool" where
  "narrow_format vf \<longleftrightarrow> vf \<in> {kFormat8B, kFormat16B, kFormat4H, kFormat8H, kFormat2S, kFormat4S}"

lemma narrow_formats:
  assumes "narrow_format vf"
  shows "neon_format vf" "has_lanes (narrow_source vf)" "lw vf < 64" "lw (narrow_source vf) = 2 * lw vf"
    "narrow_offset vf + LaneCount (narrow_source vf) = LaneCount vf"
  using assms
  by (auto simp: narrow_format_def neon_format_def narrow_source_def second_half_def narrow_offset_def LaneCount_def)

text \<open>What the loop and the saturation after it leave: \<open>h\<close> acts on a wide lane.\<close>

definition narrows :: "VectorFormat \<Rightarrow> vref \<Rightarrow> vref \<Rightarrow> vstate \<Rightarrow> (int \<Rightarrow> int) \<Rightarrow> vbank \<Rightarrow> bool" where
  "narrows vf rd rn st h B \<longleftrightarrow>
     lv_register (fst st) = rd \<and>
     (\<forall>i<LaneCount (narrow_source vf).
        ulane vf (snd st) rd (narrow_offset vf + i) = h (ulane (narrow_source vf) B rn i) mod 2 ^ lw vf) \<and>
     (\<forall>i<narrow_offset vf. LUint vf (snd st) rd i = LUint vf B rd i) \<and>
     (\<forall>k\<ge>(if second_half vf then 128 else 64). \<not> bit (snd st rd) k) \<and>
     (\<forall>r. r \<noteq> rd \<longrightarrow> snd st r = B r)"

lemma LogicV_register [simp]: "lv_register (LogicV r) = r"
  by (simp add: LogicV_def)

lemma clear_narrow:
  assumes "narrow_format vf"
  shows "ClearForWrite (if second_half vf then kFormat16B else vf) r B = ClearForWrite vf r B"
  using assms
  by (auto simp: narrow_format_def second_half_def ClearForWrite_def RegisterSizeInBytesFromFormat_def)

lemma narrow_loop:
  fixes dsig ssig :: bool
  assumes nf: "narrow_format vf" and ne: "rd \<noteq> rn"
  defines "st \<equiv> \<lambda>B. extractnarrow_v vf (LogicV rd) dsig rn ssig B" and "srcf \<equiv> narrow_source vf" and "off \<equiv> narrow_offset vf"
  shows "lv_register (fst (st B)) = rd"
    "i < LaneCount srcf \<Longrightarrow> lane_of vf (st B) (off + i) =
      cut_lane vf (narrow_step vf srcf ssig (LUint srcf B rn i) (LUint vf B rd (off + i), 0, False))"
    "i < off \<Longrightarrow> lane_of vf (st B) i = (LUint vf B rd i, 0, False)"
    "RegisterSizeInBitsFromFormat vf \<le> k \<Longrightarrow> \<not> bit (snd (st B) rd) k"
    "r \<noteq> rd \<Longrightarrow> snd (st B) r = B r"
proof -
  note n = narrow_formats [OF nf] and f = neon_formatD [OF narrow_formats(1) [OF nf]]
  define l where "l = for_lanes (LaneCount srcf) (extractnarrow_lane vf srcf off dsig rn ssig) (LogicV rd, B)"
  have st: "st B = (fst l, ClearForWrite vf (lv_register (fst l)) (snd l))"
    using clear_narrow [OF nf]
    by (simp add: st_def extractnarrow_v_def Let_def l_def srcf_def off_def narrow_source_def narrow_offset_def
        second_half_def case_prod_beta)
  have reg: "lv_register (fst l) = rd" by (simp add: l_def extractnarrow_loop.register_kept f)
  then show "lv_register (fst (st B)) = rd" by (simp add: st)
  have cnt: "off + LaneCount srcf = LaneCount vf" using n by (simp add: off_def srcf_def)
  have lane: "lane_of vf (st B) j = lane_of vf l j" if "j < LaneCount vf" for j
    using that by (simp add: st lane_of_def reg LUint_ClearForWrite f)
  have start: "lane_of vf (LogicV rd, B) j = (LUint vf B rd j, 0, False)" for j
    by (simp add: lane_of_def LogicV_def)
  show "lane_of vf (st B) (off + i) =
      cut_lane vf (narrow_step vf srcf ssig (LUint srcf B rn i) (LUint vf B rd (off + i), 0, False))" if "i < LaneCount srcf"
    using extractnarrow_loop.lanes_computed [OF f(1), of rn "(LogicV rd, B)" i "LaneCount srcf" off srcf dsig ssig]
      that ne cnt lane [of "off + i"] start by (simp flip: l_def)
  show "lane_of vf (st B) i = (LUint vf B rd i, 0, False)" if "i < off"
    using extractnarrow_loop.other_lanes_kept [OF f(1), of off i "LaneCount srcf" srcf dsig rn ssig "(LogicV rd, B)"]
      that cnt lane [of i] start by (simp flip: l_def)
  show "\<not> bit (snd (st B) rd) k" if "RegisterSizeInBitsFromFormat vf \<le> k"
    using that f by (simp add: st reg bit_ClearForWrite)
  show "snd (st B) r = B r" if "r \<noteq> rd"
  proof -
    have "snd l r = B r" using that extractnarrow_loop.other_registers_kept [OF f(1), of r "(LogicV rd, B)"] by (simp add: l_def)
    then show ?thesis using that by (simp add: st reg)
  qed
qed

lemma second_half_size: "narrow_format vf \<Longrightarrow> RegisterSizeInBitsFromFormat vf = (if second_half vf then 128 else 64)"
  by (auto simp: narrow_format_def second_half_def)

lemma xtn_narrows:
  assumes nf: "narrow_format vf" and ne: "rd \<noteq> rn"
  shows "narrows vf rd rn (xtn_v vf (LogicV rd) rn B) (\<lambda>a. a) B"
proof -
  note L = narrow_loop [OF nf ne, where dsig = True and ssig = True and B = B] and n = narrow_formats [OF nf]
  note f = neon_formatD [OF n(1)]
  have "ulane vf (snd (xtn_v vf (LogicV rd) rn B)) rd (narrow_offset vf + i) =
      ulane (narrow_source vf) B rn i mod 2 ^ lw vf" if "i < LaneCount (narrow_source vf)" for i
  proof -
    let ?x = "LUint (narrow_source vf) B rn i"
    have "uint (fst (lane_of vf (xtn_v vf (LogicV rd) rn B) (narrow_offset vf + i))) = wide (narrow_source vf) True ?x mod 2 ^ lw vf"
      using L(2) [OF that] narrow_exact(1) [OF f(1) n(2,3), of True ?x] by (simp add: exact_value_def xtn_v_def)
    also have "\<dots> = uint ?x mod 2 ^ lw vf"
    proof -
      have "sread (lw (narrow_source vf)) (uint ?x) mod 2 ^ lw (narrow_source vf) = uint ?x mod 2 ^ lw (narrow_source vf)"
        by (rule sread_mod_self [OF lw_bounds(1) [OF n(2)]])
      then show ?thesis
        using mod_mod_cancel [of "2 ^ lw vf" "2 ^ lw (narrow_source vf)" "uint ?x"]
          mod_mod_cancel [of "2 ^ lw vf" "2 ^ lw (narrow_source vf)" "sread (lw (narrow_source vf)) (uint ?x)"] n(4)
        by (simp add: wide_def le_imp_power_dvd)
    qed
    finally show ?thesis by (simp add: lane_of_def ulane_def L(1) xtn_v_def)
  qed
  moreover have "LUint vf (snd (xtn_v vf (LogicV rd) rn B)) rd i = LUint vf B rd i" if "i < narrow_offset vf" for i
    using L(1) L(3) [OF that] by (simp add: lane_of_def xtn_v_def)
  ultimately show ?thesis
    using L(1,4,5) second_half_size [OF nf] by (simp add: narrows_def xtn_v_def)
qed

lemma saturated_narrows:
  assumes nf: "narrow_format vf" and ne: "rd \<noteq> rn"
    and op: "\<And>j. j < LaneCount vf \<Longrightarrow>
        lane_of vf (sat (extractnarrow_v vf (LogicV rd) dsig rn ssig B)) j =
        cut_lane vf (g (lane_of vf (extractnarrow_v vf (LogicV rd) dsig rn ssig B) j))"
    and reg: "lv_register (fst (sat (extractnarrow_v vf (LogicV rd) dsig rn ssig B))) = rd"
    and above: "\<And>k. RegisterSizeInBitsFromFormat vf \<le> k \<Longrightarrow>
        bit (snd (sat (extractnarrow_v vf (LogicV rd) dsig rn ssig B)) rd) k =
        bit (snd (extractnarrow_v vf (LogicV rd) dsig rn ssig B) rd) k"
    and others: "\<And>r. r \<noteq> rd \<Longrightarrow> snd (sat (extractnarrow_v vf (LogicV rd) dsig rn ssig B)) r =
        snd (extractnarrow_v vf (LogicV rd) dsig rn ssig B) r"
    and keeps: "\<And>v. g (v, 0, False) = (v, 0, False)"
    and exact: "\<And>x v. exact_value (lw vf) (h (uint x))
        (cut_lane vf (g (cut_lane vf (narrow_step vf (narrow_source vf) ssig x (v, 0, False)))))"
  shows "narrows vf rd rn (sat (extractnarrow_v vf (LogicV rd) dsig rn ssig B)) h B"
proof -
  note L = narrow_loop [OF nf ne, where dsig = dsig and ssig = ssig and B = B] and n = narrow_formats [OF nf]
  let ?st = "sat (extractnarrow_v vf (LogicV rd) dsig rn ssig B)"
  have "ulane vf (snd ?st) rd (narrow_offset vf + i) = h (ulane (narrow_source vf) B rn i) mod 2 ^ lw vf"
    if "i < LaneCount (narrow_source vf)" for i
  proof -
    have "narrow_offset vf + i < LaneCount vf" using that n(5) by simp
    then have "lane_of vf ?st (narrow_offset vf + i) = cut_lane vf (g (cut_lane vf (narrow_step vf (narrow_source vf) ssig
        (LUint (narrow_source vf) B rn i) (LUint vf B rd (narrow_offset vf + i), 0, False))))"
      using op L(2) [OF that] by simp
    then show ?thesis
      using exact [of "LUint (narrow_source vf) B rn i" "LUint vf B rd (narrow_offset vf + i)"]
      by (simp add: exact_value_def lane_of_def reg ulane_def) (metis fst_conv)
  qed
  moreover have "LUint vf (snd ?st) rd i = LUint vf B rd i" if "i < narrow_offset vf" for i
  proof -
    have "i < LaneCount vf" using that n(5) by simp
    then have "lane_of vf ?st i = cut_lane vf (LUint vf B rd i, 0, False)" using op L(3) [OF that] keeps by simp
    then show ?thesis by (simp add: lane_of_def reg cut_lane_def)
  qed
  ultimately show ?thesis
    using L(4,5) reg above others second_half_size [OF nf] by (simp add: narrows_def)
qed

lemma qxtn_narrows:
  assumes nf: "narrow_format vf" and ne: "rd \<noteq> rn"
  shows "narrows vf rd rn (sqxtn_v vf (LogicV rd) rn B) (\<lambda>a. sclamp (lw vf) (sread (lw (narrow_source vf)) a)) B"
    "narrows vf rd rn (sqxtun_v vf (LogicV rd) rn B) (\<lambda>a. uclamp (lw vf) (sread (lw (narrow_source vf)) a)) B"
    "narrows vf rd rn (uqxtn_v vf (LogicV rd) rn B) (\<lambda>a. uclamp (lw vf) a) B"
proof -
  note n = narrow_formats [OF nf] note f = neon_formatD [OF n(1)]
  note reg = narrow_loop(1) [OF nf ne]
  have local: "signed_saturate_step vf R l = signed_saturate_step vf (\<lambda>r. 0) l"
    "unsigned_saturate_step vf R l = unsigned_saturate_step vf (\<lambda>r. 0) l" for R l
    by (simp_all add: signed_saturate_step_def unsigned_saturate_step_def)
  have e: "exact_value (lw vf) (wide (narrow_source vf) ssig x) (cut_lane vf (narrow_step vf (narrow_source vf) ssig x (v, 0, b)))"
    "unsigned_flags (lw vf) (wide (narrow_source vf) ssig x)
      (fst (snd (cut_lane vf (narrow_step vf (narrow_source vf) ssig x (v, 0, b)))))"
    "ssig \<Longrightarrow> signed_flags (lw vf) (wide (narrow_source vf) ssig x)
      (fst (snd (cut_lane vf (narrow_step vf (narrow_source vf) ssig x (v, 0, b)))))" for ssig x v b
    by (rule narrow_exact [OF f(1) n(2,3)]; assumption?)+
  show "narrows vf rd rn (sqxtn_v vf (LogicV rd) rn B) (\<lambda>a. sclamp (lw vf) (sread (lw (narrow_source vf)) a)) B"
    unfolding sqxtn_v_def SignedSaturate_def
    by (rule saturated_narrows [OF nf ne, where g = "signed_saturate_step vf (\<lambda>r. 0)"])
      (use signed_saturate_exact [OF f(1) e(1) e(3)] f reg in \<open>simp_all add: wide_def signed_saturate_loop.chain_lane local(1)
        signed_saturate_loop.chain_above signed_saturate_loop.register_kept signed_saturate_loop.other_registers_kept
        signed_saturate_step_def\<close>)
  show "narrows vf rd rn (sqxtun_v vf (LogicV rd) rn B) (\<lambda>a. uclamp (lw vf) (sread (lw (narrow_source vf)) a)) B"
    unfolding sqxtun_v_def UnsignedSaturate_def
    by (rule saturated_narrows [OF nf ne, where g = "unsigned_saturate_step vf (\<lambda>r. 0)"])
      (use unsigned_saturate_exact [OF f(1) e(1) e(2), of True] f reg in \<open>simp_all add: wide_def unsigned_saturate_loop.chain_lane
        local(2) unsigned_saturate_loop.chain_above unsigned_saturate_loop.register_kept
        unsigned_saturate_loop.other_registers_kept unsigned_saturate_step_def\<close>)
  show "narrows vf rd rn (uqxtn_v vf (LogicV rd) rn B) (\<lambda>a. uclamp (lw vf) a) B"
    unfolding uqxtn_v_def UnsignedSaturate_def
    by (rule saturated_narrows [OF nf ne, where g = "unsigned_saturate_step vf (\<lambda>r. 0)"])
      (use unsigned_saturate_exact [OF f(1) e(1) e(2), of False] f reg in \<open>simp_all add: wide_def unsigned_saturate_loop.chain_lane
        local(2) unsigned_saturate_loop.chain_above unsigned_saturate_loop.register_kept
        unsigned_saturate_loop.other_registers_kept unsigned_saturate_step_def\<close>)
qed

section \<open>The visitor\<close>

text \<open>
  The hash in a form whose steps the simplifier takes one after the other, and the hashes of the
  forms of the two-register class.
\<close>

definition hash_shl :: "nat \<Rightarrow> u32 \<Rightarrow> u32" where
  "hash_shl n h = h + push_bit n h"

definition hash_shr :: "nat \<Rightarrow> u32 \<Rightarrow> u32" where
  "hash_shr n h = h XOR drop_bit n h"

lemma Hash_steps:
  "Hash str = Hash_from str 0"
  "Hash_from [] h = hash_shl 15 (hash_shr 11 (hash_shl 3 h))"
  "Hash_from (c # str) h = Hash_from str (hash_shr 6 (hash_shl 10 (h + of_char c)))"
  by (simp_all add: Hash_def hash_shl_def hash_shr_def Let_def)

lemma misc_hashes:
  "Hash ''rev64_asimdmisc_r'' = 0xb891a7a0"
  "Hash ''rev32_asimdmisc_r'' = 0x4774c097"
  "Hash ''rev16_asimdmisc_r'' = 0x2844b196"
  "Hash ''suqadd_asimdmisc_r'' = 0x547bf99e"
  "Hash ''usqadd_asimdmisc_r'' = 0xb52d31e8"
  "Hash ''cls_asimdmisc_r'' = 0x6b4564a9"
  "Hash ''clz_asimdmisc_r'' = 0x86d8730a"
  "Hash ''cnt_asimdmisc_r'' = 0x1c237caf"
  "Hash ''sqabs_asimdmisc_r'' = 0xe0ff845d"
  "Hash ''sqneg_asimdmisc_r'' = 0x8204d083"
  "Hash ''cmgt_asimdmisc_z'' = 0x7d158bd4"
  "Hash ''cmge_asimdmisc_z'' = 0x708f0767"
  "Hash ''cmeq_asimdmisc_z'' = 0x6809abf3"
  "Hash ''cmle_asimdmisc_z'' = 0x459f73f8"
  "Hash ''cmlt_asimdmisc_z'' = 0xb385994d"
  "Hash ''abs_asimdmisc_r'' = 0x1929f821"
  "Hash ''neg_asimdmisc_r'' = 0x5bb02d3d"
  "Hash ''xtn_asimdmisc_n'' = 0x053b3102"
  "Hash ''sqxtn_asimdmisc_n'' = 0x8edf81d0"
  "Hash ''uqxtn_asimdmisc_n'' = 0xd5a173d5"
  "Hash ''sqxtun_asimdmisc_n'' = 0x23153101"
  "Hash ''saddlp_asimdmisc_p'' = 0xd3e2d4f7"
  "Hash ''uaddlp_asimdmisc_p'' = 0xd279dae8"
  "Hash ''sadalp_asimdmisc_p'' = 0x040771d1"
  "Hash ''uadalp_asimdmisc_p'' = 0x040ed488"
  "Hash ''not_asimdmisc_r'' = 0xb0993e14"
  "Hash ''rbit_asimdmisc_r'' = 0x045bdca9"
  "Hash ''shll_asimdmisc_s'' = 0x2eada27f"
  by (simp_all add: Hash_steps hash_shl_def hash_shr_def del: Hash_from.simps)

lemma form_switch_found:
  assumes "form_hash s = Hash name" "(name, vf, op) \<in> set table" "distinct (map (Hash \<circ> fst) table)"
  shows "form_switch dbg table s = vector_op dbg vf op s"
proof -
  have "List.find (\<lambda>(name, e). Hash name = form_hash s) table = Some (name, vf, op)"
    using assms(2,3)
  proof (induction table)
    case (Cons x xs)
    show ?case
    proof (cases "x = (name, vf, op)")
      case False
      then have "(name, vf, op) \<in> set xs" using Cons.prems by auto
      moreover from this have "Hash (fst x) \<noteq> Hash name" using Cons.prems(2) by force
      ultimately show ?thesis using Cons assms(1) by (simp add: case_prod_beta)
    qed (use assms(1) in simp)
  qed simp
  then show ?thesis by (simp add: form_switch_def)
qed

lemma misc_hashes_distinct: "distinct (map (Hash \<circ> fst) (neon_2reg_misc_table vf vf_lp vf_log vf_long is_q rd rn))"
  by (simp add: neon_2reg_misc_table_def misc_hashes)

text \<open>The functions of a wide lane: \<open>w\<close> is the size of the narrow one.\<close>

definition neon_narrow_spec :: "nat \<Rightarrow> (string \<times> (int \<Rightarrow> int)) list" where
  "neon_narrow_spec w =
     [(''xtn_asimdmisc_n'', \<lambda>a. a),
      (''sqxtn_asimdmisc_n'', \<lambda>a. sclamp w (sread (2 * w) a)),
      (''uqxtn_asimdmisc_n'', \<lambda>a. uclamp w a),
      (''sqxtun_asimdmisc_n'', \<lambda>a. uclamp w (sread (2 * w) a))]"

lemma bits_below_eq:
  assumes "has_lanes vf" "k < n * lw vf" "\<And>i. i < n \<Longrightarrow> LUint vf B r i = LUint vf B' r i"
  shows "bit (B r) k = bit (B' r) k"
proof -
  have w: "0 < lw vf" by (rule lw_bounds [OF assms(1)])
  have "k div lw vf < n" using assms(2) by (simp add: less_mult_imp_div_less)
  from assms(3) [OF this] have "bit (LUint vf B r (k div lw vf)) (k mod lw vf) = bit (LUint vf B' r (k div lw vf)) (k mod lw vf)"
    by simp
  then show ?thesis using assms(1) w by (simp add: bit_LUint)
qed

lemma narrow_counts:
  assumes "narrow_format vf"
  shows "LaneCount (narrow_source vf) = 64 div lw vf" "narrow_offset vf = (if second_half vf then 64 div lw vf else 0)"
    "second_half vf \<Longrightarrow> 64 = narrow_offset vf * lw vf" "second_half vf \<longleftrightarrow> vf \<in> {kFormat16B, kFormat8H, kFormat4S}"
  using assms
  by (auto simp: narrow_format_def narrow_source_def second_half_def narrow_offset_def LaneCount_def)

lemma narrows_result:
  assumes nf: "narrow_format vf" and h: "narrows vf (VReg d) (VReg n) (op (bank_of s)) h (bank_of s)"
    and s': "s' = run_bank op s"
  shows "s' = s\<lparr>vregs := (vregs s)(d := vregs s' d)\<rparr> \<and>
    (let w = LaneSizeInBitsFromFormat vf; second = (vf \<in> {kFormat16B, kFormat8H, kFormat4S}) in
      (\<forall>i < 64 div w. lane_int w (vregs s' d) ((if second then 64 div w else 0) + i) =
         h (lane_int (2 * w) (vregs s n) i) mod 2 ^ w) \<and>
      (if second then take_bit 64 (vregs s' d) = take_bit 64 (vregs s d) else drop_bit 64 (vregs s' d) = 0))"
proof -
  note nn = narrow_formats [OF nf] and c = narrow_counts [OF nf] and f = neon_formatD [OF narrow_formats(1) [OF nf]]
  have "s' = s\<lparr>vregs := (vregs s)(d := vregs s' d)\<rparr>"
    unfolding s' using h by (intro run_bank_frame) (simp add: narrows_def)
  moreover have "lane_int (lw vf) (vregs s' d) (narrow_offset vf + i) = h (lane_int (2 * lw vf) (vregs s n) i) mod 2 ^ lw vf"
    if "i < 64 div lw vf" for i
    using h that c(1) by (simp add: narrows_def s' run_bank_vregs ulane_lane_int f nn)
  moreover have "take_bit 64 (vregs s' d) = take_bit 64 (vregs s d)" if sh: "second_half vf"
  proof (rule bit_word_eqI)
    fix k
    have "bit (snd (op (bank_of s)) (VReg d)) k = bit (bank_of s (VReg d)) k" if "k < 64"
      using h that c(3) [OF sh] by (intro bits_below_eq [OF f(1), of _ "narrow_offset vf"]) (simp_all add: narrows_def)
    then show "bit (take_bit 64 (vregs s' d)) k = bit (take_bit 64 (vregs s d)) k"
      by (auto simp: bit_take_bit_iff s' run_bank_vregs)
  qed
  moreover have "drop_bit 64 (vregs s' d) = 0" if "\<not> second_half vf"
    using h that by (intro bit_word_eqI) (simp add: narrows_def s' run_bank_vregs bit_drop_bit_eq)
  ultimately show ?thesis using c(2,4) by (simp add: Let_def)
qed

lemma integer_narrow_formats:
  "GetVectorFormat bits IntegerFormatMap \<notin> {kFormatUndefined, kFormat2D} \<Longrightarrow>
    narrow_format (GetVectorFormat bits IntegerFormatMap)"
proof -
  have "GetVectorFormat bits IntegerFormatMap \<in> insert kFormatUndefined (set (snd IntegerFormatMap))"
    by (auto simp: GetVectorFormat_def Let_def)
  then show "GetVectorFormat bits IntegerFormatMap \<notin> {kFormatUndefined, kFormat2D} \<Longrightarrow>
      narrow_format (GetVectorFormat bits IntegerFormatMap)"
    by (auto simp: IntegerFormatMap_def narrow_format_def)
qed

text \<open>The entries of the class's table that narrow.\<close>

inductive narrow_entry :: "VectorFormat \<Rightarrow> vref \<Rightarrow> vref \<Rightarrow> string \<Rightarrow> (vbank \<Rightarrow> vstate) \<Rightarrow> bool" for vf rd rn where
  "narrow_entry vf rd rn ''xtn_asimdmisc_n'' (xtn_v vf (LogicV rd) rn)"
| "narrow_entry vf rd rn ''sqxtn_asimdmisc_n'' (sqxtn_v vf (LogicV rd) rn)"
| "narrow_entry vf rd rn ''uqxtn_asimdmisc_n'' (uqxtn_v vf (LogicV rd) rn)"
| "narrow_entry vf rd rn ''sqxtun_asimdmisc_n'' (sqxtun_v vf (LogicV rd) rn)"

lemma narrow_entry_table:
  "narrow_entry vf rd rn name op \<Longrightarrow> (name, vf, op) \<in> set (neon_2reg_misc_table vf vp vl vg q rd rn)"
  unfolding neon_2reg_misc_table_def
  by (erule narrow_entry.cases; hypsubst; (rule list.set_intros(1) | rule list.set_intros(2))+)

lemma narrow_entry_narrows:
  assumes "(name, h) \<in> set (neon_narrow_spec (lw vf))" and nf: "narrow_format vf" and ne: "rd \<noteq> rn"
  shows "\<exists>op. narrow_entry vf rd rn name op \<and> (\<forall>B. narrows vf rd rn (op B) h B)"
proof -
  note r = xtn_narrows [OF nf ne] qxtn_narrows [OF nf ne, unfolded narrow_formats(4) [OF nf]]
  have "(name = ''xtn_asimdmisc_n'' \<and> h = (\<lambda>a. a)) \<or>
      (name = ''sqxtn_asimdmisc_n'' \<and> h = (\<lambda>a. sclamp (lw vf) (sread (2 * lw vf) a))) \<or>
      (name = ''uqxtn_asimdmisc_n'' \<and> h = (\<lambda>a. uclamp (lw vf) a)) \<or>
      (name = ''sqxtun_asimdmisc_n'' \<and> h = (\<lambda>a. uclamp (lw vf) (sread (2 * lw vf) a)))"
    using assms(1) by (simp only: neon_narrow_spec_def list.set insert_iff empty_iff prod.inject simp_thms)
  then show ?thesis
  proof (elim disjE conjE)
    assume "name = ''xtn_asimdmisc_n''" "h = (\<lambda>a. a)"
    then show ?thesis using r(1) narrow_entry.intros(1) by (intro exI [of _ "xtn_v vf (LogicV rd) rn"]) simp
  next
    assume "name = ''sqxtn_asimdmisc_n''" "h = (\<lambda>a. sclamp (lw vf) (sread (2 * lw vf) a))"
    then show ?thesis using r(2) narrow_entry.intros(2) by (intro exI [of _ "sqxtn_v vf (LogicV rd) rn"]) simp
  next
    assume "name = ''uqxtn_asimdmisc_n''" "h = (\<lambda>a. uclamp (lw vf) a)"
    then show ?thesis using r(4) narrow_entry.intros(3) by (intro exI [of _ "uqxtn_v vf (LogicV rd) rn"]) simp
  next
    assume "name = ''sqxtun_asimdmisc_n''" "h = (\<lambda>a. uclamp (lw vf) (sread (2 * lw vf) a))"
    then show ?thesis using r(3) narrow_entry.intros(4) by (intro exI [of _ "sqxtun_v vf (LogicV rd) rn"]) simp
  qed
qed

text \<open>C14: XTN, SQXTN, UQXTN and SQXTUN with different source and destination registers write the narrowed
  or clamped wide lanes to the half they name; the first form clears the upper half, the second one keeps
  the lower half.\<close>

theorem neon_narrow_distinct:
  fixes s :: "'v vsim"
  assumes "form_hash s = Hash name" "map_of (neon_narrow_spec (LaneSizeInBitsFromFormat vf)) name = Some h"
    and "vf = GetVectorFormat (insn_bits instr) IntegerFormatMap" "vf \<noteq> kFormatUndefined" "vf \<noteq> kFormat2D"
    and "d = unat (GetRd (insn_bits instr))" "n = unat (GetRn (insn_bits instr))" "d \<noteq> n"
  shows "\<exists>s'. VisitNEON2RegMisc dbg instr s = Inr s' \<and>
    s' = s\<lparr>vregs := (vregs s)(d := vregs s' d)\<rparr> \<and>
    (let w = LaneSizeInBitsFromFormat vf; second = (vf \<in> {kFormat16B, kFormat8H, kFormat4S}) in
      (\<forall>i < 64 div w. lane_int w (vregs s' d) ((if second then 64 div w else 0) + i) =
         h (lane_int (2 * w) (vregs s n) i) mod 2 ^ w) \<and>
      (if second then take_bit 64 (vregs s' d) = take_bit 64 (vregs s d) else drop_bit 64 (vregs s' d) = 0))"
proof -
  have nf: "narrow_format vf" using integer_narrow_formats assms(3-5) by simp
  have ne: "VReg d \<noteq> VReg n" using assms(8) by simp
  obtain op where mem: "narrow_entry vf (VReg d) (VReg n) name op"
      "narrows vf (VReg d) (VReg n) (op (bank_of s)) h (bank_of s)"
    using narrow_entry_narrows [OF map_of_SomeD [OF assms(2)] nf ne] by blast
  have "VisitNEON2RegMisc dbg instr s = Inr (run_bank op s)"
    unfolding VisitNEON2RegMisc_def Let_def assms(3,6,7) [symmetric]
    using form_switch_found [OF assms(1) narrow_entry_table [OF mem(1)] misc_hashes_distinct] assms(4) by (simp add: vector_op_def)
  with narrows_result [where op = op and s' = "run_bank op s", OF nf mem(2)] show ?thesis by blast
qed

section \<open>Narrowing into the second half in place\<close>

text \<open>
  With \<open>rd = rn\<close> each step of \<open>XTN2\<close> on bytes reads the half-word lane \<open>i\<close> of the register
  that the steps before it have written, and writes its low byte to byte \<open>8 + i\<close>.
\<close>

lemma xtn2_step_bits:
  assumes "lv_register d = r" "i < 8" "k < 128"
  shows "bit (snd (extractnarrow_lane kFormat16B kFormat8H 8 True r True i (d, B)) r) k \<longleftrightarrow>
      (if 64 + 8 * i \<le> k \<and> k < 72 + 8 * i then bit (B r) (16 * i + (k - 64 - 8 * i)) else bit (B r) k)"
    "lv_register (fst (extractnarrow_lane kFormat16B kFormat8H 8 True r True i (d, B))) = r"
proof -
  let ?v = "sext kFormat8H (LUint kFormat8H B r i) AND MaxUintFromFormat kFormat16B"
  have b: "extractnarrow_lane kFormat16B kFormat8H 8 True r True i (d, B) =
      put_lane kFormat16B (8 + i) (narrow_step kFormat16B kFormat8H True (LUint kFormat8H B r i) (lane_of kFormat16B (d, B) (8 + i))) (d, B)"
    by (simp add: extractnarrow_loop.body_is_put)
  have v: "bit ?v j \<longleftrightarrow> bit (B r) (16 * i + j)" if "j < 8" for j
    using that
    by (simp add: bit_and_iff sext_def bit_signed_take_bit_iff bit_LUint MaxUintFromFormat_def GetUintMask_eq_mask
        bit_mask_iff min_def mult.commute)
  have s: "snd (extractnarrow_lane kFormat16B kFormat8H 8 True r True i (d, B)) r = InsertLane 8 (8 + i) ?v (B r)"
    unfolding b by (simp add: put_lane_def narrow_step_def lane_of_def Let_def SetUint_def assms(1))
  have "bit (InsertLane 8 (8 + i) ?v (B r)) k \<longleftrightarrow>
      (if 64 + 8 * i \<le> k \<and> k < 72 + 8 * i then bit ?v (k - (64 + 8 * i)) else bit (B r) k)"
    using assms(2,3) bit_InsertLane [of 8 "8 + i" ?v "B r" k] by (auto simp: algebra_simps)
  then show "bit (snd (extractnarrow_lane kFormat16B kFormat8H 8 True r True i (d, B)) r) k \<longleftrightarrow>
      (if 64 + 8 * i \<le> k \<and> k < 72 + 8 * i then bit (B r) (16 * i + (k - 64 - 8 * i)) else bit (B r) k)"
    unfolding s using v [of "k - (64 + 8 * i)"] by (auto simp: diff_diff_left)
  show "lv_register (fst (extractnarrow_lane kFormat16B kFormat8H 8 True r True i (d, B))) = r"
    unfolding b by (simp add: put_lane_def narrow_step_def Let_def case_prod_beta assms(1))
qed

lemma xtn2_loop_bits:
  assumes "j < 8"
  shows "bit (snd (for_lanes 8 (extractnarrow_lane kFormat16B kFormat8H 8 True r True) (LogicV r, B)) r) (96 + j) = bit (B r) j"
proof -
  define st where "st i = for_lanes i (extractnarrow_lane kFormat16B kFormat8H 8 True r True) (LogicV r, B)" for i
  have reg: "lv_register (fst (st i)) = r" for i
    by (simp add: st_def extractnarrow_loop.register_kept)
  have step: "bit (snd (st (Suc i)) r) k \<longleftrightarrow>
      (if 64 + 8 * i \<le> k \<and> k < 72 + 8 * i then bit (snd (st i) r) (16 * i + (k - 64 - 8 * i)) else bit (snd (st i) r) k)"
    if "i < 8" "k < 128" for i k
    using xtn2_step_bits(1) [OF reg [of i] that, where B = "snd (st i)"] by (simp add: st_def)
  have "bit (snd (st (4 + 4)) r) (96 + j) = bit (snd (st 5) r) (96 + j)"
    using assms step [of 7 "96 + j"] step [of 6 "96 + j"] step [of 5 "96 + j"] by (simp add: eval_nat_numeral)
  also have "\<dots> = bit (snd (st 4) r) (64 + j)" using assms step [of 4 "96 + j"] by simp
  also have "\<dots> = bit (snd (st 1) r) (64 + j)"
    using assms step [of 3 "64 + j"] step [of 2 "64 + j"] step [of 1 "64 + j"] by (simp add: eval_nat_numeral)
  also have "\<dots> = bit (snd (st 0) r) j" using assms step [of 0 "64 + j"] by simp
  finally show ?thesis by (simp add: st_def)
qed

lemma bit_lane_int: "bit (lane_int w x i) j \<longleftrightarrow> j < w \<and> bit x (i * w + j)"
proof -
  have "lane_int w x i = take_bit w (drop_bit (i * w) (uint x))"
    by (simp only: lane_int_def take_bit_eq_mod drop_bit_eq_div)
  then show ?thesis by (auto simp: bit_take_bit_iff bit_drop_bit_eq bit_uint_iff dest: bit_imp_le_length)
qed

text \<open>C36: \<open>XTN2\<close> with the same source and destination register does not narrow the register it was
  given: \<open>extractnarrow\<close> copies the reference to its source, not the register, so the later lanes are
  read after the earlier results overwrote them.  Byte 12 of the result is the narrowed lane 0, where the
  instruction has the narrowed lane 4.\<close>

theorem xtn2_in_place_reads_its_result:
  assumes "form_hash s = Hash ''xtn_asimdmisc_n''"
    and "GetVectorFormat (insn_bits instr) IntegerFormatMap = kFormat16B"
    and "d = unat (GetRd (insn_bits instr))" "d = unat (GetRn (insn_bits instr))"
  shows "\<exists>s'. VisitNEON2RegMisc dbg instr s = Inr s' \<and>
    lane_int 8 (vregs s' d) 12 = lane_int 8 (vregs s d) 0"
proof -
  let ?op = "xtn_v kFormat16B (LogicV (VReg d)) (VReg d)"
  have "VisitNEON2RegMisc dbg instr s = Inr (run_bank ?op s)"
    unfolding VisitNEON2RegMisc_def Let_def assms(2) assms(3,4) [symmetric]
    using form_switch_found [OF assms(1) narrow_entry_table [OF narrow_entry.intros(1)] misc_hashes_distinct]
    by (simp add: vector_op_def)
  moreover have "lane_int 8 (vregs (run_bank ?op s) d) 12 = lane_int 8 (vregs s d) 0"
  proof (rule bit_eqI)
    fix j
    have src: "LaneCount kFormat8H = 8" "LaneCount kFormat16B div 2 = 8" by (simp_all add: LaneCount_def)
    have "bit (vregs (run_bank ?op s) d) (96 + j) = bit (vregs s d) j" if "j < 8"
    proof -
      let ?st = "for_lanes 8 (extractnarrow_lane kFormat16B kFormat8H 8 True (VReg d) True) (LogicV (VReg d), bank_of s)"
      have "vregs (run_bank ?op s) d = ClearForWrite kFormat16B (VReg d) (snd ?st) (VReg d)"
        using extractnarrow_loop.register_kept [of kFormat16B 8 kFormat8H 8 True "VReg d" True "(LogicV (VReg d), bank_of s)"]
        by (simp add: run_bank_vregs xtn_v_def extractnarrow_v_def Let_def src case_prod_beta)
      then show ?thesis using xtn2_loop_bits [OF that, of "VReg d" "bank_of s"] that by (simp add: bit_ClearForWrite)
    qed
    then show "bit (lane_int 8 (vregs (run_bank ?op s) d) 12) j = bit (lane_int 8 (vregs s d) 0) j"
      by (auto simp: bit_lane_int)
  qed
  ultimately show ?thesis by blast
qed

end
