(* ===== verification/Struct_Contracts.thy ===== *)
theory Struct_Contracts
  imports Sim_Neon_Memory Neon_Narrow
begin

text \<open>
  Structured loads and stores: the element at position \<open>e\<close> of the memory of an instruction
  with \<open>n\<close> registers is lane \<open>e div n\<close> of register \<open>e mod n\<close>.  What a store leaves
  in memory, what a load leaves in the registers, and that a load undoes a store.
\<close>

section \<open>Steps in order\<close>

lemma in_order_append: "in_order step (xs @ ys) s = and_then (in_order step xs s) (in_order step ys)"
proof (induction xs arbitrary: s)
  case (Cons x xs)
  then show ?case by (cases "step x s") simp_all
qed simp

lemma in_order_single [simp]: "in_order step [x] = step x"
proof
  fix s show "in_order step [x] s = step x s" by (cases "step x s") simp_all
qed

lemma in_order_map: "in_order step (map f xs) s = in_order (\<lambda>x. step (f x)) xs s"
proof (induction xs arbitrary: s)
  case (Cons x xs)
  then show ?case by (cases "step (f x) s") simp_all
qed simp

lemma in_order_nested:
  "in_order (\<lambda>i. in_order (\<lambda>k. step (i * n + k)) [0..<n]) [0..<m] s = in_order step [0..<m * n] s"
proof (induction m)
  case (Suc m)
  have split: "[0..<Suc m * n] = [0..<m * n] @ map (\<lambda>k. m * n + k) [0..<n]"
    using upt_add_eq_append [of 0 "m * n" n] map_add_upt [of "m * n" n] by (simp add: add.commute)
  show ?case
    unfolding split in_order_append in_order_map using Suc.IH by (simp add: in_order_append)
qed simp

section \<open>Elements\<close>

text \<open>The address of an element, and a load or store of one.\<close>

definition element_at :: "VectorFormat \<Rightarrow> u64 \<Rightarrow> nat \<Rightarrow> u64" where
  "element_at vf addr e = addr + of_nat (e * LaneSizeInBytesFromFormat vf)"

lemma load_lane_struct_elements:
  assumes "length regs = n"
  shows "load_lane_struct vf True regs addr i s =
    in_order (\<lambda>k. LoadLane (regs ! k) vf i (element_at vf addr (i * n + k))) [0..<n] s"
  by (simp add: load_lane_struct_def lane_accesses_def Let_def in_order_map assms element_at_def
      distrib_right add.assoc del: in_order.simps)

lemma store_lane_struct_elements:
  assumes "length regs = n"
  shows "store_lane_struct vf regs addr i s =
    in_order (\<lambda>k. StoreLane (regs ! k) vf i (element_at vf addr (i * n + k))) [0..<n] s"
  by (simp add: store_lane_struct_def lane_accesses_def Let_def in_order_map assms element_at_def
      distrib_right add.assoc del: in_order.simps)

lemma in_order_cong:
  "(\<And>x s. x \<in> set xs \<Longrightarrow> f x s = g x s) \<Longrightarrow> in_order f xs s = in_order g xs s"
proof (induction xs arbitrary: s)
  case (Cons x xs)
  then show ?case by (cases "g x s") simp_all
qed simp

lemma element_split: "k < n \<Longrightarrow> (i * n + k) div n = i" "k < n \<Longrightarrow> (i * n + k) mod n = k" for k n i :: nat
  by simp_all

definition load_element :: "VectorFormat \<Rightarrow> nat list \<Rightarrow> u64 \<Rightarrow> nat \<Rightarrow> 'v vsim \<Rightarrow> abort + 'v vsim" where
  "load_element vf regs addr e =
     LoadLane (regs ! (e mod length regs)) vf (e div length regs) (element_at vf addr e)"

definition store_element :: "VectorFormat \<Rightarrow> nat list \<Rightarrow> u64 \<Rightarrow> nat \<Rightarrow> 'v vsim \<Rightarrow> abort + 'v vsim" where
  "store_element vf regs addr e =
     StoreLane (regs ! (e mod length regs)) vf (e div length regs) (element_at vf addr e)"

lemma ldn_elements:
  "ldn vf regs addr s =
    in_order (load_element vf regs addr) [0..<LaneCount vf * length regs] (clear_all vf regs s)"
proof -
  have "in_order (load_lane_struct vf True regs addr) [0..<LaneCount vf] t =
      in_order (\<lambda>i. in_order (\<lambda>k. load_element vf regs addr (i * length regs + k)) [0..<length regs]) [0..<LaneCount vf] t" for t
    by (intro in_order_cong) (auto simp: load_lane_struct_elements [OF refl] load_element_def element_split intro!: in_order_cong)
  then show ?thesis by (simp add: ldn_def in_order_nested)
qed

lemma stn_elements:
  "stn vf regs addr s = in_order (store_element vf regs addr) [0..<LaneCount vf * length regs] s"
proof -
  have "in_order (store_lane_struct vf regs addr) [0..<LaneCount vf] t =
      in_order (\<lambda>i. in_order (\<lambda>k. store_element vf regs addr (i * length regs + k)) [0..<length regs]) [0..<LaneCount vf] t" for t
    by (intro in_order_cong) (auto simp: store_lane_struct_elements [OF refl] store_element_def element_split intro!: in_order_cong)
  then show ?thesis by (simp add: stn_def in_order_nested)
qed

section \<open>Loads\<close>

lemma lane_bytes:
  assumes "has_lanes vf"
  shows "LaneSizeInBytesFromFormat vf \<in> {1, 2, 4, 8}" "8 * LaneSizeInBytesFromFormat vf = lw vf"
  using assms by (auto simp: has_lanes_def LaneSizeInBytesFromFormat_def)

lemma on_bank_SetUint:
  assumes "has_lanes vf"
  shows "on_bank (SetUint vf (VReg r) i v) s = s\<lparr>vregs := (vregs s)(r := InsertLane (lw vf) i v (vregs s r))\<rparr>"
proof -
  have "(\<lambda>n. SetUint vf (VReg r) i v (bank_of s) (VReg n)) = (vregs s)(r := InsertLane (lw vf) i v (vregs s r))"
    using assms by (auto simp: SetUint_def)
  then show ?thesis by (simp add: on_bank_def)
qed

lemma LUint_bank: "has_lanes vf \<Longrightarrow> LUint vf (bank_of s) (VReg r) i = GetLane (lw vf) i (vregs s r)"
  by (simp add: LUint_def)

lemma LoadLane_result:
  assumes "has_lanes vf" "access_checks StackGuardRead a (LaneSizeInBytesFromFormat vf) s = Inr ()"
  shows "LoadLane r vf i a s = Inr (s\<lparr>vregs := (vregs s)(r := InsertLane (lw vf) i
    (read_mem (memory s) (AddressUntag a) (LaneSizeInBytesFromFormat vf)) (vregs s r))\<rparr>)"
  using assms lane_bytes(1) [OF assms(1)]
  by (simp add: LoadLane_def LoadUintToLane_def MemReadUint_def MemRead_def on_bank_SetUint)

text \<open>The vector registers after the first \<open>m\<close> elements, with the value of each.\<close>

definition loaded ::
  "VectorFormat \<Rightarrow> nat list \<Rightarrow> (nat \<Rightarrow> u64) \<Rightarrow> nat \<Rightarrow> (nat \<Rightarrow> u128) \<Rightarrow> (nat \<Rightarrow> u128)" where
  "loaded vf regs val m V =
     fold (\<lambda>e V. V(regs ! (e mod length regs) :=
       InsertLane (lw vf) (e div length regs) (val e) (V (regs ! (e mod length regs))))) [0..<m] V"

lemma loaded_0 [simp]: "loaded vf regs val 0 V = V"
  by (simp add: loaded_def)

lemma loaded_Suc:
  "loaded vf regs val (Suc m) V = (loaded vf regs val m V)(regs ! (m mod length regs) :=
     InsertLane (lw vf) (m div length regs) (val m) (loaded vf regs val m V (regs ! (m mod length regs))))"
  by (simp add: loaded_def)

definition element_in :: "VectorFormat \<Rightarrow> u64 \<Rightarrow> (u64 \<Rightarrow> u8) \<Rightarrow> nat \<Rightarrow> u64" where
  "element_in vf addr mem e = read_mem mem (AddressUntag (element_at vf addr e)) (LaneSizeInBytesFromFormat vf)"

lemma load_elements:
  assumes f: "has_lanes vf"
    and ok: "\<And>e. e < m \<Longrightarrow> access_checks StackGuardRead (element_at vf addr e) (LaneSizeInBytesFromFormat vf) s = Inr ()"
  shows "in_order (load_element vf regs addr) [0..<m] s =
    Inr (s\<lparr>vregs := loaded vf regs (element_in vf addr (memory s)) m (vregs s)\<rparr>)"
  using ok
proof (induction m)
  case (Suc m)
  let ?s = "s\<lparr>vregs := loaded vf regs (element_in vf addr (memory s)) m (vregs s)\<rparr>"
  have "access_checks StackGuardRead (element_at vf addr m) (LaneSizeInBytesFromFormat vf) ?s = Inr ()"
    using Suc.prems [of m] by (simp cong: access_checks_cong)
  then have "load_element vf regs addr m ?s =
      Inr (s\<lparr>vregs := loaded vf regs (element_in vf addr (memory s)) (Suc m) (vregs s)\<rparr>)"
    by (simp add: load_element_def LoadLane_result [OF f] loaded_Suc element_in_def)
  with Suc show ?case by (simp add: in_order_append)
qed simp

lemma element_lane:
  assumes "e < m * n"
  shows "e div n < (m :: nat)" "e mod n < n"
proof -
  have "0 < n" using assms by (cases n) simp_all
  then show "e div n < m" "e mod n < n" using assms by (simp_all add: less_mult_imp_div_less)
qed

lemma loaded_lanes:
  assumes f: "has_lanes vf" and d: "distinct regs" and m: "m \<le> LaneCount vf * length regs" and e: "e < m"
  shows "GetLane (lw vf) (e div length regs) (loaded vf regs val m V (regs ! (e mod length regs))) =
    take_bit (lw vf) (val e)"
  using m e
proof (induction m)
  case (Suc m)
  let ?n = "length regs" and ?L = "loaded vf regs val m V"
  have mm: "m div ?n < LaneCount vf" "m mod ?n < ?n" using element_lane [of m "LaneCount vf" ?n] Suc.prems by simp_all
  note w = has_lanes_le [OF f] lane_fits [OF f mm(1)]
  show ?case
  proof (cases "e = m")
    case True
    then show ?thesis by (simp add: loaded_Suc GetLane_InsertLane_same w)
  next
    case False
    with Suc have IH: "GetLane (lw vf) (e div ?n) (?L (regs ! (e mod ?n))) = take_bit (lw vf) (val e)" by simp
    show ?thesis
    proof (cases "regs ! (e mod ?n) = regs ! (m mod ?n)")
      case True
      have "e mod ?n < ?n" using Suc.prems by (intro element_lane(2) [of e "LaneCount vf"]) simp
      then have "e mod ?n = m mod ?n" using d mm(2) True by (simp add: nth_eq_iff_index_eq)
      with False have "e div ?n \<noteq> m div ?n" by (metis div_mod_decomp)
      then show ?thesis using IH True by (simp add: loaded_Suc GetLane_InsertLane_other w)
    next
      case False
      then show ?thesis using IH by (simp add: loaded_Suc)
    qed
  qed
qed simp

lemma loaded_other: "r \<notin> set regs \<Longrightarrow> regs \<noteq> [] \<Longrightarrow> loaded vf regs val m V r = V r"
proof (induction m)
  case (Suc m)
  then have "regs ! (m mod length regs) \<in> set regs" by simp
  with Suc show ?case by (auto simp: loaded_Suc)
qed simp

lemma loaded_above:
  assumes "has_lanes vf" "m \<le> LaneCount vf * length regs" "LaneCount vf * lw vf \<le> k"
  shows "bit (loaded vf regs val m V r) k = bit (V r) k"
  using assms(2)
proof (induction m)
  case (Suc m)
  have "m div length regs < LaneCount vf" using element_lane [of m "LaneCount vf" "length regs"] Suc.prems by simp
  from lane_bit_below [OF this, of _ "lw vf"] assms(3)
  have "\<not> k < m div length regs * lw vf + lw vf"
    using lane_fits [OF assms(1)] by (metis Suc_leI \<open>m div length regs < LaneCount vf\<close> add.commute le_trans linorder_not_less mult_Suc mult_le_mono1)
  with Suc show ?case
    by (auto simp: loaded_Suc bit_InsertLane has_lanes_le [OF assms(1)] dest: bit_imp_le_length)
qed simp

lemma clear_all_frame:
  "\<exists>V. clear_all vf regs s = s\<lparr>vregs := V\<rparr> \<and>
    (\<forall>r. V r = (if r \<in> set regs \<and> \<not> IsSVEFormat vf then take_bit (RegisterSizeInBitsFromFormat vf) (vregs s r) else vregs s r))"
proof (induction regs arbitrary: s)
  case Nil
  show ?case by (intro exI [of _ "vregs s"]) (simp add: clear_all_def)
next
  case (Cons r regs)
  let ?s = "on_bank (ClearForWrite vf (VReg r)) s"
  obtain V where V: "clear_all vf regs ?s = ?s\<lparr>vregs := V\<rparr>"
    "\<And>q. V q = (if q \<in> set regs \<and> \<not> IsSVEFormat vf then take_bit (RegisterSizeInBitsFromFormat vf) (vregs ?s q) else vregs ?s q)"
    using Cons.IH [of ?s] by blast
  have c: "clear_all vf (r # regs) s = clear_all vf regs ?s" by (simp add: clear_all_def)
  have v: "vregs ?s q = (if q = r \<and> \<not> IsSVEFormat vf then take_bit (RegisterSizeInBitsFromFormat vf) (vregs s q) else vregs s q)" for q
    by (simp add: on_bank_def ClearForWrite_def ClearTail_def register_size_bytes)
  have "clear_all vf regs ?s = s\<lparr>vregs := V\<rparr>" unfolding V(1) by (simp add: on_bank_def)
  moreover have "\<forall>q. V q = (if q \<in> set (r # regs) \<and> \<not> IsSVEFormat vf
      then take_bit (RegisterSizeInBitsFromFormat vf) (vregs s q) else vregs s q)"
    by (simp add: V(2) v)
  ultimately show ?case unfolding c by blast
qed

text \<open>
  The outcome of a load of structures: lane \<open>i\<close> of register \<open>k\<close> is element
  \<open>i * n + k\<close> of the memory, the rest of the registers is zero, nothing else changes.
\<close>

lemma ldn_result:
  assumes nf: "neon_format vf" and d: "distinct regs" "regs \<noteq> []"
    and ok: "\<And>e. e < LaneCount vf * length regs \<Longrightarrow>
      access_checks StackGuardRead (element_at vf addr e) (LaneSizeInBytesFromFormat vf) s = Inr ()"
  shows "\<exists>V. ldn vf regs addr s = Inr (s\<lparr>vregs := V\<rparr>) \<and>
    (\<forall>i < LaneCount vf. \<forall>k < length regs.
       GetLane (lw vf) i (V (regs ! k)) = take_bit (lw vf) (element_in vf addr (memory s) (i * length regs + k))) \<and>
    (\<forall>k < length regs. drop_bit (RegisterSizeInBitsFromFormat vf) (V (regs ! k)) = 0) \<and>
    (\<forall>r. r \<notin> set regs \<longrightarrow> V r = vregs s r)"
proof -
  note f = neon_formatD [OF nf]
  note w = lanes_are_register [OF f]
  obtain C where C: "clear_all vf regs s = s\<lparr>vregs := C\<rparr>"
    "\<And>r. C r = (if r \<in> set regs \<and> \<not> IsSVEFormat vf then take_bit (RegisterSizeInBitsFromFormat vf) (vregs s r) else vregs s r)"
    using clear_all_frame by blast
  let ?n = "length regs" and ?val = "element_in vf addr (memory s)"
  let ?V = "loaded vf regs ?val (LaneCount vf * ?n) C"
  have "ldn vf regs addr s = Inr (s\<lparr>vregs := ?V\<rparr>)"
    using load_elements [OF f(1), of "LaneCount vf * ?n" addr "s\<lparr>vregs := C\<rparr>" regs] ok
    by (simp add: ldn_elements C(1) cong: access_checks_cong)
  moreover have "GetLane (lw vf) i (?V (regs ! k)) = take_bit (lw vf) (?val (i * ?n + k))" if "i < LaneCount vf" "k < ?n" for i k
    using loaded_lanes [where val = ?val and V = C, OF f(1) d(1) order.refl lane_bit_below [OF that]] that(2) by (simp add: element_split)
  moreover have "drop_bit (RegisterSizeInBitsFromFormat vf) (?V (regs ! k)) = 0" if "k < ?n" for k
    using that f(2) loaded_above [OF f(1) order.refl, of _ regs ?val C "regs ! k"]
    by (intro bit_word_eqI) (simp add: bit_drop_bit_eq w C(2) bit_take_bit_iff)
  moreover have "?V r = vregs s r" if "r \<notin> set regs" for r
    using that d(2) by (simp add: loaded_other C(2))
  ultimately show ?thesis by (intro exI [of _ ?V]) blast
qed

section \<open>Stores\<close>

text \<open>Elements of one instruction do not overlap, also when the addresses wrap.\<close>

lemma uint_AddressUntag: "uint (AddressUntag a) = uint a mod 2 ^ 56"
proof -
  have "AddressUntag a = take_bit 56 a" by (rule bit_word_eqI) (auto simp: AddressUntag_bit bit_take_bit_iff)
  then show ?thesis unfolding take_bit_eq_mod [symmetric] by (simp only: unsigned_take_bit_eq)
qed

lemma far_apart:
  fixes x y :: u64
  assumes "n \<le> nat \<bar>uint x - uint y\<bar>" "j < n" "n \<le> 8" "uint x < 2 ^ 56" "uint y < 2 ^ 56"
  shows "n \<le> unat (x + of_nat j - y)"
proof -
  have "uint (x + of_nat j - y) = (uint x + int j - uint y) mod 2 ^ 64"
    using assms(2,3) by (simp add: uint_word_ariths unsigned_of_nat take_bit_eq_mod mod_simps)
  moreover have "int n \<le> (uint x + int j - uint y) mod 2 ^ 64"
  proof (cases "uint y \<le> uint x")
    case True
    have "uint x + int j - uint y < 2 ^ 56 + 8" using assms(2-4) uint_ge_0 [of y] by linarith
    then have "(uint x + int j - uint y) mod 2 ^ 64 = uint x + int j - uint y"
      using True by (intro mod_pos_pos_trivial) simp_all
    with True assms show ?thesis by simp
  next
    case False
    have l: "- (2 ^ 56) \<le> uint x + int j - uint y" using assms(5) uint_ge_0 [of x] by linarith
    then have p: "0 \<le> uint x + int j - uint y + 2 ^ 64" by simp
    have "(uint x + int j - uint y) mod 2 ^ 64 = (uint x + int j - uint y + 2 ^ 64) mod 2 ^ 64" by simp
    also have "\<dots> = uint x + int j - uint y + 2 ^ 64"
      using False assms(1-3) p by (intro mod_pos_pos_trivial) (simp_all add: nat_le_iff)
    finally show ?thesis using l assms(3) by simp
  qed
  ultimately show ?thesis by (simp add: unat_eq_nat_uint le_nat_iff)
qed

lemma mod_64_56: "(x + y mod 2 ^ 64) mod 2 ^ 56 = (x + y :: int) mod 2 ^ 56" "x mod 2 ^ 64 mod 2 ^ 56 = (x :: int) mod 2 ^ 56"
proof -
  show m: "x mod 2 ^ 64 mod 2 ^ 56 = x mod 2 ^ 56" for x :: int
    by (intro mod_mod_cancel le_imp_power_dvd) simp
  show "(x + y mod 2 ^ 64) mod 2 ^ 56 = (x + y) mod 2 ^ 56"
    by (subst mod_add_right_eq [symmetric], subst m, rule mod_add_right_eq)
qed

lemma uint_of_nat64: "uint (of_nat k :: u64) = int k mod 2 ^ 64"
  by (simp add: unsigned_of_nat take_bit_eq_mod zmod_int)

lemma len64: "LENGTH(64) = 64"
  by simp

lemma elements_apart:
  assumes f: "has_lanes vf" and e: "e \<noteq> e'" "e < 64" "e' < 64"
  shows "LaneSizeInBytesFromFormat vf \<le>
    nat \<bar>uint (AddressUntag (element_at vf a e)) - uint (AddressUntag (element_at vf a e'))\<bar>"
proof -
  define z where "z = int (LaneSizeInBytesFromFormat vf)"
  have z: "0 < z" "z \<le> 8" using lane_bytes(1) [OF f] by (auto simp: z_def)
  have u: "uint (AddressUntag (element_at vf a q)) = (uint a + int q * z) mod 2 ^ 56" for q
    unfolding uint_AddressUntag element_at_def z_def uint_word_ariths uint_of_nat64 by (simp only: len64 mod_64_56 of_nat_mult)
  define D where "D = uint (AddressUntag (element_at vf a e)) - uint (AddressUntag (element_at vf a e'))"
  have "D mod 2 ^ 56 = ((int e - int e') * z) mod 2 ^ 56"
    unfolding D_def u by (simp add: mod_simps algebra_simps)
  then obtain q where q: "D = (int e - int e') * z + 2 ^ 56 * q" by (metis mod_eqE mult.commute add.commute diff_eq_eq)
  have "\<bar>int e - int e'\<bar> \<le> 64" using e by simp
  then have "\<bar>int e - int e'\<bar> * z \<le> 64 * 8" using z by (intro mult_mono) simp_all
  moreover have "1 * z \<le> \<bar>int e - int e'\<bar> * z" using e z by (intro mult_right_mono) simp_all
  ultimately have b: "\<bar>(int e - int e') * z\<bar> \<le> 64 * 8" "z \<le> \<bar>(int e - int e') * z\<bar>"
    using z by (simp_all add: abs_mult)
  have "z \<le> \<bar>D\<bar>"
  proof (cases "q = 0")
    case True then show ?thesis using q b by simp
  next
    case False
    then have "(2 :: int) ^ 56 \<le> \<bar>2 ^ 56 * q\<bar>" by (simp add: abs_mult)
    moreover have "\<bar>2 ^ 56 * q\<bar> - \<bar>- ((int e - int e') * z)\<bar> \<le> \<bar>D\<bar>"
      using abs_triangle_ineq2 [of "2 ^ 56 * q" "- ((int e - int e') * z)"] q by (simp add: add.commute)
    ultimately have "2 ^ 56 - 64 * 8 \<le> \<bar>D\<bar>" using b(1) by (simp only: abs_minus_cancel)
    then show ?thesis using z by simp
  qed
  then show ?thesis by (simp add: z_def D_def nat_le_iff le_nat_iff)
qed

text \<open>The memory after the first \<open>m\<close> elements: each holds its lane.\<close>

lemma StoreLane_result:
  assumes f: "has_lanes vf" and st: "StoreLane r vf i a s = Inr s'"
  shows "access_checks StackGuardWrite a (LaneSizeInBytesFromFormat vf) s = Inr ()"
    "memory s' = write_mem (memory s) (AddressUntag a) (LaneSizeInBytesFromFormat vf) (GetLane (lw vf) i (vregs s r))"
    "vregs s' = vregs s" "xregs s' = xregs s" "stack s' = stack s" "mte_active s' = mte_active s" "mte_tags s' = mte_tags s"
proof -
  have w: "MemWrite (LaneSizeInBytesFromFormat vf) a (GetLane (lw vf) i (vregs s r)) s = Inr s'"
    using st lane_bytes(1) [OF f] by (simp add: StoreLane_def MemWriteSized_def LUint_bank [OF f])
  then show "access_checks StackGuardWrite a (LaneSizeInBytesFromFormat vf) s = Inr ()"
    by (auto simp: MemWrite_def Memory_Write_def)
  show "memory s' = write_mem (memory s) (AddressUntag a) (LaneSizeInBytesFromFormat vf) (GetLane (lw vf) i (vregs s r))"
    by (rule MemWrite_memory [OF w])
  show "vregs s' = vregs s" "xregs s' = xregs s" "stack s' = stack s" "mte_active s' = mte_active s" "mte_tags s' = mte_tags s"
    using MemWrite_frame [OF w] by simp_all
qed

lemma take_bit_GetLane: "n \<le> 64 \<Longrightarrow> take_bit n (GetLane n i x) = GetLane n i x"
  by (simp add: GetLane_def)

lemma store_elements:
  assumes f: "has_lanes vf" and m: "m \<le> 64"
    and st: "in_order (store_element vf regs addr) [0..<m] s = Inr s'"
  shows "vregs s' = vregs s \<and> xregs s' = xregs s \<and> stack s' = stack s \<and> mte_active s' = mte_active s \<and> mte_tags s' = mte_tags s \<and>
    (\<forall>e < m. access_checks StackGuardWrite (element_at vf addr e) (LaneSizeInBytesFromFormat vf) s = Inr () \<and>
      element_in vf addr (memory s') e = GetLane (lw vf) (e div length regs) (vregs s (regs ! (e mod length regs))))"
  using m st
proof (induction m arbitrary: s')
  case (Suc m)
  let ?z = "LaneSizeInBytesFromFormat vf"
  obtain t where t: "in_order (store_element vf regs addr) [0..<m] s = Inr t"
    and last: "store_element vf regs addr m t = Inr s'"
    using Suc.prems(2) by (auto simp: in_order_append)
  have m: "m \<le> 64" "m < 64" using Suc.prems(1) by simp_all
  note IH = Suc.IH [OF m(1) t]
  note r = StoreLane_result [OF f last [unfolded store_element_def]]
  note b = lane_bytes [OF f] has_lanes_le [OF f]
  have z: "?z \<le> 8" "?z \<le> 2 ^ 64" using b(1) by auto
  have same: "element_in vf addr (memory s') m = GetLane (lw vf) (m div length regs) (vregs s (regs ! (m mod length regs)))"
    unfolding element_in_def r(2) read_write_mem_same [OF z(2)] b(2) using IH by (simp add: take_bit_GetLane b(3))
  have other: "element_in vf addr (memory s') e = element_in vf addr (memory t) e" if "e < m" for e
    unfolding element_in_def r(2)
  proof (rule read_write_mem_other [OF z(2)])
    fix j assume j: "j < ?z"
    have e: "e \<noteq> m" "e < 64" using that m by simp_all
    show "?z \<le> unat (AddressUntag (element_at vf addr e) + of_nat j - AddressUntag (element_at vf addr m))"
      by (rule far_apart [OF elements_apart [OF f e m(2)] j z(1)]) (simp_all only: uint_AddressUntag pos_mod_bound zero_less_power zero_less_numeral)
  qed
  have "access_checks StackGuardWrite (element_at vf addr m) ?z s = Inr ()"
    using r(1) IH by (simp cong: access_checks_cong)
  with same other IH show ?case using r by (auto simp: less_Suc_eq)
qed simp

lemma store_elements_succeed:
  assumes f: "has_lanes vf" and m: "m \<le> 64"
    and ok: "\<And>e. e < m \<Longrightarrow> access_checks StackGuardWrite (element_at vf addr e) (LaneSizeInBytesFromFormat vf) s = Inr ()"
  shows "\<exists>s'. in_order (store_element vf regs addr) [0..<m] s = Inr s'"
  using m ok
proof (induction m)
  case (Suc m)
  then obtain t where t: "in_order (store_element vf regs addr) [0..<m] s = Inr t" by auto
  have "access_checks StackGuardWrite (element_at vf addr m) (LaneSizeInBytesFromFormat vf) t = Inr ()"
    using store_elements [OF f _ t] Suc.prems by (simp cong: access_checks_cong)
  then have "\<exists>s'. store_element vf regs addr m t = Inr s'"
    using lane_bytes(1) [OF f]
    by (simp add: store_element_def StoreLane_def MemWriteSized_def MemWrite_def Memory_Write_def)
  with t show ?case by (simp add: in_order_append)
qed simp

section \<open>The visitors\<close>

text \<open>The operations with structures of \<open>n\<close> registers: store, load and \<open>n\<close>.\<close>

definition struct_operations :: "(u32 \<times> u32 \<times> nat) list" where
  "struct_operations =
     [(NEON_ST1_1v, NEON_LD1_1v, 1), (NEON_ST2, NEON_LD2, 2), (NEON_ST3, NEON_LD3, 3), (NEON_ST4, NEON_LD4, 4)]"

lemma each_register_1: "each_register access vf bits addr 1 = access vf (struct_regs bits 1) addr"
  by (simp add: each_register_def struct_regs_def)

lemma multi_struct_keys: "distinct (map fst (multi_struct_table vf bits addr))"
  by (simp add: multi_struct_table_def)

lemma struct_table:
  assumes "(st, ld, n) \<in> set struct_operations"
  shows "map_of (multi_struct_table vf bits addr) st = Some (stn vf (struct_regs bits n) addr, n)"
    "map_of (multi_struct_table vf bits addr) ld = Some (ldn vf (struct_regs bits n) addr, n)"
    "0 < n" "n \<le> 4"
proof -
  have "\<forall>(st, ld, n) \<in> set struct_operations.
      (st, stn vf (struct_regs bits n) addr, n) \<in> set (multi_struct_table vf bits addr) \<and>
      (ld, ldn vf (struct_regs bits n) addr, n) \<in> set (multi_struct_table vf bits addr) \<and> 0 < n \<and> n \<le> 4"
    by (simp add: struct_operations_def multi_struct_table_def each_register_1 [unfolded One_nat_def])
  from bspec [OF this assms] show "map_of (multi_struct_table vf bits addr) st = Some (stn vf (struct_regs bits n) addr, n)"
    "map_of (multi_struct_table vf bits addr) ld = Some (ldn vf (struct_regs bits n) addr, n)" "0 < n" "n \<le> 4"
    by (auto intro!: map_of_is_SomeI [OF multi_struct_keys])
qed

lemma struct_regs_distinct: "n \<le> 4 \<Longrightarrow> distinct (struct_regs bits n)"
proof -
  have le: "i = j" if "i \<le> j" "j < 4" "struct_reg bits i = struct_reg bits j" for i j
  proof -
    have "32 dvd (rt_of bits + j) - (rt_of bits + i)"
      using that by (intro mod_eq_dvd_iff_nat [THEN iffD1]) (simp_all add: struct_reg_def)
    then show "i = j" using that by (auto dest: dvd_imp_le)
  qed
  have "i = j" if "i < 4" "j < 4" "struct_reg bits i = struct_reg bits j" for i j
    using le [of i j] le [of j i] that by (cases "i \<le> j") simp_all
  then show "n \<le> 4 \<Longrightarrow> distinct (struct_regs bits n)"
    by (auto simp: struct_regs_def distinct_map intro!: inj_onI)
qed

lemma struct_regs_nth: "k < n \<Longrightarrow> struct_regs bits n ! k = struct_reg bits k" "length (struct_regs bits n) = n"
  by (simp_all add: struct_regs_def)

lemma load_store_formats: "neon_format (GetVectorFormat bits LoadStoreFormatMap)"
  "GetVectorFormat bits LoadStoreFormatMap \<noteq> kFormatUndefined"
  by (simp_all add: GetVectorFormat_def Let_def LoadStoreFormatMap_def PickBits_def neon_format_def nth_Cons split: nat.split)

lemma lane_count_bound: "neon_format vf \<Longrightarrow> LaneCount vf \<le> 16"
  by (cases vf) (simp_all add: neon_format_def LaneCount_def)

lemma visit_structs:
  assumes op: "(st, ld, n) \<in> set struct_operations" and vf: "vf = GetVectorFormat (insn_bits instr) LoadStoreFormatMap"
    and legal: "\<not> reserved_offset_form (insn_bits instr)"
  shows "Mask NEONLoadStoreMultiStructPostIndexMask (insn_bits instr) = st \<Longrightarrow>
      VisitNEONLoadStoreMultiStruct dbg instr s =
        stn vf (struct_regs (insn_bits instr) n) (ReadRegister (rn_of (insn_bits instr)) Reg31IsStackPointer s) s"
    "Mask NEONLoadStoreMultiStructPostIndexMask (insn_bits instr) = ld \<Longrightarrow>
      VisitNEONLoadStoreMultiStruct dbg instr s =
        ldn vf (struct_regs (insn_bits instr) n) (ReadRegister (rn_of (insn_bits instr)) Reg31IsStackPointer s) s"
proof -
  have wb: "map_result (write_back instr Offset a b) r = r" for a b and r :: "abort + 'a vsim"
    by (cases r) (simp_all add: write_back_def Let_def)
  note d = VisitNEONLoadStoreMultiStruct_def NEONLoadStoreMultiStructHelper_def Let_def
  show "Mask NEONLoadStoreMultiStructPostIndexMask (insn_bits instr) = st \<Longrightarrow>
      VisitNEONLoadStoreMultiStruct dbg instr s =
        stn vf (struct_regs (insn_bits instr) n) (ReadRegister (rn_of (insn_bits instr)) Reg31IsStackPointer s) s"
    using legal by (simp add: d struct_table(1) [OF op] wb vf)
  show "Mask NEONLoadStoreMultiStructPostIndexMask (insn_bits instr) = ld \<Longrightarrow>
      VisitNEONLoadStoreMultiStruct dbg instr s =
        ldn vf (struct_regs (insn_bits instr) n) (ReadRegister (rn_of (insn_bits instr)) Reg31IsStackPointer s) s"
    using legal by (simp add: d struct_table(2) [OF op] wb vf)
qed

lemma equal_by_lanes:
  assumes nf: "neon_format vf" and above: "drop_bit (RegisterSizeInBitsFromFormat vf) x = 0"
    and lanes: "\<And>i. i < LaneCount vf \<Longrightarrow> GetLane (lw vf) i x = GetLane (lw vf) i y"
  shows "x = take_bit (RegisterSizeInBitsFromFormat vf) y"
proof -
  note f = neon_formatD [OF nf]
  note w = lanes_are_register [OF f]
  have zero: "\<not> bit x k" if "LaneCount vf * lw vf \<le> k" for k
    using arg_cong [OF above, of "\<lambda>v. bit v (k - RegisterSizeInBitsFromFormat vf)"] that by (simp add: bit_drop_bit_eq w)
  have "(\<lambda>_. x) (VReg 0) = (\<lambda>_. take_bit (RegisterSizeInBitsFromFormat vf) y) (VReg 0)"
  proof (rule register_eq_by_lanes [OF f(1)])
    fix i assume i: "i < LaneCount vf"
    have "GetLane (lw vf) i (take_bit (RegisterSizeInBitsFromFormat vf) y) = GetLane (lw vf) i y"
      using lane_bit_below [OF i, of _ "lw vf"]
      by (intro bit_word_eqI) (auto simp: bit_GetLane has_lanes_le [OF f(1)] bit_take_bit_iff w)
    then show "LUint vf (\<lambda>_. x) (VReg 0) i = LUint vf (\<lambda>_. take_bit (RegisterSizeInBitsFromFormat vf) y) (VReg 0) i"
      using lanes [OF i] f(1) by (simp add: LUint_def)
  next
    fix k assume "LaneCount vf * lw vf \<le> k"
    then show "bit x k = bit (take_bit (RegisterSizeInBitsFromFormat vf) y) k"
      using zero [of k] by (simp add: bit_take_bit_iff w [symmetric])
  qed
  then show ?thesis .
qed

text \<open>C20: Structures come back as they were stored.  For ST1 of one register with LD1, ST2 with LD2, ST3 with
  LD3 and ST4 with LD4, with the same vector format and base address, the load after the completed store
  leaves in its registers the values the stored registers had, cut to the size of the format, and
  changes nothing else; the registers of the two may differ and wrap around from V31 to V0.\<close>

theorem structures_round_trip:
  fixes s :: "'v vsim"
  assumes op: "(Mask NEONLoadStoreMultiStructPostIndexMask (insn_bits st),
      Mask NEONLoadStoreMultiStructPostIndexMask (insn_bits ld), n) \<in> set struct_operations"
    and vf: "vf = GetVectorFormat (insn_bits st) LoadStoreFormatMap" "vf = GetVectorFormat (insn_bits ld) LoadStoreFormatMap"
    and legal: "\<not> reserved_offset_form (insn_bits st)" "\<not> reserved_offset_form (insn_bits ld)"
    and stored: "VisitNEONLoadStoreMultiStruct dbg st s = Inr s1"
    and base: "ReadRegister (rn_of (insn_bits ld)) Reg31IsStackPointer s1 =
      (ReadRegister (rn_of (insn_bits st)) Reg31IsStackPointer s :: u64)"
  shows "\<exists>V. VisitNEONLoadStoreMultiStruct dbg ld s1 = Inr (s1\<lparr>vregs := V\<rparr>) \<and>
    (\<forall>k < n. V (struct_reg (insn_bits ld) k) =
       take_bit (RegisterSizeInBitsFromFormat vf) (vregs s (struct_reg (insn_bits st) k))) \<and>
    (\<forall>r. r \<notin> struct_reg (insn_bits ld) ` {..<n} \<longrightarrow> V r = vregs s r)"
proof -
  let ?a = "ReadRegister (rn_of (insn_bits st)) Reg31IsStackPointer s"
  let ?S = "struct_regs (insn_bits st) n" and ?L = "struct_regs (insn_bits ld) n"
  note n = struct_table(3,4) [OF op]
  have nf: "neon_format vf" unfolding vf(1) by (rule load_store_formats(1))
  note f = neon_formatD [OF nf]
  have m: "LaneCount vf * n \<le> 64" using mult_le_mono [OF lane_count_bound [OF nf] n(2)] by simp
  have "in_order (store_element vf ?S ?a) [0..<LaneCount vf * n] s = Inr s1"
    using stored unfolding visit_structs(1) [OF op vf(1) legal(1) refl] by (simp add: stn_elements struct_regs_nth)
  note kept = store_elements [OF f(1) m this]
  have ok: "access_checks StackGuardRead (element_at vf ?a e) (LaneSizeInBytesFromFormat vf) s1 = Inr ()"
    if "e < LaneCount vf * length ?L" for e
  proof -
    have "access_checks StackGuardWrite (element_at vf ?a e) (LaneSizeInBytesFromFormat vf) s1 = Inr ()"
      using kept that by (simp add: struct_regs_nth cong: access_checks_cong)
    then show ?thesis by (rule access_checks_kind [THEN iffD1])
  qed
  have ne: "?L \<noteq> []" using n by (simp add: struct_regs_def)
  obtain V where V: "ldn vf ?L ?a s1 = Inr (s1\<lparr>vregs := V\<rparr>)"
    "\<forall>i < LaneCount vf. \<forall>k < n. GetLane (lw vf) i (V (struct_reg (insn_bits ld) k)) =
       take_bit (lw vf) (element_in vf ?a (memory s1) (i * n + k))"
    "\<forall>k < n. drop_bit (RegisterSizeInBitsFromFormat vf) (V (struct_reg (insn_bits ld) k)) = 0"
    "\<forall>r. r \<notin> set ?L \<longrightarrow> V r = vregs s1 r"
    using ldn_result [OF nf struct_regs_distinct [OF n(2)] ne ok] by (auto simp: struct_regs_nth)
  have "GetLane (lw vf) i (V (struct_reg (insn_bits ld) k)) = GetLane (lw vf) i (vregs s (struct_reg (insn_bits st) k))"
    if "k < n" "i < LaneCount vf" for i k
    using V(2) kept that lane_bit_below [OF that(2,1)]
    by (simp add: struct_regs_nth element_split take_bit_GetLane has_lanes_le [OF f(1)])
  then have "V (struct_reg (insn_bits ld) k) =
      take_bit (RegisterSizeInBitsFromFormat vf) (vregs s (struct_reg (insn_bits st) k))" if "k < n" for k
    using that V(3) by (intro equal_by_lanes [OF nf]) simp_all
  moreover have "V r = vregs s r" if "r \<notin> struct_reg (insn_bits ld) ` {..<n}" for r
    using that V(4) kept by (simp add: struct_regs_def atLeast0LessThan)
  moreover have "VisitNEONLoadStoreMultiStruct dbg ld s1 = Inr (s1\<lparr>vregs := V\<rparr>)"
    unfolding visit_structs(2) [OF op vf(2) legal(2) refl] base by (rule V(1))
  ultimately show ?thesis by blast
qed

end
