(* ===== verification/Neon_Witnesses.thy ===== *)
theory Neon_Witnesses
  imports Neon_Narrow Struct_Contracts Track_Equivalence
begin

text \<open>Concrete vector instructions at which the contracts of the NEON visitors apply.\<close>

definition vec_vsim :: "u32 \<Rightarrow> u128 \<Rightarrow> u128 \<Rightarrow> visitor vsim" where
  "vec_vsim form x y = ret_vsim\<lparr>form_hash := form, vregs := (\<lambda>r. if r = 0 then x else if r = 1 then y else 0)\<rparr>"

lemma vec_vsim_fields [simp]: "form_hash (vec_vsim form x y) = form"
  "vregs (vec_vsim form x y) 0 = x" "vregs (vec_vsim form x y) (Suc 0) = y"
  by (simp_all add: vec_vsim_def)

definition word_instr :: "u32 \<Rightarrow> instruction" where
  "word_instr bits = \<lparr> insn_addr = 0x1000, insn_bits = bits \<rparr>"

lemmas field_evaluation = word_instr_def GetRd_def GetRn_def GetRm_def ExtractBits_def
  ExtractUnsignedBitfield32_def ExtractUnsignedBitfield64_def GetVectorFormat_def PickBits_def
  IntegerFormatMap_def ScalarFormatMap_def LogicalFormatMap_def Mask_def Let_def

lemma vector_resultD:
  "vector_result vf bits g s s' \<Longrightarrow> i < LaneCount vf \<Longrightarrow>
    lane_int (lw vf) (vregs s' (unat (GetRd bits))) i =
      g (lane_int (lw vf) (vregs s (unat (GetRd bits))) i) (lane_int (lw vf) (vregs s (unat (GetRn bits))) i)
        (lane_int (lw vf) (vregs s (unat (GetRm bits))) i) mod 2 ^ lw vf"
  by (simp add: vector_result_def Let_def)

text \<open>\<open>SQADD v2.8b, v0.8b, v1.8b\<close>\<close>

theorem neon_3same_integer_witness:
  "\<exists>s'. VisitNEON3Same True (abort_rest 1) (word_instr 0x0E210C02) (vec_vsim 0 0x7F 1) = Inr s' \<and>
    lane_int 8 (vregs s' 2) 0 = 127"
proof -
  let ?i = "word_instr 0x0E210C02"
  have f: "kFormat8B = GetVectorFormat (insn_bits ?i) IntegerFormatMap"
    "Mask NEON3SameMask (insn_bits ?i) = NEON_SQADD"
    "unat (GetRd (insn_bits ?i)) = 2" "unat (GetRn (insn_bits ?i)) = 0" "unat (GetRm (insn_bits ?i)) = 1"
    by (simp_all add: field_evaluation)
  have "map_of (neon_3same_spec (LaneSizeInBitsFromFormat kFormat8B)) (Mask NEON3SameMask (insn_bits ?i)) =
      Some (\<lambda>d a b. sclamp 8 (sread 8 a + sread 8 b))"
    by (simp add: f(2) neon_3same_spec_def)
  from neon_3same_integer [OF f(1) _ this, of True "abort_rest 1" "vec_vsim 0 0x7F 1"]
  obtain s' where s': "VisitNEON3Same True (abort_rest 1) ?i (vec_vsim 0 0x7F 1) = Inr s'"
    "vector_result kFormat8B (insn_bits ?i) (\<lambda>d a b. sclamp 8 (sread 8 a + sread 8 b)) (vec_vsim 0 0x7F 1) s'"
    by auto
  have "sread 8 127 = 127" "sread 8 1 = 1" by (simp_all add: sread_cases)
  moreover have "lane_int 8 0x7F 0 = 127" "lane_int 8 1 0 = 1" by (simp_all add: lane_int_def)
  ultimately have "lane_int 8 (vregs s' 2) 0 = 127"
    using vector_resultD [OF s'(2), of 0] unfolding f(3-5) by (simp add: LaneCount_def sclamp_def)
  with s'(1) show ?thesis by blast
qed

text \<open>\<open>AND v2.8b, v0.8b, v1.8b\<close>\<close>

theorem neon_logical_bitwise_witness:
  "\<exists>s'. VisitNEON3Same True (abort_rest 1) (word_instr 0x0E211C02) (vec_vsim 0 3 6) = Inr s' \<and>
    bit (vregs s' 2) 1 \<and> \<not> bit (vregs s' 2) 0"
proof -
  let ?i = "word_instr 0x0E211C02"
  have f: "Mask NEON3SameLogicalMask (insn_bits ?i) = NEON_AND"
    "2 = unat (GetRd (insn_bits ?i))" "0 = unat (GetRn (insn_bits ?i))" "1 = unat (GetRm (insn_bits ?i))"
    by (simp_all add: field_evaluation)
  have "map_of neon_logical_spec (Mask NEON3SameLogicalMask (insn_bits ?i)) = Some (\<lambda>d a b. a \<and> b)"
    by (simp add: f(1) neon_logical_spec_def)
  moreover have "RegisterSizeInBitsFromFormat (GetVectorFormat (insn_bits ?i) LogicalFormatMap) = 64"
    by (simp add: field_evaluation)
  moreover note neon_logical_bitwise [OF _ f(2-4), of "\<lambda>d a b. a \<and> b" True "abort_rest 1" "vec_vsim 0 3 6"]
  ultimately obtain s' where s': "VisitNEON3Same True (abort_rest 1) ?i (vec_vsim 0 3 6) = Inr s'"
    "\<And>k. bit (vregs s' 2) k \<longleftrightarrow> k < 64 \<and> bit (3 :: u128) k \<and> bit (6 :: u128) k"
    by (auto simp del: bit_numeral_simps)
  have "bit (3 :: u128) 1" "\<not> bit (6 :: u128) 0" "bit (6 :: u128) 1" by simp_all
  then have "bit (vregs s' 2) 1 \<and> \<not> bit (vregs s' 2) 0" unfolding s'(2) by simp
  with s'(1) show ?thesis by blast
qed

text \<open>\<open>XTN v2.8b, v0.8h\<close>\<close>

theorem neon_narrow_distinct_witness:
  "\<exists>s'. VisitNEON2RegMisc True (word_instr 0x0E212802) (vec_vsim (Hash ''xtn_asimdmisc_n'') 0x1234 0) = Inr s' \<and>
    lane_int 8 (vregs s' 2) 0 = 0x34"
proof -
  let ?i = "word_instr 0x0E212802" and ?s = "vec_vsim (Hash ''xtn_asimdmisc_n'') 0x1234 0"
  have f: "kFormat8B = GetVectorFormat (insn_bits ?i) IntegerFormatMap"
    "2 = unat (GetRd (insn_bits ?i))" "0 = unat (GetRn (insn_bits ?i))"
    by (simp_all add: field_evaluation)
  have h: "map_of (neon_narrow_spec (LaneSizeInBitsFromFormat kFormat8B)) ''xtn_asimdmisc_n'' = Some (\<lambda>a. a)"
    by (simp add: neon_narrow_spec_def)
  from neon_narrow_distinct [where s = ?s and dbg = True, OF vec_vsim_fields(1) h f(1) _ _ f(2,3)]
  obtain s' where s': "VisitNEON2RegMisc True ?i ?s = Inr s'"
    "\<forall>i < 64 div 8. lane_int 8 (vregs s' 2) i = lane_int 16 (vregs ?s 0) i mod 2 ^ 8"
    by (auto simp: Let_def)
  have "lane_int 16 0x1234 0 = 0x1234" by (simp add: lane_int_def)
  then have "lane_int 8 (vregs s' 2) 0 = 0x34" using s'(2) by simp
  with s'(1) show ?thesis by blast
qed

text \<open>\<open>XTN2 v0.16b, v0.8h\<close>, where byte 12 should be the low byte of half-word lane 4\<close>

theorem xtn2_in_place_reads_its_result_witness:
  "\<exists>s'. VisitNEON2RegMisc True (word_instr 0x4E212800) (vec_vsim (Hash ''xtn_asimdmisc_n'') 0x220000000000000011 0) = Inr s' \<and>
    lane_int 8 (vregs s' 0) 12 = 0x11 \<and> lane_int 16 0x220000000000000011 4 mod 2 ^ 8 = 0x22"
proof -
  let ?i = "word_instr 0x4E212800" and ?s = "vec_vsim (Hash ''xtn_asimdmisc_n'') 0x220000000000000011 0"
  have f: "GetVectorFormat (insn_bits ?i) IntegerFormatMap = kFormat16B"
    "0 = unat (GetRd (insn_bits ?i))" "0 = unat (GetRn (insn_bits ?i))"
    by (simp_all add: field_evaluation)
  have "lane_int 8 0x220000000000000011 0 = 0x11" "lane_int 16 0x220000000000000011 4 mod 2 ^ 8 = 0x22"
    by (simp_all add: lane_int_def)
  with xtn2_in_place_reads_its_result [OF vec_vsim_fields(1) f, of True "0x220000000000000011" 0]
  show ?thesis by simp
qed

text \<open>\<open>ST2 {v0.8b, v1.8b}, [x2]\<close> and \<open>LD2 {v4.8b, v5.8b}, [x2]\<close>, with \<open>x2\<close> zero\<close>

lemma struct_checks: "e < 16 \<Longrightarrow> access_checks g (element_at kFormat8B 0 e) (LaneSizeInBytesFromFormat kFormat8B) (vec_vsim f x y) = Inr ()"
proof -
  assume "e < 16"
  then have "e \<in> set [0..<16]" by simp
  then show ?thesis
    by (simp add: upt_rec [of _ 16] del: set_upt, elim disjE; hypsubst,
        simp add: element_at_def LaneSizeInBytesFromFormat_def access_checks_def IsMTETagsMatched_def AddressUntag_def
        vec_vsim_def ret_vsim_def blank_vsim_def IsAccessInGuardRegion_def Allocate_def default_SimStack_def AlignUp_def Let_def word_le_nat_alt)
qed

theorem structures_round_trip_witness:
  "\<exists>s1 V. VisitNEONLoadStoreMultiStruct True (word_instr 0x0C008040) (vec_vsim 0 0x1122334455667788 5) = Inr s1 \<and>
    VisitNEONLoadStoreMultiStruct True (word_instr 0x0C408044) s1 = Inr (s1\<lparr>vregs := V\<rparr>) \<and>
    V 4 = 0x1122334455667788 \<and> V 5 = 5"
proof -
  let ?st = "word_instr 0x0C008040" and ?ld = "word_instr 0x0C408044" and ?s = "vec_vsim 0 0x1122334455667788 5"
  note ev = field_evaluation LoadStoreFormatMap_def reserved_offset_form_def ExtractBit_def GetRt_def struct_reg_def
  have op: "(Mask NEONLoadStoreMultiStructPostIndexMask (insn_bits ?st),
      Mask NEONLoadStoreMultiStructPostIndexMask (insn_bits ?ld), 2) \<in> set struct_operations"
    by (simp add: ev struct_operations_def)
  have f: "kFormat8B = GetVectorFormat (insn_bits ?st) LoadStoreFormatMap" "kFormat8B = GetVectorFormat (insn_bits ?ld) LoadStoreFormatMap"
    "\<not> reserved_offset_form (insn_bits ?st)" "\<not> reserved_offset_form (insn_bits ?ld)"
    "rn_of (insn_bits ?st) = 2" "rn_of (insn_bits ?ld) = 2"
    "struct_reg (insn_bits ?st) 0 = 0" "struct_reg (insn_bits ?st) 1 = 1"
    "struct_reg (insn_bits ?ld) 0 = 4" "struct_reg (insn_bits ?ld) 1 = 5"
    by (simp_all add: ev)
  have base: "ReadRegister 2 Reg31IsStackPointer ?s = (0 :: u64)"
    by (simp add: ReadRegister_def vec_vsim_def)
  have n: "LaneCount kFormat8B * 2 = 16" by (simp add: LaneCount_def)
  obtain s1 where s1: "stn kFormat8B (struct_regs (insn_bits ?st) 2) 0 ?s = Inr s1"
    using store_elements_succeed [of kFormat8B 16 0 ?s, OF _ _ struct_checks] n
    by (auto simp: stn_elements struct_regs_nth)
  have x: "xregs s1 = xregs ?s"
    using store_elements [of kFormat8B 16 "struct_regs (insn_bits ?st) 2" 0 ?s s1] s1 n by (simp add: stn_elements struct_regs_nth)
  have v: "VisitNEONLoadStoreMultiStruct True ?st ?s = Inr s1"
    unfolding visit_structs(1) [OF op f(1,3) refl] f(5) base by (rule s1)
  have b: "ReadRegister (rn_of (insn_bits ?ld)) Reg31IsStackPointer s1 =
      (ReadRegister (rn_of (insn_bits ?st)) Reg31IsStackPointer ?s :: u64)"
    unfolding f(5,6) using x by (simp add: ReadRegister_def)
  obtain V where V: "VisitNEONLoadStoreMultiStruct True ?ld s1 = Inr (s1\<lparr>vregs := V\<rparr>)"
    "\<forall>k < 2. V (struct_reg (insn_bits ?ld) k) = take_bit 64 (vregs ?s (struct_reg (insn_bits ?st) k))"
    using structures_round_trip [OF op f(1-4) v b] by auto
  have "V 4 = 0x1122334455667788" "V 5 = 5"
    using V(2) [rule_format, of 0] V(2) [rule_format, of 1] unfolding f(7-10) by simp_all
  with v V(1) show ?thesis by blast
qed

end
