(* ===== verification/Copy_Contracts.thy ===== *)
theory Copy_Contracts
  imports Memory_Contracts
begin

text \<open>
  What the memory copy and set instructions promise: a prologue and main part copy as
  \<open>memmove\<close> does, whatever the overlap, because the prologue chooses the direction; the set
  instructions fill; and the main part of a tagged set ends.
\<close>

section \<open>Byte loops on memory\<close>

text \<open>Copying byte \<open>src k\<close> to \<open>dst k\<close> for \<open>k\<close> from 0 on, one after the other.\<close>

primrec copy_seq :: "(nat \<Rightarrow> u64) \<Rightarrow> (nat \<Rightarrow> u64) \<Rightarrow> nat \<Rightarrow> (u64 \<Rightarrow> u8) \<Rightarrow> (u64 \<Rightarrow> u8)" where
  "copy_seq dst src 0 m = m"
| "copy_seq dst src (Suc n) m = (copy_seq dst src n m)(dst n := copy_seq dst src n m (src n))"

text \<open>No byte is read after it was overwritten: every byte gets the old value of its source.\<close>

lemma copy_seq_result:
  assumes "\<And>i j. i < j \<Longrightarrow> j < n \<Longrightarrow> src j \<noteq> dst i" "\<And>i j. i < j \<Longrightarrow> j < n \<Longrightarrow> dst i \<noteq> dst j"
  shows "(\<forall>i < n. copy_seq dst src n m (dst i) = m (src i)) \<and>
    (\<forall>a. (\<forall>i < n. a \<noteq> dst i) \<longrightarrow> copy_seq dst src n m a = m a)"
  using assms
proof (induction n)
  case (Suc n)
  let ?M = "copy_seq dst src n m"
  have IH: "\<And>i. i < n \<Longrightarrow> ?M (dst i) = m (src i)" "\<And>a. (\<And>i. i < n \<Longrightarrow> a \<noteq> dst i) \<Longrightarrow> ?M a = m a"
    using Suc by auto
  have "?M (src n) = m (src n)" using Suc.prems(1) [of _ n] by (intro IH(2)) auto
  moreover have "dst i \<noteq> dst n" if "i < n" for i using Suc.prems(2) that by simp
  ultimately show ?case using IH by (auto simp: less_Suc_eq)
qed simp

lemma copy_seq_shift:
  "copy_seq dst src (Suc n) m = copy_seq (\<lambda>k. dst (Suc k)) (\<lambda>k. src (Suc k)) n (m(dst 0 := m (src 0)))"
proof (induction n)
  case (Suc n)
  show ?case by (simp only: copy_seq.simps(2) [of _ _ "Suc n"] Suc.IH) (simp only: copy_seq.simps)
qed simp

lemma copy_seq_cong:
  "(\<And>k. k < n \<Longrightarrow> dst k = dst' k \<and> src k = src' k) \<Longrightarrow> copy_seq dst src n m = copy_seq dst' src' n m"
  by (induction n) auto

section \<open>The loops of the simulator\<close>

lemma byte_read:
  "access_checks e a 1 s = Inr () \<Longrightarrow> MemReadT a s = Inr (memory s (AddressUntag a))"
  using access_checks_kind [of e a 1 s StackGuardRead] by (simp add: MemReadT_def MemRead_def)

lemma byte_write:
  "access_checks e a 1 s = Inr () \<Longrightarrow>
    \<exists>w. MemWriteT a (v :: u8) s = Inr (s\<lparr>memory := (memory s)(AddressUntag a := v), write_sink := w\<rparr>)"
proof -
  assume "access_checks e a 1 s = Inr ()"
  then have "access_checks StackGuardWrite a 1 s = Inr ()" using access_checks_kind [of e a 1 s StackGuardWrite] by blast
  then have "MemWriteT a v s = Inr (NotifyShadowMemoryWrite 1 a v (s\<lparr>memory := (memory s)(AddressUntag a := v)\<rparr>))"
    by (simp add: MemWriteT_def MemWrite_def Memory_Write_def)
  moreover have "\<exists>w. NotifyShadowMemoryWrite 1 a v t = t\<lparr>write_sink := w\<rparr>" for t
    unfolding NotifyShadowMemoryWrite_def by (cases "write_sink t") (auto intro: exI [of _ "write_sink t"])
  ultimately show ?thesis by auto
qed

text \<open>\<open>n\<close> bytes from an address on that no guard and no tag protects.\<close>

definition bytes_ok :: "'v vsim \<Rightarrow> u64 \<Rightarrow> nat \<Rightarrow> bool" where
  "bytes_ok s a n \<longleftrightarrow> (\<forall>k < n. access_checks StackGuardRead (a + of_nat k) 1 s = Inr ())"

lemma copy_bytes_result:
  assumes "\<And>k. k < n \<Longrightarrow> access_checks e (xs + of_nat k * stride) 1 s = Inr ()"
    "\<And>k. k < n \<Longrightarrow> access_checks e (xd + of_nat k * stride) 1 s = Inr ()"
  shows "\<exists>w. copy_bytes stride n xd xs s = Inr (xd + of_nat n * stride, xs + of_nat n * stride,
    s\<lparr>memory := copy_seq (\<lambda>k. AddressUntag (xd + of_nat k * stride)) (\<lambda>k. AddressUntag (xs + of_nat k * stride)) n
        (memory s), write_sink := w\<rparr>)"
  using assms
proof (induction n arbitrary: xd xs s)
  case 0
  show ?case by (intro exI [of _ "write_sink s"]) simp
next
  case (Suc n)
  from Suc.prems(1) [of 0] have r: "MemReadT xs s = Inr (memory s (AddressUntag xs))" by (simp add: byte_read)
  from Suc.prems(2) [of 0] obtain w where
    w: "MemWriteT xd (memory s (AddressUntag xs)) s =
      Inr (s\<lparr>memory := (memory s)(AddressUntag xd := memory s (AddressUntag xs)), write_sink := w\<rparr>)" (is "_ = Inr ?t")
    using byte_write [of e xd s] by auto
  have shift: "a + stride + of_nat k * stride = a + of_nat (Suc k) * stride" for a and k :: nat by (simp add: algebra_simps)
  have "access_checks e (xs + stride + of_nat k * stride) 1 ?t = Inr ()"
    "access_checks e (xd + stride + of_nat k * stride) 1 ?t = Inr ()" if "k < n" for k
    unfolding shift using Suc.prems [of "Suc k"] that by (simp_all cong: access_checks_cong)
  from Suc.IH [OF this] obtain w' where
    "copy_bytes stride n (xd + stride) (xs + stride) ?t = Inr (xd + stride + of_nat n * stride, xs + stride + of_nat n * stride,
      ?t\<lparr>memory := copy_seq (\<lambda>k. AddressUntag (xd + stride + of_nat k * stride))
        (\<lambda>k. AddressUntag (xs + stride + of_nat k * stride)) n (memory ?t), write_sink := w'\<rparr>)" by blast
  then show ?case
    unfolding shift by (intro exI [of _ w']) (simp only: copy_bytes.simps r w and_then.simps copy_seq_shift, simp)
qed

lemma set_bytes_result:
  assumes "\<And>k. k < n \<Longrightarrow> access_checks e (xd + of_nat k) 1 s = Inr ()"
  shows "\<exists>w. set_bytes n v xd s = Inr (xd + of_nat n,
    s\<lparr>memory := (\<lambda>a. if \<exists>k < n. a = AddressUntag (xd + of_nat k) then v else memory s a), write_sink := w\<rparr>)"
  using assms
proof (induction n arbitrary: xd s)
  case 0
  show ?case by (intro exI [of _ "write_sink s"]) simp
next
  case (Suc n)
  from Suc.prems [of 0] obtain w where
    w: "MemWriteT xd v s = Inr (s\<lparr>memory := (memory s)(AddressUntag xd := v), write_sink := w\<rparr>)" (is "_ = Inr ?t")
    using byte_write [of e xd s v] by auto
  have "access_checks e (xd + 1 + of_nat k) 1 ?t = Inr ()" if "k < n" for k
    using Suc.prems [of "Suc k"] that
    by (simp only: Suc_less_eq of_nat_Suc add.assoc, simp cong: access_checks_cong)
  from Suc.IH [OF this] obtain w' where
    "set_bytes n v (xd + 1) ?t = Inr (xd + 1 + of_nat n,
      ?t\<lparr>memory := (\<lambda>a. if \<exists>k < n. a = AddressUntag (xd + 1 + of_nat k) then v else memory ?t a), write_sink := w'\<rparr>)" by blast
  moreover have "(\<lambda>a. if \<exists>k < n. a = AddressUntag (xd + 1 + of_nat k) then v else memory ?t a) =
      (\<lambda>a. if \<exists>k < Suc n. a = AddressUntag (xd + of_nat k) then v else memory s a)"
    by (rule ext) (auto simp: less_Suc_eq_0_disj add.assoc)
  ultimately show ?case
    by (intro exI [of _ w']) (simp add: w add.assoc)
qed

section \<open>Addresses\<close>

lemma unat_untag: "unat (AddressUntag a) = unat a mod 2 ^ 56"
proof -
  have "AddressUntag a = take_bit 56 a" by (rule bit_word_eqI) (auto simp: AddressUntag_bit bit_take_bit_iff)
  then show ?thesis by (simp only: unsigned_take_bit_eq take_bit_nat_def)
qed

lemma unat_untag_add:
  assumes "unat (AddressUntag a) + k < 2 ^ 56"
  shows "unat (AddressUntag (a + of_nat k)) = unat (AddressUntag a) + k"
proof -
  have "unat (a + of_nat k) mod 2 ^ 56 = (unat a + k) mod 2 ^ 56"
    by (simp add: unat_word_ariths unat_of_nat mod_simps mod_mod_cancel)
  also have "\<dots> = (unat a mod 2 ^ 56 + k) mod 2 ^ 56" by (simp add: mod_simps)
  finally show ?thesis using assms by (simp add: unat_untag)
qed

section \<open>The prologue of a copy\<close>

text \<open>The operands that the prologue accepts.\<close>

definition copy_operands :: "u32 \<Rightarrow> bool" where
  "copy_operands bits \<longleftrightarrow> distinct [rd_of bits, rn_of bits, rs_of bits, 31] \<and> ExtractBits 31 30 bits = 0"

text \<open>The parts of the state on which a memory access depends.\<close>

definition same_access :: "'v vsim \<Rightarrow> 'v vsim \<Rightarrow> bool" where
  "same_access s s' \<longleftrightarrow> stack s' = stack s \<and> mte_active s' = mte_active s \<and> mte_tags s' = mte_tags s"

lemma same_access_checks: "same_access s s' \<Longrightarrow> access_checks e a n s' = access_checks e a n s"
  by (rule access_checks_cong) (simp_all add: same_access_def)

lemma same_access_refl [simp]: "same_access s s"
  by (simp add: same_access_def)

lemma flag_updates:
  "ReadXRegister c (SetN x s) = ReadXRegister c s" "ReadXRegister c (SetZ x s) = ReadXRegister c s"
  "ReadXRegister c (SetC x s) = ReadXRegister c s" "ReadXRegister c (SetV x s) = ReadXRegister c s"
  "memory (SetN x s) = memory s" "memory (SetZ x s) = memory s" "memory (SetC x s) = memory s" "memory (SetV x s) = memory s"
  "same_access t (SetN x s) = same_access t s" "same_access t (SetZ x s) = same_access t s"
  "same_access t (SetC x s) = same_access t s" "same_access t (SetV x s) = same_access t s"
  by (simp_all add: ReadRegister_def SetN_def SetZ_def SetC_def SetV_def same_access_def)

lemma register_update:
  "memory (WriteRegister c v m s) = memory s" "same_access t (WriteRegister c v m s) = same_access t s"
  by (simp_all add: WriteRegister_def Let_def same_access_def)

lemma ReadRegister_memory: "ReadRegister c m (s\<lparr>memory := M, write_sink := u\<rparr>) = ReadRegister c m s"
  by (simp add: ReadRegister_def)

lemma ReadX_WriteX [simp]: "c < 31 \<Longrightarrow> ReadXRegister c (WriteXRegister c v s) = (v :: u64)"
  by (simp add: Read_WriteRegister_same)

lemma ReadN_SetN: "ReadN (SetN b s) \<longleftrightarrow> b AND 1 \<noteq> 0"
  by (simp add: ReadN_def SetN_def sr_field_SetBits_flag)

lemma copy_operands_less:
  assumes "copy_operands bits"
  shows "rd_of bits < 31" "rn_of bits < 31" "rs_of bits < 31" "rd_of bits < 32" "rn_of bits < 32" "rs_of bits < 32"
    "rd_of bits \<noteq> rn_of bits" "rd_of bits \<noteq> rs_of bits" "rn_of bits \<noteq> rs_of bits"
  using assms register_number_less [of bits] by (auto simp: copy_operands_def less_Suc_eq)

lemma MOPSPHelper_cpy:
  fixes s :: "'v vsim"
  assumes ok: "copy_operands (insn_bits i)"
  shows "\<exists>s1. MOPSPHelper False MOPS_cpy i s = Inr s1 \<and> memory s1 = memory s \<and> same_access s s1
    \<and> ReadXRegister (rn_of (insn_bits i)) s1 = saturated_count MOPS_cpy (ReadXRegister (rn_of (insn_bits i)) s)
    \<and> (\<forall>c < 32. c \<noteq> rn_of (insn_bits i) \<longrightarrow> ReadXRegister c s1 = (ReadXRegister c s :: u64))"
proof -
  note lt = copy_operands_less [OF ok]
  have "\<not> (rd_of (insn_bits i) = rn_of (insn_bits i) \<or> rd_of (insn_bits i) = rs_of (insn_bits i)
      \<or> rn_of (insn_bits i) = rs_of (insn_bits i) \<or> rd_of (insn_bits i) = 31 \<or> rn_of (insn_bits i) = 31)"
    "rs_of (insn_bits i) \<noteq> 31" "ExtractBits 31 30 (insn_bits i) = 0"
    using ok by (auto simp: copy_operands_def)
  then show ?thesis
    using lt by (auto simp: MOPSPHelper_def assert_triplet_def Let_def flag_updates register_update)
qed

lemma SimulateCpyP_result:
  fixes s :: "'v vsim"
  assumes ok: "copy_operands (insn_bits i)"
    and "d = rd_of (insn_bits i)" "n = rn_of (insn_bits i)" "r = rs_of (insn_bits i)"
    and "count = saturated_count MOPS_cpy (ReadXRegister n s)"
    and "back = copies_backwards (ReadXRegister d s) (ReadXRegister r s) count"
  shows "\<exists>s1. SimulateCpyP False i s = Inr s1 \<and> memory s1 = memory s \<and> same_access s s1
    \<and> ReadN s1 = back \<and> ReadXRegister n s1 = count
    \<and> ReadXRegister d s1 = ReadXRegister d s + (if back then count else 0)
    \<and> ReadXRegister r s1 = ReadXRegister r s + (if back then count else 0)
    \<and> (\<forall>c < 32. c \<notin> {d, n, r} \<longrightarrow> ReadXRegister c s1 = (ReadXRegister c s :: u64))"
proof -
  note lt = copy_operands_less [OF ok, folded assms(2-4)]
  obtain s1 where s1: "MOPSPHelper False MOPS_cpy i s = Inr s1" "memory s1 = memory s" "same_access s s1"
    "ReadXRegister n s1 = count" "\<And>c. c < 32 \<Longrightarrow> c \<noteq> n \<Longrightarrow> ReadXRegister c s1 = (ReadXRegister c s :: u64)"
    using MOPSPHelper_cpy [OF ok, of s] assms(3,5) by auto
  show ?thesis
    using lt s1 assms(6)
    by (auto simp: SimulateCpyP_def Let_def assms(2-4) [symmetric] vixl_assert_def flag_updates register_update ReadN_SetN)
qed

section \<open>A copy\<close>

lemma copy_directions:
  fixes xd xs count :: u64
  assumes "unat (AddressUntag xd) + unat count \<le> 2 ^ 56" "unat (AddressUntag xs) + unat count \<le> 2 ^ 56"
    and "unat count < 2 ^ 55"
  shows "copies_backwards xd xs count \<longleftrightarrow>
    unat (AddressUntag xs) < unat (AddressUntag xd) \<and> unat (AddressUntag xd) < unat (AddressUntag xs) + unat count"
proof -
  have e: "ExtractUnsignedBitfield64 55 0 x = AddressUntag x" for x
    by (rule bit_word_eqI) (auto simp: bit_ExtractUnsignedBitfield64 AddressUntag_bit)
  have "unat (AddressUntag xs) + unat count < 2 ^ 64" using assms(2) by simp
  then have "unat (AddressUntag xs + count) = unat (AddressUntag xs) + unat count" by (simp add: unat_word_ariths)
  then show ?thesis
    by (simp add: copies_backwards_def e word_less_nat_alt Let_def)
qed

text \<open>Both directions give every destination byte the old value of its source.\<close>

definition copied :: "u64 \<Rightarrow> u64 \<Rightarrow> nat \<Rightarrow> (u64 \<Rightarrow> u8) \<Rightarrow> (u64 \<Rightarrow> u8) \<Rightarrow> bool" where
  "copied xd xs n m m' \<longleftrightarrow>
     (\<forall>k < n. m' (AddressUntag (xd + of_nat k)) = m (AddressUntag (xs + of_nat k))) \<and>
     (\<forall>a. (\<forall>k < n. a \<noteq> AddressUntag (xd + of_nat k)) \<longrightarrow> m' a = m a)"

lemma untag_neq:
  assumes "unat (AddressUntag a) + i < 2 ^ 56" "unat (AddressUntag b) + j < 2 ^ 56"
    "unat (AddressUntag a) + i \<noteq> unat (AddressUntag b) + j"
  shows "AddressUntag (a + of_nat i) \<noteq> AddressUntag (b + of_nat j)"
  using assms unat_untag_add [OF assms(1)] unat_untag_add [OF assms(2)] by metis

lemma copied_forwards:
  assumes w: "unat (AddressUntag xd) + n \<le> 2 ^ 56" "unat (AddressUntag xs) + n \<le> 2 ^ 56"
    and "unat (AddressUntag xd) \<le> unat (AddressUntag xs) \<or> unat (AddressUntag xs) + n \<le> unat (AddressUntag xd)"
  shows "copied xd xs n m (copy_seq (\<lambda>k. AddressUntag (xd + of_nat k)) (\<lambda>k. AddressUntag (xs + of_nat k)) n m)"
  unfolding copied_def
proof (rule copy_seq_result)
  fix i j assume "i < j" "j < n"
  with assms show "AddressUntag (xs + of_nat j) \<noteq> AddressUntag (xd + of_nat i)"
    "AddressUntag (xd + of_nat i) \<noteq> AddressUntag (xd + of_nat j)"
    by (intro untag_neq; linarith)+
qed

lemma copied_backwards:
  assumes w: "unat (AddressUntag xd) + n \<le> 2 ^ 56" "unat (AddressUntag xs) + n \<le> 2 ^ 56"
    and "unat (AddressUntag xs) < unat (AddressUntag xd)"
  shows "copied xd xs n m
    (copy_seq (\<lambda>k. AddressUntag (xd + of_nat (n - 1 - k))) (\<lambda>k. AddressUntag (xs + of_nat (n - 1 - k))) n m)"
    (is "copied _ _ _ _ ?m")
proof -
  have r: "(\<forall>i < n. ?m (AddressUntag (xd + of_nat (n - 1 - i))) = m (AddressUntag (xs + of_nat (n - 1 - i)))) \<and>
    (\<forall>a. (\<forall>i < n. a \<noteq> AddressUntag (xd + of_nat (n - 1 - i))) \<longrightarrow> ?m a = m a)"
  proof (rule copy_seq_result)
    fix i j assume "i < j" "j < n"
    with assms show "AddressUntag (xs + of_nat (n - 1 - j)) \<noteq> AddressUntag (xd + of_nat (n - 1 - i))"
      "AddressUntag (xd + of_nat (n - 1 - i)) \<noteq> AddressUntag (xd + of_nat (n - 1 - j))"
      by (intro untag_neq; linarith)+
  qed
  have flip: "n - 1 - (n - 1 - k) = k" "n - 1 - k < n" if "k < n" for k using that by auto
  show ?thesis
    unfolding copied_def
  proof (intro conjI allI impI)
    fix k assume "k < n"
    with r flip [OF this] show "?m (AddressUntag (xd + of_nat k)) = m (AddressUntag (xs + of_nat k))" by metis
  next
    fix a assume "\<forall>k < n. a \<noteq> AddressUntag (xd + of_nat k)"
    with r flip show "?m a = m a" by blast
  qed
qed

text \<open>The main part, from the state that the prologue leaves.\<close>

lemma SimulateCpyM_result:
  fixes t :: "'v vsim" and xd xs count :: u64
  assumes ok: "distinct [d, n, r]" "d < 31" "n < 31" "r < 31"
    and f: "d = rd_of (insn_bits i)" "n = rn_of (insn_bits i)" "r = rs_of (insn_bits i)"
    and regs: "ReadXRegister n t = count" "ReadXRegister d t = xd + (if ReadN t then count else 0)"
      "ReadXRegister r t = xs + (if ReadN t then count else 0)"
    and bytes: "bytes_ok t xd (unat count)" "bytes_ok t xs (unat count)"
    and w: "unat (AddressUntag xd) + unat count \<le> 2 ^ 56" "unat (AddressUntag xs) + unat count \<le> 2 ^ 56"
    and dir: "if ReadN t then unat (AddressUntag xs) < unat (AddressUntag xd)
      else unat (AddressUntag xd) \<le> unat (AddressUntag xs) \<or> unat (AddressUntag xs) + unat count \<le> unat (AddressUntag xd)"
  shows "\<exists>s2. SimulateCpyM False i t = Inr s2 \<and> copied xd xs (unat count) (memory t) (memory s2)
    \<and> ReadXRegister n s2 = (0 :: u64) \<and> ReadXRegister d s2 = xd + (if ReadN t then 0 else count)
    \<and> ReadXRegister r s2 = xs + (if ReadN t then 0 else count)
    \<and> (\<forall>c < 32. c \<notin> {d, n, r} \<longrightarrow> ReadXRegister c s2 = (ReadXRegister c t :: u64))"
proof -
  let ?N = "ReadN t"
  let ?stride = "(if ?N then - 1 else 1) :: u64" and ?off = "(if ?N then 1 else 0) :: u64" and ?n = "unat count"
  let ?d = "xd + (if ?N then count else 0) - ?off" and ?r = "xs + (if ?N then count else 0) - ?off"
  have addr: "a + (if ?N then count else 0) - ?off + of_nat k * ?stride = a + of_nat (if ?N then ?n - 1 - k else k)"
    if "k < ?n" for a k
  proof -
    have "of_nat (?n - 1 - k) = (count - 1 - of_nat k :: u64)" using that by (simp add: of_nat_diff)
    then show ?thesis by (simp del: of_nat_diff add: algebra_simps)
  qed
  have updated: "memory (t\<lparr>memory := M, write_sink := u\<rparr>) = M" for M u by simp
  have ind: "(if ?N then ?n - 1 - k else k) < ?n" if "k < ?n" for k using that by auto
  obtain u where u: "copy_bytes ?stride ?n ?d ?r t = Inr (?d + of_nat ?n * ?stride, ?r + of_nat ?n * ?stride,
      t\<lparr>memory := copy_seq (\<lambda>k. AddressUntag (?d + of_nat k * ?stride)) (\<lambda>k. AddressUntag (?r + of_nat k * ?stride)) ?n
        (memory t), write_sink := u\<rparr>)" (is "_ = Inr (_, _, ?t)")
    using copy_bytes_result [of ?n StackGuardRead ?r ?stride t ?d] bytes ind unfolding bytes_ok_def by (auto simp only: addr)
  have m: "memory ?t = copy_seq (\<lambda>k. AddressUntag (xd + of_nat (if ?N then ?n - 1 - k else k)))
      (\<lambda>k. AddressUntag (xs + of_nat (if ?N then ?n - 1 - k else k))) ?n (memory t)"
    unfolding updated by (rule copy_seq_cong) (simp only: addr)
  have "copied xd xs ?n (memory t) (memory ?t)"
    unfolding m using copied_forwards [OF w] copied_backwards [OF w] dir by (cases ?N) simp_all
  moreover have "SimulateCpyM False i t = Inr (WriteXRegister r (xs + (if ?N then 0 else count))
      (WriteXRegister n (0 :: u64) (WriteXRegister d (xd + (if ?N then 0 else count)) ?t)))"
    using u by (simp add: SimulateCpyM_def assert_triplet_def assert_follows_def vixl_assert_def Let_def f [symmetric] regs
        algebra_simps split: if_splits)
  ultimately show ?thesis
    using ok by (intro exI conjI) (assumption | simp add: register_update ReadRegister_memory)+
qed

text \<open>The main instruction of a triplet has the operands of the prologue.\<close>

lemma bit_main_word:
  assumes "j < 22 \<or> 24 \<le> j"
  shows "bit (without_op MOPS_cpy bits OR push_bit 22 1) j \<longleftrightarrow> bit bits j"
proof -
  have three: "(3 :: u32) = mask 2" by (simp add: mask_eq_exp_minus_1)
  have "\<not> bit (push_bit 22 (mask 2) :: u32) j" "\<not> bit (push_bit 22 1 :: u32) j"
    using assms by (simp_all only: bit_push_bit_iff bit_mask_iff bit_1_iff) auto
  then show ?thesis
    using exp_eq_0_imp_not_bit [of j bits]
    by (auto simp only: without_op_def Mask_def op_lsb_def if_True three bit_or_iff bit_and_iff bit_not_iff_eq simp_thms)
qed

lemma bit_ExtractBits:
  assumes "lsb \<le> msb" "msb < 32"
  shows "bit (ExtractBits msb lsb bits) i \<longleftrightarrow> i + lsb \<le> msb \<and> bit bits (i + lsb)"
  using assms by (auto simp: ExtractBits_def ExtractUnsignedBitfield32_def bit_simps bit_ExtractUnsignedBitfield64 add.commute)

lemma ExtractBits_main:
  assumes "msb < 22 \<or> 24 \<le> lsb" "msb < 32" "lsb \<le> msb"
  shows "ExtractBits msb lsb (without_op MOPS_cpy bits OR push_bit 22 1) = ExtractBits msb lsb bits"
proof (rule bit_word_eqI)
  fix i
  show "bit (ExtractBits msb lsb (without_op MOPS_cpy bits OR push_bit 22 1)) i = bit (ExtractBits msb lsb bits) i"
    unfolding bit_ExtractBits [OF assms(3,2)] using assms(1) by (intro conj_cong refl bit_main_word) linarith
qed

lemma same_fields:
  "GetRd (without_op MOPS_cpy bits OR push_bit 22 1) = GetRd bits"
  "GetRn (without_op MOPS_cpy bits OR push_bit 22 1) = GetRn bits"
  "GetRs (without_op MOPS_cpy bits OR push_bit 22 1) = GetRs bits"
  unfolding GetRd_def GetRn_def GetRs_def by (rule ExtractBits_main; simp)+

lemma saturated_count_less: "unat (saturated_count MOPS_cpy x) < 2 ^ 55"
proof (cases "drop_bit 55 x = 0")
  case True
  have "unat (drop_bit 55 x) = unat x div 2 ^ 55" by (simp add: drop_bit_eq_div unat_div)
  with True have "unat x < 2 ^ 55" by (simp add: div_eq_0_iff)
  with True show ?thesis by (simp add: saturated_count_def Let_def)
qed (simp add: saturated_count_def Let_def)

text \<open>Between two instructions of a triplet only the program counter and the like change.\<close>

definition resumes :: "'v vsim \<Rightarrow> 'v vsim \<Rightarrow> bool" where
  "resumes s s' \<longleftrightarrow> xregs s' = xregs s \<and> nzcv s' = nzcv s \<and> memory s' = memory s \<and> same_access s s'"

text \<open>C15: A memory copy by the instructions CPYP and CPYM is \<open>memmove\<close>.  From any state in which the
  bytes of both ranges may be accessed and neither range wraps around the 56-bit address space, the
  prologue and the main part run to the end (the simulator may change its program counter and the
  like between the two), and every byte of the destination then holds what the corresponding byte
  of the source held before, for any overlap of the two; no other byte of memory and no other register
  changes, the count is 0, and the pointers are past the ranges, or at their start when the prologue
  found that it must copy backwards.\<close>

theorem copy_is_memmove:
  fixes s :: "'v vsim" and p m :: instruction
  defines "d \<equiv> rd_of (insn_bits p)" and "n \<equiv> rn_of (insn_bits p)" and "r \<equiv> rs_of (insn_bits p)"
  defines "xd \<equiv> ReadXRegister d s" and "xs \<equiv> ReadXRegister r s"
  defines "count \<equiv> saturated_count MOPS_cpy (ReadXRegister n s)"
  assumes "copy_operands (insn_bits p)" "IsMOPSMainOf (insn_bits m) MOPS_cpy (insn_bits p)"
    and "bytes_ok s xd (unat count)" "bytes_ok s xs (unat count)"
    and "unat (AddressUntag xd) + unat count \<le> 2 ^ 56" "unat (AddressUntag xs) + unat count \<le> 2 ^ 56"
  shows "\<exists>s1. SimulateCpyP False p s = Inr s1 \<and> (\<forall>t. resumes s1 t \<longrightarrow>
    (\<exists>s2. SimulateCpyM False m t = Inr s2
      \<and> (\<forall>k < unat count. memory s2 (AddressUntag (xd + of_nat k)) = memory s (AddressUntag (xs + of_nat k)))
      \<and> (\<forall>a. (\<forall>k < unat count. a \<noteq> AddressUntag (xd + of_nat k)) \<longrightarrow> memory s2 a = memory s a)
      \<and> ReadXRegister n s2 = (0 :: u64)
      \<and> ReadXRegister d s2 = xd + (if ReadN s1 then 0 else count)
      \<and> ReadXRegister r s2 = xs + (if ReadN s1 then 0 else count)
      \<and> (\<forall>c < 32. c \<notin> {d, n, r} \<longrightarrow> ReadXRegister c s2 = (ReadXRegister c s :: u64))))"
proof -
  let ?b = "insn_bits p"
  note lt = copy_operands_less [OF assms(7), folded d_def n_def r_def]
  have "unat count < 2 ^ 55" unfolding count_def by (rule saturated_count_less)
  note dir = copy_directions [OF assms(11,12) this]
  obtain s1 where s1: "SimulateCpyP False p s = Inr s1" "memory s1 = memory s" "same_access s s1"
    "ReadN s1 = copies_backwards xd xs count" "ReadXRegister n s1 = count"
    "ReadXRegister d s1 = xd + (if copies_backwards xd xs count then count else 0)"
    "ReadXRegister r s1 = xs + (if copies_backwards xd xs count then count else 0)"
    "\<forall>c < 32. c \<notin> {d, n, r} \<longrightarrow> ReadXRegister c s1 = (ReadXRegister c s :: u64)"
    using SimulateCpyP_result [OF assms(7) refl refl refl refl refl, of s]
    unfolding d_def n_def r_def xd_def xs_def count_def by blast
  have f: "rd_of (insn_bits m) = d" "rn_of (insn_bits m) = n" "rs_of (insn_bits m) = r"
    using assms(8) unfolding d_def n_def r_def by (simp_all only: IsMOPSMainOf_def same_fields op_lsb_def refl if_True)
  have main: "\<exists>s2. SimulateCpyM False m t = Inr s2 \<and> copied xd xs (unat count) (memory t) (memory s2)
    \<and> ReadXRegister n s2 = (0 :: u64) \<and> ReadXRegister d s2 = xd + (if ReadN t then 0 else count)
    \<and> ReadXRegister r s2 = xs + (if ReadN t then 0 else count)
    \<and> (\<forall>c < 32. c \<notin> {d, n, r} \<longrightarrow> ReadXRegister c s2 = (ReadXRegister c t :: u64))" if "resumes s1 t" for t
  proof (rule SimulateCpyM_result)
    have regs: "ReadXRegister c t = (ReadXRegister c s1 :: u64)" "ReadN t = ReadN s1" for c
      using that by (simp_all add: resumes_def ReadRegister_def ReadN_def)
    show "ReadXRegister n t = count" "ReadXRegister d t = xd + (if ReadN t then count else 0)"
      "ReadXRegister r t = xs + (if ReadN t then count else 0)"
      by (simp_all add: regs s1)
    have "same_access s t" using that s1(3) by (simp add: resumes_def same_access_def)
    with assms(9,10) show "bytes_ok t xd (unat count)" "bytes_ok t xs (unat count)"
      by (simp_all add: bytes_ok_def same_access_checks)
    show "if ReadN t then unat (AddressUntag xs) < unat (AddressUntag xd)
      else unat (AddressUntag xd) \<le> unat (AddressUntag xs) \<or> unat (AddressUntag xs) + unat count \<le> unat (AddressUntag xd)"
      using dir by (auto simp: regs s1)
  qed (use lt f assms(11,12) in auto)
  show ?thesis
  proof (rule exI [of _ s1], rule conjI, rule s1(1), intro allI impI)
    fix t assume t: "resumes s1 t"
    have "ReadN t = ReadN s1" "memory t = memory s" "\<And>c. ReadXRegister c t = (ReadXRegister c s1 :: u64)"
      using t s1(2) by (simp_all add: resumes_def ReadRegister_def ReadN_def)
    then obtain s2 where "SimulateCpyM False m t = Inr s2" "copied xd xs (unat count) (memory s) (memory s2)"
      "ReadXRegister n s2 = (0 :: u64)" "ReadXRegister d s2 = xd + (if ReadN s1 then 0 else count)"
      "ReadXRegister r s2 = xs + (if ReadN s1 then 0 else count)"
      "\<forall>c < 32. c \<notin> {d, n, r} \<longrightarrow> ReadXRegister c s2 = (ReadXRegister c s :: u64)"
      using main [OF t] s1(8) by auto
    then show "\<exists>s2. SimulateCpyM False m t = Inr s2
      \<and> (\<forall>k < unat count. memory s2 (AddressUntag (xd + of_nat k)) = memory s (AddressUntag (xs + of_nat k)))
      \<and> (\<forall>a. (\<forall>k < unat count. a \<noteq> AddressUntag (xd + of_nat k)) \<longrightarrow> memory s2 a = memory s a)
      \<and> ReadXRegister n s2 = (0 :: u64)
      \<and> ReadXRegister d s2 = xd + (if ReadN s1 then 0 else count)
      \<and> ReadXRegister r s2 = xs + (if ReadN s1 then 0 else count)
      \<and> (\<forall>c < 32. c \<notin> {d, n, r} \<longrightarrow> ReadXRegister c s2 = (ReadXRegister c s :: u64))"
      unfolding copied_def by blast
  qed
qed

text \<open>\<open>CPYP [x0]!, [x1]!, x2!\<close> and its main instruction, on two bytes with the destination one above the source.\<close>

definition cpyp_instr :: instruction where
  "cpyp_instr = \<lparr> insn_addr = 0x1000, insn_bits = 0x1D010440 \<rparr>"

definition cpym_instr :: instruction where
  "cpym_instr = \<lparr> insn_addr = 0x1004, insn_bits = 0x1D410440 \<rparr>"

definition cpy_vsim :: "'v vsim" where
  "cpy_vsim = blank_vsim\<lparr>xregs := (\<lambda>c. if c = 0 then 0x4001 else if c = 1 then 0x4000 else if c = 2 then 2 else 0),
     memory := (\<lambda>a. if a = 0x4000 then 7 else 9)\<rparr>"

lemma cpy_fields:
  "rd_of (insn_bits cpyp_instr) = 0" "rn_of (insn_bits cpyp_instr) = 2" "rs_of (insn_bits cpyp_instr) = 1"
  "ExtractBits 31 30 (insn_bits cpyp_instr) = 0"
  "IsMOPSMainOf (insn_bits cpym_instr) MOPS_cpy (insn_bits cpyp_instr)"
  by (simp_all add: cpyp_instr_def cpym_instr_def GetRd_def GetRn_def GetRs_def ExtractBits_def IsMOPSMainOf_def
      without_op_def Mask_def op_lsb_def ExtractUnsignedBitfield32_def ExtractUnsignedBitfield64_def)

lemma cpy_checks:
  "a \<in> {0x4000, 0x4001, 0x4002} \<Longrightarrow> access_checks e a 1 (cpy_vsim :: visitor vsim) = Inr ()"
  by (auto simp: access_checks_def IsMTETagsMatched_def cpy_vsim_def blank_vsim_def AddressUntag_def
      IsAccessInGuardRegion_def Allocate_def default_SimStack_def AlignUp_def Let_def)

theorem copy_is_memmove_witness:
  "\<exists>s1 s2. SimulateCpyP False cpyp_instr (cpy_vsim :: visitor vsim) = Inr s1 \<and> SimulateCpyM False cpym_instr s1 = Inr s2
    \<and> memory s2 0x4001 = 7 \<and> memory s2 0x4002 = 9"
proof -
  let ?s = "cpy_vsim :: visitor vsim"
  have r: "ReadXRegister 0 ?s = (0x4001 :: u64)" "ReadXRegister 1 ?s = (0x4000 :: u64)" "ReadXRegister 2 ?s = (2 :: u64)"
    by (simp_all add: ReadRegister_def cpy_vsim_def)
  have count: "saturated_count MOPS_cpy (2 :: u64) = 2" by (simp add: saturated_count_def)
  have b: "bytes_ok ?s 0x4001 2" "bytes_ok ?s 0x4000 2"
    using cpy_checks by (auto simp: bytes_ok_def numeral_eq_Suc less_Suc_eq)
  have ops: "copy_operands (insn_bits cpyp_instr)" by (simp add: copy_operands_def cpy_fields)
  have two: "unat (2 :: u64) = 2" and u: "AddressUntag 0x4001 = 0x4001" "AddressUntag 0x4002 = 0x4002" "AddressUntag 0x4000 = 0x4000"
    by (simp_all add: AddressUntag_def)
  have fits: "unat (0x4001 :: u64) + 2 \<le> 2 ^ 56" "unat (0x4000 :: u64) + 2 \<le> 2 ^ 56" by simp_all
  have self: "resumes t t" for t :: "visitor vsim" by (simp add: resumes_def)
  from copy_is_memmove [OF ops cpy_fields(5), of ?s, unfolded cpy_fields r count two u, OF b fits]
  obtain s1 s2 where s1: "SimulateCpyP False cpyp_instr ?s = Inr s1" and s2: "SimulateCpyM False cpym_instr s1 = Inr s2"
    "\<And>k. k < 2 \<Longrightarrow> memory s2 (AddressUntag (0x4001 + of_nat k)) = memory ?s (AddressUntag (0x4000 + of_nat k))"
    using self by blast
  show ?thesis
    using s1 s2(1) s2(2) [of 0] s2(2) [of 1] by (auto simp: u cpy_vsim_def)
qed

section \<open>The tag loop of a tagged set\<close>

lemma and_15: "x AND 15 = take_bit 4 x" for x :: u64
proof -
  have "(15 :: u64) = mask 4" by (simp add: mask_eq_exp_minus_1)
  then show ?thesis by (simp add: take_bit_eq_mask)
qed

lemma unat_and_15: "unat (x AND 15 :: u64) = unat x mod 16"
  unfolding and_15 by (simp add: unsigned_take_bit_eq take_bit_nat_def)

lemma uint_and_15: "uint (x AND 15 :: u64) = uint x mod 16"
  unfolding and_15 by (simp add: unsigned_take_bit_eq take_bit_int_def)

lemma tag_granules_unfold:
  "tag_granules dbg tag xd xn s =
    (if xn = 0 then Some (Inr s)
     else case set_tag dbg xd tag s of
            Inl e \<Rightarrow> Some (Inl e)
          | Inr s' \<Rightarrow> tag_granules dbg tag (xd + 16) (xn - 16) s')"
proof -
  have stop: "while_option tag_loop_continues (tag_loop_body dbg tag) (Inl e) = Some (Inl e)" for e
    by (subst while_option_unfold) (simp add: tag_loop_continues_def)
  show ?thesis
    unfolding tag_granules_def
    by (subst while_option_unfold) (simp add: tag_loop_continues_def tag_loop_body_def stop split: sum.split)
qed

definition tagged :: "u64 \<Rightarrow> nat \<Rightarrow> nat \<Rightarrow> (u64 \<rightharpoonup> nat) \<Rightarrow> (u64 \<rightharpoonup> nat)" where
  "tagged xd n tag T = (\<lambda>key. if \<exists>j < n. key = GenerateMTEkey (xd + of_nat (16 * j)) then Some tag else T key)"

lemma tag_granules_release:
  "unat xn = 16 * n \<Longrightarrow> tag_granules False tag xd xn s = Some (Inr (s\<lparr>mte_tags := tagged xd n tag (mte_tags s)\<rparr>))"
proof (induction n arbitrary: xd xn s)
  case 0
  then have "xn = 0" by (simp add: unat_eq_0)
  then show ?case by (subst tag_granules_unfold) (simp add: tagged_def)
next
  case (Suc n)
  then have nz: "xn \<noteq> 0" by auto
  have "unat (xn - 16) = 16 * n"
    using Suc.prems by (subst unat_sub) (simp_all add: word_le_nat_alt)
  note IH = Suc.IH [OF this]
  have shift: "xd + 16 + of_nat (16 * j) = xd + of_nat (16 * Suc j)" for j by simp
  have eq: "tagged (xd + 16) n tag ((mte_tags s)(GenerateMTEkey xd \<mapsto> tag)) = tagged xd (Suc n) tag (mte_tags s)"
    unfolding tagged_def shift by (rule ext) (auto simp: less_Suc_eq_0_disj)
  show ?case
    by (subst tag_granules_unfold) (simp add: nz set_tag_def vixl_assert_def SetMTETag_def IH eq del: fun_upd_apply)
qed

text \<open>The loop ends only for whole granules.\<close>

lemma tag_granules_diverges:
  assumes "xn AND 15 \<noteq> 0"
  shows "tag_granules False tag xd xn s = None"
proof (rule ccontr)
  let ?w = "while_option tag_loop_continues (tag_loop_body False tag) (Inr (xd, xn, s))"
  assume "tag_granules False tag xd xn s \<noteq> None"
  then obtain st where st: "?w = Some st" by (auto simp: tag_granules_def)
  have "case st of Inl e \<Rightarrow> False | Inr (xd, xn, s) \<Rightarrow> xn AND 15 \<noteq> 0"
  proof (rule while_option_rule [OF _ st])
    have m: "(x - 16) AND 15 = x AND 15" for x :: u64
    proof -
      have "uint (x - 16) mod 16 = (uint x - 16) mod 16" by (simp add: uint_word_ariths mod_mod_cancel)
      also have "\<dots> = uint x mod 16" by (rule minus_mod_self2)
      finally show ?thesis by (simp only: word_uint_eq_iff uint_and_15)
    qed
    show "case tag_loop_body False tag t of Inl e \<Rightarrow> False | Inr (xd, xn, s) \<Rightarrow> xn AND 15 \<noteq> 0"
      if "case t of Inl e \<Rightarrow> False | Inr (xd, xn, s) \<Rightarrow> xn AND 15 \<noteq> 0" for t
      using that by (auto simp: tag_loop_body_def set_tag_def vixl_assert_def m split: sum.splits)
  qed (use assms in simp)
  moreover have "\<not> tag_loop_continues st" using while_option_stop [OF st] .
  ultimately show False by (auto simp: tag_loop_continues_def split: sum.splits)
qed

lemma SimulateSetGP_result:
  assumes "SimulateSetGP False p s = Inr s1"
  shows "ReadXRegister (rn_of (insn_bits p)) s1 AND 15 = (0 :: u64)"
    "ReadXRegister (rn_of (insn_bits p)) s1 \<noteq> (0 :: u64) \<Longrightarrow> ReadXRegister (rd_of (insn_bits p)) s1 AND 15 = (0 :: u64)"
    "distinct [rd_of (insn_bits p), rn_of (insn_bits p), 31]" "rd_of (insn_bits p) \<noteq> rs_of (insn_bits p)"
    "rn_of (insn_bits p) \<noteq> rs_of (insn_bits p)"
  using assms
  by (auto simp: SimulateSetGP_def MOPSPHelper_def assert_triplet_def VisitUnallocated_def Let_def IsAligned_def
      kMTETagGranuleInBytes_def word_gt_0 split: if_splits)

lemma tag_of_offset:
  assumes "unat (AddressUntag xd) + k < 2 ^ 56"
  shows "GetAllocationTagFromAddress (xd + of_nat k) = GetAllocationTagFromAddress xd"
proof -
  have tag: "GetAllocationTagFromAddress a = unat a div 2 ^ 56 mod 16" for a
  proof -
    have "ExtractUnsignedBitfield64 59 56 a = take_bit 4 (drop_bit 56 a)" by (simp add: ExtractUnsignedBitfield64_eq)
    then show ?thesis
      by (simp only: GetAllocationTagFromAddress_def unsigned_take_bit_eq take_bit_nat_def) (simp add: drop_bit_eq_div unat_div)
  qed
  define Q R where "Q = unat xd div 2 ^ 56" and "R = unat xd mod 2 ^ 56"
  have U: "R + k < 2 ^ 56" using assms by (simp only: unat_untag R_def)
  have split: "unat xd = Q * 2 ^ 56 + R" by (simp add: Q_def R_def)
  have "unat xd < 2 ^ LENGTH(64)" by (rule unsigned_less)
  then have "Q < 256" by (simp add: Q_def less_mult_imp_div_less)
  with split U have "unat xd + k < 2 ^ 64" by simp
  then have "unat (xd + of_nat k) = unat xd + k" using U by (simp add: unat_word_ariths unat_of_nat)
  moreover have "(unat xd + k) div 2 ^ 56 = Q"
    unfolding split by (subst add.assoc, subst div_mult_self3) (use U in simp_all)
  ultimately show ?thesis by (simp only: tag Q_def)
qed

lemma unat_key: "unat (GenerateMTEkey a) = unat (AddressUntag a) div 16"
  by (simp add: GenerateMTEkey_def drop_bit_eq_div unat_div)

lemma key_of_offset:
  assumes "xd AND 15 = 0" "unat (AddressUntag xd) + k < 2 ^ 56"
  shows "GenerateMTEkey (xd + of_nat k) = GenerateMTEkey (xd + of_nat (16 * (k div 16)))"
proof -
  have "unat xd mod 16 = 0" using arg_cong [OF assms(1), of unat] by (simp only: unat_and_15 unat_0)
  then have "unat (AddressUntag xd) mod 16 = 0" by (simp only: unat_untag) (simp add: mod_mod_cancel)
  then obtain q where q: "unat (AddressUntag xd) = 16 * q" by auto
  have "unat (AddressUntag (xd + of_nat k)) = 16 * q + k" using assms(2) by (simp add: unat_untag_add q)
  moreover have "unat (AddressUntag (xd + of_nat (16 * (k div 16)))) = 16 * q + 16 * (k div 16)"
  proof -
    have "16 * (k div 16) \<le> k" by simp
    with assms(2) have "unat (AddressUntag xd) + 16 * (k div 16) < 2 ^ 56" by linarith
    from unat_untag_add [OF this] show ?thesis by (simp only: q)
  qed
  ultimately have "unat (GenerateMTEkey (xd + of_nat k)) = unat (GenerateMTEkey (xd + of_nat (16 * (k div 16))))"
    by (simp only: unat_key) simp
  then show ?thesis by (simp only: word_unat_eq_iff)
qed

text \<open>A tagged set ends and does what it says.  When the prologue SETGP accepts its operands the count is
  a whole number of granules, so the loop over the granules in the main part SETGM comes to an end
  (it would not for any other count).  If no byte of the range lies in a guard region of the stack, the
  main part then completes with tag checks on or off: every byte of the range holds the low byte of the
  source register, every granule of it has the tag of the pointer, all other memory and tags are
  unchanged, the pointer is past the range and the count 0.\<close>

theorem tagged_set_fills:
  fixes s :: "'v vsim" and p m :: instruction
  defines "d \<equiv> rd_of (insn_bits p)" and "n \<equiv> rn_of (insn_bits p)" and "r \<equiv> rs_of (insn_bits p)"
  assumes "SimulateSetGP False p s = Inr s1" "resumes s1 t"
    and "rd_of (insn_bits m) = d" "rn_of (insn_bits m) = n" "rs_of (insn_bits m) = r"
    and "xd = ReadXRegister d t" "count = unat (ReadXRegister n t :: u64)" "tag = GetAllocationTagFromAddress xd"
    and "unat (AddressUntag xd) + count \<le> 2 ^ 56"
    and "\<And>k. k < count \<Longrightarrow> \<not> IsAccessInGuardRegion (stack t) (AddressUntag (xd + of_nat k)) 1"
  shows "tag_granules False tag xd (ReadXRegister n t) t \<noteq> None
    \<and> (\<forall>xn. xn AND 15 \<noteq> 0 \<longrightarrow> tag_granules False tag xd xn t = None)
    \<and> (\<exists>u. SimulateSetGM False m t = Inr u
    \<and> memory u = (\<lambda>a. if \<exists>k < count. a = AddressUntag (xd + of_nat k) then ucast (ReadXRegister r t :: u64) else memory t a)
    \<and> mte_tags u = (\<lambda>key. if \<exists>k < count. key = GenerateMTEkey (xd + of_nat k) then Some tag else mte_tags t key)
    \<and> ReadXRegister d u = xd + of_nat count \<and> ReadXRegister n u = (0 :: u64))"
proof -
  have regs: "ReadXRegister c t = (ReadXRegister c s1 :: u64)" for c
    using assms(5) by (simp add: resumes_def ReadRegister_def)
  note p = SimulateSetGP_result [OF assms(4), folded d_def n_def r_def, folded regs]
  define N where "N = count div 16"
  have whole: "unat (ReadXRegister n t :: u64) = 16 * N"
    using arg_cong [OF p(1), of unat] by (simp only: unat_and_15 N_def assms(10)) auto
  then have count: "count = 16 * N" by (simp add: assms(10))
  have aligned: "xd AND 15 = 0" if "0 < count"
    unfolding assms(9) using that by (intro p(2)) (auto simp: assms(10))
  let ?T = "tagged xd N tag (mte_tags t)" and ?v = "ucast (ReadXRegister r t :: u64) :: u8"
  let ?t = "t\<lparr>mte_tags := ?T\<rparr>"
  have T: "?T = (\<lambda>key. if \<exists>k < count. key = GenerateMTEkey (xd + of_nat k) then Some tag else mte_tags t key)"
  proof -
    have "(\<exists>j < N. key = GenerateMTEkey (xd + of_nat (16 * j))) \<longleftrightarrow> (\<exists>k < count. key = GenerateMTEkey (xd + of_nat k))" for key
    proof
      assume "\<exists>j < N. key = GenerateMTEkey (xd + of_nat (16 * j))"
      then obtain j where "j < N" "key = GenerateMTEkey (xd + of_nat (16 * j))" by blast
      then show "\<exists>k < count. key = GenerateMTEkey (xd + of_nat k)" by (intro exI [of _ "16 * j"]) (simp add: count)
    next
      assume "\<exists>k < count. key = GenerateMTEkey (xd + of_nat k)"
      then obtain k where k: "k < count" "key = GenerateMTEkey (xd + of_nat k)" by blast
      with key_of_offset [of xd k] aligned assms(12) have "key = GenerateMTEkey (xd + of_nat (16 * (k div 16)))" by simp
      moreover have "k div 16 < N" using k(1) by (simp add: count less_mult_imp_div_less mult.commute)
      ultimately show "\<exists>j < N. key = GenerateMTEkey (xd + of_nat (16 * j))" by blast
    qed
    then show ?thesis by (simp add: tagged_def)
  qed
  have "access_checks StackGuardWrite (xd + of_nat k) 1 ?t = Inr ()" if k: "k < count" for k
  proof -
    have "GenerateMTEkey (AddressUntag a) = GenerateMTEkey a" for a
      by (simp add: GenerateMTEkey_def AddressUntag_def)
    moreover have "?T (GenerateMTEkey (xd + of_nat k)) = Some tag" using k by (auto simp: T)
    moreover have "GetAllocationTagFromAddress (xd + of_nat k) = tag"
      using tag_of_offset [of xd k] assms(11,12) k by simp
    ultimately show ?thesis
      using assms(13) [OF k] by (auto simp: access_checks_def IsMTETagsMatched_def GetMTETag_def)
  qed
  note filled = set_bytes_result [of count StackGuardWrite xd ?t ?v, OF this]
  have "memory ?t = memory t" by simp
  from filled [unfolded this] obtain w where
    w: "set_bytes count ?v xd ?t = Inr (xd + of_nat count,
      ?t\<lparr>memory := (\<lambda>a. if \<exists>k < count. a = AddressUntag (xd + of_nat k) then ?v else memory t a), write_sink := w\<rparr>)" by blast
  have g: "tag_granules False tag xd (ReadXRegister n t) t = Some (Inr ?t)"
    by (rule tag_granules_release [OF whole])
  have "ReadXRegister c ?t = (ReadXRegister c t :: u64)" for c by (simp add: ReadRegister_def)
  with g have "SimulateSetGM False m t = Inr (WriteXRegister n (0 :: u64) (WriteXRegister d (xd + of_nat count)
      (?t\<lparr>memory := (\<lambda>a. if \<exists>k < count. a = AddressUntag (xd + of_nat k) then ?v else memory t a), write_sink := w\<rparr>)))"
    using w by (simp add: SimulateSetGM_def SimulateSetM_def assert_triplet_def assert_follows_def vixl_assert_def Let_def
        assms(6-8) assms(9-11) [symmetric])
  moreover have "d < 31" "n < 31" "d \<noteq> n"
    using p(3) register_number_less [of "insn_bits p"] by (auto simp: d_def n_def less_Suc_eq)
  moreover have "mte_tags (WriteRegister c v md u) = mte_tags u" for c md and v :: u64 and u :: "'v vsim"
    by (simp add: WriteRegister_def Let_def)
  ultimately have "\<exists>u. SimulateSetGM False m t = Inr u
    \<and> memory u = (\<lambda>a. if \<exists>k < count. a = AddressUntag (xd + of_nat k) then ?v else memory t a)
    \<and> mte_tags u = ?T \<and> ReadXRegister d u = xd + of_nat count \<and> ReadXRegister n u = (0 :: u64)"
    by (intro exI conjI) (assumption | simp add: register_update)+
  with g show ?thesis unfolding T by (simp add: tag_granules_diverges)
qed

text \<open>\<open>SETGP [x0]!, x2!, x1\<close> and its main instruction, on one granule with tag 3.\<close>

definition setg_instr :: "u32 \<Rightarrow> instruction" where
  "setg_instr op = \<lparr> insn_addr = 0x1000, insn_bits = 0x1DC10440 OR push_bit 14 op \<rparr>"

definition setg_vsim :: "'v vsim" where
  "setg_vsim = blank_vsim\<lparr>mte_active := True,
     xregs := (\<lambda>c. if c = 0 then 0x0300000000004000 else if c = 1 then 0x55 else if c = 2 then 16 else 0)\<rparr>"

lemma setg_fields:
  "op \<in> {0, 1} \<Longrightarrow> rd_of (insn_bits (setg_instr op)) = 0" "op \<in> {0, 1} \<Longrightarrow> rn_of (insn_bits (setg_instr op)) = 2"
  "op \<in> {0, 1} \<Longrightarrow> rs_of (insn_bits (setg_instr op)) = 1" "ExtractBits 31 30 (insn_bits (setg_instr 0)) = 0"
  by (auto simp: setg_instr_def GetRd_def GetRn_def GetRs_def ExtractBits_def ExtractUnsignedBitfield32_def
      ExtractUnsignedBitfield64_def)

lemma setg_prologue:
  "\<exists>s1. SimulateSetGP False (setg_instr 0) (setg_vsim :: visitor vsim) = Inr s1 \<and> xregs s1 = xregs (setg_vsim :: visitor vsim)
    \<and> stack s1 = Allocate 0x100000 default_SimStack"
proof -
  have "saturated_count MOPS_setg (16 :: u64) = 16" by (simp add: saturated_count_def)
  moreover have "ReadXRegister 0 (setg_vsim :: visitor vsim) = (0x0300000000004000 :: u64)"
    "ReadXRegister 2 (setg_vsim :: visitor vsim) = (16 :: u64)" "stack (setg_vsim :: visitor vsim) = Allocate 0x100000 default_SimStack"
    by (simp_all add: ReadRegister_def setg_vsim_def blank_vsim_def)
  ultimately show ?thesis
    by (simp add: SimulateSetGP_def MOPSPHelper_def assert_triplet_def Let_def setg_fields flag_updates IsAligned_def
        kMTETagGranuleInBytes_def word_gt_0) (simp add: SetN_def SetZ_def SetC_def SetV_def)
qed

lemma setg_guard:
  "k < 16 \<Longrightarrow> \<not> IsAccessInGuardRegion (Allocate 0x100000 default_SimStack) (AddressUntag (0x0300000000004000 + of_nat k)) 1"
  by (simp add: numeral_eq_Suc less_Suc_eq) (elim disjE; simp add: AddressUntag_def IsAccessInGuardRegion_def
      Allocate_def default_SimStack_def AlignUp_def Let_def)

theorem tagged_set_fills_witness:
  "\<exists>s1 u. SimulateSetGP False (setg_instr 0) (setg_vsim :: visitor vsim) = Inr s1
    \<and> SimulateSetGM False (setg_instr 1) s1 = Inr u \<and> memory u 0x400f = 0x55 \<and> mte_tags u 0x400 = Some 3"
proof -
  obtain s1 where s1: "SimulateSetGP False (setg_instr 0) (setg_vsim :: visitor vsim) = Inr s1"
    "xregs s1 = xregs (setg_vsim :: visitor vsim)" "stack s1 = Allocate 0x100000 default_SimStack"
    using setg_prologue by blast
  have self: "resumes s1 s1" by (simp add: resumes_def)
  have x: "ReadXRegister 0 s1 = (0x0300000000004000 :: u64)" "ReadXRegister 1 s1 = (0x55 :: u64)" "ReadXRegister 2 s1 = (16 :: u64)"
    by (simp_all add: ReadRegister_def s1(2) setg_vsim_def)
  have nw: "unat (AddressUntag 0x0300000000004000) \<le> 72057594037927920" by (simp add: AddressUntag_def)
  have v: "GetAllocationTagFromAddress 0x0300000000004000 = 3"
    "unat (16 :: u64) = 16" "ucast (0x55 :: u64) = (0x55 :: u8)"
    by (simp_all add: GetAllocationTagFromAddress_def ExtractUnsignedBitfield64_def)
  have f: "rd_of (insn_bits (setg_instr 0)) = 0" "rn_of (insn_bits (setg_instr 0)) = 2" "rs_of (insn_bits (setg_instr 0)) = 1"
    "rd_of (insn_bits (setg_instr 1)) = 0" "rn_of (insn_bits (setg_instr 1)) = 2" "rs_of (insn_bits (setg_instr 1)) = 1"
    by (simp_all only: setg_fields insert_iff simp_thms)
  from tagged_set_fills [OF s1(1) self, of "setg_instr 1" "ReadXRegister 0 s1" 16 3, unfolded f, OF refl refl refl refl]
  obtain u where "SimulateSetGM False (setg_instr 1) s1 = Inr u"
    "memory u = (\<lambda>a. if \<exists>k < 16. a = AddressUntag (0x0300000000004000 + of_nat k) then 0x55 else memory s1 a)"
    "mte_tags u = (\<lambda>key. if \<exists>k < 16. key = GenerateMTEkey (0x0300000000004000 + of_nat k) then Some 3 else mte_tags s1 key)"
    unfolding x v s1(3) using setg_guard nw by auto
  moreover have "\<exists>k < (16 :: nat). 0x400f = AddressUntag (0x0300000000004000 + of_nat k)"
    "\<exists>k < (16 :: nat). 0x400 = GenerateMTEkey (0x0300000000004000 + of_nat k)"
    by (rule exI [of _ 15], simp add: AddressUntag_def, rule exI [of _ 0], simp add: AddressUntag_def GenerateMTEkey_def)
  ultimately show ?thesis using s1(1) by auto
qed

end
