(* ===== verification/Monitor_Contracts.thy ===== *)
theory Monitor_Contracts
  imports Memory_Contracts
begin

text \<open>
  What the two exclusive monitors promise: when an exclusive store takes place and what
  it reports, that a cleared monitor refuses it, and that a loop that tries again is
  let through in the end, which depends on the generator of the global monitor.
\<close>

section \<open>Frames\<close>

lemma MemWriteT_frame:
  assumes "MemWriteT a v s = Inr s'"
  shows "xregs s' = xregs s \<and> local_monitor s' = local_monitor s"
  using MemWrite_frame [OF assms [unfolded MemWriteT_def]] by simp

lemma store_pair_frame:
  assumes "store_pair v w a b s = Inr s'"
  shows "xregs s' = xregs s \<and> local_monitor s' = local_monitor s"
  using assms by (auto simp: store_pair_def dest!: MemWriteT_frame)

lemma store_exclusive_op_frame:
  assumes "store_exclusive_op op rt rt2 a b s = Inr s'"
  shows "xregs s' = xregs s \<and> local_monitor s' = local_monitor s"
  using assms unfolding store_exclusive_op_def
  by (simp split: if_splits) (auto dest: MemWriteT_frame store_pair_frame)

section \<open>Exclusive stores\<close>

definition exclusive_stores :: "u32 set" where
  "exclusive_stores =
     {STXRB_w, STLXRB_w, STXRH_w, STLXRH_w, STXR_w, STLXR_w, STXR_x, STLXR_x, STXP_w, STLXP_w, STXP_x, STLXP_x}"

text \<open>The number of bytes an exclusive access names.\<close>

definition exclusive_size :: "u32 \<Rightarrow> u64" where
  "exclusive_size bits =
     (let element_size = push_bit (unat (GetLdStXSizeLog2 bits)) 1
      in if GetLdStXPair bits \<noteq> 0 then element_size * 2 else element_size)"

lemma exclusive_store_fields:
  assumes "Mask LoadStoreExclusiveMask bits \<in> exclusive_stores"
  shows "GetLdStXNotExclusive bits = 0" "GetLdStXLoad bits = 0"
proof -
  have x: "ExtractBits i i (Mask LoadStoreExclusiveMask bits) = ExtractBits i i bits" if "i = 22 \<or> i = 23" for i
    using that by (intro word_eq_bitI)
      (auto simp: Mask_def ExtractBits_def ExtractUnsignedBitfield32_def bit_simps bit_ExtractUnsignedBitfield64)
  show "GetLdStXNotExclusive bits = 0" "GetLdStXLoad bits = 0"
    using assms x [of 23] x [of 22]
    by (auto simp: exclusive_stores_def GetLdStXNotExclusive_def GetLdStXLoad_def ExtractBits_def
        ExtractUnsignedBitfield32_def ExtractUnsignedBitfield64_def)
qed


lemma exclusive_size_nonzero: "exclusive_size bits \<noteq> 0"
proof -
  have "unat (GetLdStXSizeLog2 bits) < 4"
    using unat_ExtractBits_less [of 30 31 bits] by (simp add: GetLdStXSizeLog2_def)
  then have "unat (GetLdStXSizeLog2 bits) \<in> {0, 1, 2, 3}" by auto
  then show ?thesis by (auto simp: exclusive_size_def Let_def)
qed

text \<open>Whether the monitors let an exclusive store of \<open>n\<close> bytes at \<open>a\<close> through.\<close>

definition granted :: "u64 \<Rightarrow> u64 \<Rightarrow> 'v vsim \<Rightarrow> bool" where
  "granted a n s \<longleftrightarrow> lm_size (local_monitor s) = n \<and> lm_address (local_monitor s) = a
     \<and> gm_seed (global_monitor s) mod 8 \<noteq> 0"

lemma exclusive_check_granted:
  "fst (exclusive_check a n s) = granted a n s"
  "xregs (snd (exclusive_check a n s)) = xregs s" "memory (snd (exclusive_check a n s)) = memory s"
  "local_monitor (snd (exclusive_check a n s)) = local_monitor s"
  by (auto simp: exclusive_check_def local_IsExclusive_def global_IsExclusive_def granted_def Let_def)

lemma not_compare_and_swap:
  assumes "op \<in> exclusive_stores"
  shows "(if op \<in> {CAS_w, CASA_w, CASL_w, CASAL_w} then x1 else if op \<in> {CAS_x, CASA_x, CASL_x, CASAL_x} then x2
    else if op \<in> {CASB, CASAB, CASLB, CASALB} then x3 else if op \<in> {CASH, CASAH, CASLH, CASALH} then x4
    else if op \<in> {CASP_w, CASPA_w, CASPL_w, CASPAL_w} then x5
    else if op \<in> {CASP_x, CASPA_x, CASPL_x, CASPAL_x} then x6 else y) = y"
  using assms unfolding exclusive_stores_def by (elim insertE emptyE) simp_all

lemma exclusive_store:
  assumes "VisitLoadStoreExclusive u instr s = Inr s'" "Mask LoadStoreExclusiveMask (insn_bits instr) \<in> exclusive_stores"
  defines "bits \<equiv> insn_bits instr"
  defines "a \<equiv> ReadRegister (rn_of bits) Reg31IsStackPointer s" and "n \<equiv> exclusive_size bits"
  obtains t k where "xregs t = xregs (WriteWRegister (rs_of bits) (if granted a n s then 0 else 1) s)"
    "memory t = memory s" "lm_address (local_monitor t) = 0" "lm_size (local_monitor t) = 0"
    "if granted a n s
     then store_exclusive_op (Mask LoadStoreExclusiveMask bits) (rt_of bits) (rt2_of bits) a (a + k) t = Inr s'
     else s' = t"
proof -
  note f = exclusive_store_fields [OF assms(2)]
  obtain ok c where c: "exclusive_check a n s = (ok, c)" by (cases "exclusive_check a n s")
  define t where "t = local_Clear (WriteWRegister (rs_of bits) (if ok then 0 else 1) c)"
  have ok: "ok = granted a n s" "xregs c = xregs s" "memory c = memory s"
    using exclusive_check_granted [of a n s] by (simp_all add: c)
  have d: "VisitLoadStoreExclusive u instr s = VisitLoadStoreExclusive_default u instr s"
    unfolding VisitLoadStoreExclusive_def Let_def by (rule not_compare_and_swap [OF assms(2)])
  define op k where "op = Mask LoadStoreExclusiveMask bits" and "k = (push_bit (unat (GetLdStXSizeLog2 bits)) 1 :: u64)"
  have "VisitLoadStoreExclusive_default u instr s =
      and_then (CheckIsValidUnalignedAtomicAccess u (rn_of bits) a n)
        (\<lambda>_. if ok then store_exclusive_op op (rt_of bits) (rt2_of bits) a (a + k) t else Inr t)"
    unfolding VisitLoadStoreExclusive_default_def bits_def [symmetric] Let_def a_def [symmetric]
      op_def [symmetric] k_def [symmetric]
      n_def [unfolded exclusive_size_def Let_def, folded k_def, symmetric] c t_def
    using f unfolding bits_def [symmetric] by simp
  then have "if granted a n s
     then store_exclusive_op (Mask LoadStoreExclusiveMask bits) (rt_of bits) (rt2_of bits) a (a + k) t = Inr s'
     else s' = t"
    using assms(1) unfolding d op_def ok(1)
    by (cases "CheckIsValidUnalignedAtomicAccess u (rn_of bits) a n") (simp_all split: if_splits)
  moreover have "xregs t = xregs (WriteWRegister (rs_of bits) (if granted a n s then 0 else 1) s)"
      "memory t = memory s" "lm_address (local_monitor t) = 0" "lm_size (local_monitor t) = 0"
    by (simp_all add: t_def local_Clear_def WriteRegister_def ok)
  ultimately show ?thesis using that by blast
qed

section \<open>Properties\<close>

text \<open>C5: An exclusive store that completes reports in its status register whether it took place: 0 when
  the local monitor holds exactly its address and size and the global monitor lets it pass, else 1, and
  then memory is untouched.  Either way the local monitor is cleared, so that a second exclusive store
  is refused, and no other register changes.\<close>

theorem exclusive_store_status:
  assumes "VisitLoadStoreExclusive u instr s = Inr s'"
    and "Mask LoadStoreExclusiveMask (insn_bits instr) \<in> exclusive_stores"
    and "ok = granted (ReadRegister (rn_of (insn_bits instr)) Reg31IsStackPointer s) (exclusive_size (insn_bits instr)) s"
  shows "xregs s' = xregs (WriteWRegister (rs_of (insn_bits instr)) (if ok then 0 else 1) s)
    \<and> (\<not> ok \<longrightarrow> memory s' = memory s)
    \<and> \<not> granted b (exclusive_size bits') s'"
proof -
  let ?bits = "insn_bits instr"
  let ?a = "ReadRegister (rn_of ?bits) Reg31IsStackPointer s"
  obtain t k where t: "xregs t = xregs (WriteWRegister (rs_of ?bits) (if ok then 0 else 1) s)"
    "memory t = memory s" "lm_address (local_monitor t) = 0" "lm_size (local_monitor t) = 0"
    and op: "if ok
     then store_exclusive_op (Mask LoadStoreExclusiveMask ?bits) (rt_of ?bits) (rt2_of ?bits) ?a (?a + k) t = Inr s'
     else s' = t"
    by (rule exclusive_store [OF assms(1,2), folded assms(3)])
  have "xregs s' = xregs t \<and> local_monitor s' = local_monitor t"
    using op by (cases ok) (auto dest: store_exclusive_op_frame)
  moreover have "\<not> ok \<longrightarrow> s' = t" using op by simp
  ultimately show ?thesis
    using t exclusive_size_nonzero [of bits'] by (auto simp: granted_def)
qed


text \<open>\<open>STXR W1, X3, [X2]\<close> on a monitor that holds the eight bytes at 0x4000.\<close>

definition stxr_instr :: instruction where
  "stxr_instr = \<lparr> insn_addr = 0, insn_bits = 0xC8017C43 \<rparr>"

definition marked_vsim :: "visitor vsim" where
  "marked_vsim = local_MarkExclusive 0x4000 8 ((byte_vsim ret_vsim)\<lparr>global_monitor := \<lparr> gm_seed = 1 \<rparr>\<rparr>)"

lemma stxr_fields:
  "Mask LoadStoreExclusiveMask (insn_bits stxr_instr) = STXR_x" "rn_of (insn_bits stxr_instr) = 2"
  "rs_of (insn_bits stxr_instr) = 1" "rt_of (insn_bits stxr_instr) = 3"
  "GetLdStXSizeLog2 (insn_bits stxr_instr) = 3" "GetLdStXPair (insn_bits stxr_instr) = 0"
  by (simp_all add: stxr_instr_def Mask_def GetRn_def GetRs_def GetRt_def GetLdStXSizeLog2_def GetLdStXPair_def
      ExtractBits_def ExtractUnsignedBitfield32_def ExtractUnsignedBitfield64_def)

lemma marked_fields [simp]:
  "xregs marked_vsim = (\<lambda>r. if r = 2 then 0x4000 else 0)" "mte_active marked_vsim = False"
  "stack marked_vsim = Allocate 0x100000 default_SimStack" "global_monitor marked_vsim = \<lparr> gm_seed = 1 \<rparr>"
  "lm_size (local_monitor marked_vsim) = 8" "lm_address (local_monitor marked_vsim) = 0x4000"
  by (simp_all add: marked_vsim_def local_MarkExclusive_def)

lemma guard_4000_8: "IsAccessInGuardRegion (Allocate 0x100000 default_SimStack) 0x4000 8 = False"
  by (simp add: IsAccessInGuardRegion_def Allocate_def default_SimStack_def AlignUp_def Let_def)

lemma stxr_runs: "\<exists>s'. VisitLoadStoreExclusive False stxr_instr marked_vsim = Inr s'"
proof -
  let ?c = "(WriteWRegister 1 0 (marked_vsim\<lparr>global_monitor := \<lparr> gm_seed = next_seed 1 \<rparr>\<rparr>)) :: visitor vsim"
  have m: "Mask LoadStoreExclusiveMask (insn_bits stxr_instr) \<in> exclusive_stores"
    by (simp add: stxr_fields exclusive_stores_def)
  have d: "VisitLoadStoreExclusive False stxr_instr marked_vsim = VisitLoadStoreExclusive_default False stxr_instr marked_vsim"
    unfolding VisitLoadStoreExclusive_def Let_def by (rule not_compare_and_swap [OF m])
  have rn: "ReadRegister 2 Reg31IsStackPointer marked_vsim = (0x4000 :: u64)" by (simp add: ReadRegister_def)
  have chk: "CheckIsValidUnalignedAtomicAccess False 2 0x4000 8 = Inr ()"
    by (simp add: CheckIsValidUnalignedAtomicAccess_def AlignDown_def)
  have x: "exclusive_check 0x4000 8 marked_vsim = (True, marked_vsim\<lparr>global_monitor := \<lparr> gm_seed = next_seed 1 \<rparr>\<rparr>)"
    by (simp add: exclusive_check_def local_IsExclusive_def global_IsExclusive_def Let_def)
  have "access_checks StackGuardWrite 0x4000 8 (local_Clear ?c) = Inr ()"
    using guard_4000_8
    by (simp add: access_checks_def IsMTETagsMatched_def untag_4000 local_Clear_def WriteRegister_def)
  then have "\<exists>s'. store_exclusive_op STXR_x 3 r 0x4000 b (local_Clear ?c) = Inr s'" for r b
    using MemWriteT_ok [of "0x4000" "local_Clear ?c" "ReadXRegister 3 (local_Clear ?c)"]
    by (simp add: store_exclusive_op_def)
  then show ?thesis
    unfolding d VisitLoadStoreExclusive_default_def Let_def stxr_fields
    using exclusive_store_fields [OF m] chk x by (simp add: rn)
qed

theorem exclusive_store_status_witness:
  "\<exists>s'. VisitLoadStoreExclusive False stxr_instr marked_vsim = Inr s' \<and> xregs s' 1 = 0
     \<and> \<not> granted 0x4000 (exclusive_size (insn_bits stxr_instr)) s'"
proof -
  obtain s' where s': "VisitLoadStoreExclusive False stxr_instr marked_vsim = Inr s'"
    using stxr_runs by blast
  have "Mask LoadStoreExclusiveMask (insn_bits stxr_instr) \<in> exclusive_stores"
    by (simp add: stxr_fields exclusive_stores_def)
  note exclusive_store_status [OF s' this refl, of "0x4000" "insn_bits stxr_instr"]
  moreover have "granted (ReadRegister (rn_of (insn_bits stxr_instr)) Reg31IsStackPointer marked_vsim)
      (exclusive_size (insn_bits stxr_instr)) marked_vsim"
    by (simp add: granted_def stxr_fields exclusive_size_def ReadRegister_def)
  ultimately show ?thesis using s' by (simp add: stxr_fields WriteRegister_def)
qed


section \<open>The generator of the global monitor\<close>

text \<open>One step of the generator on naturals.\<close>

definition lcg :: "nat \<Rightarrow> nat" where
  "lcg x = (x * 48271 mod 2 ^ 32) mod 2147483647"

lemma unat_next_seed: "unat (next_seed s) = lcg (unat s)"
  by (simp add: next_seed_def lcg_def unat_mod unat_word_ariths)

lemma lcg_stuck:
  assumes "8 dvd x" "8 dvd lcg x"
  shows "lcg x = x * 48271 mod 2 ^ 32 \<and> x * 48271 mod 2 ^ 32 < 2 ^ 31"
proof -
  define y where "y = x * 48271 mod 2 ^ 32"
  have y: "8 dvd y" "y < 4294967296" using assms(1) by (simp_all add: y_def dvd_mod)
  then obtain z where z: "y = 8 * z" by auto
  have l: "lcg x = y mod 2147483647" by (simp add: lcg_def y_def)
  have "y < 2147483647"
  proof (rule ccontr)
    assume "\<not> y < 2147483647"
    moreover have "z < 536870912" using y z by simp
    ultimately have "y mod 2147483647 = y - 2147483647"
      using z by (simp add: mod_if)
    then have "8 dvd y - 2147483647" "2147483647 \<le> y" using assms(2) l \<open>\<not> y < 2147483647\<close> by auto
    then show False using z by presburger
  qed
  then show ?thesis using l unfolding y_def [symmetric] by simp
qed

lemma lcg_never_passes:
  assumes "x < 2 ^ 31" "\<And>j. j \<le> k \<Longrightarrow> 8 dvd (lcg ^^ j) x"
  shows "(lcg ^^ k) x = x * 48271 ^ k mod 2 ^ 32 \<and> (lcg ^^ k) x < 2 ^ 31"
  using assms(2)
proof (induction k)
  case 0
  then show ?case using assms(1) by simp
next
  case (Suc k)
  let ?y = "(lcg ^^ k) x"
  have y: "?y = x * 48271 ^ k mod 2 ^ 32" using Suc by simp
  have "8 dvd ?y" "8 dvd lcg ?y" using Suc.prems [of k] Suc.prems [of "Suc k"] by simp_all
  then have "lcg ?y = ?y * 48271 mod 2 ^ 32 \<and> lcg ?y < 2 ^ 31" using lcg_stuck [of ?y] by simp
  moreover have "?y * 48271 mod 2 ^ 32 = x * 48271 ^ Suc k mod 2 ^ 32"
    unfolding y mod_mult_left_eq by (simp only: mult.assoc power_Suc2)
  ultimately show ?case by simp
qed

lemma power_48271: "\<exists>q. (48271 :: nat) ^ (2 ^ Suc i) = 1 + 2 ^ (5 + i) * (2 * q + 1)"
proof (induction i)
  case 0
  show ?case by (intro exI [of _ 36407647]) simp
next
  case (Suc i)
  then obtain q where q: "(48271 :: nat) ^ (2 ^ Suc i) = 1 + 2 ^ (5 + i) * (2 * q + 1)" by blast
  define r a where "r = 2 * q + 1" and "a = (2 :: nat) ^ (3 + i)"
  have "(48271 :: nat) ^ (2 ^ Suc (Suc i)) = (48271 ^ (2 ^ Suc i))\<^sup>2"
    by (simp only: power_Suc2 [of _ "Suc i"] power_mult)
  also have "\<dots> = (1 + 4 * a * r)\<^sup>2"
    unfolding q by (simp add: r_def a_def power_add)
  also have "\<dots> = 1 + 8 * a * (2 * (q + a * r * r) + 1)"
    by (simp add: r_def power2_eq_square algebra_simps)
  finally show ?case by (intro exI [of _ "q + a * r * r"]) (simp add: a_def power_add)
qed


lemma odd_part: "0 < (x :: nat) \<Longrightarrow> \<exists>j m. x = 2 ^ j * (2 * m + 1)"
proof (induction x rule: less_induct)
  case (less x)
  show ?case
  proof (cases "even x")
    case True
    then obtain y where y: "x = 2 * y" by auto
    with less.prems have "0 < y" "y < x" by auto
    with less.IH obtain j m where "y = 2 ^ j * (2 * m + 1)" by blast
    with y show ?thesis by (intro exI [of _ "Suc j"] exI [of _ m]) simp
  next
    case False
    then obtain m where "x = 2 * m + 1" by (elim oddE)
    then show ?thesis by (intro exI [of _ 0] exI [of _ m]) simp
  qed
qed

lemma lcg_passes:
  assumes "0 < x" "x < 2 ^ 31" "x mod 2 ^ 28 \<noteq> 2 ^ 27"
  shows "\<exists>k \<le> 2 ^ 27. \<not> 8 dvd (lcg ^^ k) x"
proof (rule ccontr)
  assume "\<not> ?thesis"
  then have stuck: "k \<le> 2 ^ 27 \<Longrightarrow> x * 48271 ^ k mod 2 ^ 32 < 2 ^ 31" for k
    using lcg_never_passes [OF assms(2), of k] by fastforce
  obtain j m where x: "x = 2 ^ j * (2 * m + 1)" using odd_part [OF assms(1)] by blast
  have "(2 :: nat) ^ j * 1 \<le> x" unfolding x by (rule mult_le_mono2) simp
  then have "(2 :: nat) ^ j < 2 ^ 31" using assms(2) by simp
  then have j: "j < 31" by (rule power_less_imp_less_exp [rotated]) simp
  consider "j \<le> 26" | "j = 27" | "28 \<le> j" by linarith
  then show False
  proof cases
    case 1
    obtain i where i: "26 = j + i" using 1 le_Suc_ex by blast
    obtain q where q: "(48271 :: nat) ^ (2 ^ Suc i) = 1 + 2 ^ (5 + i) * (2 * q + 1)"
      using power_48271 by blast
    have "x * 48271 ^ (2 ^ Suc i) = x + 2 ^ (j + (5 + i)) * ((2 * m + 1) * (2 * q + 1))"
      unfolding q x by (simp add: power_add algebra_simps)
    also have "j + (5 + i) = 31" using i by simp
    also have "x + 2 ^ 31 * ((2 * m + 1) * (2 * q + 1)) = (x + 2 ^ 31) + 2 ^ 32 * (2 * m * q + m + q)"
      by (simp add: algebra_simps)
    finally have "x * 48271 ^ (2 ^ Suc i) mod 2 ^ 32 = (x + 2 ^ 31) mod 2 ^ 32"
      by (simp only: mod_mult_self2)
    also have "\<dots> = x + 2 ^ 31" using assms(2) by simp
    finally have "x * 48271 ^ (2 ^ Suc i) mod 2 ^ 32 = x + 2 ^ 31" .
    moreover have "(2 :: nat) ^ Suc i \<le> 2 ^ 27" using i by (intro power_increasing) simp_all
    ultimately show False using stuck [of "2 ^ Suc i"] by simp
  next
    case 2
    have "x = 2 ^ 28 * m + 2 ^ 27" unfolding x 2 by simp
    then show False using assms(3) by simp
  next
    case 3
    then obtain i where "j = 28 + i" using le_Suc_ex by blast
    then have "x = 2 ^ 28 * (2 ^ i * (2 * m + 1))" by (simp add: x power_add)
    then obtain c where c: "x = 2 ^ 28 * c" by blast
    then have "c \<in> {1, 2, 3, 4, 5, 6, 7}" using assms(1,2) by auto
    then have "2 ^ 31 \<le> x * 48271 mod 2 ^ 32" unfolding c by auto
    then show False using stuck [of 1] by simp
  qed
qed

lemma lcg_livelock:
  assumes "x < 2 ^ 31" "x = 0 \<or> x mod 2 ^ 28 = 2 ^ 27"
  shows "8 dvd x \<and> lcg x < 2 ^ 31 \<and> (lcg x = 0 \<or> lcg x mod 2 ^ 28 = 2 ^ 27)"
proof (cases "x = 0")
  case False
  define c where "c = x div 2 ^ 28"
  have x: "x = 2 ^ 28 * c + 2 ^ 27"
    using False assms(2) mult_div_mod_eq [of "2 ^ 28" x] by (simp add: c_def)
  then have "c \<in> {0, 1, 2, 3, 4, 5, 6, 7}" using assms(1) by auto
  then show ?thesis unfolding x lcg_def by auto
qed (simp add: lcg_def)

lemma lcg_livelock_forever:
  assumes "x < 2 ^ 31" "x = 0 \<or> x mod 2 ^ 28 = 2 ^ 27"
  shows "8 dvd (lcg ^^ k) x"
proof -
  have "(lcg ^^ k) x < 2 ^ 31 \<and> ((lcg ^^ k) x = 0 \<or> (lcg ^^ k) x mod 2 ^ 28 = 2 ^ 27)"
    by (induction k) (use assms lcg_livelock in auto)
  then show ?thesis using lcg_livelock by blast
qed

section \<open>Trying again\<close>

text \<open>The state after \<open>k\<close> questions to the global monitor.\<close>

definition asked :: "u64 \<Rightarrow> u64 \<Rightarrow> nat \<Rightarrow> 'v vsim \<Rightarrow> 'v vsim" where
  "asked a n k s = ((\<lambda>t. snd (global_IsExclusive a n t)) ^^ k) s"

lemma asked_seed: "unat (gm_seed (global_monitor (asked a n k s))) = (lcg ^^ k) (unat (gm_seed (global_monitor s)))"
  by (induction k) (simp_all add: asked_def global_IsExclusive_def Let_def unat_next_seed)

lemma word_mod_eq: "w mod c = d \<longleftrightarrow> unat w mod unat c = unat d" for w :: u32
  by (metis unat_mod word_unat_eq_iff)

lemma asked_passes:
  "fst (global_IsExclusive a n (asked a n k s)) \<longleftrightarrow> \<not> 8 dvd (lcg ^^ k) (unat (gm_seed (global_monitor s)))"
  by (simp add: global_IsExclusive_def Let_def word_mod_eq asked_seed dvd_eq_mod_eq_0)

text \<open>C11: Retrying ends: asked again and again (as the loop around an exclusive store does), the global
  monitor lets an access pass within 2^27 questions, from every seed of its generator but eight nonzero
  multiples of 2^27 and zero; from those it refuses forever.  A fresh simulator's seed is odd and passes
  at once, and every later seed is below 2^31.\<close>

theorem global_monitor_passes_in_the_end:
  assumes "gm_seed (global_monitor s) < 2 ^ 31"
  shows "(if gm_seed (global_monitor s) \<noteq> 0 \<and> gm_seed (global_monitor s) mod 2 ^ 28 \<noteq> 2 ^ 27
      then \<exists>k \<le> 2 ^ 27. fst (global_IsExclusive a n (asked a n k s))
      else \<forall>k. \<not> fst (global_IsExclusive a n (asked a n k s)))
    \<and> gm_seed (global_monitor (snd (global_IsExclusive a n s))) < 2 ^ 31"
proof -
  define x where "x = unat (gm_seed (global_monitor s))"
  have x: "x < 2 ^ 31" "gm_seed (global_monitor s) \<noteq> 0 \<longleftrightarrow> x \<noteq> 0"
    "gm_seed (global_monitor s) mod 2 ^ 28 = 2 ^ 27 \<longleftrightarrow> x mod 2 ^ 28 = 2 ^ 27"
    using assms by (simp_all add: x_def word_less_nat_alt word_mod_eq unat_eq_zero)
  have "lcg x < 2 ^ 31" by (simp add: lcg_def)
  then have "gm_seed (global_monitor (snd (global_IsExclusive a n s))) < 2 ^ 31"
    by (simp add: global_IsExclusive_def Let_def word_less_nat_alt unat_next_seed x_def)
  moreover have "if x \<noteq> 0 \<and> x mod 2 ^ 28 \<noteq> 2 ^ 27 then \<exists>k \<le> 2 ^ 27. \<not> 8 dvd (lcg ^^ k) x
      else \<forall>k. \<not> \<not> 8 dvd (lcg ^^ k) x"
    using lcg_passes [of x] lcg_livelock_forever [OF x(1)] x(1) by auto
  ultimately show ?thesis unfolding asked_passes x_def [symmetric] x(2,3) by simp
qed

theorem global_monitor_passes_in_the_end_witness:
  "(\<exists>k \<le> 2 ^ 27. fst (global_IsExclusive 0x4000 8 (asked 0x4000 8 k (marked_vsim\<lparr>global_monitor := \<lparr> gm_seed = 8 \<rparr>\<rparr>))))
   \<and> (\<forall>k. \<not> fst (global_IsExclusive 0x4000 8
        (asked 0x4000 8 k (marked_vsim\<lparr>global_monitor := \<lparr> gm_seed = 0x08000000 \<rparr>\<rparr>))))"
  using global_monitor_passes_in_the_end [of "marked_vsim\<lparr>global_monitor := \<lparr> gm_seed = 8 \<rparr>\<rparr>" "0x4000" 8]
    global_monitor_passes_in_the_end [of "marked_vsim\<lparr>global_monitor := \<lparr> gm_seed = 0x08000000 \<rparr>\<rparr>" "0x4000" 8]
  by simp

end
