(* ===== verification/Data_Contracts.thy ===== *)
theory Data_Contracts
  imports Monitor_Contracts
begin

text \<open>
  What the data processing instructions promise: comparisons and the condition codes,
  the high half of products, and where the 32-bit move with keep departs from the
  architecture; the conversions of the flags and the zeroing of a block of memory.
\<close>

section \<open>Flags after an addition\<close>

lemma ExtractBits_of_Mask:
  assumes "bit m i" "i < 32"
  shows "ExtractBits i i (Mask m bits) = ExtractBits i i bits"
  using assms by (intro word_eq_bitI)
    (auto simp: Mask_def ExtractBits_def ExtractUnsignedBitfield32_def bit_simps bit_ExtractUnsignedBitfield64)

lemma read_after_set:
  "ReadN (SetN b s) = odd b" "ReadZ (SetZ b s) = odd b" "ReadC (SetC b s) = odd b" "ReadV (SetV b s) = odd b"
  "ReadN (SetZ b s) = ReadN s" "ReadN (SetC b s) = ReadN s" "ReadN (SetV b s) = ReadN s"
  "ReadZ (SetN b s) = ReadZ s" "ReadZ (SetC b s) = ReadZ s" "ReadZ (SetV b s) = ReadZ s"
  "ReadC (SetN b s) = ReadC s" "ReadC (SetZ b s) = ReadC s" "ReadC (SetV b s) = ReadC s"
  "ReadV (SetN b s) = ReadV s" "ReadV (SetZ b s) = ReadV s" "ReadV (SetC b s) = ReadV s"
  by (simp_all add: ReadN_def ReadZ_def ReadC_def ReadV_def SetN_def SetZ_def SetC_def SetV_def
      sr_field_SetBits_flag sr_field_SetBits_other and_one_eq odd_iff_mod_2_eq_one)

lemma flags_byte_bits:
  "odd (ucast (drop_bit 3 (flags_byte n z c v) AND 1) :: u32) = n"
  "odd (ucast (drop_bit 2 (flags_byte n z c v) AND 1) :: u32) = z"
  "odd (ucast (drop_bit 1 (flags_byte n z c v) AND 1) :: u32) = c"
  "odd (ucast (drop_bit 0 (flags_byte n z c v) AND 1) :: u32) = v"
  by (cases n; cases z; cases c; cases v; simp add: flags_byte_def)+

lemma AddWithCarryFlags_flags:
  assumes "n = 32 \<or> n = 64" "add_flags n l r c = (res, nf, zf, cf, vf)"
    "AddWithCarryFlags n True l r c s = (v, s')"
  shows "v = res" "ReadN s' = nf" "ReadZ s' = zf" "ReadC s' = cf" "ReadV s' = vf" "xregs s' = xregs s"
  using assms(3) AddWithCarry_add_flags [OF assms(1), of l r c]
  by (auto simp: AddWithCarryFlags_def Let_def assms(2) read_after_set flags_byte_bits
      flags_byte_bits(3) [unfolded One_nat_def] simp del: drop_bit_0)
    (simp_all add: SetN_def SetZ_def SetC_def SetV_def)

section \<open>Comparison\<close>

lemma uval_int: "n \<le> 64 \<Longrightarrow> uval n x = take_bit n (uint x)"
  by (simp add: uval_def unsigned_take_bit_eq)

lemma uval_not: "n \<le> 64 \<Longrightarrow> uval n (NOT x) = 2 ^ n - 1 - uval n x"
proof -
  assume n: "n \<le> 64"
  have "take_bit n (uint (NOT x)) = take_bit n (NOT (uint x))"
    using n by (intro bit_eqI) (auto simp: bit_simps)
  also have "\<dots> = mask n - take_bit n (uint x)" by (rule take_bit_not_eq_mask_diff)
  finally show ?thesis using n by (simp only: uval_int mask_eq_exp_minus_1)
qed

lemma sval_not: "n = 32 \<or> n = 64 \<Longrightarrow> sval n (NOT x) = - 1 - sval n x"
  using uval_less [of n x] uval_ge_0 [of n x] by (auto simp: sval_def uval_not)

lemma signed_order:
  fixes a b P :: int
  assumes "0 \<le> a" "a < 2 * P" "0 \<le> b" "b < 2 * P"
  defines "r \<equiv> if b \<le> a then a - b else a - b + 2 * P"
    and "sa \<equiv> if P \<le> a then a - 2 * P else a" and "sb \<equiv> if P \<le> b then b - 2 * P else b"
  shows "((if P \<le> r then r - 2 * P else r) < 0) \<noteq> (sa + (- 1 - sb) + uint (1 :: u64) < - P \<or> P \<le> sa + (- 1 - sb) + uint (1 :: u64))
    \<longleftrightarrow> sa < sb"
  using assms(1-4) unfolding r_def sa_def sb_def by (simp split: if_split)

lemma conditions:
  "ConditionPassed 0 s = ReadZ s" "ConditionPassed 1 s = (\<not> ReadZ s)" "ConditionPassed 2 s = ReadC s"
  "ConditionPassed 3 s = (\<not> ReadC s)" "ConditionPassed 8 s = (ReadC s \<and> \<not> ReadZ s)"
  "ConditionPassed 9 s = (ReadC s \<longrightarrow> ReadZ s)" "ConditionPassed 10 s = (ReadN s = ReadV s)"
  "ConditionPassed 11 s = (ReadN s \<noteq> ReadV s)" "ConditionPassed 12 s = (\<not> ReadZ s \<and> ReadN s = ReadV s)"
  "ConditionPassed 13 s = (ReadZ s \<or> ReadN s \<noteq> ReadV s)"
  by (simp_all add: ConditionPassed_def)

text \<open>The flags of a comparison as relations between the operands, unsigned and signed.\<close>

lemma compare_flags:
  assumes n: "n = 32 \<or> n = 64" and f: "add_flags n x (NOT y) 1 = (res, nf, zf, cf, vf)"
  shows "zf \<longleftrightarrow> uval n x = uval n y" "cf \<longleftrightarrow> uval n y \<le> uval n x" "nf \<noteq> vf \<longleftrightarrow> sval n x < sval n y"
    "uint res = (uval n x - uval n y) mod 2 ^ n"
proof -
  note c = add_flags_correct [OF n, of 1 x "NOT y", unfolded f fst_conv snd_conv, OF disjI2 [OF refl]]
  have un: "uval n (NOT y) = 2 ^ n - 1 - uval n y" "sval n (NOT y) = - 1 - sval n y"
    using n uval_not [of n y] sval_not [of n y] by auto
  have r: "uint res = (uval n x - uval n y) mod 2 ^ n"
  proof -
    have "uint res = (uval n x - uval n y + 2 ^ n) mod 2 ^ n" using c(1) by (simp add: un algebra_simps)
    then show ?thesis by simp
  qed
  then show "uint res = (uval n x - uval n y) mod 2 ^ n" .
  show "cf \<longleftrightarrow> uval n y \<le> uval n x" using c(4) by (auto simp: un)
  have bd: "0 \<le> uval n x" "uval n x < 2 ^ n" "0 \<le> uval n y" "uval n y < 2 ^ n"
    by (rule uval_ge_0 uval_less)+
  have m: "(uval n x - uval n y) mod 2 ^ n = (if uval n y \<le> uval n x then uval n x - uval n y else uval n x - uval n y + 2 ^ n)"
  proof (cases "uval n y \<le> uval n x")
    case True
    then show ?thesis using bd by (simp add: mod_pos_pos_trivial)
  next
    case False
    have "(uval n x - uval n y) mod 2 ^ n = (uval n x - uval n y + 2 ^ n) mod 2 ^ n" by simp
    also have "\<dots> = uval n x - uval n y + 2 ^ n" using False bd by (intro mod_pos_pos_trivial) linarith+
    finally show ?thesis using False by simp
  qed
  show "zf \<longleftrightarrow> uval n x = uval n y"
  proof -
    have "zf \<longleftrightarrow> uint res = 0" using c(3) by (simp add: unsigned_eq_0_iff)
    then show ?thesis using m r bd by (auto split: if_splits)
  qed
  have "n \<le> 64" using n by auto
  moreover have "uint res < 2 ^ n" unfolding r by simp
  ultimately have res: "uval n res = uint res"
    by (simp add: uval_int take_bit_int_eq_self)
  show "nf \<noteq> vf \<longleftrightarrow> sval n x < sval n y"
  proof -
    define P where "P = (2 :: int) ^ (n - 1)"
    have P: "2 ^ n = 2 * P" using n by (auto simp: P_def)
    show ?thesis
      unfolding c(2,5) un(2) unfolding sval_def res r P P_def [symmetric] m [unfolded P]
      using bd unfolding P by (rule signed_order)
  qed
qed

lemma flag_setting_subtraction:
  "Mask AddSubOpMask bits = SUBS \<Longrightarrow> GetFlagsUpdate bits \<noteq> 0"
  using ExtractBits_of_Mask [of AddSubOpMask 29 bits]
  by (auto simp: GetFlagsUpdate_def ExtractBits_def ExtractUnsignedBitfield32_def ExtractUnsignedBitfield64_def
      bit_numeral_rec)

text \<open>C9: Comparisons.  After a subtraction that sets the flags, at either width, the ten condition
  codes for equality and order hold exactly when the relation they stand for holds between the two
  operands, as unsigned or as signed numbers, and the result is their difference modulo the width.\<close>

theorem conditions_after_compare:
  assumes "Mask AddSubOpMask bits = SUBS" "AddSubHelper bits op2 s = Inr s'" "n = reg_size_of bits"
    and "left = ReadRegisterSized n (rn_of bits) (GetRnMode bits) s"
  defines "x \<equiv> uval n left" and "y \<equiv> uval n op2" and "i \<equiv> sval n left" and "j \<equiv> sval n op2"
  shows "(ConditionPassed 0 s' \<longleftrightarrow> x = y) \<and> (ConditionPassed 1 s' \<longleftrightarrow> x \<noteq> y)
    \<and> (ConditionPassed 2 s' \<longleftrightarrow> x \<ge> y) \<and> (ConditionPassed 3 s' \<longleftrightarrow> x < y)
    \<and> (ConditionPassed 8 s' \<longleftrightarrow> x > y) \<and> (ConditionPassed 9 s' \<longleftrightarrow> x \<le> y)
    \<and> (ConditionPassed 10 s' \<longleftrightarrow> i \<ge> j) \<and> (ConditionPassed 11 s' \<longleftrightarrow> i < j)
    \<and> (ConditionPassed 12 s' \<longleftrightarrow> i > j) \<and> (ConditionPassed 13 s' \<longleftrightarrow> i \<le> j)
    \<and> (\<exists>res t. uint res = (x - y) mod 2 ^ n \<and> xregs t = xregs s
        \<and> s' = WriteRegisterSized n (rd_of bits) res (GetRdMode bits) t)"
proof -
  have n: "n = 32 \<or> n = 64" using assms(3) by (simp add: reg_size_of_def)
  obtain res nf zf cf vf where f: "add_flags n left (NOT op2) 1 = (res, nf, zf, cf, vf)"
    by (metis prod_cases5)
  obtain v t where t: "AddWithCarryFlags n True left (NOT op2) 1 s = (v, t)" by fastforce
  note a = AddWithCarryFlags_flags [OF n f t]
  note c = compare_flags [OF n f]
  have s': "s' = WriteRegisterSized n (rd_of bits) res (GetRdMode bits) t"
    using assms(1,2,3,4) flag_setting_subtraction [OF assms(1)] t a(1)
    by (simp add: AddSubHelper_def Let_def)
  have fl: "ReadN s' = nf" "ReadZ s' = zf" "ReadC s' = cf" "ReadV s' = vf"
    unfolding a(2-5) [symmetric] by (simp_all add: s' WriteRegisterSized_def ReadN_def ReadZ_def ReadC_def ReadV_def frame_simps)
  have s_eq: "i = j \<longleftrightarrow> x = y"
    using uval_less [of n left] uval_less [of n op2] uval_ge_0 [of n left] uval_ge_0 [of n op2]
    by (auto simp: i_def j_def x_def y_def sval_def split: if_splits)
  show ?thesis
    using c s_eq a(6) s' unfolding x_def [symmetric] y_def [symmetric] i_def [symmetric] j_def [symmetric]
      conditions fl by (intro conjI) (blast | linarith)+
qed


section \<open>High products\<close>

text \<open>The number a 64-bit operand stands for, and the numbers that fit.\<close>

definition val64 :: "bool \<Rightarrow> u64 \<Rightarrow> int" where
  "val64 sgnd x = (if sgnd then sint x else uint x)"

definition fits64 :: "bool \<Rightarrow> int \<Rightarrow> bool" where
  "fits64 sgnd k \<longleftrightarrow> (if sgnd then - (2 ^ 63) \<le> k \<and> k < 2 ^ 63 else 0 \<le> k \<and> k < 2 ^ 64)"

lemma val64_fits: "fits64 sgnd (val64 sgnd x)"
  using sint_greater_eq [of x] sint_less [of x] uint_lt2p [of x] by (auto simp: fits64_def val64_def)

lemma val64_word: "word_of_int (val64 sgnd x) = x"
  by (simp add: val64_def)

lemma val64_of_int: "fits64 sgnd k \<Longrightarrow> val64 sgnd (word_of_int k) = k"
  by (auto simp: fits64_def val64_def signed_of_int signed_take_bit_int_eq_self take_bit_int_eq_self unsigned_of_int)

lemma mulhi_shift_signed: "mulhi_shift True x = signed_drop_bit 32 x"
proof -
  have c: "x AND push_bit 63 1 \<noteq> 0 \<longleftrightarrow> bit x 63"
    by (simp only: and_exp_eq_0_iff_not_bit push_bit_of_1 not_not)
  have m: "(0xffffffffffffffff :: u64) = mask 64" by (simp add: mask_eq_exp_minus_1)
  show ?thesis
    unfolding mulhi_shift_def m c
    by (intro word_eq_bitI) (auto simp: bit_simps split: if_splits dest: bit_word_lt)
qed

lemma mulhi_shift_val: "val64 sgnd (mulhi_shift sgnd x) = val64 sgnd x div 2 ^ 32"
proof (cases sgnd)
  case True
  then show ?thesis by (simp add: mulhi_shift_signed val64_def sint_signed_drop_bit_eq drop_bit_eq_div)
next
  case False
  then show ?thesis by (simp add: mulhi_shift_def val64_def uint_div_distrib drop_bit_eq_div)
qed


lemma low_half: "x AND mask 32 = word_of_int (val64 sgnd x mod 2 ^ 32)" for x :: u64
proof -
  have "x AND mask 32 = word_of_int (take_bit 32 (val64 sgnd x))"
    by (intro word_eq_bitI) (auto simp: val64_def bit_simps)
  then show ?thesis by (simp add: take_bit_eq_mod)
qed

lemma times_between:
  fixes x y lo hi M :: int
  assumes "lo \<le> x" "x \<le> hi" "lo \<le> 0" "0 \<le> hi" "0 \<le> y" "y \<le> M"
  shows "lo * M \<le> x * y" "x * y \<le> hi * M"
proof -
  have "lo * M \<le> lo * y" using assms by (intro mult_left_mono_neg) auto
  also have "\<dots> \<le> x * y" using assms by (intro mult_right_mono) auto
  finally show "lo * M \<le> x * y" .
  have "x * y \<le> hi * y" using assms by (intro mult_right_mono) auto
  also have "\<dots> \<le> hi * M" using assms by (intro mult_left_mono) auto
  finally show "x * y \<le> hi * M" .
qed

text \<open>The schoolbook identity on integers, with \<open>b\<close> the half base.\<close>

lemma high_half_identity:
  fixes u v b :: int
  assumes "0 < b"
  defines "t \<equiv> (u div b) * (v mod b) + (u mod b) * (v mod b) div b"
  defines "w \<equiv> (u mod b) * (v div b) + t mod b"
  shows "u * v div (b * b) = (u div b) * (v div b) + t div b + w div b"
proof -
  define u1 u0 v1 v0 where "u1 = u div b" and "u0 = u mod b" and "v1 = v div b" and "v0 = v mod b"
  have uv: "u = u1 * b + u0" "v = v1 * b + v0" by (simp_all add: u1_def u0_def v1_def v0_def)
  define r where "r = u0 * v0 mod b"
  have p: "u0 * v0 = (u0 * v0 div b) * b + r" by (simp add: r_def)
  have t: "u1 * v0 = t - u0 * v0 div b" by (simp add: t_def u1_def u0_def v0_def)
  have w: "u0 * v1 = w - t mod b" by (simp add: w_def u0_def v1_def)
  have "u * v = u1 * v1 * (b * b) + (u1 * v0) * b + (u0 * v1) * b + u0 * v0"
    by (simp add: uv algebra_simps)
  also have "\<dots> = u1 * v1 * (b * b) + (t - u0 * v0 div b) * b + (w - t mod b) * b + ((u0 * v0 div b) * b + r)"
    unfolding t [symmetric] w [symmetric] using p by simp
  also have "\<dots> = u1 * v1 * (b * b) + (t - t mod b) * b + w * b + r"
    by (simp add: algebra_simps)
  also have "t - t mod b = t div b * b" by (simp add: minus_mod_eq_div_mult)
  finally have e: "u * v = u1 * v1 * (b * b) + t div b * b * b + w * b + r" .
  have "w * b = (w div b * b + w mod b) * b" by simp
  then have "w * b = w div b * (b * b) + w mod b * b" by (simp only: distrib_right mult.assoc)
  with e have "u * v = (u1 * v1 + t div b + w div b) * (b * b) + (w mod b * b + r)"
    by (simp add: algebra_simps)
  moreover have "0 \<le> w mod b * b + r" "w mod b * b + r < b * b"
  proof -
    have "0 \<le> w mod b" "w mod b \<le> b - 1" "0 \<le> r" "r < b" using assms(1) by (simp_all add: r_def)
    moreover have "w mod b * b \<le> (b - 1) * b" using calculation assms(1) by (intro mult_right_mono) auto
    ultimately show "0 \<le> w mod b * b + r" "w mod b * b + r < b * b"
      using assms(1) by (simp_all add: algebra_simps)
  qed
  ultimately show ?thesis using assms(1) by (simp add: u1_def v1_def)
qed


text \<open>The bounds of the partial products, by the bounds of the halves.\<close>

lemma partial_products_fit:
  assumes "if sgnd then - 2147483648 \<le> U1 \<and> U1 \<le> 2147483647 \<and> - 2147483648 \<le> V1 \<and> V1 \<le> 2147483647
           else 0 \<le> U1 \<and> U1 \<le> 4294967295 \<and> 0 \<le> V1 \<and> V1 \<le> 4294967295"
    and "0 \<le> U0" "U0 \<le> 4294967295" "0 \<le> V0" "V0 \<le> 4294967295" "0 \<le> c" "c \<le> 4294967295"
  shows "fits64 sgnd (U1 * V0 + c)" "fits64 sgnd (U0 * V1 + c)" "0 \<le> U0 * V0" "U0 * V0 < 2 ^ 64"
    "fits64 sgnd T \<Longrightarrow> fits64 sgnd W \<Longrightarrow> fits64 sgnd (U1 * V1 + T div 2 ^ 32 + W div 2 ^ 32)"
proof -
  show "0 \<le> U0 * V0" using assms by simp
  have "U0 * V0 \<le> 4294967295 * 4294967295" by (rule times_between(2) [where lo = 0]) (use assms in auto)
  then show "U0 * V0 < 2 ^ 64" by simp
  show "fits64 sgnd (U1 * V0 + c)"
    using assms times_between [of "if sgnd then - 2147483648 else 0" U1 "if sgnd then 2147483647 else 4294967295" V0 4294967295]
    by (auto simp: fits64_def)
  show "fits64 sgnd (U0 * V1 + c)"
    using assms times_between [of "if sgnd then - 2147483648 else 0" V1 "if sgnd then 2147483647 else 4294967295" U0 4294967295]
    by (auto simp: fits64_def mult.commute)
  assume t: "fits64 sgnd T" "fits64 sgnd W"
  show "fits64 sgnd (U1 * V1 + T div 2 ^ 32 + W div 2 ^ 32)"
  proof (cases sgnd)
    case True
    have "\<bar>U1 * V1\<bar> \<le> 2147483648 * 2147483648"
      unfolding abs_mult using assms(1) True by (intro mult_mono) auto
    then have "- 4611686018427387904 \<le> U1 * V1" "U1 * V1 \<le> 4611686018427387904" by auto
    moreover have "- 2147483648 \<le> T div 2 ^ 32" "T div 2 ^ 32 < 2147483648"
      "- 2147483648 \<le> W div 2 ^ 32" "W div 2 ^ 32 < 2147483648"
      using t True by (auto simp: fits64_def)
    ultimately show ?thesis using True by (simp add: fits64_def)
  next
    case False
    have "U1 * V1 \<le> 4294967295 * 4294967295" "0 \<le> U1 * V1"
      using assms(1) False times_between(2) [of 0 U1 4294967295 V1 4294967295] by auto
    moreover have "0 \<le> T div 2 ^ 32" "T div 2 ^ 32 < 4294967296" "0 \<le> W div 2 ^ 32" "W div 2 ^ 32 < 4294967296"
      using t False by (auto simp: fits64_def)
    ultimately show ?thesis using False by (simp add: fits64_def)
  qed
qed

text \<open>\<open>UMULH\<close> and \<open>SMULH\<close>: the half-by-half multiplication gives the upper half of the full
  128-bit product of its operands, unsigned and signed.\<close>

theorem multiply_high_is_high_half:
  "val64 sgnd (MultiplyHigh64 sgnd u v) = val64 sgnd u * val64 sgnd v div 2 ^ 64"
proof -
  define U V where "U = val64 sgnd u" and "V = val64 sgnd v"
  define U1 U0 V1 V0 where "U1 = U div 2 ^ 32" and "U0 = U mod 2 ^ 32" and "V1 = V div 2 ^ 32" and "V0 = V mod 2 ^ 32"
  define T where "T = U1 * V0 + U0 * V0 div 2 ^ 32"
  define W where "W = U0 * V1 + T mod 2 ^ 32"
  have low: "0 \<le> k mod 2 ^ 32" "k mod 2 ^ 32 \<le> 4294967295" for k :: int
    using pos_mod_bound [of "2 ^ 32" k] by auto
  have high: "if sgnd then - 2147483648 \<le> U1 \<and> U1 \<le> 2147483647 \<and> - 2147483648 \<le> V1 \<and> V1 \<le> 2147483647
           else 0 \<le> U1 \<and> U1 \<le> 4294967295 \<and> 0 \<le> V1 \<and> V1 \<le> 4294967295"
    using val64_fits [of sgnd u] val64_fits [of sgnd v]
    unfolding U1_def V1_def U_def V_def fits64_def by auto
  note fit = partial_products_fit [OF high low [of U, folded U0_def] low [of V, folded V0_def]]
  have p: "0 \<le> U0 * V0" "U0 * V0 < 2 ^ 64" using fit(3,4) [of 0] by auto
  then have c: "0 \<le> U0 * V0 div 2 ^ 32" "U0 * V0 div 2 ^ 32 \<le> 4294967295" by auto
  have ft: "fits64 sgnd T" and fw: "fits64 sgnd W"
    using fit(1) [OF c] fit(2) [OF low [of T]] by (simp_all add: T_def W_def)
  have fr: "fits64 sgnd (U1 * V1 + T div 2 ^ 32 + W div 2 ^ 32)"
    using fit(5) [OF c ft fw] .
  have lo: "u AND mask 32 = word_of_int U0" "v AND mask 32 = word_of_int V0"
    by (simp_all only: low_half [of _ sgnd] U0_def V0_def U_def V_def)
  have sh: "mulhi_shift sgnd x = word_of_int (val64 sgnd x div 2 ^ 32)" for x
    by (simp only: mulhi_shift_val [symmetric] val64_word)
  have d: "drop_bit 32 (word_of_int U0 * word_of_int V0 :: u64) = word_of_int (U0 * V0 div 2 ^ 32)"
  proof -
    have "drop_bit 32 x = word_of_int (val64 False x div 2 ^ 32)" for x
      using mulhi_shift_val [of False x] val64_word [of False "drop_bit 32 x"]
      by (simp only: mulhi_shift_def if_False if_cancel or.right_neutral)
    moreover have "val64 False (word_of_int (U0 * V0)) = U0 * V0"
      using p by (intro val64_of_int) (simp add: fits64_def)
    ultimately show ?thesis by simp
  qed
  have t: "word_of_int U1 * word_of_int V0 + drop_bit 32 (word_of_int U0 * word_of_int V0) = (word_of_int T :: u64)"
    unfolding d T_def by simp
  have w: "word_of_int U0 * word_of_int V1 + word_of_int (T mod 2 ^ 32) = (word_of_int W :: u64)"
    unfolding W_def by simp
  have "MultiplyHigh64 sgnd u v = word_of_int (U1 * V1 + T div 2 ^ 32 + W div 2 ^ 32)"
    unfolding MultiplyHigh64_def Let_def GetUintMask_eq_mask lo sh U_def [symmetric] V_def [symmetric]
      U1_def [symmetric] V1_def [symmetric] t low_half [of "word_of_int T" sgnd] val64_of_int [OF ft]
      w val64_of_int [OF fw]
    by simp
  moreover have "U * V div 2 ^ 64 = U1 * V1 + T div 2 ^ 32 + W div 2 ^ 32"
  proof -
    have "(0 :: int) < 2 ^ 32" "(2 :: int) ^ 32 * 2 ^ 32 = 2 ^ 64" by simp_all
    then show ?thesis
      using high_half_identity [of "2 ^ 32" U V] unfolding W_def T_def U1_def U0_def V1_def V0_def by argo
  qed
  ultimately show ?thesis using val64_of_int [OF fr] by (simp add: U_def V_def)
qed


section \<open>The sample comparison\<close>

text \<open>\<open>CMP X1, X2\<close> with 5 and the number with all bits set.\<close>

definition cmp_vsim :: "visitor vsim" where
  "cmp_vsim = ret_vsim\<lparr>xregs := (\<lambda>r. if r = 1 then 5 else 0xFFFFFFFFFFFFFFFF)\<rparr>"

theorem conditions_after_compare_witness:
  "\<exists>s'. AddSubHelper 0xEB02003F 0xFFFFFFFFFFFFFFFF cmp_vsim = Inr s' \<and> ConditionPassed 3 s' \<and> ConditionPassed 12 s'"
proof -
  let ?b = "0xEB02003F :: u32"
  have f: "Mask AddSubOpMask ?b = SUBS" "reg_size_of ?b = 64" "rn_of ?b = 1"
    by (simp_all add: Mask_def reg_size_of_def GetSixtyFourBits_def GetRn_def ExtractBits_def
        ExtractUnsignedBitfield32_def ExtractUnsignedBitfield64_def)
  have r: "ReadRegisterSized 64 1 m cmp_vsim = 5" for m
    by (simp add: ReadRegisterSized_def ReadRegister_def cmp_vsim_def)
  obtain s' where s': "AddSubHelper ?b 0xFFFFFFFFFFFFFFFF cmp_vsim = Inr s'"
    by (simp add: AddSubHelper_def Let_def f case_prod_beta)
  have v: "uval 64 5 = 5" "uval 64 0xFFFFFFFFFFFFFFFF = 18446744073709551615"
    "sval 64 5 = 5" "sval 64 0xFFFFFFFFFFFFFFFF = -1"
    by (simp_all add: uval_def sval_def)
  show ?thesis
    using s' conditions_after_compare [OF f(1) s' refl refl] unfolding f(2,3) r v by auto
qed


section \<open>Move with keep\<close>

text \<open>C40: \<open>MOVK\<close> on a W register replaces one halfword and keeps the other, but does not clear the
  upper half of the X register: it fills it with the sign of the old W value, because that value is
  read through a signed type and the result written as an X register.\<close>

theorem MOVK_w_spreads_the_sign:
  assumes "Mask MoveWideImmediateMask (insn_bits instr) = MOVK_w" "GetSixtyFourBits (insn_bits instr) = 0"
    and "rd = rd_of (insn_bits instr)" "rd < 31" "h = unat (GetShiftMoveWide (insn_bits instr)) * 16" "h < 32"
    and "VisitMoveWideImmediate instr s = Inr s'"
  shows "(\<forall>i < 32. bit (xregs s' rd) i =
        (if h \<le> i \<and> i < h + 16 then bit (GetImmMoveWide (insn_bits instr)) (i - h) else bit (xregs s rd) i))
    \<and> (\<forall>i. 32 \<le> i \<and> i < 64 \<longrightarrow> bit (xregs s' rd) i = bit (xregs s rd) 31)"
proof -
  have m: "(0xffff :: u64) = mask 16" by (simp add: mask_eq_exp_minus_1)
  have imm: "bit (GetImmMoveWide (insn_bits instr)) k \<Longrightarrow> k < 16" for k
    by (simp add: GetImmMoveWide_def ExtractBits_def ExtractUnsignedBitfield32_def bit_simps bit_ExtractUnsignedBitfield64)
  have h: "h = 0 \<or> h = 16" using assms(5,6) by auto
  have "xregs s' rd = (scast (ReadWRegister rd s) AND NOT (push_bit h 0xffff)) OR push_bit h (ucast (GetImmMoveWide (insn_bits instr)))"
    using assms(4,7) unfolding VisitMoveWideImmediate_def Let_def assms(1,2) assms(3,5) [symmetric]
    by (auto simp: WriteRegister_def)
  moreover have "ReadWRegister rd s = ucast (xregs s rd)"
    using assms(4) by (simp add: ReadRegister_def)
  ultimately have b: "bit (xregs s' rd) i = ((bit (xregs s rd) (if i < 32 then i else 31) \<and> \<not> (h \<le> i \<and> i < h + 16))
      \<or> (h \<le> i \<and> bit (GetImmMoveWide (insn_bits instr)) (i - h)))" if "i < 64" for i
    unfolding m using that by (auto simp: bit_simps bit_push_bit_iff)
  show ?thesis using b h imm by (auto dest!: imm)
qed


text \<open>\<open>MOVK W1, 0x1234\<close> on a register that holds 0x80000000.\<close>

definition movk_instr :: instruction where
  "movk_instr = \<lparr> insn_addr = 0, insn_bits = 0x72824681 \<rparr>"

theorem MOVK_w_spreads_the_sign_witness:
  "\<exists>s'. VisitMoveWideImmediate movk_instr (ret_vsim\<lparr>xregs := (\<lambda>r. 0x80000000)\<rparr>) = Inr s' \<and> bit (xregs s' 1) 40"
proof -
  let ?s = "ret_vsim\<lparr>xregs := (\<lambda>r. 0x80000000)\<rparr>"
  have f: "Mask MoveWideImmediateMask (insn_bits movk_instr) = MOVK_w" "GetSixtyFourBits (insn_bits movk_instr) = 0"
    "rd_of (insn_bits movk_instr) = 1" "GetShiftMoveWide (insn_bits movk_instr) = 0"
    by (simp_all add: movk_instr_def Mask_def GetSixtyFourBits_def GetRd_def GetShiftMoveWide_def ExtractBits_def
        ExtractUnsignedBitfield32_def ExtractUnsignedBitfield64_def)
  obtain s' where s': "VisitMoveWideImmediate movk_instr ?s = Inr s'"
    by (simp add: VisitMoveWideImmediate_def Let_def f)
  have "bit (xregs ?s 1) 31" by (simp add: bit_numeral_rec)
  then have "bit (xregs s' 1) 40"
    using MOVK_w_spreads_the_sign [OF f(1,2) refl _ refl _ s'] f by auto
  then show ?thesis using s' by blast
qed

section \<open>Conversions of the flags\<close>

text \<open>The flags N, Z, C and V.\<close>

definition flags_of :: "'v vsim \<Rightarrow> bool \<times> bool \<times> bool \<times> bool" where
  "flags_of s = (ReadN s, ReadZ s, ReadC s, ReadV s)"

lemma get_flags:
  "GetN s = of_bool (ReadN s)" "GetZ s = of_bool (ReadZ s)" "GetC s = of_bool (ReadC s)" "GetV s = of_bool (ReadV s)"
proof -
  have "sr_field i i r = of_bool (sr_field i i r \<noteq> 0)" if "i < 32" for i r
  proof -
    have "sr_field i i r = sr_field i i r AND 1"
      using that by (intro word_eq_bitI)
        (auto simp: sr_field_def ExtractUnsignedBitfield32_def bit_simps bit_ExtractUnsignedBitfield64)
    then obtain b where "sr_field i i r = of_bool b" unfolding and_one_eq_of_bool by blast
    then show ?thesis by (cases b) simp_all
  qed
  then show "GetN s = of_bool (ReadN s)" "GetZ s = of_bool (ReadZ s)" "GetC s = of_bool (ReadC s)"
    "GetV s = of_bool (ReadV s)"
    by (simp_all add: GetN_def GetZ_def GetC_def GetV_def ReadN_def ReadZ_def ReadC_def ReadV_def)
qed

lemma flags_axflag: "flags_of (axflag s) = (False, ReadZ s \<or> ReadV s, ReadC s \<and> \<not> ReadV s, False)"
  by (cases "ReadZ s"; cases "ReadC s"; cases "ReadV s")
    (simp_all add: flags_of_def axflag_def Let_def get_flags read_after_set)

lemma flags_xaflag:
  "flags_of (xaflag s) = (\<not> ReadC s \<and> \<not> ReadZ s, ReadZ s \<and> ReadC s, ReadC s \<or> ReadZ s, \<not> ReadC s \<and> ReadZ s)"
  by (cases "ReadZ s"; cases "ReadC s")
    (simp_all add: flags_of_def xaflag_def Let_def get_flags read_after_set)

text \<open>\<open>AXFLAG\<close> and \<open>XAFLAG\<close> convert the result of a floating-point comparison to the alternative
  form and back: for each of its four results (less, equal, greater, unordered) the flags are those of
  before, and the two conversions are inverse on the alternative forms as well.\<close>

theorem xaflag_of_axflag:
  assumes "flags_of s \<in> {(True, False, False, False), (False, True, True, False), (False, False, True, False),
      (False, False, True, True)}"
  shows "flags_of (xaflag (axflag s)) = flags_of s
    \<and> flags_of (axflag (xaflag (axflag s))) = flags_of (axflag s)"
  using assms flags_axflag [of s] flags_xaflag [of "axflag s"] flags_axflag [of "xaflag (axflag s)"]
  by (auto simp: flags_of_def)

theorem xaflag_of_axflag_witness:
  "flags_of (xaflag (axflag (SetN 1 (SetZ 0 (SetC 0 (SetV 0 ret_vsim)))))) = (True, False, False, False)"
  using xaflag_of_axflag [of "SetN 1 (SetZ 0 (SetC 0 (SetV 0 ret_vsim)))"]
  by (simp add: flags_of_def read_after_set)


section \<open>Zeroing a block\<close>

lemma aligned_add:
  assumes "a AND 63 = (0 :: u64)" "d < 64"
  shows "a + d = a OR d" "a AND d = 0"
proof -
  have d: "d AND 63 = d"
    using less_mask_eq [of d 6] assms(2) by (simp add: mask_eq_exp_minus_1)
  have "a AND d = (a AND 63) AND d" by (metis d and.assoc and.commute)
  then show z: "a AND d = 0" using assms(1) by simp
  show "a + d = a OR d" using word_plus_and_or [of a d] z by simp
qed


lemma AddressUntag_aligned: "a AND 63 = 0 \<Longrightarrow> AddressUntag a AND 63 = 0"
proof -
  assume "a AND 63 = 0"
  moreover have "(a AND m) AND 63 = (a AND 63) AND m" for m by (simp only: ac_simps)
  ultimately show ?thesis by (simp only: AddressUntag_def zero_and_eq)
qed

lemma AddressUntag_add:
  assumes "a AND 63 = 0" "d < 64"
  shows "AddressUntag (a + d) = AddressUntag a + d"
proof -
  have "d AND 63 = d" using less_mask_eq [of d 6] assms(2) by (simp add: mask_eq_exp_minus_1)
  moreover have "(63 :: u64) AND NOT 0xff00000000000000 = 63" by simp
  ultimately have "d AND NOT 0xff00000000000000 = d" by (metis and.assoc)
  then show ?thesis
    using aligned_add [OF assms] aligned_add(1) [OF AddressUntag_aligned [OF assms(1)] assms(2)]
    by (simp add: AddressUntag_def bit.conj_disj_distrib2)
qed

lemma zero_block_memory:
  assumes "zero_block (a + of_nat (8 * k)) n s = Inr s'" "a AND 63 = 0" "k + n \<le> 8"
  shows "memory s' = (\<lambda>x. if 8 * k \<le> unat (x - AddressUntag a) \<and> unat (x - AddressUntag a) < 8 * (k + n)
      then 0 else memory s x) \<and> xregs s' = xregs s"
  using assms(1,3)
proof (induction n arbitrary: k s)
  case 0
  then show ?case by (auto simp: fun_eq_iff)
next
  case (Suc n)
  then obtain t where t: "MemWrite 8 (a + of_nat (8 * k)) (0 :: u64) s = Inr t"
      "zero_block (a + of_nat (8 * k) + 8) n t = Inr s'" by auto
  have k: "k \<le> 7" using Suc.prems(2) by simp
  have nk: "unat (of_nat (8 * k) :: u64) = 8 * k"
    using k by (subst unat_of_nat) (simp add: take_bit_nat_eq_self)
  have "(of_nat (8 * k) :: u64) < 64" using k unfolding word_less_nat_alt nk by simp
  then have u: "AddressUntag (a + of_nat (8 * k)) = AddressUntag a + of_nat (8 * k)"
    by (rule AddressUntag_add [OF assms(2)])
  have e: "a + of_nat (8 * k) + 8 = a + of_nat (8 * Suc k)" by simp
  have d: "unat (x - (AddressUntag a + of_nat (8 * k))) < 8
      \<longleftrightarrow> 8 * k \<le> unat (x - AddressUntag a) \<and> unat (x - AddressUntag a) < 8 * k + 8" for x
  proof -
    have "x - (AddressUntag a + of_nat (8 * k)) = (x - AddressUntag a) - of_nat (8 * k)" by simp
    then show ?thesis using k unsigned_less [of "x - AddressUntag a"]
      by (simp only: unat_sub_if' nk) auto
  qed
  have "memory s' = (\<lambda>x. if 8 * Suc k \<le> unat (x - AddressUntag a) \<and> unat (x - AddressUntag a) < 8 * (Suc k + n)
      then 0 else memory t x) \<and> xregs s' = xregs t"
    using Suc.IH [of "Suc k" t] t(2) Suc.prems(2) unfolding e by simp
  moreover have "memory t x = (if 8 * k \<le> unat (x - AddressUntag a) \<and> unat (x - AddressUntag a) < 8 * k + 8
      then 0 else memory s x)" for x
    unfolding MemWrite_memory [OF t(1)] u by (subst write_mem_apply, simp, simp only: d) simp
  ultimately show ?case using MemWrite_frame(1) [OF t(1)] by (auto simp: fun_eq_iff)
qed


lemma AlignDown_64: "AlignDown x 64 = x AND NOT 63" "AlignDown x 64 AND 63 = 0"
  by (simp_all add: AlignDown_def and.assoc)

lemma split_64:
  "(x AND NOT 63) OR (x AND 63) = (x :: u64)" "(x AND NOT 63) AND (x AND 63) = (0 :: u64)"
  "x AND 63 = 0 \<Longrightarrow> x AND NOT 63 = (x :: u64)" "x AND 63 = x \<Longrightarrow> x AND NOT 63 = (0 :: u64)"
proof -
  show s: "(x AND NOT 63) OR (x AND 63) = x" by (simp flip: bit.conj_disj_distrib)
  have "(x AND NOT 63) AND (x AND 63) = (x AND x) AND (NOT 63 AND 63)" by (simp only: ac_simps)
  then show "(x AND NOT 63) AND (x AND 63) = 0" by simp
  show "x AND 63 = 0 \<Longrightarrow> x AND NOT 63 = x" using s by simp
  show "x AND 63 = x \<Longrightarrow> x AND NOT 63 = 0"
    using \<open>(x AND NOT 63) AND (x AND 63) = 0\<close> by (simp add: and.assoc and.commute)
qed

lemma in_block:
  assumes "a AND 63 = 0"
  shows "unat (x - a) < 64 \<longleftrightarrow> AlignDown x 64 = a"
proof
  assume "unat (x - a) < 64"
  then have d: "x - a < 64" by (simp add: word_less_nat_alt)
  have m: "(x - a) AND 63 = x - a" using less_mask_eq [of "x - a" 6] d by (simp add: mask_eq_exp_minus_1)
  have "x = a OR (x - a)" using aligned_add(1) [OF assms d] by simp
  then have "x AND NOT 63 = (a AND NOT 63) OR ((x - a) AND NOT 63)" by (metis bit.conj_disj_distrib2)
  then show "AlignDown x 64 = a" using split_64(3) [OF assms] split_64(4) [OF m] by (simp add: AlignDown_64(1))
next
  assume "AlignDown x 64 = a"
  then have "x = a + (x AND 63)"
    using word_plus_and_or [of "x AND NOT 63" "x AND 63"] unfolding AlignDown_64(1) split_64 by simp
  then have "x - a = x AND 63" by (metis add_diff_cancel_left')
  moreover have "x AND 63 < 64"
    using word_and_le1 [of x 63] by (simp add: word_le_nat_alt word_less_nat_alt)
  ultimately show "unat (x - a) < 64" by (simp add: word_less_nat_alt)
qed


text \<open>C31: \<open>DC ZVA\<close> zeroes exactly the 64-byte block that holds its (untagged) address: no byte before
  or behind the block and no register changes, and the operation is reported as implemented.\<close>

theorem DC_ZVA_zeroes_the_block:
  assumes "SysOp_W dbg ZVA val s = Inr r"
  shows "\<exists>s'. r = (True, s') \<and> xregs s' = xregs s
    \<and> memory s' = (\<lambda>x. if AlignDown x 64 = AlignDown (AddressUntag val) 64 then 0 else memory s x)"
proof -
  let ?a = "AlignDown val 64"
  have "SysOp_W dbg ZVA val s = map_result (Pair True) (zero_block ?a 8 s)"
    by (simp add: SysOp_W_def dczid_def CacheOpEncoder_def Let_def)
  then obtain s' where s': "zero_block ?a 8 s = Inr s'" "r = (True, s')"
    using assms by (cases "zero_block ?a 8 s") auto
  have m: "memory s' = (\<lambda>x. if unat (x - AddressUntag ?a) < 64 then 0 else memory s x) \<and> xregs s' = xregs s"
    using zero_block_memory [of ?a 0 8 s s'] s'(1) AlignDown_64(2) by simp
  have "AddressUntag ?a = AlignDown (AddressUntag val) 64"
    unfolding AlignDown_64(1) AddressUntag_def by (simp only: ac_simps)
  then show ?thesis
    using m s'(2) by (simp only: in_block AlignDown_64(2)) simp
qed

lemma zero_block_runs:
  "(\<And>i. i < n \<Longrightarrow> access_checks StackGuardWrite (a + 8 * of_nat i) 8 s = Inr ()) \<Longrightarrow> \<exists>s'. zero_block a n s = Inr s'"
proof (induction n arbitrary: a s)
  case (Suc n)
  obtain t where t: "MemWrite 8 a (0 :: u64) s = Inr t"
    using Suc.prems [of 0] by (simp add: MemWrite_def Memory_Write_def)
  have "access_checks StackGuardWrite (a + 8 + 8 * of_nat i) 8 t = Inr ()" if "i < n" for i
    using Suc.prems [of "Suc i"] that access_checks_cong [of t s] MemWrite_frame [OF t]
    by (simp add: algebra_simps)
  then show ?case using Suc.IH [of "a + 8" t] t by simp
qed simp

theorem DC_ZVA_zeroes_the_block_witness:
  "\<exists>s'. SysOp_W False ZVA 0x4010 (byte_vsim ret_vsim) = Inr (True, s') \<and> memory s' 0x4000 = 0
     \<and> memory s' 0x403F = 0 \<and> memory s' 0x4040 = 0x80"
proof -
  have g: "IsAccessInGuardRegion (Allocate 0x100000 default_SimStack) (0x4000 + 8 * of_nat i) 8 = False
      \<and> AddressUntag (0x4000 + 8 * of_nat i) = 0x4000 + 8 * of_nat i" if "i < 8" for i
  proof -
    have "i \<in> {0, 1, 2, 3, 4, 5, 6, 7}" using that by auto
    then show ?thesis
      by (auto simp: IsAccessInGuardRegion_def Allocate_def default_SimStack_def AlignUp_def Let_def AddressUntag_def)
  qed
  then have "access_checks StackGuardWrite (0x4000 + 8 * of_nat i) 8 (byte_vsim ret_vsim) = Inr ()" if "i < 8" for i
    using that by (simp add: access_checks_def IsMTETagsMatched_def)
  then obtain t where "zero_block 0x4000 8 (byte_vsim ret_vsim) = Inr t"
    using zero_block_runs [of 8 "0x4000" "byte_vsim ret_vsim"] by blast
  then have "SysOp_W False ZVA 0x4010 (byte_vsim ret_vsim) = Inr (True, t)"
    by (simp add: SysOp_W_def dczid_def CacheOpEncoder_def Let_def AlignDown_def)
  then show ?thesis
    using DC_ZVA_zeroes_the_block [of False "0x4010" "byte_vsim ret_vsim" "(True, t)"]
    by (auto simp: AlignDown_def AddressUntag_def)
qed

end
