(* ===== verification/Tag_Contracts.thy ===== *)
theory Tag_Contracts
  imports Copy_Contracts Data_Contracts
begin

text \<open>
  What the memory tagging instructions promise: the choice of a tag ends outside the exclusion
  mask, a tag inserted into a mask is not chosen again, and a stored tag is what loads of the tag
  and checked accesses see.  Also the switches between guarded control stacks.
\<close>

section \<open>Choosing a tag\<close>

lemma excluded_bit: "excluded exclude tag \<longleftrightarrow> bit exclude (unat tag)"
  by (simp add: excluded_def bit_iff_and_push_bit_not_eq_0)

lemma unat_next_tag: "tag < 16 \<Longrightarrow> unat (next_tag tag) = (unat tag + 1) mod 16"
  by (simp add: next_tag_def unat_mod word_less_nat_alt unat_word_ariths)

lemma next_tag_less: "next_tag tag < 16"
  by (simp add: next_tag_def word_less_nat_alt unat_mod)

text \<open>How many steps from a tag to another.\<close>

definition steps_to :: "u64 \<Rightarrow> u64 \<Rightarrow> nat" where
  "steps_to u tag = (unat u + 16 - unat tag) mod 16"

lemma steps_to_next:
  assumes "tag < 16" "u < 16" "u \<noteq> tag"
  shows "steps_to u (next_tag tag) < steps_to u tag"
proof -
  have step: "(a + 16 - (b + 1) mod 16) mod 16 < (a + 16 - b) mod 16" if "a < 16" "b < 16" "a \<noteq> b" for a b :: nat
  proof -
    have "b = 15 \<and> a < b \<or> b < a \<or> a < b \<and> b < 15" using that by (cases "b = 15") auto
    then consider "b = 15" "a < b" | "b < a" | "a < b" "b < 15" by blast
    then show ?thesis
    proof cases
      case 1
      then show ?thesis by (simp add: mod_if)
    next
      case 2
      then have eq: "a + 16 - b = (a - b) + 16" "a + 16 - (b + 1) = (a - b - 1) + 16" using that by simp_all
      have "(b + 1) mod 16 = b + 1" "(a - b) mod 16 = a - b" "(a - b - 1) mod 16 = a - b - 1" using 2 that by simp_all
      then show ?thesis using 2 by (simp only: eq mod_add_self2) simp
    next
      case 3
      then show ?thesis by simp
    qed
  qed
  have "unat tag < 16" "unat u < 16" "unat u \<noteq> unat tag"
    using assms by (simp_all add: word_less_nat_alt word_unat_eq_iff)
  then show ?thesis unfolding steps_to_def unat_next_tag [OF assms(1)] by (intro step)
qed

lemma skip_excluded_ends:
  assumes "tag < 16" "u < 16" "\<not> excluded exclude u"
  shows "\<exists>r. while_option (excluded exclude) next_tag tag = Some r \<and> r < 16 \<and> \<not> excluded exclude r"
proof -
  obtain r where r: "while_option (excluded exclude) next_tag tag = Some r"
    using measure_while_option_Some [of "\<lambda>t. t < 16" "excluded exclude" next_tag "steps_to u" tag]
      assms steps_to_next next_tag_less by metis
  moreover have "r < 16"
    by (rule while_option_rule [OF _ r, of "\<lambda>t. t < 16"]) (use assms next_tag_less in auto)
  ultimately show ?thesis using while_option_stop [OF r] by blast
qed

lemma skip_excluded_result:
  "tag < 16 \<Longrightarrow> u < 16 \<Longrightarrow> \<not> excluded exclude u \<Longrightarrow>
    skip_excluded exclude tag < 16 \<and> \<not> excluded exclude (skip_excluded exclude tag)"
  using skip_excluded_ends [of tag u exclude] by (auto simp: skip_excluded_def while_def)

lemma advance_tag_result:
  assumes "u < 16" "\<not> excluded exclude u" "tag < 16" "0 < n"
  shows "advance_tag n exclude tag < 16 \<and> \<not> excluded exclude (advance_tag n exclude tag)"
  using assms(3,4)
proof (induction n arbitrary: tag)
  case (Suc n)
  let ?t = "skip_excluded exclude (next_tag tag)"
  have t: "?t < 16 \<and> \<not> excluded exclude ?t"
    by (rule skip_excluded_result [OF next_tag_less assms(1,2)])
  show ?case
  proof (cases n)
    case 0
    with t show ?thesis by simp
  next
    case (Suc k)
    then show ?thesis using Suc.IH [of ?t] t by simp
  qed
qed simp

lemma some_allowed:
  assumes "exclude < 0x10000" "exclude \<noteq> (0xffff :: u64)"
  shows "\<exists>u < 16. \<not> excluded exclude u"
proof (rule ccontr)
  assume a: "\<not> ?thesis"
  have small: "take_bit 16 exclude = exclude"
    using assms(1) less_mask_eq [of exclude 16] by (simp add: take_bit_eq_mask)
  have "exclude = mask 16"
  proof (rule bit_word_eqI)
    fix i
    have "bit exclude i" if "i < 16"
    proof -
      have "(of_nat i :: u64) < 16" "unat (of_nat i :: u64) = i" using that by (simp_all add: word_less_nat_alt unat_of_nat)
      with a show ?thesis unfolding excluded_bit by metis
    qed
    moreover have "\<not> bit exclude i" if "\<not> i < 16" using small that by (metis bit_take_bit_iff)
    ultimately show "bit exclude i = bit (mask 16 :: u64) i"
      using bit_imp_le_length [of exclude i] by (auto simp: bit_mask_iff)
  qed
  with assms(2) show False by (simp add: mask_eq_exp_minus_1)
qed

lemma excluded_none: "\<not> excluded 0 tag"
  by (simp add: excluded_def)

lemma ChooseNonExcludedTag_result:
  assumes "tag < 16" "exclude < 0x10000" "exclude \<noteq> 0xffff"
  shows "ChooseNonExcludedTag tag offset exclude < 16 \<and> \<not> excluded exclude (ChooseNonExcludedTag tag offset exclude)"
proof -
  obtain u where u: "u < 16" "\<not> excluded exclude u" using some_allowed [OF assms(2,3)] by blast
  show ?thesis
    using skip_excluded_result [OF assms(1) u] advance_tag_result [OF u assms(1), of "unat offset"] assms(3)
    by (auto simp: ChooseNonExcludedTag_def unat_gt_0 intro: Suc_leI)
qed

lemma skip_nothing: "skip_excluded 0 tag = tag"
  by (simp add: skip_excluded_def while_unfold excluded_none)

lemma advance_tag_plain: "tag < 16 \<Longrightarrow> unat (advance_tag n 0 tag) = (unat tag + n) mod 16"
proof (induction n arbitrary: tag)
  case (Suc n)
  have "unat (advance_tag n 0 (next_tag tag)) = (unat (next_tag tag) + n) mod 16"
    by (rule Suc.IH [OF next_tag_less])
  then show ?case by (simp add: skip_nothing unat_next_tag Suc.prems mod_simps)
qed (simp add: word_less_nat_alt)

text \<open>C18: The choice of a tag ends, exactly because its caller guards it.  For a mask of 16 bits that leaves a
  tag, the loop that skips excluded tags ends from every tag and the chosen tag is a tag outside the
  mask, whatever the offset; for the mask of all tags the loop would run for ever, and the function
  answers 0 before it.  Without a mask the choice is the addition of the offset modulo 16.\<close>

theorem tag_choice_ends:
  assumes "tag < 16" "exclude < 0x10000"
  shows "(exclude \<noteq> 0xffff \<longrightarrow> while_option (excluded exclude) next_tag tag \<noteq> None
      \<and> ChooseNonExcludedTag tag offset exclude < 16 \<and> \<not> excluded exclude (ChooseNonExcludedTag tag offset exclude))
    \<and> while_option (excluded 0xffff) next_tag tag = None \<and> ChooseNonExcludedTag tag offset 0xffff = 0
    \<and> unat (ChooseNonExcludedTag tag offset 0) = (unat tag + unat offset) mod 16"
proof -
  have ends: "exclude \<noteq> 0xffff \<longrightarrow> while_option (excluded exclude) next_tag tag \<noteq> None
      \<and> ChooseNonExcludedTag tag offset exclude < 16 \<and> \<not> excluded exclude (ChooseNonExcludedTag tag offset exclude)"
    using ChooseNonExcludedTag_result [OF assms] some_allowed [OF assms(2)] skip_excluded_ends [OF assms(1)] by blast
  have all: "excluded 0xffff t" if "t < 16" for t
  proof -
    have "(0xffff :: u64) = mask 16" by (simp add: mask_eq_exp_minus_1)
    then show ?thesis using that by (simp only: excluded_bit bit_mask_iff word_less_nat_alt) simp
  qed
  have "while_option (excluded 0xffff) next_tag tag = None"
  proof (rule ccontr)
    assume "while_option (excluded 0xffff) next_tag tag \<noteq> None"
    then obtain r where r: "while_option (excluded 0xffff) next_tag tag = Some r" by blast
    have "r < 16" by (rule while_option_rule [OF _ r, of "\<lambda>t. t < 16"]) (use assms next_tag_less in auto)
    with all while_option_stop [OF r] show False by blast
  qed
  then have "while_option (excluded 0xffff) next_tag tag = None \<and> ChooseNonExcludedTag tag offset 0xffff = 0"
    by (simp add: ChooseNonExcludedTag_def)
  moreover have "unat (ChooseNonExcludedTag tag offset 0) = (unat tag + unat offset) mod 16"
    using assms(1) advance_tag_plain [of tag "unat offset"]
    by (auto simp: ChooseNonExcludedTag_def skip_nothing word_less_nat_alt)
  ultimately show ?thesis using ends by blast
qed

theorem tag_choice_ends_witness:
  "ChooseNonExcludedTag 3 2 0x38 < 16 \<and> \<not> excluded 0x38 (ChooseNonExcludedTag 3 2 0x38)
    \<and> unat (ChooseNonExcludedTag 15 2 0) = 1"
proof -
  have "(3 :: u64) < 16" "(0x38 :: u64) < 0x10000" "(0x38 :: u64) \<noteq> 0xffff" "(15 :: u64) < 16" "(0 :: u64) < 0x10000"
    by simp_all
  with tag_choice_ends [of 3 "0x38" 2] tag_choice_ends [of 15 0 2] show ?thesis by simp
qed

section \<open>Inserting a tag\<close>

lemma bit_tag_field: "bit (0xf00000000000000 :: int) i \<longleftrightarrow> 56 \<le> i \<and> i < 60"
proof -
  have "(0xf00000000000000 :: int) = push_bit 56 (mask 4)" by (simp add: mask_eq_exp_minus_1 push_bit_eq_mult)
  then show ?thesis by (simp only: bit_simps) auto
qed

lemma bit_tagged_address:
  "bit (GetAddressWithAllocationTag a tag) i \<longleftrightarrow> bit a i \<and> \<not> (56 \<le> i \<and> i < 60) \<or> 56 \<le> i \<and> i < 64 \<and> bit tag (i - 56)"
  using bit_imp_le_length [of a i] by (auto simp: GetAddressWithAllocationTag_def bit_simps bit_tag_field)

lemma small_tag_bits: "(tag :: u64) < 16 \<Longrightarrow> bit tag i \<Longrightarrow> i < 4"
proof -
  assume "tag < 16" "bit tag i"
  then have "take_bit 4 tag = tag" using less_mask_eq [of tag 4] by (simp add: take_bit_eq_mask)
  with \<open>bit tag i\<close> show "i < 4" by (metis bit_take_bit_iff)
qed

lemma tag_of_tagged_address:
  assumes "tag < 16"
  shows "GetAllocationTagFromAddress (GetAddressWithAllocationTag a tag) = unat tag"
proof -
  have "ExtractUnsignedBitfield64 59 56 (GetAddressWithAllocationTag a tag) = tag"
    by (rule bit_word_eqI) (auto simp: bit_ExtractUnsignedBitfield64 bit_tagged_address dest: small_tag_bits [OF assms])
  then show ?thesis by (simp add: GetAllocationTagFromAddress_def)
qed

text \<open>The bits of an address that are not the allocation tag.\<close>

abbreviation untagged :: "u64 \<Rightarrow> u64" where
  "untagged a \<equiv> a AND NOT (push_bit 56 0xf)"

lemma untagged_tagged_address:
  assumes "tag < 16"
  shows "untagged (GetAddressWithAllocationTag a tag) = untagged a"
  by (rule bit_word_eqI) (auto simp: bit_tagged_address bit_simps bit_tag_field dest!: small_tag_bits [OF assms])

lemma next_random_frame:
  "ReadRegister c m (snd (next_random s)) = ReadRegister c m s"
  "drop_bit 44 (fst (next_random s)) < (16 :: u64)"
proof -
  show "ReadRegister c m (snd (next_random s)) = ReadRegister c m s"
    by (simp add: next_random_def Let_def ReadRegister_def)
  have "drop_bit 44 (take_bit 48 w) < (16 :: u64)" for w :: u64
    using take_bit_nat_less_exp [of 4 "unat (drop_bit 44 w)"]
    by (simp only: drop_bit_take_bit word_less_nat_alt unsigned_take_bit_eq) simp
  then show "drop_bit 44 (fst (next_random s)) < (16 :: u64)" by (simp add: next_random_def Let_def)
qed

lemma bit_16_ones: "bit (0xffff :: int) i \<longleftrightarrow> i < 16"
proof -
  have "(0xffff :: int) = mask 16" by (simp add: mask_eq_exp_minus_1)
  then show ?thesis by (simp only: bit_simps) simp
qed

lemma tag_below_16: "GetAllocationTagFromAddress a < 16"
proof -
  have "ExtractUnsignedBitfield64 59 56 a = take_bit 4 (drop_bit 56 a)" by (simp add: ExtractUnsignedBitfield64_eq)
  then show ?thesis
    using take_bit_nat_less_exp [of 4 "unat (drop_bit 56 a)"]
    by (simp only: GetAllocationTagFromAddress_def unsigned_take_bit_eq) simp
qed

lemma GenerateRandomTag_result:
  assumes "exclude \<noteq> 0xffff" "GenerateRandomTag exclude s = (tag, s')"
  shows "tag < 16 \<and> \<not> excluded (ucast exclude) tag \<and> (\<forall>c m. ReadRegister c m s' = (ReadRegister c m s :: u64))"
proof -
  obtain r s1 r' s2 where n: "next_random s = (r, s1)" "next_random s1 = (r', s2)" by fastforce
  note f = next_random_frame(1) [of _ _ s] next_random_frame(2) [of s] next_random_frame(1) [of _ _ s1] next_random_frame(2) [of s1]
  have "unat e < 0x10000" for e :: u16 using unsigned_less [of e, where 'a = nat] by simp
  moreover have "take_bit 64 (unat e) = unat e" for e :: u16
    by (rule take_bit_nat_eq_self) (rule less_trans [OF calculation], simp)
  ultimately have small: "(ucast e :: u64) < 0x10000" "(ucast e :: u64) = 0xffff \<longleftrightarrow> e = 0xffff" for e :: u16
    by (simp_all add: word_less_nat_alt word_unat_eq_iff unsigned_ucast_eq)
  have "(ucast (ucast (drop_bit 44 r') :: u16) :: u64) < 16"
    using f(4) n
    by (simp add: word_less_nat_alt unsigned_ucast_eq unsigned_take_bit_eq)
      (erule le_less_trans [OF take_bit_nat_less_eq_self])
  then have half: "(ucast (drop_bit 44 r') :: u16) \<noteq> 0xffff"
    by (auto simp: small(2) [symmetric])
  have "drop_bit 44 r < 16" using f(2) n by simp
  from ChooseNonExcludedTag_result [OF this small(1)] assms half show ?thesis
    using f(1,3) [where 'a = 64] n by (auto simp: GenerateRandomTag_def Let_def small(2) excluded_none split: if_splits)
qed

text \<open>A tag once excluded is not chosen again.  If GMI inserts the tag of a pointer into an exclusion mask
  and IRG then makes a tagged pointer from the same pointer under the mask (which must leave a tag), the
  new pointer has a tag that differs from the tag of the old one and from every tag that the mask of GMI
  already excluded, and agrees with the old pointer in all other bits.  This holds for every state of the
  random number generator.\<close>

theorem excluded_tag_is_not_chosen:
  fixes s :: "'v vsim" and g i :: instruction
  assumes "SimulateMTETagMaskInsert dbg g s = Inr s1" "Simulate_XdSP_XnSP_Xm dbg i s1 = Inr s2"
    and "rn_of (insn_bits i) = rn_of (insn_bits g)" "rm_of (insn_bits i) = rd_of (insn_bits g)"
    and "rd_of (insn_bits g) < 31" "rd_of (insn_bits g) \<noteq> rn_of (insn_bits g)"
    and "ReadXRegister (rd_of (insn_bits g)) s1 AND 0xffff \<noteq> (0xffff :: u64)"
    and "old = ReadRegister (rn_of (insn_bits g)) Reg31IsStackPointer s"
    and "new = ReadRegister (rd_of (insn_bits i)) Reg31IsStackPointer s2"
  shows "GetAllocationTagFromAddress new \<noteq> GetAllocationTagFromAddress old
    \<and> (\<forall>t. bit (ReadXRegister (rm_of (insn_bits g)) s :: u64) t \<longrightarrow> GetAllocationTagFromAddress new \<noteq> t)
    \<and> untagged new = untagged old"
proof -
  define d n m where "d = rd_of (insn_bits g)" and "n = rn_of (insn_bits g)" and "m = rm_of (insn_bits g)"
  define mask where "mask = ReadXRegister m s OR push_bit (GetAllocationTagFromAddress old) (1 :: u64)"
  have s1: "s1 = WriteXRegister d mask s"
    using assms(1) by (auto simp: SimulateMTETagMaskInsert_def Let_def mask_def d_def m_def assms(8) split: sum.splits)
  have d: "d < 31" "d \<noteq> n" "n < 32" using assms(5,6) register_number_less by (simp_all add: d_def n_def)
  define exclude :: u16 where "exclude = ucast (mask AND 0xffff)"
  have wide: "ucast exclude = mask AND 0xffff"
    by (rule bit_word_eqI) (auto simp: exclude_def bit_simps bit_16_ones)
  obtain tag s' where r: "GenerateRandomTag exclude s1 = (tag, s')" by fastforce
  have "exclude \<noteq> 0xffff" using assms(7) wide by (auto simp: s1 d_def [symmetric] d)
  from GenerateRandomTag_result [OF this r]
  have tag: "tag < 16" "\<not> excluded (mask AND 0xffff) tag" by (simp_all add: wide)
  have "s2 = WriteRegister (rd_of (insn_bits i)) (GetAddressWithAllocationTag old tag) Reg31IsStackPointer s'"
    using assms(2) r d
    by (auto simp: Simulate_XdSP_XnSP_Xm_def Let_def assms(3,4) d_def [symmetric] n_def [symmetric] s1 exclude_def assms(8)
        split: sum.splits)
  then have new: "new = GetAddressWithAllocationTag old tag"
    using register_number_less(1) [of "insn_bits i"] by (auto simp: assms(9) ReadRegister_def WriteRegister_def Let_def)
  have "unat tag < 16" using tag(1) by (simp add: word_less_nat_alt)
  with tag(2) have "\<not> bit mask (unat tag)" by (simp add: excluded_bit bit_simps bit_16_ones)
  moreover have "GetAllocationTagFromAddress new = unat tag" "untagged new = untagged old"
    unfolding new by (rule tag_of_tagged_address [OF tag(1)], rule untagged_tagged_address [OF tag(1)])
  moreover have "bit mask (GetAllocationTagFromAddress old)"
    using tag_below_16 [of old] by (simp add: mask_def bit_simps)
  moreover have "bit mask t" if "bit (ReadXRegister m s :: u64) t" for t using that by (simp add: mask_def bit_simps)
  ultimately show ?thesis unfolding m_def by metis
qed

text \<open>\<open>GMI x1, x0, x2\<close> and \<open>IRG x3, x0, x1\<close> on a pointer with tag 3.\<close>

definition gmi_instr :: instruction where
  "gmi_instr = \<lparr> insn_addr = 0x1000, insn_bits = 0x9AC21401 \<rparr>"

definition irg_instr :: instruction where
  "irg_instr = \<lparr> insn_addr = 0x1004, insn_bits = 0x9AC11003 \<rparr>"

theorem excluded_tag_is_not_chosen_witness:
  "\<exists>s1 s2. SimulateMTETagMaskInsert False gmi_instr (setg_vsim :: visitor vsim) = Inr s1
    \<and> Simulate_XdSP_XnSP_Xm False irg_instr s1 = Inr s2
    \<and> GetAllocationTagFromAddress (ReadRegister 3 Reg31IsStackPointer s2) \<noteq> 3"
proof -
  let ?s = "setg_vsim :: visitor vsim"
  have f: "rd_of (insn_bits gmi_instr) = 1" "rn_of (insn_bits gmi_instr) = 0" "rm_of (insn_bits gmi_instr) = 2"
    "rd_of (insn_bits irg_instr) = 3" "rn_of (insn_bits irg_instr) = 0" "rm_of (insn_bits irg_instr) = 1"
    by (simp_all add: gmi_instr_def irg_instr_def GetRd_def GetRn_def GetRm_def ExtractBits_def
        ExtractUnsignedBitfield32_def ExtractUnsignedBitfield64_def)
  have x: "ReadRegister 0 Reg31IsStackPointer ?s = (0x0300000000004000 :: u64)" "ReadXRegister 2 ?s = (16 :: u64)"
    "GetAllocationTagFromAddress 0x0300000000004000 = 3"
    by (simp_all add: ReadRegister_def setg_vsim_def GetAllocationTagFromAddress_def ExtractUnsignedBitfield64_def)
  have g: "SimulateMTETagMaskInsert False gmi_instr ?s = Inr (WriteXRegister 1 0x18 ?s)"
    by (simp add: SimulateMTETagMaskInsert_def vixl_assert_def Let_def f x)
  moreover have "\<exists>s2. Simulate_XdSP_XnSP_Xm False i t = Inr s2" for i and t :: "visitor vsim"
    by (cases "GenerateRandomTag (ucast (ReadXRegister (rm_of (insn_bits i)) t AND 0xffff)) t")
      (simp add: Simulate_XdSP_XnSP_Xm_def vixl_assert_def Let_def)
  then obtain s2 where i: "Simulate_XdSP_XnSP_Xm False irg_instr (WriteXRegister 1 0x18 ?s) = Inr s2" by blast
  moreover have "GetAllocationTagFromAddress (ReadRegister 3 Reg31IsStackPointer s2) \<noteq> 3"
    using excluded_tag_is_not_chosen [OF g i, unfolded f x, OF refl refl _ _ _ refl refl] by (simp add: x)
  ultimately show ?thesis by blast
qed

section \<open>Storing tags\<close>

lemma zero_block_fills:
  assumes "zero_block a n s = Inr s'" "unat (AddressUntag a) + 8 * n \<le> 2 ^ 56"
  shows "memory s' = (\<lambda>x. if unat (x - AddressUntag a) < 8 * n then 0 else memory s x)
    \<and> mte_tags s' = mte_tags s \<and> mte_active s' = mte_active s"
  using assms
proof (induction n arbitrary: a s)
  case (Suc n)
  then obtain t where t: "MemWrite 8 a (0 :: u64) s = Inr t" "zero_block (a + 8) n t = Inr s'" by auto
  note m = MemWrite_memory [OF t(1)] and f = MemWrite_frame [OF t(1)]
  show ?case
  proof (cases n)
    case 0
    with t(2) have "s' = t" by simp
    with 0 show ?thesis using f by (auto simp: m write_mem_apply)
  next
    case (Suc k)
    then have "unat (AddressUntag a) + 8 < 2 ^ 56" using Suc.prems(2) by simp
    from unat_untag_add [OF this] have u: "AddressUntag (a + 8) = AddressUntag a + 8"
      using Suc.prems(2) by (simp add: word_unat_eq_iff unat_word_ariths)
    have split: "unat (x - AddressUntag a) < 8 * Suc n \<longleftrightarrow>
        unat (x - (AddressUntag a + 8)) < 8 * n \<or> unat (x - AddressUntag a) < 8" for x
    proof -
      have "8 * n < 2 ^ 56" using Suc.prems(2) by simp
      then have "unat y < 8 * Suc n \<longleftrightarrow> unat (y - 8) < 8 * n \<or> unat y < 8" for y :: u64
        by (auto simp: unat_sub_if')
      from this [of "x - AddressUntag a"] show ?thesis by (simp only: diff_diff_eq)
    qed
    have "unat (AddressUntag (a + 8)) + 8 * n \<le> 2 ^ 56"
      using unat_untag_add [of a 8] Suc.prems(2) Suc by simp
    from Suc.IH [OF t(2) this] show ?thesis using f
      unfolding u split by (auto simp: m write_mem_apply fun_eq_iff)
  qed
qed simp

lemma set_tag_result: "set_tag dbg a tag s = Inr s' \<Longrightarrow> s' = SetMTETag a tag s"
  by (auto simp: set_tag_def split: sum.splits)

lemma AddressModeHelper_frame:
  "AddressModeHelper c off mode s = Inr (a, s') \<Longrightarrow>
    memory s' = memory s \<and> mte_tags s' = mte_tags s \<and> mte_active s' = mte_active s"
  by (auto simp: AddressModeHelper_def Let_def WriteRegister_def split: if_splits)

text \<open>The granule of an address behind an aligned one.\<close>

lemma key_behind:
  assumes "base AND 15 = 0" "unat (AddressUntag base) + 16 * n \<le> 2 ^ 56"
  shows "unat (AddressUntag a - AddressUntag base) < 16 * n \<longleftrightarrow>
    (\<exists>j < n. GenerateMTEkey a = GenerateMTEkey (base + of_nat (16 * j)))"
proof -
  have "unat base mod 16 = 0" using arg_cong [OF assms(1), of unat] by (simp only: unat_and_15 unat_0)
  then have "unat (AddressUntag base) mod 16 = 0" by (simp only: unat_untag) (simp add: mod_mod_cancel)
  then obtain q where q: "unat (AddressUntag base) = 16 * q" by auto
  have key: "unat (GenerateMTEkey (base + of_nat (16 * j))) = q + j" if "j < n" for j
    using unat_untag_add [of base "16 * j"] assms(2) that by (simp add: unat_key q)
  have "unat (AddressUntag a) < 2 ^ 56" by (simp add: unat_untag)
  then have "unat (AddressUntag a - AddressUntag base) < 16 * n \<longleftrightarrow>
      16 * q \<le> unat (AddressUntag a) \<and> unat (AddressUntag a) < 16 * q + 16 * n"
    using assms(2) q by (auto simp: unat_sub_if')
  also have "\<dots> \<longleftrightarrow> q \<le> unat (AddressUntag a) div 16 \<and> unat (AddressUntag a) div 16 < q + n" by auto
  also have "\<dots> \<longleftrightarrow> (\<exists>j < n. unat (AddressUntag a) div 16 = q + j)"
    by (metis add_less_cancel_left le_add1 le_iff_add)
  also have "\<dots> \<longleftrightarrow> (\<exists>j < n. GenerateMTEkey a = GenerateMTEkey (base + of_nat (16 * j)))"
    by (intro ex_cong1 conj_cong refl) (simp only: word_unat_eq_iff unat_key [of a] key)
  finally show ?thesis .
qed

lemma key_AlignDown: "GenerateMTEkey (AlignDown a kMTETagGranuleInBytes) = GenerateMTEkey a"
proof -
  have "(kMTETagGranuleInBytes - 1 :: u64) = mask 4" by (simp add: kMTETagGranuleInBytes_def mask_eq_exp_minus_1)
  then have "bit (AlignDown a kMTETagGranuleInBytes) i \<longleftrightarrow> bit a i \<and> 4 \<le> i" for i
    using bit_imp_le_length [of a i] by (auto simp only: AlignDown_def bit_simps possible_bit_word)
  then show ?thesis
    by (intro bit_word_eqI) (auto simp: GenerateMTEkey_def AddressUntag_bit bit_drop_bit_eq)
qed

text \<open>LDG reads the tag of the granule that holds the address.\<close>

lemma SimulateMTELoadTag_result:
  assumes "form_hash t = Hash ''ldg_64loffset_ldsttags''" "rt_of (insn_bits l) < 31"
    and "AddressModeHelper (rn_of (insn_bits l)) (scast (GetImmLS (insn_bits l) * 16)) Offset t = Inr (a, t)"
    and "mte_tags t (GenerateMTEkey a) = Some tag" "tag < 16"
  shows "\<exists>u. SimulateMTELoadTag dbg l t = Inr u
    \<and> GetAllocationTagFromAddress (ReadXRegister (rt_of (insn_bits l)) u) = tag
    \<and> untagged (ReadXRegister (rt_of (insn_bits l)) u) = untagged (ReadXRegister (rt_of (insn_bits l)) t)"
proof -
  define r where "r = rt_of (insn_bits l)"
  have small: "(of_nat tag :: u64) < 16" "unat (of_nat tag :: u64) = tag"
    using assms(5) by (simp_all add: word_less_nat_alt unat_of_nat take_bit_nat_eq_self)
  let ?u = "WriteXRegister r (GetAddressWithAllocationTag (ReadXRegister r t) (of_nat tag)) t"
  have g: "GetMTETag (AlignDown a kMTETagGranuleInBytes) t = Inr tag"
    by (simp only: GetMTETag_def key_AlignDown assms(4)) simp
  have k: "kMTETagGranuleInBytes = (16 :: u32)" by (simp add: kMTETagGranuleInBytes_def)
  have "SimulateMTELoadTag dbg l t = Inr ?u"
    by (simp add: SimulateMTELoadTag_def Let_def assms(1) assms(3) g k r_def)
  moreover have "ReadXRegister r ?u = GetAddressWithAllocationTag (ReadXRegister r t) (of_nat tag)"
    using assms(2) by (simp only: r_def ReadX_WriteX)
  ultimately show ?thesis unfolding r_def [symmetric]
    using tag_of_tagged_address [OF small(1)] untagged_tagged_address [OF small(1)] small(2) by metis
qed

text \<open>What a store of tags does once its address is known.\<close>

lemma SimulateMTEStoreTag_result:
  assumes "SimulateMTEStoreTag dbg i s = Inr s1"
    and "addr_mode_switch dbg stg_offset_forms stg_post_forms stg_pre_forms s = Inr mode"
    and "AddressModeHelper (rn_of (insn_bits i)) (scast (GetImmLS (insn_bits i) * 16)) mode s = Inr (address, s0)"
    and "tag = GetAllocationTagFromAddress (ReadRegister (rt_of (insn_bits i)) Reg31IsStackPointer s)"
    and "n = (if form_hash s \<in> set (map Hash stg_pair_forms) then 2 else 1)"
  shows "\<exists>s2. (if form_hash s \<in> set (map Hash stg_zeroing_forms) then zero_block address (2 * n) s0 = Inr s2 else s2 = s0)
    \<and> s1 = (if n = 2 then SetMTETag (address + of_nat 16) tag (SetMTETag address tag s2) else SetMTETag address tag s2)"
proof -
  have k: "kMTETagGranuleInBytes = (16 :: u32)" "kMTETagGranuleInBytes = (16 :: u64)"
    by (simp_all add: kMTETagGranuleInBytes_def)
  let ?z = "form_hash s \<in> set (map Hash stg_zeroing_forms)" and ?p = "form_hash s \<in> set (map Hash stg_pair_forms)"
  let ?Z = "if ?z then if \<not> IsAligned address 16 then Inl AlignmentException
      else zero_block address (if ?p then 4 else 2) s0 else Inr s0"
  have run: "and_then ?Z (\<lambda>s2. and_then (set_tag dbg address tag s2)
      (\<lambda>s3. if ?p then set_tag dbg (address + 16) tag s3 else Inr s3)) = Inr s1"
    using assms(1) unfolding SimulateMTEStoreTag_def Let_def k assms(2) assms(4) [symmetric]
    by (simp only: and_then.simps assms(3) prod.case)
  then obtain s2 where s2: "?Z = Inr s2" by (cases ?Z) auto
  with run have r: "and_then (set_tag dbg address tag s2) (\<lambda>s3. if ?p then set_tag dbg (address + 16) tag s3 else Inr s3) = Inr s1"
    by (simp only: and_then.simps)
  then obtain s3 where s3: "set_tag dbg address tag s2 = Inr s3" by (cases "set_tag dbg address tag s2") auto
  with r have "(if ?p then set_tag dbg (address + 16) tag s3 else Inr s3) = Inr s1" by (simp only: and_then.simps)
  with set_tag_result [OF s3] have "s1 = (if n = 2 then SetMTETag (address + of_nat 16) tag (SetMTETag address tag s2)
      else SetMTETag address tag s2)"
    using set_tag_result [of dbg "address + 16" tag s3 s1] by (cases ?p) (simp_all only: assms(5) if_True if_False sum.inject, simp_all)
  moreover have "if ?z then zero_block address (2 * n) s0 = Inr s2 else s2 = s0"
    using s2 by (cases ?z; cases ?p; cases "IsAligned address 16") (simp_all only: assms(5) if_True if_False sum.inject, simp_all)
  ultimately show ?thesis by blast
qed

text \<open>C21: A stored tag is the tag that is loaded.  After a store of tags (STG, ST2G, STZG and STZ2G in every
  addressing mode) at an aligned address, exactly the one or two granules from the address on have the
  tag of the stored pointer, all others keep theirs; the zeroing forms clear exactly the bytes of these
  granules and the others leave memory alone; and LDG from any address in the granules, in any later
  state with the same tags, puts that tag into its register and leaves the other bits alone.\<close>

theorem stored_tag_is_loaded:
  fixes s t :: "'v vsim" and i :: instruction
  assumes "SimulateMTEStoreTag dbg i s = Inr s1"
    and "addr_mode_switch dbg stg_offset_forms stg_post_forms stg_pre_forms s = Inr mode"
    and "AddressModeHelper (rn_of (insn_bits i)) (scast (GetImmLS (insn_bits i) * 16)) mode s = Inr (address, s0)"
    and "tag = GetAllocationTagFromAddress (ReadRegister (rt_of (insn_bits i)) Reg31IsStackPointer s)"
    and "len = (if form_hash s \<in> set (map Hash stg_pair_forms) then 32 else 16)"
    and "address AND 15 = 0" "unat (AddressUntag address) + len \<le> 2 ^ 56"
  shows "(\<forall>a. mte_tags s1 (GenerateMTEkey a) =
        (if unat (AddressUntag a - AddressUntag address) < len then Some tag else mte_tags s (GenerateMTEkey a)))
    \<and> memory s1 = (if form_hash s \<in> set (map Hash stg_zeroing_forms)
        then (\<lambda>x. if unat (x - AddressUntag address) < len then 0 else memory s x) else memory s)
    \<and> (\<forall>l a. mte_tags t = mte_tags s1 \<longrightarrow> form_hash t = Hash ''ldg_64loffset_ldsttags'' \<longrightarrow> rt_of (insn_bits l) < 31 \<longrightarrow>
        AddressModeHelper (rn_of (insn_bits l)) (scast (GetImmLS (insn_bits l) * 16)) Offset t = Inr (a, t) \<longrightarrow>
        unat (AddressUntag a - AddressUntag address) < len \<longrightarrow>
        (\<exists>u. SimulateMTELoadTag dbg l t = Inr u
          \<and> GetAllocationTagFromAddress (ReadXRegister (rt_of (insn_bits l)) u) = tag
          \<and> untagged (ReadXRegister (rt_of (insn_bits l)) u) = untagged (ReadXRegister (rt_of (insn_bits l)) t)))"
proof -
  define n :: nat where "n = (if form_hash s \<in> set (map Hash stg_pair_forms) then 2 else 1)"
  have len: "len = 16 * n" "n = 1 \<or> n = 2" by (simp_all only: assms(5) n_def) simp_all
  obtain s2 where s2: "if form_hash s \<in> set (map Hash stg_zeroing_forms) then zero_block address (2 * n) s0 = Inr s2 else s2 = s0"
    "s1 = (if n = 2 then SetMTETag (address + of_nat 16) tag (SetMTETag address tag s2) else SetMTETag address tag s2)"
    using SimulateMTEStoreTag_result [OF assms(1-4) n_def] by blast
  note s0 = AddressModeHelper_frame [OF assms(3)]
  have fit: "unat (AddressUntag address) + 16 * n \<le> 2 ^ 56" using assms(7) by (simp only: len(1))
  have zero: "(memory s2 = (if form_hash s \<in> set (map Hash stg_zeroing_forms)
      then (\<lambda>x. if unat (x - AddressUntag address) < len then 0 else memory s x) else memory s)) \<and> mte_tags s2 = mte_tags s"
  proof (cases "form_hash s \<in> set (map Hash stg_zeroing_forms)")
    case True
    with s2(1) have "zero_block address (2 * n) s0 = Inr s2" by (simp only: if_True)
    from zero_block_fills [OF this] fit True s0 show ?thesis by (simp only: len(1) if_True) simp
  next
    case False
    with s2(1) s0 show ?thesis by (simp only: if_False)
  qed
  have "memory s1 = memory s2" unfolding s2(2) by (simp add: SetMTETag_def)
  with zero have m: "memory s1 = (if form_hash s \<in> set (map Hash stg_zeroing_forms)
      then (\<lambda>x. if unat (x - AddressUntag address) < len then 0 else memory s x) else memory s)" by (simp only:)
  have k: "unat (AddressUntag a - AddressUntag address) < len \<longleftrightarrow>
      GenerateMTEkey a = GenerateMTEkey address \<or> n = 2 \<and> GenerateMTEkey a = GenerateMTEkey (address + of_nat 16)" for a
    unfolding len(1) key_behind [OF assms(6) fit] using len(2) by (auto simp: numeral_2_eq_2 less_Suc_eq)
  have tags: "mte_tags s1 (GenerateMTEkey a) =
      (if unat (AddressUntag a - AddressUntag address) < len then Some tag else mte_tags s (GenerateMTEkey a))" for a
    unfolding k s2(2) using zero by (auto simp: SetMTETag_def)
  have small: "tag < 16" unfolding assms(4) by (rule tag_below_16)
  show ?thesis
    using tags m SimulateMTELoadTag_result [OF _ _ _ _ small, of t _ _ dbg] by simp
qed

text \<open>\<open>STZ2G x1, [x0]\<close> with tag 5, on \<open>0x4000\<close>.\<close>

definition stz2g_instr :: instruction where
  "stz2g_instr = \<lparr> insn_addr = 0x1000, insn_bits = 0xD9E00801 \<rparr>"

definition stz2g_vsim :: "'v vsim" where
  "stz2g_vsim = blank_vsim\<lparr>form_hash := Hash ''stz2g_64soffset_ldsttags'',
     xregs := (\<lambda>c. if c = 0 then 0x4000 else if c = 1 then 0x0500000000000000 else 0)\<rparr>"

lemma stz2g_fields:
  "rn_of (insn_bits stz2g_instr) = 0" "rt_of (insn_bits stz2g_instr) = 1" "GetImmLS (insn_bits stz2g_instr) = 0"
  by (simp_all add: stz2g_instr_def GetRn_def GetRt_def GetImmLS_def ExtractBits_def ExtractSignedBits_def
      ExtractSignedBitfield32_def ExtractSignedBitfield64_def ExtractUnsignedBitfield32_def ExtractUnsignedBitfield64_def)

theorem stored_tag_is_loaded_witness:
  "\<exists>s1. SimulateMTEStoreTag False stz2g_instr (stz2g_vsim :: visitor vsim) = Inr s1
    \<and> memory s1 0x401f = 0 \<and> mte_tags s1 0x401 = Some 5"
proof -
  let ?s = "stz2g_vsim :: visitor vsim"
  note f = stz2g_fields
  have x: "ReadRegister 0 Reg31IsStackPointer ?s = (0x4000 :: u64)" "ReadRegister 1 Reg31IsStackPointer ?s = (0x0500000000000000 :: u64)"
    by (simp_all add: ReadRegister_def stz2g_vsim_def)
  have h: "form_hash ?s = Hash ''stz2g_64soffset_ldsttags''" by (simp add: stz2g_vsim_def del: Hash_def)
  have l: "form_hash ?s \<in> set (map Hash stg_pair_forms)" "form_hash ?s \<in> set (map Hash stg_zeroing_forms)"
    "form_hash ?s \<in> set (map Hash stg_offset_forms)"
    unfolding h stg_pair_forms_def stg_zeroing_forms_def stg_offset_forms_def list.map list.set
    by (intro insertI1 insertI2)+
  have mode: "addr_mode_switch False stg_offset_forms stg_post_forms stg_pre_forms ?s = Inr Offset"
    unfolding addr_mode_switch_def Let_def if_P [OF l(3)] ..
  have addr: "AddressModeHelper (rn_of (insn_bits stz2g_instr)) (scast (GetImmLS (insn_bits stz2g_instr) * 16)) Offset ?s = Inr (0x4000, ?s)"
    by (simp add: AddressModeHelper_def f x Let_def)
  have "access_checks StackGuardWrite (0x4000 + 8 * of_nat j) 8 ?s = Inr ()" if "j < 4" for j
  proof -
    have "j \<in> {0, 1, 2, 3}" using that by auto
    then show ?thesis
      by (auto simp: access_checks_def IsMTETagsMatched_def stz2g_vsim_def blank_vsim_def IsAccessInGuardRegion_def
          Allocate_def default_SimStack_def AlignUp_def Let_def AddressUntag_def)
  qed
  from zero_block_runs [OF this] obtain s2 where z: "zero_block 0x4000 4 ?s = Inr s2" by blast
  have k: "kMTETagGranuleInBytes = (16 :: u32)" "kMTETagGranuleInBytes = (16 :: u64)"
    by (simp_all add: kMTETagGranuleInBytes_def)
  obtain s1 where run: "SimulateMTEStoreTag False stz2g_instr ?s = Inr s1"
    unfolding SimulateMTEStoreTag_def Let_def k mode if_P [OF l(1)] if_P [OF l(2)]
    by (simp add: addr z IsAligned_def set_tag_def vixl_assert_def)
  have t: "GetAllocationTagFromAddress 0x0500000000000000 = 5"
    by (simp add: GetAllocationTagFromAddress_def ExtractUnsignedBitfield64_def)
  from stored_tag_is_loaded [OF run mode addr refl refl, unfolded if_P [OF l(1)] if_P [OF l(2)] f x t]
  have "\<forall>a. mte_tags s1 (GenerateMTEkey a) = (if unat (AddressUntag a - 0x4000) < 32 then Some 5 else mte_tags ?s (GenerateMTEkey a))"
    "memory s1 = (\<lambda>x. if unat (x - 0x4000) < 32 then 0 else memory ?s x)"
    by (simp_all add: AddressUntag_def)
  from this(1) [rule_format, of "0x4010"] this(2) run show ?thesis
    by (simp add: GenerateMTEkey_def AddressUntag_def)
qed

text \<open>C33: The zeroing tag stores depend on the tag they replace.  With tag checks active and an aligned
  address outside the guard region whose granule has another tag than the pointer, STZG and STZ2G fail
  with a tag mismatch before they store anything, whereas STG and ST2G in the same state retag the
  granule: the zeroing goes through the checked write of memory, although these instructions set tags.\<close>

theorem zeroing_store_checks_the_old_tag:
  fixes s :: "'v vsim" and i :: instruction
  assumes "addr_mode_switch dbg stg_offset_forms stg_post_forms stg_pre_forms s = Inr mode"
    and "AddressModeHelper (rn_of (insn_bits i)) (scast (GetImmLS (insn_bits i) * 16)) mode s = Inr (address, s0)"
    and "address AND 15 = 0" "mte_active s"
    and "mte_tags s (GenerateMTEkey address) = Some old" "old \<noteq> GetAllocationTagFromAddress address"
    and "\<not> IsAccessInGuardRegion (stack s) (AddressUntag address) 8"
  shows "(form_hash s \<in> set (map Hash stg_zeroing_forms) \<longrightarrow> SimulateMTEStoreTag dbg i s = Inl TagMismatch)
    \<and> (form_hash s \<notin> set (map Hash stg_zeroing_forms) \<longrightarrow> (\<exists>s1. SimulateMTEStoreTag dbg i s = Inr s1
      \<and> mte_tags s1 (GenerateMTEkey address) =
          Some (GetAllocationTagFromAddress (ReadRegister (rt_of (insn_bits i)) Reg31IsStackPointer s))))"
proof -
  have k: "kMTETagGranuleInBytes = (16 :: u32)" "kMTETagGranuleInBytes = (16 :: u64)"
    by (simp_all add: kMTETagGranuleInBytes_def)
  have s0: "mte_tags s0 = mte_tags s" "mte_active s0 = mte_active s" "stack s0 = stack s"
    using assms(2) by (auto simp: AddressModeHelper_def Let_def WriteRegister_def split: if_splits)
  have "GenerateMTEkey (AddressUntag address) = GenerateMTEkey address" by (simp add: GenerateMTEkey_def AddressUntag_def)
  then have "MemWrite 8 address (0 :: u64) s0 = Inl TagMismatch"
    using assms(4-7) by (simp add: MemWrite_def Memory_Write_def access_checks_def IsMTETagsMatched_def GetMTETag_def s0)
  then have z: "zero_block address 2 s0 = Inl TagMismatch" "zero_block address 4 s0 = Inl TagMismatch"
    by (simp_all add: numeral_eq_Suc)
  have "(address + 16) AND 15 = 0"
    using assms(3) by (simp only: word_unat_eq_iff unat_and_15 unat_word_ariths) (simp add: mod_mod_cancel mod_simps)
  then have t: "set_tag dbg address tag u = Inr (SetMTETag address tag u)"
    "set_tag dbg (address + 16) tag u = Inr (SetMTETag (address + 16) tag u)" for tag and u :: "'v vsim"
    using assms(3) by (simp_all add: set_tag_def vixl_assert_def IsAligned_def k)
  have a: "IsAligned address 16" using assms(3) by (simp add: IsAligned_def)
  show ?thesis
    unfolding SimulateMTEStoreTag_def Let_def k assms(1)
    by (cases "form_hash s \<in> set (map Hash stg_zeroing_forms)"; cases "form_hash s \<in> set (map Hash stg_pair_forms)")
      (simp_all only: and_then.simps assms(2) prod.case if_True if_False a z t simp_thms, simp_all add: SetMTETag_def)
qed

text \<open>The same store where the granule has tag 3.\<close>

theorem zeroing_store_checks_the_old_tag_witness:
  "SimulateMTEStoreTag False stz2g_instr
     (stz2g_vsim\<lparr>mte_active := True, mte_tags := [GenerateMTEkey 0x4000 \<mapsto> 3]\<rparr> :: visitor vsim) = Inl TagMismatch"
proof -
  let ?s = "stz2g_vsim\<lparr>mte_active := True, mte_tags := [GenerateMTEkey 0x4000 \<mapsto> 3]\<rparr> :: visitor vsim"
  have h: "form_hash ?s = Hash ''stz2g_64soffset_ldsttags''" by (simp add: stz2g_vsim_def del: Hash_def)
  have l: "form_hash ?s \<in> set (map Hash stg_zeroing_forms)" "form_hash ?s \<in> set (map Hash stg_offset_forms)"
    unfolding h stg_zeroing_forms_def stg_offset_forms_def list.map list.set by (intro insertI1 insertI2)+
  have mode: "addr_mode_switch False stg_offset_forms stg_post_forms stg_pre_forms ?s = Inr Offset"
    unfolding addr_mode_switch_def Let_def if_P [OF l(2)] ..
  have "ReadRegister 0 Reg31IsStackPointer ?s = (0x4000 :: u64)" by (simp add: ReadRegister_def stz2g_vsim_def)
  then have addr: "AddressModeHelper (rn_of (insn_bits stz2g_instr)) (scast (GetImmLS (insn_bits stz2g_instr) * 16)) Offset ?s = Inr (0x4000, ?s)"
    by (simp add: AddressModeHelper_def stz2g_fields Let_def)
  have tags: "mte_tags ?s (GenerateMTEkey 0x4000) = Some 3" "(3 :: nat) \<noteq> GetAllocationTagFromAddress 0x4000"
    by (simp_all add: GetAllocationTagFromAddress_def ExtractUnsignedBitfield64_def)
  have guard: "\<not> IsAccessInGuardRegion (stack ?s) (AddressUntag 0x4000) 8"
    by (simp add: stz2g_vsim_def blank_vsim_def IsAccessInGuardRegion_def Allocate_def default_SimStack_def AlignUp_def
        Let_def AddressUntag_def)
  show ?thesis
    using zeroing_store_checks_the_old_tag [OF mode addr _ _ tags guard] l(1) by simp
qed

end
