(* ===== verification/Stack_Contracts.thy ===== *)
theory Stack_Contracts
  imports Tag_Contracts Sim_Api
begin

text \<open>
  What the switches between guarded control stacks promise: a switch to another stack and back
  finds both stacks as they were left, and only the handle of a stack opens it.
\<close>

section \<open>Tokens\<close>

text \<open>The token of the stack with an index, when it has the 32 bits that the handles give it.\<close>

lemma token_index: "i < 2 ^ 20 \<Longrightarrow> GetGCSIndexFromToken (GetGCSTokenFromIndex i) = i"
proof -
  assume i: "i < 2 ^ 20"
  then have "unat (of_nat i :: u64) = i" by (simp add: unat_of_nat take_bit_nat_eq_self)
  moreover have "drop_bit 12 (push_bit 12 (of_nat i :: u64)) = take_bit 52 (of_nat i)"
    by (rule bit_word_eqI) (auto simp: bit_simps)
  moreover have "take_bit 52 i = i" using i by (simp add: take_bit_nat_eq_self)
  ultimately show ?thesis
    by (simp add: GetGCSIndexFromToken_def GetGCSTokenFromIndex_def unsigned_take_bit_eq)
qed

lemma bit_token: "i < 2 ^ 20 \<Longrightarrow> bit (GetGCSTokenFromIndex i) k \<longleftrightarrow> 12 \<le> k \<and> k < 32 \<and> bit i (k - 12)"
proof -
  assume i: "i < 2 ^ 20"
  then have "take_bit 20 i = i" by (simp add: take_bit_nat_eq_self)
  then have "bit i m \<Longrightarrow> m < 20" for m by (metis bit_take_bit_iff)
  then show ?thesis
    by (auto simp: GetGCSTokenFromIndex_def bit_simps) fastforce+
qed

lemma bit_small:
  "bit (1 :: int) k \<longleftrightarrow> k = 0" "bit (5 :: int) k \<longleftrightarrow> k = 0 \<or> k = 2" "bit (7 :: int) k \<longleftrightarrow> k < 3"
  "bit (0x3ff :: int) k \<longleftrightarrow> k < 10" "bit (0xffffffff :: int) k \<longleftrightarrow> k < 32"
proof -
  have m: "(7 :: int) = mask 3" "(0x3ff :: int) = mask 10" "(0xffffffff :: int) = mask 32"
    by (simp_all add: mask_eq_exp_minus_1)
  show "bit (7 :: int) k \<longleftrightarrow> k < 3" "bit (0x3ff :: int) k \<longleftrightarrow> k < 10" "bit (0xffffffff :: int) k \<longleftrightarrow> k < 32"
    unfolding m bit_mask_iff by simp_all
  have "(5 :: int) = 1 OR push_bit 2 1" by simp
  then show "bit (5 :: int) k \<longleftrightarrow> k = 0 \<or> k = 2" by (simp only: bit_simps) auto
qed (auto simp: bit_1_iff)

lemma token_plus:
  assumes "i < 2 ^ 20"
  shows "GetGCSTokenFromIndex i + 1 = GetGCSTokenFromIndex i OR 1" "GetGCSTokenFromIndex i + 5 = GetGCSTokenFromIndex i OR 5"
proof -
  have "GetGCSTokenFromIndex i AND 1 = 0" "GetGCSTokenFromIndex i AND 5 = 0"
    by (rule bit_word_eqI, auto simp: bit_simps bit_token [OF assms] bit_small)+
  then show "GetGCSTokenFromIndex i + 1 = GetGCSTokenFromIndex i OR 1" "GetGCSTokenFromIndex i + 5 = GetGCSTokenFromIndex i OR 5"
    using word_plus_and_or [of "GetGCSTokenFromIndex i" 1] word_plus_and_or [of "GetGCSTokenFromIndex i" 5] by simp_all
qed

lemma token_marks:
  assumes "i < 2 ^ 20"
  shows "(GetGCSTokenFromIndex i + 5) AND 7 = 5" "(GetGCSTokenFromIndex i + 5) AND NOT 0x3ff = GetGCSTokenFromIndex i"
    "GetGCSTokenFromIndex i \<noteq> kGCSNoStack" "drop_bit 32 (GetGCSTokenFromIndex i + 1) = 0"
proof -
  show "(GetGCSTokenFromIndex i + 5) AND 7 = 5"
    unfolding token_plus(2) [OF assms]
    by (rule bit_word_eqI) (auto simp: bit_simps bit_token [OF assms] bit_small)
  show "(GetGCSTokenFromIndex i + 5) AND NOT 0x3ff = GetGCSTokenFromIndex i"
    unfolding token_plus(2) [OF assms]
    by (rule bit_word_eqI) (auto simp: bit_simps bit_token [OF assms] bit_small)
  show "drop_bit 32 (GetGCSTokenFromIndex i + 1) = 0"
    unfolding token_plus(1) [OF assms]
    by (rule bit_word_eqI) (auto simp: bit_simps bit_token [OF assms] bit_small)
  have "bit kGCSNoStack 0" by (simp add: kGCSNoStack_def bit_0)
  then show "GetGCSTokenFromIndex i \<noteq> kGCSNoStack" using bit_token [OF assms, of 0] by auto
qed

text \<open>The handle of a sealed stack, by its index and size, and the seal.\<close>

definition gcs_handle :: "nat \<Rightarrow> nat \<Rightarrow> u64" where
  "gcs_handle i n = push_bit 32 (of_nat n) OR GetGCSTokenFromIndex i"

definition gcs_seal :: "nat \<Rightarrow> nat \<Rightarrow> u64" where
  "gcs_seal i n = push_bit 32 (of_nat n) OR (GetGCSTokenFromIndex i + 1)"

lemma handle_parts:
  assumes "i < 2 ^ 20" "n < 2 ^ 32"
  shows "drop_bit 32 (gcs_handle i n) = of_nat n" "gcs_handle i n AND 0xffffffff = GetGCSTokenFromIndex i"
    "gcs_seal i n XOR gcs_handle i n = 1" "gcs_seal i n - 1 = gcs_handle i n" "drop_bit 32 (of_nat n :: u64) = 0"
proof -
  have "take_bit 32 n = n" using assms(2) by (simp add: take_bit_nat_eq_self)
  then have n: "bit n m \<Longrightarrow> m < 32" for m by (metis bit_take_bit_iff)
  show "drop_bit 32 (gcs_handle i n) = of_nat n" "drop_bit 32 (of_nat n :: u64) = 0"
    by (rule bit_word_eqI, auto simp: gcs_handle_def bit_simps bit_token [OF assms(1)] dest: n)+
  show "gcs_handle i n AND 0xffffffff = GetGCSTokenFromIndex i"
    by (rule bit_word_eqI) (auto simp: gcs_handle_def bit_simps bit_token [OF assms(1)] bit_small)
  show "gcs_seal i n XOR gcs_handle i n = 1"
    unfolding gcs_seal_def gcs_handle_def token_plus(1) [OF assms(1)]
    by (rule bit_word_eqI) (auto simp: bit_simps bit_token [OF assms(1)] bit_small bit_1_iff)
  have "gcs_handle i n AND 1 = 0"
    by (rule bit_word_eqI) (auto simp: gcs_handle_def bit_simps bit_token [OF assms(1)] bit_1_iff)
  then have "gcs_handle i n + 1 = gcs_handle i n OR 1" using word_plus_and_or [of "gcs_handle i n" 1] by simp
  then show "gcs_seal i n - 1 = gcs_handle i n"
    by (simp add: gcs_seal_def gcs_handle_def token_plus(1) [OF assms(1)] or.assoc eq_diff_eq [symmetric] eq_commute)
qed

section \<open>One switch\<close>

text \<open>The simulator runs on stack \<open>i\<close>.\<close>

definition runs_on :: "nat \<Rightarrow> 'v vsim \<Rightarrow> bool" where
  "runs_on i s \<longleftrightarrow> gcs_valid s \<and> gcs_live s \<and> i < length (gcs_stacks s) \<and> gcs_token s = GetGCSTokenFromIndex i
    \<and> length (gcs_stacks s) < 2 ^ 20"

lemma runs_on_parked:
  "runs_on i s \<Longrightarrow> parked_stacks s = (gcs_stacks s)[i := Some (gcs_stack s)]"
  by (simp add: runs_on_def parked_stacks_def token_index)

lemma ActivateGCS_other:
  assumes "runs_on i s" "j \<noteq> i" "j < length (gcs_stacks s)" "gcs_stacks s ! j = Some st"
  shows "ActivateGCS (GetGCSTokenFromIndex j) s =
    Inr (s\<lparr>gcs_stacks := (gcs_stacks s)[i := Some (gcs_stack s)], gcs_valid := True, gcs_live := True, gcs_token := GetGCSTokenFromIndex j, gcs_stack := st\<rparr>)"
proof -
  have "j < 2 ^ 20" using assms(1,3) by (simp add: runs_on_def)
  then show ?thesis using assms by (simp add: ActivateGCS_def GetGCSPtr_def runs_on_parked token_index)
qed

lemma ActivateGCS_index:
  assumes "runs_on i s" "j \<noteq> i" "j < length (gcs_stacks s)" "gcs_stacks s ! j = Some st" "GetGCSIndexFromToken token = j"
  shows "ActivateGCS token s = Inr (s\<lparr>gcs_stacks := (gcs_stacks s)[i := Some (gcs_stack s)],
      gcs_valid := True, gcs_live := True, gcs_token := token, gcs_stack := st\<rparr>)"
  using assms by (simp add: ActivateGCS_def GetGCSPtr_def runs_on_parked)

lemma GCSSS1_opens:
  assumes "runs_on i s" "j \<noteq> i" "j < length (gcs_stacks s)" "length B < 2 ^ 32"
    and "gcs_stacks s ! j = Some (B @ [gcs_seal j (length B)])"
  shows "visit_gcsss1 (gcs_handle j (length B)) s =
    Inr (s\<lparr>gcs_stacks := (gcs_stacks s)[i := Some (gcs_stack s)], gcs_valid := True, gcs_live := True, gcs_token := GetGCSTokenFromIndex j,
      gcs_stack := B @ [GetGCSTokenFromIndex i + 5]\<rparr>)"
proof -
  have j: "j < 2 ^ 20" and t: "gcs_token s = GetGCSTokenFromIndex i" using assms(1,3) by (simp_all add: runs_on_def)
  note h = handle_parts [OF j assms(4)]
  show ?thesis
    by (simp add: visit_gcsss1_def Let_def h ActivateGCS_other [OF assms(1-3,5)] GCSPop_def GCSPush_def t)
qed

lemma GCSSS2_seals:
  assumes "runs_on j s" "i \<noteq> j" "i < length (gcs_stacks s)" "length A < 2 ^ 32" "rt < 31"
    and "gcs_stacks s ! i = Some A" "gcs_stack s = B @ [GetGCSTokenFromIndex i + 5]"
  shows "visit_gcsss2 dbg rt s =
    Inr (WriteXRegister rt (gcs_handle i (length A))
      (s\<lparr>gcs_stacks := (gcs_stacks s)[j := Some B, i := Some (A @ [gcs_seal i (length A)])],
        gcs_valid := True, gcs_live := True, gcs_token := GetGCSTokenFromIndex j, gcs_stack := B\<rparr>))"
proof -
  have i: "i < 2 ^ 20" and t: "gcs_token s = GetGCSTokenFromIndex j" 
    using assms(1,3,7) by (simp_all add: runs_on_def)
  note m = token_marks [OF i] token_marks(2) [OF i, simplified] and h = handle_parts [OF i assms(4)]
  let ?s1 = "s\<lparr>gcs_stack := B\<rparr>"
  let ?s3 = "s\<lparr>gcs_stacks := (gcs_stacks s)[j := Some B], gcs_valid := True, gcs_live := True, gcs_token := GetGCSTokenFromIndex i, gcs_stack := A\<rparr>"
  let ?s4 = "s\<lparr>gcs_stacks := (gcs_stacks s)[j := Some B], gcs_valid := True, gcs_live := True, gcs_token := GetGCSTokenFromIndex i, gcs_stack := A @ [gcs_seal i (length A)]\<rparr>"
  have "runs_on j ?s1" using assms(1) by (simp add: runs_on_def)
  from ActivateGCS_other [OF this assms(2)] assms(3,6)
  have a1: "ActivateGCS (GetGCSTokenFromIndex i) ?s1 = Inr ?s3" by simp
  have "j < length (gcs_stacks s)" "length (gcs_stacks s) < 2 ^ 20" using assms(1) by (simp_all add: runs_on_def)
  then have a2: "ActivateGCS (GetGCSTokenFromIndex j) ?s4 = Inr (s\<lparr>gcs_stacks :=
      (gcs_stacks s)[j := Some B, i := Some (A @ [gcs_seal i (length A)])], gcs_valid := True, gcs_live := True, gcs_token := GetGCSTokenFromIndex j, gcs_stack := B\<rparr>)"
    using assms(2,3) i by (simp add: ActivateGCS_def GetGCSPtr_def parked_stacks_def token_index m nth_list_update)
  have pop: "GCSPop s = (GetGCSTokenFromIndex i + 5, ?s1)" using assms(7) by (simp add: GCSPop_def)
  show ?thesis
    by (simp add: visit_gcsss2_def Let_def pop m a1 vixl_assert_def GCSPush_def h gcs_seal_def [symmetric] t a2)
qed

section \<open>There and back\<close>

text \<open>A state later in the same run on the same stack: any calls and returns may have happened.\<close>

definition later_on_stack :: "'v vsim \<Rightarrow> 'v vsim \<Rightarrow> bool" where
  "later_on_stack s t \<longleftrightarrow> gcs_stacks t = gcs_stacks s \<and> gcs_valid t = gcs_valid s \<and> gcs_live t = gcs_live s
    \<and> gcs_token t = gcs_token s
    \<and> length (gcs_stack t) < 2 ^ 32"

text \<open>C17: Switching to another guarded control stack and back loses nothing.  From a stack that runs with the
  return addresses A, GCSSS1 with the handle of a sealed stack that holds B (for a new stack its token),
  then GCSSS2, run on B and hand out a handle; after any calls and returns there, that left C, GCSSS1
  with this handle and GCSSS2 run on A again, and the handle then handed out opens C.  The debug
  assertions on the handle hold.\<close>

theorem control_stack_switch_round_trip:
  fixes s :: "'v vsim"
  assumes "runs_on i s" "length (gcs_stack s) < 2 ^ 32" "j \<noteq> i" "j < length (gcs_stacks s)" "length B < 2 ^ 32" "rt < 31"
    and "gcs_stacks s ! j = Some (B @ [gcs_seal j (length B)])"
  shows "\<exists>s1 s2. visit_gcsss1 (gcs_handle j (length B)) s = Inr s1 \<and> visit_gcsss2 dbg rt s1 = Inr s2
    \<and> gcs_token s2 = GetGCSTokenFromIndex j \<and> gcs_stack s2 = B
    \<and> (\<forall>t. later_on_stack s2 t \<longrightarrow> (\<exists>t1 t2. visit_gcsss1 (ReadXRegister rt s2) t = Inr t1 \<and> visit_gcsss2 dbg rt t1 = Inr t2
      \<and> gcs_token t2 = gcs_token s \<and> gcs_stack t2 = gcs_stack s
      \<and> gcs_stacks t2 ! j = Some (gcs_stack t @ [gcs_seal j (length (gcs_stack t))])
      \<and> ReadXRegister rt t2 = gcs_handle j (length (gcs_stack t))))"
proof -
  let ?A = "gcs_stack s" and ?L = "gcs_stacks s"
  let ?s1 = "s\<lparr>gcs_stacks := ?L[i := Some ?A], gcs_valid := True, gcs_live := True, gcs_token := GetGCSTokenFromIndex j, gcs_stack := B @ [GetGCSTokenFromIndex i + 5]\<rparr>"
  let ?s2 = "WriteXRegister rt (gcs_handle i (length ?A)) (?s1\<lparr>gcs_stacks := ?L[i := Some ?A, j := Some B, i := Some (?A @ [gcs_seal i (length ?A)])],
        gcs_valid := True, gcs_live := True, gcs_token := GetGCSTokenFromIndex j, gcs_stack := B\<rparr>)"
  have r: "i < length ?L" "length ?L < 2 ^ 20" "gcs_token s = GetGCSTokenFromIndex i" "length ?A < 2 ^ 32"
    using assms(1,2) by (simp_all add: runs_on_def)
  have w: "gcs_stacks (WriteXRegister rt v u) = gcs_stacks u" "gcs_valid (WriteXRegister rt v u) = gcs_valid u"
    "gcs_live (WriteXRegister rt v u) = gcs_live u" "gcs_token (WriteXRegister rt v u) = gcs_token u"
    "gcs_stack (WriteXRegister rt v u) = gcs_stack u" for v and u :: "'v vsim"
    by (simp_all add: WriteRegister_def Let_def)
  have s1: "visit_gcsss1 (gcs_handle j (length B)) s = Inr ?s1" by (rule GCSSS1_opens [OF assms(1,3-5,7)])
  have s2: "visit_gcsss2 dbg rt ?s1 = Inr ?s2"
    using GCSSS2_seals [of j ?s1 i ?A rt B dbg] assms(3,4,6) r by (simp add: runs_on_def)
  have "\<exists>t1 t2. visit_gcsss1 (ReadXRegister rt ?s2) t = Inr t1 \<and> visit_gcsss2 dbg rt t1 = Inr t2
      \<and> gcs_token t2 = gcs_token s \<and> gcs_stack t2 = ?A
      \<and> gcs_stacks t2 ! j = Some (gcs_stack t @ [gcs_seal j (length (gcs_stack t))])
      \<and> ReadXRegister rt t2 = gcs_handle j (length (gcs_stack t))" if t: "later_on_stack ?s2 t" for t
  proof -
    let ?C = "gcs_stack t"
    have tL: "gcs_stacks t = ?L[i := Some (?A @ [gcs_seal i (length ?A)]), j := Some B]"
      "gcs_valid t" "gcs_live t" "gcs_token t = GetGCSTokenFromIndex j" "length ?C < 2 ^ 32"
      using t assms(3) by (auto simp: later_on_stack_def w list_update_swap)
    have on: "runs_on j t" using r assms(4) tL by (simp add: runs_on_def)
    let ?t1 = "t\<lparr>gcs_stacks := (gcs_stacks t)[j := Some ?C], gcs_valid := True, gcs_live := True, gcs_token := GetGCSTokenFromIndex i, gcs_stack := ?A @ [GetGCSTokenFromIndex j + 5]\<rparr>"
    have "ReadXRegister rt ?s2 = gcs_handle i (length ?A)" using assms(6) by (rule ReadX_WriteX)
    moreover have "visit_gcsss1 (gcs_handle i (length ?A)) t = Inr ?t1"
      by (rule GCSSS1_opens [OF on]) (use assms(3,4) r in \<open>simp_all add: tL(1)\<close>)
    moreover have "visit_gcsss2 dbg rt ?t1 = Inr (WriteXRegister rt (gcs_handle j (length ?C)) (?t1\<lparr>gcs_stacks :=
        (gcs_stacks ?t1)[i := Some ?A, j := Some (?C @ [gcs_seal j (length ?C)])], gcs_valid := True, gcs_live := True, gcs_token := GetGCSTokenFromIndex i, gcs_stack := ?A\<rparr>))"
      by (rule GCSSS2_seals) (use assms(3,4,6) r tL in \<open>simp_all add: runs_on_def\<close>)
    moreover have "j < length (gcs_stacks ?t1)" using assms(4) by (simp add: tL(1))
    ultimately show ?thesis using assms(6) r(3) by (simp add: w)
  qed
  with s1 s2 show ?thesis by (intro exI [of _ ?s1] exI [of _ ?s2]) (simp add: w)
qed

text \<open>A simulator on its own stack 0, with one return address, beside a stack 1 just allocated.\<close>

definition two_stacks :: "'v vsim" where
  "two_stacks = snd (AllocateStack (blank_vsim\<lparr>gcs_valid := True, gcs_live := True, gcs_token := 0, gcs_stacks := [Some []], gcs_stack := [0x1004]\<rparr>))"

lemma two_stacks:
  "gcs_stacks two_stacks = [Some [0x1004], Some [0x1001]]" "gcs_valid two_stacks"
  "gcs_live two_stacks" "gcs_token two_stacks = 0"
  "gcs_stack two_stacks = [0x1004]"
  by (simp_all add: two_stacks_def AllocateStack_def AllocateStackInternal_def parked_stacks_def kGCSNoStack_def
      GetGCSIndexFromToken_def GetGCSTokenFromIndex_def Let_def)

theorem control_stack_switch_round_trip_witness:
  "\<exists>s1 s2 t1 t2. visit_gcsss1 0x1000 (two_stacks :: visitor vsim) = Inr s1 \<and> visit_gcsss2 True 5 s1 = Inr s2
    \<and> visit_gcsss1 (ReadXRegister 5 s2) (GCSPush 0x2004 s2) = Inr t1 \<and> visit_gcsss2 True 5 t1 = Inr t2 \<and> gcs_stack t2 = [0x1004]"
proof -
  let ?s = "two_stacks :: visitor vsim"
  note s = two_stacks
  have "runs_on 0 ?s" by (simp add: runs_on_def s GetGCSTokenFromIndex_def)
  moreover have seal: "gcs_stacks ?s ! 1 = Some ([] @ [gcs_seal 1 (length ([] :: u64 list))])"
    by (simp add: s gcs_seal_def GetGCSTokenFromIndex_def)
  moreover have h: "gcs_handle 1 (length ([] :: u64 list)) = 0x1000" by (simp add: gcs_handle_def GetGCSTokenFromIndex_def)
  ultimately obtain s1 s2 where "visit_gcsss1 0x1000 ?s = Inr s1" "visit_gcsss2 True 5 s1 = Inr s2" "gcs_stack s2 = []"
    and return: "\<forall>t. later_on_stack s2 t \<longrightarrow> (\<exists>t1 t2. visit_gcsss1 (ReadXRegister 5 s2) t = Inr t1 \<and> visit_gcsss2 True 5 t1 = Inr t2
      \<and> gcs_token t2 = gcs_token ?s \<and> gcs_stack t2 = gcs_stack ?s
      \<and> gcs_stacks t2 ! 1 = Some (gcs_stack t @ [gcs_seal 1 (length (gcs_stack t))])
      \<and> ReadXRegister 5 t2 = gcs_handle 1 (length (gcs_stack t)))"
    using control_stack_switch_round_trip [of 0 ?s 1 "[]" 5 True] by (auto simp: s)
  moreover have "later_on_stack s2 (GCSPush 0x2004 s2)"
    using \<open>gcs_stack s2 = []\<close> by (simp add: later_on_stack_def GCSPush_def)
  ultimately show ?thesis by (metis s(5))
qed

text \<open>C24: A parked stack opens for at most one value of the register.  With the checks enabled, GCSSS1 with
  any value whose token names the stack (the low twelve bits do not count) succeeds exactly for the top entry
  of the stack with its lowest bit flipped, and only if the upper half of that value is the number of
  entries below the top.  For a sealed stack this value is its handle.  But the top entry need not be a
  seal: a return address on a stack that was never sealed opens it all the same, if it names the
  stack and the number fits.\<close>

theorem one_value_opens_a_stack:
  fixes s :: "'v vsim"
  assumes "runs_on i s" "j \<noteq> i" "j < length (gcs_stacks s)" "gcs_enabled s"
    and "gcs_stacks s ! j = Some st" "GetGCSIndexFromToken (h AND 0xffffffff) = j"
  shows "((\<exists>s1. visit_gcsss1 h s = Inr s1) \<longleftrightarrow>
      h = (if st = [] then 0 else last st) XOR 1 \<and> drop_bit 32 h = of_nat (length (butlast st)))
    \<and> (length B < 2 ^ 32 \<longrightarrow> st = B @ [gcs_seal j (length B)] \<longrightarrow>
      ((\<exists>s1. visit_gcsss1 h s = Inr s1) \<longleftrightarrow> h = gcs_handle j (length B)))"
proof -
  have flip: "x XOR y = 1 \<longleftrightarrow> y = x XOR 1" for x y :: u64
  proof
    assume "x XOR y = 1"
    then have "x XOR (x XOR y) = x XOR 1" by (rule arg_cong)
    then show "y = x XOR 1" by (simp flip: xor.assoc)
  qed (simp flip: xor.assoc)
  have opens: "(\<exists>s1. visit_gcsss1 h s = Inr s1) \<longleftrightarrow>
      h = (if st = [] then 0 else last st) XOR 1 \<and> drop_bit 32 h = of_nat (length (butlast st))"
    using assms(4) ActivateGCS_index [OF assms(1-3,5,6)]
    by (auto simp: visit_gcsss1_def Let_def GCSPop_def ReportGCSFailure_def flip [of _ h] split: if_splits)
  have j: "j < 2 ^ 20" using assms(1,3) by (simp add: runs_on_def)
  have "gcs_handle j (length B) = gcs_seal j (length B) XOR 1 \<and> drop_bit 32 (gcs_handle j (length B)) = of_nat (length B)"
    if "length B < 2 ^ 32"
    using handle_parts(1,3) [OF j that] flip by blast
  then show ?thesis unfolding opens by auto
qed

text \<open>Stack 1 holds one return address, 0x1004, and no seal: 0x1005 opens it, and its token does not.\<close>

definition unsealed_stack :: "'v vsim" where
  "unsealed_stack = two_stacks\<lparr>gcs_stacks := [Some [0x1004], Some [0x1004]], gcs_enabled := True\<rparr>"

theorem one_value_opens_a_stack_witness:
  "(\<exists>s1. visit_gcsss1 0x1005 (unsealed_stack :: visitor vsim) = Inr s1)
    \<and> \<not> (\<exists>s1. visit_gcsss1 0x1000 (unsealed_stack :: visitor vsim) = Inr s1)"
proof -
  let ?s = "unsealed_stack :: visitor vsim"
  have s: "gcs_stacks ?s = [Some [0x1004], Some [0x1004]]" "gcs_valid ?s" "gcs_live ?s" "gcs_token ?s = 0" "gcs_enabled ?s"
    by (simp_all add: unsealed_stack_def two_stacks)
  have r: "runs_on 0 ?s" using s by (simp add: runs_on_def GetGCSTokenFromIndex_def)
  have opens: "(\<exists>s1. visit_gcsss1 h ?s = Inr s1) \<longleftrightarrow> h = 0x1005 \<and> drop_bit 32 h = 0"
    if "GetGCSIndexFromToken (h AND 0xffffffff) = 1" for h
    using one_value_opens_a_stack [OF r, of 1 "[0x1004]" h] that s by simp
  show ?thesis
    using opens [of "0x1005"] opens [of "0x1000"] by (simp add: GetGCSIndexFromToken_def)
qed

section \<open>The active stack is a stack of the process\<close>

definition active_index :: "'v vsim \<Rightarrow> nat" where
  "active_index s = GetGCSIndexFromToken (gcs_token s)"

definition gcs_ok :: "'v vsim \<Rightarrow> bool" where
  "gcs_ok s \<longleftrightarrow> gcs_valid s \<and> gcs_live s \<and> active_index s < length (gcs_stacks s) \<and> gcs_stacks s ! active_index s \<noteq> None"

lemma length_parked [simp]: "length (parked_stacks s) = length (gcs_stacks s)"
  by (simp add: parked_stacks_def)

lemma first_free_le: "first_free sts \<le> length sts"
  by (induction sts) simp_all

text \<open>The index may be too large for a token, but what the token names is then a stack all the same.\<close>

lemma token_take: "GetGCSIndexFromToken (GetGCSTokenFromIndex i) = take_bit 52 (take_bit 64 i)"
proof -
  have "drop_bit 12 (push_bit 12 (of_nat i :: u64)) = take_bit 52 (of_nat i)"
    by (rule bit_word_eqI) (auto simp: bit_simps)
  then show ?thesis
    by (simp only: GetGCSIndexFromToken_def GetGCSTokenFromIndex_def unsigned_take_bit_eq unsigned_of_nat of_nat_id) simp
qed

lemma index_le: "GetGCSIndexFromToken (GetGCSTokenFromIndex i) \<le> i"
  unfolding token_take by (metis order_trans take_bit_nat_less_eq_self)

lemma token_index_52: "i < 2 ^ 52 \<Longrightarrow> GetGCSIndexFromToken (GetGCSTokenFromIndex i) = i"
  by (simp add: token_take take_bit_take_bit take_bit_nat_eq_self del: take_bit_of_nat)

lemma first_free_None: "first_free sts < length sts \<Longrightarrow> sts ! first_free sts = None"
  by (induction sts) (auto split: if_splits)

lemma before_first_free: "k < first_free sts \<Longrightarrow> sts ! k \<noteq> None"
  by (induction sts arbitrary: k) (auto simp: nth_Cons split: if_splits nat.splits)

lemma AllocateStackInternal_index:
  assumes "AllocateStackInternal sts = (st, token, sts')"
  shows "GetGCSIndexFromToken token < length sts' \<and> sts' ! GetGCSIndexFromToken token \<noteq> None
    \<and> length sts \<le> length sts' \<and> (\<forall>k < length sts. sts ! k \<noteq> None \<longrightarrow> sts' ! k = sts ! k)"
proof -
  let ?i = "first_free sts"
  have t: "token = GetGCSTokenFromIndex ?i"
    and l: "sts' = (if ?i = length sts then sts @ [Some st] else sts[?i := Some st])"
    using assms by (auto simp: AllocateStackInternal_def Let_def split: if_splits)
  have le: "?i \<le> length sts" "GetGCSIndexFromToken token \<le> ?i" by (simp_all add: first_free_le t index_le)
  have "sts' ! GetGCSIndexFromToken token \<noteq> None"
    using before_first_free [of "GetGCSIndexFromToken token" sts] le
    by (cases "GetGCSIndexFromToken token = ?i") (auto simp: l nth_append nth_list_update)
  moreover have "\<forall>k < length sts. sts ! k \<noteq> None \<longrightarrow> sts' ! k = sts ! k"
  proof (cases "?i = length sts")
    case False
    then have "?i < length sts" using le(1) by simp
    with first_free_None [OF this] show ?thesis by (auto simp: l nth_list_update)
  qed (simp add: l nth_append)
  ultimately show ?thesis using le by (auto simp: l)
qed

lemma allocated_is_new:
  assumes "AllocateStackInternal sts = (st, token, sts')" "length sts < 2 ^ 52" "k < length sts" "sts ! k \<noteq> None"
  shows "GetGCSIndexFromToken token \<noteq> k"
proof -
  let ?i = "first_free sts"
  have "?i < 2 ^ 52" using first_free_le [of sts] assms(2) by simp
  moreover have "token = GetGCSTokenFromIndex ?i" using assms(1) by (auto simp: AllocateStackInternal_def Let_def)
  moreover have "?i \<noteq> k" using first_free_None [of sts] assms(3,4) by auto
  ultimately show ?thesis by (simp add: token_index_52)
qed

lemma gcs_ok_stack: "gcs_ok (s\<lparr>gcs_stack := st\<rparr>) = gcs_ok s"
  by (simp add: gcs_ok_def active_index_def)

lemma gcs_ok_Push: "gcs_ok s \<Longrightarrow> gcs_ok (GCSPush a s)"
  by (simp add: GCSPush_def gcs_ok_stack)

lemma gcs_ok_Pop: "gcs_ok s \<Longrightarrow> gcs_ok (snd (GCSPop s))"
  by (simp add: GCSPop_def gcs_ok_stack)

lemma gcs_ok_WriteX : "gcs_ok s \<Longrightarrow> gcs_ok (WriteXRegister r v s)"
  by (simp add: gcs_ok_def active_index_def WriteRegister_def Let_def)

lemma gcs_ok_Activate: "ActivateGCS token s = Inr s' \<Longrightarrow> gcs_ok s'"
  by (auto simp: gcs_ok_def active_index_def ActivateGCS_def GetGCSPtr_def Let_def split: if_splits option.splits)

lemma parked_active: "gcs_ok s \<Longrightarrow> parked_stacks s ! active_index s = Some (gcs_stack s)"
  by (simp add: gcs_ok_def parked_stacks_def active_index_def)

lemma Activate_parks:
  assumes "gcs_ok s" "ActivateGCS token s = Inr s'" "GetGCSIndexFromToken token \<noteq> active_index s"
  shows "GetGCSPtr (gcs_token s) s' = Inr (gcs_stack s)"
  using assms by (auto simp: gcs_ok_def active_index_def ActivateGCS_def GetGCSPtr_def parked_stacks_def Let_def
      split: if_splits option.splits)

lemma gcs_ok_Allocate:
  assumes "gcs_ok s" "AllocateStack s = (token, s')"
  shows "gcs_ok s' \<and> (length (gcs_stacks s) < 2 ^ 52 \<longrightarrow> GetGCSIndexFromToken token \<noteq> active_index s)"
proof -
  obtain st sts where a: "AllocateStackInternal (parked_stacks s) = (st, token, sts)" "s' = s\<lparr>gcs_stacks := sts\<rparr>"
    using assms(2) by (auto simp: AllocateStack_def split: prod.splits)
  have k: "active_index s < length (gcs_stacks s)" using assms(1) by (simp add: gcs_ok_def)
  have p: "parked_stacks s ! active_index s \<noteq> None" using parked_active [OF assms(1)] by simp
  have "gcs_ok s'"
    using AllocateStackInternal_index [OF a(1)] assms(1) k p by (auto simp: a(2) gcs_ok_def active_index_def)
  then show ?thesis using allocated_is_new [OF a(1) _ _ p] k by simp
qed

lemma gcs_ok_Free:
  assumes "gcs_ok s" "FreeStackOf token s = Inr s'"
  shows "if GetGCSIndexFromToken token = active_index s
    then \<not> gcs_ok s' \<and> GetGCSPtr (gcs_token s) s' = Inl (HostAbort ''null pointer'')
      \<and> ResetGCSState s' = Inl (HostAbort ''Tried to double free GCS'')
    else gcs_ok s' \<and> gcs_stack s' = gcs_stack s"
proof -
  have ok: "gcs_valid s" "gcs_live s" "GetGCSIndexFromToken (gcs_token s) < length (gcs_stacks s)"
      "gcs_stacks s ! GetGCSIndexFromToken (gcs_token s) \<noteq> None"
    using assms(1) by (simp_all add: gcs_ok_def active_index_def)
  obtain sts where sts: "FreeStack token (parked_stacks s) = Inr sts"
    and s': "s' = s\<lparr>gcs_stacks := sts, gcs_live := GetGCSIndexFromToken token \<noteq> active_index s\<rparr>"
    using assms(2) ok(2) by (auto simp: FreeStackOf_def active_index_def)
  have l: "sts = (parked_stacks s)[GetGCSIndexFromToken token := None]"
    using sts by (auto simp: FreeStack_def Let_def split: if_splits)
  show ?thesis
  proof (cases "GetGCSIndexFromToken token = active_index s")
    case True
    then have "\<not> gcs_live s'" "gcs_valid s'" "gcs_token s' = gcs_token s" "gcs_stacks s' = sts"
        "sts ! GetGCSIndexFromToken (gcs_token s) = None" "GetGCSIndexFromToken (gcs_token s) < length sts"
      using ok by (simp_all add: s' l active_index_def)
    with True show ?thesis
      by (simp add: gcs_ok_def GetGCSPtr_def ResetGCSState_def parked_stacks_def FreeStack_def Let_def)
  next
    case False
    then show ?thesis using ok by (simp add: s' l gcs_ok_def active_index_def parked_stacks_def)
  qed
qed

lemma gcs_ok_Report: "ReportGCSFailure msg s = Inr s' \<Longrightarrow> gcs_ok s' = gcs_ok s"
  by (simp add: ReportGCSFailure_def split: if_splits)

lemma gcs_ok_gcsss1:
  assumes "visit_gcsss1 rt s = Inr s'"
  shows "gcs_ok s'"
proof -
  obtain s1 where s1: "ActivateGCS (rt AND 0xffffffff) s = Inr s1"
    using assms by (cases "ActivateGCS (rt AND 0xffffffff) s") (simp_all add: visit_gcsss1_def)
  have "gcs_ok (snd (GCSPop s1))" using gcs_ok_Activate [OF s1] by (rule gcs_ok_Pop)
  then show ?thesis using assms
    by (auto simp: visit_gcsss1_def s1 Let_def ReportGCSFailure_def gcs_ok_Push split: prod.splits if_splits)
qed

lemma gcs_ok_gcsss2: "visit_gcsss2 dbg r s = Inr s' \<Longrightarrow> gcs_ok s'"
  by (auto simp: visit_gcsss2_def Let_def ReportGCSFailure_def gcs_ok_WriteX
      split: prod.splits if_splits dest!: gcs_ok_Activate)

lemma gcs_ok_Reset:
  assumes "ResetGCSState s = Inr s'"
  shows "gcs_ok s'"
proof -
  obtain sts where "s' = (case AllocateStackInternal sts of (st, token, sts') \<Rightarrow>
      snd (GCSPop (s\<lparr>gcs_stacks := sts', gcs_valid := True, gcs_live := True, gcs_token := token, gcs_stack := st\<rparr>)))"
    using assms by (auto simp: ResetGCSState_def Let_def case_prod_beta split: if_splits)
  then show ?thesis using AllocateStackInternal_index [of sts]
    by (auto simp: GCSPop_def gcs_ok_def active_index_def split: prod.splits)
qed

lemma gcs_ok_construct:
  assumes "construct cache data buffer n s = Inr s'"
  shows "gcs_ok s'"
proof -
  have w: "gcs_valid (WriteSp v u) = gcs_valid u" "gcs_live (WriteSp v u) = gcs_live u"
    "gcs_token (WriteSp v u) = gcs_token u" "gcs_stacks (WriteSp v u) = gcs_stacks u" for v and u :: "'v vsim"
    by (simp_all add: WriteSp_def WriteRegister_def Let_def)
  have reset: "gcs_ok u" if "ResetState t = Inr u" for t u :: "'v vsim"
    using that by (auto simp: ResetState_def Let_def gcs_ok_def active_index_def dest!: gcs_ok_Reset)
  show ?thesis using assms
    by (auto simp: construct_def Let_def w gcs_ok_def active_index_def dest!: reset)
qed

lemma GetGCSPtr_active: "gcs_ok s \<Longrightarrow> GetGCSPtr (gcs_token s) s = Inr (gcs_stack s)"
  using parked_active [of s] by (simp add: gcs_ok_def GetGCSPtr_def active_index_def)

text \<open>C19: The type of the active stack.  A simulator is well typed when its pointer is not null and points to
  the storage that the vector has at the index of its token.  Construction and reset (where they return)
  give such a simulator, and the manager then finds the active stack under its token; the pushes and
  pops of calls and returns, an allocation (which gives another index, for a vector of fewer than 2^52
  entries), an activation (which parks the old stack, unchanged, under its token), both halves of a
  switch and the release of another stack keep it so.  The release of the active stack breaks it: its
  entry is a null pointer from then on, and a reset aborts because it would free the stack again.\<close>

theorem active_stack_is_typed:
  fixes s s' :: "'v vsim"
  shows "(construct cache data buffer n s = Inr s' \<or> ResetGCSState s = Inr s' \<longrightarrow> gcs_ok s')
    \<and> (gcs_ok s \<longrightarrow> GetGCSPtr (gcs_token s) s = Inr (gcs_stack s) \<and> gcs_ok (GCSPush a s) \<and> gcs_ok (snd (GCSPop s)))
    \<and> (gcs_ok s \<longrightarrow> AllocateStack s = (token, s') \<longrightarrow>
        gcs_ok s' \<and> (length (gcs_stacks s) < 2 ^ 52 \<longrightarrow> GetGCSIndexFromToken token \<noteq> active_index s))
    \<and> (ActivateGCS token s = Inr s' \<or> visit_gcsss1 rt s = Inr s' \<or> visit_gcsss2 dbg r s = Inr s' \<longrightarrow> gcs_ok s')
    \<and> (gcs_ok s \<longrightarrow> ActivateGCS token s = Inr s' \<longrightarrow> GetGCSIndexFromToken token \<noteq> active_index s \<longrightarrow>
        GetGCSPtr (gcs_token s) s' = Inr (gcs_stack s))
    \<and> (gcs_ok s \<longrightarrow> FreeStackOf token s = Inr s' \<longrightarrow>
        (if GetGCSIndexFromToken token = active_index s
         then \<not> gcs_ok s' \<and> GetGCSPtr (gcs_token s) s' = Inl (HostAbort ''null pointer'')
           \<and> ResetGCSState s' = Inl (HostAbort ''Tried to double free GCS'')
         else gcs_ok s' \<and> gcs_stack s' = gcs_stack s))"
proof -
  have made: "construct cache data buffer n s = Inr s' \<or> ResetGCSState s = Inr s' \<longrightarrow> gcs_ok s'"
    using gcs_ok_construct gcs_ok_Reset by blast
  have used: "gcs_ok s \<longrightarrow> GetGCSPtr (gcs_token s) s = Inr (gcs_stack s) \<and> gcs_ok (GCSPush a s) \<and> gcs_ok (snd (GCSPop s))"
    by (simp add: GetGCSPtr_active gcs_ok_Push gcs_ok_Pop)
  have switched: "ActivateGCS token s = Inr s' \<or> visit_gcsss1 rt s = Inr s' \<or> visit_gcsss2 dbg r s = Inr s' \<longrightarrow> gcs_ok s'"
    using gcs_ok_Activate gcs_ok_gcsss1 gcs_ok_gcsss2 by blast
  show ?thesis
    by (intro conjI made used switched impI gcs_ok_Free) (simp_all add: gcs_ok_Allocate Activate_parks)
qed

text \<open>The stack 1 is freed, then the active stack 0.\<close>

theorem active_stack_is_typed_witness:
  "\<exists>s1 s2. FreeStackOf 0x1000 (two_stacks :: visitor vsim) = Inr s1 \<and> GetGCSPtr 0 s1 = Inr [0x1004]
    \<and> FreeStackOf 0 s1 = Inr s2 \<and> ResetGCSState s2 = Inl (HostAbort ''Tried to double free GCS'')"
proof -
  let ?s = "two_stacks :: visitor vsim"
  have ok: "gcs_ok ?s" "active_index ?s = 0"
    by (simp_all add: gcs_ok_def active_index_def two_stacks GetGCSIndexFromToken_def)
  obtain s1 where s1: "FreeStackOf 0x1000 ?s = Inr s1" "gcs_token s1 = 0" "gcs_stack s1 = [0x1004]" "active_index s1 = 0"
    by (simp add: FreeStackOf_def FreeStack_def parked_stacks_def two_stacks active_index_def GetGCSIndexFromToken_def)
  note free = active_stack_is_typed [THEN conjunct2, THEN conjunct2, THEN conjunct2, THEN conjunct2, THEN conjunct2, rule_format]
  have ok1: "gcs_ok s1" using free [OF ok(1) s1(1)] ok(2) by (simp add: GetGCSIndexFromToken_def)
  then obtain s2 where s2: "FreeStackOf 0 s1 = Inr s2"
    using parked_active [of s1] s1(4) by (simp add: FreeStackOf_def FreeStack_def gcs_ok_def GetGCSIndexFromToken_def)
  have "GetGCSPtr 0 s1 = Inr [0x1004]" using GetGCSPtr_active [OF ok1] s1(2,3) by simp
  moreover have "ResetGCSState s2 = Inl (HostAbort ''Tried to double free GCS'')"
    using free [OF ok1 s2] s1(4) by (simp add: GetGCSIndexFromToken_def)
  ultimately show ?thesis using s1 s2 by blast
qed

end
