(* ===== verification/Crypto_Tables.thy ===== *)
theory Crypto_Tables
  imports Sim_Crypto
begin

text \<open>
  The tables of the AES operations are the field multiplication and the substitution of FIPS 197,
  here defined on bytes without tables.
\<close>

section \<open>Multiplication in the field of 256 elements\<close>

definition xtime :: "u8 \<Rightarrow> u8" where
  "xtime a = push_bit 1 a XOR (if bit a 7 then 0x1b else 0)"

text \<open>Multiplication of polynomials over the bits, modulo $x^8 + x^4 + x^3 + x + 1$.\<close>

primrec gf_bits :: "bool list \<Rightarrow> u8 \<Rightarrow> u8 \<Rightarrow> u8" where
  "gf_bits [] a r = r"
| "gf_bits (c # cs) a r = gf_bits cs (xtime a) (if c then r XOR a else r)"

definition gf_mul :: "u8 \<Rightarrow> u8 \<Rightarrow> u8" where
  "gf_mul a b = gf_bits (map (bit b) [0, 1, 2, 3, 4, 5, 6, 7]) a 0"

lemma gf_mul_constants:
  "gf_mul a 2 = xtime a" "gf_mul a 3 = a XOR xtime a" "gf_mul a 9 = a XOR xtime (xtime (xtime a))"
  "gf_mul a 0xb = a XOR xtime a XOR xtime (xtime (xtime a))"
  "gf_mul a 0xd = a XOR xtime (xtime a) XOR xtime (xtime (xtime a))"
  "gf_mul a 0xe = xtime a XOR xtime (xtime a) XOR xtime (xtime (xtime a))"
  by (simp_all add: gf_mul_def bit_0 ac_simps)

text \<open>A table that lists the values of a function.\<close>

primrec table_from :: "(u8 \<Rightarrow> u8) \<Rightarrow> u8 \<Rightarrow> u8 list \<Rightarrow> bool" where
  "table_from f n [] = True"
| "table_from f n (x # xs) = (x = f n \<and> table_from f (n + 1) xs)"

lemma table_nth: "table_from f n xs \<Longrightarrow> k < length xs \<Longrightarrow> xs ! k = f (n + of_nat k)"
proof (induction xs arbitrary: n k)
  case (Cons x xs)
  then show ?case using Cons.IH [of "n + 1" "k - 1"] by (cases k) (simp_all add: algebra_simps)
qed simp

lemma ffmul_tables:
  "table_from (\<lambda>a. gf_mul a 2) 0 ffmul02" "table_from (\<lambda>a. gf_mul a 3) 0 ffmul03"
  "table_from (\<lambda>a. gf_mul a 9) 0 ffmul09" "table_from (\<lambda>a. gf_mul a 0xb) 0 ffmul0b"
  "table_from (\<lambda>a. gf_mul a 0xd) 0 ffmul0d" "table_from (\<lambda>a. gf_mul a 0xe) 0 ffmul0e"
  unfolding gf_mul_constants xtime_def
  by (simp add: ffmul02_def, simp add: ffmul03_def, simp add: ffmul09_def, simp add: ffmul0b_def,
      simp add: ffmul0d_def, simp add: ffmul0e_def)

lemma table_lengths:
  "length ffmul02 = 256" "length ffmul03 = 256" "length ffmul09 = 256" "length ffmul0b = 256"
  "length ffmul0d = 256" "length ffmul0e = 256" "length gf2 = 256" "length gf2_inv = 256"
  by (simp_all only: ffmul02_def ffmul03_def ffmul09_def ffmul0b_def ffmul0d_def ffmul0e_def gf2_def gf2_inv_def)
    simp_all

lemma byte_index: "unat (b :: u8) < 256"
  using unsigned_less [of b, where 'a = nat] by simp

lemma gal_entry:
  assumes "table_from f 0 xs" "length xs = 256"
  shows "xs ! unat (x AND 255 :: u64) = f (ucast x)"
proof -
  have "(255 :: u64) = mask 8" by (simp add: mask_eq_exp_minus_1)
  then have "unat (x AND 255) = unat (ucast x :: u8)"
    by (simp only: take_bit_eq_mask [symmetric] unsigned_take_bit_eq unsigned_ucast_eq) simp
  then show ?thesis using table_nth [OF assms(1), of "unat (ucast x :: u8)"] byte_index [of "ucast x"] assms(2) by simp
qed

lemma GalMul_gf_mul:
  "GalMul 2 x = gf_mul (ucast x) 2" "GalMul 3 x = gf_mul (ucast x) 3" "GalMul 9 x = gf_mul (ucast x) 9"
  "GalMul 0xb x = gf_mul (ucast x) 0xb" "GalMul 0xd x = gf_mul (ucast x) 0xd" "GalMul 0xe x = gf_mul (ucast x) 0xe"
  using ffmul_tables [THEN gal_entry, of x] table_lengths by (simp_all add: GalMul_def Let_def)

lemma GalMul_0: "GalMul 0 x = ucast x"
proof -
  have "GalMul 0 x = ucast (take_bit 8 x)" by (simp add: GalMul_def Let_def take_bit_eq_mask mask_eq_exp_minus_1)
  also have "\<dots> = ucast x" by (rule bit_word_eqI) (simp add: bit_simps)
  finally show ?thesis .
qed

section \<open>The substitution\<close>

text \<open>The index of every entry is what the other table holds at the entry.\<close>

primrec inverse_from :: "u8 \<Rightarrow> u8 list \<Rightarrow> bool" where
  "inverse_from n [] = True"
| "inverse_from n (x # xs) = (gf2_inv ! unat x = n \<and> inverse_from (n + 1) xs)"

lemma inverse_nth: "inverse_from n xs \<Longrightarrow> k < length xs \<Longrightarrow> gf2_inv ! unat (xs ! k) = n + of_nat k"
proof (induction xs arbitrary: n k)
  case (Cons x xs)
  then show ?case using Cons.IH [of "n + 1" "k - 1"] by (cases k) (simp_all add: algebra_simps)
qed simp

lemma inverse_tables: "inverse_from 0 gf2"
  by (simp add: gf2_def gf2_inv_def)

lemma gf2_inverse:
  "gf2_inv ! unat (gf2 ! unat b) = b" "gf2 ! unat (gf2_inv ! unat b) = b"
proof -
  have l: "gf2_inv ! unat (gf2 ! unat b) = b" for b
    using inverse_nth [OF inverse_tables, of "unat b"] byte_index [of b] by (simp add: table_lengths)
  have "inj (\<lambda>b :: u8. gf2 ! unat b)" by (rule inj_on_inverseI [of _ "\<lambda>c. gf2_inv ! unat c"]) (rule l)
  then have "surj (\<lambda>b :: u8. gf2 ! unat b)" by (rule finite_UNIV_inj_surj [OF finite])
  from surjD [OF this, of b] obtain c :: u8 where "b = gf2 ! unat c" by blast
  with l show "gf2_inv ! unat (gf2 ! unat b) = b" "gf2 ! unat (gf2_inv ! unat b) = b" by simp_all
qed

text \<open>The affine map of FIPS 197 on the bits of a byte, and its inverse.\<close>

definition rotl8 :: "nat \<Rightarrow> u8 \<Rightarrow> u8" where
  "rotl8 k b = push_bit k b OR drop_bit (8 - k) b"

definition affine :: "u8 \<Rightarrow> u8" where
  "affine b = b XOR rotl8 1 b XOR rotl8 2 b XOR rotl8 3 b XOR rotl8 4 b XOR 0x63"

definition affine_inv :: "u8 \<Rightarrow> u8" where
  "affine_inv b = rotl8 1 b XOR rotl8 3 b XOR rotl8 6 b XOR 0x05"

text \<open>Every entry is the affine image of the inverse of its index.\<close>

definition sbox_entry :: "u8 \<Rightarrow> u8 \<Rightarrow> u8 \<Rightarrow> bool" where
  "sbox_entry n x c \<longleftrightarrow> x = affine c \<and> (if n = 0 then c = 0 else gf_mul n c = 1)"

primrec sbox_from :: "u8 \<Rightarrow> u8 list \<Rightarrow> bool" where
  "sbox_from n [] = True"
| "sbox_from n (x # xs) = (sbox_entry n x (affine_inv x) \<and> sbox_from (n + 1) xs)"

lemma sbox_nth: "sbox_from n xs \<Longrightarrow> k < length xs \<Longrightarrow> \<exists>c. sbox_entry (n + of_nat k) (xs ! k) c"
proof (induction xs arbitrary: n k)
  case (Cons x xs)
  show ?case
  proof (cases k)
    case 0
    with Cons.prems(1) show ?thesis by auto
  next
    case (Suc m)
    with Cons.prems have "\<exists>c. sbox_entry (n + 1 + of_nat m) (xs ! m) c" by (intro Cons.IH) simp_all
    then show ?thesis by (simp add: Suc add.assoc)
  qed
qed simp

lemma sbox_table: "sbox_from 0 gf2"
  by (simp add: gf2_def sbox_entry_def affine_inv_def affine_def rotl8_def gf_mul_def xtime_def)

text \<open>C23: The tables of the AES operations are those of FIPS 197.  The function GalMul is the multiplication by 2,
  3, 9, 11, 13 and 14 in the field of 256 elements, for every byte and whatever lies above it; the
  table gf2 maps every byte to the affine image of its inverse in the field (of 0, for 0); and gf2_inv is
  the inverse of gf2 on both sides.\<close>

theorem aes_tables_are_the_field_operations:
  "GalMul 2 x = gf_mul (ucast x) 2 \<and> GalMul 3 x = gf_mul (ucast x) 3 \<and> GalMul 9 x = gf_mul (ucast x) 9
    \<and> GalMul 0xb x = gf_mul (ucast x) 0xb \<and> GalMul 0xd x = gf_mul (ucast x) 0xd \<and> GalMul 0xe x = gf_mul (ucast x) 0xe
    \<and> (\<exists>c. gf2 ! unat b = affine c \<and> (if b = 0 then c = 0 else gf_mul b c = 1))
    \<and> gf2_inv ! unat (gf2 ! unat b) = b \<and> gf2 ! unat (gf2_inv ! unat b) = b"
proof -
  have "\<exists>c. sbox_entry b (gf2 ! unat b) c"
    using sbox_nth [OF sbox_table, of "unat b"] byte_index [of b] by (simp add: table_lengths)
  then have "\<exists>c. gf2 ! unat b = affine c \<and> (if b = 0 then c = 0 else gf_mul b c = 1)" unfolding sbox_entry_def .
  then show ?thesis by (simp only: GalMul_gf_mul gf2_inverse)
qed

end
