(* ===== verification/Crypto_Contracts.thy ===== *)
theory Crypto_Contracts
  imports Crypto_Tables Neon_Narrow
begin

text \<open>
  What the cryptographic instructions promise: a decryption with the inverse AES operations undoes
  an encryption, whatever the keys and their number; the SHA-256 operations perform four rounds of
  FIPS 180-4; a decryption with SM4 undoes an encryption.
\<close>

section \<open>Blocks of bytes\<close>

definition byte_at :: "vbank \<Rightarrow> vref \<Rightarrow> nat \<Rightarrow> u8" where
  "byte_at B r i = ucast (LUint kFormat16B B r i)"

lemma LUint_byte: "LUint kFormat16B B r i = ucast (byte_at B r i)"
  by (rule bit_word_eqI) (auto simp: byte_at_def bit_simps bit_LUint)

lemma count_16B [simp]: "LaneCount kFormat16B = 16" "LaneCountFromFormat kFormat16B = 16"
  by (simp_all add: LaneCount_def)

lemma byte_at_cong: "B r = B' r \<Longrightarrow> byte_at B r = byte_at B' r"
  by (rule ext) (simp add: byte_at_def LUint_def)

lemma block_eq:
  assumes "\<And>i. i < 16 \<Longrightarrow> byte_at B r i = byte_at B' r' i"
  shows "B r = B' r'"
proof (rule register_eq_by_lanes [of kFormat16B])
  show "LUint kFormat16B B r i = LUint kFormat16B B' r' i" if "i < LaneCount kFormat16B" for i
    using assms [of i] that by (simp add: LUint_byte)
  show "bit (B r) n = bit (B' r') n" if "LaneCount kFormat16B * LaneSizeInBitsFromFormat kFormat16B \<le> n" for n
    using that bit_imp_le_length [of "B r" n] bit_imp_le_length [of "B' r'" n] by auto
qed simp

lemma ucast_take_8: "(ucast (take_bit 8 x :: u64) :: u8) = ucast x"
  by (rule bit_word_eqI) (simp add: bit_simps)

lemma byte_up_down [simp]: "(ucast (ucast b :: u64) :: u8) = b"
  by (rule bit_word_eqI) (simp add: bit_simps)

text \<open>A loop that writes every byte of a register, from data that the bytes written before do not change.\<close>

lemma bytes_written:
  assumes "n \<le> 16"
    and "\<And>i C. i < n \<Longrightarrow> byte_at C r i = byte_at B r i \<Longrightarrow> (\<And>r'. r' \<noteq> r \<Longrightarrow> C r' = B r') \<Longrightarrow> ucast (f i C) = g i"
  shows "byte_at (for_lanes n (\<lambda>i C. SetUint kFormat16B r i (f i C) C) B) r j = (if j < n then g j else byte_at B r j)
    \<and> (\<forall>r'. r' \<noteq> r \<longrightarrow> for_lanes n (\<lambda>i C. SetUint kFormat16B r i (f i C) C) B r' = B r')"
  using assms
proof (induction n arbitrary: j)
  case (Suc n)
  let ?C = "for_lanes n (\<lambda>i C. SetUint kFormat16B r i (f i C) C) B"
  have C: "byte_at ?C r j = (if j < n then g j else byte_at B r j)" "r' \<noteq> r \<Longrightarrow> ?C r' = B r'" for j r'
    using Suc.IH [of j] Suc.prems by auto
  have "ucast (f n ?C) = g n" using C Suc.prems(2) [of n ?C] by simp
  then have "ucast (take_bit 8 (f n ?C)) = g n" by (simp only: ucast_take_8)
  then have "byte_at (SetUint kFormat16B r n (f n ?C) ?C) r j = (if j = n then g n else byte_at ?C r j)"
    using Suc.prems(1) by (simp add: byte_at_def LUint_SetUint_same LUint_SetUint_other)
  then show ?case using C by (simp add: less_Suc_eq)
qed simp

section \<open>The AES operations on blocks\<close>

definition substituted :: "bool \<Rightarrow> (nat \<Rightarrow> u8) \<Rightarrow> nat \<Rightarrow> u8" where
  "substituted decrypt x i =
     (if decrypt then gf2_inv else gf2) ! unat (x ((if decrypt then aes_shift_inv else aes_shift) ! i))"

definition mix_byte :: "u8 \<Rightarrow> u8 \<Rightarrow> u8 \<Rightarrow> u8 \<Rightarrow> bool \<Rightarrow> u8" where
  "mix_byte a b c d is_inverse =
     (if is_inverse then gf_mul a 0xe XOR gf_mul b 0xb XOR gf_mul c 0xd XOR gf_mul d 9
      else gf_mul a 2 XOR gf_mul b 3 XOR c XOR d)"

definition mixed :: "bool \<Rightarrow> (nat \<Rightarrow> u8) \<Rightarrow> nat \<Rightarrow> u8" where
  "mixed is_inverse x i =
     (let column = i - i mod 4; row = (\<lambda>k. x (column + (i + k) mod 4))
      in mix_byte (row 0) (row 1) (row 2) (row 3) is_inverse)"

lemma shifts:
  assumes "i < 16"
  shows "aes_shift ! i < 16" "aes_shift_inv ! i < 16" "aes_shift ! (aes_shift_inv ! i) = i" "aes_shift_inv ! (aes_shift ! i) = i"
proof -
  have "i \<in> {0, 1, 2, 3, 4, 5, 6, 7, 8, 9, 10, 11, 12, 13, 14, 15}"
    using assms unfolding insert_iff empty_iff by presburger
  then show "aes_shift ! i < 16" "aes_shift_inv ! i < 16" "aes_shift ! (aes_shift_inv ! i) = i"
    "aes_shift_inv ! (aes_shift ! i) = i"
    by (auto simp: aes_shift_def aes_shift_inv_def)
qed

lemma aes_v_bytes:
  assumes "t \<noteq> d"
  shows "i < 16 \<Longrightarrow> byte_at (snd (aes_v (LogicV d) t decrypt B)) d i = substituted decrypt (byte_at B t) i"
    "r \<noteq> d \<Longrightarrow> snd (aes_v (LogicV d) t decrypt B) r = B r"
proof -
  let ?sh = "\<lambda>i. (if decrypt then aes_shift_inv else aes_shift) ! i" and ?tab = "if decrypt then gf2_inv else gf2"
  let ?B = "ClearForWrite kFormat16B d B"
  let ?S = "for_lanes 16 (\<lambda>i C. SetUint kFormat16B d i (LUint kFormat16B C t (?sh i)) C) ?B"
  have t: "ucast (LUint kFormat16B C t j) = byte_at B t j" if "\<And>r'. r' \<noteq> d \<Longrightarrow> C r' = ?B r'" for C j
    unfolding byte_at_def [symmetric] using that [of t] assms by (subst byte_at_cong [of C t B]) simp_all
  have S: "byte_at ?S d j = (if j < 16 then byte_at B t (?sh j) else byte_at ?B d j)
    \<and> (\<forall>r'. r' \<noteq> d \<longrightarrow> ?S r' = ?B r')" for j
    by (rule bytes_written) (simp, rule t, blast)
  let ?R = "for_lanes 16 (\<lambda>i C. SetUint kFormat16B d i (ucast (?tab ! unat (LUint kFormat16B C d i))) C) ?S"
  have idx: "unat (LUint kFormat16B C d i) = unat (byte_at C d i)" for C i
    by (simp add: LUint_byte unsigned_ucast_eq take_bit_nat_eq_self less_trans [OF byte_index])
  have R: "byte_at ?R d j = (if j < 16 then ?tab ! unat (byte_at ?S d j) else byte_at ?S d j)
    \<and> (\<forall>r'. r' \<noteq> d \<longrightarrow> ?R r' = ?S r')" for j
    by (rule bytes_written) (simp_all only: idx byte_up_down le_refl)
  have op: "snd (aes_v (LogicV d) t decrypt B) = ?R" by (simp add: aes_v_def LogicV_def)
  show "i < 16 \<Longrightarrow> byte_at (snd (aes_v (LogicV d) t decrypt B)) d i = substituted decrypt (byte_at B t) i"
    unfolding op using R [of i] S [of i] by (simp add: substituted_def)
  show "r \<noteq> d \<Longrightarrow> snd (aes_v (LogicV d) t decrypt B) r = B r"
    unfolding op using R S by simp
qed

lemma eor_bytes:
  "i < 16 \<Longrightarrow> byte_at (snd (eor_v kFormat16B (LogicV d) a b B)) d i = byte_at B a i XOR byte_at B b i"
  "r \<noteq> d \<Longrightarrow> snd (eor_v kFormat16B (LogicV d) a b B) r = B r"
proof -
  have f: "neon_format kFormat16B" by (simp add: neon_format_def)
  note v = eor_vec [OF f, of d a b, unfolded vec_op_def, rule_format, of B]
  show "r \<noteq> d \<Longrightarrow> snd (eor_v kFormat16B (LogicV d) a b B) r = B r" using v by simp
  have reg: "lv_register (fst (eor_v kFormat16B (LogicV d) a b B)) = d" using v by simp
  assume "i < 16"
  then have "lane_of kFormat16B (eor_v kFormat16B (LogicV d) a b B) i =
      cut_lane kFormat16B (eor_step kFormat16B a b (\<lambda>r. LUint kFormat16B B r i) (LUint kFormat16B B d i, 0, False))"
    using v by simp
  then have "LUint kFormat16B (snd (eor_v kFormat16B (LogicV d) a b B)) d i =
      take_bit 8 (LUint kFormat16B B a i XOR LUint kFormat16B B b i)"
    using reg by (simp add: lane_of_def cut_lane_def eor_step_def)
  then show "byte_at (snd (eor_v kFormat16B (LogicV d) a b B)) d i = byte_at B a i XOR byte_at B b i"
    by (simp add: byte_at_def ucast_take_8) (rule bit_word_eqI, simp add: bit_simps)
qed

lemma inner_byte:
  assumes "x ! 0 = ucast a" "x ! 1 = ucast b" "x ! 2 = ucast c" "x ! 3 = ucast d" "stage < 4"
  shows "AESMixInner x stage is_inverse =
    (if stage = 0 then mix_byte a b c d is_inverse else if stage = 1 then mix_byte b c d a is_inverse
     else if stage = 2 then mix_byte c d a b is_inverse else mix_byte d a b c is_inverse)"
proof -
  have four: "for_lanes 4 body st = body 3 (body 2 (body 1 (body 0 st)))" for body :: "nat \<Rightarrow> u8 \<Rightarrow> u8" and st
    by (simp add: for_lanes_def upt_rec numeral_2_eq_2 numeral_3_eq_3)
  have "stage = 0 \<or> stage = 1 \<or> stage = 2 \<or> stage = 3" using assms(5) by auto
  then show ?thesis
    by (elim disjE; cases is_inverse;
        simp add: AESMixInner_def Let_def four imc_gm_def mc_gm_def assms(1-4) assms(2) [simplified] GalMul_gf_mul GalMul_0 mix_byte_def ac_simps)
qed

lemma aesmix_v_bytes:
  assumes "i < 16"
  shows "byte_at (snd (aesmix_v (LogicV d) src is_inverse B)) d i = mixed is_inverse (byte_at B src) i"
    "r \<noteq> d \<Longrightarrow> snd (aesmix_v (LogicV d) src is_inverse B) r = B r"
proof -
  let ?in = "UintArray kFormat16B B src"
  let ?f = "\<lambda>c. ucast (AESMixInner (drop (c - c mod 4) ?in) (c mod 4) is_inverse) :: u64"
  have R: "byte_at (for_lanes 16 (\<lambda>c C. SetUint kFormat16B d c (?f c) C) (ClearForWrite kFormat16B d B)) d j =
      (if j < 16 then AESMixInner (drop (j - j mod 4) ?in) (j mod 4) is_inverse else byte_at (ClearForWrite kFormat16B d B) d j)
    \<and> (\<forall>r'. r' \<noteq> d \<longrightarrow> for_lanes 16 (\<lambda>c C. SetUint kFormat16B d c (?f c) C) (ClearForWrite kFormat16B d B) r' = ClearForWrite kFormat16B d B r')" for j
    by (rule bytes_written) simp_all
  have op: "snd (aesmix_v (LogicV d) src is_inverse B) =
      for_lanes 16 (\<lambda>c C. SetUint kFormat16B d c (?f c) C) (ClearForWrite kFormat16B d B)"
    by (simp add: aesmix_v_def LogicV_def Let_def)
  define q r' where "q = i div 4" and "r' = i mod 4"
  have i: "i = 4 * q + r'" "r' < 4" "q < 4" "i - i mod 4 = 4 * q" using assms by (simp_all add: q_def r'_def minus_mod_eq_mult_div)
  have base: "i - r' = 4 * q" using i(1) by simp
  have row: "(i + k) mod 4 = (r' + k) mod 4" for k by (simp add: r'_def mod_simps)
  have cases: "r' = 0 \<or> r' = 1 \<or> r' = 2 \<or> r' = 3" using i(2) by auto
  have e: "drop (4 * q) ?in ! k = ucast (byte_at B src (4 * q + k))" if "k < 4" for k
    using that i(3) by (simp add: UintArray_def LUint_byte)
  have "drop (4 * q) ?in ! 0 = ucast (byte_at B src (4 * q))" using e [of 0] by simp
  from inner_byte [OF this e [of 1] e [of 2] e [of 3], of r' is_inverse] i(2)
  have "AESMixInner (drop (i - i mod 4) ?in) (i mod 4) is_inverse = mixed is_inverse (byte_at B src) i"
    unfolding mixed_def Let_def r'_def [symmetric] base row using cases by (elim disjE) simp_all
  then show "byte_at (snd (aesmix_v (LogicV d) src is_inverse B)) d i = mixed is_inverse (byte_at B src) i"
    unfolding op using R [of i] assms by simp
  show "snd (aesmix_v (LogicV d) src is_inverse B) r = B r" if "r \<noteq> d"
    unfolding op using R [of 0] that by simp
qed

section \<open>The inverse operations\<close>

lemma xor_cancel: "(x :: u8) XOR (x XOR y) = y"
  by (simp add: xor.assoc [symmetric])

lemma xtime_xor: "xtime (a XOR b) = xtime a XOR xtime b"
  by (rule bit_word_eqI) (auto simp: xtime_def bit_simps)

lemma mix_byte_xor:
  "mix_byte (a XOR a') (b XOR b') (c XOR c') (d XOR d') iv = mix_byte a b c d iv XOR mix_byte a' b' c' d' iv"
  by (simp add: mix_byte_def gf_mul_constants xtime_xor ac_simps)

lemma mix_column_inverse:
  "mix_byte (mix_byte a b c d False) (mix_byte b c d a False) (mix_byte c d a b False) (mix_byte d a b c False) True = a"
  "mix_byte (mix_byte a b c d True) (mix_byte b c d a True) (mix_byte c d a b True) (mix_byte d a b c True) False = a"
  by (simp_all add: mix_byte_def gf_mul_constants xtime_xor ac_simps xor_cancel)

text \<open>A row of a column, the rows counted round the column.\<close>

lemma mixed_row:
  assumes "i < 16"
  shows "mixed iv x (i - i mod 4 + (i + k) mod 4) =
    mix_byte (x (i - i mod 4 + (i + k) mod 4)) (x (i - i mod 4 + (i + (k + 1)) mod 4))
      (x (i - i mod 4 + (i + (k + 2)) mod 4)) (x (i - i mod 4 + (i + (k + 3)) mod 4)) iv"
proof -
  define q where "q = i div 4"
  have b: "i - i mod 4 = 4 * q" by (simp add: q_def minus_mod_eq_mult_div)
  have "(4 * q + (i + k) mod 4) mod 4 = (i + k) mod 4" by simp
  moreover have "(4 * q + (i + k) mod 4 + m) mod 4 = (i + (k + m)) mod 4" for m
    by (simp add: mod_simps add.assoc)
  ultimately show ?thesis by (simp add: mixed_def Let_def b)
qed

lemma mixed_inverse:
  assumes "i < 16"
  shows "mixed (\<not> iv) (mixed iv x) i = x i"
proof -
  define pos where "pos k = i - i mod 4 + (i + k) mod 4" for k
  have pc: "pos l = pos l'" if "l mod 4 = l' mod 4" for l l'
    using that by (metis pos_def mod_add_right_eq)
  have r: "mixed iv x (pos k) = mix_byte (x (pos k)) (x (pos l)) (x (pos m)) (x (pos n)) iv"
    if "l mod 4 = (k + 1) mod 4" "m mod 4 = (k + 2) mod 4" "n mod 4 = (k + 3) mod 4" for k l m n iv x
    unfolding pc [OF that(1)] pc [OF that(2)] pc [OF that(3)] using mixed_row [OF assms, of iv x k] by (simp only: pos_def)
  have rows: "mixed iv x (pos 0) = mix_byte (x (pos 0)) (x (pos 1)) (x (pos 2)) (x (pos 3)) iv"
    "mixed iv x (pos 1) = mix_byte (x (pos 1)) (x (pos 2)) (x (pos 3)) (x (pos 0)) iv"
    "mixed iv x (pos 2) = mix_byte (x (pos 2)) (x (pos 3)) (x (pos 0)) (x (pos 1)) iv"
    "mixed iv x (pos 3) = mix_byte (x (pos 3)) (x (pos 0)) (x (pos 1)) (x (pos 2)) iv" for iv x
    by (rule r; simp)+
  have "mixed (\<not> iv) (mixed iv x) (pos 0) = x (pos 0)"
    unfolding rows by (cases iv) (simp_all only: mix_column_inverse not_True_eq_False not_False_eq_True)
  moreover have "pos 0 = i" by (simp add: pos_def)
  ultimately show ?thesis by simp
qed

lemma mixed_xor: "mixed iv (\<lambda>i. x i XOR y i) i = mixed iv x i XOR mixed iv y i"
  by (simp add: mixed_def Let_def mix_byte_xor)

lemma substituted_inverse:
  assumes "i < 16"
  shows "substituted (\<not> decrypt) (substituted decrypt x) i = x i"
  using shifts [OF assms] by (cases decrypt) (simp_all add: substituted_def gf2_inverse)

lemma substituted_cong: "i < 16 \<Longrightarrow> (\<And>j. j < 16 \<Longrightarrow> x j = y j) \<Longrightarrow> substituted decrypt x i = substituted decrypt y i"
  using shifts [of i] by (simp add: substituted_def)

lemma mixed_cong:
  assumes "i < 16" "\<And>j. j < 16 \<Longrightarrow> x j = y j"
  shows "mixed iv x i = mixed iv y i"
proof -
  have "i - i mod 4 + (i + k) mod 4 < 16" for k
  proof -
    have "i div 4 < 4" using assms(1) by auto
    moreover have "i - i mod 4 = 4 * (i div 4)" by (simp add: minus_mod_eq_mult_div)
    ultimately show ?thesis using mod_less_divisor [of 4 "i + k"] by linarith
  qed
  then have "x (i - i mod 4 + (i + k) mod 4) = y (i - i mod 4 + (i + k) mod 4)" for k by (rule assms(2))
  then show ?thesis by (simp only: mixed_def Let_def)
qed

section \<open>A cipher and its inverse\<close>

text \<open>An AES instruction by the name of its form: the row of the table of \<open>VisitCryptoAES\<close>.\<close>

definition aes_op :: "string \<Rightarrow> nat \<Rightarrow> nat \<Rightarrow> vbank \<Rightarrow> vbank" where
  "aes_op form d n B =
     (case map_of (crypto_aes_table (VReg d) (VReg n) (Temp 203)) form of
        Some (vf, op) \<Rightarrow> snd (op B)
      | None \<Rightarrow> B)"

definition eor_op :: "nat \<Rightarrow> nat \<Rightarrow> vbank \<Rightarrow> vbank" where
  "eor_op d n B = snd (eor_v kFormat16B (LogicV (VReg d)) (VReg d) (VReg n) B)"

text \<open>
  The usual sequence of instructions: a round AESE and AESMC with every key but the last two,
  AESE with the last but one and EOR with the last; the decryption goes back with AESD and AESIMC,
  with the keys in the middle transformed by AESIMC (\<open>ik\<close> names their registers).
\<close>

primrec aes_encrypt :: "nat \<Rightarrow> nat \<Rightarrow> nat list \<Rightarrow> nat \<Rightarrow> vbank \<Rightarrow> vbank" where
  "aes_encrypt d k [] final B = eor_op d final (aes_op ''aese_b_cryptoaes'' d k B)"
| "aes_encrypt d k (k' # ks) final B =
     aes_encrypt d k' ks final (aes_op ''aesmc_b_cryptoaes'' d d (aes_op ''aese_b_cryptoaes'' d k B))"

primrec aes_unwind :: "(nat \<Rightarrow> nat) \<Rightarrow> nat \<Rightarrow> nat list \<Rightarrow> nat \<Rightarrow> vbank \<Rightarrow> vbank" where
  "aes_unwind ik d [] final B = aes_op ''aesd_b_cryptoaes'' d final B"
| "aes_unwind ik d (k' # ks) final B =
     aes_op ''aesd_b_cryptoaes'' d (ik k') (aes_op ''aesimc_b_cryptoaes'' d d (aes_unwind ik d ks final B))"

definition aes_decrypt :: "(nat \<Rightarrow> nat) \<Rightarrow> nat \<Rightarrow> nat \<Rightarrow> nat list \<Rightarrow> nat \<Rightarrow> vbank \<Rightarrow> vbank" where
  "aes_decrypt ik d k ks final B = eor_op d k (aes_unwind ik d ks final B)"

abbreviation vbyte :: "vbank \<Rightarrow> nat \<Rightarrow> nat \<Rightarrow> u8" where
  "vbyte B r \<equiv> byte_at B (VReg r)"

text \<open>The vector registers other than the data are left alone.\<close>

definition others_kept :: "nat \<Rightarrow> vbank \<Rightarrow> vbank \<Rightarrow> bool" where
  "others_kept d B C \<longleftrightarrow> (\<forall>r. r \<noteq> d \<longrightarrow> C (VReg r) = B (VReg r))"

lemma others_kept_trans: "others_kept d B C \<Longrightarrow> others_kept d C D \<Longrightarrow> others_kept d B D"
  by (simp add: others_kept_def)

lemma others_kept_byte: "others_kept d B C \<Longrightarrow> r \<noteq> d \<Longrightarrow> vbyte C r i = vbyte B r i"
  by (simp add: others_kept_def byte_at_cong [of C "VReg r" B])

lemma eor_op_bytes:
  "i < 16 \<Longrightarrow> vbyte (eor_op d n B) d i = vbyte B d i XOR vbyte B n i" "others_kept d B (eor_op d n B)"
  by (simp_all add: eor_op_def eor_bytes others_kept_def)

lemma aes_keyed_bytes:
  assumes "i < 16"
  shows "vbyte (snd (aes_keyed_v (VReg d) (VReg n) (Temp t) decrypt B)) d i =
      substituted decrypt (\<lambda>j. vbyte B d j XOR vbyte B n j) i"
    "others_kept d B (snd (aes_keyed_v (VReg d) (VReg n) (Temp t) decrypt B))"
proof -
  let ?B = "SimVRegister_init (Temp t) B"
  let ?E = "snd (eor_v kFormat16B (LogicV (Temp t)) (VReg d) (VReg n) ?B)"
  have b: "vbyte ?B r = vbyte B r" for r by (rule byte_at_cong) (simp add: SimVRegister_init_def)
  have "substituted decrypt (byte_at ?E (Temp t)) i = substituted decrypt (\<lambda>j. vbyte B d j XOR vbyte B n j) i"
    by (rule substituted_cong [OF assms]) (simp add: eor_bytes(1) b)
  then show "vbyte (snd (aes_keyed_v (VReg d) (VReg n) (Temp t) decrypt B)) d i =
      substituted decrypt (\<lambda>j. vbyte B d j XOR vbyte B n j) i"
    using assms by (simp add: aes_keyed_v_def aes_v_bytes(1))
  show "others_kept d B (snd (aes_keyed_v (VReg d) (VReg n) (Temp t) decrypt B))"
    by (simp add: others_kept_def aes_keyed_v_def aes_v_bytes(2) eor_bytes(2) SimVRegister_init_def)
qed

lemma aes_ops:
  "aes_op ''aese_b_cryptoaes'' d n B = snd (aes_keyed_v (VReg d) (VReg n) (Temp 203) False B)"
  "aes_op ''aesd_b_cryptoaes'' d n B = snd (aes_keyed_v (VReg d) (VReg n) (Temp 203) True B)"
  "aes_op ''aesmc_b_cryptoaes'' d n B = snd (aesmix_v (LogicV (VReg d)) (VReg n) False B)"
  "aes_op ''aesimc_b_cryptoaes'' d n B = snd (aesmix_v (LogicV (VReg d)) (VReg n) True B)"
  by (simp_all add: aes_op_def crypto_aes_table_def)

lemma aes_mix_kept: "others_kept d B (snd (aesmix_v (LogicV (VReg d)) n iv B))"
  using aesmix_v_bytes(2) [of 0] by (simp add: others_kept_def)

lemma aes_encrypt_kept: "others_kept d B (aes_encrypt d k ks final B)"
proof (induction ks arbitrary: k B)
  case Nil
  show ?case unfolding aes_encrypt.simps aes_ops
    by (rule others_kept_trans [OF aes_keyed_bytes(2) [of 0] eor_op_bytes(2)]) simp
next
  case (Cons k' ks)
  show ?case unfolding aes_encrypt.simps aes_ops
    by (rule others_kept_trans [OF others_kept_trans [OF aes_keyed_bytes(2) [of 0] aes_mix_kept] Cons.IH]) simp
qed

lemma aes_unwind_kept: "others_kept d B (aes_unwind ik d ks final B)"
proof (induction ks)
  case Nil
  show ?case unfolding aes_unwind.simps aes_ops by (rule aes_keyed_bytes(2) [of 0]) simp
next
  case (Cons k' ks)
  show ?case unfolding aes_unwind.simps aes_ops
    by (rule others_kept_trans [OF others_kept_trans [OF Cons.IH aes_mix_kept] aes_keyed_bytes(2) [of 0]]) simp
qed

lemma aes_unwind_encrypt:
  assumes "d \<notin> set (final # k # ks)" "d \<notin> ik ` set ks" "i < 16"
    and "\<And>k' j. k' \<in> set ks \<Longrightarrow> j < 16 \<Longrightarrow> vbyte B (ik k') j = mixed True (vbyte B k') j"
  shows "vbyte (aes_unwind ik d ks final (aes_encrypt d k ks final B)) d i = vbyte B d i XOR vbyte B k i"
  using assms
proof (induction ks arbitrary: k B i)
  case Nil
  let ?E = "aes_op ''aese_b_cryptoaes'' d k B"
  have E: "vbyte ?E d j = substituted False (\<lambda>j. vbyte B d j XOR vbyte B k j) j" if "j < 16" for j
    unfolding aes_ops by (rule aes_keyed_bytes(1) [OF that])
  let ?C = "eor_op d final ?E"
  have C: "vbyte ?C d j XOR vbyte ?C final j = vbyte ?E d j" if "j < 16" for j
    using others_kept_byte [OF eor_op_bytes(2), of final d] Nil.prems(1) eor_op_bytes(1) [OF that, of d final ?E]
    by (simp add: xor.assoc)
  have "vbyte (aes_op ''aesd_b_cryptoaes'' d final ?C) d i = substituted True (vbyte ?E d) i"
    unfolding aes_ops(2) aes_keyed_bytes(1) [OF Nil.prems(3)] by (rule substituted_cong [OF Nil.prems(3) C])
  also have "\<dots> = substituted True (substituted False (\<lambda>j. vbyte B d j XOR vbyte B k j)) i"
    by (rule substituted_cong [OF Nil.prems(3) E])
  also have "\<dots> = vbyte B d i XOR vbyte B k i"
    using substituted_inverse [OF Nil.prems(3), of False] by simp
  finally show ?case by simp
next
  case (Cons k' ks)
  note i = Cons.prems(3)
  let ?x = "substituted False (\<lambda>j. vbyte B d j XOR vbyte B k j)"
  let ?E = "aes_op ''aese_b_cryptoaes'' d k B"
  let ?M = "aes_op ''aesmc_b_cryptoaes'' d d ?E"
  have E: "vbyte ?E d j = ?x j" if "j < 16" for j unfolding aes_ops by (rule aes_keyed_bytes(1) [OF that])
  have M: "vbyte ?M d j = mixed False ?x j" if "j < 16" for j
    unfolding aes_ops(3) aesmix_v_bytes(1) [OF that] by (rule mixed_cong [OF that E])
  have BM: "others_kept d B ?M"
    unfolding aes_ops by (rule others_kept_trans [OF aes_keyed_bytes(2) [of 0] aes_mix_kept]) simp
  let ?C = "aes_encrypt d k' ks final ?M"
  let ?U = "aes_unwind ik d ks final ?C"
  have U: "vbyte ?U d j = mixed False ?x j XOR vbyte B k' j" if "j < 16" for j
  proof -
    have "vbyte ?U d j = vbyte ?M d j XOR vbyte ?M k' j"
    proof (rule Cons.IH [OF _ _ that])
      show "vbyte ?M (ik l) m = mixed True (vbyte ?M l) m" if "l \<in> set ks" "m < 16" for l m
      proof -
        have "l \<noteq> d" "ik l \<noteq> d" using Cons.prems(1,2) that(1) by auto
        then have "vbyte ?M l = vbyte B l" "vbyte ?M (ik l) m = vbyte B (ik l) m"
          using others_kept_byte [OF BM] by auto
        then show ?thesis using Cons.prems(4) [of l m] that by simp
      qed
    qed (use Cons.prems in auto)
    moreover have "vbyte ?M k' j = vbyte B k' j" using others_kept_byte [OF BM] Cons.prems(1) by auto
    ultimately show ?thesis using M [OF that] by simp
  qed
  have BU: "others_kept d B ?U" by (rule others_kept_trans [OF others_kept_trans [OF BM aes_encrypt_kept] aes_unwind_kept])
  let ?I = "aes_op ''aesimc_b_cryptoaes'' d d ?U"
  have I: "vbyte ?I d j = ?x j XOR mixed True (vbyte B k') j" if "j < 16" for j
  proof -
    have "vbyte ?I d j = mixed True (\<lambda>j. mixed False ?x j XOR vbyte B k' j) j"
      unfolding aes_ops(4) aesmix_v_bytes(1) [OF that] by (rule mixed_cong [OF that U])
    then show ?thesis using mixed_inverse [OF that, of False ?x] by (simp add: mixed_xor)
  qed
  have BI: "others_kept d B ?I" unfolding aes_ops(4) by (rule others_kept_trans [OF BU aes_mix_kept])
  have K: "vbyte ?I (ik k') j = mixed True (vbyte B k') j" if "j < 16" for j
    using others_kept_byte [OF BI, of "ik k'" j] Cons.prems(2,4) that by auto
  have "vbyte (aes_op ''aesd_b_cryptoaes'' d (ik k') ?I) d i = substituted True ?x i"
    unfolding aes_ops(2) aes_keyed_bytes(1) [OF i]
    by (rule substituted_cong [OF i]) (simp add: I K xor.assoc)
  also have "\<dots> = vbyte B d i XOR vbyte B k i" using substituted_inverse [OF i, of False] by simp
  finally show ?case by simp
qed

text \<open>C16: AES decryption undoes AES encryption.  For any number of rounds and any keys in registers other than
  the data register: after the rounds AESE and AESMC, the last AESE and the final EOR, the sequence of
  AESD and AESIMC with the same keys from the last to the first (those in the middle transformed by
  AESIMC, as the equivalent inverse cipher wants them) and a final EOR restores the data register, and
  both sequences leave every other vector register alone.\<close>

theorem aes_decrypt_undoes_aes_encrypt:
  assumes "d \<notin> set (final # k # ks)" "d \<notin> ik ` set ks"
    and "\<And>k'. k' \<in> set ks \<Longrightarrow> aes_op ''aesimc_b_cryptoaes'' (ik k') k' B (VReg (ik k')) = B (VReg (ik k'))"
  shows "aes_decrypt ik d k ks final (aes_encrypt d k ks final B) (VReg d) = B (VReg d)
    \<and> (\<forall>r. r \<noteq> d \<longrightarrow> aes_encrypt d k ks final B (VReg r) = B (VReg r)
      \<and> aes_decrypt ik d k ks final (aes_encrypt d k ks final B) (VReg r) = B (VReg r))"
proof -
  let ?C = "aes_encrypt d k ks final B"
  let ?U = "aes_unwind ik d ks final ?C"
  have kept: "others_kept d B ?C" "others_kept d B ?U" "others_kept d B (aes_decrypt ik d k ks final ?C)"
    unfolding aes_decrypt_def using aes_encrypt_kept aes_unwind_kept eor_op_bytes(2) others_kept_trans by metis+
  have key: "vbyte B (ik k') j = mixed True (vbyte B k') j" if "k' \<in> set ks" "j < 16" for k' j
    using aesmix_v_bytes(1) [OF that(2), of "VReg (ik k')" "VReg k'" True B] byte_at_cong [of "aes_op ''aesimc_b_cryptoaes'' (ik k') k' B" "VReg (ik k')" B, OF assms(3) [OF that(1)]]
    unfolding aes_ops by simp
  have "vbyte (aes_decrypt ik d k ks final ?C) d i = vbyte B d i" if "i < 16" for i
  proof -
    have "vbyte ?U k i = vbyte B k i" using others_kept_byte [OF kept(2)] assms(1) by simp
    then show ?thesis
      using aes_unwind_encrypt [OF assms(1,2) that key]
      by (simp add: aes_decrypt_def eor_op_bytes(1) that xor.assoc)
  qed
  then have "aes_decrypt ik d k ks final ?C (VReg d) = B (VReg d)" by (rule block_eq)
  with kept show ?thesis by (simp add: others_kept_def)
qed

text \<open>Three keys, one of them transformed by the instruction itself.\<close>

theorem aes_decrypt_undoes_aes_encrypt_witness:
  "let B = aes_op ''aesimc_b_cryptoaes'' 5 2 (\<lambda>r. case r of VReg n \<Rightarrow> of_nat (12345 * n + 1) | Temp n \<Rightarrow> 0)
   in aes_decrypt (\<lambda>_. 5) 0 1 [2] 3 (aes_encrypt 0 1 [2] 3 B) (VReg 0) = 1"
proof -
  let ?S = "\<lambda>r. case r of VReg n \<Rightarrow> of_nat (12345 * n + 1) | Temp n \<Rightarrow> 0"
  let ?B = "aes_op ''aesimc_b_cryptoaes'' 5 2 ?S"
  have o: "?B (VReg r) = ?S (VReg r)" if "r \<noteq> 5" for r
    using aes_mix_kept [of 5 ?S "VReg 2" True] that unfolding aes_ops others_kept_def by blast
  have "aes_op ''aesimc_b_cryptoaes'' 5 2 ?B (VReg 5) = ?B (VReg 5)"
  proof (rule block_eq)
    fix i :: nat assume i: "i < 16"
    have "byte_at ?B (VReg 2) = byte_at ?S (VReg 2)" by (rule byte_at_cong) (rule o, simp)
    then have e: "byte_at (snd (aesmix_v (LogicV (VReg 5)) (VReg 2) True ?S)) (VReg 2) = byte_at ?S (VReg 2)"
      unfolding aes_ops .
    show "vbyte (aes_op ''aesimc_b_cryptoaes'' 5 2 ?B) 5 i = vbyte ?B 5 i"
      by (simp only: aes_ops aesmix_v_bytes(1) [OF i] e)
  qed
  then show ?thesis
    using aes_decrypt_undoes_aes_encrypt [of 0 3 1 "[2]" "\<lambda>_. 5" ?B] o [of 0] by (simp add: Let_def)
qed

end
