(* ===== verification/Sha_Contracts.thy ===== *)
theory Sha_Contracts
  imports Sim_Crypto Lane_Contracts
begin

text \<open>
  What the hash and SM4 instructions promise: SHA256H and SHA256H2 perform four rounds of the
  compression function of FIPS 180-4 and the schedule instructions four steps of its message
  schedule, although the code computes with 64 bits; four rounds of SM4 are undone by four rounds
  with the round keys backwards.
\<close>

section \<open>Words of 32 bits in 64\<close>

abbreviation low32 :: "u64 \<Rightarrow> u32" where "low32 \<equiv> ucast"

lemma low32_add: "low32 (a + b) = low32 a + low32 b"
  by (rule word_uint_eqI) (simp add: unsigned_ucast_eq uint_word_ariths take_bit_eq_mod mod_simps mod_mod_cancel)

lemma low32_bitwise:
  "low32 (a AND b) = low32 a AND low32 b" "low32 (a OR b) = low32 a OR low32 b" "low32 (a XOR b) = low32 a XOR low32 b"
  by (rule bit_word_eqI, simp add: bit_simps)+

lemma low32_rotate:
  assumes "rot < 32"
  shows "low32 (RotateRight x rot 32) = word_rotr (unat rot) (low32 x)"
proof (rule bit_word_eqI)
  fix i :: nat assume i: "i < LENGTH(32)"
  have r: "unat rot < 32" using assms by (simp add: word_less_nat_alt)
  then have "rot AND 63 = rot" using less_mask_eq [of rot 6] by (simp add: mask_eq_exp_minus_1 word_less_nat_alt)
  then show "bit (low32 (RotateRight x rot 32)) i \<longleftrightarrow> bit (word_rotr (unat rot) (low32 x)) i"
    using i r by (simp add: bit_simps bit_RotateRight)
qed

lemma low32_shift: "c < 32 \<Longrightarrow> low32 (drop_bit c (x AND mask 32)) = drop_bit c (low32 x)"
  by (rule bit_word_eqI) (auto simp: bit_simps)

section \<open>SHA-256\<close>

text \<open>The functions of FIPS 180-4, section 4.1.2.\<close>

definition Ch :: "u32 \<Rightarrow> u32 \<Rightarrow> u32 \<Rightarrow> u32" where
  "Ch x y z = (x AND y) XOR (NOT x AND z)"

definition Maj :: "u32 \<Rightarrow> u32 \<Rightarrow> u32 \<Rightarrow> u32" where
  "Maj x y z = (x AND y) XOR (x AND z) XOR (y AND z)"

definition big_sigma :: "nat \<Rightarrow> nat \<Rightarrow> nat \<Rightarrow> u32 \<Rightarrow> u32" where
  "big_sigma i j k x = word_rotr i x XOR word_rotr j x XOR word_rotr k x"

definition small_sigma :: "nat \<Rightarrow> nat \<Rightarrow> nat \<Rightarrow> u32 \<Rightarrow> u32" where
  "small_sigma i j k x = word_rotr i x XOR word_rotr j x XOR drop_bit k x"

text \<open>One round on the working variables $a$ to $h$; \<open>wk\<close> is the sum of message word and constant.\<close>

fun sha256_round :: "u32 \<Rightarrow> u32 list \<Rightarrow> u32 list" where
  "sha256_round wk [a, b, c, d, e, f, g, h] =
     (let t1 = h + big_sigma 6 11 25 e + Ch e f g + wk; t2 = big_sigma 2 13 22 a + Maj a b c
      in [t1 + t2, a, b, c, d + t1, e, f, g])"
| "sha256_round wk _ = []"

lemma low32_choose: "low32 (crypto_choose x y z) = Ch (low32 x) (low32 y) (low32 z)"
  by (rule bit_word_eqI) (auto simp: crypto_choose_def Ch_def bit_simps)

lemma low32_majority: "low32 (crypto_majority x y z) = Maj (low32 x) (low32 y) (low32 z)"
  by (rule bit_word_eqI) (auto simp: crypto_majority_def Maj_def bit_simps)

lemma low32_big:
  assumes "i < 32" "j < 32" "k < 32"
  shows "low32 (SHASigma 32 i j k x) = big_sigma (unat i) (unat j) (unat k) (low32 x)"
proof -
  have "low32 (take_bit 32 y) = low32 y" for y by (rule bit_word_eqI) (simp add: bit_simps)
  then show ?thesis using assms by (simp add: SHASigma_def big_sigma_def low32_bitwise low32_rotate)
qed

lemma low32_small:
  assumes "i < 32" "j < 32" "k < 32"
  shows "low32 (SHASURotate 32 i j k x) = small_sigma (unat i) (unat j) k (low32 x)"
  using assms by (simp only: SHASURotate_def small_sigma_def low32_bitwise low32_rotate low32_shift)

lemma round_functions:
  "low32 (SHASigma 32 6 11 25 x) = big_sigma 6 11 25 (low32 x)" "low32 (SHASigma 32 2 13 22 x) = big_sigma 2 13 22 (low32 x)"
  "low32 (SHASURotate 32 7 18 3 x) = small_sigma 7 18 3 (low32 x)"
  "low32 (SHASURotate 32 17 19 10 x) = small_sigma 17 19 10 (low32 x)"
  by (subst low32_big; simp)+ (subst low32_small; simp)+

text \<open>A step of the code is a round, on the two halves of the variables.\<close>

lemma sha2h_step_round:
  assumes "length x = 4" "length y = 4" "sha2h_step w (x, y) = (x', y')"
  shows "map low32 (x' @ y') = sha256_round (low32 w) (map low32 (x @ y)) \<and> length x' = 4 \<and> length y' = 4"
proof -
  obtain a b c d e f g h where "x = [a, b, c, d]" "y = [e, f, g, h]"
    using assms(1,2) by (auto simp: length_Suc_conv numeral_eq_Suc)
  with assms(3) show ?thesis
    by (auto simp: sha2h_step_def Let_def SHARotateEltsLeftOne_def low32_add low32_choose low32_majority
        round_functions [simplified] ac_simps numeral_2_eq_2 numeral_3_eq_3)
qed

lemma four_rounds:
  assumes "length x = 4" "length y = 4" "fold sha2h_step ws (x, y) = (x', y')"
  shows "map low32 (x' @ y') = fold sha256_round (map low32 ws) (map low32 (x @ y)) \<and> length x' = 4 \<and> length y' = 4"
  using assms
proof (induction ws arbitrary: x y)
  case (Cons w ws)
  obtain x1 y1 where 1: "sha2h_step w (x, y) = (x1, y1)" by fastforce
  from sha2h_step_round [OF Cons.prems(1,2) this] Cons.IH [of x1 y1] Cons.prems(3) 1 show ?case by simp
qed simp

text \<open>The words of a register.\<close>

definition words :: "vbank \<Rightarrow> vref \<Rightarrow> u32 list" where
  "words B r = map low32 (UintArray kFormat4S B r)"

lemma count_4S: "LaneCount kFormat4S = 4" "LaneCountFromFormat kFormat4S = 4"
  by (simp_all add: LaneCount_def)

lemma low32_take: "low32 (take_bit 32 x) = low32 x"
  by (rule bit_word_eqI) (simp add: bit_simps)

lemma words_SetUintArray:
  assumes "length xs = 4"
  shows "words (SetUintArray kFormat4S r (\<lambda>i. xs ! i) B) r = map low32 xs"
proof (rule nth_equalityI)
  fix i assume "i < length (words (SetUintArray kFormat4S r (\<lambda>i. xs ! i) B) r)"
  then have i: "i < 4" by (simp add: words_def UintArray_def count_4S)
  then show "words (SetUintArray kFormat4S r (\<lambda>i. xs ! i) B) r ! i = map low32 xs ! i"
    using LUint_SetUintArray [of kFormat4S i r "\<lambda>i. xs ! i" B] assms
    by (simp add: words_def UintArray_def count_4S low32_take)
qed (simp add: words_def UintArray_def count_4S assms)

lemma for_lanes_words: "for_lanes 4 (\<lambda>i. step (LUint kFormat4S B r i)) st = fold step (UintArray kFormat4S B r) st"
  by (simp add: for_lanes_def UintArray_def count_4S fold_map comp_def)

text \<open>C22: SHA256H and SHA256H2 are four rounds of SHA-256.  With the working variables a to d and e to h in two
  registers and the sums of four message words and round constants in a third, SHA256H leaves the first
  half and SHA256H2 the second half of the variables after four rounds of the compression function of
  FIPS 180-4, for any registers (aliases included), although the code adds and rotates 64-bit numbers
  whose upper halves are not cut off between the rounds.\<close>

theorem sha256h_is_four_rounds:
  "words (snd (sha2h_v True (LogicV x) y w B)) x @ words (snd (sha2h_v False (LogicV y) x w B)) y =
    fold sha256_round (words B w) (words B x @ words B y)"
proof -
  obtain a b where r: "fold sha2h_step (UintArray kFormat4S B w) (UintArray kFormat4S B x, UintArray kFormat4S B y) = (a, b)"
    by fastforce
  have "length (UintArray kFormat4S B z) = 4" for z by (simp add: UintArray_def count_4S)
  from four_rounds [OF this this r]
  have "map low32 a @ map low32 b = fold sha256_round (words B w) (words B x @ words B y)" "length a = 4" "length b = 4"
    by (simp_all add: words_def)
  then show ?thesis
    by (simp add: sha2h_v_def LogicV_def Let_def for_lanes_words r words_SetUintArray)
qed

text \<open>One word of the message schedule, from the sixteen before it.\<close>

definition sha256_word :: "u32 list \<Rightarrow> u32" where
  "sha256_word ws = small_sigma 17 19 10 (ws ! 14) + ws ! 9 + small_sigma 7 18 3 (ws ! 1) + ws ! 0"

primrec sha256_schedule :: "nat \<Rightarrow> u32 list \<Rightarrow> u32 list" where
  "sha256_schedule 0 ws = ws"
| "sha256_schedule (Suc n) ws = sha256_schedule n (tl ws @ [sha256_word ws])"

lemma schedule_4:
  "sha256_schedule 4 ws = (let step = \<lambda>ws. tl ws @ [sha256_word ws] in step (step (step (step ws))))"
  by (simp add: eval_nat_numeral Let_def)

text \<open>SHA256SU0 and SHA256SU1 are four steps of the message schedule.  From sixteen message words in four
  registers, SHA256SU0 of the first two and then SHA256SU1 with the last two leave in the first register
  the next four words of the schedule of FIPS 180-4, two of which depend on the other two.\<close>

theorem sha256su_is_the_schedule:
  assumes "distinct [r0, r1, r2, r3]"
  shows "words (snd (sha2su1_v (LogicV r0) r2 r3 (snd (sha2su0_v (LogicV r0) r1 B)))) r0 =
    drop 12 (sha256_schedule 4 (words B r0 @ words B r1 @ words B r2 @ words B r3))"
proof -
  let ?B = "snd (sha2su0_v (LogicV r0) r1 B)"
  have w: "words C r = [low32 (LUint kFormat4S C r 0), low32 (LUint kFormat4S C r 1), low32 (LUint kFormat4S C r 2), low32 (LUint kFormat4S C r 3)]" for C r
    by (simp add: words_def UintArray_def count_4S upt_rec numeral_2_eq_2 numeral_3_eq_3)
  have u: "UintArray kFormat4S C r = [LUint kFormat4S C r 0, LUint kFormat4S C r 1, LUint kFormat4S C r 2, LUint kFormat4S C r 3]" for C r
    by (simp add: UintArray_def count_4S upt_rec numeral_2_eq_2 numeral_3_eq_3)
  have "words ?B r0 = map low32 [SHASURotate 32 7 18 3 (LUint kFormat4S B r0 1) + LUint kFormat4S B r0 0,
      SHASURotate 32 7 18 3 (LUint kFormat4S B r0 2) + LUint kFormat4S B r0 1,
      SHASURotate 32 7 18 3 (LUint kFormat4S B r0 3) + LUint kFormat4S B r0 2,
      SHASURotate 32 7 18 3 (LUint kFormat4S B r1 0) + LUint kFormat4S B r0 3]"
    by (subst words_SetUintArray [symmetric, of _ r0 B])
      (simp_all only: sha2su0_v_def LogicV_def Let_def LogicVRegister.simps snd_conv u length_Cons list.size,
        simp_all add: numeral_2_eq_2 numeral_3_eq_3)
  from this [unfolded w] have a: "low32 (LUint kFormat4S ?B r0 0) = small_sigma 7 18 3 (low32 (LUint kFormat4S B r0 1)) + low32 (LUint kFormat4S B r0 0)"
    "low32 (LUint kFormat4S ?B r0 1) = small_sigma 7 18 3 (low32 (LUint kFormat4S B r0 2)) + low32 (LUint kFormat4S B r0 1)"
    "low32 (LUint kFormat4S ?B r0 2) = small_sigma 7 18 3 (low32 (LUint kFormat4S B r0 3)) + low32 (LUint kFormat4S B r0 2)"
    "low32 (LUint kFormat4S ?B r0 3) = small_sigma 7 18 3 (low32 (LUint kFormat4S B r1 0)) + low32 (LUint kFormat4S B r0 3)"
    by (simp_all only: list.map list.inject low32_add round_functions)
  have o: "LUint kFormat4S ?B r i = LUint kFormat4S B r i" if "r \<noteq> r0" for r i
    using that by (intro LUint_cong) (simp add: sha2su0_v_def LogicV_def Let_def)
  have r: "r2 \<noteq> r0" "r3 \<noteq> r0" using assms by auto
  define res where "res C = (let p = SHASURotate 32 17 19 10 (LUint kFormat4S C r3 2) + LUint kFormat4S C r0 0 + LUint kFormat4S C r2 1;
      q = SHASURotate 32 17 19 10 (LUint kFormat4S C r3 3) + LUint kFormat4S C r0 1 + LUint kFormat4S C r2 2
    in [p, q, SHASURotate 32 17 19 10 p + LUint kFormat4S C r0 2 + LUint kFormat4S C r2 3,
        SHASURotate 32 17 19 10 q + LUint kFormat4S C r0 3 + LUint kFormat4S C r3 0])" for C
  have lv: "lv_register (LogicV r0) = r0" by (simp add: LogicV_def)
  have "snd (sha2su1_v (LogicV r0) r2 r3 C) = SetUintArray kFormat4S r0 (\<lambda>i. res C ! i) C" for C
    unfolding sha2su1_v_def Let_def snd_conv u lv res_def
    by (simp add: numeral_2_eq_2 numeral_3_eq_3)
  then have "words (snd (sha2su1_v (LogicV r0) r2 r3 ?B)) r0 = map low32 (res ?B)"
    by (simp add: words_SetUintArray res_def Let_def)
  then show ?thesis
    by (simp add: res_def Let_def o r low32_add round_functions [simplified] a [simplified] w schedule_4 sha256_word_def ac_simps)
qed

theorem sha256su_is_the_schedule_witness:
  "words (snd (sha2su1_v (LogicV (VReg 0)) (VReg 2) (VReg 3) (snd (sha2su0_v (LogicV (VReg 0)) (VReg 1) (\<lambda>r. 1))))) (VReg 0) =
    drop 12 (sha256_schedule 4 (concat (replicate 4 [1, 0, 0, 0])))"
proof -
  have "words (\<lambda>r. 1) r = [1, 0, 0, 0]" for r
    by (simp add: words_def UintArray_def count_4S upt_rec LUint_def GetLane_def)
  then show ?thesis
    using sha256su_is_the_schedule [of "VReg 0" "VReg 1" "VReg 2" "VReg 3" "\<lambda>r. 1"]
    by (simp add: numeral_eq_Suc)
qed

section \<open>SM4\<close>

lemma bit_SM4SBox: "bit (SM4SBox x) n \<Longrightarrow> n < 32"
  by (auto simp: SM4SBox_def bit_simps dest: bit_imp_le_length)

lemma bit_ROL32: "bit (ROL32 x rot) n \<Longrightarrow> n < 32"
proof -
  have "RotateRight x rot 32 AND mask 32 = RotateRight x rot 32" for rot
  proof -
    have "drop_bit (64 - 32) (NOT (0 :: u64)) = mask 32" by (simp add: mask_eq_exp_minus_1)
    then show ?thesis unfolding RotateRight_def Let_def by (simp only: and.assoc and.idem)
  qed
  then show "bit (ROL32 x rot) n \<Longrightarrow> n < 32" unfolding RotateLeft_def by (metis bit_and_iff bit_mask_iff)
qed

lemma take_32_eq: "(\<And>n. bit (x :: u64) n \<Longrightarrow> n < 32) \<Longrightarrow> take_bit 32 x = x"
  by (rule bit_word_eqI) (auto simp: bit_simps)

text \<open>The mixing of three words with the key, and the fourth word.\<close>

definition sm4_mix :: "bool \<Rightarrow> u64 \<Rightarrow> u64" where
  "sm4_mix is_key x =
     (let t = SM4SBox x
      in if is_key then t XOR (ROL32 t 13 XOR ROL32 t 23)
         else t XOR (ROL32 t 2 XOR ROL32 t 10 XOR ROL32 t 18 XOR ROL32 t 24))"

lemma sm4_step_words: "sm4_step is_key k [a, b, c, d] = [b, c, d, sm4_mix is_key (d XOR c XOR b XOR k) XOR a]"
  by (simp add: sm4_step_def sm4_mix_def Let_def numeral_2_eq_2 numeral_3_eq_3)

lemma sm4_mix_small: "take_bit 32 (sm4_mix is_key x) = sm4_mix is_key x"
proof -
  have "take_bit 32 (SM4SBox y) = SM4SBox y" "take_bit 32 (ROL32 y m) = ROL32 y m" for y m
    using bit_SM4SBox bit_ROL32 by (blast intro: take_32_eq)+
  then show ?thesis by (simp add: sm4_mix_def Let_def)
qed

definition four_words :: "u64 list \<Rightarrow> bool" where
  "four_words ws \<longleftrightarrow> length ws = 4 \<and> (\<forall>x \<in> set ws. take_bit 32 x = x)"

lemma four_wordsE:
  assumes "length ws = (4 :: nat)"
  obtains a b c d where "ws = [a, b, c, d]"
  using assms by (auto simp: length_Suc_conv numeral_eq_Suc)

lemma sm4_step_small: "four_words ws \<Longrightarrow> four_words (sm4_step is_key k ws)"
proof -
  assume ws: "four_words ws"
  then obtain a b c d where e: "ws = [a, b, c, d]" unfolding four_words_def by (auto elim: four_wordsE)
  show ?thesis using ws by (simp add: four_words_def e sm4_step_words sm4_mix_small)
qed

text \<open>A round with the words backwards takes back the round with the same key.\<close>

lemma sm4_step_back:
  assumes "length ws = 4"
  shows "sm4_step is_key k (rev (sm4_step is_key k ws)) = rev ws"
proof -
  obtain a b c d where ws: "ws = [a, b, c, d]" using assms by (rule four_wordsE)
  have "d XOR (c XOR (b XOR k)) = b XOR (c XOR (d XOR k))" by (simp only: ac_simps)
  then show ?thesis by (simp add: ws sm4_step_words xor.assoc)
qed

lemma sm4_rounds_back:
  assumes "length ws = 4"
  shows "fold (sm4_step is_key) (rev ks) (rev (fold (sm4_step is_key) ks ws)) = rev ws"
  using assms
proof (induction ks arbitrary: ws)
  case (Cons k ks)
  have "length (sm4_step is_key k ws) = 4" by (simp add: sm4_step_def Let_def)
  from Cons.IH [OF this] show ?case by (simp add: sm4_step_back Cons.prems)
qed simp

lemma UintArray_small: "four_words (UintArray kFormat4S B r)"
  using LUint_take_bit [of kFormat4S B r] by (auto simp: four_words_def UintArray_def count_4S)

lemma sm4_rounds_small: "four_words ws \<Longrightarrow> four_words (fold (sm4_step is_key) ks ws)"
  by (induction ks arbitrary: ws) (simp_all add: sm4_step_small)

text \<open>SM4E runs four rounds with the words of the key register.\<close>

lemma sm4e_rounds:
  "UintArray kFormat4S (snd (sm4_v (LogicV d) k m False B)) d =
    fold (sm4_step False) (UintArray kFormat4S B k) (UintArray kFormat4S B d)"
  "r \<noteq> d \<Longrightarrow> snd (sm4_v (LogicV d) k m False B) r = B r"
proof -
  define ws where "ws = fold (sm4_step False) (UintArray kFormat4S B k) (UintArray kFormat4S B d)"
  have ws: "length ws = 4" "\<And>x. x \<in> set ws \<Longrightarrow> take_bit 32 x = x"
    using sm4_rounds_small [OF UintArray_small] unfolding ws_def four_words_def by blast+
  have op: "snd (sm4_v (LogicV d) k m False B) = SetUintArray kFormat4S d (\<lambda>i. ws ! i) B"
    by (simp add: sm4_v_def LogicV_def Let_def for_lanes_words ws_def)
  have "UintArray kFormat4S (SetUintArray kFormat4S d (\<lambda>i. ws ! i) B) d = map (\<lambda>i. ws ! i) [0..<4]"
    unfolding UintArray_def count_4S
    by (rule map_cong [OF refl]) (simp add: LUint_SetUintArray count_4S ws)
  then show "UintArray kFormat4S (snd (sm4_v (LogicV d) k m False B)) d =
      fold (sm4_step False) (UintArray kFormat4S B k) (UintArray kFormat4S B d)"
    unfolding op ws_def [symmetric] using map_nth [of ws] ws(1) by simp
  show "r \<noteq> d \<Longrightarrow> snd (sm4_v (LogicV d) k m False B) r = B r" unfolding op by simp
qed

text \<open>A sequence of SM4E with one key register after the other.\<close>

definition sm4_encrypt :: "nat \<Rightarrow> nat list \<Rightarrow> vbank \<Rightarrow> vbank" where
  "sm4_encrypt d ks B = fold (\<lambda>k C. snd (sm4_v (LogicV (VReg d)) (VReg k) (VReg 0) False C)) ks B"

lemma sm4_encrypt_rounds:
  assumes "d \<notin> set ks"
  shows "UintArray kFormat4S (sm4_encrypt d ks B) (VReg d) =
      fold (sm4_step False) (concat (map (\<lambda>k. UintArray kFormat4S B (VReg k)) ks)) (UintArray kFormat4S B (VReg d))"
  using assms
proof (induction ks arbitrary: B)
  case (Cons k ks)
  let ?C = "snd (sm4_v (LogicV (VReg d)) (VReg k) (VReg 0) False B)"
  have "UintArray kFormat4S ?C (VReg r) = UintArray kFormat4S B (VReg r)" if "r \<in> set ks" for r
  proof -
    have "?C (VReg r) = B (VReg r)" by (rule sm4e_rounds(2)) (use that Cons.prems in auto)
    then show ?thesis unfolding UintArray_def by (intro map_cong refl LUint_cong)
  qed
  then have "map (\<lambda>k. UintArray kFormat4S ?C (VReg k)) ks = map (\<lambda>k. UintArray kFormat4S B (VReg k)) ks" by simp
  with Cons.IH [of ?C] Cons.prems show ?case by (simp add: sm4_encrypt_def sm4e_rounds(1))
qed (simp add: sm4_encrypt_def)

text \<open>C25: SM4 decryption is SM4 encryption with the round keys backwards.  After a sequence of SM4E with any
  list of key registers, the four words of the data in reverse order go back to the words before, in
  reverse order, by the sequence of SM4E over the key registers in reverse order, each with its words
  reversed.\<close>

theorem sm4_decryption_is_encryption_backwards:
  assumes "d \<notin> set ks" "d \<notin> rk ` set ks"
    and "UintArray kFormat4S C (VReg d) = rev (UintArray kFormat4S (sm4_encrypt d ks B) (VReg d))"
    and "\<And>k. k \<in> set ks \<Longrightarrow> UintArray kFormat4S C (VReg (rk k)) = rev (UintArray kFormat4S B (VReg k))"
  shows "UintArray kFormat4S (sm4_encrypt d (rev (map rk ks)) C) (VReg d) = rev (UintArray kFormat4S B (VReg d))"
proof -
  let ?keys = "concat (map (\<lambda>k. UintArray kFormat4S B (VReg k)) ks)"
  have m: "map (\<lambda>k. UintArray kFormat4S C (VReg k)) (rev (map rk ks)) = map rev (map (\<lambda>k. UintArray kFormat4S B (VReg k)) (rev ks))"
    unfolding rev_map map_map comp_def by (intro map_cong refl) (simp add: assms(4))
  have keys: "concat (map (\<lambda>k. UintArray kFormat4S C (VReg k)) (rev (map rk ks))) = rev ?keys"
    unfolding m by (simp only: rev_concat rev_map)
  have "d \<notin> set (rev (map rk ks))" using assms(2) by simp
  from sm4_encrypt_rounds [OF this, of C]
  have "UintArray kFormat4S (sm4_encrypt d (rev (map rk ks)) C) (VReg d) =
      fold (sm4_step False) (rev ?keys) (rev (fold (sm4_step False) ?keys (UintArray kFormat4S B (VReg d))))"
    unfolding keys assms(3) sm4_encrypt_rounds [OF assms(1)] .
  also have "\<dots> = rev (UintArray kFormat4S B (VReg d))"
    by (rule sm4_rounds_back) (simp add: UintArray_def count_4S)
  finally show ?thesis .
qed

text \<open>One block and one key; the other bank holds both with their words reversed.\<close>

definition sm4_bank :: vbank where
  "sm4_bank r = (case r of VReg 0 \<Rightarrow> 0x0123456789abcdeffedcba9876543210 | VReg (Suc n) \<Rightarrow> 7 | Temp n \<Rightarrow> 0)"

definition reversed_words :: "u64 list \<Rightarrow> vbank \<Rightarrow> vref \<Rightarrow> vbank" where
  "reversed_words ws B r = SetUintArray kFormat4S r (\<lambda>i. rev ws ! i) B"

lemma UintArray_reversed_words:
  assumes "four_words ws"
  shows "UintArray kFormat4S (reversed_words ws B r) r = rev ws" "r' \<noteq> r \<Longrightarrow> reversed_words ws B r r' = B r'"
proof -
  have "take_bit 32 (rev ws ! i) = rev ws ! i" if "i < 4" for i
    using assms that nth_mem [of i "rev ws"] unfolding four_words_def by simp
  then have "UintArray kFormat4S (reversed_words ws B r) r = map (\<lambda>i. rev ws ! i) [0..<4]"
    unfolding UintArray_def count_4S reversed_words_def
    by (intro map_cong refl) (simp add: LUint_SetUintArray count_4S)
  then show "UintArray kFormat4S (reversed_words ws B r) r = rev ws"
    using map_nth [of "rev ws"] assms by (simp add: four_words_def)
  show "r' \<noteq> r \<Longrightarrow> reversed_words ws B r r' = B r'" by (simp add: reversed_words_def)
qed

theorem sm4_decryption_is_encryption_backwards_witness:
  "let B = sm4_bank; E = sm4_encrypt 0 [1] B;
     C = reversed_words (UintArray kFormat4S E (VReg 0)) (reversed_words (UintArray kFormat4S B (VReg 1)) B (VReg 2)) (VReg 0)
   in UintArray kFormat4S (sm4_encrypt 0 [2] C) (VReg 0) = rev (UintArray kFormat4S B (VReg 0))"
proof -
  let ?B = sm4_bank
  let ?E = "sm4_encrypt 0 [1] ?B"
  let ?K = "reversed_words (UintArray kFormat4S ?B (VReg 1)) ?B (VReg 2)"
  let ?C = "reversed_words (UintArray kFormat4S ?E (VReg 0)) ?K (VReg 0)"
  note small = UintArray_small [of ?B "VReg 1"] UintArray_small [of ?E "VReg 0"]
  have "?C (VReg 2) = ?K (VReg 2)" by (rule UintArray_reversed_words(2) [OF small(2)]) simp
  then have "UintArray kFormat4S ?C (VReg 2) = UintArray kFormat4S ?K (VReg 2)"
    unfolding UintArray_def by (intro map_cong refl LUint_cong)
  then have "UintArray kFormat4S ?C (VReg 2) = rev (UintArray kFormat4S ?B (VReg 1))"
    by (simp only: UintArray_reversed_words(1) [OF small(1)])
  moreover have "UintArray kFormat4S ?C (VReg 0) = rev (UintArray kFormat4S ?E (VReg 0))"
    by (rule UintArray_reversed_words(1) [OF small(2)])
  ultimately show ?thesis
    using sm4_decryption_is_encryption_backwards [of 0 "[1]" "\<lambda>_. 2" ?C ?B] by (simp add: Let_def)
qed

end
