(* ===== verification/Spec2Isabelle.thy ===== *)
theory Spec2Isabelle
  imports Shadow_Runner Neon_Witnesses Stack_Contracts Crypto_Contracts Sha_Contracts
begin

text \<open>
  \<^bold>\<open>A model of gaby-vm\<close>, an embeddable interpreter for AArch64 code.  The repository takes the
  VIXL simulator (\<open>src/Sources/gaby_vm/src/aarch64\<close>) and adds to it a predecode cache with a second
  execution track, a branch hook, an embedding interface and a lockstep oracle
  (\<open>src/Sources/gaby_vm/src/gaby_vm\<close>, \<open>include/gaby_vm\<close>).  Paths below are relative to
  \<open>src/Sources/gaby_vm\<close>.

  \<^bold>\<open>How the program runs.\<close>  An embedder registers ranges of guest code with a \<open>PredecodeCache\<close>,
  constructs a \<open>gaby_vm::Simulator\<close> over it, writes registers and calls \<open>RunFrom\<close> (the cache
  track) or \<open>DebugRunFrom\<close> (the decoder track).  A step of the decoder track decodes the word at the
  program counter and calls the leaf (a \<open>Visit...\<close> member function) of its form; a step of the cache
  track takes form and leaf from the entry made at registration.  Both then advance the program counter
  and the branch type.  Leaves read and write one state: registers, flags, host memory behind stack
  guards and memory tags, exclusive monitors, a guarded control stack.  Branch leaves call the embedder's
  hook, which may start a nested run on the same simulator.  \<open>ShadowRunner\<close> runs both tracks in
  lockstep and compares them.

  \<^bold>\<open>The theories.\<close>
  \<^item> \<open>Gaby_Prelude\<close>: widths, the result type with \<open>and_then\<close> and \<open>map_result\<close>, the named
    collections \<open>bit_specs\<close>, \<open>frame_simps\<close> and \<open>range_simps\<close>, general lemmas.
  \<^item> \<open>Utils_Vixl\<close> (\<open>src/utils-vixl.h\<close>, \<open>src/compiler-intrinsics-vixl.cc\<close>): masks, bit fields,
    rotation, reversal, counts; \<open>Form_Hash\<close>: the hash that names forms.
  \<^item> \<open>Constants_AArch64\<close>, \<open>Constants_Exec\<close> (\<open>src/aarch64/constants-aarch64.h\<close>): encodings;
    \<open>Instructions\<close> (\<open>src/aarch64/instructions-aarch64.{h,cc}\<close>): fields, immediates, targets.
  \<^item> \<open>Predecode_Cache\<close> (\<open>src/gaby_vm/predecode_cache.cc\<close>): the range table as a sorted association
    list, \<open>RegisterCodeRange\<close> with its predecode pass, \<open>FindRange\<close>.
  \<^item> \<open>Sim_State\<close>, \<open>Sim_Memory\<close> (\<open>src/aarch64/simulator-aarch64.h\<close>): the record \<open>vsim\<close> of the
    whole simulator, register and flag accessors, the stack with its guards, checked memory access with
    tags and write observer, the exclusive monitors.
  \<^item> \<open>Sim_Alu\<close>, \<open>Pointer_Auth\<close> (\<open>pointer-auth-aarch64.cc\<close>), \<open>Sim_DataProc\<close>, \<open>Sim_Branch\<close>,
    \<open>Sim_LoadStore\<close>, \<open>Sim_Atomics\<close>, \<open>Sim_System\<close> (\<open>src/aarch64/simulator-aarch64.cc\<close>): the
    integer leaves, one definition per visitor or helper, named as in the code.  \<open>Sim_Tags\<close>: the
    instructions on memory tags; \<open>Sim_Mops\<close>: the memory copy and set instructions.
  \<^item> \<open>Sim_Vector\<close> (formats, \<open>LogicVRegister\<close> with its saturation and rounding state), \<open>Sim_Logic\<close>,
    \<open>Sim_Shift\<close>, \<open>Sim_Widen\<close>, \<open>Sim_Permute\<close> (\<open>src/aarch64/logic-aarch64.cc\<close>): the integer
    operations on vectors; \<open>f_v\<close> is the member function \<open>f\<close>, \<open>f_lane\<close> the body of its loop.
    \<open>Constants_Neon\<close>, \<open>Sim_Neon\<close>, \<open>Sim_Neon_Memory\<close>: the encodings and the NEON visitors, each with
    the table its \<open>switch\<close> is, and the structure loads and stores.  \<open>Sim_Crypto\<close>: AES, SHA, SM3 and SM4.
  \<^item> \<open>Sim_Step\<close>: \<open>ExecuteInstruction\<close>, \<open>ExecuteInstructionCached\<close>, the steps, the run loop, the
    saved cursor.  \<open>Sim_Api\<close> (\<open>src/gaby_vm/simulator.cc\<close>): construction, the execution scope, runs,
    typed, bulk and batched register access.  \<open>Shadow_Runner\<close> (\<open>src/gaby_vm/shadow_runner.cc\<close>).
  \<^item> \<open>Sim_Oblivious\<close>, \<open>Track_Equivalence\<close>: the leaves do not look at the remembered range; the two
    tracks agree.  \<open>Api_Contracts\<close>, \<open>Branch_Contracts\<close>, \<open>Memory_Contracts\<close>, \<open>Monitor_Contracts\<close>,
    \<open>Data_Contracts\<close>: properties of the interface, of branches and runs, of memory access, of the
    monitors, of data processing.
  \<^item> \<open>Lane_Laws\<close>, \<open>Lane_Arith\<close>, \<open>Lane_Ops\<close>, \<open>Lane_Exact\<close>, \<open>Lane_Shift\<close>, \<open>Lane_Contracts\<close>:
    what a loop over the lanes leaves in each lane, the integer meaning of its step and of the saturation,
    rounding and halving after it.  \<open>Neon_Contracts\<close>, \<open>Neon_Narrow\<close>, \<open>Neon_Witnesses\<close>: the visitors
    of three-register and narrowing instructions, from the instruction word to the lanes.
  \<^item> \<open>Struct_Contracts\<close>, \<open>Copy_Contracts\<close>, \<open>Tag_Contracts\<close>, \<open>Stack_Contracts\<close>: properties of the
    structure loads and stores, of memory copy and set, of the tags and of the guarded control stacks.
    \<open>Crypto_Tables\<close>, \<open>Crypto_Contracts\<close>, \<open>Sha_Contracts\<close>: the AES tables as field arithmetic, the
    AES and SM4 rounds and their inverses, the SHA-256 instructions as rounds of the standard.

  \<^bold>\<open>Correspondence.\<close>  A C++ object is a record, an enumeration a datatype, an integer a word of its
  width; pointers into the guest are \<open>u64\<close> addresses of one memory \<open>u64 \<Rightarrow> u8\<close>, which is the host's.
  \<open>vsim\<close> holds that memory, the static switch of the tag checks and the static vector of guarded control
  stacks as one simulator of the process sees them; the shadow runner hands them from one to the other.
  A visitor is a function from instruction and state to \<open>abort + vsim\<close>; \<open>Inl\<close> is the process ending
  in \<open>VIXL_ABORT\<close>, \<open>VIXL_CHECK\<close> or an assertion the code relies on.  A leaf of the table is a value
  of \<open>visitor\<close>, interpreted by \<open>visitor_fun\<close>.  \<open>exec_env\<close> holds what the tracks call and the model
  does not define: the generated decode tree and form table (\<open>predecode_env\<close>), the host's callbacks
  (\<open>host\<close>: branch hook, branch interceptions, build flags), the \<open>MOVPRFX\<close> pair table.  The
  floating-point and SVE leaves, and the floating-point branches of the NEON visitors, are the functions \<open>rest\<close> behind \<open>Unmodelled n\<close>.  What the theorems
  assume of those is only that they do not depend on the remembered range (\<open>oblivious\<close>).

  \<^bold>\<open>Interfaces.\<close>  The locales \<open>range_oblivious\<close> (leaves that ignore the remembered range, interpreted
  on \<open>visitor_fun\<close>), \<open>register_bank\<close> (typed access to an array of registers, interpreted on the
  general and the vector registers), \<open>append_only_table\<close> (a lookup that registrations only extend,
  interpreted on the range table), \<open>lane_op\<close> (a loop body that reads and writes only its own lane,
  interpreted on the bodies of the integer vector operations and of the passes over the saturation state)
  and \<open>narrowing\<close> (a loop body that reads a wide lane and writes a narrow one, interpreted on
  \<open>extractnarrow\<close>) state what their clients use.

  \<^bold>\<open>What the theorems show.\<close>  The cache track refines the decoder track, per step and for whole runs,
  with the two places where it does not (branch-type checks, forms without a leaf in a release build).
  Registration of ranges that end below the top of the address space keeps the table sorted, disjoint and
  predecoded, decides each status and never changes an entry (a range that ends at the top can be registered
  again); lookup is a linear search.  Addition, comparison, products, shifts and pointer authentication have
  their arithmetic meaning.  Loads read what stores wrote, atomics and exclusive stores have their effect and
  status, block zeroing its bounds, the integer vector instructions of the three-same class and the
  narrowing ones write the integer function of their specification to each lane (with the in-place second
  forms of narrowing as the exception), and the monitor's generator lets a retried store pass in the end.
  Structure loads give back what the structure stores put in memory; the copy instructions are
  \<open>memmove\<close>; the choice of a tag ends outside the excluded ones, and a stored tag is loaded.  AES and SM4
  decryption undo encryption, the AES tables are the field operations of the standard and SHA256H is four
  rounds of its compression function.
  Calls and returns balance on the control stack; a switch to another stack and back loses nothing, one
  value of the register opens a stack (its handle, when it is sealed), and the active stack is the one the
  manager has under its token until somebody frees it; nested runs restore the cursor, but not the control
  stack.  Bulk register access
  round-trips; batched writes stop at the first bad element; construction gives the documented state.
  The oracle's comparison decides agreement, a run without a report ends in agreement, and shared memory makes
  it report atomic updates on which the tracks agree.

  \<^bold>\<open>Loops.\<close>  The run loop and the lockstep loop may not end and are \<open>partial_function (option)\<close>: no
  value means the guest runs forever; the loops over excluded tags and over the
  granules of a tagged set are \<open>while\<close> and \<open>while_option\<close>, and it is proved when they end.  \<open>run_fuel\<close> is the run loop with a bound; \<open>run_loop_fuel\<close> and
  \<open>run_fuel_sound\<close> show that the loop has a value exactly when some bound gives it.  All other loops
  recurse on a list or on the number of rounds the code makes.

  \<^bold>\<open>Not modelled.\<close>  Floating-point arithmetic, which the code does with the host's floating point, and
  SVE; the decoder, whose tree is built at start-up from generated tables (a parameter);
  feature auditing (each decoded form carries whether it is available), disassembly, tracing, the debugger;
  locking and the read-write lock of the cache (registrations are serialised by it); host faults behind guest
  addresses.  A \<open>VIXL_UNREACHABLE\<close> or \<open>VIXL_UNIMPLEMENTED\<close> in the default branch of a visitor is an
  abort here, which is the debug build; \<open>VisitUnimplemented\<close> and \<open>VisitSystem\<close>, where the release build
  goes on, take the build flag.  Registers of 32 and 64 bits are read through the accessors of the code; SVE
  registers beyond the low 128 bits are left out, so an SVE format reads a register of 128 bits.
\<close>

end
